(* ===== verification/Prelude.thy ===== *)
theory Prelude
  imports Main "HOL-Library.Word" "HOL-Library.Sublist" "HOL-Library.State_Monad"
begin

text \<open>
  What every component shares and no single file of the program owns: machine integers and
  their decimal form, abrupt results (C++ exceptions and loops that never end), C strings,
  programs as state transformers with a small Hoare calculus, and generic lemmas on lists
  and prefixes.

  \<^item> \<open>res\<close> is the result of a call that may throw: \<open>Inr\<close> the value, \<open>Inl (Throw x)\<close> an
    exception in flight, \<open>Inl Diverge\<close> a call that never returns.
  \<^item> \<open>bindE\<close> runs the rest of a function body unless the call before it stopped abruptly.
  \<^item> \<open>hoare P m Q\<close> is total correctness of a program over its state; the rules collected in
    \<open>hoare_rules\<close> and \<open>hoare_combs\<close> follow the program's syntax.
\<close>

named_theorems hoare_rules \<comment> \<open>triples of single operations\<close>
named_theorems char_simps \<comment> \<open>evaluation of the character classes\<close>

subsection \<open>Machine integers\<close>

text \<open>The C \<open>int\<close> and \<open>pid_t\<close> of the target: 32 bits, two's complement, read by \<open>sint\<close>.\<close>

type_synonym cint = "32 word"

text \<open>The conversion from \<open>int\<close> to \<open>bool\<close> that a \<open>return\<close> statement applies.\<close>

definition c_bool :: "cint \<Rightarrow> bool" where
  "c_bool i = (i \<noteq> 0)"

lemma c_bool_simps [simp]: "c_bool 0 = False" "c_bool 1 = True" "c_bool (- 1) = True"
  by (simp_all add: c_bool_def)

subsection \<open>Abrupt results\<close>

text \<open>
  The exceptions the program can meet.  \<open>nlohmann::json\<close> has its own hierarchy below
  \<open>std::exception\<close>: its \<open>out_of_range\<close> is not a \<open>std::out_of_range\<close>.
\<close>

datatype exn =
    Std_out_of_range
  | Std_invalid_argument
  | Json_parse_error
  | Json_type_error
  | Json_out_of_range

datatype abrupt = Throw exn | Diverge

type_synonym 'a res = "abrupt + 'a"

fun res_bind :: "'a res \<Rightarrow> ('a \<Rightarrow> 'b res) \<Rightarrow> 'b res" where
  "res_bind (Inl e) f = Inl e"
| "res_bind (Inr x) f = f x"

lemma res_bind_Inr_iff: "res_bind r f = Inr y \<longleftrightarrow> (\<exists>x. r = Inr x \<and> f x = Inr y)"
  by (cases r) auto

lemma res_bind_Inl_iff:
  "res_bind r f = Inl e \<longleftrightarrow> r = Inl e \<or> (\<exists>x. r = Inr x \<and> f x = Inl e)"
  by (cases r) auto

subsection \<open>Programs as state transformers\<close>

abbreviation ret :: "'a \<Rightarrow> ('s, 'a) state" where
  "ret \<equiv> State_Monad.return"

abbreviation seq :: "('s, 'a) state \<Rightarrow> ('a \<Rightarrow> ('s, 'b) state) \<Rightarrow> ('s, 'b) state" where
  "seq \<equiv> State_Monad.bind"

definition bindE :: "('s, 'a res) state \<Rightarrow> ('a \<Rightarrow> ('s, 'b res) state) \<Rightarrow> ('s, 'b res) state" where
  "bindE m f = seq m (\<lambda>r. case r of Inl e \<Rightarrow> ret (Inl e) | Inr x \<Rightarrow> f x)"

definition okE :: "('s, 'a) state \<Rightarrow> ('s, 'a res) state" where
  "okE m = seq m (\<lambda>x. ret (Inr x))"

lemma run_state_bindE:
  "run_state (bindE m f) s =
     (case run_state m s of (Inl e, s') \<Rightarrow> (Inl e, s') | (Inr x, s') \<Rightarrow> run_state (f x) s')"
  by (auto simp: bindE_def split: prod.splits sum.splits)

lemma run_state_okE:
  "run_state (okE m) s = (case run_state m s of (x, s') \<Rightarrow> (Inr x, s'))"
  by (simp add: okE_def)

lemma run_unit: "\<exists>s'. run_state m s = ((), s')"
  by (cases "run_state m s") auto

text \<open>Visit the elements in order, stopping at the first abrupt result.\<close>

fun for_each :: "('a \<Rightarrow> ('s, unit res) state) \<Rightarrow> 'a list \<Rightarrow> ('s, unit res) state" where
  "for_each f [] = ret (Inr ())"
| "for_each f (x # xs) = bindE (f x) (\<lambda>_. for_each f xs)"

lemma for_each_append:
  "run_state (for_each f (xs @ ys)) s = run_state (bindE (for_each f xs) (\<lambda>_. for_each f ys)) s"
  by (induction xs arbitrary: s) (auto simp: run_state_bindE split: prod.splits sum.splits)

subsection \<open>A Hoare calculus\<close>

definition hoare :: "('s \<Rightarrow> bool) \<Rightarrow> ('s, 'a) state \<Rightarrow> ('a \<Rightarrow> 's \<Rightarrow> bool) \<Rightarrow> bool" where
  "hoare P m Q = (\<forall>s. P s \<longrightarrow> Q (fst (run_state m s)) (snd (run_state m s)))"

lemma hoareI: "(\<And>s r s'. P s \<Longrightarrow> run_state m s = (r, s') \<Longrightarrow> Q r s') \<Longrightarrow> hoare P m Q"
  by (auto simp: hoare_def)

lemma hoareD: "hoare P m Q \<Longrightarrow> P s \<Longrightarrow> run_state m s = (r, s') \<Longrightarrow> Q r s'"
  by (auto simp: hoare_def)

lemma hoare_run: "hoare P m Q \<Longrightarrow> P s \<Longrightarrow> Q (fst (run_state m s)) (snd (run_state m s))"
  by (simp add: hoare_def)

lemma hoare_ret: "hoare (Q x) (ret x) Q"
  by (simp add: hoare_def)

lemma hoare_seq: "hoare P m R \<Longrightarrow> (\<And>x. hoare (R x) (f x) Q) \<Longrightarrow> hoare P (seq m f) Q"
  by (auto simp: hoare_def split: prod.splits)

lemma hoare_bindE:
  assumes "hoare P m R" and "\<And>x. hoare (R (Inr x)) (f x) Q"
    and "\<And>e s. R (Inl e) s \<Longrightarrow> Q (Inl e) s"
  shows "hoare P (bindE m f) Q"
  unfolding bindE_def
proof (rule hoare_seq [OF assms(1)])
  fix r
  show "hoare (R r) (case r of Inl e \<Rightarrow> ret (Inl e) | Inr x \<Rightarrow> f x) Q"
    using assms(2,3) by (cases r) (auto simp: hoare_def)
qed

lemma hoare_pre: "hoare P m Q \<Longrightarrow> (\<And>s. P' s \<Longrightarrow> P s) \<Longrightarrow> hoare P' m Q"
  by (auto simp: hoare_def)

lemma hoare_post: "hoare P m Q \<Longrightarrow> (\<And>r s. Q r s \<Longrightarrow> Q' r s) \<Longrightarrow> hoare P m Q'"
  by (auto simp: hoare_def)

lemma hoare_if: "(b \<Longrightarrow> hoare P m Q) \<Longrightarrow> (\<not> b \<Longrightarrow> hoare P n Q) \<Longrightarrow> hoare P (if b then m else n) Q"
  by auto

lemma hoare_option:
  "(x = None \<Longrightarrow> hoare P m Q) \<Longrightarrow> (\<And>y. x = Some y \<Longrightarrow> hoare P (f y) Q) \<Longrightarrow>
   hoare P (case x of None \<Rightarrow> m | Some y \<Rightarrow> f y) Q"
  by (cases x) auto

lemma hoare_retI: "(\<And>s. P s \<Longrightarrow> Q x s) \<Longrightarrow> hoare P (ret x) Q"
  by (simp add: hoare_def)

lemma hoare_True: "hoare P m (\<lambda>_ _. True)"
  by (simp add: hoare_def)

text \<open>
  An invariant of a program: a property of the state it never destroys.  The rules are
  syntax directed, so that a function body is checked by repeating \<open>rule\<close>.
\<close>

definition keeps :: "('s \<Rightarrow> bool) \<Rightarrow> ('s, 'a) state \<Rightarrow> bool" where
  "keeps I m = (\<forall>s. I s \<longrightarrow> I (snd (run_state m s)))"

lemma keepsD: "keeps I m \<Longrightarrow> I s \<Longrightarrow> run_state m s = (r, s') \<Longrightarrow> I s'"
  by (auto simp: keeps_def)

lemma keeps_hoare: "keeps I m \<longleftrightarrow> hoare I m (\<lambda>_. I)"
  by (simp add: keeps_def hoare_def)

lemma keeps_ret [intro!]: "keeps I (ret x)"
  by (simp add: keeps_def)

lemma keeps_seq [intro!]: "keeps I m \<Longrightarrow> (\<And>x. keeps I (f x)) \<Longrightarrow> keeps I (seq m f)"
  by (auto simp: keeps_def split: prod.splits)

lemma keeps_bindE [intro!]: "keeps I m \<Longrightarrow> (\<And>x. keeps I (f x)) \<Longrightarrow> keeps I (bindE m f)"
  unfolding bindE_def by (auto split: sum.splits)

lemma keeps_okE [intro!]: "keeps I m \<Longrightarrow> keeps I (okE m)"
  unfolding okE_def by auto

lemma keeps_if [intro!]: "(b \<Longrightarrow> keeps I m) \<Longrightarrow> (\<not> b \<Longrightarrow> keeps I n) \<Longrightarrow> keeps I (if b then m else n)"
  by auto

lemma keeps_for_each: "(\<And>x. x \<in> set xs \<Longrightarrow> keeps I (f x)) \<Longrightarrow> keeps I (for_each f xs)"
  by (induction xs) auto

subsection \<open>Lists\<close>

lemma distinct_map_of_rev:
  "distinct (map fst xs) \<Longrightarrow> map_of (rev xs) = map_of xs"
  by (simp add: map_of_inject_set rev_map [symmetric])

end
