(* ===== verification/Decimal.thy ===== *)
theory Decimal
  imports Prelude
begin

text \<open>
  Text of the standard library's kind: C strings, character classes, and the decimal form of
  integers as \<open>operator<<\<close> prints it (\<open>to_str\<close> of \<open>common.cmake.h\<close>), as \<open>fscanf ("%d")\<close> scans
  it (\<open>bash_pidof\<close>) and as \<open>stoi\<close> reads it (\<open>cgproxy.hpp\<close>), with the round trips between them.
\<close>

subsection \<open>C strings and characters\<close>

text \<open>What a callee sees of \<open>s.c_str()\<close>: the characters before the first NUL.\<close>

definition c_str :: "string \<Rightarrow> string" where
  "c_str s = takeWhile (\<lambda>c. c \<noteq> CHR 0x00) s"

lemma c_str_id [simp]: "CHR 0x00 \<notin> set s \<Longrightarrow> c_str s = s"
  unfolding c_str_def by (rule takeWhile_eq_all_conv [THEN iffD2]) auto

lemma c_str_append [simp]: "CHR 0x00 \<notin> set s \<Longrightarrow> c_str (s @ t) = s @ c_str t"
  unfolding c_str_def by (rule takeWhile_append2) auto

lemma c_str_no_nul: "CHR 0x00 \<notin> set (c_str s)"
  unfolding c_str_def by (auto dest: set_takeWhileD)

definition char_in :: "nat \<Rightarrow> nat \<Rightarrow> char \<Rightarrow> bool" where
  "char_in lo hi c = (lo \<le> of_char c \<and> of_char c \<le> hi)"

definition is_digit :: "char \<Rightarrow> bool" where
  "is_digit c = char_in 48 57 c"

definition is_space :: "char \<Rightarrow> bool" where
  "is_space c = (c = CHR '' '' \<or> char_in 9 13 c)"

definition digit_char :: "nat \<Rightarrow> char" where
  "digit_char n = char_of (48 + n)"

definition digit_val :: "char \<Rightarrow> nat" where
  "digit_val c = of_char c - 48"

lemma digit_char_digit [simp]: "n < 10 \<Longrightarrow> is_digit (digit_char n)"
  by (simp add: is_digit_def char_in_def digit_char_def)

lemma digit_val_char [simp]: "n < 10 \<Longrightarrow> digit_val (digit_char n) = n"
  by (simp add: digit_val_def digit_char_def)

lemma digit_not_space: "is_digit c \<Longrightarrow> \<not> is_space c"
  by (auto simp: is_digit_def is_space_def char_in_def)

lemma digit_not_sign: "is_digit c \<Longrightarrow> c \<noteq> CHR ''-'' \<and> c \<noteq> CHR ''+'' \<and> c \<noteq> CHR 0x00"
  by (auto simp: is_digit_def char_in_def)

subsection \<open>Printing\<close>

fun show_nat :: "nat \<Rightarrow> string" where
  "show_nat n = (if n < 10 then [digit_char n] else show_nat (n div 10) @ [digit_char (n mod 10)])"

declare show_nat.simps [simp del]

definition show_int :: "int \<Rightarrow> string" where
  "show_int i = (if i < 0 then CHR ''-'' # show_nat (nat (- i)) else show_nat (nat i))"

text \<open>The instances of the template \<open>to_str\<close> the program uses, one per argument type.\<close>

definition to_str_int :: "cint \<Rightarrow> string" where
  "to_str_int i = show_int (sint i)"

definition to_str_bool :: "bool \<Rightarrow> string" where
  "to_str_bool b = (if b then ''true'' else ''false'')"

lemma show_nat_digits: "list_all is_digit (show_nat n)"
proof (induction n rule: show_nat.induct)
  case (1 n)
  then show ?case by (subst show_nat.simps) simp
qed

lemma show_nat_nonempty [simp]: "show_nat n \<noteq> []"
  by (subst show_nat.simps) simp

definition digits_val :: "string \<Rightarrow> nat" where
  "digits_val s = foldl (\<lambda>a c. 10 * a + digit_val c) 0 s"

lemma digits_val_snoc: "digits_val (s @ [c]) = 10 * digits_val s + digit_val c"
  by (simp add: digits_val_def)

lemma digits_val_show_nat [simp]: "digits_val (show_nat n) = n"
proof (induction n rule: show_nat.induct)
  case (1 n)
  show ?case
  proof (cases "n < 10")
    case True
    then show ?thesis by (subst show_nat.simps) (simp add: digits_val_def)
  next
    case False
    with 1 show ?thesis by (subst show_nat.simps) (simp add: digits_val_snoc)
  qed
qed

subsection \<open>Scanning\<close>

text \<open>
  One \<open>%d\<close> conversion: white space, an optional sign, at least one digit.  \<open>None\<close> is a
  matching failure; otherwise the value and the characters not consumed.
\<close>

definition scan_int :: "string \<Rightarrow> (int \<times> string) option" where
  "scan_int s =
     (let s1 = dropWhile is_space s;
          neg = (s1 \<noteq> [] \<and> hd s1 = CHR ''-'');
          s2 = (if s1 \<noteq> [] \<and> (hd s1 = CHR ''-'' \<or> hd s1 = CHR ''+'') then tl s1 else s1);
          ds = takeWhile is_digit s2
      in if ds = [] then None
         else Some (if neg then - int (digits_val ds) else int (digits_val ds),
                    dropWhile is_digit s2))"

text \<open>\<open>std::stoi\<close> with base 10: the unread rest of the string is ignored.\<close>

definition stoi :: "string \<Rightarrow> cint res" where
  "stoi s = (case scan_int s of
       None \<Rightarrow> Inl (Throw Std_invalid_argument)
     | Some (n, _) \<Rightarrow> if - (2 ^ 31) \<le> n \<and> n < 2 ^ 31 then Inr (word_of_int n)
                      else Inl (Throw Std_out_of_range))"

lemma takeWhile_digits:
  "list_all P ds \<Longrightarrow> (rest = [] \<or> \<not> P (hd rest)) \<Longrightarrow>
     takeWhile P (ds @ rest) = ds \<and> dropWhile P (ds @ rest) = rest"
  by (induction ds) (auto, (cases rest, auto)+)

lemma scan_int_digits:
  assumes "list_all is_digit ds" "ds \<noteq> []" "rest = [] \<or> \<not> is_digit (hd rest)"
  shows "scan_int (ds @ rest) = Some (int (digits_val ds), rest)"
proof -
  obtain c cs where ds: "ds = c # cs" and c: "is_digit c"
    using assms(1,2) by (cases ds) auto
  have "dropWhile is_space (ds @ rest) = ds @ rest"
    using digit_not_space [OF c] by (simp add: ds)
  moreover have "hd (ds @ rest) \<noteq> CHR ''-''" "hd (ds @ rest) \<noteq> CHR ''+''"
    using digit_not_sign [OF c] by (simp_all add: ds)
  ultimately show ?thesis
    using takeWhile_digits [OF assms(1,3)] assms(2) by (simp add: scan_int_def)
qed

lemma scan_int_minus:
  assumes "list_all is_digit ds" "ds \<noteq> []" "rest = [] \<or> \<not> is_digit (hd rest)"
  shows "scan_int (CHR ''-'' # ds @ rest) = Some (- int (digits_val ds), rest)"
proof -
  have "dropWhile is_space (CHR ''-'' # ds @ rest) = CHR ''-'' # ds @ rest"
    by (simp add: is_space_def char_in_def)
  then show ?thesis
    using takeWhile_digits [OF assms(1,3)] assms(2) by (simp add: scan_int_def)
qed

lemma scan_show_int:
  assumes "rest = [] \<or> \<not> is_digit (hd rest)"
  shows "scan_int (show_int i @ rest) = Some (i, rest)"
  using scan_int_digits [OF show_nat_digits show_nat_nonempty assms]
    scan_int_minus [OF show_nat_digits show_nat_nonempty assms]
  by (simp add: show_int_def)

lemma scan_int_consumes: "scan_int s = Some (n, r) \<Longrightarrow> length r < length s"
proof -
  assume scan: "scan_int s = Some (n, r)"
  define s1 where "s1 = dropWhile is_space s"
  define s2 where "s2 = (if s1 \<noteq> [] \<and> (hd s1 = CHR ''-'' \<or> hd s1 = CHR ''+'') then tl s1 else s1)"
  have s2: "takeWhile is_digit s2 \<noteq> []" "r = dropWhile is_digit s2"
    using scan unfolding scan_int_def Let_def s1_def [symmetric] s2_def [symmetric]
    by (auto split: if_splits)
  have "length s2 = length (takeWhile is_digit s2) + length r"
    unfolding s2(2) by (metis length_append takeWhile_dropWhile_id)
  moreover have "length s2 \<le> length s1" by (simp add: s2_def)
  moreover have "length s1 \<le> length s" by (simp add: s1_def length_dropWhile_le)
  ultimately show ?thesis using s2(1) by (cases "takeWhile is_digit s2") auto
qed

lemma stoi_to_str_int: "stoi (to_str_int i) = Inr i"
proof -
  have "scan_int (to_str_int i) = Some (sint i, [])"
    using scan_show_int [of "[]" "sint i"] by (simp add: to_str_int_def)
  then show ?thesis
    using sint_ge [of i] sint_lt [of i] by (simp add: stoi_def)
qed

lemma show_int_chars: "c \<in> set (show_int i) \<Longrightarrow> is_digit c \<or> c = CHR ''-''"
  using show_nat_digits by (auto simp: show_int_def list_all_iff split: if_splits)

lemma to_str_int_no_nul [simp]: "CHR 0x00 \<notin> set (to_str_int i)"
  using show_int_chars digit_not_sign by (fastforce simp: to_str_int_def)

lemma to_str_int_nonneg: "0 \<le> sint i \<Longrightarrow> list_all is_digit (to_str_int i) \<and> to_str_int i \<noteq> []"
  by (simp add: to_str_int_def show_int_def show_nat_digits)

lemma to_str_int_neg: "sint i < 0 \<Longrightarrow> \<not> list_all is_digit (to_str_int i)"
  by (simp add: to_str_int_def show_int_def is_digit_def char_in_def)

lemma to_str_int_inject: "to_str_int i = to_str_int j \<longleftrightarrow> i = j"
  by (metis stoi_to_str_int sum.inject(2))

end
