(* ===== verification/World.thy ===== *)
theory World
  imports Decimal
begin

text \<open>
  The process and the operating system it runs on.

  The kernel, the file system, the other processes and the shell are not part of the
  repository: they are the parameter \<open>os :: 'k os\<close>, one function per system call or library
  call the program makes, over an abstract kernel state \<open>'k\<close>.  Every call, a read too, takes
  the kernel state and returns the next one, so whatever other processes do between two calls
  is an instance of the parameter.  A law a theorem needs of the kernel is a named hypothesis
  of that theorem.

  The process itself is \<open>'k world\<close>: the kernel state, the environment variables
  (\<open>setenv\<close>), and the trace of the calls that change something outside the process, in the
  order they were made.  Paths reach the kernel through \<open>c_str\<close>, as the code passes them.
  Diagnostics (\<open>error\<close>, \<open>warning\<close>, \<open>info\<close>, \<open>debug\<close>, \<open>perror\<close>) print and do nothing else; they
  are left out.
\<close>

subsection \<open>The operating system as a parameter\<close>

datatype append_result = Open_failed | Write_failed | Written

type_synonym env_vars = "string \<rightharpoonup> string"

record 'k os =
  os_getuid :: "'k \<Rightarrow> nat \<times> 'k"
  os_setuid :: "nat \<Rightarrow> 'k \<Rightarrow> bool \<times> 'k"
  os_getpid :: "'k \<Rightarrow> cint \<times> 'k"
  os_is_reg :: "string \<Rightarrow> 'k \<Rightarrow> bool \<times> 'k"
  os_is_dir :: "string \<Rightarrow> 'k \<Rightarrow> bool \<times> 'k"
  os_read :: "string \<Rightarrow> 'k \<Rightarrow> string option \<times> 'k"
  os_realpath :: "string \<Rightarrow> 'k \<Rightarrow> string option \<times> 'k"
  os_popen :: "string \<Rightarrow> 'k \<Rightarrow> string option \<times> 'k"
  os_mkdir :: "string \<Rightarrow> 'k \<Rightarrow> bool \<times> 'k"
  os_append :: "string \<Rightarrow> string \<Rightarrow> 'k \<Rightarrow> append_result \<times> 'k"
  os_write :: "string \<Rightarrow> string \<Rightarrow> 'k \<Rightarrow> bool \<times> 'k"
  os_flock :: "string \<Rightarrow> 'k \<Rightarrow> bool \<times> 'k"
  os_funlock :: "string \<Rightarrow> 'k \<Rightarrow> 'k"
  os_unlink :: "string \<Rightarrow> 'k \<Rightarrow> bool \<times> 'k"
  os_system :: "string \<Rightarrow> env_vars \<Rightarrow> 'k \<Rightarrow> cint \<times> 'k"
  os_sleep :: "nat \<Rightarrow> 'k \<Rightarrow> 'k"
  os_kill :: "cint \<Rightarrow> cint \<Rightarrow> 'k \<Rightarrow> 'k"

datatype event =
    Mkdir string bool
  | Append string string append_result
  | Write_file string string
  | Popen string
  | Lock_file string bool
  | Close_lock string
  | Unlink string
  | Setenv string string
  | System string env_vars
  | Bind cint string
  | Chmod string nat
  | Send_bytes cint string
  | Kill cint cint
  | Set_ready string

record 'k world =
  kern :: 'k
  environ :: env_vars
  trace :: "event list"

subsection \<open>Calls\<close>

definition os_call :: "('k \<Rightarrow> 'a \<times> 'k) \<Rightarrow> ('a \<Rightarrow> event list) \<Rightarrow> ('k world, 'a) state" where
  "os_call f ev = State (\<lambda>w. case f (kern w) of
     (x, k) \<Rightarrow> (x, w\<lparr>kern := k, trace := trace w @ ev x\<rparr>))"

lemma run_os_call [simp]:
  "run_state (os_call f ev) w =
     (case f (kern w) of (x, k) \<Rightarrow> (x, w\<lparr>kern := k, trace := trace w @ ev x\<rparr>))"
  by (simp add: os_call_def)

definition getuid :: "'k os \<Rightarrow> ('k world, nat) state" where
  "getuid os = os_call (os_getuid os) (\<lambda>_. [])"

text \<open>\<open>setuid\<close>: whether it returned 0.\<close>

definition setuid :: "'k os \<Rightarrow> nat \<Rightarrow> ('k world, bool) state" where
  "setuid os uid = os_call (os_setuid os uid) (\<lambda>_. [])"

definition getpid :: "'k os \<Rightarrow> ('k world, cint) state" where
  "getpid os = os_call (os_getpid os) (\<lambda>_. [])"

text \<open>\<open>stat\<close> with \<open>S_ISREG\<close> and with \<open>S_ISDIR\<close>.\<close>

definition stat_reg :: "'k os \<Rightarrow> string \<Rightarrow> ('k world, bool) state" where
  "stat_reg os path = os_call (os_is_reg os (c_str path)) (\<lambda>_. [])"

definition stat_dir :: "'k os \<Rightarrow> string \<Rightarrow> ('k world, bool) state" where
  "stat_dir os path = os_call (os_is_dir os (c_str path)) (\<lambda>_. [])"

text \<open>An \<open>ifstream\<close> and everything it holds; \<open>None\<close> when it does not open.\<close>

definition read_file :: "'k os \<Rightarrow> string \<Rightarrow> ('k world, string option) state" where
  "read_file os path = os_call (os_read os (c_str path)) (\<lambda>_. [])"

definition realpath :: "'k os \<Rightarrow> string \<Rightarrow> ('k world, string option) state" where
  "realpath os path = os_call (os_realpath os (c_str path)) (\<lambda>_. [])"

text \<open>\<open>popen (cmd, "r")\<close> read to its end; \<open>None\<close> when it returns a null stream.\<close>

definition popen :: "'k os \<Rightarrow> string \<Rightarrow> ('k world, string option) state" where
  "popen os cmd = os_call (os_popen os (c_str cmd)) (\<lambda>_. [Popen (c_str cmd)])"

definition mkdir :: "'k os \<Rightarrow> string \<Rightarrow> ('k world, bool) state" where
  "mkdir os path = os_call (os_mkdir os (c_str path)) (\<lambda>ok. [Mkdir (c_str path) ok])"

text \<open>An \<open>ofstream\<close> opened with \<open>ofstream::app\<close>, one write, and \<open>close\<close>.\<close>

definition append_file :: "'k os \<Rightarrow> string \<Rightarrow> string \<Rightarrow> ('k world, append_result) state" where
  "append_file os path data =
     os_call (os_append os (c_str path) data) (\<lambda>r. [Append (c_str path) data r])"

definition write_file :: "'k os \<Rightarrow> string \<Rightarrow> string \<Rightarrow> ('k world, bool) state" where
  "write_file os path data =
     os_call (os_write os (c_str path) data) (\<lambda>_. [Write_file (c_str path) data])"

definition sleep_ms :: "'k os \<Rightarrow> nat \<Rightarrow> ('k world, unit) state" where
  "sleep_ms os n = os_call (\<lambda>k. ((), os_sleep os n k)) (\<lambda>_. [])"

text \<open>\<open>open\<close> with \<open>O_CREAT\<close> and \<open>flock\<close> with \<open>LOCK_EX | LOCK_NB\<close>: whether \<open>flock\<close> returned 0.\<close>

definition flock_file :: "'k os \<Rightarrow> string \<Rightarrow> ('k world, bool) state" where
  "flock_file os path = os_call (os_flock os path) (\<lambda>ok. [Lock_file path ok])"

definition close_lock :: "'k os \<Rightarrow> string \<Rightarrow> ('k world, unit) state" where
  "close_lock os path = os_call (\<lambda>k. ((), os_funlock os path k)) (\<lambda>_. [Close_lock path])"

text \<open>\<open>unlink\<close>: whether it returned 0.\<close>

definition unlink_file :: "'k os \<Rightarrow> string \<Rightarrow> ('k world, bool) state" where
  "unlink_file os path = os_call (os_unlink os path) (\<lambda>_. [Unlink path])"

text \<open>\<open>promise::set_value\<close> of the named thread; and \<open>kill\<close>.\<close>

definition set_ready :: "string \<Rightarrow> ('k world, unit) state" where
  "set_ready name = os_call (\<lambda>k. ((), k)) (\<lambda>_. [Set_ready name])"

definition kill :: "'k os \<Rightarrow> cint \<Rightarrow> cint \<Rightarrow> ('k world, unit) state" where
  "kill os pid sig = os_call (\<lambda>k. ((), os_kill os pid sig k)) (\<lambda>_. [Kill pid sig])"

text \<open>\<open>setenv (name, value, 1)\<close>; and \<open>system\<close>, whose command sees the current variables.\<close>

definition setenv :: "string \<Rightarrow> string \<Rightarrow> ('k world, unit) state" where
  "setenv n v = State (\<lambda>w. ((), w\<lparr>environ := (environ w)(n \<mapsto> c_str v),
                                  trace := trace w @ [Setenv n (c_str v)]\<rparr>))"

definition system_cmd :: "'k os \<Rightarrow> string \<Rightarrow> ('k world, cint) state" where
  "system_cmd os cmd = State (\<lambda>w. case os_system os (c_str cmd) (environ w) (kern w) of
     (x, k) \<Rightarrow> (x, w\<lparr>kern := k, trace := trace w @ [System (c_str cmd) (environ w)]\<rparr>))"

lemma run_setenv [simp]:
  "run_state (setenv n v) w = ((), w\<lparr>environ := (environ w)(n \<mapsto> c_str v),
                                  trace := trace w @ [Setenv n (c_str v)]\<rparr>)"
  by (simp add: setenv_def)

lemma run_system_cmd [simp]:
  "run_state (system_cmd os cmd) w = (case os_system os (c_str cmd) (environ w) (kern w) of
     (x, k) \<Rightarrow> (x, w\<lparr>kern := k, trace := trace w @ [System (c_str cmd) (environ w)]\<rparr>))"
  by (simp add: system_cmd_def)

lemmas call_defs = getuid_def setuid_def getpid_def stat_reg_def stat_dir_def read_file_def realpath_def
  popen_def mkdir_def append_file_def write_file_def sleep_ms_def flock_file_def
  close_lock_def unlink_file_def set_ready_def kill_def

subsection \<open>What a program can add to the trace\<close>

text \<open>
  \<open>emits A m\<close>: whatever the kernel does, \<open>m\<close> only extends the trace, and only by events that
  satisfy \<open>A\<close>.  The rules are syntax directed.
\<close>

definition emits :: "(event \<Rightarrow> bool) \<Rightarrow> ('k world, 'a) state \<Rightarrow> bool" where
  "emits A m = (\<forall>w. \<exists>es. trace (snd (run_state m w)) = trace w @ es \<and> list_all A es)"

lemma emits_ret [intro!]: "emits A (ret x)"
  by (simp add: emits_def)

lemma emits_seq [intro!]:
  assumes "emits A m" and "\<And>x. emits A (f x)"
  shows "emits A (seq m f)"
  unfolding emits_def
proof
  fix w
  obtain x w1 where run: "run_state m w = (x, w1)" by fastforce
  obtain es1 where "trace w1 = trace w @ es1" "list_all A es1"
    using assms(1) run unfolding emits_def by (metis snd_conv)
  moreover obtain es2 where "trace (snd (run_state (f x) w1)) = trace w1 @ es2" "list_all A es2"
    using assms(2) [of x] unfolding emits_def by blast
  ultimately have "trace (snd (run_state (seq m f) w)) = trace w @ (es1 @ es2)
      \<and> list_all A (es1 @ es2)"
    by (simp add: run)
  then show "\<exists>es. trace (snd (run_state (seq m f) w)) = trace w @ es \<and> list_all A es"
    by blast
qed

lemma emits_bindE [intro!]:
  "emits A m \<Longrightarrow> (\<And>x. emits A (f x)) \<Longrightarrow> emits A (bindE m f)"
  unfolding bindE_def by (auto split: sum.splits)

lemma emits_okE [intro!]: "emits A m \<Longrightarrow> emits A (okE m)"
  unfolding okE_def by auto

lemma emits_if [intro!]:
  "(b \<Longrightarrow> emits A m) \<Longrightarrow> (\<not> b \<Longrightarrow> emits A n) \<Longrightarrow> emits A (if b then m else n)"
  by auto

lemma emits_for_each: "(\<And>x. x \<in> set xs \<Longrightarrow> emits A (f x)) \<Longrightarrow> emits A (for_each f xs)"
  by (induction xs) auto

lemma emits_os_call: "(\<And>x. list_all A (ev x)) \<Longrightarrow> emits A (os_call f ev)"
  by (auto simp: emits_def split: prod.splits)

lemma emits_mono: "emits A m \<Longrightarrow> (\<And>e. A e \<Longrightarrow> B e) \<Longrightarrow> emits B m"
  unfolding emits_def by (metis list.pred_mono_strong)

text \<open>A program that emits nothing keeps every property of the trace.\<close>

lemma silent_hoare:
  "emits (\<lambda>_. False) m \<Longrightarrow> hoare (\<lambda>w. Q (trace w)) m (\<lambda>_ w. Q (trace w))"
  unfolding emits_def hoare_def by (metis append_Nil2 list.pred_inject(2) list.exhaust)

lemma emits_filter:
  assumes "emits A m" and "\<And>e. A e \<Longrightarrow> \<not> P e"
  shows "filter P (trace (snd (run_state m w))) = filter P (trace w)"
proof -
  obtain es where "trace (snd (run_state m w)) = trace w @ es" "list_all A es"
    using assms(1) unfolding emits_def by blast
  moreover have "filter P es = []" using calculation(2) assms(2) by (auto simp: filter_empty_conv list_all_iff)
  ultimately show ?thesis by simp
qed

lemma emitsD:
  "emits A m \<Longrightarrow> run_state m w = (r, w') \<Longrightarrow> \<exists>es. trace w' = trace w @ es \<and> list_all A es"
  unfolding emits_def by (metis snd_conv)

lemma emits_calls [simp, intro]:
  "emits A (getuid os)" "emits A (setuid os uid)" "emits A (getpid os)" "emits A (stat_reg os p)" "emits A (stat_dir os p)"
  "emits A (read_file os p)" "emits A (realpath os p)" "emits A (sleep_ms os n)"
  unfolding call_defs by (auto intro!: emits_os_call)

lemma emits_popen: "A (Popen (c_str cmd)) \<Longrightarrow> emits A (popen os cmd)"
  and emits_mkdir: "(\<And>b. A (Mkdir (c_str p) b)) \<Longrightarrow> emits A (mkdir os p)"
  and emits_append: "(\<And>r. A (Append (c_str p) d r)) \<Longrightarrow> emits A (append_file os p d)"
  and emits_write: "A (Write_file (c_str p) d) \<Longrightarrow> emits A (write_file os p d)"
  and emits_flock: "(\<And>b. A (Lock_file p b)) \<Longrightarrow> emits A (flock_file os p)"
  and emits_close_lock: "A (Close_lock p) \<Longrightarrow> emits A (close_lock os p)"
  and emits_unlink: "A (Unlink p) \<Longrightarrow> emits A (unlink_file os p)"
  and emits_set_ready: "A (Set_ready name) \<Longrightarrow> emits A (set_ready name)"
  and emits_kill: "A (Kill pid sig) \<Longrightarrow> emits A (kill os pid sig)"
  unfolding call_defs by (auto intro!: emits_os_call)

lemma emits_setenv: "A (Setenv n (c_str v)) \<Longrightarrow> emits A (setenv n v)"
  by (simp add: emits_def)

lemma emits_system: "(\<And>env. A (System (c_str cmd) env)) \<Longrightarrow> emits A (system_cmd os cmd)"
  by (auto simp: emits_def split: prod.splits)

lemmas emits_rules = emits_popen emits_mkdir emits_append emits_write emits_flock
  emits_close_lock emits_unlink emits_set_ready emits_kill emits_setenv emits_system

subsection \<open>Programs that leave the variables alone\<close>

lemma keeps_environ_os_call: "keeps (\<lambda>w. environ w = env) (os_call f ev)"
  by (auto simp: keeps_def split: prod.splits)

lemma keeps_environ_calls [simp, intro]:
  "keeps (\<lambda>w. environ w = env) (getuid os)" "keeps (\<lambda>w. environ w = env) (getpid os)"
  "keeps (\<lambda>w. environ w = env) (setuid os uid)"
  "keeps (\<lambda>w. environ w = env) (stat_reg os p)" "keeps (\<lambda>w. environ w = env) (stat_dir os p)"
  "keeps (\<lambda>w. environ w = env) (read_file os p)" "keeps (\<lambda>w. environ w = env) (realpath os p)"
  "keeps (\<lambda>w. environ w = env) (sleep_ms os n)" "keeps (\<lambda>w. environ w = env) (popen os cmd)"
  "keeps (\<lambda>w. environ w = env) (mkdir os p)" "keeps (\<lambda>w. environ w = env) (append_file os p d)"
  "keeps (\<lambda>w. environ w = env) (write_file os p d)" "keeps (\<lambda>w. environ w = env) (flock_file os p)"
  "keeps (\<lambda>w. environ w = env) (close_lock os p)" "keeps (\<lambda>w. environ w = env) (unlink_file os p)"
  "keeps (\<lambda>w. environ w = env) (set_ready name)" "keeps (\<lambda>w. environ w = env) (kill os pid sig)"
  unfolding call_defs by (rule keeps_environ_os_call)+

lemma keeps_environ_unchanged:
  "(\<And>env. keeps (\<lambda>w. environ w = env) m) \<Longrightarrow> environ (snd (run_state m w)) = environ w"
  by (auto simp: keeps_def)

subsection \<open>Programs that run no script\<close>

text \<open>
  The script sees the variables, so what matters of a run is the \<open>system\<close> calls it made and the
  variables it left; a \<open>scriptless\<close> program does not touch either.
\<close>

definition is_system :: "event \<Rightarrow> bool" where
  "is_system e = (case e of System cmd env \<Rightarrow> True | _ \<Rightarrow> False)"

definition systems :: "'k world \<Rightarrow> event list" where
  "systems w = filter is_system (trace w)"

lemma is_system_simps [simp]:
  "is_system (System cmd env)" "\<not> is_system (Setenv n v)" "\<not> is_system (Popen cmd)"
  "\<not> is_system (Send_bytes fd d)" "\<not> is_system (Lock_file p b)" "\<not> is_system (Write_file p d)"
  "\<not> is_system (Close_lock p)" "\<not> is_system (Unlink p)" "\<not> is_system (Bind fd p)"
  "\<not> is_system (Chmod p m)" "\<not> is_system (Set_ready n)" "\<not> is_system (Mkdir p b)"
  "\<not> is_system (Append p d r)" "\<not> is_system (Kill pid sig)"
  by (simp_all add: is_system_def)

definition scriptless :: "('k world, 'a) state \<Rightarrow> bool" where
  "scriptless m = (\<forall>w. environ (snd (run_state m w)) = environ w \<and> systems (snd (run_state m w)) = systems w)"

lemma scriptlessI:
  assumes "emits A m" and "\<And>e. A e \<Longrightarrow> \<not> is_system e" and "\<And>env. keeps (\<lambda>w. environ w = env) m"
  shows "scriptless m"
  unfolding scriptless_def systems_def
  using emits_filter [OF assms(1), of is_system] assms(2) keeps_environ_unchanged [OF assms(3)] by blast

lemma scriptlessD:
  "scriptless m \<Longrightarrow> run_state m w = (r, w') \<Longrightarrow> environ w' = environ w \<and> systems w' = systems w"
  unfolding scriptless_def by (metis snd_conv)

lemma scriptless_hoare: "scriptless m \<Longrightarrow>
  hoare (\<lambda>w. R (environ w) (systems w)) m (\<lambda>_ w. R (environ w) (systems w))"
  by (simp add: scriptless_def hoare_def)

subsection \<open>Programs that change nothing but the kernel's clock\<close>

text \<open>
  A kernel on which looking does not change what is looked at: the reads of the program leave
  the kernel state alone.  Sleeping and writing may still change anything.
\<close>

definition quiet_reads :: "'k os \<Rightarrow> bool" where
  "quiet_reads os = (\<forall>k. snd (os_getuid os k) = k \<and>
     (\<forall>p. snd (os_is_reg os p k) = k \<and> snd (os_is_dir os p k) = k \<and>
          snd (os_read os p k) = k \<and> snd (os_realpath os p k) = k))"

lemma run_quiet_call:
  "snd (f (kern w)) = kern w \<Longrightarrow> run_state (os_call f (\<lambda>_. [])) w = (fst (f (kern w)), w)"
  by (cases "f (kern w)") simp

lemma run_quiet:
  assumes "quiet_reads os"
  shows "run_state (getuid os) w = (fst (os_getuid os (kern w)), w)"
    and "run_state (stat_reg os p) w = (fst (os_is_reg os (c_str p) (kern w)), w)"
    and "run_state (stat_dir os p) w = (fst (os_is_dir os (c_str p) (kern w)), w)"
    and "run_state (read_file os p) w = (fst (os_read os (c_str p) (kern w)), w)"
    and "run_state (realpath os p) w = (fst (os_realpath os (c_str p) (kern w)), w)"
  using assms by (simp_all add: quiet_reads_def call_defs run_quiet_call del: run_os_call)

end
