(* ===== verification/Common.thy ===== *)
theory Common
  imports World
begin

text \<open>
  The helpers of \<open>src/common.cpp\<close> and the constants of \<open>src/common.cmake.h\<close>: joining strings,
  the validity checks, the questions put to \<open>pidof\<close>, \<open>which\<close> and \<open>readlink\<close>, and the cgroup a
  process is in.  Overloads carry a suffix (\<open>_vec\<close>, \<open>_argv\<close>, \<open>_pid\<close>).

  The lemmas say what each returns: joining is invertible by splitting unless the last element
  occurs twice, containment of cgroups is a partial order on whole path components
  (\<open>interpretation cg: containment\<close>), the pid scanner returns the list \<open>pidof\<close> prints, and
  \<open>getCgroup\<close> returns the path of the hierarchy numbered 0.
\<close>

subsection \<open>Constants\<close>

definition CGROUP2_MOUNT_POINT :: string where
  "CGROUP2_MOUNT_POINT = ''/var/run/cgproxy/cgroup2''"

definition CGROUP_PROXY_PRESVERED :: string where
  "CGROUP_PROXY_PRESVERED = ''/proxy.slice''"

definition CGROUP_NOPROXY_PRESVERED :: string where
  "CGROUP_NOPROXY_PRESVERED = ''/noproxy.slice''"

definition MSG_TYPE_CONFIG_JSON :: cint where "MSG_TYPE_CONFIG_JSON = 1"
definition MSG_TYPE_CONFIG_PATH :: cint where "MSG_TYPE_CONFIG_PATH = 2"
definition MSG_TYPE_PROXY_PID :: cint where "MSG_TYPE_PROXY_PID = 3"
definition MSG_TYPE_NOPROXY_PID :: cint where "MSG_TYPE_NOPROXY_PID = 4"

definition UNKNOWN_ERROR :: cint where "UNKNOWN_ERROR = 99"
definition ERROR :: cint where "ERROR = - 1"
definition SUCCESS :: cint where "SUCCESS = 0"
definition CONN_ERROR :: cint where "CONN_ERROR = 1"
definition MSG_ERROR :: cint where "MSG_ERROR = 2"
definition PARAM_ERROR :: cint where "PARAM_ERROR = 4"
definition FILE_ERROR :: cint where "FILE_ERROR = 7"

lemmas preserved_defs = CGROUP_PROXY_PRESVERED_def CGROUP_NOPROXY_PRESVERED_def

lemmas status_defs = UNKNOWN_ERROR_def ERROR_def SUCCESS_def CONN_ERROR_def MSG_ERROR_def
  PARAM_ERROR_def FILE_ERROR_def

lemmas msg_type_defs = MSG_TYPE_CONFIG_JSON_def MSG_TYPE_CONFIG_PATH_def
  MSG_TYPE_PROXY_PID_def MSG_TYPE_NOPROXY_PID_def

subsection \<open>Joining\<close>

text \<open>The comparison is by value: \<open>e != *(t.end() - 1)\<close>.\<close>

definition join2str_vec :: "string list \<Rightarrow> char \<Rightarrow> string" where
  "join2str_vec t delm = concat (map (\<lambda>e. if e \<noteq> last t then e @ [delm] else e) t)"

definition join2str_argv :: "nat \<Rightarrow> string list \<Rightarrow> char \<Rightarrow> string" where
  "join2str_argv argc argv delm =
     concat (map (\<lambda>i. (argv ! i) @ (if i \<noteq> argc - 1 then [delm] else [])) [0..<argc])"

text \<open>How a reader takes such a string apart (\<open>IFS=':' read -a\<close> in the script).\<close>

fun split_on :: "char \<Rightarrow> string \<Rightarrow> string list" where
  "split_on d [] = [[]]"
| "split_on d (c # cs) =
     (if c = d then [] # split_on d cs
      else case split_on d cs of p # ps \<Rightarrow> (c # p) # ps | [] \<Rightarrow> [[c]])"

lemma split_on_nonempty [simp]: "split_on d s \<noteq> []"
  by (induction s) (auto split: list.splits)

lemma split_on_plain: "d \<notin> set s \<Longrightarrow> split_on d s = [s]"
  by (induction s) auto

lemma split_on_delim: "d \<notin> set s \<Longrightarrow> split_on d (s @ d # t) = s # split_on d t"
  by (induction s) auto

lemma join2str_vec_snoc:
  "join2str_vec (xs @ [z]) d = concat (map (\<lambda>e. if e = z then e else e @ [d]) xs) @ z"
proof -
  have "(\<lambda>e. if e \<noteq> z then e @ [d] else e) = (\<lambda>e. if e = z then e else e @ [d])" by auto
  then show ?thesis by (simp add: join2str_vec_def)
qed

lemma split_concat_delims:
  "\<forall>s \<in> set xs. d \<notin> set s \<Longrightarrow> split_on d (concat (map (\<lambda>e. e @ [d]) xs) @ t) = xs @ split_on d t"
  by (induction xs) (auto simp: split_on_delim)

lemma split_join2str_vec:
  assumes "z \<notin> set xs" and "\<forall>s \<in> set (xs @ [z]). d \<notin> set s"
  shows "split_on d (join2str_vec (xs @ [z]) d) = xs @ [z]"
proof -
  have eq: "map (\<lambda>e. if e = z then e else e @ [d]) xs = map (\<lambda>e. e @ [d]) xs"
    using assms(1) by (auto intro: map_cong)
  have "split_on d (concat (map (\<lambda>e. e @ [d]) xs) @ z) = xs @ [z]"
    using assms(2) by (simp add: split_concat_delims split_on_plain)
  then show ?thesis by (simp only: join2str_vec_snoc eq)
qed

lemma join2str_argv_eq:
  assumes "length argv = Suc n"
  shows "join2str_argv (Suc n) argv d = concat (map (\<lambda>e. e @ [d]) (butlast argv)) @ last argv"
proof -
  have ne: "argv \<noteq> []" using assms by auto
  have "map (\<lambda>i. (argv ! i) @ (if i \<noteq> n then [d] else [])) [0..<n]
      = map (\<lambda>i. argv ! i @ [d]) [0..<n]"
    by (rule map_cong) auto
  also have "\<dots> = map (\<lambda>e. e @ [d]) (butlast argv)"
    using assms by (intro nth_equalityI) (auto simp: nth_butlast)
  finally show ?thesis
    using assms ne by (simp add: join2str_argv_def last_conv_nth)
qed

lemma split_join2str_argv:
  assumes "length argv = Suc n" and "\<forall>s \<in> set argv. d \<notin> set s"
  shows "split_on d (join2str_argv (Suc n) argv d) = argv"
proof -
  have ne: "argv \<noteq> []" using assms by auto
  have "\<forall>s \<in> set (butlast argv). d \<notin> set s" "d \<notin> set (last argv)"
    using assms(2) ne by (auto dest: in_set_butlastD)
  then show ?thesis
    using ne by (simp add: join2str_argv_eq [OF assms(1)] split_concat_delims split_on_plain)
qed

subsection \<open>Validity checks\<close>

definition startWith :: "string \<Rightarrow> string \<Rightarrow> bool" where
  "startWith s pre = prefix pre s"

text \<open>The class \<open>[a-zA-Z0-9\-_./@]\<close>; \<open>regex_match\<close> matches the whole string.\<close>

definition cgroup_char :: "char \<Rightarrow> bool" where
  "cgroup_char c = (char_in 97 122 c \<or> char_in 65 90 c \<or> char_in 48 57 c \<or> c \<in> set ''-_./@'')"

definition validCgroup :: "string \<Rightarrow> bool" where
  "validCgroup cgroup = (case cgroup of [] \<Rightarrow> False
     | c # cs \<Rightarrow> c = CHR ''/'' \<and> list_all cgroup_char cs)"

definition validCgroup_vec :: "string list \<Rightarrow> bool" where
  "validCgroup_vec cgroup = list_all validCgroup cgroup"

definition validPid :: "string \<Rightarrow> bool" where
  "validPid pid = (pid \<noteq> [] \<and> list_all is_digit pid)"

definition validPort :: "cint \<Rightarrow> bool" where
  "validPort port = (sint port > 0)"

lemma cgroup_char_plain: "cgroup_char c \<Longrightarrow> c \<noteq> CHR '':'' \<and> c \<noteq> CHR 0x00 \<and> c \<noteq> CHR '' ''"
  by (auto simp: cgroup_char_def char_in_def)

lemma validCgroup_plain:
  assumes "validCgroup s"
  shows "CHR '':'' \<notin> set s \<and> CHR 0x00 \<notin> set s \<and> CHR '' '' \<notin> set s"
  using assms cgroup_char_plain by (fastforce simp: validCgroup_def list_all_iff split: list.splits)

lemma validPid_to_str: "validPid (to_str_int i) \<longleftrightarrow> 0 \<le> sint i"
  using to_str_int_nonneg [of i] to_str_int_neg [of i]
  by (cases "sint i < 0") (auto simp: validPid_def)

lemma validPid_no_nul: "validPid pid \<Longrightarrow> CHR 0x00 \<notin> set pid"
  using digit_not_sign by (fastforce simp: validPid_def list_all_iff)

lemma preserved_valid [simp]:
  "validCgroup CGROUP_PROXY_PRESVERED" "validCgroup CGROUP_NOPROXY_PRESVERED"
  by (simp_all add: validCgroup_def preserved_defs cgroup_char_def char_in_def)

subsection \<open>Containment of cgroups\<close>

definition belongToCgroup :: "string \<Rightarrow> string \<Rightarrow> bool" where
  "belongToCgroup cg1 cg2 = startWith (cg1 @ ''/'') (cg2 @ ''/'')"

fun belongToCgroup_vec :: "string \<Rightarrow> string list \<Rightarrow> bool" where
  "belongToCgroup_vec cg1 [] = False"
| "belongToCgroup_vec cg1 (s # cg2) =
     (if startWith (cg1 @ ''/'') (s @ ''/'') then True else belongToCgroup_vec cg1 cg2)"

text \<open>
  What the daemon relies on when it asks which scope a process is in: a partial order, and a
  search through a list that agrees with it.
\<close>

locale containment =
  fixes within :: "'c \<Rightarrow> 'c \<Rightarrow> bool" and within_any :: "'c \<Rightarrow> 'c list \<Rightarrow> bool"
  assumes within_refl: "within c c"
    and within_trans: "within a b \<Longrightarrow> within b c \<Longrightarrow> within a c"
    and within_antisym: "within a b \<Longrightarrow> within b a \<Longrightarrow> a = b"
    and within_any_iff: "within_any c cs \<longleftrightarrow> (\<exists>s \<in> set cs. within c s)"
begin

lemma within_any_member: "c \<in> set cs \<Longrightarrow> within_any c cs"
  using within_refl by (auto simp: within_any_iff)

lemma within_any_down: "within a b \<Longrightarrow> within_any b cs \<Longrightarrow> within_any a cs"
  using within_trans by (auto simp: within_any_iff)

lemma within_any_mono: "set cs \<subseteq> set ds \<Longrightarrow> within_any c cs \<Longrightarrow> within_any c ds"
  by (auto simp: within_any_iff)

lemma within_any_listed: "within c s \<Longrightarrow> s \<in> set cs \<Longrightarrow> within_any c cs"
  by (auto simp: within_any_iff)

end

lemma belongToCgroup_iff: "belongToCgroup a b \<longleftrightarrow> a = b \<or> prefix (b @ ''/'') a"
  by (auto simp: belongToCgroup_def startWith_def prefix_snoc)

interpretation cg: containment belongToCgroup belongToCgroup_vec
proof
  fix a b c :: string and cs :: "string list"
  show "belongToCgroup c c" by (simp add: belongToCgroup_iff)
  show "belongToCgroup a b \<Longrightarrow> belongToCgroup b c \<Longrightarrow> belongToCgroup a c"
    unfolding belongToCgroup_def startWith_def by (rule prefix_order.trans)
  show "belongToCgroup a b \<Longrightarrow> belongToCgroup b a \<Longrightarrow> a = b"
    unfolding belongToCgroup_def startWith_def by (drule (1) prefix_order.antisym) simp
  show "belongToCgroup_vec c cs \<longleftrightarrow> (\<exists>s \<in> set cs. belongToCgroup c s)"
    by (induction cs) (auto simp: belongToCgroup_def)
qed

text \<open>
  The root of the hierarchy contains nothing but itself: a process in any other cgroup
  (a path with no empty component) is not in the scope \<open>/\<close>.
\<close>

theorem root_contains_only_itself:
  assumes "\<not> prefix ''//'' cg"
  shows "belongToCgroup cg ''/'' \<longleftrightarrow> cg = ''/''"
  using assms by (auto simp: belongToCgroup_iff)

theorem root_contains_only_itself_witness:
  "validCgroup ''/'' \<and> \<not> belongToCgroup ''/user.slice'' ''/''"
  using root_contains_only_itself [of "''/user.slice''"] by (simp add: validCgroup_def)

subsection \<open>Files and programs\<close>

definition fileExist :: "'k os \<Rightarrow> string \<Rightarrow> ('k world, bool) state" where
  "fileExist os path = stat_reg os path"

definition dirExist :: "'k os \<Rightarrow> string \<Rightarrow> ('k world, bool) state" where
  "dirExist os path = stat_dir os path"

text \<open>
  The \<open>fscanf\<close> loop of \<open>bash_pidof\<close>, which runs until \<open>EOF\<close>: white space only is \<open>EOF\<close>, and a
  matching failure leaves the input where it is, so the loop pushes pids for ever (\<open>None\<close>).
\<close>

function scan_pids :: "string \<Rightarrow> cint list option" where
  "scan_pids s =
     (if dropWhile is_space s = [] then Some []
      else case scan_int s of
          None \<Rightarrow> None
        | Some (n, r) \<Rightarrow> map_option ((#) (word_of_int n)) (scan_pids r))"
  by pat_completeness auto
termination
  by (relation "measure length") (auto dest: scan_int_consumes)

declare scan_pids.simps [simp del]

definition bash_pidof :: "'k os \<Rightarrow> string \<Rightarrow> ('k world, cint list res) state" where
  "bash_pidof os path = do {
     fp \<leftarrow> popen os (''pidof '' @ path);
     case fp of
       None \<Rightarrow> ret (Inr [])
     | Some out \<Rightarrow> (case scan_pids out of None \<Rightarrow> ret (Inl Diverge) | Some pids \<Rightarrow> ret (Inr pids)) }"

text \<open>The line \<open>pidof\<close> prints.\<close>

fun pid_line :: "cint list \<Rightarrow> string" where
  "pid_line [] = []"
| "pid_line [p] = to_str_int p @ [CHR 0x0A]"
| "pid_line (p # ps) = to_str_int p @ CHR '' '' # pid_line ps"

lemma scan_int_space: "is_space c \<Longrightarrow> scan_int (c # s) = scan_int s"
  by (simp add: scan_int_def)

lemma scan_pids_space: "is_space c \<Longrightarrow> scan_pids (c # s) = scan_pids s"
  by (subst (1 2) scan_pids.simps) (simp add: scan_int_space)

lemma scan_pids_next:
  assumes "rest = [] \<or> \<not> is_digit (hd rest)"
  shows "scan_pids (to_str_int p @ rest) = map_option ((#) p) (scan_pids rest)"
proof -
  have scan: "scan_int (to_str_int p @ rest) = Some (sint p, rest)"
    using scan_show_int [OF assms] by (simp add: to_str_int_def)
  have "dropWhile is_space (to_str_int p @ rest) \<noteq> []"
  proof
    assume "dropWhile is_space (to_str_int p @ rest) = []"
    with scan show False by (simp add: scan_int_def)
  qed
  then show ?thesis by (subst scan_pids.simps) (simp add: scan del: dropWhile_eq_Nil_conv)
qed

lemma scan_pid_line: "scan_pids (pid_line ps) = Some ps"
proof (induction ps rule: pid_line.induct)
  case 1
  then show ?case by (simp add: scan_pids.simps)
next
  case (2 p)
  have "scan_pids [CHR 0x0A] = Some []"
    by (simp add: scan_pids.simps is_space_def char_in_def)
  then show ?case using scan_pids_next [of "[CHR 0x0A]" p] by (simp add: is_digit_def char_in_def)
next
  case (3 p q ps)
  have "scan_pids (CHR '' '' # pid_line (q # ps)) = Some (q # ps)"
    using 3 by (simp add: scan_pids_space is_space_def)
  then show ?case
    using scan_pids_next [of "CHR '' '' # pid_line (q # ps)" p] by (simp add: is_digit_def char_in_def)
qed

text \<open>
  The numbers \<open>pidof\<close> prints are the numbers the daemon gets, all of them and in their order.
\<close>

theorem pidof_list_read:
  assumes "os_popen os (c_str (''pidof '' @ path)) (kern w) = (Some (pid_line pids), k)"
  shows "run_state (bash_pidof os path) w =
    (Inr pids, w\<lparr>kern := k, trace := trace w @ [Popen (c_str (''pidof '' @ path))]\<rparr>)"
proof -
  have "run_state (popen os (''pidof '' @ path)) w = (Some (pid_line pids),
      w\<lparr>kern := k, trace := trace w @ [Popen (c_str (''pidof '' @ path))]\<rparr>)"
    by (simp only: popen_def run_os_call assms prod.case)
  then show ?thesis by (simp only: bash_pidof_def run_state_bind prod.case option.case scan_pid_line) simp
qed

text \<open>\<open>fgets\<close> in chunks up to the end of the stream collects the output (text, without NUL);
  \<open>pop_back\<close> drops a newline.\<close>

definition bash_output :: "'k os \<Rightarrow> string \<Rightarrow> ('k world, string) state" where
  "bash_output os cmd = do {
     fp \<leftarrow> popen os cmd;
     case fp of None \<Rightarrow> ret [] | Some s \<Rightarrow> ret (if s \<noteq> [] then butlast s else s) }"

definition bash_which :: "'k os \<Rightarrow> string \<Rightarrow> ('k world, string) state" where
  "bash_which os name = bash_output os (''which '' @ name)"

definition bash_readlink :: "'k os \<Rightarrow> string \<Rightarrow> ('k world, string) state" where
  "bash_readlink os path = bash_output os (''readlink -e '' @ path)"

text \<open>\<open>name[0]\<close> of an empty string is NUL; the file is looked up only after a slash.\<close>

definition getRealExistPath :: "'k os \<Rightarrow> string \<Rightarrow> ('k world, string) state" where
  "getRealExistPath os name = do {
     direct \<leftarrow> (if name \<noteq> [] \<and> hd name = CHR ''/'' then fileExist os name else ret False);
     if direct then ret name
     else do {
       path \<leftarrow> bash_which os name;
       if path = [] then ret []
       else do {
         path \<leftarrow> bash_readlink os path;
         b \<leftarrow> fileExist os path;
         if \<not> b then ret [] else ret path } } }"

subsection \<open>The cgroup of a process\<close>

text \<open>\<open>getline\<close> until it fails: a final empty piece after the last newline is no line.\<close>

definition getlines :: "string \<Rightarrow> string list" where
  "getlines s = (let ls = split_on (CHR 0x0A) s in if last ls = [] then butlast ls else ls)"

text \<open>The first line that starts with 0; \<open>substr (3)\<close> throws when the line is shorter.\<close>

fun cgroup_line :: "string list \<Rightarrow> string res" where
  "cgroup_line [] = Inr []"
| "cgroup_line (line # ls) =
     (if line \<noteq> [] \<and> hd line = CHR ''0''
      then if 3 \<le> length line then Inr (drop 3 line) else Inl (Throw Std_out_of_range)
      else cgroup_line ls)"

definition getCgroup :: "'k os \<Rightarrow> string \<Rightarrow> ('k world, string res) state" where
  "getCgroup os pid = do {
     b \<leftarrow> fileExist os (''/proc/'' @ pid @ ''/cgroup'');
     if \<not> b then ret (Inr [])
     else do {
       ifs \<leftarrow> read_file os (''/proc/'' @ pid @ ''/cgroup'');
       case ifs of None \<Rightarrow> ret (Inr []) | Some content \<Rightarrow> ret (cgroup_line (getlines content)) } }"

definition getCgroup_pid :: "'k os \<Rightarrow> cint \<Rightarrow> ('k world, string res) state" where
  "getCgroup_pid os pid = getCgroup os (to_str_int pid)"

lemma emits_fileExist [simp, intro]: "emits A (fileExist os p)"
  and emits_dirExist [simp, intro]: "emits A (dirExist os p)"
  by (simp_all add: fileExist_def dirExist_def)

lemma emits_getCgroup [simp, intro]: "emits A (getCgroup os pid)"
  unfolding getCgroup_def by (auto split: option.splits)

lemma emits_getCgroup_pid [simp, intro]: "emits A (getCgroup_pid os pid)"
  by (simp add: getCgroup_pid_def)

lemma keeps_environ_queries [simp, intro]:
  "keeps (\<lambda>w. environ w = env) (getCgroup os pid)"
  "keeps (\<lambda>w. environ w = env) (getCgroup_pid os p)"
  "keeps (\<lambda>w. environ w = env) (dirExist os f)"
  "keeps (\<lambda>w. environ w = env) (fileExist os f)"
  "keeps (\<lambda>w. environ w = env) (bash_output os cmd)"
  "keeps (\<lambda>w. environ w = env) (bash_pidof os f)"
  unfolding getCgroup_pid_def getCgroup_def dirExist_def fileExist_def bash_output_def bash_pidof_def
  by (auto split: option.splits)

lemma keeps_environ_getRealExistPath [simp, intro]:
  "keeps (\<lambda>w. environ w = env) (getRealExistPath os name)"
  unfolding getRealExistPath_def bash_which_def bash_readlink_def by auto

subsection \<open>The queries on a kernel that does not change under them\<close>

definition quiet_queries :: "'k os \<Rightarrow> bool" where
  "quiet_queries os = (quiet_reads os \<and> (\<forall>cmd k. snd (os_popen os cmd k) = k))"

definition is_regular :: "'k os \<Rightarrow> 'k \<Rightarrow> string \<Rightarrow> bool" where
  "is_regular os k path = fst (os_is_reg os (c_str path) k)"

definition output_of :: "'k os \<Rightarrow> 'k \<Rightarrow> string \<Rightarrow> string" where
  "output_of os k cmd = (case fst (os_popen os (c_str cmd) k) of None \<Rightarrow> [] | Some s \<Rightarrow> butlast s)"

text \<open>What \<open>getRealExistPath\<close> computes, as a function of the kernel state.\<close>

definition resolve :: "'k os \<Rightarrow> 'k \<Rightarrow> string \<Rightarrow> string" where
  "resolve os k name =
     (if name \<noteq> [] \<and> hd name = CHR ''/'' \<and> is_regular os k name then name
      else let path = output_of os k (''which '' @ name); target = output_of os k (''readlink -e '' @ path)
           in if path \<noteq> [] \<and> is_regular os k target then target else [])"

lemma run_popen_quiet:
  assumes "quiet_queries os"
  shows "run_state (popen os cmd) w =
     (fst (os_popen os (c_str cmd) (kern w)), w\<lparr>trace := trace w @ [Popen (c_str cmd)]\<rparr>)"
proof -
  have "snd (os_popen os (c_str cmd) (kern w)) = kern w"
    using assms by (simp add: quiet_queries_def)
  then show ?thesis by (cases "os_popen os (c_str cmd) (kern w)") (simp add: popen_def)
qed

lemma run_bash_output_quiet:
  assumes "quiet_queries os"
  shows "run_state (bash_output os cmd) w =
     (output_of os (kern w) cmd, w\<lparr>trace := trace w @ [Popen (c_str cmd)]\<rparr>)"
  by (simp add: bash_output_def run_popen_quiet [OF assms] output_of_def split: option.split)

lemma run_fileExist_quiet:
  "quiet_queries os \<Longrightarrow> run_state (fileExist os p) w = (is_regular os (kern w) p, w)"
  by (simp add: fileExist_def quiet_queries_def run_quiet is_regular_def)

lemma run_getRealExistPath_quiet:
  assumes "quiet_queries os"
  shows "\<exists>es. run_state (getRealExistPath os name) w =
     (resolve os (kern w) name, w\<lparr>trace := trace w @ es\<rparr>)"
proof (cases "name \<noteq> [] \<and> hd name = CHR ''/'' \<and> is_regular os (kern w) name")
  case True
  then have "run_state (getRealExistPath os name) w = (resolve os (kern w) name, w\<lparr>trace := trace w @ []\<rparr>)"
    by (simp add: getRealExistPath_def run_fileExist_quiet [OF assms] resolve_def)
  then show ?thesis by blast
next
  case False
  define direct where "direct = (if name \<noteq> [] \<and> hd name = CHR ''/'' then fileExist os name else ret False)"
  have direct: "run_state direct w = (False, w)"
    using False by (auto simp: direct_def run_fileExist_quiet [OF assms])
  show ?thesis
    unfolding getRealExistPath_def direct_def [symmetric]
    using False
    by (auto simp: direct bash_which_def bash_readlink_def run_bash_output_quiet [OF assms]
        run_fileExist_quiet [OF assms] resolve_def Let_def)
qed

lemma resolve_regular: "resolve os k name \<noteq> [] \<Longrightarrow> is_regular os k (resolve os k name)"
  by (auto simp: resolve_def Let_def split: if_splits)

lemma getCgroup_quiet:
  assumes "quiet_reads os"
  shows "run_state (getCgroup os pid) w =
    (if fst (os_is_reg os (c_str (''/proc/'' @ pid @ ''/cgroup'')) (kern w))
     then (case fst (os_read os (c_str (''/proc/'' @ pid @ ''/cgroup'')) (kern w)) of
         None \<Rightarrow> Inr [] | Some content \<Rightarrow> cgroup_line (getlines content))
     else Inr [], w)"
  using assms by (simp add: getCgroup_def fileExist_def run_quiet split: option.split)

end
