(* ===== verification/Json.thy ===== *)
theory Json
  imports Common "HOL-Library.AList"
begin

text \<open>
  The library \<open>nlohmann::json\<close> is not part of the repository.  Its values are data with one of
  seven kinds, which the program asks for (\<open>is_string\<close>, \<open>is_array\<close>, \<open>is_boolean\<close>); its
  operations are the parameter \<open>js :: nlohmann\<close>, one function per operation the program calls,
  with a thrown exception as \<open>Inl\<close>.

  What its manual documents, and the program relies on, is collected in \<open>js_documented\<close>:
  element access with \<open>at\<close> (\<open>type_error\<close> on anything but an object, \<open>out_of_range\<close> for a missing
  key), iteration with \<open>items\<close> (an object's members in key order, an empty key for a primitive
  value), insertion with \<open>operator[]\<close>, and the conversions to \<open>int\<close>, \<open>bool\<close>, \<open>string\<close> and
  \<open>vector<string>\<close>.  Parsing and printing have no law here: a theorem that sends a document
  over the wire says which text stands for it.  \<open>documented_js\<close> is an instance of the laws.
\<close>

subsection \<open>Values and operations\<close>

text \<open>A number is an integer or the 64 bits of a double.\<close>

datatype json =
    JNull
  | JBool bool
  | JInt int
  | JFloat "64 word"
  | JString string
  | JArray "json list"
  | JObject "(string \<times> json) list"

fun is_string :: "json \<Rightarrow> bool" where
  "is_string (JString s) = True" | "is_string j = False"

fun is_array :: "json \<Rightarrow> bool" where
  "is_array (JArray js) = True" | "is_array j = False"

fun is_boolean :: "json \<Rightarrow> bool" where
  "is_boolean (JBool b) = True" | "is_boolean j = False"

record nlohmann =
  js_parse :: "string \<Rightarrow> json res"
  js_dump :: "json \<Rightarrow> string res"
  js_at :: "json \<Rightarrow> string \<Rightarrow> json res"
  js_items :: "json \<Rightarrow> (string \<times> json) list"
  js_put :: "string \<Rightarrow> json \<Rightarrow> json \<Rightarrow> json"
  js_int :: "json \<Rightarrow> cint res"
  js_bool :: "json \<Rightarrow> bool res"
  js_string :: "json \<Rightarrow> string res"
  js_strings :: "json \<Rightarrow> string list res"

subsection \<open>The documented behaviour\<close>

definition js_at_law :: "nlohmann \<Rightarrow> bool" where
  "js_at_law js = (\<forall>j k. js_at js j k = (case j of
      JObject kvs \<Rightarrow> (case map_of kvs k of None \<Rightarrow> Inl (Throw Json_out_of_range) | Some v \<Rightarrow> Inr v)
    | _ \<Rightarrow> Inl (Throw Json_type_error)))"

definition js_items_law :: "nlohmann \<Rightarrow> bool" where
  "js_items_law js = ((\<forall>kvs. js_items js (JObject kvs) = kvs) \<and> js_items js JNull = [] \<and>
     (\<forall>s. js_items js (JString s) = [([], JString s)]))"

text \<open>\<open>j[k] = v\<close>: \<open>null\<close> becomes an object; the members are kept without duplicates.\<close>

definition js_put_law :: "nlohmann \<Rightarrow> bool" where
  "js_put_law js =
     ((\<forall>k v. js_put js k v JNull = JObject [(k, v)]) \<and>
      (\<forall>k v kvs. distinct (map fst kvs) \<longrightarrow> (\<exists>kvs'. js_put js k v (JObject kvs) = JObject kvs' \<and>
         distinct (map fst kvs') \<and> map_of kvs' = (map_of kvs)(k \<mapsto> v))))"

definition js_get_law :: "nlohmann \<Rightarrow> bool" where
  "js_get_law js =
     ((\<forall>n. js_int js (JInt n) = Inr (word_of_int n)) \<and>
      (\<forall>j. (\<forall>n. j \<noteq> JInt n) \<and> (\<forall>x. j \<noteq> JFloat x) \<and> (\<forall>b. j \<noteq> JBool b) \<longrightarrow>
          js_int js j = Inl (Throw Json_type_error)) \<and>
      (\<forall>b. js_bool js (JBool b) = Inr b) \<and>
      (\<forall>j. \<not> is_boolean j \<longrightarrow> js_bool js j = Inl (Throw Json_type_error)) \<and>
      (\<forall>s. js_string js (JString s) = Inr s) \<and>
      (\<forall>j. \<not> is_string j \<longrightarrow> js_string js j = Inl (Throw Json_type_error)) \<and>
      (\<forall>ss. js_strings js (JArray (map JString ss)) = Inr ss) \<and>
      (\<forall>vs. (\<exists>v \<in> set vs. \<not> is_string v) \<longrightarrow> js_strings js (JArray vs) = Inl (Throw Json_type_error)) \<and>
      (\<forall>j. \<not> is_array j \<longrightarrow> js_strings js j = Inl (Throw Json_type_error)))"

text \<open>No operation runs for ever.\<close>

definition js_returns_law :: "nlohmann \<Rightarrow> bool" where
  "js_returns_law js =
     ((\<forall>s. js_parse js s \<noteq> Inl Diverge) \<and> (\<forall>j. js_dump js j \<noteq> Inl Diverge) \<and>
      (\<forall>j k. js_at js j k \<noteq> Inl Diverge) \<and> (\<forall>j. js_int js j \<noteq> Inl Diverge) \<and>
      (\<forall>j. js_bool js j \<noteq> Inl Diverge) \<and> (\<forall>j. js_string js j \<noteq> Inl Diverge) \<and>
      (\<forall>j. js_strings js j \<noteq> Inl Diverge))"

definition js_documented :: "nlohmann \<Rightarrow> bool" where
  "js_documented js = (js_at_law js \<and> js_items_law js \<and> js_put_law js \<and> js_get_law js \<and>
     js_returns_law js)"

lemma js_at_doc:
  assumes "js_documented js"
  shows "js_at js (JObject kvs) k =
      (case map_of kvs k of None \<Rightarrow> Inl (Throw Json_out_of_range) | Some v \<Rightarrow> Inr v)"
    and "js_at js JNull k = Inl (Throw Json_type_error)"
    and "js_at js (JString s) k = Inl (Throw Json_type_error)"
  using assms by (simp_all add: js_documented_def js_at_law_def)

lemma js_items_doc:
  assumes "js_documented js"
  shows "js_items js (JObject kvs) = kvs" and "js_items js JNull = []"
    and "js_items js (JString s) = [([], JString s)]"
  using assms by (simp_all add: js_documented_def js_items_law_def)

lemma js_get_doc:
  assumes "js_documented js"
  shows "js_int js (JInt n) = Inr (word_of_int n)"
    and "js_int js (JString s) = Inl (Throw Json_type_error)"
    and "js_bool js (JBool b) = Inr b"
    and "js_string js (JString s) = Inr s"
    and "js_strings js (JArray (map JString ss)) = Inr ss"
    and "js_strings js (JString s) = Inl (Throw Json_type_error)"
  using assms by (simp_all add: js_documented_def js_get_law_def)

lemma js_returns:
  assumes "js_documented js"
  shows "js_parse js s \<noteq> Inl Diverge" "js_dump js j \<noteq> Inl Diverge" "js_at js j k \<noteq> Inl Diverge"
    "js_int js j \<noteq> Inl Diverge" "js_string js j \<noteq> Inl Diverge" "js_strings js j \<noteq> Inl Diverge"
  using assms by (simp_all add: js_documented_def js_returns_law_def)

lemma js_strings_mixed:
  "js_documented js \<Longrightarrow> \<exists>v \<in> set vs. \<not> is_string v \<Longrightarrow>
     js_strings js (JArray vs) = Inl (Throw Json_type_error)"
  by (simp add: js_documented_def js_get_law_def)

lemma all_strings_map: "\<forall>v \<in> set vs. is_string v \<Longrightarrow> \<exists>ss. vs = map JString ss"
proof (induction vs)
  case Nil
  then show ?case by simp
next
  case (Cons v vs)
  then obtain ss s where "vs = map JString ss" "v = JString s" by (cases v) auto
  then have "v # vs = map JString (s # ss)" by simp
  then show ?case by (rule exI [of _ "s # ss"])
qed

lemma js_put_doc:
  assumes "js_documented js"
  shows "js_put js k v JNull = JObject [(k, v)]"
    and "distinct (map fst kvs) \<Longrightarrow> \<exists>kvs'. js_put js k v (JObject kvs) = JObject kvs' \<and>
      distinct (map fst kvs') \<and> map_of kvs' = (map_of kvs)(k \<mapsto> v)"
  using assms by (simp_all add: js_documented_def js_put_law_def)

subsection \<open>Building an object member by member\<close>

text \<open>\<open>json j; j[k1] = v1; j[k2] = v2; \<dots>\<close>\<close>

fun js_object :: "nlohmann \<Rightarrow> (string \<times> json) list \<Rightarrow> json \<Rightarrow> json" where
  "js_object js [] j = j"
| "js_object js ((k, v) # kvs) j = js_object js kvs (js_put js k v j)"

lemma js_object_from:
  assumes "js_documented js" and "distinct (map fst acc)"
  shows "\<exists>kvs'. js_object js kvs (JObject acc) = JObject kvs' \<and> distinct (map fst kvs') \<and>
    map_of kvs' = map_of acc ++ map_of (rev kvs)"
  using assms(2)
proof (induction kvs arbitrary: acc)
  case Nil
  then show ?case by simp
next
  case (Cons kv kvs)
  obtain k v where kv: "kv = (k, v)" by fastforce
  obtain acc' where acc': "js_put js k v (JObject acc) = JObject acc'" "distinct (map fst acc')"
      "map_of acc' = (map_of acc)(k \<mapsto> v)"
    using js_put_doc(2) [OF assms(1) Cons.prems] by blast
  have "map_of acc' ++ map_of (rev kvs) = map_of acc ++ map_of (rev (kv # kvs))"
    by (simp only: acc'(3)) (simp add: kv)
  with Cons.IH [OF acc'(2)] show ?case by (simp only: kv js_object.simps acc'(1))
qed

lemma js_object_map_of:
  assumes "js_documented js" and "kvs \<noteq> []"
  shows "\<exists>kvs'. js_object js kvs JNull = JObject kvs' \<and> distinct (map fst kvs') \<and>
    map_of kvs' = map_of (rev kvs)"
proof -
  obtain k v rest where kvs: "kvs = (k, v) # rest"
    using assms(2) by (cases kvs) auto
  show ?thesis
    using js_object_from [OF assms(1), of "[(k, v)]" rest]
    by (simp add: kvs js_put_doc(1) [OF assms(1)])
qed

lemma js_object_at:
  assumes "js_documented js" and "map_of (rev kvs) k = Some v"
  shows "js_at js (js_object js kvs JNull) k = Inr v"
proof -
  have "kvs \<noteq> []" using assms(2) by auto
  then show ?thesis
    using js_object_map_of [OF assms(1)] assms by (fastforce simp: js_at_doc)
qed

subsection \<open>An instance\<close>

text \<open>
  The laws as functions, over a given parser and printer, with members kept in key order and a
  double converted by truncation left to the caller.
\<close>

fun get_all_strings :: "json list \<Rightarrow> string list res" where
  "get_all_strings [] = Inr []"
| "get_all_strings (JString s # js) = res_bind (get_all_strings js) (\<lambda>ss. Inr (s # ss))"
| "get_all_strings (_ # js) = Inl (Throw Json_type_error)"

definition documented_js ::
  "(string \<Rightarrow> json res) \<Rightarrow> (json \<Rightarrow> string res) \<Rightarrow> (64 word \<Rightarrow> cint) \<Rightarrow> nlohmann" where
  "documented_js parse dump trunc = \<lparr>
     js_parse = parse,
     js_dump = dump,
     js_at = (\<lambda>j k. case j of
        JObject kvs \<Rightarrow> (case map_of kvs k of None \<Rightarrow> Inl (Throw Json_out_of_range) | Some v \<Rightarrow> Inr v)
      | _ \<Rightarrow> Inl (Throw Json_type_error)),
     js_items = (\<lambda>j. case j of
        JObject kvs \<Rightarrow> kvs
      | JNull \<Rightarrow> []
      | JArray vs \<Rightarrow> map2 (\<lambda>i v. (show_nat i, v)) [0..<length vs] vs
      | _ \<Rightarrow> [([], j)]),
     js_put = (\<lambda>k v j. case j of JObject kvs \<Rightarrow> JObject (AList.update k v kvs) | _ \<Rightarrow> JObject [(k, v)]),
     js_int = (\<lambda>j. case j of
        JInt n \<Rightarrow> Inr (word_of_int n)
      | JFloat x \<Rightarrow> Inr (trunc x)
      | JBool b \<Rightarrow> Inr (if b then 1 else 0)
      | _ \<Rightarrow> Inl (Throw Json_type_error)),
     js_bool = (\<lambda>j. case j of JBool b \<Rightarrow> Inr b | _ \<Rightarrow> Inl (Throw Json_type_error)),
     js_string = (\<lambda>j. case j of JString s \<Rightarrow> Inr s | _ \<Rightarrow> Inl (Throw Json_type_error)),
     js_strings = (\<lambda>j. case j of JArray vs \<Rightarrow> get_all_strings vs | _ \<Rightarrow> Inl (Throw Json_type_error)) \<rparr>"

lemma get_all_strings_map: "get_all_strings (map JString ss) = Inr ss"
  by (induction ss) auto

lemma get_all_strings_mixed: "\<exists>v \<in> set vs. \<not> is_string v \<Longrightarrow> get_all_strings vs = Inl (Throw Json_type_error)"
  by (induction vs rule: get_all_strings.induct) auto

lemma get_all_strings_returns: "get_all_strings vs \<noteq> Inl Diverge"
  by (induction vs rule: get_all_strings.induct) (auto simp: res_bind_Inl_iff)

lemma documented_js_documented:
  assumes "\<forall>s. p s \<noteq> Inl Diverge" and "\<forall>j. d j \<noteq> Inl Diverge"
  shows "js_documented (documented_js p d t)"
proof -
  have "js_returns_law (documented_js p d t)"
    using assms by (auto simp: js_returns_law_def documented_js_def get_all_strings_returns
        split: json.splits option.splits)
  moreover
  have "js_at_law (documented_js p d t)" "js_items_law (documented_js p d t)"
    by (auto simp: js_at_law_def js_items_law_def documented_js_def)
  moreover have "js_put_law (documented_js p d t)"
    by (auto simp: js_put_law_def documented_js_def distinct_update update_conv')
  moreover have "js_get_law (documented_js p d t)"
    unfolding js_get_law_def documented_js_def
    by (auto simp: get_all_strings_map get_all_strings_mixed split: json.splits)
  ultimately show ?thesis by (simp add: js_documented_def)
qed

end
