(* ===== verification/Sample_Kernel.thy ===== *)
theory Sample_Kernel
  imports Common "HOL-Library.AList"
begin

text \<open>
  A small concrete kernel, on which the hypotheses about the operating system hold and the
  model can be run: processes with a cgroup and a program, directories, regular files with
  their content, and the answers of the shell commands.  Writing the number of a living process to
  \<open>cgroup.procs\<close> of an existing directory below the mount point moves the process there.  What
  a connection has received and the daemon has not read is its inbox.
\<close>

record sample =
  s_uid :: nat
  s_procs :: "(string \<times> nat) list"
  s_exes :: "(string \<times> string) list"
  s_dirs :: "string list"
  s_files :: "(string \<times> string) list"
  s_outputs :: "(string \<times> string) list"
  s_inbox :: string

text \<open>The cgroups of this kernel, by number.\<close>

definition cg_name :: "nat \<Rightarrow> string" where
  "cg_name n = (if n = 0 then ''/proxy.slice'' else if n = 1 then ''/noproxy.slice'' else ''/user.slice'')"

definition proc_file :: "string \<Rightarrow> string" where
  "proc_file pid = ''/proc/'' @ pid @ ''/cgroup''"

definition proc_files :: "sample \<Rightarrow> (string \<times> string) list" where
  "proc_files k = map (\<lambda>(pid, n). (proc_file pid, ''0::'' @ cg_name n @ [CHR 0x0A])) (s_procs k)"

definition plain_files :: "sample \<Rightarrow> (string \<times> string) list" where
  "plain_files k = filter (\<lambda>(p, d). take 6 p \<noteq> ''/proc/'') (s_files k)"

definition sample_cg_of :: "sample \<Rightarrow> string \<rightharpoonup> string" where
  "sample_cg_of k pid = map_option cg_name (map_of (s_procs k) pid)"

definition sample_append :: "string \<Rightarrow> string \<Rightarrow> sample \<Rightarrow> append_result \<times> sample" where
  "sample_append path data k =
     (case find (\<lambda>n. path = CGROUP2_MOUNT_POINT @ cg_name n @ ''/cgroup.procs'' \<and>
                     CGROUP2_MOUNT_POINT @ cg_name n \<in> set (s_dirs k)) [0, 1, 2] of
        None \<Rightarrow> (Open_failed, k)
      | Some n \<Rightarrow>
          if map_of (s_procs k) (butlast data) \<noteq> None
          then (Written, k\<lparr>s_procs := AList.update (butlast data) n (s_procs k)\<rparr>)
          else (Write_failed, k))"

definition sample_os :: "sample os" where
  "sample_os = \<lparr>
     os_getuid = (\<lambda>k. (s_uid k, k)),
     os_setuid = (\<lambda>uid k. (s_uid k = 0, k)),
     os_getpid = (\<lambda>k. (1000, k)),
     os_is_reg = (\<lambda>p k. (p \<in> set (map fst (plain_files k)) \<or> p \<in> set (map fst (proc_files k)), k)),
     os_is_dir = (\<lambda>p k. (p \<in> set (s_dirs k), k)),
     os_read = (\<lambda>p k. (map_of (plain_files k @ proc_files k) p, k)),
     os_realpath = (\<lambda>p k. (map_of (map (\<lambda>(pid, exe). (''/proc/'' @ pid @ ''/exe'', exe)) (s_exes k)) p, k)),
     os_popen = (\<lambda>cmd k. (map_of (s_outputs k) cmd, k)),
     os_mkdir = (\<lambda>p k. if p \<in> set (s_dirs k) then (False, k) else (True, k\<lparr>s_dirs := p # s_dirs k\<rparr>)),
     os_append = sample_append,
     os_write = (\<lambda>p d k. (True, k\<lparr>s_files := (p, d) # s_files k\<rparr>)),
     os_flock = (\<lambda>p k. (True, k)),
     os_funlock = (\<lambda>p k. k),
     os_unlink = (\<lambda>p k. (True, k\<lparr>s_files := filter (\<lambda>(q, _). q \<noteq> p) (s_files k)\<rparr>)),
     os_system = (\<lambda>cmd env k. (0, k)),
     os_sleep = (\<lambda>n k. k),
     os_kill = (\<lambda>pid sig k. k) \<rparr>"

lemma sample_os_simps [simp]:
  "os_getuid sample_os k = (s_uid k, k)"
  "os_setuid sample_os uid k = (s_uid k = 0, k)"
  "os_getpid sample_os k = (1000, k)"
  "os_is_reg sample_os p k = (p \<in> set (map fst (plain_files k)) \<or> p \<in> set (map fst (proc_files k)), k)"
  "os_is_dir sample_os p k = (p \<in> set (s_dirs k), k)"
  "os_read sample_os p k = (map_of (plain_files k @ proc_files k) p, k)"
  "os_realpath sample_os p k =
     (map_of (map (\<lambda>(pid, exe). (''/proc/'' @ pid @ ''/exe'', exe)) (s_exes k)) p, k)"
  "os_popen sample_os cmd k = (map_of (s_outputs k) cmd, k)"
  "os_append sample_os p d k = sample_append p d k"
  "os_system sample_os cmd env k = (0, k)"
  "os_sleep sample_os n k = k"
  "os_kill sample_os pid sig k = k"
  "os_flock sample_os p k = (True, k)"
  by (simp_all add: sample_os_def)

lemma sample_quiet: "quiet_queries sample_os" "quiet_reads sample_os"
  by (simp_all add: quiet_queries_def quiet_reads_def)

text \<open>Two programs, one of them running in a user session, and the two built-in directories.\<close>

definition sample_kern :: sample where
  "sample_kern = \<lparr>
     s_uid = 0,
     s_procs = [(''42'', 2), (''43'', 1)],
     s_exes = [(''42'', ''/usr/bin/curl''), (''43'', ''/usr/bin/v2ray'')],
     s_dirs = [CGROUP2_MOUNT_POINT @ ''/proxy.slice'', CGROUP2_MOUNT_POINT @ ''/noproxy.slice''],
     s_files = [(''/usr/bin/curl'', ''''), (''/usr/bin/v2ray'', '''')],
     s_outputs = [(''which curl'', ''/usr/bin/curl'' @ [CHR 0x0A]),
                  (''readlink -e /usr/bin/curl'', ''/usr/bin/curl'' @ [CHR 0x0A]),
                  (''pidof /usr/bin/curl'', ''42'' @ [CHR 0x0A]),
                  (''pidof /usr/bin/v2ray'', ''43'' @ [CHR 0x0A])],
     s_inbox = [] \<rparr>"

definition sample_world :: "sample world" where
  "sample_world = \<lparr>kern = sample_kern, environ = Map.empty, trace = []\<rparr>"

lemma sample_world_simps [simp]:
  "kern sample_world = sample_kern" "environ sample_world = Map.empty" "trace sample_world = []"
  by (simp_all add: sample_world_def)

lemma sample_kern_simps [simp]:
  "s_uid sample_kern = 0"
  "s_procs sample_kern = [(''42'', 2), (''43'', 1)]"
  "s_dirs sample_kern = [CGROUP2_MOUNT_POINT @ ''/proxy.slice'', CGROUP2_MOUNT_POINT @ ''/noproxy.slice'']"
  "s_exes sample_kern = [(''42'', ''/usr/bin/curl''), (''43'', ''/usr/bin/v2ray'')]"
  "s_outputs sample_kern = [(''which curl'', ''/usr/bin/curl'' @ [CHR 0x0A]),
     (''readlink -e /usr/bin/curl'', ''/usr/bin/curl'' @ [CHR 0x0A]),
     (''pidof /usr/bin/curl'', ''42'' @ [CHR 0x0A]),
     (''pidof /usr/bin/v2ray'', ''43'' @ [CHR 0x0A])]"
  by (simp_all add: sample_kern_def)

lemma sample_files [simp]:
  "plain_files sample_kern = [(''/usr/bin/curl'', ''''), (''/usr/bin/v2ray'', '''')]"
  "proc_files sample_kern = [(''/proc/42/cgroup'', ''0::/user.slice'' @ [CHR 0x0A]),
     (''/proc/43/cgroup'', ''0::/noproxy.slice'' @ [CHR 0x0A])]"
  by (simp_all add: plain_files_def proc_files_def sample_kern_def proc_file_def cg_name_def)

lemma sample_regular:
  "is_regular sample_os sample_kern ''/usr/bin/curl''"
  "is_regular sample_os sample_kern ''/usr/bin/v2ray''"
  by (simp_all add: is_regular_def)

lemma sample_resolve:
  "resolve sample_os sample_kern ''/usr/bin/curl'' = ''/usr/bin/curl''"
  "resolve sample_os sample_kern ''/usr/bin/v2ray'' = ''/usr/bin/v2ray''"
  "resolve sample_os sample_kern ''curl'' = ''/usr/bin/curl''"
  by (simp_all add: resolve_def sample_regular output_of_def Let_def is_regular_def)

lemma proc_file_inject [simp]: "proc_file p = proc_file q \<longleftrightarrow> p = q"
  by (simp add: proc_file_def)

lemma proc_file_not_plain: "(proc_file pid, d) \<notin> set (plain_files k)"
  by (simp add: plain_files_def proc_file_def)

lemma map_of_proc_files:
  "map_of (proc_files k) (proc_file pid) =
     map_option (\<lambda>cg. ''0::'' @ cg @ [CHR 0x0A]) (sample_cg_of k pid)"
proof -
  have "map_of (map (\<lambda>(q, n). (proc_file q, ''0::'' @ cg_name n @ [CHR 0x0A])) ps) (proc_file pid) =
      map_option (\<lambda>cg. ''0::'' @ cg @ [CHR 0x0A]) (map_option cg_name (map_of ps pid))" for ps
    by (induction ps) auto
  then show ?thesis by (simp add: proc_files_def sample_cg_of_def)
qed

lemma getlines_sample: "getlines (''0::'' @ cg_name n @ [CHR 0x0A]) = [''0::'' @ cg_name n]"
  by (simp add: getlines_def cg_name_def)

theorem pidof_list_read_witness:
  "fst (run_state (bash_pidof sample_os ''/usr/bin/curl'') sample_world) = Inr [42]"
proof -
  have "pid_line [42] = ''42'' @ [CHR 0x0A]" by code_simp
  then have "os_popen sample_os (c_str (''pidof '' @ ''/usr/bin/curl'')) (kern sample_world)
      = (Some (pid_line [42]), sample_kern)"
    by (simp add: c_str_def)
  from pidof_list_read [OF this] show ?thesis by simp
qed

end
