(* ===== verification/Config.thy ===== *)
theory Config
  imports Json Sample_Kernel
begin

text \<open>
  The configuration object of \<open>src/config.h\<close> and \<open>src/config.cpp\<close>.  A method that changes the
  object takes it and returns it, also when it throws; \<open>loadFromJsonStr\<close> and \<open>loadFromFile\<close>
  return the object and the status, or the exception that leaves the method.

  \<open>config_valid\<close> holds of the default object and survives every load; \<open>reserved\<close> (the built-in
  scope first in each cgroup list, once) is established by every load that succeeds.  A load
  that fails changes nothing.  These three laws are the interface \<open>config_loader\<close> the daemon
  uses, interpreted for both methods.
\<close>

subsection \<open>The object\<close>

record config =
  program_proxy :: "string list"
  program_noproxy :: "string list"
  cgroup_proxy :: "string list"
  cgroup_noproxy :: "string list"
  enable_gateway :: bool
  port :: cint
  enable_dns :: bool
  enable_tcp :: bool
  enable_udp :: bool
  enable_ipv4 :: bool
  enable_ipv6 :: bool
  table :: cint
  fwmark :: cint
  mark_newin :: cint

definition default_config :: config where
  "default_config = \<lparr>
     program_proxy = [CGROUP_PROXY_PRESVERED],
     program_noproxy = [CGROUP_NOPROXY_PRESVERED],
     cgroup_proxy = [],
     cgroup_noproxy = [],
     enable_gateway = False,
     port = 12345,
     enable_dns = True,
     enable_tcp = True,
     enable_udp = True,
     enable_ipv4 = True,
     enable_ipv6 = True,
     table = 10007,
     fwmark = 0x9973,
     mark_newin = 0x9967 \<rparr>"

subsection \<open>To the environment of the script\<close>

fun setenv_all :: "(string \<times> string) list \<Rightarrow> ('k world, unit) state" where
  "setenv_all [] = ret ()"
| "setenv_all ((n, v) # nvs) = do { setenv n v; setenv_all nvs }"

definition config_env :: "config \<Rightarrow> (string \<times> string) list" where
  "config_env c = [
     (''cgroup_mount_point'', CGROUP2_MOUNT_POINT),
     (''program_proxy'', join2str_vec (program_proxy c) (CHR '':'')),
     (''program_noproxy'', join2str_vec (program_noproxy c) (CHR '':'')),
     (''cgroup_proxy'', join2str_vec (cgroup_proxy c) (CHR '':'')),
     (''cgroup_noproxy'', join2str_vec (cgroup_noproxy c) (CHR '':'')),
     (''enable_gateway'', to_str_bool (enable_gateway c)),
     (''port'', to_str_int (port c)),
     (''enable_dns'', to_str_bool (enable_dns c)),
     (''enable_tcp'', to_str_bool (enable_tcp c)),
     (''enable_udp'', to_str_bool (enable_udp c)),
     (''enable_ipv4'', to_str_bool (enable_ipv4 c)),
     (''enable_ipv6'', to_str_bool (enable_ipv6 c)),
     (''table'', to_str_int (table c)),
     (''fwmark'', to_str_int (fwmark c)),
     (''mark_newin'', to_str_int (mark_newin c))]"

definition toEnv :: "config \<Rightarrow> ('k world, unit) state" where
  "toEnv c = setenv_all (config_env c)"

subsection \<open>To JSON\<close>

abbreviation JStrings :: "string list \<Rightarrow> json" where
  "JStrings ss \<equiv> JArray (map JString ss)"

definition config_members :: "config \<Rightarrow> (string \<times> json) list" where
  "config_members c = [
     (''program_proxy'', JStrings (program_proxy c)),
     (''program_noproxy'', JStrings (program_noproxy c)),
     (''cgroup_proxy'', JStrings (cgroup_proxy c)),
     (''cgroup_noproxy'', JStrings (cgroup_noproxy c)),
     (''enable_gateway'', JBool (enable_gateway c)),
     (''port'', JInt (sint (port c))),
     (''enable_dns'', JBool (enable_dns c)),
     (''enable_tcp'', JBool (enable_tcp c)),
     (''enable_udp'', JBool (enable_udp c)),
     (''enable_ipv4'', JBool (enable_ipv4 c)),
     (''enable_ipv6'', JBool (enable_ipv6 c)),
     (''table'', JInt (sint (table c))),
     (''fwmark'', JInt (sint (fwmark c))),
     (''mark_newin'', JInt (sint (mark_newin c)))]"

definition toJsonStr :: "nlohmann \<Rightarrow> config \<Rightarrow> string res" where
  "toJsonStr js c = js_dump js (js_object js (config_members c) JNull)"

text \<open>\<open>setw (4)\<close> pads the string itself to four characters.\<close>

definition setw :: "nat \<Rightarrow> string \<Rightarrow> string" where
  "setw n s = replicate (n - length s) (CHR '' '') @ s"

text \<open>The file is opened, and so emptied, before \<open>toJsonStr\<close> can throw.\<close>

definition saveToFile :: "nlohmann \<Rightarrow> 'k os \<Rightarrow> config \<Rightarrow> string \<Rightarrow> ('k world, cint res) state" where
  "saveToFile js os c f = (case toJsonStr js c of
       Inl e \<Rightarrow> do {
         open \<leftarrow> write_file os f [];
         ret (if \<not> open then Inr FILE_ERROR else Inl e) }
     | Inr s \<Rightarrow> do {
         open \<leftarrow> write_file os f (setw 4 s @ [CHR 0x0A]);
         ret (Inr (if \<not> open then FILE_ERROR else 0)) })"

subsection \<open>Validation\<close>

definition boolset :: "string list" where
  "boolset = [''enable_gateway'', ''enable_dns'', ''enable_tcp'',
              ''enable_udp'', ''enable_ipv4'', ''enable_ipv6'']"

definition allowset :: "string list" where
  "allowset = [''program_proxy'', ''program_noproxy'', ''comment'', ''table'', ''fwmark'',
               ''mark_newin'']"

text \<open>The three tests of a cgroup member, in their order; a conversion can throw.\<close>

definition check_cgroup :: "nlohmann \<Rightarrow> json \<Rightarrow> bool res" where
  "check_cgroup js v =
     res_bind (if is_string v then res_bind (js_string js v) (\<lambda>s. Inr (validCgroup s)) else Inr True)
       (\<lambda>ok1. res_bind
          (if is_array v then res_bind (js_strings js v) (\<lambda>ss. Inr (validCgroup_vec ss)) else Inr True)
          (\<lambda>ok2. Inr (ok1 \<and> ok2 \<and> (is_string v \<or> is_array v))))"

definition check_member :: "nlohmann \<Rightarrow> string \<Rightarrow> json \<Rightarrow> bool res" where
  "check_member js key v =
     (if key = ''cgroup_proxy'' \<or> key = ''cgroup_noproxy'' then check_cgroup js v
      else if key = ''port'' then res_bind (js_int js v) (\<lambda>p. Inr (validPort p))
      else if key \<in> set boolset then Inr (is_boolean v)
      else if key \<in> set allowset then Inr True
      else Inr False)"

fun check_members :: "nlohmann \<Rightarrow> (string \<times> json) list \<Rightarrow> bool res" where
  "check_members js [] = Inr True"
| "check_members js ((key, v) # kvs) =
     res_bind (check_member js key v) (\<lambda>status. if \<not> status then Inr False else check_members js kvs)"

definition validateJsonStr :: "nlohmann \<Rightarrow> string \<Rightarrow> bool res" where
  "validateJsonStr js s = res_bind (js_parse js s) (\<lambda>j. check_members js (js_items js j))"

subsection \<open>Loading\<close>

text \<open>\<open>tryassign\<close>: every \<open>exception\<close> of the access or the conversion leaves the field as it is.\<close>

definition tryassign ::
  "nlohmann \<Rightarrow> json \<Rightarrow> string \<Rightarrow> (json \<Rightarrow> 'a res) \<Rightarrow> ('a \<Rightarrow> config \<Rightarrow> config) \<Rightarrow> config \<Rightarrow> config" where
  "tryassign js j v get_to upd c =
     (case res_bind (js_at js j v) get_to of Inl e \<Rightarrow> c | Inr x \<Rightarrow> upd x c)"

definition assign_members :: "nlohmann \<Rightarrow> json \<Rightarrow> config \<Rightarrow> config" where
  "assign_members js j =
     tryassign js j ''mark_newin'' (js_int js) (\<lambda>x. mark_newin_update (\<lambda>_. x)) \<circ>
     tryassign js j ''fwmark'' (js_int js) (\<lambda>x. fwmark_update (\<lambda>_. x)) \<circ>
     tryassign js j ''table'' (js_int js) (\<lambda>x. table_update (\<lambda>_. x)) \<circ>
     tryassign js j ''enable_ipv6'' (js_bool js) (\<lambda>x. enable_ipv6_update (\<lambda>_. x)) \<circ>
     tryassign js j ''enable_ipv4'' (js_bool js) (\<lambda>x. enable_ipv4_update (\<lambda>_. x)) \<circ>
     tryassign js j ''enable_udp'' (js_bool js) (\<lambda>x. enable_udp_update (\<lambda>_. x)) \<circ>
     tryassign js j ''enable_tcp'' (js_bool js) (\<lambda>x. enable_tcp_update (\<lambda>_. x)) \<circ>
     tryassign js j ''enable_dns'' (js_bool js) (\<lambda>x. enable_dns_update (\<lambda>_. x)) \<circ>
     tryassign js j ''port'' (js_int js) (\<lambda>x. port_update (\<lambda>_. x)) \<circ>
     tryassign js j ''enable_gateway'' (js_bool js) (\<lambda>x. enable_gateway_update (\<lambda>_. x)) \<circ>
     tryassign js j ''cgroup_noproxy'' (js_strings js) (\<lambda>x. cgroup_noproxy_update (\<lambda>_. x)) \<circ>
     tryassign js j ''cgroup_proxy'' (js_strings js) (\<lambda>x. cgroup_proxy_update (\<lambda>_. x)) \<circ>
     tryassign js j ''program_noproxy'' (js_strings js) (\<lambda>x. program_noproxy_update (\<lambda>_. x)) \<circ>
     tryassign js j ''program_proxy'' (js_strings js) (\<lambda>x. program_proxy_update (\<lambda>_. x))"

fun toRealProgramPath :: "'k os \<Rightarrow> string list \<Rightarrow> ('k world, string list) state" where
  "toRealProgramPath os [] = ret []"
| "toRealProgramPath os (p # v) = do {
     rpath \<leftarrow> getRealExistPath os p;
     tmp \<leftarrow> toRealProgramPath os v;
     ret (if rpath \<noteq> [] then rpath # tmp else tmp) }"

text \<open>The macro \<open>merge\<close>: erase every occurrence, insert at the front.\<close>

definition merge_front :: "string \<Rightarrow> string list \<Rightarrow> string list" where
  "merge_front p v = p # filter (\<lambda>x. x \<noteq> p) v"

definition mergeReserved :: "config \<Rightarrow> config" where
  "mergeReserved c = c\<lparr>cgroup_proxy := merge_front CGROUP_PROXY_PRESVERED (cgroup_proxy c),
     cgroup_noproxy := merge_front CGROUP_NOPROXY_PRESVERED (cgroup_noproxy c)\<rparr>"

definition loadFromJsonStr ::
  "nlohmann \<Rightarrow> 'k os \<Rightarrow> string \<Rightarrow> config \<Rightarrow> ('k world, config \<times> cint res) state" where
  "loadFromJsonStr js os s c = (case validateJsonStr js s of
       Inl e \<Rightarrow> ret (c, Inl e)
     | Inr valid \<Rightarrow>
         if \<not> valid then ret (c, Inr PARAM_ERROR)
         else (case js_parse js s of
             Inl e \<Rightarrow> ret (c, Inl e)
           | Inr j \<Rightarrow> do {
               c1 \<leftarrow> ret (assign_members js j c);
               np \<leftarrow> toRealProgramPath os (program_noproxy c1);
               c2 \<leftarrow> ret (c1\<lparr>program_noproxy := np\<rparr>);
               pp \<leftarrow> toRealProgramPath os (program_proxy c2);
               c3 \<leftarrow> ret (c2\<lparr>program_proxy := pp\<rparr>);
               ret (mergeReserved c3, Inr 0) }))"

definition loadFromFile ::
  "nlohmann \<Rightarrow> 'k os \<Rightarrow> string \<Rightarrow> config \<Rightarrow> ('k world, config \<times> cint res) state" where
  "loadFromFile js os f c = do {
     ifs \<leftarrow> read_file os f;
     case ifs of
       Some s \<Rightarrow> loadFromJsonStr js os s c
     | None \<Rightarrow> ret (c, Inr FILE_ERROR) }"

subsection \<open>What validation accepts\<close>

definition member_ok :: "nlohmann \<Rightarrow> string \<times> json \<Rightarrow> bool" where
  "member_ok js kv = (check_member js (fst kv) (snd kv) = Inr True)"

lemma check_members_True: "check_members js kvs = Inr True \<longleftrightarrow> list_all (member_ok js) kvs"
proof (induction kvs)
  case Nil
  then show ?case by simp
next
  case (Cons kv kvs)
  then show ?case
    by (cases kv; cases "check_member js (fst kv) (snd kv)") (auto simp: member_ok_def)
qed

lemma js_at_Inr:
  assumes "js_documented js" and "js_at js j k = Inr v"
  shows "(k, v) \<in> set (js_items js j)"
proof -
  obtain kvs where "j = JObject kvs" and "map_of kvs k = Some v"
    using assms by (cases j) (auto simp: js_documented_def js_at_law_def split: option.splits)
  then show ?thesis by (simp add: js_items_doc [OF assms(1)] map_of_SomeD)
qed

lemma validated_at:
  assumes "js_documented js" and "check_members js (js_items js j) = Inr True"
    and "js_at js j k = Inr v"
  shows "check_member js k v = Inr True"
  using js_at_Inr [OF assms(1,3)] assms(2)
  by (auto simp: check_members_True list_all_iff member_ok_def)

lemma check_cgroup_strings:
  assumes "js_documented js" and "check_cgroup js v = Inr True" and "js_strings js v = Inr ss"
  shows "validCgroup_vec ss"
proof -
  have "is_array v"
    using assms(1,3) by (cases "is_array v") (auto simp: js_documented_def js_get_law_def)
  then have "\<not> is_string v" by (cases v) auto
  with \<open>is_array v\<close> show ?thesis using assms(2,3) by (simp add: check_cgroup_def)
qed

subsection \<open>What loading assigns\<close>

definition assigned :: "nlohmann \<Rightarrow> json \<Rightarrow> string \<Rightarrow> (json \<Rightarrow> 'a res) \<Rightarrow> 'a \<Rightarrow> 'a" where
  "assigned js j v get_to old =
     (case res_bind (js_at js j v) get_to of Inl e \<Rightarrow> old | Inr x \<Rightarrow> x)"

lemma tryassign_update:
  "upd (\<lambda>x. x) c = c \<Longrightarrow>
   tryassign js j v get_to (\<lambda>x. upd (\<lambda>_. x)) c = upd (\<lambda>old. assigned js j v get_to old) c"
  by (auto simp: tryassign_def assigned_def split: sum.splits)

lemma assign_members_eq:
  "assign_members js j c = \<lparr>
     program_proxy = assigned js j ''program_proxy'' (js_strings js) (program_proxy c),
     program_noproxy = assigned js j ''program_noproxy'' (js_strings js) (program_noproxy c),
     cgroup_proxy = assigned js j ''cgroup_proxy'' (js_strings js) (cgroup_proxy c),
     cgroup_noproxy = assigned js j ''cgroup_noproxy'' (js_strings js) (cgroup_noproxy c),
     enable_gateway = assigned js j ''enable_gateway'' (js_bool js) (enable_gateway c),
     port = assigned js j ''port'' (js_int js) (port c),
     enable_dns = assigned js j ''enable_dns'' (js_bool js) (enable_dns c),
     enable_tcp = assigned js j ''enable_tcp'' (js_bool js) (enable_tcp c),
     enable_udp = assigned js j ''enable_udp'' (js_bool js) (enable_udp c),
     enable_ipv4 = assigned js j ''enable_ipv4'' (js_bool js) (enable_ipv4 c),
     enable_ipv6 = assigned js j ''enable_ipv6'' (js_bool js) (enable_ipv6 c),
     table = assigned js j ''table'' (js_int js) (table c),
     fwmark = assigned js j ''fwmark'' (js_int js) (fwmark c),
     mark_newin = assigned js j ''mark_newin'' (js_int js) (mark_newin c) \<rparr>"
  by (cases c) (simp add: assign_members_def tryassign_update)

lemma assigned_cases:
  "(\<And>e. res_bind (js_at js j v) get_to = Inl e \<Longrightarrow> P old) \<Longrightarrow>
   (\<And>y x. js_at js j v = Inr y \<Longrightarrow> get_to y = Inr x \<Longrightarrow> P x) \<Longrightarrow> P (assigned js j v get_to old)"
  unfolding assigned_def by (cases "js_at js j v") (auto split: sum.splits)

subsection \<open>The invariants\<close>

definition config_valid :: "config \<Rightarrow> bool" where
  "config_valid c = (validCgroup_vec (cgroup_proxy c) \<and> validCgroup_vec (cgroup_noproxy c) \<and>
     validPort (port c))"

definition reserved_first :: "string \<Rightarrow> string list \<Rightarrow> bool" where
  "reserved_first p v = (v \<noteq> [] \<and> hd v = p \<and> p \<notin> set (tl v))"

definition reserved :: "config \<Rightarrow> bool" where
  "reserved c = (reserved_first CGROUP_PROXY_PRESVERED (cgroup_proxy c) \<and>
     reserved_first CGROUP_NOPROXY_PRESVERED (cgroup_noproxy c))"

lemma default_config_valid: "config_valid default_config"
  by (simp add: config_valid_def default_config_def validCgroup_vec_def validPort_def)

lemma merge_front_reserved: "reserved_first p (merge_front p v)"
  by (simp add: merge_front_def reserved_first_def)

lemma merge_front_id: "reserved_first p v \<Longrightarrow> merge_front p v = v"
  by (cases v) (auto simp: merge_front_def reserved_first_def filter_id_conv)

lemma merge_front_set: "set (merge_front p v) = insert p (set v)"
  by (auto simp: merge_front_def)

lemma merge_front_valid: "validCgroup p \<Longrightarrow> validCgroup_vec v \<Longrightarrow> validCgroup_vec (merge_front p v)"
  by (auto simp: merge_front_def validCgroup_vec_def list_all_iff)

lemma mergeReserved_reserved: "reserved (mergeReserved c)"
  by (simp add: reserved_def mergeReserved_def merge_front_reserved)

lemma mergeReserved_id: "reserved c \<Longrightarrow> mergeReserved c = c"
  by (simp add: reserved_def mergeReserved_def merge_front_id)

lemma mergeReserved_valid: "config_valid c \<Longrightarrow> config_valid (mergeReserved c)"
  by (simp add: config_valid_def mergeReserved_def merge_front_valid)

lemma assign_members_valid:
  assumes doc: "js_documented js" and ok: "check_members js (js_items js j) = Inr True"
    and "config_valid c"
  shows "config_valid (assign_members js j c)"
proof -
  have cgroups: "validCgroup_vec (assigned js j k (js_strings js) old)"
    if "validCgroup_vec old" "k = ''cgroup_proxy'' \<or> k = ''cgroup_noproxy''" for k old
  proof (rule assigned_cases)
    fix y x
    assume at: "js_at js j k = Inr y" and strs: "js_strings js y = Inr x"
    from validated_at [OF doc ok at] that(2) have "check_cgroup js y = Inr True"
      by (auto simp: check_member_def)
    from check_cgroup_strings [OF doc this strs] show "validCgroup_vec x" .
  qed (rule that(1))
  have "validPort (assigned js j ''port'' (js_int js) (port c))"
  proof (rule assigned_cases)
    fix y x
    assume at: "js_at js j ''port'' = Inr y" and int: "js_int js y = Inr x"
    from validated_at [OF doc ok at] int show "validPort x" by (simp add: check_member_def)
  qed (use assms(3) in \<open>simp add: config_valid_def\<close>)
  then show ?thesis
    using assms(3) cgroups unfolding config_valid_def assign_members_eq by simp
qed

subsection \<open>The loader's contract\<close>

lemma load_outcome:
  assumes "run_state (loadFromJsonStr js os s c) w = ((c', r), w')"
  obtains (failed) "c' = c" "r \<noteq> Inr 0" "w' = w"
  | (loaded) j np pp where "js_parse js s = Inr j" "check_members js (js_items js j) = Inr True"
      "c' = mergeReserved ((assign_members js j c)\<lparr>program_noproxy := np, program_proxy := pp\<rparr>)"
      "r = Inr 0"
proof (cases "validateJsonStr js s")
  case (Inl e)
  with assms failed show ?thesis by (auto simp: loadFromJsonStr_def)
next
  case (Inr v)
  then obtain j where "js_parse js s = Inr j" "check_members js (js_items js j) = Inr v"
    by (auto simp: validateJsonStr_def res_bind_Inr_iff)
  with Inr assms failed loaded show ?thesis
    by (cases v) (auto simp: loadFromJsonStr_def PARAM_ERROR_def split: prod.splits)
qed

text \<open>The two questions a load asks the shell.\<close>

definition asks_path :: "event \<Rightarrow> bool" where
  "asks_path e = (\<exists>name. e = Popen (c_str (''which '' @ name)) \<or> e = Popen (c_str (''readlink -e '' @ name)))"

lemma asks_path_cmds:
  "asks_path (Popen (c_str (''which '' @ name)))" "asks_path (Popen (c_str (''readlink -e '' @ name)))"
  unfolding asks_path_def by blast+

lemma asks_path_popen: "asks_path e \<Longrightarrow> \<exists>cmd. e = Popen cmd"
  by (auto simp: asks_path_def)

locale config_loader =
  fixes load :: "'c \<Rightarrow> ('k world, 'c \<times> cint res) state"
    and valid :: "'c \<Rightarrow> bool" and built_in :: "'c \<Rightarrow> bool"
  assumes load_valid: "valid c \<Longrightarrow> run_state (load c) w = ((c', r), w') \<Longrightarrow> valid c'"
    and load_built_in: "run_state (load c) w = ((c', Inr 0), w') \<Longrightarrow> built_in c'"
    and load_failed: "run_state (load c) w = ((c', r), w') \<Longrightarrow> r \<noteq> Inr 0 \<Longrightarrow> c' = c"
    and load_emits: "emits asks_path (load c)"
    and load_environ: "keeps (\<lambda>w. environ w = env) (load c)"
begin

lemma load_built_in_kept: "built_in c \<Longrightarrow> run_state (load c) w = ((c', r), w') \<Longrightarrow> built_in c'"
  using load_built_in load_failed by (cases "r = Inr 0") blast+

lemma load_queries_only:
  "run_state (load c) w = ((c', r), w') \<Longrightarrow>
     \<exists>cmds. trace w' = trace w @ map Popen cmds"
proof -
  assume run: "run_state (load c) w = ((c', r), w')"
  have "emits (\<lambda>e. \<exists>cmd. e = Popen cmd) (load c)" by (rule emits_mono [OF load_emits]) (rule asks_path_popen)
  from emitsD [OF this run] obtain es where es: "trace w' = trace w @ es" "list_all (\<lambda>e. \<exists>cmd. e = Popen cmd) es" by blast
  then have "\<exists>cmds. es = map Popen cmds" by (simp add: ex_map_conv list_all_iff)
  with es(1) show ?thesis by blast
qed

end

lemma emits_bash_output: "A (Popen (c_str cmd)) \<Longrightarrow> emits A (bash_output os cmd)"
  unfolding bash_output_def by (auto intro!: emits_popen split: option.splits)

lemma emits_bash_which: "emits asks_path (bash_which os name)"
  and emits_bash_readlink: "emits asks_path (bash_readlink os path)"
  unfolding bash_which_def bash_readlink_def by (intro emits_bash_output asks_path_cmds)+

lemma emits_getRealExistPath: "emits asks_path (getRealExistPath os p)"
  unfolding getRealExistPath_def
  by (auto intro!: emits_bash_which emits_bash_readlink)

lemma emits_toRealProgramPath: "emits asks_path (toRealProgramPath os v)"
  by (induction v) (auto intro!: emits_getRealExistPath)

lemma emits_loadFromJsonStr: "emits asks_path (loadFromJsonStr js os s c)"
  unfolding loadFromJsonStr_def by (auto intro!: emits_toRealProgramPath split: sum.splits)

lemma emits_loadFromFile: "emits asks_path (loadFromFile js os f c)"
  unfolding loadFromFile_def by (auto intro!: emits_loadFromJsonStr split: option.splits)

lemma keeps_environ_load:
  "keeps (\<lambda>w. environ w = env) (loadFromJsonStr js os s c)"
proof -
  have "keeps (\<lambda>w. environ w = env) (toRealProgramPath os v)" for v
    by (induction v) auto
  then show ?thesis unfolding loadFromJsonStr_def by (auto split: sum.splits)
qed

lemma keeps_environ_load_file: "keeps (\<lambda>w. environ w = env) (loadFromFile js os f c)"
  unfolding loadFromFile_def by (auto intro!: keeps_environ_load split: option.splits)

lemma load_outcome_file:
  assumes "run_state (loadFromFile js os f c) w = ((c', r), w')"
  obtains (unread) "c' = c" "r = Inr FILE_ERROR"
  | (read) s w1 where "run_state (loadFromJsonStr js os s c) w1 = ((c', r), w')"
proof -
  obtain t w1 where "run_state (read_file os f) w = (t, w1)" by fastforce
  with assms unread read show ?thesis
    by (cases t) (auto simp: loadFromFile_def)
qed

text \<open>Validity speaks of the documented library, hence the implication in the instance.\<close>

interpretation json_str: config_loader "loadFromJsonStr js os s"
  "\<lambda>c. js_documented js \<longrightarrow> config_valid c" reserved
proof
  fix c c' w w' r
  show "js_documented js \<longrightarrow> config_valid c'"
    if "js_documented js \<longrightarrow> config_valid c"
      and "run_state (loadFromJsonStr js os s c) w = ((c', r), w')"
    using that(2)
  proof (cases rule: load_outcome)
    case failed
    with that(1) show ?thesis by simp
  next
    case (loaded j np pp)
    have "config_valid (d\<lparr>program_noproxy := np, program_proxy := pp\<rparr>) = config_valid d" for d
      by (simp add: config_valid_def)
    with loaded that(1) show ?thesis by (simp add: mergeReserved_valid assign_members_valid)
  qed
  show "reserved c'" if "run_state (loadFromJsonStr js os s c) w = ((c', Inr 0), w')"
    using that by (cases rule: load_outcome) (auto simp: mergeReserved_reserved)
  show "c' = c" if "run_state (loadFromJsonStr js os s c) w = ((c', r), w')" "r \<noteq> Inr 0"
    using that(1) by (cases rule: load_outcome) (use that(2) in auto)
  show "emits asks_path (loadFromJsonStr js os s c)"
    by (rule emits_loadFromJsonStr)
  show "keeps (\<lambda>w. environ w = env) (loadFromJsonStr js os s c)" for env
    by (rule keeps_environ_load)
qed

interpretation json_file: config_loader "loadFromFile js os f"
  "\<lambda>c. js_documented js \<longrightarrow> config_valid c" reserved
proof
  fix c c' w w' r
  show "js_documented js \<longrightarrow> config_valid c'"
    if "js_documented js \<longrightarrow> config_valid c"
      and "run_state (loadFromFile js os f c) w = ((c', r), w')"
    using that(2)
  proof (cases rule: load_outcome_file)
    case unread
    with that(1) show ?thesis by simp
  next
    case (read s w1)
    from json_str.load_valid [OF that(1) this] show ?thesis .
  qed
  show "reserved c'" if "run_state (loadFromFile js os f c) w = ((c', Inr 0), w')"
    using that by (cases rule: load_outcome_file)
      (auto simp: FILE_ERROR_def intro: json_str.load_built_in)
  show "c' = c" if "run_state (loadFromFile js os f c) w = ((c', r), w')" "r \<noteq> Inr 0"
    using that(1) by (cases rule: load_outcome_file) (use that(2) json_str.load_failed in auto)
  show "emits asks_path (loadFromFile js os f c)"
    by (rule emits_loadFromFile)
  show "keeps (\<lambda>w. environ w = env) (loadFromFile js os f c)" for env
    by (rule keeps_environ_load_file)
qed

subsection \<open>Validation against its specification\<close>

text \<open>What a member of a configuration document has to be, said over JSON values.\<close>

fun cgroup_value :: "json \<Rightarrow> bool" where
  "cgroup_value (JString s) = validCgroup s"
| "cgroup_value (JArray vs) = (\<forall>v \<in> set vs. case v of JString s \<Rightarrow> validCgroup s | _ \<Rightarrow> False)"
| "cgroup_value _ = False"

definition acceptable :: "nlohmann \<Rightarrow> string \<times> json \<Rightarrow> bool" where
  "acceptable js kv = (case kv of (k, v) \<Rightarrow>
     (k \<in> {''cgroup_proxy'', ''cgroup_noproxy''} \<and> cgroup_value v) \<or>
     (k = ''port'' \<and> (\<exists>p. js_int js v = Inr p \<and> 0 < sint p)) \<or>
     (k \<in> {''enable_gateway'', ''enable_dns'', ''enable_tcp'', ''enable_udp'', ''enable_ipv4'',
           ''enable_ipv6''} \<and> is_boolean v) \<or>
     k \<in> {''program_proxy'', ''program_noproxy'', ''comment'', ''table'', ''fwmark'', ''mark_newin''})"

lemma check_cgroup_spec:
  assumes "js_documented js"
  shows "check_cgroup js v = Inr True \<longleftrightarrow> cgroup_value v"
proof (cases v)
  case (JString s)
  then show ?thesis by (simp add: check_cgroup_def js_get_doc [OF assms])
next
  case (JArray vs)
  show ?thesis
  proof (cases "\<forall>x \<in> set vs. is_string x")
    case True
    then obtain ss where "vs = map JString ss" using all_strings_map by blast
    with JArray show ?thesis
      by (simp add: check_cgroup_def js_get_doc [OF assms] validCgroup_vec_def list_all_iff)
  next
    case False
    then obtain x where "x \<in> set vs" "\<not> is_string x" by blast
    moreover from this(2) have "\<not> (case x of JString s \<Rightarrow> validCgroup s | _ \<Rightarrow> False)"
      by (cases x) auto
    ultimately have "\<not> cgroup_value v" using JArray by auto
    moreover have "check_cgroup js v \<noteq> Inr True"
      using False JArray by (simp add: check_cgroup_def js_strings_mixed [OF assms])
    ultimately show ?thesis by simp
  qed
qed (simp_all add: check_cgroup_def)

lemma key_classes:
  shows "k = ''cgroup_proxy'' \<or> k = ''cgroup_noproxy'' \<Longrightarrow>
      k \<noteq> ''port'' \<and> k \<notin> set boolset \<and> k \<notin> set allowset"
    and "k = ''port'' \<Longrightarrow> k \<notin> set boolset \<and> k \<notin> set allowset"
    and "k \<in> set boolset \<Longrightarrow>
      k \<noteq> ''cgroup_proxy'' \<and> k \<noteq> ''cgroup_noproxy'' \<and> k \<noteq> ''port'' \<and> k \<notin> set allowset"
    and "k \<in> set allowset \<Longrightarrow>
      k \<noteq> ''cgroup_proxy'' \<and> k \<noteq> ''cgroup_noproxy'' \<and> k \<noteq> ''port'' \<and> k \<notin> set boolset"
  by (auto simp: boolset_def allowset_def)

lemma acceptable_sets:
  "acceptable js (k, v) \<longleftrightarrow>
     (k \<in> {''cgroup_proxy'', ''cgroup_noproxy''} \<and> cgroup_value v) \<or>
     (k = ''port'' \<and> (\<exists>p. js_int js v = Inr p \<and> 0 < sint p)) \<or>
     (k \<in> set boolset \<and> is_boolean v) \<or> k \<in> set allowset"
  unfolding acceptable_def boolset_def allowset_def prod.case list.set ..

lemma member_ok_spec:
  assumes "js_documented js"
  shows "member_ok js kv \<longleftrightarrow> acceptable js kv"
proof -
  obtain k v where kv: "kv = (k, v)" by fastforce
  consider (cg) "k = ''cgroup_proxy'' \<or> k = ''cgroup_noproxy''" | (port) "k = ''port''"
    | (bool) "k \<in> set boolset" | (allow) "k \<in> set allowset"
    | (other) "k \<notin> {''cgroup_proxy'', ''cgroup_noproxy'', ''port''} \<union> set boolset \<union> set allowset"
    by blast
  then show ?thesis
  proof cases
    case cg
    with key_classes(1) [OF cg] show ?thesis
      by (auto simp: kv member_ok_def check_member_def acceptable_sets check_cgroup_spec [OF assms])
  next
    case port
    with key_classes(2) [OF port] show ?thesis
      by (auto simp: kv member_ok_def check_member_def acceptable_sets res_bind_Inr_iff validPort_def)
  next
    case bool
    with key_classes(3) [OF bool] show ?thesis
      by (auto simp: kv member_ok_def check_member_def acceptable_sets)
  next
    case allow
    with key_classes(4) [OF allow] show ?thesis
      by (auto simp: kv member_ok_def check_member_def acceptable_sets)
  next
    case other
    then show ?thesis by (simp add: kv member_ok_def check_member_def acceptable_sets)
  qed
qed

text \<open>C24. Validation accepts exactly the documents whose every member is acceptable.\<close>

theorem validate_refines_spec:
  assumes "js_documented js" and "js_parse js s = Inr j"
  shows "validateJsonStr js s = Inr True \<longleftrightarrow> list_all (acceptable js) (js_items js j)"
proof -
  have "member_ok js = acceptable js" by (rule ext) (rule member_ok_spec [OF assms(1)])
  then show ?thesis using assms(2) by (simp add: validateJsonStr_def check_members_True)
qed

subsection \<open>Round trip through JSON\<close>

lemma config_members_ok:
  assumes "js_documented js" and "config_valid c"
  shows "list_all (member_ok js) (config_members c)"
proof -
  have v: "list_all validCgroup (cgroup_proxy c)" "list_all validCgroup (cgroup_noproxy c)"
      "0 < sint (port c)"
    using assms(2) by (simp_all add: config_valid_def validCgroup_vec_def validPort_def)
  show ?thesis
    using v by (simp add: config_members_def member_ok_spec [OF assms(1)] acceptable_def boolset_def
        allowset_def js_get_doc [OF assms(1)] list_all_iff)
qed

lemma config_document:
  assumes "js_documented js"
  obtains kvs where "js_object js (config_members c) JNull = JObject kvs"
    "distinct (map fst kvs)" "map_of kvs = map_of (config_members c)"
proof -
  have ne: "config_members c \<noteq> []" by (simp add: config_members_def)
  have "distinct (map fst (config_members c))" by (simp add: config_members_def)
  then have "map_of (rev (config_members c)) = map_of (config_members c)"
    by (rule distinct_map_of_rev)
  with js_object_map_of [OF assms ne] that show ?thesis by auto
qed

lemma config_lookup:
  "map_of (config_members c) ''program_proxy'' = Some (JStrings (program_proxy c))"
  "map_of (config_members c) ''program_noproxy'' = Some (JStrings (program_noproxy c))"
  "map_of (config_members c) ''cgroup_proxy'' = Some (JStrings (cgroup_proxy c))"
  "map_of (config_members c) ''cgroup_noproxy'' = Some (JStrings (cgroup_noproxy c))"
  "map_of (config_members c) ''enable_gateway'' = Some (JBool (enable_gateway c))"
  "map_of (config_members c) ''port'' = Some (JInt (sint (port c)))"
  "map_of (config_members c) ''enable_dns'' = Some (JBool (enable_dns c))"
  "map_of (config_members c) ''enable_tcp'' = Some (JBool (enable_tcp c))"
  "map_of (config_members c) ''enable_udp'' = Some (JBool (enable_udp c))"
  "map_of (config_members c) ''enable_ipv4'' = Some (JBool (enable_ipv4 c))"
  "map_of (config_members c) ''enable_ipv6'' = Some (JBool (enable_ipv6 c))"
  "map_of (config_members c) ''table'' = Some (JInt (sint (table c)))"
  "map_of (config_members c) ''fwmark'' = Some (JInt (sint (fwmark c)))"
  "map_of (config_members c) ''mark_newin'' = Some (JInt (sint (mark_newin c)))"
  by (simp_all add: config_members_def)

lemma assigned_own:
  assumes "js_documented js" and "map_of (config_members c) k = Some v" and "get_to v = Inr x"
  shows "assigned js (js_object js (config_members c) JNull) k get_to old = x"
proof -
  from assms(1) obtain kvs where kvs: "js_object js (config_members c) JNull = JObject kvs"
      "map_of kvs = map_of (config_members c)"
    by (rule config_document)
  show ?thesis by (simp add: assigned_def kvs js_at_doc(1) [OF assms(1)] assms(2,3))
qed

lemma assign_own_members:
  assumes "js_documented js"
  shows "assign_members js (js_object js (config_members c) JNull) c0 = c"
proof -
  note own = config_lookup [where c = c, THEN assigned_own [OF assms]]
  show ?thesis
    unfolding assign_members_eq by (simp add: own js_get_doc [OF assms])
qed

lemma own_document_valid:
  assumes "js_documented js" and "config_valid c"
  shows "check_members js (js_items js (js_object js (config_members c) JNull)) = Inr True"
proof -
  from assms(1) obtain kvs where kvs: "js_object js (config_members c) JNull = JObject kvs"
      "distinct (map fst kvs)" "map_of kvs = map_of (config_members c)"
    by (rule config_document)
  have "member_ok js kv" if "kv \<in> set kvs" for kv
  proof -
    have "map_of kvs (fst kv) = Some (snd kv)"
      using that kvs(2) by (simp add: map_of_eq_Some_iff)
    then have "(fst kv, snd kv) \<in> set (config_members c)"
      unfolding kvs(3) by (rule map_of_SomeD)
    then show ?thesis using config_members_ok [OF assms] by (simp add: list_all_iff)
  qed
  then show ?thesis
    by (simp add: check_members_True kvs(1) js_items_doc(1) [OF assms(1)] list_all_iff)
qed

text \<open>The program lists are replaced by the files their names lead to.\<close>

definition resolve_all :: "'k os \<Rightarrow> 'k \<Rightarrow> string list \<Rightarrow> string list" where
  "resolve_all os k v = filter (\<lambda>p. p \<noteq> []) (map (resolve os k) v)"

lemma run_toRealProgramPath_quiet:
  assumes "quiet_queries os"
  shows "\<exists>es. run_state (toRealProgramPath os v) w =
     (resolve_all os (kern w) v, w\<lparr>trace := trace w @ es\<rparr>)"
proof (induction v arbitrary: w)
  case Nil
  have "run_state (toRealProgramPath os []) w = (resolve_all os (kern w) [], w\<lparr>trace := trace w @ []\<rparr>)"
    by (simp add: resolve_all_def)
  then show ?case by blast
next
  case (Cons p v)
  obtain es1 where 1: "run_state (getRealExistPath os p) w =
      (resolve os (kern w) p, w\<lparr>trace := trace w @ es1\<rparr>)"
    using run_getRealExistPath_quiet [OF assms] by blast
  obtain es2 where 2: "run_state (toRealProgramPath os v) (w\<lparr>trace := trace w @ es1\<rparr>) =
      (resolve_all os (kern w) v, w\<lparr>trace := trace w @ es1 @ es2\<rparr>)"
    using Cons.IH [of "w\<lparr>trace := trace w @ es1\<rparr>"] by auto
  have "run_state (toRealProgramPath os (p # v)) w =
      (resolve_all os (kern w) (p # v), w\<lparr>trace := trace w @ (es1 @ es2)\<rparr>)"
    by (simp add: 1 2 resolve_all_def)
  then show ?case by blast
qed

lemma run_load_quiet:
  assumes "quiet_queries os" and "validateJsonStr js s = Inr True" and "js_parse js s = Inr j"
    and "assign_members js j c0 = c"
  shows "\<exists>es. run_state (loadFromJsonStr js os s c0) w =
    ((mergeReserved (c\<lparr>program_noproxy := resolve_all os (kern w) (program_noproxy c),
        program_proxy := resolve_all os (kern w) (program_proxy c)\<rparr>), Inr SUCCESS),
     w\<lparr>trace := trace w @ es\<rparr>)"
proof -
  obtain es1 where 1: "run_state (toRealProgramPath os (program_noproxy c)) w =
      (resolve_all os (kern w) (program_noproxy c), w\<lparr>trace := trace w @ es1\<rparr>)"
    using run_toRealProgramPath_quiet [OF assms(1)] by blast
  obtain es2 where 2: "run_state (toRealProgramPath os (program_proxy c)) (w\<lparr>trace := trace w @ es1\<rparr>) =
      (resolve_all os (kern w) (program_proxy c), w\<lparr>trace := trace w @ es1 @ es2\<rparr>)"
    using run_toRealProgramPath_quiet [OF assms(1), of "program_proxy c" "w\<lparr>trace := trace w @ es1\<rparr>"]
    by auto
  show ?thesis
    by (intro exI [of _ "es1 @ es2"]) (simp add: loadFromJsonStr_def assms(2-4) 1 2 SUCCESS_def)
qed

text \<open>
  C21. A configuration printed by \<open>toJsonStr\<close> and loaded again, over any earlier configuration,
  is accepted and comes back field by field: the scopes merged with the built-in ones, the
  programs resolved to the files they lead to, everything else unchanged.
\<close>

theorem config_roundtrip:
  assumes "js_documented js" and "quiet_queries os" and "config_valid c"
    and "toJsonStr js c = Inr s"
    and "js_parse js s = Inr (js_object js (config_members c) JNull)"
  shows "\<exists>es. run_state (loadFromJsonStr js os s c0) w =
    ((mergeReserved (c\<lparr>program_noproxy := resolve_all os (kern w) (program_noproxy c),
        program_proxy := resolve_all os (kern w) (program_proxy c)\<rparr>), Inr SUCCESS),
     w\<lparr>trace := trace w @ es\<rparr>)"
proof (rule run_load_quiet [OF assms(2) _ assms(5)])
  show "validateJsonStr js s = Inr True"
    using own_document_valid [OF assms(1,3)] by (simp add: validateJsonStr_def assms(5))
  show "assign_members js (js_object js (config_members c) JNull) c0 = c"
    by (rule assign_own_members [OF assms(1)])
qed

text \<open>A configuration, and a library whose parser reads it.\<close>

definition sample_config :: config where
  "sample_config = default_config\<lparr>
     program_proxy := [''/usr/bin/curl''], program_noproxy := [''/usr/bin/v2ray''],
     cgroup_proxy := [''/proxy.slice'', ''/user.slice''], cgroup_noproxy := [''/noproxy.slice'']\<rparr>"

definition sample_js :: "json \<Rightarrow> nlohmann" where
  "sample_js j = documented_js (\<lambda>_. Inr j) (\<lambda>_. Inr ''doc'') (\<lambda>_. 0)"

lemma sample_js_documented: "js_documented (sample_js j)"
  by (simp add: sample_js_def documented_js_documented)

lemma sample_js_parse [simp]: "js_parse (sample_js j) s = Inr j"
  and sample_js_dump [simp]: "js_dump (sample_js j) d = Inr ''doc''"
  by (simp_all add: sample_js_def documented_js_def)

lemma sample_js_object:
  "js_object (sample_js j) (config_members c) JNull = JObject (config_members c)"
  by (simp add: sample_js_def documented_js_def config_members_def)

lemma sample_config_valid: "config_valid sample_config"
  by (simp add: config_valid_def sample_config_def default_config_def validCgroup_vec_def
      validCgroup_def cgroup_char_def char_in_def validPort_def)

theorem validate_refines_spec_witness:
  "validateJsonStr (sample_js (JObject [(''port'', JInt 0)])) ''doc'' \<noteq> Inr True"
proof -
  let ?js = "sample_js (JObject [(''port'', JInt 0)])"
  have int: "js_int ?js (JInt 0) = Inr 0"
    using js_get_doc(1) [OF sample_js_documented, of _ 0] by simp
  show ?thesis
    using validate_refines_spec [OF sample_js_documented, where s = "''doc''"
        and j = "JObject [(''port'', JInt 0)]"] int
    by (simp add: js_items_doc [OF sample_js_documented] acceptable_def boolset_def allowset_def)
qed

lemma sample_config_reserved: "reserved sample_config"
  by (simp add: reserved_def reserved_first_def sample_config_def preserved_defs)

theorem config_roundtrip_witness:
  "\<exists>es. run_state (loadFromJsonStr (sample_js (JObject (config_members sample_config)))
      sample_os ''doc'' default_config) sample_world
    = ((sample_config, Inr SUCCESS), sample_world\<lparr>trace := trace sample_world @ es\<rparr>)"
proof -
  let ?js = "sample_js (JObject (config_members sample_config))"
  have json: "toJsonStr ?js sample_config = Inr ''doc''" by (simp add: toJsonStr_def)
  have parse: "js_parse ?js ''doc'' = Inr (js_object ?js (config_members sample_config) JNull)"
    by (simp add: sample_js_object)
  have merged: "mergeReserved (sample_config\<lparr>
      program_noproxy := resolve_all sample_os (kern sample_world) (program_noproxy sample_config),
      program_proxy := resolve_all sample_os (kern sample_world) (program_proxy sample_config)\<rparr>)
      = sample_config"
    by (simp add: sample_config_def mergeReserved_def merge_front_def preserved_defs
        resolve_all_def sample_resolve)
  show ?thesis
    using config_roundtrip [OF sample_js_documented sample_quiet(1) sample_config_valid json parse,
        of default_config sample_world]
    by (simp only: merged)
qed

subsection \<open>Loading\<close>

text \<open>
  C20. Loading is a transaction: the object stays valid; a load that returns \<open>SUCCESS\<close> leaves the
  built-in scopes first in both lists, once; a load that returns any other status, or throws,
  leaves the object as it was; and outside the process nothing happens but the queries.
\<close>

theorem load_transactional:
  assumes "js_documented js" and "config_valid c"
    and "run_state (loadFromFile js os f c) w = ((c', r), w')"
  shows "config_valid c' \<and> (r = Inr SUCCESS \<longrightarrow> reserved c') \<and> (r \<noteq> Inr SUCCESS \<longrightarrow> c' = c) \<and>
    (\<exists>cmds. trace w' = trace w @ map Popen cmds)"
proof -
  note run = assms(3)
  have "js_documented js \<longrightarrow> config_valid c'"
    using assms(2) by (intro json_file.load_valid [OF _ run]) simp
  moreover have "r = Inr SUCCESS \<longrightarrow> reserved c'"
    using json_file.load_built_in run by (auto simp: SUCCESS_def)
  moreover have "r \<noteq> Inr SUCCESS \<longrightarrow> c' = c"
    using json_file.load_failed [OF run] by (simp add: SUCCESS_def)
  ultimately show ?thesis using assms(1) json_file.load_queries_only [OF run] by blast
qed

theorem load_transactional_witness:
  "\<exists>c' w'. run_state (loadFromFile (sample_js (JObject [(''port'', JInt 0)])) sample_os
      ''/usr/bin/curl'' default_config) sample_world = ((c', Inr PARAM_ERROR), w') \<and> c' = default_config"
proof -
  let ?js = "sample_js (JObject [(''port'', JInt 0)])"
  have run: "run_state (loadFromFile ?js sample_os ''/usr/bin/curl'' default_config) sample_world =
      ((default_config, Inr PARAM_ERROR), sample_world)"
    by (simp add: loadFromFile_def run_quiet [OF sample_quiet(2)] loadFromJsonStr_def
        validateJsonStr_def check_member_def js_items_doc [OF sample_js_documented]
        js_get_doc [OF sample_js_documented] validPort_def)
  show ?thesis
    using load_transactional [OF sample_js_documented default_config_valid run] run by blast
qed

text \<open>
  After a successful load every program named in the configuration is an existing regular
  file: names that lead nowhere are dropped.
\<close>

theorem loaded_programs_exist:
  assumes "quiet_queries os"
    and "run_state (loadFromJsonStr js os s c) w = ((c', Inr SUCCESS), w')"
    and "p \<in> set (program_proxy c') \<union> set (program_noproxy c')"
  shows "p \<noteq> [] \<and> is_regular os (kern w) p"
proof -
  from assms(2) obtain j where valid: "validateJsonStr js s = Inr True" "js_parse js s = Inr j"
    by (auto simp: loadFromJsonStr_def SUCCESS_def PARAM_ERROR_def split: sum.splits if_splits)
  let ?c1 = "assign_members js j c"
  have "program_proxy c' = resolve_all os (kern w) (program_proxy ?c1)"
      "program_noproxy c' = resolve_all os (kern w) (program_noproxy ?c1)"
    using run_load_quiet [OF assms(1) valid refl, of c w] assms(2)
    by (auto simp: mergeReserved_def)
  then show ?thesis
    using assms(3) resolve_regular by (auto simp: resolve_all_def)
qed

theorem loaded_programs_exist_witness:
  "\<exists>c' w'. run_state (loadFromJsonStr (sample_js (JObject [(''program_proxy'', JStrings [''curl''])]))
      sample_os ''doc'' default_config) sample_world = ((c', Inr SUCCESS), w') \<and>
    program_proxy c' = [''/usr/bin/curl''] \<and> is_regular sample_os sample_kern ''/usr/bin/curl''"
proof -
  let ?js = "sample_js (JObject [(''program_proxy'', JStrings [''curl''])])"
  have valid: "validateJsonStr ?js ''doc'' = Inr True"
    by (simp add: validateJsonStr_def js_items_doc [OF sample_js_documented] check_member_def
        boolset_def allowset_def)
  have "assigned ?js (JObject [(''program_proxy'', JStrings [''curl''])]) ''program_proxy''
      (js_strings ?js) old = [''curl'']" for old
    using js_get_doc(5) [OF sample_js_documented, of _ "[''curl'']"]
    by (simp add: assigned_def js_at_doc [OF sample_js_documented])
  then obtain c' w' where run: "run_state (loadFromJsonStr ?js sample_os ''doc'' default_config)
      sample_world = ((c', Inr SUCCESS), w')" and c': "program_proxy c' = [''/usr/bin/curl'']"
    using run_load_quiet [OF sample_quiet(1) valid sample_js_parse refl, of default_config sample_world]
    by (auto simp: mergeReserved_def assign_members_eq resolve_all_def sample_resolve)
  then show ?thesis
    using loaded_programs_exist [OF sample_quiet(1) run, of "''/usr/bin/curl''"] by simp
qed

text \<open>
  A cgroup given as a string passes validation and the load reports \<open>SUCCESS\<close>, but the
  string is not taken over: the list stays what it was.
\<close>

theorem cgroup_string_ignored:
  assumes "js_documented js" and "js_parse js s = Inr (JObject kvs)"
    and "list_all (acceptable js) kvs" and "map_of kvs ''cgroup_proxy'' = Some (JString g)"
    and "run_state (loadFromJsonStr js os s c) w = ((c', r), w')"
  shows "r = Inr SUCCESS \<and> cgroup_proxy c' = merge_front CGROUP_PROXY_PRESVERED (cgroup_proxy c)"
  using assms(5)
proof (cases rule: load_outcome)
  case failed
  have "member_ok js = acceptable js" by (rule ext) (rule member_ok_spec [OF assms(1)])
  then have "validateJsonStr js s = Inr True"
    using assms(2,3)
    by (simp add: validateJsonStr_def check_members_True js_items_doc [OF assms(1)])
  then have "r = Inr 0"
    using assms(2,5) by (auto simp: loadFromJsonStr_def split: prod.splits)
  with failed(2) show ?thesis by simp
next
  case (loaded j np pp)
  have j: "j = JObject kvs" using loaded(1) assms(2) by simp
  have "assigned js j ''cgroup_proxy'' (js_strings js) (cgroup_proxy c) = cgroup_proxy c"
    by (simp add: assigned_def j js_at_doc(1) [OF assms(1)] assms(4) js_get_doc [OF assms(1)])
  then show ?thesis
    using loaded(3,4) by (simp add: SUCCESS_def mergeReserved_def assign_members_eq)
qed

theorem cgroup_string_ignored_witness:
  "\<exists>c' w'. run_state (loadFromJsonStr (sample_js (JObject [(''cgroup_proxy'', JString ''/a.slice'')]))
      sample_os ''doc'' default_config) sample_world = ((c', Inr SUCCESS), w')
    \<and> ''/a.slice'' \<notin> set (cgroup_proxy c')"
proof -
  let ?kvs = "[(''cgroup_proxy'', JString ''/a.slice'')]"
  let ?js = "sample_js (JObject ?kvs)"
  obtain c' r w' where run:
      "run_state (loadFromJsonStr ?js sample_os ''doc'' default_config) sample_world = ((c', r), w')"
    by (metis prod.exhaust)
  have ok: "list_all (acceptable ?js) ?kvs"
    by (simp add: acceptable_def validCgroup_def cgroup_char_def char_in_def)
  have "r = Inr SUCCESS \<and> cgroup_proxy c' = [CGROUP_PROXY_PRESVERED]"
    using cgroup_string_ignored [OF sample_js_documented _ ok _ run]
    by (simp add: default_config_def merge_front_def)
  with run show ?thesis by (auto simp: preserved_defs)
qed

subsection \<open>The environment the script reads\<close>

lemma run_setenv_all:
  "run_state (setenv_all nvs) w =
     ((), w\<lparr>environ := environ w ++ map_of (rev (map (\<lambda>(n, v). (n, c_str v)) nvs)),
           trace := trace w @ map (\<lambda>(n, v). Setenv n (c_str v)) nvs\<rparr>)"
  by (induction nvs arbitrary: w rule: setenv_all.induct) auto

lemma run_toEnv:
  "run_state (toEnv c) w =
     ((), w\<lparr>environ := environ w ++ map_of (map (\<lambda>(n, v). (n, c_str v)) (config_env c)),
           trace := trace w @ map (\<lambda>(n, v). Setenv n (c_str v)) (config_env c)\<rparr>)"
proof -
  have "distinct (map fst (map (\<lambda>(n, v). (n, c_str v)) (config_env c)))"
    by (simp add: config_env_def)
  then show ?thesis by (simp only: toEnv_def run_setenv_all distinct_map_of_rev)
qed

lemma join2str_vec_chars:
  "c \<in> set (join2str_vec v d) \<Longrightarrow> c = d \<or> (\<exists>s \<in> set v. c \<in> set s)"
  by (auto simp: join2str_vec_def split: if_splits)

lemma join2str_vec_c_str:
  assumes "validCgroup_vec v"
  shows "c_str (join2str_vec v (CHR '':'')) = join2str_vec v (CHR '':'')"
proof (rule c_str_id)
  show "CHR 0x00 \<notin> set (join2str_vec v (CHR '':''))"
    using assms validCgroup_plain by (fastforce dest!: join2str_vec_chars
        simp: validCgroup_vec_def list_all_iff)
qed

text \<open>
  The script gets the configuration: after \<open>toEnv\<close> the variable of each cgroup list splits
  at colons into that list, provided its last element occurs once, and the port reads back as
  the number it is.
\<close>

theorem env_readable:
  assumes "config_valid c" and "reserved c"
    and "last (cgroup_proxy c) \<notin> set (butlast (cgroup_proxy c))"
    and "last (cgroup_noproxy c) \<notin> set (butlast (cgroup_noproxy c))"
    and "run_state (toEnv c) w = ((), w')"
  shows "map_option (split_on (CHR '':'')) (environ w' ''cgroup_proxy'') = Some (cgroup_proxy c) \<and>
    map_option (split_on (CHR '':'')) (environ w' ''cgroup_noproxy'') = Some (cgroup_noproxy c) \<and>
    map_option stoi (environ w' ''port'') = Some (Inr (port c))"
proof -
  have env: "environ w' = environ w ++ map_of (map (\<lambda>(n, v). (n, c_str v)) (config_env c))"
    using assms(5) by (auto simp: run_toEnv)
  have split: "split_on (CHR '':'') (c_str (join2str_vec v (CHR '':''))) = v"
    if "validCgroup_vec v" "v \<noteq> []" "last v \<notin> set (butlast v)" for v
    using split_join2str_vec [of "last v" "butlast v" "CHR '':''"] that validCgroup_plain
    by (simp add: join2str_vec_c_str validCgroup_vec_def list_all_iff)
  have ne: "cgroup_proxy c \<noteq> []" "cgroup_noproxy c \<noteq> []"
    using assms(2) by (simp_all add: reserved_def reserved_first_def)
  have "map_option (split_on (CHR '':'')) (environ w' ''cgroup_proxy'') = Some (cgroup_proxy c)"
    using assms(1,3) ne by (simp add: env config_env_def split config_valid_def)
  moreover have "map_option (split_on (CHR '':'')) (environ w' ''cgroup_noproxy'') = Some (cgroup_noproxy c)"
    using assms(1,4) ne by (simp add: env config_env_def split config_valid_def)
  moreover have "map_option stoi (environ w' ''port'') = Some (Inr (port c))"
    by (simp add: env config_env_def stoi_to_str_int)
  ultimately show ?thesis by blast
qed

theorem env_readable_witness:
  "map_option (split_on (CHR '':'')) (environ (snd (run_state (toEnv sample_config) sample_world))
     ''cgroup_proxy'') = Some [''/proxy.slice'', ''/user.slice'']"
proof -
  obtain w' where run: "run_state (toEnv sample_config) sample_world = ((), w')"
    by (metis prod.exhaust old.unit.exhaust)
  have c: "cgroup_proxy sample_config = [''/proxy.slice'', ''/user.slice'']"
      "cgroup_noproxy sample_config = [''/noproxy.slice'']"
    by (simp_all add: sample_config_def)
  from env_readable [OF sample_config_valid sample_config_reserved _ _ run] show ?thesis by (simp add: run c)
qed

text \<open>
  Where the last element of a list occurs twice, \<open>join2str\<close> leaves out the delimiter after
  the first occurrence, and a reader sees a name that was never configured.
\<close>

theorem duplicate_joins_neighbours:
  assumes "z \<noteq> p" and "z \<noteq> y" and "\<forall>s \<in> {p, y, z}. d \<notin> set s"
  shows "split_on d (join2str_vec [p, z, y, z] d) = [p, z @ y, z]"
proof -
  have "join2str_vec [p, z, y, z] d = p @ d # (z @ y) @ d # z"
    using assms(1,2) by (auto simp: join2str_vec_def)
  then show ?thesis
    using assms(3) split_on_delim [of d p "(z @ y) @ d # z"] split_on_delim [of d "z @ y" z]
    by (simp add: split_on_plain)
qed

theorem duplicate_joins_neighbours_witness:
  "split_on (CHR '':'') (join2str_vec [''/proxy.slice'', ''/a'', ''/b'', ''/a''] (CHR '':''))
     = [''/proxy.slice'', ''/a/b'', ''/a'']"
  using duplicate_joins_neighbours [of "''/a''" "''/proxy.slice''" "''/b''" "CHR '':''"] by simp

end
