(* ===== verification/Process.thy ===== *)
theory Process
  imports Config
begin

text \<open>
  Threads: a program as a tree of atomic actions on a state that others change in between.

  An action says what shared place it reads or writes, so that data races can be told; \<open>run_alone\<close>
  runs a process with nobody else about; \<open>always\<close> is a property of every action it can come to;
  and \<open>assured\<close> is what holds of its result when others may interfere, as far as a relation allows.
\<close>

subsection \<open>Actions\<close>

text \<open>The places threads share: the four lists of the configuration, its other members, the variables.\<close>

datatype place = Program_proxy | Program_noproxy | Cgroup_proxy | Cgroup_noproxy | Scalars | Environ

datatype access = Apart | Reads place | Writes place

fun conflict :: "access \<Rightarrow> access \<Rightarrow> bool" where
  "conflict (Writes p) (Writes q) = (p = q)"
| "conflict (Writes p) (Reads q) = (p = q)"
| "conflict (Reads p) (Writes q) = (p = q)"
| "conflict _ _ = False"

datatype ('s, 'a) process = Done 'a | Act access "'s \<Rightarrow> 's" "'s \<Rightarrow> ('s, 'a) process"

primrec andthen :: "('s, 'a) process \<Rightarrow> ('a \<Rightarrow> ('s, 'b) process) \<Rightarrow> ('s, 'b) process" where
  "andthen (Done a) q = q a"
| "andthen (Act x f k) q = Act x f (\<lambda>s. andthen (k s) q)"

definition andthenE :: "('s, 'a res) process \<Rightarrow> ('a \<Rightarrow> ('s, 'b res) process) \<Rightarrow> ('s, 'b res) process" where
  "andthenE p q = andthen p (\<lambda>r. case r of Inl e \<Rightarrow> Done (Inl e) | Inr x \<Rightarrow> q x)"

lemma andthen_Done: "andthen p Done = p"
  by (induction p) auto

lemma andthen_assoc: "andthen (andthen p q) r = andthen p (\<lambda>x. andthen (q x) r)"
  by (induction p) auto

fun each :: "('a \<Rightarrow> ('s, unit res) process) \<Rightarrow> 'a list \<Rightarrow> ('s, unit res) process" where
  "each f [] = Done (Inr ())"
| "each f (x # xs) = andthenE (f x) (\<lambda>_. each f xs)"

subsection \<open>Alone\<close>

primrec run_alone :: "('s, 'a) process \<Rightarrow> 's \<Rightarrow> 'a \<times> 's" where
  "run_alone (Done a) s = (a, s)"
| "run_alone (Act x f k) s = run_alone (k s) (f s)"

lemma run_alone_andthen:
  "run_alone (andthen p q) s = (case run_alone p s of (a, s') \<Rightarrow> run_alone (q a) s')"
  by (induction p arbitrary: s) auto

lemma run_alone_andthenE:
  "run_alone (andthenE p q) s = (case run_alone p s of (Inl e, s') \<Rightarrow> (Inl e, s') | (Inr a, s') \<Rightarrow> run_alone (q a) s')"
  by (auto simp: andthenE_def run_alone_andthen split: prod.splits sum.splits)

subsection \<open>Every action\<close>

primrec always :: "(access \<Rightarrow> ('s \<Rightarrow> 's) \<Rightarrow> bool) \<Rightarrow> ('s, 'a) process \<Rightarrow> bool" where
  "always P (Done a) = True"
| "always P (Act x f k) = (P x f \<and> (\<forall>s. always P (k s)))"

lemma always_andthen [intro!]: "always P p \<Longrightarrow> (\<And>a. always P (q a)) \<Longrightarrow> always P (andthen p q)"
  by (induction p) auto

lemma always_andthenE [intro!]: "always P p \<Longrightarrow> (\<And>a. always P (q a)) \<Longrightarrow> always P (andthenE p q)"
  unfolding andthenE_def by (auto split: sum.splits)

lemma always_each: "(\<And>x. x \<in> set xs \<Longrightarrow> always P (f x)) \<Longrightarrow> always P (each f xs)"
  by (induction xs) auto

fun next_access :: "('s, 'a) process \<Rightarrow> access" where
  "next_access (Done a) = Apart"
| "next_access (Act x f k) = x"

subsection \<open>With others\<close>

text \<open>
  Whatever others do between the actions, as long as each of their steps is in \<open>R\<close>, the process ends
  with a result and a state in \<open>Q\<close>.
\<close>

primrec assured :: "('s \<Rightarrow> 's \<Rightarrow> bool) \<Rightarrow> ('s, 'a) process \<Rightarrow> ('a \<Rightarrow> 's \<Rightarrow> bool) \<Rightarrow> 's \<Rightarrow> bool" where
  "assured R (Done a) Q s = (\<forall>s'. R s s' \<longrightarrow> Q a s')"
| "assured R (Act x f k) Q s = (\<forall>s'. R s s' \<longrightarrow> assured R (k s') Q (f s'))"

lemma assured_moved: "transp R \<Longrightarrow> assured R p Q s \<Longrightarrow> R s s' \<Longrightarrow> assured R p Q s'"
  by (cases p) (auto dest: transpD)

lemma assured_mono: "assured R p Q s \<Longrightarrow> (\<And>a s. Q a s \<Longrightarrow> Q' a s) \<Longrightarrow> assured R p Q' s"
  by (induction p arbitrary: s) auto

lemma assured_andthen:
  assumes "reflp R" and "transp R" and "assured R p (\<lambda>a. assured R (q a) Q) s"
  shows "assured R (andthen p q) Q s"
  using assms(3)
proof (induction p arbitrary: s)
  case (Done a)
  then show ?case using assms(1) by (auto dest: reflpD)
qed auto

text \<open>A process whose every action is one that others may take keeps what they keep.\<close>

lemma assured_always:
  assumes "transp R" and "always (\<lambda>x f. \<forall>s. R s (f s)) p" and "\<And>a s'. R s s' \<Longrightarrow> Q a s'"
  shows "assured R p Q s"
  using assms(2,3)
proof (induction p arbitrary: s)
  case (Act x f k)
  show ?case
  proof (clarsimp)
    fix s' assume s': "R s s'"
    then have "R s (f s')" using Act.prems(1) assms(1) by (auto dest: transpD)
    then have "Q a s''" if "R (f s') s''" for a s''
      using that assms(1) Act.prems(2) by (auto dest: transpD)
    with Act show "assured R (k s') Q (f s')" by auto
  qed
qed auto

subsection \<open>What the daemon's threads share\<close>

record 'k shared =
  sh_world :: "'k world"
  sh_cfg :: config

definition call :: "access \<Rightarrow> ('k world, 'a) state \<Rightarrow> ('k shared, 'a) process" where
  "call x m = Act x (\<lambda>s. s\<lparr>sh_world := snd (run_state m (sh_world s))\<rparr>) (\<lambda>s. Done (fst (run_state m (sh_world s))))"

definition look :: "place \<Rightarrow> (config \<Rightarrow> 'a) \<Rightarrow> ('k shared, 'a) process" where
  "look p g = Act (Reads p) (\<lambda>s. s) (\<lambda>s. Done (g (sh_cfg s)))"

definition put :: "place \<Rightarrow> (config \<Rightarrow> config) \<Rightarrow> ('k shared, unit) process" where
  "put p u = Act (Writes p) (\<lambda>s. s\<lparr>sh_cfg := u (sh_cfg s)\<rparr>) (\<lambda>s. Done ())"

lemma run_alone_call [simp]: "run_alone (call x m) s =
    (fst (run_state m (sh_world s)), s\<lparr>sh_world := snd (run_state m (sh_world s))\<rparr>)"
  by (simp add: call_def)

lemma run_alone_look [simp]: "run_alone (look p g) s = (g (sh_cfg s), s)"
  by (simp add: look_def)

lemma run_alone_put [simp]: "run_alone (put p u) s = ((), s\<lparr>sh_cfg := u (sh_cfg s)\<rparr>)"
  by (simp add: put_def)

text \<open>
  \<open>follows p m\<close>: alone, the process \<open>p\<close> does what the program \<open>m\<close> does, a program of the sequential
  model that takes the configuration and returns it.
\<close>

definition follows :: "('k shared, 'a) process \<Rightarrow> (config \<Rightarrow> ('k world, config \<times> 'a) state) \<Rightarrow> bool" where
  "follows p m = (\<forall>s. run_alone p s =
     (case run_state (m (sh_cfg s)) (sh_world s) of ((c, r), w) \<Rightarrow> (r, s\<lparr>sh_world := w, sh_cfg := c\<rparr>)))"

lemma followsD: "follows p m \<Longrightarrow> run_alone p s =
    (case run_state (m (sh_cfg s)) (sh_world s) of ((c, r), w) \<Rightarrow> (r, s\<lparr>sh_world := w, sh_cfg := c\<rparr>))"
  by (simp add: follows_def)

lemma follows_Done: "follows (Done r) (\<lambda>c. ret (c, r))"
  by (simp add: follows_def)

lemma follows_if:
  "follows p m \<Longrightarrow> follows q n \<Longrightarrow> follows (if b then p else q) (\<lambda>c. if b then m c else n c)"
  by auto

lemma follows_sum:
  "(\<And>e. follows (p e) (m e)) \<Longrightarrow> (\<And>x. follows (q x) (n x)) \<Longrightarrow>
   follows (case y of Inl e \<Rightarrow> p e | Inr x \<Rightarrow> q x) (\<lambda>c. case y of Inl e \<Rightarrow> m e c | Inr x \<Rightarrow> n x c)"
  by (cases y) auto

text \<open>The same for a program that only reads the configuration.\<close>

definition agrees :: "('k shared, 'a) process \<Rightarrow> (config \<Rightarrow> ('k world, 'a) state) \<Rightarrow> bool" where
  "agrees p m = (\<forall>s. run_alone p s = (case run_state (m (sh_cfg s)) (sh_world s) of (r, w) \<Rightarrow> (r, s\<lparr>sh_world := w\<rparr>)))"

lemma agreesD: "agrees p m \<Longrightarrow> run_alone p s = (case run_state (m (sh_cfg s)) (sh_world s) of (r, w) \<Rightarrow> (r, s\<lparr>sh_world := w\<rparr>))"
  by (simp add: agrees_def)

lemma agrees_Done [intro!]: "agrees (Done a) (\<lambda>c. ret a)"
  by (simp add: agrees_def)

lemma agrees_call [intro!]: "agrees (call x m) (\<lambda>c. m)"
  by (simp add: agrees_def split: prod.splits)

lemma agrees_andthen [intro!]:
  assumes "agrees p m" and "\<And>a. agrees (q a) (n a)"
  shows "agrees (andthen p q) (\<lambda>c. seq (m c) (\<lambda>a. n a c))"
  using assms by (simp add: agrees_def run_alone_andthen split: prod.splits)

lemma agrees_andthenE [intro!]:
  assumes "agrees p m" and "\<And>a. agrees (q a) (n a)"
  shows "agrees (andthenE p q) (\<lambda>c. bindE (m c) (\<lambda>a. n a c))"
  using assms by (simp add: agrees_def run_alone_andthenE run_state_bindE split: prod.splits sum.splits)

text \<open>Reading a member is nothing the sequential program shows.\<close>

lemma agrees_look [intro!]:
  assumes "\<And>a. agrees (q a) (n a)"
  shows "agrees (andthen (look p g) q) (\<lambda>c. n (g c) c)"
  using assms by (simp add: agrees_def run_alone_andthen)

lemma agrees_if [intro!]:
  "agrees p m \<Longrightarrow> agrees q n \<Longrightarrow> agrees (if b then p else q) (\<lambda>c. if b then m c else n c)"
  by auto

lemma agrees_option [intro!]:
  "agrees p m \<Longrightarrow> (\<And>x. agrees (q x) (n x)) \<Longrightarrow>
   agrees (case y of None \<Rightarrow> p | Some x \<Rightarrow> q x) (\<lambda>c. case y of None \<Rightarrow> m c | Some x \<Rightarrow> n x c)"
  by (cases y) auto

lemma agrees_each [intro!]:
  "(\<And>x. agrees (f x) (n x)) \<Longrightarrow> agrees (each f xs) (\<lambda>c. for_each (\<lambda>x. n x c) xs)"
  by (induction xs) auto

subsection \<open>Actions on the shared state\<close>

text \<open>An action only adds events of a kind to the trace.\<close>

definition adds :: "(event \<Rightarrow> bool) \<Rightarrow> ('k shared \<Rightarrow> 'k shared) \<Rightarrow> bool" where
  "adds A f = (\<forall>s. \<exists>es. trace (sh_world (f s)) = trace (sh_world s) @ es \<and> list_all A es)"

text \<open>
  What a thread other than that of the socket may do to the state, and the outside as well: nothing to
  configuration and variables, and no run of the script.
\<close>

definition aside :: "'k shared \<Rightarrow> 'k shared \<Rightarrow> bool" where
  "aside s s' = (sh_cfg s' = sh_cfg s \<and> environ (sh_world s') = environ (sh_world s) \<and>
     systems (sh_world s') = systems (sh_world s))"

lemma aside_refl: "reflp aside"
  by (simp add: reflp_def aside_def)

lemma aside_trans: "transp aside"
  by (simp add: transp_def aside_def)

abbreviation stands_aside :: "('k shared, 'a) process \<Rightarrow> bool" where
  "stands_aside p \<equiv> always (\<lambda>x f. \<forall>s. aside s (f s)) p"

lemma aside_call: "scriptless m \<Longrightarrow> stands_aside (call x m)"
  by (simp add: call_def aside_def scriptless_def)

lemma aside_look: "stands_aside (look p g)"
  by (simp add: look_def aside_def)

end
