(* ===== verification/Cgroup_Attach.thy ===== *)
theory Cgroup_Attach
  imports Sample_Kernel
begin

text \<open>
  Moving a process into a cgroup: \<open>src/cgroup_attach.cpp\<close>.

  The lemmas bound what \<open>attach\<close> can do outside the process on any kernel (one \<open>mkdir\<close>, then at
  most two writes, all at the target: the interface \<open>attacher\<close> the daemon uses), and say what it
  achieves on a kernel whose cgroup files behave as documented (\<open>cgroup_file_law\<close>,
  \<open>cgroup_write_law\<close>).  \<open>validate\<close> is modelled with the conversion its \<open>return\<close> applies.
\<close>

definition cgroup2_mount_point :: string where
  "cgroup2_mount_point = CGROUP2_MOUNT_POINT"

text \<open>The function returns \<open>bool\<close>, and \<open>return_error\<close> is \<open>return -1\<close>.\<close>

definition validate :: "string \<Rightarrow> string \<Rightarrow> bool" where
  "validate pid cgroup =
     (let pid_v = validPid pid; cg_v = validCgroup cgroup
      in if pid_v \<and> cg_v then True else c_bool (- 1))"

definition write2procs :: "'k os \<Rightarrow> string \<Rightarrow> string \<Rightarrow> ('k world, cint) state" where
  "write2procs os pid procspath = do {
     procs \<leftarrow> append_file os procspath (c_str pid @ [CHR 0x0A]);
     ret (case procs of Open_failed \<Rightarrow> - 1 | Write_failed \<Rightarrow> - 1 | Written \<Rightarrow> 0) }"

definition attach :: "'k os \<Rightarrow> string \<Rightarrow> string \<Rightarrow> ('k world, cint res) state" where
  "attach os pid cgroup_target = do {
     uid \<leftarrow> getuid os;
     if uid \<noteq> 0 then ret (Inr (- 1))
     else if \<not> validate pid cgroup_target then ret (Inr (- 1))
     else if cgroup2_mount_point = [] then ret (Inr (- 1))
     else do {
       let cgroup_target_path = cgroup2_mount_point @ cgroup_target;
       let cgroup_target_procs = cgroup_target_path @ ''/cgroup.procs'';
       exists \<leftarrow> dirExist os cgroup_target_path;
       created \<leftarrow> (if \<not> exists then mkdir os cgroup_target_path else ret True);
       if \<not> created then ret (Inr (- 1))
       else bindE (getCgroup os pid) (\<lambda>cg.
         if cg = [] then ret (Inr 0)
         else if cg = cgroup_target then ret (Inr 0)
         else do {
           res \<leftarrow> write2procs os pid cgroup_target_procs;
           if res \<noteq> 0 then ret (Inr (- 1))
           else do {
             sleep_ms os 100;
             bindE (getCgroup os pid) (\<lambda>cg.
               if cg = [] then ret (Inr 0)
               else if cg \<noteq> cgroup_target then do {
                 res \<leftarrow> write2procs os pid cgroup_target_procs;
                 ret (Inr (if res \<noteq> 0 then - 1 else 0)) }
               else ret (Inr 0)) } }) } }"

definition attach_pid :: "'k os \<Rightarrow> cint \<Rightarrow> string \<Rightarrow> ('k world, cint res) state" where
  "attach_pid os pid cgroup_target = attach os (to_str_int pid) cgroup_target"

subsection \<open>What it can do on any kernel\<close>

text \<open>The two paths an attachment to \<open>cg\<close> may change.\<close>

definition touches :: "string \<Rightarrow> event \<Rightarrow> bool" where
  "touches cg e = (case e of
       Mkdir p b \<Rightarrow> p = c_str (cgroup2_mount_point @ cg)
     | Append p d r \<Rightarrow> p = c_str (cgroup2_mount_point @ cg @ ''/cgroup.procs'')
     | _ \<Rightarrow> False)"

lemma mount_point_nonempty [simp]: "cgroup2_mount_point \<noteq> []"
  by (simp add: cgroup2_mount_point_def CGROUP2_MOUNT_POINT_def)

lemma validate_True [simp]: "validate pid cgroup"
  by (simp add: validate_def Let_def)

lemma emits_write2procs:
  "(\<And>r. A (Append (c_str path) (c_str pid @ [CHR 0x0A]) r)) \<Longrightarrow> emits A (write2procs os pid path)"
  unfolding write2procs_def by (auto intro!: emits_append)

lemma emits_attach: "emits (touches cg) (attach os pid cg)"
  unfolding attach_def Let_def
  by (auto intro!: emits_mkdir emits_write2procs simp: touches_def)

text \<open>
  What the callers of an attachment rely on: on any kernel it changes nothing but the cgroup it is
  asked for.
\<close>

locale attacher =
  fixes att :: "'p \<Rightarrow> string \<Rightarrow> ('k world, 'r res) state" and touch :: "string \<Rightarrow> event \<Rightarrow> bool"
  assumes att_touches: "emits (touch cg) (att p cg)"
begin

lemma att_scoped: "cg \<in> S \<Longrightarrow> emits (\<lambda>e. \<exists>cg \<in> S. touch cg e) (att p cg)"
  by (rule emits_mono [OF att_touches]) auto

lemma att_scoped_or: "cg \<in> S \<Longrightarrow> emits (\<lambda>e. (\<exists>cg \<in> S. touch cg e) \<or> Q e) (att p cg)"
  by (rule emits_mono [OF att_touches]) auto

lemma att_each:
  "cg \<in> S \<Longrightarrow> (\<And>p. emits (\<lambda>e. \<exists>cg \<in> S. touch cg e) (pre p)) \<Longrightarrow>
   emits (\<lambda>e. \<exists>cg \<in> S. touch cg e)
     (for_each (\<lambda>p. bindE (pre p) (\<lambda>b. if b then bindE (att p cg) (\<lambda>_. ret (Inr ())) else ret (Inr ()))) ps)"
  by (rule emits_for_each) (auto intro!: att_scoped)

end

interpretation pid_attacher: attacher "attach_pid os" touches
  by unfold_locales (simp add: attach_pid_def emits_attach)

text \<open>A trace extended by at most \<open>m\<close> creations of the cgroup and then \<open>n\<close> writes of the pid.\<close>

definition creates :: "string \<Rightarrow> event \<Rightarrow> bool" where
  "creates cg e = (\<exists>b. e = Mkdir (c_str (cgroup2_mount_point @ cg)) b)"

definition writes_pid :: "string \<Rightarrow> string \<Rightarrow> event \<Rightarrow> bool" where
  "writes_pid pid cg e = (\<exists>r. e = Append (c_str (cgroup2_mount_point @ cg @ ''/cgroup.procs''))
                                  (c_str pid @ [CHR 0x0A]) r)"

definition attach_trace :: "string \<Rightarrow> string \<Rightarrow> nat \<Rightarrow> nat \<Rightarrow> event list \<Rightarrow> event list \<Rightarrow> bool" where
  "attach_trace pid cg m n t t' = (\<exists>mk ap. t' = t @ mk @ ap \<and> length mk \<le> m \<and> length ap \<le> n \<and>
     list_all (creates cg) mk \<and> list_all (writes_pid pid cg) ap)"

lemma attach_trace_refl: "attach_trace pid cg m n t t"
  by (simp add: attach_trace_def)

lemma attach_trace_mono:
  "attach_trace pid cg m n t t' \<Longrightarrow> m \<le> m' \<Longrightarrow> n \<le> n' \<Longrightarrow> attach_trace pid cg m' n' t t'"
proof -
  assume "attach_trace pid cg m n t t'" "m \<le> m'" "n \<le> n'"
  then obtain mk ap where "t' = t @ mk @ ap" "length mk \<le> m'" "length ap \<le> n'"
      "list_all (creates cg) mk" "list_all (writes_pid pid cg) ap"
    unfolding attach_trace_def by (metis order_trans)
  then show ?thesis unfolding attach_trace_def by blast
qed

lemma mkdir_attach_trace:
  "hoare (\<lambda>w. attach_trace pid cg 0 0 t (trace w)) (mkdir os (cgroup2_mount_point @ cg))
     (\<lambda>_ w. attach_trace pid cg 1 0 t (trace w))"
proof (rule hoareI)
  fix w r w'
  assume "attach_trace pid cg 0 0 t (trace w)"
    and "run_state (mkdir os (cgroup2_mount_point @ cg)) w = (r, w')"
  then have "trace w' = t @ [Mkdir (c_str (cgroup2_mount_point @ cg)) r] @ []"
    by (auto simp: attach_trace_def mkdir_def split: prod.splits)
  moreover have "list_all (creates cg) [Mkdir (c_str (cgroup2_mount_point @ cg)) r]"
    by (simp add: creates_def)
  ultimately show "attach_trace pid cg 1 0 t (trace w')" unfolding attach_trace_def by fastforce
qed

lemma write_attach_trace:
  "hoare (\<lambda>w. attach_trace pid cg m n t (trace w))
     (write2procs os pid ((cgroup2_mount_point @ cg) @ ''/cgroup.procs''))
     (\<lambda>_ w. attach_trace pid cg m (Suc n) t (trace w))"
proof (rule hoareI)
  fix w r w'
  let ?wr = "Append (c_str (cgroup2_mount_point @ cg @ ''/cgroup.procs'')) (c_str pid @ [CHR 0x0A])"
  assume "attach_trace pid cg m n t (trace w)"
    and run: "run_state (write2procs os pid ((cgroup2_mount_point @ cg) @ ''/cgroup.procs'')) w = (r, w')"
  then obtain mk ap where tr: "trace w = t @ mk @ ap" "length mk \<le> m" "length ap \<le> n"
      "list_all (creates cg) mk" "list_all (writes_pid pid cg) ap"
    unfolding attach_trace_def by blast
  obtain res where "trace w' = t @ mk @ (ap @ [?wr res])"
    using run by (auto simp: write2procs_def append_file_def tr(1) split: prod.splits)
  moreover have "list_all (writes_pid pid cg) (ap @ [?wr res])"
    using tr(5) by (simp add: writes_pid_def)
  moreover have "length (ap @ [?wr res]) \<le> Suc n" using tr(3) by simp
  ultimately show "attach_trace pid cg m (Suc n) t (trace w')"
    unfolding attach_trace_def using tr(2,4) by blast
qed

lemma attach_traces:
  "hoare (\<lambda>w. attach_trace pid cg 0 0 t (trace w)) (attach os pid cg)
     (\<lambda>_ w. attach_trace pid cg 1 2 t (trace w))"
proof -
  let ?T = "\<lambda>m n w. attach_trace pid cg m n t (trace w)"
  have look: "hoare (?T m n) (getCgroup os pid) (\<lambda>_. ?T m n)" for m n
    by (rule silent_hoare) simp
  have sleep: "hoare (?T m n) (sleep_ms os k) (\<lambda>_. ?T m n)" for m n k
    by (rule silent_hoare) simp
  have uid: "hoare (?T m n) (getuid os) (\<lambda>_. ?T m n)" for m n
    by (rule silent_hoare) simp
  have dir: "hoare (?T m n) (dirExist os p) (\<lambda>_. ?T m n)" for m n p
    by (rule silent_hoare) simp
  have mk: "hoare (?T 0 0) (if \<not> b then mkdir os (cgroup2_mount_point @ cg) else ret True) (\<lambda>_. ?T 1 0)" for b
    using mkdir_attach_trace by (auto intro!: hoare_retI intro: attach_trace_mono)
  show ?thesis
    unfolding attach_def Let_def
    by (intro hoare_seq [OF uid] hoare_seq [OF dir] hoare_seq [OF mk] hoare_seq [OF sleep]
        hoare_seq [OF write_attach_trace] hoare_if hoare_retI hoare_bindE [OF look])
      (auto elim!: attach_trace_mono)
qed

text \<open>
  On any kernel, with any pid and cgroup and whatever fails, \<open>attach\<close> makes at most one
  directory and then at most two writes; the directory is the cgroup's, and what it writes is
  the pid and a newline, to the cgroup's \<open>cgroup.procs\<close>.
\<close>

theorem attach_confined:
  "attach_trace pid cg 1 2 (trace w) (trace (snd (run_state (attach os pid cg) w)))"
  using hoare_run [OF attach_traces, of pid cg "trace w" w os] attach_trace_refl by blast

text \<open>Without root, it reports an error and leaves everything as it was.\<close>

lemma attach_needs_root:
  assumes "fst (os_getuid os (kern w)) \<noteq> 0"
  shows "run_state (attach os pid cg) w = (Inr ERROR, w\<lparr>kern := snd (os_getuid os (kern w))\<rparr>)"
  using assms by (cases "os_getuid os (kern w)") (simp add: attach_def getuid_def ERROR_def)

subsection \<open>What it achieves\<close>

text \<open>
  The documented cgroup files.  \<open>cg_of k pid\<close> is the cgroup of a living process.  Its
  \<open>/proc/pid/cgroup\<close> exists just while it lives, and has one line of hierarchy 0.
\<close>

definition cgroup_file_law :: "'k os \<Rightarrow> ('k \<Rightarrow> string \<rightharpoonup> string) \<Rightarrow> bool" where
  "cgroup_file_law os cg_of = (\<forall>k pid. validPid pid \<longrightarrow>
     fst (os_is_reg os (proc_file pid) k) = (cg_of k pid \<noteq> None) \<and>
     (\<forall>cg. cg_of k pid = Some cg \<longrightarrow> cg \<noteq> [] \<and>
        (\<exists>content pre post. fst (os_read os (proc_file pid) k) = Some content \<and>
          getlines content = pre @ (''0::'' @ cg) # post \<and>
          (\<forall>l \<in> set pre. l = [] \<or> hd l \<noteq> CHR ''0''))))"

text \<open>A write to \<open>cgroup.procs\<close> that succeeds moves the process, unless it has ended.\<close>

definition cgroup_write_law :: "'k os \<Rightarrow> string \<Rightarrow> ('k \<Rightarrow> string \<rightharpoonup> string) \<Rightarrow> bool" where
  "cgroup_write_law os mnt cg_of = (\<forall>k k' pid target. validPid pid \<and> validCgroup target \<and>
     os_append os (mnt @ target @ ''/cgroup.procs'') (pid @ [CHR 0x0A]) k = (Written, k') \<longrightarrow>
     cg_of k' pid \<in> {None, Some target})"

lemma cgroup_line_skip:
  "\<forall>l \<in> set pre. l = [] \<or> hd l \<noteq> CHR ''0'' \<Longrightarrow> cgroup_line (pre @ ls) = cgroup_line ls"
  by (induction pre) auto

lemma getCgroup_law:
  assumes "quiet_reads os" and "cgroup_file_law os cg_of" and "validPid pid"
  shows "run_state (getCgroup os pid) w =
    (Inr (case cg_of (kern w) pid of None \<Rightarrow> [] | Some cg \<Rightarrow> cg), w)"
proof -
  have path: "c_str (''/proc/'' @ pid @ ''/cgroup'') = proc_file pid"
    using validPid_no_nul [OF assms(3)] by (simp add: proc_file_def)
  show ?thesis
  proof (cases "cg_of (kern w) pid")
    case None
    then have "\<not> fst (os_is_reg os (proc_file pid) (kern w))"
      using assms(2,3) by (simp add: cgroup_file_law_def)
    with None show ?thesis by (simp only: getCgroup_quiet [OF assms(1)] path) simp
  next
    case (Some cg)
    then obtain content pre post where content: "fst (os_read os (proc_file pid) (kern w)) = Some content"
        "getlines content = pre @ (''0::'' @ cg) # post" "\<forall>l \<in> set pre. l = [] \<or> hd l \<noteq> CHR ''0''"
      using assms(2,3) unfolding cgroup_file_law_def by blast
    moreover have "fst (os_is_reg os (proc_file pid) (kern w))"
      using assms(2,3) Some by (simp add: cgroup_file_law_def)
    ultimately show ?thesis
      using Some by (simp only: getCgroup_quiet [OF assms(1)] path) (simp add: cgroup_line_skip)
  qed
qed

lemma write_law_run:
  assumes "cgroup_write_law os cgroup2_mount_point cg_of" and "validPid pid" and "validCgroup target"
    and "run_state (write2procs os pid (cgroup2_mount_point @ target @ ''/cgroup.procs'')) w = (0, w')"
  shows "cg_of (kern w') pid \<in> {None, Some target}"
proof -
  have "CHR 0x00 \<notin> set (cgroup2_mount_point @ target @ ''/cgroup.procs'')"
    using validCgroup_plain [OF assms(3)]
    by (simp add: cgroup2_mount_point_def CGROUP2_MOUNT_POINT_def)
  then have path: "c_str (cgroup2_mount_point @ target @ ''/cgroup.procs'')
      = cgroup2_mount_point @ target @ ''/cgroup.procs''" by (rule c_str_id)
  have pid: "c_str pid = pid" using validPid_no_nul [OF assms(2)] by simp
  obtain r k where "os_append os (cgroup2_mount_point @ target @ ''/cgroup.procs'')
      (pid @ [CHR 0x0A]) (kern w) = (r, k)" by fastforce
  moreover from this assms(4) have "r = Written" "kern w' = k"
    by (cases r; auto simp: write2procs_def append_file_def path pid)+
  ultimately show ?thesis using assms(1-3) unfolding cgroup_write_law_def by blast
qed

text \<open>The process is where it should be, or nowhere.\<close>

definition settled :: "('k \<Rightarrow> string \<rightharpoonup> string) \<Rightarrow> string \<Rightarrow> string \<Rightarrow> 'k \<Rightarrow> bool" where
  "settled cg_of pid target k = (cg_of k pid = None \<or> cg_of k pid = Some target)"

lemma attach_settles:
  assumes "quiet_reads os" and "cgroup_file_law os cg_of"
    and "cgroup_write_law os cgroup2_mount_point cg_of"
    and "validPid pid" and "validCgroup target"
  shows "hoare (\<lambda>_. True) (attach os pid target) (\<lambda>r w. r = Inr 0 \<longrightarrow> settled cg_of pid target (kern w))"
proof -
  let ?procs = "(cgroup2_mount_point @ target) @ ''/cgroup.procs''"
  define cur where "cur w = (case cg_of (kern w) pid of None \<Rightarrow> [] | Some c \<Rightarrow> c)" for w :: "'a world"
  have look: "hoare P (getCgroup os pid) (\<lambda>r w. r = Inr (cur w))" for P
    by (simp add: hoare_def getCgroup_law [OF assms(1,2,4)] cur_def)
  let ?S = "\<lambda>w. cur w = [] \<or> cur w = target"
  have at_rest: "settled cg_of pid target (kern w) \<longleftrightarrow> cur w = [] \<or> cur w = target" for w
    using assms(2,4,5)
    by (auto simp: cur_def settled_def cgroup_file_law_def validCgroup_def split: option.splits)
  have wrote: "hoare P (write2procs os pid ?procs) (\<lambda>res w. res = 0 \<longrightarrow> ?S w)" for P
    using write_law_run [OF assms(3-5)] by (intro hoareI) (auto simp: settled_def at_rest [symmetric])
  have again: "hoare P (bindE (getCgroup os pid) (\<lambda>cg.
      if cg = [] then ret (Inr 0)
      else if cg \<noteq> target then seq (write2procs os pid ?procs)
        (\<lambda>res. ret (Inr (if res \<noteq> 0 then - 1 else 0)))
      else ret (Inr 0))) (\<lambda>r w. r = Inr (0 :: cint) \<longrightarrow> ?S w)" for P
    by (rule hoare_bindE [OF look]; (intro hoare_if hoare_retI hoare_seq [OF wrote])?) auto
  have "hoare (\<lambda>_. True) (attach os pid target) (\<lambda>r w. r = Inr 0 \<longrightarrow> ?S w)"
    unfolding attach_def Let_def
    by (intro hoare_seq [OF hoare_True] hoare_if hoare_retI hoare_bindE [OF look]
        hoare_seq [OF wrote] again) auto
  then show ?thesis by (simp only: at_rest)
qed

text \<open>
  C7. When \<open>attach\<close> returns \<open>SUCCESS\<close>, the process is in the target cgroup or has ended, even if
  something else moved it between the first write and the second look.
\<close>

theorem attach_success:
  assumes "quiet_reads os" and "cgroup_file_law os cg_of"
    and "cgroup_write_law os cgroup2_mount_point cg_of"
    and "validPid pid" and "validCgroup target"
    and "run_state (attach os pid target) w = (Inr 0, w')"
  shows "settled cg_of pid target (kern w')"
  using hoareD [OF attach_settles [OF assms(1-5)] TrueI assms(6)] by simp

lemma sample_file_law: "cgroup_file_law sample_os sample_cg_of"
  unfolding cgroup_file_law_def
proof (intro allI impI conjI)
  fix k :: sample and pid cg
  have keys: "proc_file pid \<in> set (map fst (proc_files k)) \<longleftrightarrow> sample_cg_of k pid \<noteq> None"
    by (force simp: proc_files_def sample_cg_of_def image_iff map_of_eq_None_iff split: prod.splits)
  have plain: "proc_file pid \<notin> set (map fst (plain_files k))"
    using proc_file_not_plain by (metis (no_types, lifting) imageE list.set_map prod.collapse)
  show "fst (os_is_reg sample_os (proc_file pid) k) = (sample_cg_of k pid \<noteq> None)"
    using keys plain by simp
  assume cg: "sample_cg_of k pid = Some cg"
  then obtain n where n: "cg = cg_name n" by (auto simp: sample_cg_of_def)
  show "cg \<noteq> []" by (simp add: n cg_name_def)
  have "map_of (plain_files k) (proc_file pid) = None"
    using plain by (simp add: map_of_eq_None_iff)
  then have "fst (os_read sample_os (proc_file pid) k) = Some (''0::'' @ cg_name n @ [CHR 0x0A])"
    by (simp add: map_add_def map_of_proc_files cg n)
  with getlines_sample [of n]
  show "\<exists>content pre post. fst (os_read sample_os (proc_file pid) k) = Some content \<and>
      getlines content = pre @ (''0::'' @ cg) # post \<and> (\<forall>l \<in> set pre. l = [] \<or> hd l \<noteq> CHR ''0'')"
    unfolding n by (intro exI [of _ "''0::'' @ cg_name n @ [CHR 0x0A]"] exI [of _ "[]"]) simp
qed

lemma sample_write_law: "cgroup_write_law sample_os cgroup2_mount_point sample_cg_of"
  unfolding cgroup_write_law_def
proof (intro allI impI)
  fix k k' pid target
  assume "validPid pid \<and> validCgroup target \<and> os_append sample_os
     (cgroup2_mount_point @ target @ ''/cgroup.procs'') (pid @ [CHR 0x0A]) k = (Written, k')"
  then have run: "sample_append (cgroup2_mount_point @ target @ ''/cgroup.procs'') (pid @ [CHR 0x0A]) k
      = (Written, k')" by simp
  then obtain n where n: "find (\<lambda>n. cgroup2_mount_point @ target @ ''/cgroup.procs''
        = CGROUP2_MOUNT_POINT @ cg_name n @ ''/cgroup.procs'' \<and>
      CGROUP2_MOUNT_POINT @ cg_name n \<in> set (s_dirs k)) [0, 1, 2] = Some n"
      and k': "k' = k\<lparr>s_procs := AList.update pid n (s_procs k)\<rparr>"
    unfolding sample_append_def by (auto split: option.splits if_splits)
  from n have "target = cg_name n"
    by (auto simp: cgroup2_mount_point_def split: if_splits)
  then show "sample_cg_of k' pid \<in> {None, Some target}"
    by (simp add: sample_cg_of_def k' update_conv)
qed

theorem attach_success_witness:
  "\<exists>w'. run_state (attach sample_os ''42'' ''/proxy.slice'') sample_world = (Inr 0, w') \<and>
     settled sample_cg_of ''42'' ''/proxy.slice'' (kern w')"
proof -
  have pid: "validPid ''42''" by (simp add: validPid_def is_digit_def char_in_def)
  have cg: "validCgroup ''/proxy.slice''" by (simp add: validCgroup_def cgroup_char_def char_in_def)
  have "fst (run_state (attach sample_os ''42'' ''/proxy.slice'') sample_world) = Inr 0"
    by code_simp
  then obtain w' where run: "run_state (attach sample_os ''42'' ''/proxy.slice'') sample_world = (Inr 0, w')"
    by (metis prod.collapse)
  show ?thesis
    using attach_success [OF sample_quiet(2) sample_file_law sample_write_law pid cg run] run by blast
qed

lemma target_paths:
  assumes "validCgroup target"
  shows "c_str (cgroup2_mount_point @ target) = cgroup2_mount_point @ target"
    and "c_str (cgroup2_mount_point @ target @ ''/cgroup.procs'')
      = cgroup2_mount_point @ target @ ''/cgroup.procs''"
  using validCgroup_plain [OF assms]
  by (simp_all add: cgroup2_mount_point_def CGROUP2_MOUNT_POINT_def)



text \<open>A process that is already in the target cgroup is left alone: nothing is written.\<close>

theorem attach_idempotent:
  assumes "quiet_reads os" and "cgroup_file_law os cg_of"
    and "validPid pid" and "validCgroup target"
    and "fst (os_getuid os (kern w)) = 0"
    and "fst (os_is_dir os (cgroup2_mount_point @ target) (kern w))"
    and "cg_of (kern w) pid = Some target"
  shows "run_state (attach os pid target) w = (Inr 0, w)"
  using assms(5-7)
  by (simp add: attach_def Let_def run_quiet [OF assms(1)] dirExist_def target_paths [OF assms(4)]
      run_state_bindE getCgroup_law [OF assms(1-3)])

theorem attach_idempotent_witness:
  "run_state (attach sample_os ''43'' ''/noproxy.slice'') sample_world = (Inr 0, sample_world)"
proof -
  have "validPid ''43''" by (simp add: validPid_def is_digit_def char_in_def)
  moreover have "validCgroup ''/noproxy.slice''"
    by (simp add: validCgroup_def cgroup_char_def char_in_def)
  moreover have "sample_cg_of (kern sample_world) ''43'' = Some ''/noproxy.slice''"
    by (simp add: sample_cg_of_def cg_name_def)
  ultimately show ?thesis
    by (intro attach_idempotent [OF sample_quiet(2) sample_file_law])
      (simp_all add: cgroup2_mount_point_def)
qed

text \<open>
  What is not the number of a process is not refused: for a string that is no pid, and that
  no \<open>/proc\<close> entry answers to, \<open>attach\<close> reports \<open>SUCCESS\<close> and does nothing.
\<close>

theorem attach_accepts_no_pid:
  assumes "quiet_reads os" and "fst (os_getuid os (kern w)) = 0"
    and "fst (os_is_dir os (c_str (cgroup2_mount_point @ target)) (kern w))"
    and "\<not> validPid pid" and "\<not> fst (os_is_reg os (c_str (proc_file pid)) (kern w))"
  shows "run_state (attach os pid target) w = (Inr SUCCESS, w)"
  using assms(2,3,5)
  by (simp add: attach_def Let_def run_quiet [OF assms(1)] dirExist_def run_state_bindE
      getCgroup_quiet [OF assms(1)] proc_file_def SUCCESS_def)

theorem attach_accepts_no_pid_witness:
  "run_state (attach_pid sample_os (- 7) ''/proxy.slice'') sample_world = (Inr SUCCESS, sample_world)"
proof -
  have pid: "to_str_int (- 7) = ''-7''"
    by code_simp
  have "\<not> validPid ''-7''" by (simp add: validPid_def is_digit_def char_in_def)
  then show ?thesis
    unfolding attach_pid_def pid
    by (intro attach_accepts_no_pid [OF sample_quiet(2)])
      (simp_all add: cgroup2_mount_point_def CGROUP2_MOUNT_POINT_def proc_file_def)
qed

end
