(* ===== verification/Daemon.thy ===== *)
theory Daemon
  imports Config Cgroup_Attach
begin

text \<open>
  The daemon of \<open>src/cgproxyd.hpp\<close>: what it does with an executed program (\<open>handle_pid\<close>), with the
  programs already running (\<open>processRunningProgram\<close>), with a message (\<open>handle_msg\<close>), and how it
  applies a configuration through the script (\<open>applyConfig\<close>); and the policy of the readme (\<open>verdict\<close>), which
  \<open>handle_pid\<close> carries out but for one case.  The configuration object is a
  parameter and a result of what changes it.  Paths fixed when the program is installed are
  the record \<open>install\<close>.
\<close>

subsection \<open>Installation paths\<close>

record install =
  datadir :: string
  sysconfdir :: string

definition TPROXY_IPTABLS_START :: "install \<Rightarrow> string" where
  "TPROXY_IPTABLS_START inst = datadir inst @ ''/cgproxy/scripts/cgroup-tproxy.sh''"

definition TPROXY_IPTABLS_CLEAN :: "install \<Rightarrow> string" where
  "TPROXY_IPTABLS_CLEAN inst = datadir inst @ ''/cgproxy/scripts/cgroup-tproxy.sh stop''"

definition DEFAULT_CONFIG_FILE :: "install \<Rightarrow> string" where
  "DEFAULT_CONFIG_FILE inst = sysconfdir inst @ ''/cgproxy/config.json''"

subsection \<open>Executed programs\<close>

text \<open>
  One of the two blocks of \<open>handle_pid\<close>: \<open>Some\<close> is a \<open>return\<close> of the function, \<open>None\<close> falls through
  to the code after the block.
\<close>

definition pid_block ::
  "'k os \<Rightarrow> cint \<Rightarrow> string \<Rightarrow> string list \<Rightarrow> string list \<Rightarrow> string \<Rightarrow> ('k world, cint option res) state" where
  "pid_block os pid path programs scope preserved =
     (if path \<in> set programs
      then bindE (getCgroup_pid os pid) (\<lambda>cg.
        if cg = [] then ret (Inr (Some 0))
        else if belongToCgroup cg CGROUP_PROXY_PRESVERED \<or> belongToCgroup cg CGROUP_NOPROXY_PRESVERED
        then ret (Inr (Some 0))
        else if \<not> belongToCgroup_vec cg scope
        then bindE (attach_pid os pid preserved) (\<lambda>res. ret (Inr (Some res)))
        else ret (Inr None))
      else ret (Inr None))"

definition handle_pid :: "'k os \<Rightarrow> config \<Rightarrow> cint \<Rightarrow> ('k world, cint res) state" where
  "handle_pid os c pid = do {
     path \<leftarrow> realpath os (''/proc/'' @ to_str_int pid @ ''/exe'');
     case path of
       None \<Rightarrow> ret (Inr 0)
     | Some path \<Rightarrow>
         bindE (pid_block os pid path (program_noproxy c) (cgroup_noproxy c) CGROUP_NOPROXY_PRESVERED)
           (\<lambda>r. case r of Some res \<Rightarrow> ret (Inr res)
             | None \<Rightarrow>
               bindE (pid_block os pid path (program_proxy c) (cgroup_proxy c) CGROUP_PROXY_PRESVERED)
                 (\<lambda>r. case r of Some res \<Rightarrow> ret (Inr res) | None \<Rightarrow> ret (Inr 0))) }"

subsection \<open>Running programs\<close>

definition running_step ::
  "'k os \<Rightarrow> string list \<Rightarrow> string \<Rightarrow> cint \<Rightarrow> ('k world, unit res) state" where
  "running_step os scope preserved pid =
     bindE (getCgroup_pid os pid) (\<lambda>cg.
       if cg = [] then ret (Inr ())
       else if belongToCgroup cg CGROUP_PROXY_PRESVERED \<or> belongToCgroup cg CGROUP_NOPROXY_PRESVERED
       then ret (Inr ())
       else if \<not> belongToCgroup_vec cg scope
       then bindE (attach_pid os pid preserved) (\<lambda>status. ret (Inr ()))
       else ret (Inr ()))"

definition processRunningProgram :: "'k os \<Rightarrow> config \<Rightarrow> ('k world, unit res) state" where
  "processRunningProgram os c =
     bindE (for_each (\<lambda>path. bindE (bash_pidof os path)
              (for_each (running_step os (cgroup_noproxy c) CGROUP_NOPROXY_PRESVERED)))
              (program_noproxy c)) (\<lambda>_.
       for_each (\<lambda>path. bindE (bash_pidof os path)
              (for_each (running_step os (cgroup_proxy c) CGROUP_PROXY_PRESVERED)))
              (program_proxy c))"

subsection \<open>Messages\<close>

definition applyConfig :: "install \<Rightarrow> 'k os \<Rightarrow> config \<Rightarrow> ('k world, cint) state" where
  "applyConfig inst os c = do {
     system_cmd os (TPROXY_IPTABLS_CLEAN inst);
     toEnv c;
     system_cmd os (TPROXY_IPTABLS_START inst);
     ret 0 }"

text \<open>A load, and the script when it succeeded.\<close>

definition load_and_apply :: "install \<Rightarrow> 'k os \<Rightarrow> (config \<Rightarrow> ('k world, config \<times> cint res) state) \<Rightarrow>
    config \<Rightarrow> ('k world, config \<times> cint res) state" where
  "load_and_apply inst os load c = do {
     (c1, r) \<leftarrow> load c;
     case r of
       Inl e \<Rightarrow> ret (c1, Inl e)
     | Inr status \<Rightarrow>
         if status = SUCCESS then do { status \<leftarrow> applyConfig inst os c1; ret (c1, Inr status) }
         else ret (c1, Inr status) }"

text \<open>The part of \<open>handle_msg\<close> inside its second \<open>try\<close>.\<close>

definition handle_json ::
  "install \<Rightarrow> nlohmann \<Rightarrow> 'k os \<Rightarrow> json \<Rightarrow> config \<Rightarrow> ('k world, config \<times> cint res) state" where
  "handle_json inst js os j c = (case res_bind (js_at js j ''type'') (js_int js) of
       Inl e \<Rightarrow> ret (c, Inl e)
     | Inr type \<Rightarrow>
         if type = MSG_TYPE_CONFIG_JSON then
           (case res_bind (js_at js j ''data'') (js_dump js) of
              Inl e \<Rightarrow> ret (c, Inl e)
            | Inr s \<Rightarrow> load_and_apply inst os (loadFromJsonStr js os s) c)
         else if type = MSG_TYPE_CONFIG_PATH then
           (case res_bind (js_at js j ''data'') (js_string js) of
              Inl e \<Rightarrow> ret (c, Inl e)
            | Inr f \<Rightarrow> load_and_apply inst os (loadFromFile js os f) c)
         else if type = MSG_TYPE_PROXY_PID then
           (case res_bind (js_at js j ''data'') (js_int js) of
              Inl e \<Rightarrow> ret (c, Inl e)
            | Inr pid \<Rightarrow> do { status \<leftarrow> attach_pid os pid CGROUP_PROXY_PRESVERED; ret (c, status) })
         else if type = MSG_TYPE_NOPROXY_PID then
           (case res_bind (js_at js j ''data'') (js_int js) of
              Inl e \<Rightarrow> ret (c, Inl e)
            | Inr pid \<Rightarrow> do { status \<leftarrow> attach_pid os pid CGROUP_NOPROXY_PRESVERED; ret (c, status) })
         else ret (c, Inr MSG_ERROR))"

text \<open>The handlers after it: \<open>std::out_of_range\<close> first, then every \<open>std::exception\<close>.\<close>

fun catch_msg :: "cint res \<Rightarrow> cint res" where
  "catch_msg (Inr status) = Inr status"
| "catch_msg (Inl (Throw Std_out_of_range)) = Inr MSG_ERROR"
| "catch_msg (Inl (Throw e)) = Inr ERROR"
| "catch_msg (Inl Diverge) = Inl Diverge"

definition handle_msg ::
  "install \<Rightarrow> nlohmann \<Rightarrow> 'k os \<Rightarrow> string \<Rightarrow> config \<Rightarrow> ('k world, config \<times> cint res) state" where
  "handle_msg inst js os msg c = (case js_parse js msg of
       Inl (Throw e) \<Rightarrow> ret (c, Inr MSG_ERROR)
     | Inl Diverge \<Rightarrow> ret (c, Inl Diverge)
     | Inr j \<Rightarrow> do {
         (c1, r) \<leftarrow> handle_json inst js os j c;
         ret (c1, catch_msg r) })"

subsection \<open>Applying a configuration\<close>

text \<open>The variables after \<open>toEnv\<close>, and the calls of \<open>applyConfig\<close>.\<close>

definition env_after :: "config \<Rightarrow> env_vars \<Rightarrow> env_vars" where
  "env_after c env = env ++ map_of (map (\<lambda>(n, v). (n, c_str v)) (config_env c))"

definition apply_events :: "install \<Rightarrow> config \<Rightarrow> env_vars \<Rightarrow> event list" where
  "apply_events inst c env =
     [System (c_str (TPROXY_IPTABLS_CLEAN inst)) env]
     @ map (\<lambda>(n, v). Setenv n (c_str v)) (config_env c)
     @ [System (c_str (TPROXY_IPTABLS_START inst)) (env_after c env)]"

lemma run_applyConfig:
  "\<exists>k. run_state (applyConfig inst os c) w =
    (0, w\<lparr>kern := k, environ := env_after c (environ w),
          trace := trace w @ apply_events inst c (environ w)\<rparr>)"
proof -
  obtain s1 k1 where 1: "os_system os (c_str (TPROXY_IPTABLS_CLEAN inst)) (environ w) (kern w) = (s1, k1)"
    by fastforce
  obtain s2 k2 where 2: "os_system os (c_str (TPROXY_IPTABLS_START inst))
      (env_after c (environ w)) k1 = (s2, k2)"
    by fastforce
  show ?thesis
    using 2 by (intro exI [of _ k2])
      (simp add: applyConfig_def run_toEnv 1 env_after_def apply_events_def)
qed

text \<open>The variables hold the configuration.\<close>

definition in_sync :: "config \<Rightarrow> env_vars \<Rightarrow> bool" where
  "in_sync c env = (\<forall>(n, v) \<in> set (config_env c). env n = Some (c_str v))"

lemma in_sync_applied: "in_sync c (env_after c env)"
proof -
  have d: "distinct (map fst (map (\<lambda>(n, v). (n, c_str v)) (config_env c)))"
    by (simp add: config_env_def)
  have "env_after c env n = Some (c_str v)" if "(n, v) \<in> set (config_env c)" for n v
  proof -
    have "(n, c_str v) \<in> set (map (\<lambda>(n, v). (n, c_str v)) (config_env c))"
      using that by force
    then show ?thesis
      unfolding env_after_def by (intro map_add_find_right map_of_is_SomeI [OF d])
  qed
  then show ?thesis by (auto simp: in_sync_def)
qed

text \<open>
  Applying a configuration makes the calls in the order the script needs: it is stopped
  under the variables of the configuration before, then the variables are set, then it is
  started under variables that hold the new configuration.
\<close>

theorem apply_order:
  "\<exists>env'. in_sync c env' \<and> environ (snd (run_state (applyConfig inst os c) w)) = env' \<and>
    trace (snd (run_state (applyConfig inst os c) w)) =
      trace w @ [System (c_str (TPROXY_IPTABLS_CLEAN inst)) (environ w)]
        @ map (\<lambda>(n, v). Setenv n (c_str v)) (config_env c)
        @ [System (c_str (TPROXY_IPTABLS_START inst)) env']"
proof -
  obtain k where "run_state (applyConfig inst os c) w =
    (0, w\<lparr>kern := k, environ := env_after c (environ w),
          trace := trace w @ apply_events inst c (environ w)\<rparr>)"
    using run_applyConfig [of inst os c w] by (rule exE)
  then show ?thesis
    by (intro exI [of _ "env_after c (environ w)"]) (simp add: in_sync_applied apply_events_def)
qed

subsection \<open>Loading and applying\<close>

text \<open>
  The two ways a message can load a configuration share one contract: either nothing changes and
  the status says so, or the loaded object is applied.
\<close>

locale daemon_loader = config_loader load valid built_in
  for load :: "config \<Rightarrow> ('k world, config \<times> cint res) state"
    and valid :: "config \<Rightarrow> bool" and built_in :: "config \<Rightarrow> bool" +
  fixes documented :: bool
  assumes load_returns: "documented \<Longrightarrow> run_state (load c) w = ((c', r), w') \<Longrightarrow> r \<noteq> Inl Diverge"
begin

lemma load_and_apply_outcome:
  assumes "run_state (load_and_apply inst os load c) w = ((c', r), w')"
  shows "(c' = c \<and> r \<noteq> Inr SUCCESS \<and> environ w' = environ w \<and>
            (\<exists>cmds. trace w' = trace w @ map Popen cmds)) \<or>
         (built_in c' \<and> r = Inr SUCCESS \<and> environ w' = env_after c' (environ w) \<and>
            (\<exists>cmds. trace w' = trace w @ map Popen cmds @ apply_events inst c' (environ w)))"
proof -
  obtain c1 r1 w1 where load: "run_state (load c) w = ((c1, r1), w1)" by (metis prod.exhaust)
  obtain cmds where tr: "trace w1 = trace w @ map Popen cmds" using load_queries_only [OF load] by blast
  have env: "environ w1 = environ w" using keepsD [OF load_environ refl load] .
  show ?thesis
  proof (cases "r1 = Inr SUCCESS")
    case True
    obtain k where "run_state (applyConfig inst os c1) w1 =
        (0, w1\<lparr>kern := k, environ := env_after c1 (environ w1),
               trace := trace w1 @ apply_events inst c1 (environ w1)\<rparr>)"
      using run_applyConfig [of inst os c1 w1] by (rule exE)
    then have "c' = c1" "r = Inr SUCCESS" "environ w' = env_after c1 (environ w)"
        "trace w' = trace w @ map Popen cmds @ apply_events inst c1 (environ w)"
      using assms True by (auto simp: load_and_apply_def load tr env SUCCESS_def)
    moreover have "built_in c1" using load_built_in load True by (simp add: SUCCESS_def)
    ultimately show ?thesis by blast
  next
    case False
    then have "c' = c1" "r = r1" "w' = w1"
      using assms by (auto simp: load_and_apply_def load split: sum.splits)
    moreover have "c1 = c" using load_failed [OF load] False by (simp add: SUCCESS_def)
    ultimately show ?thesis using False tr env by blast
  qed
qed

lemma load_and_apply_valid:
  assumes "valid c" and "run_state (load_and_apply inst os load c) w = ((c', r), w')"
  shows "valid c'"
proof -
  obtain c1 r1 w1 where load: "run_state (load c) w = ((c1, r1), w1)" by (metis prod.exhaust)
  have "c' = c1"
    using assms(2) by (auto simp: load_and_apply_def load split: sum.splits if_splits prod.splits)
  with load_valid [OF assms(1) load] show ?thesis by simp
qed

lemma load_and_apply_built_in:
  assumes "built_in c" and "run_state (load_and_apply inst os load c) w = ((c', r), w')"
  shows "built_in c'"
  using load_and_apply_outcome [OF assms(2)] assms(1) by auto

lemma load_and_apply_returns:
  assumes "documented" and "run_state (load_and_apply inst os load c) w = ((c', r), w')"
  shows "r \<noteq> Inl Diverge"
proof -
  obtain c1 r1 w1 where load: "run_state (load c) w = ((c1, r1), w1)" by (metis prod.exhaust)
  from load_returns [OF assms(1) load] show ?thesis
    using assms(2) by (auto simp: load_and_apply_def load split: sum.splits if_splits prod.splits)
qed

end

text \<open>Nothing on the way to a status runs for ever when the library does not.\<close>

lemma check_members_returns:
  assumes "js_documented js"
  shows "check_members js kvs \<noteq> Inl Diverge"
proof (induction kvs)
  case (Cons kv kvs)
  have "check_cgroup js (snd kv) \<noteq> Inl Diverge"
    using js_returns [OF assms] by (auto simp: check_cgroup_def res_bind_Inl_iff)
  then have "check_member js (fst kv) (snd kv) \<noteq> Inl Diverge"
    using js_returns [OF assms] by (auto simp: check_member_def res_bind_Inl_iff)
  with Cons show ?case by (cases kv) (auto simp: res_bind_Inl_iff)
qed simp

lemma loadFromJsonStr_returns:
  assumes "js_documented js" and "run_state (loadFromJsonStr js os s c) w = ((c', r), w')"
  shows "r \<noteq> Inl Diverge"
proof -
  have "validateJsonStr js s \<noteq> Inl Diverge"
    using js_returns [OF assms(1)] check_members_returns [OF assms(1)]
    by (auto simp: validateJsonStr_def res_bind_Inl_iff)
  then show ?thesis
    using assms(2) js_returns(1) [OF assms(1), of s]
    by (auto simp: loadFromJsonStr_def split: sum.splits if_splits prod.splits)
qed

lemma loadFromFile_returns:
  assumes "js_documented js" and "run_state (loadFromFile js os f c) w = ((c', r), w')"
  shows "r \<noteq> Inl Diverge"
  using assms(2) by (cases rule: load_outcome_file) (auto dest: loadFromJsonStr_returns [OF assms(1)])

interpretation msg_json: daemon_loader "loadFromJsonStr js os s"
  "\<lambda>c. js_documented js \<longrightarrow> config_valid c" reserved "js_documented js"
  by unfold_locales (rule loadFromJsonStr_returns)

interpretation msg_file: daemon_loader "loadFromFile js os f"
  "\<lambda>c. js_documented js \<longrightarrow> config_valid c" reserved "js_documented js"
  by unfold_locales (rule loadFromFile_returns)

text \<open>What a message can have done when its handler returns.\<close>

definition preserved_cgroups :: "string set" where
  "preserved_cgroups = {CGROUP_PROXY_PRESVERED, CGROUP_NOPROXY_PRESVERED}"

definition moves_pid :: "event \<Rightarrow> bool" where
  "moves_pid e = (\<exists>cg \<in> preserved_cgroups. touches cg e)"

definition rejected :: "config \<Rightarrow> config \<Rightarrow> 'k world \<Rightarrow> 'k world \<Rightarrow> bool" where
  "rejected c c' w w' = (c' = c \<and> environ w' = environ w \<and> (\<exists>cmds. trace w' = trace w @ map Popen cmds))"

definition attached :: "config \<Rightarrow> config \<Rightarrow> 'k world \<Rightarrow> 'k world \<Rightarrow> bool" where
  "attached c c' w w' = (c' = c \<and> environ w' = environ w \<and>
     (\<exists>es. trace w' = trace w @ es \<and> list_all moves_pid es))"

definition applied :: "install \<Rightarrow> config \<Rightarrow> 'k world \<Rightarrow> 'k world \<Rightarrow> bool" where
  "applied inst c' w w' = (reserved c' \<and> environ w' = env_after c' (environ w) \<and>
     (\<exists>cmds. trace w' = trace w @ map Popen cmds @ apply_events inst c' (environ w)))"

lemma keeps_environ_attach [simp, intro]:
  "keeps (\<lambda>w. environ w = env) (attach os pid cg)"
  "keeps (\<lambda>w. environ w = env) (attach_pid os p cg)"
  unfolding attach_pid_def attach_def write2procs_def Let_def by auto

lemma attach_attached:
  assumes "cg \<in> preserved_cgroups" and "run_state (attach_pid os pid cg) w = (r, w')"
  shows "attached c c w w'"
proof -
  have "emits moves_pid (attach_pid os pid cg)"
    unfolding moves_pid_def by (rule pid_attacher.att_scoped [OF assms(1)])
  moreover have "environ w' = environ w"
    by (rule keepsD [OF keeps_environ_attach(2) refl assms(2)])
  ultimately show ?thesis using emitsD [OF _ assms(2)] by (auto simp: attached_def)
qed

text \<open>The branches of the handler.\<close>

lemma handle_json_cases:
  assumes "run_state (handle_json inst js os j c) w = ((c', r), w')"
  obtains (rejected) "c' = c" "w' = w" "r = Inr MSG_ERROR \<or>
      (\<exists>e. r = Inl e \<and> (js_documented js \<longrightarrow> e \<noteq> Diverge))"
    | (json) s where "run_state (load_and_apply inst os (loadFromJsonStr js os s) c) w = ((c', r), w')"
    | (path) f where "run_state (load_and_apply inst os (loadFromFile js os f) c) w = ((c', r), w')"
    | (att) pid cg where "cg \<in> preserved_cgroups"
        "run_state (seq (attach_pid os pid cg) (\<lambda>status. ret (c, status))) w = ((c', r), w')"
proof (cases "res_bind (js_at js j ''type'') (js_int js)")
  case (Inl e)
  then have "js_documented js \<longrightarrow> e \<noteq> Diverge"
    by (auto simp: res_bind_Inl_iff dest: js_returns)
  moreover have "c' = c" "w' = w" "r = Inl e"
    using assms by (simp_all add: handle_json_def Inl)
  ultimately show ?thesis by (intro rejected) simp_all
next
  case (Inr t)
  note run = assms [unfolded handle_json_def Inr sum.case]
  have error: ?thesis
    if "res_bind (js_at js j ''data'') f = Inl e" "\<And>v. js_documented js \<Longrightarrow> f v \<noteq> Inl Diverge"
      "run_state (ret (c, Inl e)) w = ((c', r), w')" for f :: "json \<Rightarrow> 'b res" and e
    using that by (intro rejected) (auto simp: res_bind_Inl_iff dest: js_returns)
  have proxy: "CGROUP_PROXY_PRESVERED \<in> preserved_cgroups"
    and noproxy: "CGROUP_NOPROXY_PRESVERED \<in> preserved_cgroups"
    by (simp_all add: preserved_cgroups_def)
  consider "t = MSG_TYPE_CONFIG_JSON" | "t = MSG_TYPE_CONFIG_PATH" | "t = MSG_TYPE_PROXY_PID"
    | "t = MSG_TYPE_NOPROXY_PID"
    | "t \<notin> {MSG_TYPE_CONFIG_JSON, MSG_TYPE_CONFIG_PATH, MSG_TYPE_PROXY_PID, MSG_TYPE_NOPROXY_PID}"
    by blast
  then show ?thesis
  proof cases
    case 1
    with run json error [OF _ js_returns(2)] show ?thesis
      by (cases "res_bind (js_at js j ''data'') (js_dump js)") auto
  next
    case 2
    with run path error [OF _ js_returns(5)] show ?thesis
      by (cases "res_bind (js_at js j ''data'') (js_string js)") (auto simp: msg_type_defs)
  next
    case 3
    with run att [OF proxy] error [OF _ js_returns(4)] show ?thesis
      by (cases "res_bind (js_at js j ''data'') (js_int js)") (auto simp: msg_type_defs)
  next
    case 4
    with run att [OF noproxy] error [OF _ js_returns(4)] show ?thesis
      by (cases "res_bind (js_at js j ''data'') (js_int js)") (auto simp: msg_type_defs)
  next
    case 5
    with run show ?thesis by (intro rejected) auto
  qed
qed

lemma handle_json_outcome:
  assumes "run_state (handle_json inst js os j c) w = ((c', r), w')"
  shows "(r \<noteq> Inr SUCCESS \<and> rejected c c' w w') \<or> attached c c' w w' \<or>
    (r = Inr SUCCESS \<and> applied inst c' w w')"
proof -
  have same: "rejected c c w w" by (auto simp: rejected_def intro: exI [of _ "[]"])
  have load: ?thesis if "daemon_loader load valid reserved doc"
    "run_state (load_and_apply inst os load c) w = ((c', r), w')" for load valid doc
    using daemon_loader.load_and_apply_outcome [OF that] by (auto simp: rejected_def applied_def)
  have moved: ?thesis if "cg \<in> preserved_cgroups"
    "run_state (seq (attach_pid os pid cg) (\<lambda>status. ret (c, status))) w = ((c', r), w')" for cg pid
  proof -
    obtain r1 w1 where run: "run_state (attach_pid os pid cg) w = (r1, w1)" by fastforce
    with that(2) have "c' = c" "w' = w1" by auto
    with attach_attached [OF that(1) run] show ?thesis by simp
  qed
  consider (rejected) "c' = c" "w' = w" "r = Inr MSG_ERROR \<or>
      (\<exists>e. r = Inl e \<and> (js_documented js \<longrightarrow> e \<noteq> Diverge))"
    | (json) s where "run_state (load_and_apply inst os (loadFromJsonStr js os s) c) w = ((c', r), w')"
    | (path) f where "run_state (load_and_apply inst os (loadFromFile js os f) c) w = ((c', r), w')"
    | (att) pid cg where "cg \<in> preserved_cgroups"
        "run_state (seq (attach_pid os pid cg) (\<lambda>status. ret (c, status))) w = ((c', r), w')"
    using assms by (rule handle_json_cases)
  then show ?thesis
  proof cases
    case rejected
    with same show ?thesis by (auto simp: status_defs)
  next
    case json
    show ?thesis by (rule load [OF msg_json.daemon_loader_axioms json])
  next
    case path
    show ?thesis by (rule load [OF msg_file.daemon_loader_axioms path])
  next
    case att
    then show ?thesis by (rule moved)
  qed
qed

lemma attach_pid_returns: "fst (run_state (attach_pid os pid cg) w) \<noteq> Inl Diverge"
proof -
  have line: "cgroup_line ls \<noteq> Inl Diverge" for ls
    by (induction ls) auto
  have look: "hoare P (getCgroup os p) (\<lambda>r _. r \<noteq> Inl Diverge)" for P p
    unfolding getCgroup_def hoare_def by (auto simp: line split: prod.splits option.splits)
  have "hoare (\<lambda>_. True) (attach os p cg) (\<lambda>r _. r \<noteq> Inl Diverge)" for p
    unfolding attach_def Let_def
    by (intro hoare_seq [OF hoare_True] hoare_if hoare_retI hoare_bindE [OF look]) auto
  from hoare_run [OF this] show ?thesis by (simp add: attach_pid_def)
qed

lemma handle_json_keeps:
  assumes "js_documented js" and "config_valid c" and "reserved c"
    and "run_state (handle_json inst js os j c) w = ((c', r), w')"
  shows "config_valid c' \<and> reserved c' \<and> r \<noteq> Inl Diverge"
  using assms(4)
proof (cases rule: handle_json_cases)
  case rejected
  with assms(1-3) show ?thesis by auto
next
  case json
  from msg_json.load_and_apply_valid [OF _ this] msg_json.load_and_apply_built_in [OF assms(3) this]
    msg_json.load_and_apply_returns [OF assms(1) this] assms(1,2)
  show ?thesis by simp
next
  case path
  from msg_file.load_and_apply_valid [OF _ this] msg_file.load_and_apply_built_in [OF assms(3) this]
    msg_file.load_and_apply_returns [OF assms(1) this] assms(1,2)
  show ?thesis by simp
next
  case (att pid cg)
  with attach_pid_returns [of os pid cg w] assms(2,3) show ?thesis
    by (auto split: prod.splits)
qed

lemma handle_msg_outcome:
  assumes "js_documented js" and "config_valid c" and "reserved c"
    and "run_state (handle_msg inst js os msg c) w = ((c', r), w')"
  shows "\<exists>status. r = Inr status \<and> config_valid c' \<and> reserved c' \<and>
    ((status \<noteq> SUCCESS \<and> rejected c c' w w') \<or> attached c c' w w' \<or>
     (status = SUCCESS \<and> applied inst c' w w'))"
proof (cases "js_parse js msg")
  case (Inl e)
  then have "e \<noteq> Diverge" using js_returns(1) [OF assms(1)] by auto
  then have "r = Inr MSG_ERROR \<and> c' = c \<and> w' = w"
    using assms(4) Inl by (cases e) (auto simp: handle_msg_def)
  moreover have "rejected c c w w" by (auto simp: rejected_def intro: exI [of _ "[]"])
  ultimately show ?thesis using assms(2,3) by (simp add: status_defs)
next
  case (Inr j)
  obtain c1 r1 w1 where run: "run_state (handle_json inst js os j c) w = ((c1, r1), w1)"
    by (metis prod.exhaust)
  have eqs: "c' = c1" "r = catch_msg r1" "w' = w1"
    using assms(4) by (auto simp: handle_msg_def Inr run)
  have inv: "config_valid c1" "reserved c1" "r1 \<noteq> Inl Diverge"
    using handle_json_keeps [OF assms(1-3) run] by auto
  then obtain status where status: "r = Inr status" "status = SUCCESS \<longleftrightarrow> r1 = Inr SUCCESS"
    unfolding eqs(2) by (cases r1 rule: catch_msg.cases) (auto simp: status_defs)
  show ?thesis
    using handle_json_outcome [OF run] inv status unfolding eqs by auto
qed

text \<open>
  C6. Whatever the message, the handler returns a status: no exception leaves it.  The object
  stays valid with the built-in scopes first, and one of three things has happened.  The message
  was refused (some status but \<open>SUCCESS\<close>; object, variables and kernel untouched but for queries);
  or a process was to be attached (only the two built-in cgroups touched); or the configuration was
  replaced (\<open>SUCCESS\<close>; the script stopped, the variables set, the script started).
\<close>

theorem handle_msg_contract:
  assumes "js_documented js" and "config_valid c" and "reserved c"
    and "run_state (handle_msg inst js os msg c) w = ((c', r), w')"
  shows "\<exists>status. r = Inr status \<and> config_valid c' \<and> reserved c' \<and>
    ((status \<noteq> SUCCESS \<and> rejected c c' w w') \<or> attached c c' w w' \<or>
     (status = SUCCESS \<and> applied inst c' w w'))"
  by (rule handle_msg_outcome [OF assms])

text \<open>A library that reads one text as a message and every other as the document in it.\<close>

definition wire_js :: "string \<Rightarrow> json \<Rightarrow> json \<Rightarrow> nlohmann" where
  "wire_js msg j d = documented_js (\<lambda>s. Inr (if s = msg then j else d)) (\<lambda>_. Inr ''doc'') (\<lambda>_. 0)"

lemma wire_js_documented: "js_documented (wire_js msg j d)"
  by (simp add: wire_js_def documented_js_documented)

lemma wire_js_simps [simp]:
  "js_parse (wire_js msg j d) s = Inr (if s = msg then j else d)"
  "js_dump (wire_js msg j d) v = Inr ''doc''"
  by (simp_all add: wire_js_def documented_js_def)

definition sample_inst :: install where
  "sample_inst = \<lparr>datadir = ''/usr/share'', sysconfdir = ''/etc''\<rparr>"

lemma mergeReserved_default: "config_valid (mergeReserved default_config)" "reserved (mergeReserved default_config)"
  by (simp_all add: mergeReserved_valid default_config_valid mergeReserved_reserved)

theorem handle_msg_contract_witness:
  "\<exists>c' w'. run_state (handle_msg sample_inst
      (wire_js ''msg'' (JObject [(''type'', JInt 1), (''data'', JNull)]) (JObject [(''table'', JInt 7)]))
      sample_os ''msg'' (mergeReserved default_config)) sample_world = ((c', Inr SUCCESS), w') \<and>
    config_valid c' \<and> applied sample_inst c' sample_world w'"
proof -
  let ?js = "wire_js ''msg'' (JObject [(''type'', JInt 1), (''data'', JNull)]) (JObject [(''table'', JInt 7)])"
  let ?c = "mergeReserved default_config"
  note doc = wire_js_documented
  have "validateJsonStr ?js ''doc'' = Inr True"
    by (simp add: validateJsonStr_def js_items_doc [OF doc] check_member_def boolset_def allowset_def)
  then obtain c1 es where load: "run_state (loadFromJsonStr ?js sample_os ''doc'' ?c) sample_world =
      ((c1, Inr SUCCESS), sample_world\<lparr>trace := es\<rparr>)"
    using run_load_quiet [OF sample_quiet(1) _ wire_js_simps(1) refl] by fastforce
  obtain c' r w' where run: "run_state (handle_msg sample_inst ?js sample_os ''msg'' ?c) sample_world
      = ((c', r), w')"
    by (metis prod.exhaust)
  then have "r = Inr SUCCESS \<and> environ w' ''table'' \<noteq> None"
    using load by (simp add: handle_msg_def handle_json_def js_at_doc [OF doc] js_get_doc [OF doc]
        MSG_TYPE_CONFIG_JSON_def load_and_apply_def status_defs applyConfig_def run_toEnv config_env_def
        split: prod.splits) auto
  then have "r = Inr SUCCESS" "\<not> attached ?c c' sample_world w'"
    by (auto simp: attached_def)
  then show ?thesis
    using run handle_msg_contract [OF doc mergeReserved_default run] by auto
qed

subsection \<open>What happens to an executed program\<close>

text \<open>
  The policy of the documentation (options priority in \<open>readme.md\<close>): a process that \<open>cgproxy\<close> or \<open>cgnoproxy\<close> has put
  into one of the built-in cgroups is left alone; then \<open>program_noproxy\<close> comes before \<open>program_proxy\<close>.  An exempted
  program is moved out unless it already is in an exempt scope, a proxied one is moved in unless it already is
  in a proxied scope.
\<close>

datatype verdict = Leave | Exempt | Proxied

definition verdict :: "config \<Rightarrow> string \<Rightarrow> string \<Rightarrow> verdict" where
  "verdict c path cg =
     (if \<exists>p \<in> preserved_cgroups. belongToCgroup cg p then Leave
      else if path \<in> set (program_noproxy c)
      then (if \<exists>s \<in> set (cgroup_noproxy c). belongToCgroup cg s then Leave else Exempt)
      else if path \<in> set (program_proxy c) \<and> (\<forall>s \<in> set (cgroup_proxy c). \<not> belongToCgroup cg s)
      then Proxied
      else Leave)"

text \<open>
  What the two blocks of \<open>handle_pid\<close> come to.  They differ from the policy for a program in both lists that runs in an
  exempt scope: the first block has nothing to do, and the second goes on as if it were not exempted.
\<close>

definition placement :: "config \<Rightarrow> string \<Rightarrow> string \<Rightarrow> verdict" where
  "placement c path cg =
     (if \<exists>p \<in> preserved_cgroups. belongToCgroup cg p then Leave
      else if path \<in> set (program_noproxy c) \<and> (\<forall>s \<in> set (cgroup_noproxy c). \<not> belongToCgroup cg s)
      then Exempt
      else if path \<in> set (program_proxy c) \<and> (\<forall>s \<in> set (cgroup_proxy c). \<not> belongToCgroup cg s)
      then Proxied
      else Leave)"

definition contested :: "config \<Rightarrow> string \<Rightarrow> string \<Rightarrow> bool" where
  "contested c path cg = (path \<in> set (program_noproxy c) \<and> path \<in> set (program_proxy c) \<and>
     (\<exists>s \<in> set (cgroup_noproxy c). belongToCgroup cg s))"


fun verdict_cgroup :: "verdict \<Rightarrow> string option" where
  "verdict_cgroup Leave = None"
| "verdict_cgroup Exempt = Some CGROUP_NOPROXY_PRESVERED"
| "verdict_cgroup Proxied = Some CGROUP_PROXY_PRESVERED"

text \<open>The program of a process, as \<open>realpath\<close> of its \<open>exe\<close> link finds it.\<close>

definition exe_of :: "'k os \<Rightarrow> 'k \<Rightarrow> cint \<Rightarrow> string option" where
  "exe_of os k pid = fst (os_realpath os (''/proc/'' @ to_str_int pid @ ''/exe'') k)"

lemma run_exe:
  assumes "quiet_reads os"
  shows "run_state (realpath os (''/proc/'' @ to_str_int pid @ ''/exe'')) w = (exe_of os (kern w) pid, w)"
proof -
  have "c_str (''/proc/'' @ to_str_int pid @ ''/exe'') = ''/proc/'' @ to_str_int pid @ ''/exe''"
    by (rule c_str_id) simp
  then show ?thesis by (simp only: run_quiet(5) [OF assms] exe_of_def)
qed

lemma run_getCgroup_pid:
  assumes "quiet_reads os" and "cgroup_file_law os cg_of" and "0 \<le> sint pid"
  shows "run_state (getCgroup_pid os pid) w =
    (Inr (case cg_of (kern w) (to_str_int pid) of None \<Rightarrow> [] | Some cg \<Rightarrow> cg), w)"
  using getCgroup_law [OF assms(1,2)] assms(3) by (simp add: getCgroup_pid_def validPid_to_str)

lemma in_preserved:
  "belongToCgroup cg CGROUP_PROXY_PRESVERED \<or> belongToCgroup cg CGROUP_NOPROXY_PRESVERED \<longleftrightarrow>
     (\<exists>p \<in> preserved_cgroups. belongToCgroup cg p)"
  by (auto simp: preserved_cgroups_def)

lemma run_pid_block:
  assumes "quiet_reads os" and "cgroup_file_law os cg_of" and "0 \<le> sint pid"
    and "cg_of (kern w) (to_str_int pid) = Some cg"
  shows "run_state (pid_block os pid path programs scope preserved) w =
    (if path \<notin> set programs then (Inr None, w)
     else if \<exists>p \<in> preserved_cgroups. belongToCgroup cg p then (Inr (Some 0), w)
     else if \<forall>s \<in> set scope. \<not> belongToCgroup cg s
     then run_state (bindE (attach_pid os pid preserved) (\<lambda>res. ret (Inr (Some res)))) w
     else (Inr None, w))"
proof -
  have "validPid (to_str_int pid)" using assms(3) by (simp add: validPid_to_str)
  then have "cg \<noteq> []" using assms(2,4) unfolding cgroup_file_law_def by blast
  then show ?thesis
    using assms(4) by (simp add: pid_block_def run_state_bindE run_getCgroup_pid [OF assms(1-3)]
        in_preserved cg.within_any_iff)
qed

lemma handle_pid_placement:
  assumes "quiet_reads os" and "cgroup_file_law os cg_of" and "0 \<le> sint pid"
    and "exe_of os (kern w) pid = Some path" and "cg_of (kern w) (to_str_int pid) = Some cg"
  shows "run_state (handle_pid os c pid) w = (case verdict_cgroup (placement c path cg) of
      None \<Rightarrow> (Inr 0, w)
    | Some target \<Rightarrow> run_state (attach_pid os pid target) w)"
proof -
  have attach: "run_state (bindE (bindE (attach_pid os pid target) (\<lambda>res. ret (Inr (Some res))))
      (\<lambda>r. case r of Some res \<Rightarrow> ret (Inr res) | None \<Rightarrow> m)) w = run_state (attach_pid os pid target) w"
    for target m
    by (auto simp: run_state_bindE split: prod.splits sum.splits)
  have "run_state (handle_pid os c pid) w = run_state (
      bindE (pid_block os pid path (program_noproxy c) (cgroup_noproxy c) CGROUP_NOPROXY_PRESVERED)
        (\<lambda>r. case r of Some res \<Rightarrow> ret (Inr res)
          | None \<Rightarrow>
            bindE (pid_block os pid path (program_proxy c) (cgroup_proxy c) CGROUP_PROXY_PRESVERED)
              (\<lambda>r. case r of Some res \<Rightarrow> ret (Inr res) | None \<Rightarrow> ret (Inr 0)))) w"
    by (simp only: handle_pid_def run_state_bind run_exe [OF assms(1)] prod.case assms(4) option.case)
  also have "\<dots> = (case verdict_cgroup (placement c path cg) of
      None \<Rightarrow> (Inr 0, w) | Some target \<Rightarrow> run_state (attach_pid os pid target) w)"
    using attach [unfolded run_state_bindE]
    by (auto simp: placement_def run_state_bindE run_pid_block [OF assms(1-3,5)])
  finally show ?thesis .
qed

lemma preserved_cgroup_valid: "cg \<in> preserved_cgroups \<Longrightarrow> validCgroup cg"
  by (auto simp: preserved_cgroups_def)

lemma handle_pid_settles:
  assumes "quiet_reads os" and "cgroup_file_law os cg_of"
    and "cgroup_write_law os cgroup2_mount_point cg_of" and "0 \<le> sint pid"
    and "exe_of os (kern w) pid = Some path" and "cg_of (kern w) (to_str_int pid) = Some cg"
    and "run_state (handle_pid os c pid) w = (r, w')"
  shows "case verdict_cgroup (placement c path cg) of
      None \<Rightarrow> r = Inr 0 \<and> w' = w
    | Some target \<Rightarrow> (r = Inr 0 \<longrightarrow> settled cg_of (to_str_int pid) target (kern w')) \<and>
        attach_trace (to_str_int pid) target 1 2 (trace w) (trace w')"
proof (cases "verdict_cgroup (placement c path cg)")
  case None
  with handle_pid_placement [OF assms(1,2,4-6)] assms(7) show ?thesis by simp
next
  case (Some target)
  then have run: "run_state (attach os (to_str_int pid) target) w = (r, w')"
    using handle_pid_placement [OF assms(1,2,4-6)] assms(7) by (simp add: attach_pid_def)
  have "target \<in> preserved_cgroups"
    using Some by (cases "placement c path cg") (auto simp: preserved_cgroups_def)
  then have cg: "validCgroup target" by (rule preserved_cgroup_valid)
  have pid: "validPid (to_str_int pid)" using assms(4) by (simp add: validPid_to_str)
  show ?thesis
    using Some hoareD [OF attach_settles [OF assms(1-3) pid cg] TrueI run]
      hoareD [OF attach_traces attach_trace_refl run] by simp
qed



text \<open>
  C19. The priority of \<open>program_noproxy\<close> is lost where the process already is exempt: a program in both lists, running in a
  scope of \<open>cgroup_noproxy\<close>, is to be left alone by the documentation, and \<open>handle_pid\<close> moves it into the proxied
  cgroup.
\<close>

theorem exemption_overridden:
  assumes "quiet_reads os" and "cgroup_file_law os cg_of"
    and "cgroup_write_law os cgroup2_mount_point cg_of" and "0 \<le> sint pid"
    and "exe_of os (kern w) pid = Some path" and "cg_of (kern w) (to_str_int pid) = Some cg"
    and "contested c path cg" and "\<forall>s \<in> preserved_cgroups \<union> set (cgroup_proxy c). \<not> belongToCgroup cg s"
    and "run_state (handle_pid os c pid) w = (Inr 0, w')"
  shows "verdict c path cg = Leave \<and> settled cg_of (to_str_int pid) CGROUP_PROXY_PRESVERED (kern w')"
proof -
  have "verdict c path cg = Leave" "placement c path cg = Proxied"
    using assms(7,8) by (auto simp: verdict_def placement_def contested_def)
  with handle_pid_settles [OF assms(1-6,9)] show ?thesis by simp
qed

theorem exemption_overridden_witness:
  "\<exists>c w'. run_state (handle_pid sample_os c 42) sample_world = (Inr 0, w') \<and> ''/usr/bin/curl'' \<in> set (program_noproxy c) \<and>
    verdict c ''/usr/bin/curl'' ''/user.slice'' = Leave \<and> settled sample_cg_of ''42'' ''/proxy.slice'' (kern w')"
proof -
  let ?c = "default_config\<lparr>program_proxy := [''/usr/bin/curl''], program_noproxy := [''/usr/bin/curl''], cgroup_noproxy := [''/user.slice'']\<rparr>"
  have pid: "to_str_int 42 = ''42''" and exe: "exe_of sample_os (kern sample_world) 42 = Some ''/usr/bin/curl''"
    and cg: "sample_cg_of (kern sample_world) (to_str_int 42) = Some ''/user.slice''"
    and con: "contested ?c ''/usr/bin/curl'' ''/user.slice''"
    and free: "\<forall>s \<in> preserved_cgroups \<union> set (cgroup_proxy ?c). \<not> belongToCgroup ''/user.slice'' s"
    and res: "fst (run_state (handle_pid sample_os ?c 42) sample_world) = Inr 0"
    by code_simp+
  obtain w' where run: "run_state (handle_pid sample_os ?c 42) sample_world = (Inr 0, w')"
    using res by (metis prod.collapse)
  from exemption_overridden [OF sample_quiet(2) sample_file_law sample_write_law _ exe cg con free run]
  have "verdict ?c ''/usr/bin/curl'' ''/user.slice'' = Leave \<and> settled sample_cg_of ''42'' CGROUP_PROXY_PRESVERED (kern w')"
    by (simp add: pid)
  with run show ?thesis by (intro exI [of _ ?c] exI [of _ w']) (simp add: preserved_defs)
qed

subsection \<open>Programs that are already running\<close>


definition visit :: "'k os \<Rightarrow> string list \<Rightarrow> string list \<Rightarrow> string \<Rightarrow> string \<Rightarrow> cint \<Rightarrow> ('k world, unit res) state" where
  "visit os programs scope preserved path pid =
     (if path \<in> set programs then running_step os scope preserved pid else ret (Inr ()))"



subsection \<open>Nothing but processes moves\<close>

lemma emits_attach_preserved:
  "cg \<in> preserved_cgroups \<Longrightarrow> (\<And>e. moves_pid e \<Longrightarrow> A e) \<Longrightarrow> emits A (attach_pid os pid cg)"
  unfolding moves_pid_def by (rule emits_mono [OF pid_attacher.att_scoped])

lemma preserved_cgroups_members:
  "CGROUP_PROXY_PRESVERED \<in> preserved_cgroups" "CGROUP_NOPROXY_PRESVERED \<in> preserved_cgroups"
  by (simp_all add: preserved_cgroups_def)

lemma emits_pid_block:
  "cg \<in> preserved_cgroups \<Longrightarrow> emits moves_pid (pid_block os pid path programs scope cg)"
  unfolding pid_block_def by (auto intro!: emits_attach_preserved)

lemma emits_running_step:
  assumes "cg \<in> preserved_cgroups" and "\<And>e. moves_pid e \<Longrightarrow> A e"
  shows "emits A (running_step os scope cg pid)"
  unfolding running_step_def using assms by (auto intro!: emits_attach_preserved)

definition asks_pidof :: "string list \<Rightarrow> event \<Rightarrow> bool" where
  "asks_pidof programs e = (\<exists>p \<in> set programs. e = Popen (c_str (''pidof '' @ p)))"

lemma emits_bash_pidof:
  "A (Popen (c_str (''pidof '' @ path))) \<Longrightarrow> emits A (bash_pidof os path)"
  unfolding bash_pidof_def by (auto intro!: emits_popen split: option.splits)

lemma emits_handle_pid: "emits moves_pid (handle_pid os c pid)"
  unfolding handle_pid_def
  by (auto intro!: emits_pid_block split: option.splits simp: preserved_cgroups_members)

lemma emits_processRunningProgram:
  "emits (\<lambda>e. moves_pid e \<or> asks_pidof (program_noproxy c @ program_proxy c) e) (processRunningProgram os c)"
proof -
  let ?A = "\<lambda>e. moves_pid e \<or> asks_pidof (program_noproxy c @ program_proxy c) e"
  have visit: "emits ?A (bindE (bash_pidof os path) (for_each (running_step os scope cg)))"
    if "path \<in> set (program_noproxy c @ program_proxy c)" "cg \<in> preserved_cgroups" for path scope cg
    using that by (intro emits_bindE emits_for_each emits_running_step emits_bash_pidof)
      (auto simp: asks_pidof_def)
  then show ?thesis
    unfolding processRunningProgram_def
    by (intro emits_bindE emits_for_each visit) (auto simp: preserved_cgroups_members)
qed

text \<open>
  On any kernel, whatever the configuration and whatever fails: handling an executed program
  touches nothing but the two built-in cgroups, and so does the scan of the running programs,
  which besides asks \<open>pidof\<close> for the configured programs and nothing else.
\<close>

theorem processes_confined:
  "emits moves_pid (handle_pid os c pid) \<and>
   emits (\<lambda>e. moves_pid e \<or> asks_pidof (program_noproxy c @ program_proxy c) e) (processRunningProgram os c)"
  by (intro conjI emits_handle_pid emits_processRunningProgram)

text \<open>The variables too stay as they are.\<close>

lemma keeps_environ_processes:
  "keeps (\<lambda>w. environ w = env) (handle_pid os c pid)"
  "keeps (\<lambda>w. environ w = env) (processRunningProgram os c)"
proof -
  have "keeps (\<lambda>w. environ w = env) (pid_block os pid path programs scope cg)" for path programs scope cg
    unfolding pid_block_def by auto
  then show "keeps (\<lambda>w. environ w = env) (handle_pid os c pid)"
    unfolding handle_pid_def by (auto split: option.splits)
  have "keeps (\<lambda>w. environ w = env) (running_step os scope cg pid)" for scope cg pid
    unfolding running_step_def by auto
  then show "keeps (\<lambda>w. environ w = env) (processRunningProgram os c)"
    unfolding processRunningProgram_def by (intro keeps_bindE keeps_for_each) auto
qed

end
