(* ===== verification/Socket_Server.thy ===== *)
theory Socket_Server
  imports Wire Sample_Kernel
begin

text \<open>
  The listener of \<open>src/socket_server.cpp\<close>: a connection at a time, it reads a length and a message,
  hands the message to the callback, and writes the status back.

  The endless loop is \<open>serve_loop n\<close>, its first \<open>n\<close> rounds; a statement for every \<open>n\<close> speaks of
  the loop.  A round that touches memory it does not own ends in \<open>Fault\<close>, an exception of the
  callback in \<open>Uncaught\<close>.  What the server needs of its callback is the locale \<open>service\<close>.
\<close>

definition SOCKET_PATH :: string where
  "SOCKET_PATH = ''/tmp/cgproxy_unix_socket''"

definition LISTEN_BACKLOG :: nat where
  "LISTEN_BACKLOG = 64"

record server =
  sfd :: cint
  cfd :: cint

definition new_server :: server where
  "new_server = \<lparr>sfd = - 1, cfd = - 1\<rparr>"

datatype 'd served = Next server 'd | Fault | Uncaught abrupt

text \<open>The callback and the status it sends back; what \<open>write\<close> returns makes no difference.\<close>

definition answer :: "'k net \<Rightarrow> (string \<Rightarrow> 'd \<Rightarrow> ('k world, 'd \<times> cint res) state) \<Rightarrow>
    server \<Rightarrow> 'd \<Rightarrow> string \<Rightarrow> ('k world, 'd served) state" where
  "answer net cb srv d msg = do {
     (d1, status) \<leftarrow> cb msg d;
     case status of
       Inl e \<Rightarrow> ret (Uncaught e)
     | Inr status \<Rightarrow> do {
         write_fd net (cfd srv) (int_bytes status);
         ret (Next srv d1) } }"

text \<open>
  The round once the length is read.  \<open>malloc\<close> and \<open>read\<close> take the \<open>int\<close> as a \<open>size_t\<close>; the
  terminator is stored at \<open>msg_len\<close> without asking whether the block is there.
\<close>

definition serve_body :: "'k net \<Rightarrow> (string \<Rightarrow> 'd \<Rightarrow> ('k world, 'd \<times> cint res) state) \<Rightarrow>
    server \<Rightarrow> 'd \<Rightarrow> cint \<Rightarrow> ('k world, 'd served) state" where
  "serve_body net cb srv d msg_len = do {
     msg \<leftarrow> malloc net (scast (msg_len + 1));
     flag \<leftarrow> read_fd net (cfd srv) msg (scast msg_len);
     case flag of
       None \<Rightarrow> ret (Next srv d)
     | Some data \<Rightarrow>
         if \<not> msg \<or> sint msg_len < 0 then ret Fault
         else do {
           heap \<leftarrow> fresh_memory net (nat (sint msg_len));
           answer net cb srv d (c_str (overlay heap data)) } }"

text \<open>
  One round of the loop.  Each \<open>continue\<close> is \<open>Next\<close>.  The length is read into an \<open>int\<close> that holds
  what its memory held.
\<close>

definition serve_one :: "'k net \<Rightarrow> (string \<Rightarrow> 'd \<Rightarrow> ('k world, 'd \<times> cint res) state) \<Rightarrow>
    server \<Rightarrow> 'd \<Rightarrow> ('k world, 'd served) state" where
  "serve_one net cb srv d = do {
     close_fd net (cfd srv);
     fd \<leftarrow> accept net (sfd srv);
     let srv = srv\<lparr>cfd := fd\<rparr>;
     if fd = - 1 then ret (Next srv d)
     else do {
       int_mem \<leftarrow> fresh_memory net 4;
       flag \<leftarrow> read_fd net fd True 4;
       case flag of
         None \<Rightarrow> ret (Next srv d)
       | Some data \<Rightarrow> serve_body net cb srv d (bytes_int (overlay int_mem data)) } }"

fun serve_loop :: "nat \<Rightarrow> 'k net \<Rightarrow> (string \<Rightarrow> 'd \<Rightarrow> ('k world, 'd \<times> cint res) state) \<Rightarrow>
    server \<Rightarrow> 'd \<Rightarrow> ('k world, 'd served) state" where
  "serve_loop 0 net cb srv d = ret (Next srv d)"
| "serve_loop (Suc n) net cb srv d = do {
     r \<leftarrow> serve_one net cb srv d;
     case r of Next srv d \<Rightarrow> serve_loop n net cb srv d | Fault \<Rightarrow> ret Fault | Uncaught e \<Rightarrow> ret (Uncaught e) }"

text \<open>The part before the loop: whether it came to \<open>status.set_value ()\<close>.  The mode is 0777.\<close>

definition open_socket :: "'k os \<Rightarrow> 'k net \<Rightarrow> server \<Rightarrow> ('k world, server \<times> bool) state" where
  "open_socket os net srv = do {
     fd \<leftarrow> socket_unix net;
     let srv = srv\<lparr>sfd := fd\<rparr>;
     exists \<leftarrow> path_exists net SOCKET_PATH;
     gone \<leftarrow> (if exists then unlink_file os SOCKET_PATH else ret True);
     if \<not> gone then ret (srv, False)
     else do {
       bind_path net (sfd srv) SOCKET_PATH;
       listen net (sfd srv) LISTEN_BACKLOG;
       chmod net SOCKET_PATH 511;
       set_ready ''socketserver'';
       ret (srv, True) } }"

text \<open>The destructor.\<close>

definition close_server :: "'k os \<Rightarrow> 'k net \<Rightarrow> server \<Rightarrow> ('k world, bool) state" where
  "close_server os net srv = do {
     close_fd net (sfd srv);
     close_fd net (cfd srv);
     unlink_file os SOCKET_PATH }"

text \<open>The thread: \<open>None\<close> when it returned without ever listening.\<close>

definition socket_thread :: "nat \<Rightarrow> 'k os \<Rightarrow> 'k net \<Rightarrow>
    (string \<Rightarrow> 'd \<Rightarrow> ('k world, 'd \<times> cint res) state) \<Rightarrow> 'd \<Rightarrow> ('k world, 'd served option) state" where
  "socket_thread n os net cb d = do {
     (srv, ready) \<leftarrow> open_socket os net new_server;
     if \<not> ready then do { close_server os net srv; ret None }
     else do { r \<leftarrow> serve_loop n net cb srv d; ret (Some r) } }"

subsection \<open>The callback's contract\<close>

text \<open>
  What the server relies on: from a state that satisfies \<open>inv\<close> the callback returns a status,
  keeps \<open>inv\<close>, and makes only the calls \<open>allowed\<close>.
\<close>

locale service =
  fixes cb :: "string \<Rightarrow> 'd \<Rightarrow> ('k world, 'd \<times> cint res) state"
    and inv :: "'d \<Rightarrow> bool" and allowed :: "event \<Rightarrow> bool"
  assumes cb_status: "inv d \<Longrightarrow> run_state (cb msg d) w = ((d', r), w') \<Longrightarrow> (\<exists>s. r = Inr s) \<and> inv d'"
    and cb_emits: "emits allowed (cb msg d)"
begin

text \<open>A status on the wire is four bytes.\<close>

definition serves :: "event \<Rightarrow> bool" where
  "serves e = (allowed e \<or> (\<exists>fd s. e = Send_bytes fd (int_bytes s)))"

definition served_ok :: "'d served \<Rightarrow> bool" where
  "served_ok r = (case r of Next srv d \<Rightarrow> inv d | Fault \<Rightarrow> True | Uncaught e \<Rightarrow> False)"

lemma answer_ok:
  assumes "inv d"
  shows "hoare P (answer net cb srv d msg) (\<lambda>r _. served_ok r)"
proof (rule hoareI)
  fix w r w'
  assume run: "run_state (answer net cb srv d msg) w = (r, w')"
  obtain d1 r1 w1 where cb: "run_state (cb msg d) w = ((d1, r1), w1)" by (metis prod.exhaust)
  with cb_status [OF assms cb] run show "served_ok r"
    by (auto simp: answer_def served_ok_def split: prod.splits)
qed

lemma serve_one_ok:
  assumes "inv d"
  shows "served_ok (fst (run_state (serve_one net cb srv d) w))"
proof -
  have nxt: "hoare P (ret (Next srv' d)) (\<lambda>r _. served_ok r)" for P :: "'k world \<Rightarrow> bool" and srv'
    using assms by (intro hoare_retI) (simp add: served_ok_def)
  have fault: "hoare P (ret Fault) (\<lambda>r _. served_ok r)" for P :: "'k world \<Rightarrow> bool"
    by (intro hoare_retI) (simp add: served_ok_def)
  have "hoare (\<lambda>_. True) (serve_one net cb srv d) (\<lambda>r _. served_ok r)"
    unfolding serve_one_def serve_body_def Let_def
    by (intro hoare_seq [OF hoare_True] hoare_if hoare_option nxt fault answer_ok [OF assms])
  from hoare_run [OF this] show ?thesis by simp
qed

lemma serve_loop_ok:
  "inv d \<Longrightarrow> served_ok (fst (run_state (serve_loop n net cb srv d) w))"
proof (induction n arbitrary: srv d w)
  case 0
  then show ?case by (simp add: served_ok_def)
next
  case (Suc n)
  obtain r w1 where run: "run_state (serve_one net cb srv d) w = (r, w1)" by fastforce
  with serve_one_ok [OF Suc.prems, of net srv w] Suc.IH show ?case
    by (cases r) (auto simp: served_ok_def)
qed

lemma emits_serve_one: "emits serves (serve_one net cb srv d)"
proof -
  have cb: "emits serves (cb msg d)" for msg d
    by (rule emits_mono [OF cb_emits]) (simp add: serves_def)
  have send: "serves (Send_bytes fd (int_bytes s))" for fd s
    by (auto simp: serves_def)
  have "emits serves (answer net cb srv d msg)" for srv d msg
    unfolding answer_def by (auto intro!: emits_write_fd cb send split: sum.splits)
  then show ?thesis
    unfolding serve_one_def serve_body_def Let_def by (auto split: option.splits)
qed

lemma emits_serve_loop: "emits serves (serve_loop n net cb srv d)"
  by (induction n arbitrary: srv d) (auto intro!: emits_serve_one split: served.splits)

text \<open>Nothing is sent back but statuses, and no exception of the callback ends the thread.\<close>

lemma socket_thread_ok:
  assumes "inv d"
  shows "case fst (run_state (socket_thread n os net cb d) w) of
      None \<Rightarrow> True | Some r \<Rightarrow> served_ok r"
proof -
  obtain srv ready w1 where "run_state (open_socket os net new_server) w = ((srv, ready), w1)"
    by (metis prod.exhaust)
  with serve_loop_ok [OF assms, of n net srv w1] show ?thesis
    by (auto simp: socket_thread_def split: prod.splits)
qed

end

subsection \<open>What a round leaves to the script\<close>

text \<open>
  A property of the callback's state, the variables and the script's runs that the callback keeps
  is kept by a round, however it ends.
\<close>

lemma answer_keeps:
  assumes "\<And>msg d w d' r w'. R d (environ w) (systems w) \<Longrightarrow> run_state (cb msg d) w = ((d', r), w') \<Longrightarrow>
      R d' (environ w') (systems w')"
  shows "hoare (\<lambda>w. R d (environ w) (systems w)) (answer net cb srv d msg)
    (\<lambda>r w. case r of Next srv' d' \<Rightarrow> R d' (environ w) (systems w)
        | Fault \<Rightarrow> True | Uncaught e \<Rightarrow> (\<exists>d'. R d' (environ w) (systems w)))"
proof (rule hoareI)
  fix w r w'
  assume R: "R d (environ w) (systems w)" and run: "run_state (answer net cb srv d msg) w = (r, w')"
  obtain d1 r1 w1 where cb: "run_state (cb msg d) w = ((d1, r1), w1)" by (metis prod.exhaust)
  from assms R cb have R1: "R d1 (environ w1) (systems w1)" by blast
  show "case r of Next srv' d' \<Rightarrow> R d' (environ w') (systems w')
      | Fault \<Rightarrow> True | Uncaught e \<Rightarrow> (\<exists>d'. R d' (environ w') (systems w'))"
  proof (cases r1)
    case (Inl e)
    with run cb R1 show ?thesis by (auto simp: answer_def)
  next
    case (Inr status)
    obtain b w2 where wr: "run_state (write_fd net (cfd srv) (int_bytes status)) w1 = (b, w2)" by fastforce
    from scriptlessD [OF scriptless_net(12) wr] R1 run cb wr Inr show ?thesis
      by (auto simp: answer_def)
  qed
qed

lemma serve_one_keeps:
  assumes "\<And>msg d w d' r w'. R d (environ w) (systems w) \<Longrightarrow> run_state (cb msg d) w = ((d', r), w') \<Longrightarrow>
      R d' (environ w') (systems w')"
  shows "hoare (\<lambda>w. R d (environ w) (systems w)) (serve_one net cb srv d)
    (\<lambda>r w. case r of Next srv' d' \<Rightarrow> R d' (environ w) (systems w)
        | Fault \<Rightarrow> True | Uncaught e \<Rightarrow> (\<exists>d'. R d' (environ w) (systems w)))"
  unfolding serve_one_def serve_body_def Let_def
  by (intro hoare_seq [OF scriptless_hoare [OF scriptless_net(8)]]
      hoare_seq [OF scriptless_hoare [OF scriptless_net(6)]]
      hoare_seq [OF scriptless_hoare [OF scriptless_net(9)]]
      hoare_seq [OF scriptless_hoare [OF scriptless_net(10)]]
      hoare_seq [OF scriptless_hoare [OF scriptless_net(11)]]
      hoare_if hoare_option hoare_retI answer_keeps) (auto intro: assms)

subsection \<open>A message that arrives whole\<close>

text \<open>
  The length of a message that fits the protocol: positive as an \<open>int\<close> and with room for the
  terminator.
\<close>

definition framable :: "string \<Rightarrow> bool" where
  "framable msg = (length msg < 2 ^ 31 - 1 \<and> CHR 0x00 \<notin> set msg)"

lemma framable_length:
  assumes "framable msg"
  shows "sint (word_of_nat (length msg) :: cint) = int (length msg)"
    and "unat (scast (word_of_nat (length msg) :: cint) :: 64 word) = length msg"
    and "scast (word_of_nat (length msg) + 1 :: cint) = (word_of_nat (Suc (length msg)) :: 64 word)"
proof -
  have small: "Suc (length msg) < 2 ^ 31" using assms by (simp add: framable_def)
  have s: "sint (word_of_nat n :: cint) = int n" if "n < 2 ^ 31" for n
    using that by (simp add: signed_of_nat signed_take_bit_int_eq_self)
  from small show "sint (word_of_nat (length msg) :: cint) = int (length msg)"
    by (intro s) simp
  then show "unat (scast (word_of_nat (length msg) :: cint) :: 64 word) = length msg"
    using small by (simp only: unat_eq_nat_uint scast_eq uint_word_of_int) simp
  have "word_of_nat (length msg) + 1 = (word_of_nat (Suc (length msg)) :: cint)" by simp
  then show "scast (word_of_nat (length msg) + 1 :: cint) = (word_of_nat (Suc (length msg)) :: 64 word)"
    by (simp only: scast_eq s [OF small]) simp
qed

text \<open>The first read of a round.\<close>

lemma serve_one_length:
  assumes "stream_law net stream" and "fd \<noteq> - 1"
    and "net_accept net (sfd srv) (net_close net (cfd srv) (kern w)) = (fd, k)"
    and "stream k fd = int_bytes len @ body"
  obtains k2 where "stream k2 fd = body"
    "run_state (serve_one net cb srv d) w = run_state (serve_body net cb (srv\<lparr>cfd := fd\<rparr>) d len) (w\<lparr>kern := k2\<rparr>)"
proof -
  obtain m1 k1 where 1: "net_fresh net 4 k = (m1, k1)" by fastforce
  then have s1: "stream k1 fd = int_bytes len @ body" "length m1 = 4"
    using assms(1,4) by (simp_all add: stream_law_def) (metis fst_conv snd_conv)+
  have "unat (4 :: 64 word) \<le> length (stream k1 fd)" by (simp add: s1)
  then have "fst (net_recv net fd True 4 k1) = Some (take (unat (4 :: 64 word)) (stream k1 fd))"
      "stream (snd (net_recv net fd True 4 k1)) fd = drop (unat (4 :: 64 word)) (stream k1 fd)"
    using assms(1) unfolding stream_law_def by blast+
  then obtain k2 where 2: "net_recv net fd True 4 k1 = (Some (int_bytes len), k2)" "stream k2 fd = body"
    by (cases "net_recv net fd True 4 k1") (simp add: s1)
  have "run_state (serve_one net cb srv d) w = run_state (serve_body net cb (srv\<lparr>cfd := fd\<rparr>) d len) (w\<lparr>kern := k2\<rparr>)"
    using assms(2) s1(2)
    by (simp add: serve_one_def Let_def net_defs assms(3) 1 2(1) overlay_full bytes_int_bytes)
  with 2(2) that show ?thesis by blast
qed

lemma serve_one_frame:
  assumes "stream_law net stream" and "framable msg" and "fd \<noteq> - 1"
    and "net_accept net (sfd srv) (net_close net (cfd srv) (kern w)) = (fd, k)"
    and "stream k fd = frame msg @ rest"
    and "\<forall>k. fst (net_malloc net (word_of_nat (Suc (length msg))) k)"
  shows "\<exists>k'. stream k' fd = rest \<and>
    run_state (serve_one net cb srv d) w = run_state (answer net cb (srv\<lparr>cfd := fd\<rparr>) d msg) (w\<lparr>kern := k'\<rparr>)"
proof -
  let ?len = "word_of_nat (length msg) :: cint"
  note len = framable_length [OF assms(2)]
  have "stream k fd = int_bytes ?len @ msg @ rest" by (simp add: assms(5) frame_def)
  from serve_one_length [OF assms(1,3,4) this, where cb = cb and d = d] obtain k2
    where s2: "stream k2 fd = msg @ rest" and run: "run_state (serve_one net cb srv d) w =
      run_state (serve_body net cb (srv\<lparr>cfd := fd\<rparr>) d ?len) (w\<lparr>kern := k2\<rparr>)" .
  obtain k3 where 3: "net_malloc net (word_of_nat (Suc (length msg))) k2 = (True, k3)"
    using assms(6) by (metis prod.collapse)
  then have s3: "stream k3 fd = msg @ rest"
    using assms(1) s2 unfolding stream_law_def by (metis snd_conv)
  have "unat (scast ?len :: 64 word) \<le> length (stream k3 fd)" by (simp add: s3 len(2))
  then have "fst (net_recv net fd True (scast ?len) k3) = Some (take (length msg) (stream k3 fd))"
      "stream (snd (net_recv net fd True (scast ?len) k3)) fd = drop (length msg) (stream k3 fd)"
    using assms(1) unfolding stream_law_def by (simp_all only: len(2))
  then obtain k4 where 4: "net_recv net fd True (scast ?len) k3 = (Some msg, k4)" "stream k4 fd = rest"
    by (cases "net_recv net fd True (scast ?len) k3") (simp add: s3)
  obtain m5 k5 where 5: "net_fresh net (length msg) k4 = (m5, k5)" by fastforce
  then have s5: "stream k5 fd = rest" "length m5 = length msg"
    using assms(1) 4(2) unfolding stream_law_def by (metis fst_conv snd_conv)+
  have "c_str msg = msg" using assms(2) by (simp add: framable_def)
  then have "run_state (serve_body net cb (srv\<lparr>cfd := fd\<rparr>) d ?len) (w\<lparr>kern := k2\<rparr>) =
      run_state (answer net cb (srv\<lparr>cfd := fd\<rparr>) d msg) (w\<lparr>kern := k5\<rparr>)"
    using s5(2) by (simp add: serve_body_def net_defs len(1,3) 3 4(1) 5 overlay_full del: of_nat_Suc)
  with s5(1) run show ?thesis by auto
qed

text \<open>
  C23. A message framed by its length and delivered by the connection reaches the callback as it
  was sent, byte for byte; the round is then what the callback makes of it, and nothing of
  what the peer sent after it has been read.
\<close>

theorem serve_frame:
  assumes "stream_law net stream" and "framable msg" and "fd \<noteq> - 1"
    and "net_accept net (sfd srv) (net_close net (cfd srv) (kern w)) = (fd, k)"
    and "stream k fd = frame msg @ rest"
    and "\<forall>k. fst (net_malloc net (word_of_nat (Suc (length msg))) k)"
  shows "\<exists>k'. stream k' fd = rest \<and>
    run_state (serve_one net cb srv d) w = run_state (answer net cb (srv\<lparr>cfd := fd\<rparr>) d msg) (w\<lparr>kern := k'\<rparr>)"
  by (rule serve_one_frame [OF assms])

text \<open>
  A connection of the sample kernel, descriptor 5: what it delivers is the inbox.  Memory holds
  question marks, and a block of 2 GiB or more is refused.
\<close>

definition sample_net :: "sample net" where
  "sample_net = \<lparr>
     net_exists = (\<lambda>p k. (p \<in> set (map fst (s_files k)), k)),
     net_socket = (\<lambda>k. (4, k)),
     net_bind = (\<lambda>fd p k. k),
     net_listen = (\<lambda>fd n k. k),
     net_chmod = (\<lambda>p m k. k),
     net_accept = (\<lambda>fd k. (5, k)),
     net_connect = (\<lambda>fd p k. (True, k)),
     net_close = (\<lambda>fd k. k),
     net_malloc = (\<lambda>n k. (unat n < 2 ^ 31, k)),
     net_fresh = (\<lambda>n k. (replicate n (CHR ''?''), k)),
     net_recv = (\<lambda>fd valid n k.
       if s_inbox k = [] then (Some [], k)
       else if \<not> valid then (None, k)
       else (Some (take (unat n) (s_inbox k)), k\<lparr>s_inbox := drop (unat n) (s_inbox k)\<rparr>)),
     net_send = (\<lambda>fd data k. (True, k)) \<rparr>"

definition sample_stream :: "sample \<Rightarrow> cint \<Rightarrow> string" where
  "sample_stream k fd = s_inbox k"

lemma sample_net_simps [simp]:
  "net_accept sample_net fd k = (5, k)"
  "net_close sample_net fd k = k"
  "net_malloc sample_net n k = (unat n < 2 ^ 31, k)"
  "net_fresh sample_net m k = (replicate m (CHR ''?''), k)"
  "net_send sample_net fd data k = (True, k)"
  "net_socket sample_net k = (4, k)"
  "net_connect sample_net fd p k = (True, k)"
  "net_recv sample_net fd True n k =
     (Some (take (unat n) (s_inbox k)), k\<lparr>s_inbox := drop (unat n) (s_inbox k)\<rparr>)"
  by (simp_all add: sample_net_def)

lemma sample_stream_law: "stream_law sample_net sample_stream"
  and sample_eof_law: "eof_law sample_net sample_stream"
  by (auto simp: stream_law_def eof_law_def sample_net_def sample_stream_def)

text \<open>A callback that keeps what it was last told and answers 0.\<close>

definition note_msg :: "string \<Rightarrow> string \<Rightarrow> (sample world, string \<times> cint res) state" where
  "note_msg msg d = ret (msg, Inr 0)"

theorem serve_frame_witness:
  "\<exists>w'. run_state (serve_one sample_net note_msg new_server [])
     (sample_world\<lparr>kern := sample_kern\<lparr>s_inbox := frame ''hello'' @ ''more''\<rparr>\<rparr>)
     = (Next (new_server\<lparr>cfd := 5\<rparr>) ''hello'', w') \<and> s_inbox (kern w') = ''more''"
proof -
  let ?k = "sample_kern\<lparr>s_inbox := frame ''hello'' @ ''more''\<rparr>"
  let ?w = "sample_world\<lparr>kern := ?k\<rparr>"
  have "framable ''hello''" by (simp add: framable_def)
  moreover have "sample_stream ?k 5 = frame ''hello'' @ ''more''" by (simp add: sample_stream_def)
  ultimately obtain k' where "s_inbox k' = ''more''"
      "run_state (serve_one sample_net note_msg new_server []) ?w =
       run_state (answer sample_net note_msg (new_server\<lparr>cfd := 5\<rparr>) [] ''hello'') (?w\<lparr>kern := k'\<rparr>)"
    using serve_frame [OF sample_stream_law, of "''hello''" 5 new_server ?w ?k "''more''" note_msg "[]"]
    by (auto simp: sample_stream_def)
  then show ?thesis by (simp add: answer_def note_msg_def write_fd_def)
qed

subsection \<open>A message that does not arrive whole\<close>

text \<open>
  The number of bytes read is not looked at: where the peer announces more than it sends, the
  callback is called all the same, with what was sent followed by what the memory held.
\<close>

theorem serve_short_message:
  assumes "stream_law net stream" and "eof_law net stream" and "fd \<noteq> - 1"
    and "net_accept net (sfd srv) (net_close net (cfd srv) (kern w)) = (fd, k)"
    and "stream k fd = int_bytes len @ part" and "0 \<le> sint len" and "length part < nat (sint len)"
    and "\<forall>k. fst (net_malloc net (scast (len + 1)) k)"
  shows "\<exists>k' heap. length heap = nat (sint len) \<and>
    run_state (serve_one net cb srv d) w =
      run_state (answer net cb (srv\<lparr>cfd := fd\<rparr>) d (c_str (part @ drop (length part) heap))) (w\<lparr>kern := k'\<rparr>)"
proof -
  from serve_one_length [OF assms(1,3-5), where cb = cb and d = d] obtain k2
    where s2: "stream k2 fd = part" and run: "run_state (serve_one net cb srv d) w =
      run_state (serve_body net cb (srv\<lparr>cfd := fd\<rparr>) d len) (w\<lparr>kern := k2\<rparr>)" .
  obtain k3 where 3: "net_malloc net (scast (len + 1)) k2 = (True, k3)"
    using assms(8) by (metis prod.collapse)
  then have s3: "stream k3 fd = part" using assms(1) s2 unfolding stream_law_def by (metis snd_conv)
  have "unat (scast len :: 64 word) = nat (sint len)"
    using assms(6) sint_lt [of len] by (simp only: unat_eq_nat_uint scast_eq uint_word_of_int) simp
  then have "fst (net_recv net fd True (scast len) k3) = Some part"
    using assms(2,7) s3 unfolding eof_law_def by metis
  then obtain k4 where 4: "net_recv net fd True (scast len) k3 = (Some part, k4)"
    by (metis prod.collapse)
  obtain heap k5 where 5: "net_fresh net (nat (sint len)) k4 = (heap, k5)" by fastforce
  then have h: "length heap = nat (sint len)" using assms(1) unfolding stream_law_def by (metis fst_conv)
  then have "overlay heap part = part @ drop (length part) heap"
    using assms(7) by (simp add: overlay_def)
  then have "run_state (serve_one net cb srv d) w =
      run_state (answer net cb (srv\<lparr>cfd := fd\<rparr>) d (c_str (part @ drop (length part) heap))) (w\<lparr>kern := k5\<rparr>)"
    using assms(6) by (simp add: run serve_body_def net_defs 3 4 5)
  with h show ?thesis by blast
qed

theorem serve_short_message_witness:
  "\<exists>heap. length heap = 5 \<and> fst (run_state (serve_one sample_net note_msg new_server [])
     (sample_world\<lparr>kern := sample_kern\<lparr>s_inbox := int_bytes 5 @ ''he''\<rparr>\<rparr>))
     = Next (new_server\<lparr>cfd := 5\<rparr>) (c_str (''he'' @ drop 2 heap))"
proof -
  let ?k = "sample_kern\<lparr>s_inbox := int_bytes 5 @ ''he''\<rparr>"
  let ?w = "sample_world\<lparr>kern := ?k\<rparr>"
  have "sample_stream ?k 5 = int_bytes 5 @ ''he''" by (simp add: sample_stream_def)
  then obtain k' heap where "length heap = 5" and
      "run_state (serve_one sample_net note_msg new_server []) ?w =
       run_state (answer sample_net note_msg (new_server\<lparr>cfd := 5\<rparr>) [] (c_str (''he'' @ drop 2 heap))) (?w\<lparr>kern := k'\<rparr>)"
    using serve_short_message [OF sample_stream_law sample_eof_law, of 5 new_server ?w ?k 5 "''he''" note_msg "[]"]
    by (auto simp: unsigned_of_nat simp flip: numeral_2_eq_2)
  then show ?thesis by (auto simp: answer_def note_msg_def write_fd_def)
qed

text \<open>
  C38. A client can end the daemon with four bytes: it announces 2147483647 bytes and closes.  The
  sum that \<open>malloc\<close> gets wraps around, the allocation is refused, the read reports the end of the
  connection, and the terminator is stored through the null pointer.
\<close>

theorem serve_fault:
  assumes "stream_law net stream" and "eof_law net stream" and "fd \<noteq> - 1"
    and "net_accept net (sfd srv) (net_close net (cfd srv) (kern w)) = (fd, k)"
    and "stream k fd = int_bytes 0x7FFFFFFF"
    and "\<forall>k. \<not> fst (net_malloc net 0xFFFFFFFF80000000 k)"
  shows "fst (run_state (serve_one net cb srv d) w) = Fault"
proof -
  from serve_one_length [OF assms(1,3,4), of "0x7FFFFFFF" "[]" cb d] assms(5) obtain k2
    where s2: "stream k2 fd = []" and run: "run_state (serve_one net cb srv d) w =
      run_state (serve_body net cb (srv\<lparr>cfd := fd\<rparr>) d 0x7FFFFFFF) (w\<lparr>kern := k2\<rparr>)"
    by auto
  have size: "scast (0x7FFFFFFF + 1 :: cint) = (0xFFFFFFFF80000000 :: 64 word)" by simp
  have count: "scast (0x7FFFFFFF :: cint) = (0x7FFFFFFF :: 64 word)" by simp
  obtain k3 where 3: "net_malloc net 0xFFFFFFFF80000000 k2 = (False, k3)"
    using assms(6) by (metis prod.collapse)
  then have "stream k3 fd = []" using assms(1) s2 unfolding stream_law_def by (metis snd_conv)
  then obtain k4 where 4: "net_recv net fd False 0x7FFFFFFF k3 = (Some [], k4)"
    using assms(2) unfolding eof_law_def by (metis prod.collapse)
  show ?thesis by (simp only: run serve_body_def size count net_defs run_state_bind run_os_call) (simp add: 3 4)
qed

theorem serve_fault_witness:
  "fst (run_state (serve_one sample_net note_msg new_server [])
     (sample_world\<lparr>kern := sample_kern\<lparr>s_inbox := int_bytes 0x7FFFFFFF\<rparr>\<rparr>)) = Fault"
  by (rule serve_fault [OF sample_stream_law sample_eof_law, where fd = 5
        and k = "sample_kern\<lparr>s_inbox := int_bytes 0x7FFFFFFF\<rparr>"])
    (simp_all add: sample_stream_def)

end
