(* ===== verification/Client.thy ===== *)
theory Client
  imports Socket_Server Cgroup_Attach Config
begin

text \<open>
  The programs on the other side: \<open>send\<close> of \<open>src/socket_client.cpp\<close>, the command \<open>cgproxy\<close>
  (\<open>src/cgproxy.hpp\<close>), the tool \<open>cgattach\<close> (\<open>tools/cgattach.cpp\<close>) and the messages of
  \<open>test/socket_client_test.cpp\<close>.

  A program ends by \<open>exit\<close> (\<open>Exit\<close>), by returning from its \<open>main\<close> (\<open>Return\<close>), or because an
  exception nobody catches, or a call that never comes back, stops it (\<open>Abort\<close>).
\<close>

datatype ended = Exit cint | Return cint | Abort abrupt

definition EXIT_FAILURE :: cint where "EXIT_FAILURE = 1"

subsection \<open>Sending a message\<close>

text \<open>The status is set before the calls, so a short answer leaves its bytes.\<close>

definition send :: "'k net \<Rightarrow> string \<Rightarrow> ('k world, cint) state" where
  "send net msg = do {
     fd \<leftarrow> socket_unix net;
     connected \<leftarrow> connect net fd SOCKET_PATH;
     if \<not> connected then do { close_fd net fd; ret CONN_ERROR }
     else do {
       let msg_len = word_of_nat (length (c_str msg));
       flag \<leftarrow> write_fd net fd (int_bytes msg_len);
       if \<not> flag then do { close_fd net fd; ret CONN_ERROR }
       else do {
         flag \<leftarrow> write_fd net fd (c_str msg);
         if \<not> flag then do { close_fd net fd; ret CONN_ERROR }
         else do {
           flag \<leftarrow> read_fd net fd True 4;
           close_fd net fd;
           ret (case flag of
               None \<Rightarrow> CONN_ERROR
             | Some data \<Rightarrow> bytes_int (overlay (int_bytes UNKNOWN_ERROR) data)) } } } }"

definition send_res :: "'k net \<Rightarrow> string res \<Rightarrow> ('k world, cint res) state" where
  "send_res net msg = (case msg of Inl e \<Rightarrow> ret (Inl e) | Inr s \<Rightarrow> okE (send net s))"

text \<open>The two members of a message.\<close>

definition message :: "nlohmann \<Rightarrow> cint \<Rightarrow> json \<Rightarrow> json" where
  "message js type data = js_object js [(''type'', JInt (sint type)), (''data'', data)] JNull"

definition send_pid :: "nlohmann \<Rightarrow> 'k net \<Rightarrow> cint \<Rightarrow> bool \<Rightarrow> ('k world, cint res) state" where
  "send_pid js net pid by_proxy = send_res net
     (js_dump js (message js (if by_proxy then MSG_TYPE_PROXY_PID else MSG_TYPE_NOPROXY_PID) (JInt (sint pid))))"

subsection \<open>The command line\<close>

record client_args =
  print_help :: bool
  proxy :: bool
  attach_by_pid :: bool
  arg_pid :: string
  enable_debug :: bool

definition default_args :: client_args where
  "default_args = \<lparr>print_help = False, proxy = True, attach_by_pid = False, arg_pid = [], enable_debug = False\<rparr>"

lemma default_args_simps [simp]:
  "print_help default_args = False" "proxy default_args = True"
  "attach_by_pid default_args = False" "arg_pid default_args = []"
  by (simp_all add: default_args_def)

text \<open>The flags an argument sets; several tests may apply, one after the other.\<close>

definition client_flags :: "string \<Rightarrow> client_args \<Rightarrow> client_args" where
  "client_flags arg =
     (if arg = ''--help'' then print_help_update (\<lambda>_. True) else id) \<circ>
     (if arg = ''--debug'' then enable_debug_update (\<lambda>_. True) else id) \<circ>
     (if arg = ''--noproxy'' then proxy_update (\<lambda>_. False) else id)"

text \<open>\<open>argv[i][0] != '-'\<close>, with NUL as the first character of an empty argument.\<close>

definition not_option :: "string \<Rightarrow> bool" where
  "not_option arg = (arg = [] \<or> hd arg \<noteq> CHR ''-'')"

text \<open>The loop from argument \<open>i\<close> on: \<open>Some shift\<close>, or \<open>None\<close> when it returns \<open>false\<close>.\<close>

fun processArgs :: "nat \<Rightarrow> string list \<Rightarrow> client_args \<Rightarrow> client_args \<times> nat option" where
  "processArgs i [] a = (a, Some i)"
| "processArgs i (arg # args) a =
     (if arg = ''--pid'' then
        (let a = a\<lparr>attach_by_pid := True\<rparr>
         in case args of
              [] \<Rightarrow> (a, None)
            | p # args' \<Rightarrow>
                (let a = a\<lparr>arg_pid := p\<rparr>
                 in if \<not> validPid p then (a, None) else processArgs (i + 2) args' a))
      else
        (let a = client_flags arg a
         in if not_option arg then (a, Some i) else processArgs (i + 1) args a))"

text \<open>\<open>cgproxy\<close>: \<open>argv\<close> has the program's own name first.\<close>

definition cgproxy_main :: "nlohmann \<Rightarrow> 'k os \<Rightarrow> 'k net \<Rightarrow> string list \<Rightarrow> ('k world, ended) state" where
  "cgproxy_main js os net argv = (case processArgs 1 (tl argv) default_args of
       (a, None) \<Rightarrow> ret (Exit EXIT_FAILURE)
     | (a, Some shift) \<Rightarrow>
         if print_help a then ret (Exit 0)
         else if \<not> attach_by_pid a \<and> length argv = shift then ret (Exit EXIT_FAILURE)
         else do {
           pid \<leftarrow> (if attach_by_pid a then ret (stoi (arg_pid a)) else okE (getpid os));
           status \<leftarrow> bindE (ret pid) (\<lambda>pid. send_pid js net pid (proxy a));
           case status of
             Inl e \<Rightarrow> ret (Abort e)
           | Inr status \<Rightarrow>
               if status \<noteq> 0 then ret (Exit EXIT_FAILURE)
               else if attach_by_pid a then ret (Return 0)
               else do {
                 let s = join2str_argv (length argv - shift) (drop shift argv) (CHR '' '');
                 r \<leftarrow> system_cmd os s;
                 ret (Return r) } })"

subsection \<open>cgattach\<close>

definition cgattach_main :: "'k os \<Rightarrow> string list \<Rightarrow> ('k world, ended) state" where
  "cgattach_main os argv = do {
     flag \<leftarrow> setuid os 0;
     if \<not> flag then ret (Exit EXIT_FAILURE)
     else if length argv \<noteq> 3 then ret (Exit EXIT_FAILURE)
     else do {
       let pid = argv ! 1;
       let cgroup_target = argv ! 2;
       if validPid pid \<and> validCgroup cgroup_target then do {
         r \<leftarrow> attach os pid cgroup_target;
         ret (case r of Inl e \<Rightarrow> Abort e | Inr _ \<Rightarrow> Return 0) }
       else ret (Exit EXIT_FAILURE) } }"

subsection \<open>The messages of the test client\<close>

text \<open>\<open>send_config\<close> puts the document into the message as a string.\<close>

definition send_config :: "nlohmann \<Rightarrow> 'k net \<Rightarrow> config \<Rightarrow> ('k world, cint res) state" where
  "send_config js net c = send_res net (res_bind (toJsonStr js c)
     (\<lambda>s. js_dump js (message js MSG_TYPE_CONFIG_JSON (JString s))))"

definition send_config_path :: "nlohmann \<Rightarrow> 'k net \<Rightarrow> string \<Rightarrow> ('k world, cint res) state" where
  "send_config_path js net s = send_res net (js_dump js (message js MSG_TYPE_CONFIG_PATH (JString s)))"

definition test_config :: "nlohmann \<Rightarrow> 'k net \<Rightarrow> ('k world, cint res) state" where
  "test_config js net = send_config js net (default_config\<lparr>cgroup_proxy := [''/'']\<rparr>)"

definition test_config_path :: "nlohmann \<Rightarrow> 'k net \<Rightarrow> ('k world, cint res) state" where
  "test_config_path js net = send_config_path js net ''/etc/cgproxy/config.json''"

subsection \<open>What goes over the wire\<close>

definition sends :: "event \<Rightarrow> bool" where
  "sends e = (case e of Send_bytes fd data \<Rightarrow> True | _ \<Rightarrow> False)"

lemma emits_send: "emits sends (send net msg)"
  unfolding send_def Let_def by (auto intro!: emits_write_fd simp: sends_def)

lemma emits_send_pid: "emits sends (send_pid js net pid p)"
  unfolding send_pid_def send_res_def by (auto intro!: emits_send split: sum.splits)

text \<open>The bytes a program has sent, in order.\<close>

definition sent :: "event list \<Rightarrow> string" where
  "sent es = concat (map (\<lambda>e. case e of Send_bytes fd data \<Rightarrow> data | _ \<Rightarrow> []) es)"

text \<open>
  A send that gets as far as waiting for the answer has written exactly the frame of the
  message: its length, then its bytes.  Of the answer it takes four bytes; where the server closes
  without one the status is \<open>UNKNOWN_ERROR\<close>.
\<close>

theorem send_frames:
  assumes "run_state (socket_unix net) w = (fd, w1)"
    and "run_state (connect net fd SOCKET_PATH) w1 = (True, w2)"
    and "run_state (write_fd net fd (int_bytes (word_of_nat (length (c_str msg))))) w2 = (True, w3)"
    and "run_state (write_fd net fd (c_str msg)) w3 = (True, w4)"
    and "run_state (read_fd net fd True 4) w4 = (Some data, w5)"
    and "run_state (send net msg) w = (status, w')"
  shows "(\<exists>es. trace w' = trace w @ es \<and> sent es = frame (c_str msg)) \<and>
    (\<forall>s. data = int_bytes s \<longrightarrow> status = s) \<and> (data = [] \<longrightarrow> status = UNKNOWN_ERROR)"
proof -
  have run: "status = bytes_int (overlay (int_bytes UNKNOWN_ERROR) data)"
      "run_state (close_fd net fd) w5 = ((), w')"
    using assms(6) by (auto simp: send_def Let_def assms(1-5) split: prod.splits)
  have "trace w' = trace w @ [Send_bytes fd (int_bytes (word_of_nat (length (c_str msg)))),
      Send_bytes fd (c_str msg)]"
    using assms(1-5) run(2) by (auto simp: net_defs split: prod.splits)
  moreover have "sent [Send_bytes fd (int_bytes (word_of_nat (length (c_str msg)))),
      Send_bytes fd (c_str msg)] = frame (c_str msg)"
    by (simp add: sent_def frame_def)
  moreover have "(\<forall>s. data = int_bytes s \<longrightarrow> status = s) \<and> (data = [] \<longrightarrow> status = UNKNOWN_ERROR)"
    by (simp add: run(1) overlay_full bytes_int_bytes)
  ultimately show ?thesis by metis
qed

theorem send_frames_witness:
  "\<exists>w'. run_state (send sample_net ''hello'') sample_world = (UNKNOWN_ERROR, w') \<and>
     sent (trace w') = frame ''hello''"
proof -
  obtain st w' where run: "run_state (send sample_net ''hello'') sample_world = (st, w')" by fastforce
  let ?w = "sample_world\<lparr>trace := [Send_bytes 4 (int_bytes 5)]\<rparr>"
  have calls: "run_state (socket_unix sample_net) sample_world = (4, sample_world)"
    "run_state (connect sample_net 4 SOCKET_PATH) sample_world = (True, sample_world)"
    "run_state (write_fd sample_net 4 (int_bytes (word_of_nat (length (c_str ''hello''))))) sample_world = (True, ?w)"
    "run_state (write_fd sample_net 4 (c_str ''hello'')) ?w = (True, ?w\<lparr>trace := trace ?w @ [Send_bytes 4 ''hello'']\<rparr>)"
    "run_state (read_fd sample_net 4 True 4) (?w\<lparr>trace := trace ?w @ [Send_bytes 4 ''hello'']\<rparr>)
      = (Some [], ?w\<lparr>trace := trace ?w @ [Send_bytes 4 ''hello'']\<rparr>)"
    by (simp_all add: net_defs sample_net_def sample_kern_def sample_world_def)
  from send_frames [OF calls run] run show ?thesis by auto
qed

subsection \<open>The command\<close>

lemma processArgs_options:
  assumes "\<forall>opt \<in> set opts. opt \<noteq> ''--pid'' \<and> \<not> not_option opt" and "not_option cmd"
  shows "processArgs i (opts @ cmd # words) a =
    (fold client_flags opts a, Some (i + length opts))"
  using assms(1)
proof (induction opts arbitrary: i a)
  case Nil
  have "cmd \<noteq> ''--pid''" "client_flags cmd = id"
    using assms(2) by (auto simp: not_option_def client_flags_def)
  then show ?case using assms(2) by simp
next
  case (Cons opt opts)
  then show ?case by simp
qed

text \<open>
  Everything from the first argument that is no option on is the command, options of the
  command's own included; the line given to the shell takes apart into its words where no word has a blank.
\<close>

theorem command_words:
  assumes "\<forall>opt \<in> set opts. opt \<noteq> ''--pid'' \<and> \<not> not_option opt" and "not_option cmd"
    and "\<forall>word \<in> set (cmd # words). CHR '' '' \<notin> set word"
    and "argv = name # opts @ cmd # words"
  shows "\<exists>a shift. processArgs 1 (tl argv) default_args = (a, Some shift) \<and>
    a = fold client_flags opts default_args \<and>
    split_on (CHR '' '') (join2str_argv (length argv - shift) (drop shift argv) (CHR '' '')) = cmd # words"
proof -
  have "length (cmd # words) = Suc (length words)" by simp
  from split_join2str_argv [OF this assms(3)] show ?thesis
    by (simp add: assms(4) processArgs_options [OF assms(1,2)])
qed

definition sample_argv :: "string list" where
  "sample_argv = ''cgproxy'' # [''--noproxy''] @ ''curl'' # [''-v'', ''--pid'']"

theorem command_words_witness:
  "\<exists>a shift. processArgs 1 (tl sample_argv) default_args = (a, Some shift) \<and> \<not> proxy a \<and>
    split_on (CHR '' '') (join2str_argv (length sample_argv - shift) (drop shift sample_argv) (CHR '' ''))
      = [''curl'', ''-v'', ''--pid'']"
proof -
  have "\<forall>opt \<in> set [''--noproxy'']. opt \<noteq> ''--pid'' \<and> \<not> not_option opt" "not_option ''curl''"
    "\<forall>word \<in> set (''curl'' # [''-v'', ''--pid'']). CHR '' '' \<notin> set word"
    by (simp_all add: not_option_def)
  from command_words [OF this sample_argv_def] show ?thesis
    by (fastforce simp: client_flags_def default_args_def)
qed

text \<open>
  C22. The command never runs outside its cgroup by way of a failure: \<open>cgproxy\<close> starts it only
  after the daemon has answered the request for this very process with \<open>SUCCESS\<close>, and as its last act;
  in every other run nothing but the request leaves the process.
\<close>

theorem command_after_attach:
  assumes "run_state (cgproxy_main js os net argv) w = (r, w')"
  shows "(\<exists>es. trace w' = trace w @ es \<and> list_all sends es) \<or>
    (\<exists>a shift pid w1 w2 rc. processArgs 1 (tl argv) default_args = (a, Some shift) \<and>
       run_state (getpid os) w = (pid, w1) \<and> run_state (send_pid js net pid (proxy a)) w1 = (Inr 0, w2) \<and>
       run_state (system_cmd os (join2str_argv (length argv - shift) (drop shift argv) (CHR '' ''))) w2 = (rc, w') \<and>
       r = Return rc)"
proof -
  have silent: "trace w' = trace w \<Longrightarrow> ?thesis" by (intro disjI1 exI [of _ "[]"]) simp
  obtain a sh where args: "processArgs 1 (tl argv) default_args = (a, sh)" by fastforce
  show ?thesis
  proof (cases sh)
    case None
    with assms args show ?thesis by (intro silent) (auto simp: cgproxy_main_def)
  next
    case (Some shift)
    note run = assms [unfolded cgproxy_main_def args Some prod.case option.case]
    let ?getpid = "if attach_by_pid a then ret (stoi (arg_pid a)) else okE (getpid os)"
    obtain p w1 where pid: "run_state ?getpid w = (p, w1)" by fastforce
    have t1: "trace w1 = trace w"
      using pid by (auto simp: run_state_okE getpid_def split: if_splits prod.splits)
    obtain st w2 where send: "run_state (bindE (ret p) (\<lambda>pid. send_pid js net pid (proxy a))) w1 = (st, w2)"
      by fastforce
    have "emits sends (bindE (ret p) (\<lambda>pid. send_pid js net pid (proxy a)))"
      by (auto intro!: emits_send_pid)
    from emitsD [OF this send] obtain es where es: "trace w2 = trace w @ es" "list_all sends es"
      using t1 by auto
    show ?thesis
    proof (cases "print_help a \<or> \<not> attach_by_pid a \<and> length argv = shift")
      case True
      with run show ?thesis by (intro silent) (auto split: if_splits)
    next
      case early: False
      show ?thesis
      proof (cases "st = Inr 0 \<and> \<not> attach_by_pid a")
        case True
        then obtain pid where p: "p = Inr pid" "run_state (getpid os) w = (pid, w1)"
          using pid by (auto simp: run_state_okE split: prod.splits)
        then have "run_state (send_pid js net pid (proxy a)) w1 = (Inr 0, w2)"
          using send True by (simp add: run_state_bindE)
        with run early True p send args Some show ?thesis
          by (simp add: pid run_state_okE) (auto split: prod.splits)
      next
        case False
        then have "w' = w2"
          using run early pid send by (auto split: sum.splits if_splits)
        with es show ?thesis by blast
      qed
    qed
  qed
qed

text \<open>The daemon's answer waits in the inbox.\<close>

definition answered :: "cint \<Rightarrow> sample world" where
  "answered status = sample_world\<lparr>kern := sample_kern\<lparr>s_inbox := int_bytes status\<rparr>\<rparr>"

theorem command_after_attach_witness:
  "\<exists>r w' w1 w2. run_state (cgproxy_main (sample_js JNull) sample_os sample_net [''cgproxy'', ''true'']) (answered 0) = (r, w')
    \<and> run_state (send_pid (sample_js JNull) sample_net 1000 True) w1 = (Inr 0, w2)
    \<and> run_state (system_cmd sample_os ''true'') w2 = (0, w') \<and> r = Return 0"
proof -
  let ?js = "sample_js JNull" and ?argv = "[''cgproxy'', ''true'']"
  obtain r w' where run: "run_state (cgproxy_main ?js sample_os sample_net ?argv) (answered 0) = (r, w')"
    by fastforce
  have args: "processArgs 1 (tl ?argv) default_args = (default_args, Some 1)" by code_simp
  then have args': "processArgs (Suc 0) [''true''] default_args = (default_args, Some (Suc 0))" by simp
  have "\<not> list_all sends (trace (snd (run_state (cgproxy_main ?js sample_os sample_net ?argv) (answered 0))))"
    by (simp add: cgproxy_main_def args' run_state_okE getpid_def run_state_bindE answered_def
        send_pid_def send_res_def send_def Let_def net_defs overlay_full bytes_int_bytes sends_def
        del: processArgs.simps)
  moreover have t: "trace (answered 0) = []" by (simp add: answered_def)
  ultimately have "\<not> (\<exists>es. trace w' = trace (answered 0) @ es \<and> list_all sends es)"
    using run by simp
  then obtain a shift pid w1 w2 rc where 1: "processArgs 1 (tl ?argv) default_args = (a, Some shift)"
      "run_state (getpid sample_os) (answered 0) = (pid, w1)"
      "run_state (send_pid ?js sample_net pid (proxy a)) w1 = (Inr 0, w2)"
      "run_state (system_cmd sample_os (join2str_argv (length ?argv - shift) (drop shift ?argv) (CHR '' ''))) w2 = (rc, w')"
      "r = Return rc"
    using command_after_attach [OF run] by blast
  have line: "join2str_argv 1 [''true''] (CHR '' '') = ''true''" by code_simp
  have "a = default_args" "shift = 1" using 1(1) args by simp_all
  with 1 run line show ?thesis by (auto simp: default_args_def getpid_def)
qed

text \<open>
  \<open>validPid\<close> bounds no number: with \<open>--pid\<close> and one that no \<open>int\<close> holds, the program
  is stopped by the exception of \<open>stoi\<close>, before anything is sent.
\<close>

theorem pid_overflow_aborts:
  assumes "validPid p" and "2 ^ 31 \<le> digits_val p"
  shows "run_state (cgproxy_main js os net [name, ''--pid'', p]) w = (Abort (Throw Std_out_of_range), w)"
proof -
  have "scan_int (p @ []) = Some (int (digits_val p), [])"
    using assms(1) by (intro scan_int_digits) (auto simp: validPid_def)
  then have "stoi p = Inl (Throw Std_out_of_range)"
    using assms(2) by (simp add: stoi_def)
  then show ?thesis using assms(1)
    by (simp add: cgproxy_main_def default_args_def run_state_bindE)
qed

theorem pid_overflow_aborts_witness:
  "fst (run_state (cgproxy_main (sample_js JNull) sample_os sample_net [''cgproxy'', ''--pid'', ''4294967296''])
     sample_world) = Abort (Throw Std_out_of_range)"
proof -
  have "validPid ''4294967296''" "2 ^ 31 \<le> digits_val ''4294967296''"
    by (simp_all add: validPid_def is_digit_def char_in_def digits_val_def digit_val_def)
  then show ?thesis by (simp add: pid_overflow_aborts)
qed

text \<open>
  \<open>cgattach\<close> checks what it is given: on any kernel it touches a cgroup only with
  exactly two arguments, a number and a well-formed cgroup, and then only that cgroup.
\<close>

theorem cgattach_guarded:
  "emits (\<lambda>e. length argv = 3 \<and> validPid (argv ! 1) \<and> validCgroup (argv ! 2) \<and> touches (argv ! 2) e)
     (cgattach_main os argv)"
proof -
  have "emits (\<lambda>e. length argv = 3 \<and> validPid (argv ! 1) \<and> validCgroup (argv ! 2) \<and> touches (argv ! 2) e)
      (attach os (argv ! 1) (argv ! 2))"
    if "length argv = 3" "validPid (argv ! 1)" "validCgroup (argv ! 2)"
    using that by (intro emits_mono [OF emits_attach]) simp
  then show ?thesis unfolding cgattach_main_def Let_def by auto
qed

end
