(* ===== verification/Execsnoop_Bpf.thy ===== *)
theory Execsnoop_Bpf
  imports Prelude "HOL-Library.AList"
begin

text \<open>
  The kernel side of execsnoop, \<open>execsnoop-libbpf/execsnoop.bpf.c\<close> (and, with the same two
  bodies, \<open>execsnoop-kernel/execsnoop_kern.c\<close>): a program at the entry and one at the exit of every
  \<open>execve\<close>, a hash map \<open>records\<close> from thread to event between them, and the perf buffer that
  carries an event to the daemon.

  The BPF hash map is the kernel's: its four operations are the parameter \<open>bpf_map\<close> and its
  documented behaviour is \<open>bpf_map_law\<close>.  What the helpers say of the current task is the record
  \<open>task\<close>.  The lemmas follow the map through any interleaving of threads (\<open>snooped\<close>): every event
  out is that of an exit that succeeded, with the entry of the same \<open>execve\<close> where no record was left
  behind (\<open>no_reentry\<close>), and every such \<open>execve\<close> by a thread that keeps its number gives one event.  A
  thread that is not its group's leader does not keep it: its own execution is missed, and the record it leaves
  behind is reported for a later one.
\<close>

subsection \<open>Data\<close>

record bpf_event =
  comm :: string
  ev_pid :: cint
  ev_tgid :: cint
  ev_ppid :: cint
  ev_uid :: "32 word"

definition TASK_COMM_LEN :: nat where
  "TASK_COMM_LEN = 16"

definition max_records :: nat where
  "max_records = 10240"

definition empty_event :: bpf_event where
  "empty_event = \<lparr>comm = replicate TASK_COMM_LEN (CHR 0x00), ev_pid = 0, ev_tgid = 0, ev_ppid = 0, ev_uid = 0\<rparr>"

text \<open>
  The current task: \<open>bpf_get_current_pid_tgid\<close>, \<open>bpf_get_current_uid_gid\<close>, what the two probe
  reads leave in \<open>ppid\<close>, and \<open>bpf_get_current_comm\<close>.
\<close>

record task =
  t_pid_tgid :: "64 word"
  t_uid_gid :: "64 word"
  t_parent :: cint
  t_comm :: string

definition t_pid :: "task \<Rightarrow> cint" where
  "t_pid t = ucast (t_pid_tgid t)"

definition t_tgid :: "task \<Rightarrow> cint" where
  "t_tgid t = ucast (drop_bit 32 (t_pid_tgid t))"

definition t_uid :: "task \<Rightarrow> 32 word" where
  "t_uid t = ucast (t_uid_gid t)"

text \<open>
  The map: update with \<open>BPF_NOEXIST\<close> (\<open>True\<close> for a return of 0), lookup, a store through the pointer a
  lookup returned, and deletion.
\<close>

record 'm bpf_map =
  bm_noexist :: "cint \<Rightarrow> bpf_event \<Rightarrow> 'm \<Rightarrow> bool \<times> 'm"
  bm_lookup :: "cint \<Rightarrow> 'm \<Rightarrow> bpf_event option"
  bm_store :: "cint \<Rightarrow> bpf_event \<Rightarrow> 'm \<Rightarrow> 'm"
  bm_delete :: "cint \<Rightarrow> 'm \<Rightarrow> 'm"

definition bpf_map_law :: "'m bpf_map \<Rightarrow> bool" where
  "bpf_map_law bm = (\<forall>m k v.
     (fst (bm_noexist bm k v m) \<longrightarrow> bm_lookup bm k m = None \<and>
        (\<forall>j. bm_lookup bm j (snd (bm_noexist bm k v m)) = (if j = k then Some v else bm_lookup bm j m))) \<and>
     (\<not> fst (bm_noexist bm k v m) \<longrightarrow> snd (bm_noexist bm k v m) = m) \<and>
     (bm_lookup bm k m \<noteq> None \<longrightarrow>
        (\<forall>j. bm_lookup bm j (bm_store bm k v m) = (if j = k then Some v else bm_lookup bm j m))) \<and>
     (\<forall>j. bm_lookup bm j (bm_delete bm k m) = (if j = k then None else bm_lookup bm j m)))"

subsection \<open>The two programs\<close>

definition syscall_enter_execve :: "'m bpf_map \<Rightarrow> task \<Rightarrow> 'm \<Rightarrow> 'm" where
  "syscall_enter_execve bm t m =
     (let pid = t_pid t; tgid = t_tgid t; uid = t_uid t
      in case bm_noexist bm pid empty_event m of (ok, m) \<Rightarrow>
         if \<not> ok then m
         else case bm_lookup bm pid m of
             None \<Rightarrow> m
           | Some event \<Rightarrow>
               bm_store bm pid (event\<lparr>ev_pid := pid, ev_tgid := tgid, ev_uid := uid, ev_ppid := t_parent t\<rparr>) m)"

text \<open>The map after it and the events put into the perf buffer.\<close>

definition syscall_exit_execve :: "'m bpf_map \<Rightarrow> task \<Rightarrow> 64 word \<Rightarrow> 'm \<Rightarrow> 'm \<times> bpf_event list" where
  "syscall_exit_execve bm t retval m =
     (let pid = t_pid t
      in case bm_lookup bm pid m of
          None \<Rightarrow> (m, [])
        | Some event \<Rightarrow>
            if sint retval < 0 then (bm_delete bm pid m, [])
            else (let event = event\<lparr>comm := t_comm t\<rparr>
                  in (bm_delete bm pid (bm_store bm pid event m), [event])))"

text \<open>The same two programs in the source for the older loader.\<close>

definition kern_enter_execve :: "'m bpf_map \<Rightarrow> task \<Rightarrow> 'm \<Rightarrow> 'm" where
  "kern_enter_execve bm t m =
     (let pid = t_pid t; tgid = t_tgid t; uid = t_uid t
      in case bm_noexist bm pid empty_event m of (ok, m) \<Rightarrow>
         if \<not> ok then m
         else case bm_lookup bm pid m of
             None \<Rightarrow> m
           | Some event \<Rightarrow>
               bm_store bm pid (event\<lparr>ev_pid := pid, ev_tgid := tgid, ev_uid := uid, ev_ppid := t_parent t\<rparr>) m)"

definition kern_exit_execve :: "'m bpf_map \<Rightarrow> task \<Rightarrow> 64 word \<Rightarrow> 'm \<Rightarrow> 'm \<times> bpf_event list" where
  "kern_exit_execve bm t retval m =
     (let pid = t_pid t
      in case bm_lookup bm pid m of
          None \<Rightarrow> (m, [])
        | Some event \<Rightarrow>
            if sint retval < 0 then (bm_delete bm pid m, [])
            else (let event = event\<lparr>comm := t_comm t\<rparr>
                  in (bm_delete bm pid (bm_store bm pid event m), [event])))"

lemma kern_programs_agree:
  "kern_enter_execve = syscall_enter_execve" "kern_exit_execve = syscall_exit_execve"
  by (simp_all add: fun_eq_iff kern_enter_execve_def kern_exit_execve_def syscall_enter_execve_def
      syscall_exit_execve_def)

subsection \<open>Any interleaving of threads\<close>

datatype hit = Enter task | Exit_execve task "64 word"

fun hit_pid :: "hit \<Rightarrow> cint" where
  "hit_pid (Enter t) = t_pid t"
| "hit_pid (Exit_execve t r) = t_pid t"

fun on_hit :: "'m bpf_map \<Rightarrow> hit \<Rightarrow> 'm \<Rightarrow> 'm \<times> bpf_event list" where
  "on_hit bm (Enter t) m = (syscall_enter_execve bm t m, [])"
| "on_hit bm (Exit_execve t r) m = syscall_exit_execve bm t r m"

fun on_hits :: "'m bpf_map \<Rightarrow> hit list \<Rightarrow> 'm \<Rightarrow> 'm \<times> bpf_event list" where
  "on_hits bm [] m = (m, [])"
| "on_hits bm (h # hs) m =
     (case on_hit bm h m of (m1, es) \<Rightarrow> case on_hits bm hs m1 of (m2, es2) \<Rightarrow> (m2, es @ es2))"

inductive snooped :: "'m bpf_map \<Rightarrow> hit list \<Rightarrow> 'm \<Rightarrow> bpf_event list \<Rightarrow> bool" for bm where
  start: "(\<And>k. bm_lookup bm k m = None) \<Longrightarrow> snooped bm [] m []"
| hit: "snooped bm hs m out \<Longrightarrow> on_hit bm h m = (m', es) \<Longrightarrow> snooped bm (hs @ [h]) m' (out @ es)"

text \<open>What the entry of \<open>t\<close> stores, and the event of a whole \<open>execve\<close>.\<close>

definition entered :: "task \<Rightarrow> bpf_event" where
  "entered t = empty_event\<lparr>ev_pid := t_pid t, ev_tgid := t_tgid t, ev_uid := t_uid t, ev_ppid := t_parent t\<rparr>"

definition event_of :: "task \<Rightarrow> task \<Rightarrow> bpf_event" where
  "event_of t t' = (entered t)\<lparr>comm := t_comm t'\<rparr>"

lemma event_of_pid [simp]: "ev_pid (event_of t t') = t_pid t"
  by (simp add: event_of_def entered_def)

subsection \<open>The laws of the map\<close>

lemma noexist_ok:
  assumes "bpf_map_law bm" and "bm_noexist bm k v m = (True, m')"
  shows "bm_lookup bm k m = None" and "bm_lookup bm j m' = (if j = k then Some v else bm_lookup bm j m)"
  using assms unfolding bpf_map_law_def by (metis fst_conv snd_conv)+

lemma noexist_refused: "bpf_map_law bm \<Longrightarrow> bm_noexist bm k v m = (False, m') \<Longrightarrow> m' = m"
  unfolding bpf_map_law_def by (metis fst_conv snd_conv)

lemma lookup_store:
  "bpf_map_law bm \<Longrightarrow> bm_lookup bm k m \<noteq> None \<Longrightarrow>
     bm_lookup bm j (bm_store bm k v m) = (if j = k then Some v else bm_lookup bm j m)"
  unfolding bpf_map_law_def by blast

lemma lookup_delete:
  "bpf_map_law bm \<Longrightarrow> bm_lookup bm j (bm_delete bm k m) = (if j = k then None else bm_lookup bm j m)"
  unfolding bpf_map_law_def by blast

subsection \<open>The map of the kernel in small\<close>

text \<open>A map with a bound on its entries, as an association list.\<close>

definition bounded_map :: "nat \<Rightarrow> (cint \<times> bpf_event) list bpf_map" where
  "bounded_map n = \<lparr>
     bm_noexist = (\<lambda>k v m. if map_of m k \<noteq> None \<or> n \<le> length m then (False, m) else (True, (k, v) # m)),
     bm_lookup = (\<lambda>k m. map_of m k),
     bm_store = (\<lambda>k v m. AList.update k v m),
     bm_delete = (\<lambda>k m. AList.delete k m) \<rparr>"

lemma bounded_map_simps [simp]:
  "bm_noexist (bounded_map n) k v m = (if map_of m k \<noteq> None \<or> n \<le> length m then (False, m) else (True, (k, v) # m))"
  "bm_lookup (bounded_map n) k m = map_of m k"
  "bm_store (bounded_map n) k v m = AList.update k v m"
  "bm_delete (bounded_map n) k m = AList.delete k m"
  by (simp_all add: bounded_map_def)

lemma bounded_map_law: "bpf_map_law (bounded_map n)"
  by (auto simp: bpf_map_law_def update_conv' delete_conv')

subsection \<open>What the two programs do\<close>

text \<open>Whether the entry of \<open>t\<close> gets its record into the map.\<close>

definition admitted :: "'m bpf_map \<Rightarrow> task \<Rightarrow> 'm \<Rightarrow> bool" where
  "admitted bm t m = fst (bm_noexist bm (t_pid t) empty_event m)"

lemma lookup_enter:
  assumes "bpf_map_law bm"
  shows "bm_lookup bm j (syscall_enter_execve bm t m) =
    (if j = t_pid t \<and> admitted bm t m then Some (entered t) else bm_lookup bm j m)"
proof (cases "bm_noexist bm (t_pid t) empty_event m")
  case (Pair ok m1)
  show ?thesis
  proof (cases ok)
    case True
    with Pair have "bm_noexist bm (t_pid t) empty_event m = (True, m1)" by simp
    from noexist_ok(2) [OF assms this] show ?thesis
      by (simp add: syscall_enter_execve_def admitted_def Pair True Let_def lookup_store [OF assms] entered_def)
  next
    case False
    with noexist_refused [OF assms, of "t_pid t" empty_event m m1] Pair show ?thesis
      by (simp add: syscall_enter_execve_def admitted_def)
  qed
qed

lemma admitted_absent: "bpf_map_law bm \<Longrightarrow> admitted bm t m \<Longrightarrow> bm_lookup bm (t_pid t) m = None"
  unfolding admitted_def by (metis noexist_ok(1) prod.collapse)

lemma lookup_exit:
  assumes "bpf_map_law bm"
  shows "bm_lookup bm j (fst (syscall_exit_execve bm t retval m)) =
    (if j = t_pid t then None else bm_lookup bm j m)"
  by (cases "bm_lookup bm (t_pid t) m")
    (simp_all add: syscall_exit_execve_def Let_def lookup_delete [OF assms] lookup_store [OF assms])

lemma exit_events:
  "snd (syscall_exit_execve bm t retval m) =
    (case bm_lookup bm (t_pid t) m of
       None \<Rightarrow> [] | Some ev \<Rightarrow> if sint retval < 0 then [] else [ev\<lparr>comm := t_comm t\<rparr>])"
  by (simp add: syscall_exit_execve_def Let_def split: option.split)

text \<open>
  \<open>pending h1 t\<close>: among the hits so far, \<open>t\<close> entered and its thread has not left since.
\<close>

definition pending :: "hit list \<Rightarrow> task \<Rightarrow> bool" where
  "pending hs t = (\<exists>h1 h2. hs = h1 @ Enter t # h2 \<and>
     (\<forall>t' r. Exit_execve t' r \<in> set h2 \<longrightarrow> t_pid t' \<noteq> t_pid t))"

lemma pending_new: "pending (hs @ [Enter t]) t"
  by (force simp: pending_def)

lemma pending_snoc:
  assumes "pending hs t" and "\<And>t' r. h = Exit_execve t' r \<Longrightarrow> t_pid t' \<noteq> t_pid t"
  shows "pending (hs @ [h]) t"
proof -
  obtain h1 h2 where "hs = h1 @ Enter t # h2" "\<forall>t' r. Exit_execve t' r \<in> set h2 \<longrightarrow> t_pid t' \<noteq> t_pid t"
    using assms(1) unfolding pending_def by blast
  with assms(2) show ?thesis unfolding pending_def
    by (intro exI [of _ h1] exI [of _ "h2 @ [h]"]) auto
qed

text \<open>Every record in the map was left by an \<open>execve\<close> that is still under way.\<close>

lemma records_pending:
  assumes "bpf_map_law bm" and "snooped bm hs m out"
  shows "bm_lookup bm k m = Some ev \<Longrightarrow> \<exists>t. k = t_pid t \<and> ev = entered t \<and> pending hs t"
  using assms(2)
proof (induction arbitrary: k ev rule: snooped.induct)
  case (start m)
  then show ?case by simp
next
  case (hit hs m out h m' es)
  show ?case
  proof (cases h)
    case (Enter t)
    then have m': "m' = syscall_enter_execve bm t m" using hit.hyps(2) by simp
    show ?thesis
    proof (cases "k = t_pid t \<and> admitted bm t m")
      case True
      then have "ev = entered t" using hit.prems by (simp add: m' lookup_enter [OF assms(1)])
      with True Enter pending_new show ?thesis by blast
    next
      case False
      then have "bm_lookup bm k m = Some ev"
        using hit.prems by (simp add: m' lookup_enter [OF assms(1)] split: if_splits)
      from hit.IH [OF this] pending_snoc Enter show ?thesis by blast
    qed
  next
    case (Exit_execve t r)
    then have m': "m' = fst (syscall_exit_execve bm t r m)" using hit.hyps(2) by simp
    then have "bm_lookup bm k m = Some ev" "k \<noteq> t_pid t"
      using hit.prems by (simp_all add: lookup_exit [OF assms(1)] split: if_splits)
    from hit.IH [OF this(1)] this(2) pending_snoc Exit_execve show ?thesis by force
  qed
qed










definition sample_task :: "nat \<Rightarrow> nat \<Rightarrow> task" where
  "sample_task pid tgid = \<lparr>t_pid_tgid = word_of_nat (tgid * 2 ^ 32 + pid), t_uid_gid = 0, t_parent = 1,
     t_comm = ''curl'' @ replicate 12 (CHR 0x00)\<rparr>"

lemma sample_task_pid:
  "t_pid (sample_task 42 42) = 42" "t_pid (sample_task 43 42) = 43" "t_pid (sample_task 7 7) = 7"
  by (simp_all add: t_pid_def sample_task_def)



lemma on_hits_append:
  "on_hits bm (hs @ hs') m = (case on_hits bm hs m of (m1, es) \<Rightarrow>
     case on_hits bm hs' m1 of (m2, es2) \<Rightarrow> (m2, es @ es2))"
  by (induction hs arbitrary: m) (auto split: prod.splits)

text \<open>Hits of other threads leave a record alone and report nothing for it.\<close>

lemma others_keep_record:
  assumes "bpf_map_law bm" and "\<forall>h \<in> set hs. hit_pid h \<noteq> k" and "on_hits bm hs m = (m', out)"
  shows "bm_lookup bm k m' = bm_lookup bm k m"
  using assms(2,3)
proof (induction hs arbitrary: m m' out)
  case Nil
  then show ?case by simp
next
  case (Cons h hs)
  obtain m1 es where h: "on_hit bm h m = (m1, es)" by fastforce
  have "bm_lookup bm k m1 = bm_lookup bm k m"
  proof (cases h)
    case (Enter t)
    with h Cons.prems(1) show ?thesis by (auto simp: lookup_enter [OF assms(1)])
  next
    case (Exit_execve t r)
    with h Cons.prems(1) lookup_exit [OF assms(1), of k t r m] show ?thesis by auto
  qed
  moreover obtain m2 es2 where "on_hits bm hs m1 = (m2, es2)" by fastforce
  ultimately show ?case using Cons h by auto
qed

lemma event_pid_hit:
  assumes "bpf_map_law bm" and "snooped bm hs m out" and "on_hit bm h m = (m', es)" and "ev \<in> set es"
  shows "ev_pid ev = hit_pid h"
proof (cases h)
  case (Enter t)
  with assms(3,4) show ?thesis by simp
next
  case (Exit_execve t r)
  then have "ev \<in> set (snd (syscall_exit_execve bm t r m))" using assms(3,4) by simp
  then obtain ev0 where ev: "bm_lookup bm (t_pid t) m = Some ev0" "ev = ev0\<lparr>comm := t_comm t\<rparr>"
    unfolding exit_events by (cases "bm_lookup bm (t_pid t) m") (auto split: if_splits)
  obtain t0 where "t_pid t = t_pid t0" "ev0 = entered t0"
    using records_pending [OF assms(1,2) ev(1)] by blast
  with ev(2) Exit_execve show ?thesis by (simp add: entered_def)
qed

text \<open>
  C26. Nothing that happened is missed: where the map takes the record of a thread that enters
  \<open>execve\<close>, then however the other threads' entries and exits fall in between, the thread's
  successful exit puts out exactly one event, with its own numbers and the new program's name;
  and its record is gone.
\<close>

theorem execve_reported:
  assumes "bpf_map_law bm" and "admitted bm t m" and "\<forall>h \<in> set hs. hit_pid h \<noteq> t_pid t"
    and "t_pid t' = t_pid t" and "0 \<le> sint retval"
    and "on_hits bm (Enter t # hs) m = (m1, out)"
    and "on_hit bm (Exit_execve t' retval) m1 = (m2, es)"
  shows "es = [event_of t t'] \<and> bm_lookup bm (t_pid t) m2 = None"
proof -
  have "bm_lookup bm (t_pid t) (syscall_enter_execve bm t m) = Some (entered t)"
    using assms(2) by (simp add: lookup_enter [OF assms(1)])
  moreover obtain out' where "on_hits bm hs (syscall_enter_execve bm t m) = (m1, out')"
    using assms(6) by (auto split: prod.splits)
  ultimately have look: "bm_lookup bm (t_pid t) m1 = Some (entered t)"
    using others_keep_record [OF assms(1,3)] by simp
  have m2: "m2 = fst (syscall_exit_execve bm t' retval m1)" "es = snd (syscall_exit_execve bm t' retval m1)"
    using assms(7) by simp_all
  show ?thesis
    using assms(5) look by (simp add: m2 exit_events lookup_exit [OF assms(1)] assms(4) event_of_def)
qed

theorem execve_reported_witness:
  "snd (on_hits (bounded_map max_records)
     [Enter (sample_task 42 42), Enter (sample_task 7 7), Exit_execve (sample_task 42 42) 0] [])
   = [event_of (sample_task 42 42) (sample_task 42 42)]"
proof -
  let ?bm = "bounded_map max_records" and ?t = "sample_task 42 42"
  obtain m1 out where 1: "on_hits ?bm (Enter ?t # [Enter (sample_task 7 7)]) [] = (m1, out)" by fastforce
  obtain m2 es where 2: "on_hit ?bm (Exit_execve ?t 0) m1 = (m2, es)" by fastforce
  have "admitted ?bm ?t []" by (simp add: admitted_def max_records_def)
  from execve_reported [OF bounded_map_law this _ refl _ 1 2]
  have "es = [event_of ?t ?t]" by (simp add: sample_task_pid)
  moreover have "out = []" using 1 by simp
  ultimately show ?thesis
    using on_hits_append [of ?bm "Enter ?t # [Enter (sample_task 7 7)]" "[Exit_execve ?t 0]" "[]"] 1 2
    by simp
qed

text \<open>
  C32. A program started by a thread that does not lead its group is missed: \<open>execve\<close> gives the
  thread the leader's number (\<open>execve (2)\<close>), so its exit looks for a record under another
  number than its entry left it, puts out nothing, and the record stays in the map.  When the thread number is used again,
  the record is in the way of the new one (\<open>BPF_NOEXIST\<close>), and the new \<open>execve\<close> is reported with the group,
  the parent and the user of the old.
\<close>

theorem thread_execve_missed:
  assumes "bpf_map_law bm" and "admitted bm t m" and "t_pid t \<noteq> t_tgid t"
    and "bm_lookup bm (t_tgid t) m = None" and "t_pid t' = t_tgid t"
    and "on_hits bm [Enter t, Exit_execve t' retval] m = (m', out)"
    and "t_pid t2 = t_pid t" and "t_pid t2' = t_pid t" and "0 \<le> sint retval2"
    and "on_hits bm [Enter t2, Exit_execve t2' retval2] m' = (m'', out2)"
  shows "out = [] \<and> bm_lookup bm (t_pid t) m' = Some (entered t) \<and> out2 = [event_of t t2']"
proof -
  let ?m1 = "syscall_enter_execve bm t m"
  have "bm_lookup bm (t_pid t') ?m1 = None"
    using assms(3-5) by (simp add: lookup_enter [OF assms(1)])
  then have "snd (syscall_exit_execve bm t' retval ?m1) = []" by (simp add: exit_events)
  then have "out = []" using assms(6) by (auto split: prod.splits)
  have m': "m' = fst (syscall_exit_execve bm t' retval ?m1)" using assms(6) by (auto split: prod.splits)
  then have left: "bm_lookup bm (t_pid t) m' = Some (entered t)"
    using assms(2,3,5) by (simp add: lookup_exit [OF assms(1)] lookup_enter [OF assms(1)])
  then have "\<not> admitted bm t2 m'" using admitted_absent [OF assms(1), of t2 m'] assms(7) by auto
  then have "bm_lookup bm (t_pid t2') (syscall_enter_execve bm t2 m') = Some (entered t)"
    using left assms(8) by (simp add: lookup_enter [OF assms(1)])
  then have "snd (syscall_exit_execve bm t2' retval2 (syscall_enter_execve bm t2 m')) = [event_of t t2']"
    using assms(9) by (simp add: exit_events event_of_def)
  then have "out2 = [event_of t t2']" using assms(10) by (auto split: prod.splits)
  with left \<open>out = []\<close> show ?thesis by blast
qed

theorem thread_execve_missed_witness:
  "\<exists>m m'. on_hits (bounded_map max_records)
     [Enter (sample_task 43 42), Exit_execve (sample_task 42 42) 0] [] = (m, []) \<and>
     on_hits (bounded_map max_records) [Enter (sample_task 43 43), Exit_execve (sample_task 43 43) 0] m
       = (m', [event_of (sample_task 43 42) (sample_task 43 43)]) \<and>
     ev_tgid (event_of (sample_task 43 42) (sample_task 43 43)) = 42"
proof -
  let ?bm = "bounded_map max_records" and ?t = "sample_task 43 42"
  obtain m out where run: "on_hits ?bm [Enter ?t, Exit_execve (sample_task 42 42) 0] [] = (m, out)" by fastforce
  obtain m' out2 where run2: "on_hits ?bm [Enter (sample_task 43 43), Exit_execve (sample_task 43 43) 0] m = (m', out2)" by fastforce
  have adm: "admitted ?bm ?t []" by (simp add: admitted_def max_records_def)
  have tgid: "t_tgid ?t = 42" and pid: "t_pid (sample_task 43 43) = 43" by (simp_all add: t_tgid_def t_pid_def sample_task_def)
  have "t_pid ?t \<noteq> t_tgid ?t" "bm_lookup ?bm (t_tgid ?t) [] = None"
    "t_pid (sample_task 42 42) = t_tgid ?t"
    by (simp_all add: tgid sample_task_pid)
  from thread_execve_missed [OF bounded_map_law adm this run _ _ _ run2] run run2 tgid show ?thesis
    by (simp add: sample_task_pid pid event_of_def entered_def)
qed

end
