(* ===== verification/Execsnoop_User.thy ===== *)
theory Execsnoop_User
  imports Execsnoop_Bpf Sample_Kernel
begin

text \<open>
  The daemon's side of execsnoop: \<open>execsnoop-libbpf/execsnoop_share.cpp\<close> (and the same function in
  \<open>execsnoop-kernel/execsnoop_share.cpp\<close>), the variant on bcc (\<open>execsnoop-bcc/execsnoop.cpp\<close>), and
  the three stand-alone programs that only print.

  libbpf and bcc are not part of the repository: the calls are the parameters \<open>bpf_lib\<close> and
  \<open>bcc_lib\<close>.  A poll hands over the events that have arrived and then returns a number.  The two
  loops that may never end, \<open>while (poll \<ge> 0)\<close> and \<open>goto main_loop\<close>, take the number of polls and of
  buffers as fuel, and \<open>Polling\<close> is where it runs out; the statements hold for every fuel.
\<close>

record 'k bpf_lib =
  lib_setrlimit :: "'k \<Rightarrow> cint \<times> 'k"
  lib_open_and_load :: "'k \<Rightarrow> bool \<times> 'k"
  lib_attach :: "'k \<Rightarrow> cint \<times> 'k"
  lib_buffer_new :: "nat \<Rightarrow> 'k \<Rightarrow> cint \<times> 'k"
  lib_poll :: "'k \<Rightarrow> (bpf_event list \<times> cint) \<times> 'k"
  lib_buffer_free :: "'k \<Rightarrow> 'k"

definition PERF_BUFFER_PAGES :: nat where "PERF_BUFFER_PAGES = 64"
definition EINTR :: cint where "EINTR = 4"
definition SIGINT :: cint where "SIGINT = 2"

definition bump_memlock_rlimit :: "'k bpf_lib \<Rightarrow> ('k world, cint) state" where
  "bump_memlock_rlimit lib = os_call (lib_setrlimit lib) (\<lambda>_. [])"

definition open_and_load :: "'k bpf_lib \<Rightarrow> ('k world, bool) state" where
  "open_and_load lib = os_call (lib_open_and_load lib) (\<lambda>_. [])"

definition attach_programs :: "'k bpf_lib \<Rightarrow> ('k world, cint) state" where
  "attach_programs lib = os_call (lib_attach lib) (\<lambda>_. [])"

definition perf_buffer_new :: "'k bpf_lib \<Rightarrow> nat \<Rightarrow> ('k world, cint) state" where
  "perf_buffer_new lib pages = os_call (lib_buffer_new lib pages) (\<lambda>_. [])"

definition perf_buffer_poll :: "'k bpf_lib \<Rightarrow> ('k world, bpf_event list \<times> cint) state" where
  "perf_buffer_poll lib = os_call (lib_poll lib) (\<lambda>_. [])"

definition perf_buffer_free :: "'k bpf_lib \<Rightarrow> ('k world, unit) state" where
  "perf_buffer_free lib = os_call (\<lambda>k. ((), lib_buffer_free lib k)) (\<lambda>_. [])"

lemmas lib_defs = bump_memlock_rlimit_def open_and_load_def attach_programs_def perf_buffer_new_def
  perf_buffer_poll_def perf_buffer_free_def

lemma emits_lib [simp, intro]:
  "emits A (bump_memlock_rlimit lib)" "emits A (open_and_load lib)" "emits A (attach_programs lib)"
  "emits A (perf_buffer_new lib n)" "emits A (perf_buffer_poll lib)" "emits A (perf_buffer_free lib)"
  unfolding lib_defs by (auto intro!: emits_os_call)

subsection \<open>The loops\<close>

datatype polled = Poll_fuel | Poll_error cint | Poll_uncaught abrupt

datatype snoop_end = Polling | Ended cint | Snoop_uncaught abrupt

text \<open>\<open>if (callback) callback (e->pid)\<close>, its value dropped.\<close>

definition handle_event :: "(cint \<Rightarrow> ('k world, cint res) state) option \<Rightarrow> bpf_event \<Rightarrow> ('k world, unit res) state" where
  "handle_event callback e = (case callback of
       None \<Rightarrow> ret (Inr ())
     | Some cb \<Rightarrow> bindE (cb (ev_pid e)) (\<lambda>_. ret (Inr ())))"

text \<open>\<open>while ((err = perf_buffer__poll (pb, -1)) >= 0) {}\<close>\<close>

fun poll_while :: "nat \<Rightarrow> 'k bpf_lib \<Rightarrow> (bpf_event \<Rightarrow> ('k world, unit res) state) \<Rightarrow> ('k world, polled) state" where
  "poll_while 0 lib sample_cb = ret Poll_fuel"
| "poll_while (Suc n) lib sample_cb = do {
     (events, err) \<leftarrow> perf_buffer_poll lib;
     r \<leftarrow> for_each sample_cb events;
     case r of
       Inl e \<Rightarrow> ret (Poll_uncaught e)
     | Inr _ \<Rightarrow> if 0 \<le> sint err then poll_while n lib sample_cb else ret (Poll_error err) }"

text \<open>From the label \<open>main_loop\<close> on.\<close>

fun main_loop :: "nat \<Rightarrow> nat \<Rightarrow> 'k os \<Rightarrow> 'k bpf_lib \<Rightarrow> (cint \<Rightarrow> ('k world, cint res) state) option \<Rightarrow>
    bool \<Rightarrow> ('k world, snoop_end) state" where
  "main_loop 0 n os lib callback notified = ret Polling"
| "main_loop (Suc m) n os lib callback notified = do {
     err \<leftarrow> perf_buffer_new lib PERF_BUFFER_PAGES;
     if err \<noteq> 0 then ret (Ended 1)
     else do {
       (if \<not> notified then set_ready ''execsnoop'' else ret ());
       r \<leftarrow> poll_while n lib (handle_event callback);
       case r of
         Poll_fuel \<Rightarrow> ret Polling
       | Poll_uncaught e \<Rightarrow> ret (Snoop_uncaught e)
       | Poll_error err \<Rightarrow> do {
           perf_buffer_free lib;
           if err = - EINTR then main_loop m n os lib callback True
           else do { kill os 0 SIGINT; ret (Ended err) } } } }"

definition execsnoop :: "nat \<Rightarrow> nat \<Rightarrow> 'k os \<Rightarrow> 'k bpf_lib \<Rightarrow>
    (cint \<Rightarrow> ('k world, cint res) state) option \<Rightarrow> ('k world, snoop_end) state" where
  "execsnoop m n os lib callback = do {
     err \<leftarrow> bump_memlock_rlimit lib;
     if err \<noteq> 0 then ret (Ended 1)
     else do {
       obj \<leftarrow> open_and_load lib;
       if \<not> obj then ret (Ended 1)
       else do {
         err \<leftarrow> attach_programs lib;
         if err \<noteq> 0 then ret (Ended err)
         else main_loop m n os lib callback False } } }"

text \<open>The thread: the callback is set, the value of \<open>execsnoop\<close> dropped.\<close>

definition startThread :: "nat \<Rightarrow> nat \<Rightarrow> 'k os \<Rightarrow> 'k bpf_lib \<Rightarrow>
    (cint \<Rightarrow> ('k world, cint res) state) \<Rightarrow> ('k world, snoop_end) state" where
  "startThread m n os lib c = execsnoop m n os lib (Some c)"

text \<open>The copies of the two functions for the older loader, on its skeleton.\<close>

definition kern_execsnoop :: "nat \<Rightarrow> nat \<Rightarrow> 'k os \<Rightarrow> 'k bpf_lib \<Rightarrow>
    (cint \<Rightarrow> ('k world, cint res) state) option \<Rightarrow> ('k world, snoop_end) state" where
  "kern_execsnoop m n os lib callback = do {
     err \<leftarrow> bump_memlock_rlimit lib;
     if err \<noteq> 0 then ret (Ended 1)
     else do {
       obj \<leftarrow> open_and_load lib;
       if \<not> obj then ret (Ended 1)
       else do {
         err \<leftarrow> attach_programs lib;
         if err \<noteq> 0 then ret (Ended err)
         else main_loop m n os lib callback False } } }"

definition kern_startThread :: "nat \<Rightarrow> nat \<Rightarrow> 'k os \<Rightarrow> 'k bpf_lib \<Rightarrow>
    (cint \<Rightarrow> ('k world, cint res) state) \<Rightarrow> ('k world, snoop_end) state" where
  "kern_startThread m n os lib c = kern_execsnoop m n os lib (Some c)"

subsection \<open>The programs that print\<close>

text \<open>Printing an event has no effect the model keeps.\<close>

definition print_event :: "bpf_event \<Rightarrow> ('k world, unit res) state" where
  "print_event e = ret (Inr ())"

text \<open>After the set-up: one buffer, polled until an error, then \<open>kill\<close>.\<close>

definition print_loop :: "nat \<Rightarrow> nat \<Rightarrow> 'k os \<Rightarrow> 'k bpf_lib \<Rightarrow> ('k world, snoop_end) state" where
  "print_loop n pages os lib = do {
     err \<leftarrow> perf_buffer_new lib pages;
     if err \<noteq> 0 then ret (Ended 1)
     else do {
       r \<leftarrow> poll_while n lib print_event;
       case r of
         Poll_fuel \<Rightarrow> ret Polling
       | Poll_uncaught e \<Rightarrow> ret (Snoop_uncaught e)
       | Poll_error err \<Rightarrow> do { kill os 0 SIGINT; ret (Ended err) } } }"

definition execsnoop_main :: "nat \<Rightarrow> 'k os \<Rightarrow> 'k bpf_lib \<Rightarrow> ('k world, snoop_end) state" where
  "execsnoop_main n os lib = do {
     err \<leftarrow> bump_memlock_rlimit lib;
     if err \<noteq> 0 then ret (Ended 1)
     else do {
       obj \<leftarrow> open_and_load lib;
       if \<not> obj then ret (Ended 1)
       else do {
         err \<leftarrow> attach_programs lib;
         if err \<noteq> 0 then ret (Ended err)
         else print_loop n PERF_BUFFER_PAGES os lib } } }"

definition execsnoop_user_1_main :: "nat \<Rightarrow> 'k os \<Rightarrow> 'k bpf_lib \<Rightarrow> ('k world, snoop_end) state" where
  "execsnoop_user_1_main n os lib = do {
     err \<leftarrow> bump_memlock_rlimit lib;
     if err \<noteq> 0 then ret (Ended 1)
     else do {
       obj \<leftarrow> open_and_load lib;
       if \<not> obj then ret (Ended 1)
       else do {
         err \<leftarrow> attach_programs lib;
         if err \<noteq> 0 then ret (Ended err)
         else print_loop n PERF_BUFFER_PAGES os lib } } }"

text \<open>\<open>load_bpf_file\<close> opens, loads and attaches in one.\<close>

definition execsnoop_user_main :: "nat \<Rightarrow> 'k os \<Rightarrow> 'k bpf_lib \<Rightarrow> ('k world, snoop_end) state" where
  "execsnoop_user_main n os lib = do {
     loaded \<leftarrow> open_and_load lib;
     if \<not> loaded then ret (Ended 1) else print_loop n 8 os lib }"

subsection \<open>On bcc\<close>

text \<open>\<open>bcc_poll\<close> hands over the pids of the samples; what it returns is not looked at.\<close>

record 'k bcc_lib =
  bcc_init :: "'k \<Rightarrow> bool \<times> 'k"
  bcc_attach_kprobe :: "'k \<Rightarrow> bool \<times> 'k"
  bcc_open_perf_buffer :: "'k \<Rightarrow> bool \<times> 'k"
  bcc_free_memory :: "'k \<Rightarrow> bool \<times> 'k"
  bcc_poll :: "'k \<Rightarrow> cint list \<times> 'k"

text \<open>
  The kernel's half.  At the entry of the system call, a probe that is never attached: it would report
  every call; at the return, the pid of a call that returned 0.
\<close>

definition syscall_execve :: "task \<Rightarrow> cint list" where
  "syscall_execve t = [t_pid t]"

definition ret_syscall_execve :: "task \<Rightarrow> cint \<Rightarrow> cint list" where
  "ret_syscall_execve t retval = (if retval = 0 then [t_pid t] else [])"

definition bcc_handle_events :: "(cint \<Rightarrow> ('k world, cint res) state) option \<Rightarrow> cint \<Rightarrow> ('k world, unit res) state" where
  "bcc_handle_events callback pid = (case callback of
       None \<Rightarrow> ret (Inr ())
     | Some cb \<Rightarrow> bindE (cb pid) (\<lambda>_. ret (Inr ())))"

fun bcc_loop :: "nat \<Rightarrow> 'k bcc_lib \<Rightarrow> (cint \<Rightarrow> ('k world, cint res) state) option \<Rightarrow> ('k world, snoop_end) state" where
  "bcc_loop 0 lib callback = ret Polling"
| "bcc_loop (Suc n) lib callback = do {
     pids \<leftarrow> os_call (bcc_poll lib) (\<lambda>_. []);
     r \<leftarrow> for_each (bcc_handle_events callback) pids;
     case r of Inl e \<Rightarrow> ret (Snoop_uncaught e) | Inr _ \<Rightarrow> bcc_loop n lib callback }"

definition bcc_execsnoop :: "nat \<Rightarrow> 'k bcc_lib \<Rightarrow> (cint \<Rightarrow> ('k world, cint res) state) option \<Rightarrow>
    ('k world, snoop_end) state" where
  "bcc_execsnoop n lib callback = do {
     ok \<leftarrow> os_call (bcc_init lib) (\<lambda>_. []);
     if \<not> ok then ret (Ended 1)
     else do {
       ok \<leftarrow> os_call (bcc_attach_kprobe lib) (\<lambda>_. []);
       if \<not> ok then ret (Ended 1)
       else do {
         ok \<leftarrow> os_call (bcc_open_perf_buffer lib) (\<lambda>_. []);
         if \<not> ok then ret (Ended 1)
         else do {
           failed \<leftarrow> os_call (bcc_free_memory lib) (\<lambda>_. []);
           if failed then ret (Ended 1)
           else do {
             set_ready ''execsnoop'';
             bcc_loop n lib callback } } } } }"

definition bcc_startThread :: "nat \<Rightarrow> 'k bcc_lib \<Rightarrow> (cint \<Rightarrow> ('k world, cint res) state) \<Rightarrow>
    ('k world, snoop_end) state" where
  "bcc_startThread n lib c = bcc_execsnoop n lib (Some c)"

subsection \<open>What the thread does\<close>

text \<open>The loop of polls ends with the first negative answer, and with that.\<close>

definition poll_failed :: "'k bpf_lib \<Rightarrow> cint \<Rightarrow> bool" where
  "poll_failed lib err = (sint err < 0 \<and> (\<exists>w0 events w1. run_state (perf_buffer_poll lib) w0 = ((events, err), w1)))"

lemma poll_while_error:
  "fst (run_state (poll_while n lib cb) w) = Poll_error err \<Longrightarrow> poll_failed lib err"
proof (induction n arbitrary: w)
  case (Suc n)
  obtain events e w1 where poll: "run_state (perf_buffer_poll lib) w = ((events, e), w1)" by (metis prod.exhaust)
  obtain r w2 where "run_state (for_each cb events) w1 = (r, w2)" by fastforce
  with Suc poll show ?case
    unfolding poll_failed_def by (cases r) (auto split: if_splits)
qed simp

text \<open>
  C36. A poll interrupted by a signal, as by suspending the machine, does not end the thread: once the programs are
  attached it ends in two ways only.  Either a buffer cannot be had, the failed call for it is the last thing done, and
  the status is 1; or a poll fails with another error, that is the status, and the last it does is to interrupt its
  process group, so that the daemon cleans up.
\<close>

theorem interrupted_poll_resumes:
  assumes "run_state (main_loop m n os lib callback notified) w = (Ended err, w')"
  shows "(err = 1 \<and> (\<exists>e w0. run_state (perf_buffer_new lib PERF_BUFFER_PAGES) w0 = (e, w') \<and> e \<noteq> 0)) \<or>
    (poll_failed lib err \<and> err \<noteq> - EINTR \<and> (\<exists>es. trace w' = es @ [Kill 0 SIGINT]))"
  using assms
proof (induction m arbitrary: notified w)
  case 0
  then show ?case by simp
next
  case (Suc m)
  obtain e1 w1 where 1: "run_state (perf_buffer_new lib PERF_BUFFER_PAGES) w = (e1, w1)" by fastforce
  show ?case
  proof (cases "e1 = 0")
    case False
    with 1 Suc.prems show ?thesis by auto
  next
    case True
    obtain w2 where 2: "run_state (if \<not> notified then set_ready ''execsnoop'' else ret ()) w1 = ((), w2)" by (meson run_unit)
    obtain r w3 where 3: "run_state (poll_while n lib (handle_event callback)) w2 = (r, w3)" by fastforce
    show ?thesis
    proof (cases r)
      case (Poll_error e)
      then have neg: "poll_failed lib e" using poll_while_error 3 by (metis fst_conv)
      obtain w4 where 4: "run_state (perf_buffer_free lib) w3 = ((), w4)" by (meson run_unit)
      show ?thesis
      proof (cases "e = - EINTR")
        case interrupted: True
        then have "run_state (main_loop m n os lib callback True) w4 = (Ended err, w')"
          using Suc.prems 1 True 2 3 4 Poll_error by simp
        then show ?thesis by (rule Suc.IH)
      next
        case False
        then have "run_state (seq (kill os 0 SIGINT) (\<lambda>_. ret (Ended e))) w4 = (Ended err, w')"
          using Suc.prems 1 True 2 3 4 Poll_error by simp
        then have "err = e" "\<exists>es. trace w' = es @ [Kill 0 SIGINT]"
          by (auto simp: kill_def)
        with False neg show ?thesis by simp
      qed
    qed (use Suc.prems 1 True 2 3 in simp_all)
  qed
qed

text \<open>
  A library on which everything works; the inbox of the sample kernel is its script: \<open>i\<close> is an
  interrupted poll, any other character a poll that delivers an \<open>execve\<close> of process 42, and the end
  of the inbox an error.
\<close>

definition sample_lib :: "sample bpf_lib" where
  "sample_lib = \<lparr>
     lib_setrlimit = (\<lambda>k. (0, k)),
     lib_open_and_load = (\<lambda>k. (True, k)),
     lib_attach = (\<lambda>k. (0, k)),
     lib_buffer_new = (\<lambda>n k. (0, k)),
     lib_poll = (\<lambda>k. case s_inbox k of
         [] \<Rightarrow> (([], - 1), k)
       | c # cs \<Rightarrow> ((if c = CHR ''i'' then ([], - EINTR) else ([empty_event\<lparr>ev_pid := 42\<rparr>], 1)),
                    k\<lparr>s_inbox := cs\<rparr>)),
     lib_buffer_free = (\<lambda>k. k) \<rparr>"

lemma sample_lib_simps [simp]:
  "lib_setrlimit sample_lib k = (0, k)" "lib_open_and_load sample_lib k = (True, k)"
  "lib_attach sample_lib k = (0, k)" "lib_buffer_new sample_lib n k = (0, k)"
  "lib_poll sample_lib k = (case s_inbox k of
         [] \<Rightarrow> (([], - 1), k)
       | c # cs \<Rightarrow> ((if c = CHR ''i'' then ([], - EINTR) else ([empty_event\<lparr>ev_pid := 42\<rparr>], 1)),
                    k\<lparr>s_inbox := cs\<rparr>))"
  "lib_buffer_free sample_lib k = k"
  by (simp_all add: sample_lib_def)

theorem interrupted_poll_resumes_witness:
  "\<exists>w'. run_state (main_loop (Suc (Suc 0)) (Suc (Suc 0)) sample_os sample_lib None False)
      (sample_world\<lparr>kern := sample_kern\<lparr>s_inbox := ''+i''\<rparr>\<rparr>) = (Ended (- 1), w') \<and>
    (\<exists>es. trace w' = es @ [Kill 0 SIGINT])"
proof -
  let ?w = "sample_world\<lparr>kern := sample_kern\<lparr>s_inbox := ''+i''\<rparr>\<rparr>"
  obtain r w' where run: "run_state (main_loop (Suc (Suc 0)) (Suc (Suc 0)) sample_os sample_lib None False) ?w = (r, w')" by fastforce
  then have r: "r = Ended (- 1)"
    by (simp add: lib_defs set_ready_def kill_def handle_event_def run_state_bindE EINTR_def
        split: prod.splits)
  have "(- 1 :: cint) \<noteq> 1" by simp
  with interrupted_poll_resumes [OF run [unfolded r]] run r show ?thesis by auto
qed

subsection \<open>The callback's contract\<close>

text \<open>
  What the thread needs of its callback to keep its own promise: that the callback's calls are
  among the \<open>allowed\<close>, and that none of these is to report the thread ready.
\<close>

definition is_ready :: "event \<Rightarrow> bool" where
  "is_ready e = (case e of Set_ready n \<Rightarrow> True | _ \<Rightarrow> False)"

lemma is_ready_simps [simp]: "is_ready (Set_ready n)" "\<not> is_ready (Kill pid sig)"
  by (simp_all add: is_ready_def)

locale snoop_callback =
  fixes cb :: "cint \<Rightarrow> ('k world, cint res) state" and allowed :: "event \<Rightarrow> bool"
  assumes cb_emits: "emits allowed (cb pid)"
    and not_ready: "allowed e \<Longrightarrow> \<not> is_ready e"
begin

definition snoops :: "event \<Rightarrow> bool" where
  "snoops e = (allowed e \<or> e = Set_ready ''execsnoop'' \<or> e = Kill 0 SIGINT)"

lemma emits_handle_event: "emits allowed (handle_event (Some cb) e)"
  unfolding handle_event_def by (auto intro!: cb_emits)

lemma emits_poll_while: "emits allowed (poll_while n lib (handle_event (Some cb)))"
  by (induction n) (auto intro!: emits_for_each emits_handle_event split: sum.splits prod.splits)

lemma emits_main_loop: "emits snoops (main_loop m n os lib (Some cb) notified)"
proof (induction m arbitrary: notified)
  case (Suc m)
  have "emits snoops (poll_while n lib (handle_event (Some cb)))"
    by (rule emits_mono [OF emits_poll_while]) (simp add: snoops_def)
  moreover have "snoops (Set_ready ''execsnoop'')" "snoops (Kill 0 SIGINT)" by (simp_all add: snoops_def)
  ultimately show ?case using Suc
    by (auto intro!: emits_set_ready emits_kill split: polled.splits)
qed auto

lemma emits_startThread: "emits snoops (startThread m n os lib cb)"
  unfolding startThread_def execsnoop_def by (auto intro!: emits_main_loop)

text \<open>The promise is kept at most once, also when the buffer is set up again.\<close>

lemma ready_main_loop:
  "length (filter is_ready (trace (snd (run_state (main_loop m n os lib (Some cb) notified) w))))
     \<le> length (filter is_ready (trace w)) + (if notified then 0 else 1)"
proof (induction m arbitrary: notified w)
  case 0
  then show ?case by simp
next
  case (Suc m)
  let ?ready = "\<lambda>w. length (filter is_ready (trace w))"
  obtain e1 w1 where 1: "run_state (perf_buffer_new lib PERF_BUFFER_PAGES) w = (e1, w1)" by fastforce
  then have t1: "trace w1 = trace w" by (auto simp: lib_defs split: prod.splits)
  obtain w2 where 2: "run_state (if \<not> notified then set_ready ''execsnoop'' else ret ()) w1 = ((), w2)"
    by (meson run_unit)
  then have t2: "?ready w2 = ?ready w + (if notified then 0 else 1)"
    using t1 by (auto simp: set_ready_def split: if_splits)
  obtain r w3 where 3: "run_state (poll_while n lib (handle_event (Some cb))) w2 = (r, w3)" by fastforce
  have t3: "?ready w3 = ?ready w2"
    using emits_filter [OF emits_poll_while, of is_ready n lib w2] not_ready 3 by auto
  obtain w4 where 4: "run_state (perf_buffer_free lib) w3 = ((), w4)" by (meson run_unit)
  then have t4: "trace w4 = trace w3" by (auto simp: lib_defs)
  have loop: "?ready (snd (run_state (main_loop m n os lib (Some cb) True) w4)) \<le> ?ready w2"
    using Suc.IH [of True w4] t3 t4 by simp
  show ?case
  proof (cases "e1 = 0")
    case False
    then show ?thesis using 1 t1 by simp
  next
    case True
    then show ?thesis
      using loop t3 by (cases r) (simp_all add: 1 2 3 4 t2 t4 kill_def split: if_splits)
  qed
qed

lemma ready_startThread:
  assumes "filter is_ready (trace w) = []"
  shows "length (filter is_ready (trace (snd (run_state (startThread m n os lib cb) w)))) \<le> 1"
proof -
  obtain e1 w1 where 1: "run_state (bump_memlock_rlimit lib) w = (e1, w1)" by fastforce
  obtain e2 w2 where 2: "run_state (open_and_load lib) w1 = (e2, w2)" by fastforce
  obtain e3 w3 where 3: "run_state (attach_programs lib) w2 = (e3, w3)" by fastforce
  have t: "trace w1 = trace w" "trace w2 = trace w" "trace w3 = trace w"
    using 1 2 3 by (auto simp: lib_defs split: prod.splits)
  show ?thesis
    using ready_main_loop [of m n os lib False w3] assms
    by (simp add: startThread_def execsnoop_def 1 2 3 t)
qed

end

end
