(* ===== verification/Lifecycle.thy ===== *)
theory Lifecycle
  imports Daemon Client Execsnoop_User
begin

text \<open>
  The daemon's life, from \<open>main\<close> to its end (\<open>src/cgproxyd.hpp\<close>, \<open>src/main.cpp\<close>): the command
  line, the lock file, the start, the clean-up, and the static functions the threads call.

  The lemmas say in which order things happen: nothing before the lock is held; the clean-up on every
  way out but one, the exception that an unreadable configuration file throws.
\<close>

definition PID_LOCK_FILE :: string where
  "PID_LOCK_FILE = ''/var/run/cgproxyd.pid''"

subsection \<open>Lock and clean-up\<close>

text \<open>\<open>False\<close> is \<open>exit (EXIT_FAILURE)\<close>.  A file that does not open has no lock either.\<close>

definition lock :: "'k os \<Rightarrow> ('k world, bool) state" where
  "lock os = do {
     rc \<leftarrow> flock_file os PID_LOCK_FILE;
     if \<not> rc then ret False
     else do {
       pid \<leftarrow> getpid os;
       write_file os PID_LOCK_FILE (to_str_int pid @ [CHR 0x0A]);
       ret True } }"

definition unlock :: "'k os \<Rightarrow> ('k world, unit) state" where
  "unlock os = do {
     close_lock os PID_LOCK_FILE;
     unlink_file os PID_LOCK_FILE;
     ret () }"

definition stop :: "install \<Rightarrow> 'k os \<Rightarrow> ('k world, unit) state" where
  "stop inst os = do {
     system_cmd os (TPROXY_IPTABLS_CLEAN inst);
     unlock os }"

subsection \<open>The static functions\<close>

text \<open>\<open>None\<close> is the null \<open>instance\<close>; a daemon is its configuration object.\<close>

definition handle_msg_static ::
  "install \<Rightarrow> nlohmann \<Rightarrow> 'k os \<Rightarrow> string \<Rightarrow> config option \<Rightarrow> ('k world, config option \<times> cint res) state" where
  "handle_msg_static inst js os msg instance = (case instance of
       None \<Rightarrow> ret (None, Inr ERROR)
     | Some c \<Rightarrow> do { (c1, r) \<leftarrow> handle_msg inst js os msg c; ret (Some c1, r) })"

definition handle_pid_static :: "'k os \<Rightarrow> config option \<Rightarrow> cint \<Rightarrow> ('k world, cint res) state" where
  "handle_pid_static os instance pid = (case instance of
       None \<Rightarrow> ret (Inr ERROR)
     | Some c \<Rightarrow> handle_pid os c pid)"

definition signalHandler :: "install \<Rightarrow> 'k os \<Rightarrow> config option \<Rightarrow> ('k world, ended) state" where
  "signalHandler inst os instance = do {
     (case instance of None \<Rightarrow> ret () | Some c \<Rightarrow> stop inst os);
     ret (Exit 0) }"

subsection \<open>Start\<close>

text \<open>\<open>start\<close> up to the threads: the loaded object, or how it ended.\<close>

definition start_locked :: "install \<Rightarrow> nlohmann \<Rightarrow> 'k os \<Rightarrow> ('k world, ended + config) state" where
  "start_locked inst js os = do {
     (c, r) \<leftarrow> loadFromFile js os (DEFAULT_CONFIG_FILE inst) default_config;
     case r of
       Inl e \<Rightarrow> ret (Inl (Abort e))
     | Inr status \<Rightarrow>
         if status \<noteq> SUCCESS then ret (Inl (Return (- 1)))
         else do { applyConfig inst os c; ret (Inr c) } }"

definition start :: "install \<Rightarrow> nlohmann \<Rightarrow> 'k os \<Rightarrow> ('k world, ended + config) state" where
  "start inst js os = do {
     locked \<leftarrow> lock os;
     if \<not> locked then ret (Inl (Exit EXIT_FAILURE)) else start_locked inst js os }"

subsection \<open>The threads\<close>

text \<open>
  Whether \<open>dlopen\<close> and \<open>dlsym\<close> find the library and the function, and whether the thread has kept its
  promise within \<open>THREAD_TIMEOUT\<close> seconds.
\<close>

record 'k threads =
  dl_open :: "'k \<Rightarrow> bool \<times> 'k"
  dl_sym :: "'k \<Rightarrow> bool \<times> 'k"
  socket_ready :: "nat \<Rightarrow> 'k \<Rightarrow> bool \<times> 'k"
  execsnoop_ready :: "nat \<Rightarrow> 'k \<Rightarrow> bool \<times> 'k"

definition THREAD_TIMEOUT :: nat where
  "THREAD_TIMEOUT = 5"

definition loadExecsnoopLib :: "'k threads \<Rightarrow> ('k world, bool) state" where
  "loadExecsnoopLib th = do {
     handle_dl \<leftarrow> os_call (dl_open th) (\<lambda>_. []);
     if \<not> handle_dl then ret False
     else do {
       f \<leftarrow> os_call (dl_sym th) (\<lambda>_. []);
       ret (if \<not> f then False else True) } }"

text \<open>Both outcomes of the wait are only reported.\<close>

definition startSocketListeningThread :: "'k threads \<Rightarrow> ('k world, unit) state" where
  "startSocketListeningThread th = do {
     fstatus \<leftarrow> os_call (socket_ready th THREAD_TIMEOUT) (\<lambda>_. []);
     ret () }"

definition startExecsnoopThread :: "'k threads \<Rightarrow> 'k os \<Rightarrow> config \<Rightarrow> ('k world, unit res) state" where
  "startExecsnoopThread th os c = do {
     loaded \<leftarrow> loadExecsnoopLib th;
     if \<not> loaded then ret (Inr ())
     else do {
       fstatus \<leftarrow> os_call (execsnoop_ready th THREAD_TIMEOUT) (\<lambda>_. []);
       if fstatus then processRunningProgram os c else ret (Inr ()) } }"

subsection \<open>The command line\<close>

record daemon_args =
  da_help :: bool
  da_debug :: bool
  da_execsnoop :: bool

definition daemon_flags :: "string \<Rightarrow> daemon_args \<Rightarrow> daemon_args" where
  "daemon_flags arg =
     (if arg = ''--execsnoop'' then da_execsnoop_update (\<lambda>_. True) else id) \<circ>
     (if arg = ''--help'' then da_help_update (\<lambda>_. True) else id) \<circ>
     (if arg = ''--debug'' then da_debug_update (\<lambda>_. True) else id)"

fun daemon_processArgs :: "string list \<Rightarrow> daemon_args \<Rightarrow> daemon_args" where
  "daemon_processArgs [] a = a"
| "daemon_processArgs (arg # args) a =
     (let a = daemon_flags arg a in if not_option arg then a else daemon_processArgs args a)"

definition daemon_args0 :: daemon_args where
  "daemon_args0 = \<lparr>da_help = False, da_debug = False, da_execsnoop = False\<rparr>"

text \<open>
  \<open>main\<close>: where \<open>start\<close> returns, the destructor of the local object runs \<open>stop\<close>; \<open>exit\<close> and an
  exception nobody catches do not unwind to it.  \<open>Inr\<close> is the daemon as it goes to start its threads.
\<close>

definition daemon_main :: "install \<Rightarrow> nlohmann \<Rightarrow> 'k os \<Rightarrow> string list \<Rightarrow> ('k world, ended + config) state" where
  "daemon_main inst js os argv =
     (if da_help (daemon_processArgs (tl argv) daemon_args0) then ret (Inl (Exit 0))
      else do {
        uid \<leftarrow> getuid os;
        if uid \<noteq> 0 then ret (Inl (Exit EXIT_FAILURE))
        else do {
          r \<leftarrow> start inst js os;
          (case r of Inl (Return s) \<Rightarrow> stop inst os | _ \<Rightarrow> ret ());
          ret r } })"

text \<open>What \<open>start\<close> does after \<open>applyConfig\<close>, to the point where it waits for the threads.\<close>

definition start_threads :: "'k threads \<Rightarrow> 'k os \<Rightarrow> daemon_args \<Rightarrow> config \<Rightarrow> ('k world, unit res) state" where
  "start_threads th os a c = do {
     startSocketListeningThread th;
     if da_execsnoop a then startExecsnoopThread th os c else ret (Inr ()) }"

text \<open>The program: one of the two mains, and its own status, which is 0 when the other returns.\<close>

fun as_cgproxyd :: "string list \<Rightarrow> bool" where
  "as_cgproxyd [] = False"
| "as_cgproxyd (arg # args) = (arg = ''--daemon'' \<or> (\<not> not_option arg \<and> as_cgproxyd args))"

fun exit_status :: "ended \<Rightarrow> cint option" where
  "exit_status (Exit status) = Some status"
| "exit_status (Return status) = Some 0"
| "exit_status (Abort e) = None"

definition program_main :: "install \<Rightarrow> nlohmann \<Rightarrow> 'k os \<Rightarrow> 'k net \<Rightarrow> string list \<Rightarrow>
    ('k world, cint option + config) state" where
  "program_main inst js os net argv =
     (if as_cgproxyd (tl argv) then do {
        r \<leftarrow> daemon_main inst js os argv;
        ret (case r of Inl e \<Rightarrow> Inl (exit_status e) | Inr c \<Rightarrow> Inr c) }
      else do {
        e \<leftarrow> cgproxy_main js os net argv;
        ret (Inl (exit_status e)) })"

subsection \<open>The execsnoop thread of the daemon\<close>

lemma emits_handle_pid_static: "emits moves_pid (handle_pid_static os instance pid)"
  unfolding handle_pid_static_def by (auto intro!: emits_handle_pid split: option.splits)

lemma moves_not_ready: "moves_pid e \<Longrightarrow> \<not> is_ready e"
  by (cases e) (auto simp: moves_pid_def touches_def is_ready_def)

interpretation daemon_snoop: snoop_callback "handle_pid_static os instance" moves_pid
  by unfold_locales (auto intro!: emits_handle_pid_static moves_not_ready)

text \<open>
  The execsnoop thread of the daemon, whatever the library delivers and however often it is
  interrupted: it does nothing but move processes into the two built-in cgroups, report itself
  ready, and interrupt the process group at its end; and it reports itself ready at most once, so that
  the promise is not set twice.
\<close>

theorem snoop_thread_confined:
  assumes "filter is_ready (trace w) = []"
    and "run_state (startThread m n os lib (handle_pid_static os instance)) w = (r, w')"
  shows "\<exists>es. trace w' = trace w @ es \<and> length (filter is_ready es) \<le> 1 \<and>
    list_all (\<lambda>e. moves_pid e \<or> e = Set_ready ''execsnoop'' \<or> e = Kill 0 SIGINT) es"
proof -
  obtain es where es: "trace w' = trace w @ es"
      "list_all (\<lambda>e. moves_pid e \<or> e = Set_ready ''execsnoop'' \<or> e = Kill 0 SIGINT) es"
    using emitsD [OF daemon_snoop.emits_startThread assms(2)]
    unfolding daemon_snoop.snoops_def by blast
  moreover have "length (filter is_ready es) \<le> 1"
    using daemon_snoop.ready_startThread [OF assms(1), of m n os lib os "instance"] assms(2) es(1)
      assms(1) by simp
  ultimately show ?thesis by blast
qed

theorem snoop_thread_confined_witness:
  "\<exists>w' es. run_state (startThread (Suc 0) (Suc 0) sample_os sample_lib (handle_pid_static sample_os None))
      sample_world = (Ended (- 1), w') \<and> trace w' = es \<and> length (filter is_ready es) \<le> 1"
proof -
  obtain r w' where run: "run_state (startThread (Suc 0) (Suc 0) sample_os sample_lib (handle_pid_static sample_os None)) sample_world = (r, w')"
    by fastforce
  then have "r = Ended (- 1)"
    by (simp add: startThread_def execsnoop_def lib_defs set_ready_def kill_def EINTR_def sample_kern_def
        sample_world_def split: prod.splits)
  moreover have "filter is_ready (trace sample_world) = []" by simp
  from snoop_thread_confined [OF this run] have "length (filter is_ready (trace w')) \<le> 1" by auto
  ultimately show ?thesis using run by blast
qed

subsection \<open>Nothing before the lock\<close>

definition locked_run :: "event list \<Rightarrow> ended + config \<Rightarrow> bool" where
  "locked_run es r = (es = [] \<or> (es = [Lock_file PID_LOCK_FILE False] \<and> r = Inl (Exit EXIT_FAILURE)) \<or>
     (\<exists>es'. es = Lock_file PID_LOCK_FILE True # es'))"

lemma emits_applyConfig: "emits (\<lambda>_. True) (applyConfig inst os c)"
proof -
  have "emits (\<lambda>_. True) (setenv_all nvs)" for nvs
    by (induction nvs rule: setenv_all.induct) (auto intro!: emits_setenv)
  then show ?thesis unfolding applyConfig_def toEnv_def by (auto intro!: emits_system)
qed

lemma emits_start_locked: "emits (\<lambda>_. True) (start_locked inst js os)"
  unfolding start_locked_def
  by (auto intro!: emits_applyConfig emits_mono [OF json_file.load_emits] split: sum.splits)

lemma emits_stop: "emits (\<lambda>_. True) (stop inst os)"
  unfolding stop_def unlock_def by (auto intro!: emits_rules)

lemma lock_trace:
  assumes "run_state (lock os) w = (ok, w')"
  shows "if ok then \<exists>d. trace w' = trace w @ [Lock_file PID_LOCK_FILE True, Write_file PID_LOCK_FILE d]
    else trace w' = trace w @ [Lock_file PID_LOCK_FILE False]"
  using assms
  by (auto simp: lock_def flock_file_def getpid_def write_file_def PID_LOCK_FILE_def
      split: prod.splits if_splits)

lemma start_in_order:
  assumes "run_state (start inst js os) w = (r, w')"
  shows "\<exists>es. trace w' = trace w @ es \<and> es \<noteq> [] \<and> locked_run es r"
proof -
  obtain ok w1 where lock: "run_state (lock os) w = (ok, w1)" by fastforce
  note tr = lock_trace [OF lock]
  show ?thesis
  proof (cases ok)
    case False
    with assms lock tr show ?thesis by (auto simp: start_def locked_run_def)
  next
    case True
    then have "run_state (start_locked inst js os) w1 = (r, w')"
      using assms lock by (simp add: start_def)
    from emitsD [OF emits_start_locked this] True tr show ?thesis
      by (auto simp: locked_run_def)
  qed
qed

text \<open>
  C28. One daemon at a time: whatever the arguments, the first thing \<open>main\<close> does to the
  outside is to take the lock; where another process holds it, that is also the last, the exit
  status says failure, and no rule, variable, file or configuration has been touched.
\<close>

theorem nothing_before_lock:
  assumes "run_state (daemon_main inst js os argv) w = (r, w')"
  shows "\<exists>es. trace w' = trace w @ es \<and> locked_run es r"
proof -
  obtain uid w1 where uid: "run_state (getuid os) w = (uid, w1)" by fastforce
  then have t1: "trace w1 = trace w" by (auto simp: getuid_def split: prod.splits)
  obtain r2 w2 where start: "run_state (start inst js os) w1 = (r2, w2)" by fastforce
  obtain es where es: "trace w2 = trace w @ es" "es \<noteq> []" "locked_run es r2"
    using start_in_order [OF start] t1 by auto
  show ?thesis
  proof (cases "da_help (daemon_processArgs (tl argv) daemon_args0) \<or> uid \<noteq> 0")
    case True
    with assms uid t1 have "trace w' = trace w @ []" by (auto simp: daemon_main_def split: if_splits)
    then show ?thesis unfolding locked_run_def by blast
  next
    case False
    then have run: "run_state (seq (case r2 of Inl (Return s) \<Rightarrow> stop inst os | _ \<Rightarrow> ret ()) (\<lambda>_. ret r2)) w2 = (r, w')"
      using assms uid start by (simp add: daemon_main_def)
    then have r: "r = r2" by (auto split: prod.splits)
    have "emits (\<lambda>_. True) (seq (case r2 of Inl (Return s) \<Rightarrow> stop inst os | _ \<Rightarrow> ret ()) (\<lambda>_. ret r2))"
      by (auto intro!: emits_stop split: sum.splits ended.splits)
    from emitsD [OF this run] obtain es2 where es2: "trace w' = trace w2 @ es2" by blast
    show ?thesis
    proof (cases "\<exists>s. r2 = Inl (Return s)")
      case True
      then obtain es' where "es = Lock_file PID_LOCK_FILE True # es'" using es(2,3) by (auto simp: locked_run_def)
      then have "trace w' = trace w @ (es @ es2)" "locked_run (es @ es2) r"
        using es(1) es2 by (simp_all add: locked_run_def)
      then show ?thesis by blast
    next
      case False
      then have "w' = w2" using run by (auto split: sum.splits ended.splits)
      with es r show ?thesis by blast
    qed
  qed
qed

text \<open>On the sample kernel there is no configuration file.\<close>

lemma sample_start:
  "fst (run_state (daemon_main sample_inst (sample_js JNull) sample_os [''cgproxyd'']) sample_world) = Inl (Return (- 1))"
  by code_simp

lemma sample_start_trace:
  "trace (snd (run_state (daemon_main sample_inst (sample_js JNull) sample_os [''cgproxyd'']) sample_world)) \<noteq> []"
  by code_simp

theorem nothing_before_lock_witness:
  "\<exists>es. trace (snd (run_state (daemon_main sample_inst (sample_js JNull) sample_os [''cgproxyd'']) sample_world)) = es
    \<and> hd es = Lock_file PID_LOCK_FILE True"
proof -
  obtain r w' where run: "run_state (daemon_main sample_inst (sample_js JNull) sample_os [''cgproxyd'']) sample_world = (r, w')"
    by fastforce
  have "fst (run_state (daemon_main sample_inst (sample_js JNull) sample_os [''cgproxyd'']) sample_world)
      = Inl (Return (- 1))"
    by (rule sample_start)
  moreover have "trace w' \<noteq> []"
    using run sample_start_trace by auto
  ultimately have "trace w' \<noteq> [] \<and> r \<noteq> Inl (Exit EXIT_FAILURE)" using run by simp
  with nothing_before_lock [OF run] run show ?thesis
    by (auto simp: locked_run_def)
qed

text \<open>A start by root, past the command line.\<close>

lemma daemon_main_started:
  assumes "fst (os_getuid os (kern w)) = 0"
    and "\<not> da_help (daemon_processArgs (tl argv) daemon_args0)"
    and "run_state (daemon_main inst js os argv) w = (r, w')"
  obtains w1 w2 where "trace w1 = trace w" "environ w1 = environ w"
    "run_state (start inst js os) w1 = (r, w2)"
    "run_state (case r of Inl (Return s) \<Rightarrow> stop inst os | _ \<Rightarrow> ret ()) w2 = ((), w')"
proof -
  obtain uid w1 where uid: "run_state (getuid os) w = (uid, w1)" by fastforce
  then have 1: "uid = 0" "trace w1 = trace w" "environ w1 = environ w"
    using assms(1) by (auto simp: getuid_def split: prod.splits)
  obtain r2 w2 where start: "run_state (start inst js os) w1 = (r2, w2)" by fastforce
  obtain w3 where 3: "run_state (case r2 of Inl (Return s) \<Rightarrow> stop inst os | _ \<Rightarrow> ret ()) w2 = ((), w3)"
    by (meson run_unit)
  have "r = r2" "w' = w3" using assms(2,3) uid 1(1) start 3 by (simp_all add: daemon_main_def)
  with 1 start 3 that show ?thesis by blast
qed

lemma keeps_environ_lock: "keeps (\<lambda>w. environ w = env) (lock os)"
  unfolding lock_def by auto

text \<open>The start of one that gets the lock.\<close>

lemma start_with_lock:
  assumes "run_state (start inst js os) w = (r, w')" and "r \<noteq> Inl (Exit EXIT_FAILURE)"
  obtains d w1 where "trace w1 = trace w @ [Lock_file PID_LOCK_FILE True, Write_file PID_LOCK_FILE d]"
    "environ w1 = environ w" "run_state (start_locked inst js os) w1 = (r, w')"
proof -
  obtain ok w1 where lock: "run_state (lock os) w = (ok, w1)" by fastforce
  then have "ok" "run_state (start_locked inst js os) w1 = (r, w')"
    using assms by (auto simp: start_def split: if_splits)
  moreover from this lock_trace [OF lock] obtain d where
    "trace w1 = trace w @ [Lock_file PID_LOCK_FILE True, Write_file PID_LOCK_FILE d]" by auto
  moreover have "environ w1 = environ w" by (rule keepsD [OF keeps_environ_lock refl lock])
  ultimately show ?thesis using that by blast
qed

lemma lock_taken:
  assumes "\<forall>k. fst (os_flock os PID_LOCK_FILE k)"
  obtains w' where "run_state (lock os) w = (True, w')"
proof -
  obtain k1 where "os_flock os PID_LOCK_FILE (kern w) = (True, k1)"
    using assms by (metis prod.collapse)
  then have "fst (run_state (lock os) w)"
    by (simp add: lock_def flock_file_def split: prod.splits)
  with that show thesis by (metis prod.collapse)
qed

lemma run_stop:
  assumes "run_state (stop inst os) w = ((), w')"
  shows "environ w' = environ w \<and> trace w' = trace w @
    [System (c_str (TPROXY_IPTABLS_CLEAN inst)) (environ w), Close_lock PID_LOCK_FILE, Unlink PID_LOCK_FILE]"
  using assms
  by (auto simp: stop_def unlock_def close_lock_def unlink_file_def split: prod.splits)

text \<open>
  C29. Where root starts the daemon and the lock is free, a configuration file that cannot be read, or that validation
  refuses, ends it in order: \<open>main\<close> returns -1, and all that happens outside is that the lock is taken, the rules are
  cleaned under the variables as they were, the lock is released and its file removed.
\<close>

theorem refused_config_cleans_up:
  assumes "fst (os_getuid os (kern w)) = 0"
    and "\<not> da_help (daemon_processArgs (tl argv) daemon_args0)"
    and "\<forall>k. fst (os_flock os PID_LOCK_FILE k)"
    and "(\<forall>k. fst (os_read os (c_str (DEFAULT_CONFIG_FILE inst)) k) = None) \<or>
      (\<exists>text. (\<forall>k. fst (os_read os (c_str (DEFAULT_CONFIG_FILE inst)) k) = Some text) \<and> validateJsonStr js text = Inr False)"
    and "run_state (daemon_main inst js os argv) w = (r, w')"
  shows "r = Inl (Return (- 1)) \<and> environ w' = environ w \<and> (\<exists>d. trace w' = trace w @
      [Lock_file PID_LOCK_FILE True, Write_file PID_LOCK_FILE d,
       System (c_str (TPROXY_IPTABLS_CLEAN inst)) (environ w), Close_lock PID_LOCK_FILE, Unlink PID_LOCK_FILE])"
proof -
  from daemon_main_started [OF assms(1,2,5)] obtain w1 w2 where
    1: "trace w1 = trace w" "environ w1 = environ w" "run_state (start inst js os) w1 = (r, w2)"
    and stop: "run_state (case r of Inl (Return s) \<Rightarrow> stop inst os | _ \<Rightarrow> ret ()) w2 = ((), w')" .
  obtain w3 where lock: "run_state (lock os) w1 = (True, w3)" by (rule lock_taken [OF assms(3)])
  obtain content k4 where os: "os_read os (c_str (DEFAULT_CONFIG_FILE inst)) (kern w3) = (content, k4)" by fastforce
  then have refused: "content = None \<or> (\<exists>t. content = Some t \<and> validateJsonStr js t = Inr False)"
    using assms(4) by (metis fst_conv)
  obtain w4 where read: "run_state (read_file os (DEFAULT_CONFIG_FILE inst)) w3 = (content, w4)" "trace w4 = trace w3" "environ w4 = environ w3"
    using os by (simp add: read_file_def)
  have "\<exists>status. run_state (loadFromFile js os (DEFAULT_CONFIG_FILE inst) default_config) w3 = ((default_config, Inr status), w4) \<and> status \<noteq> SUCCESS"
    using refused read(1) by (auto simp: loadFromFile_def loadFromJsonStr_def status_defs)
  then have "r = Inl (Return (- 1))" "w2 = w4"
    using 1(3) by (auto simp: start_def lock start_locked_def)
  then show ?thesis
    using stop run_stop [of inst os w2 w'] lock_trace [OF lock] 1(1,2) read(2,3) keepsD [OF keeps_environ_lock refl lock] by auto
qed

text \<open>The sample kernel with nothing to read.\<close>

definition bare_os :: "sample os" where
  "bare_os = sample_os\<lparr>os_read := \<lambda>p k. (None, k)\<rparr>"

theorem refused_config_cleans_up_witness:
  "\<exists>d w'. run_state (daemon_main sample_inst (sample_js JNull) bare_os [''cgproxyd'']) sample_world = (Inl (Return (- 1)), w') \<and>
    trace w' = [Lock_file PID_LOCK_FILE True, Write_file PID_LOCK_FILE d,
      System ''/usr/share/cgproxy/scripts/cgroup-tproxy.sh stop'' Map.empty, Close_lock PID_LOCK_FILE, Unlink PID_LOCK_FILE]"
proof -
  obtain r w' where run: "run_state (daemon_main sample_inst (sample_js JNull) bare_os [''cgproxyd'']) sample_world = (r, w')" by fastforce
  have "\<not> da_help (daemon_processArgs (tl [''cgproxyd'']) daemon_args0)" by (simp add: daemon_args0_def)
  moreover have "fst (os_getuid bare_os (kern sample_world)) = 0" "\<forall>k. fst (os_flock bare_os PID_LOCK_FILE k)"
    "\<forall>k. fst (os_read bare_os (c_str (DEFAULT_CONFIG_FILE sample_inst)) k) = None"
    by (simp_all add: bare_os_def)
  ultimately show ?thesis
    using refused_config_cleans_up [OF _ _ _ _ run] run
    by (fastforce simp: TPROXY_IPTABLS_CLEAN_def sample_inst_def)
qed

text \<open>
  C40. Where the file is there but is no JSON, nobody catches what the parser throws: the daemon is
  stopped on the spot, the lock file stays, and nothing is cleaned.
\<close>

theorem malformed_config_aborts:
  assumes "fst (os_getuid os (kern w)) = 0"
    and "\<not> da_help (daemon_processArgs (tl argv) daemon_args0)"
    and "\<forall>k. fst (os_flock os PID_LOCK_FILE k)"
    and "\<forall>k. fst (os_read os (c_str (DEFAULT_CONFIG_FILE inst)) k) = Some text"
    and "js_parse js text = Inl (Throw e)"
    and "run_state (daemon_main inst js os argv) w = (r, w')"
  shows "r = Inl (Abort (Throw e)) \<and>
    (\<exists>d. trace w' = trace w @ [Lock_file PID_LOCK_FILE True, Write_file PID_LOCK_FILE d])"
proof -
  from daemon_main_started [OF assms(1,2,6)] obtain w1 w2 where
    1: "trace w1 = trace w" "run_state (start inst js os) w1 = (r, w2)"
    and stop: "run_state (case r of Inl (Return s) \<Rightarrow> stop inst os | _ \<Rightarrow> ret ()) w2 = ((), w')" .
  obtain w3 where lock: "run_state (lock os) w1 = (True, w3)" by (rule lock_taken [OF assms(3)])
  obtain k4 where "os_read os (c_str (DEFAULT_CONFIG_FILE inst)) (kern w3) = (Some text, k4)"
    using assms(4) by (metis prod.collapse)
  then obtain w4 where read: "run_state (read_file os (DEFAULT_CONFIG_FILE inst)) w3 = (Some text, w4)"
      "trace w4 = trace w3"
    by (simp add: read_file_def)
  have "run_state (loadFromFile js os (DEFAULT_CONFIG_FILE inst) default_config) w3
      = ((default_config, Inl (Throw e)), w4)"
    by (simp add: loadFromFile_def read(1) loadFromJsonStr_def validateJsonStr_def assms(5))
  then have "r = Inl (Abort (Throw e))" "w2 = w4"
    using 1(2) by (simp_all add: start_def lock start_locked_def)
  then show ?thesis using stop lock_trace [OF lock] 1(1) read(2) by auto
qed

definition broken_os :: "sample os" where
  "broken_os = sample_os\<lparr>os_read := \<lambda>p k. (Some ''{'', k)\<rparr>"

definition broken_js :: nlohmann where
  "broken_js = documented_js (\<lambda>_. Inl (Throw Json_parse_error)) (\<lambda>_. Inr []) (\<lambda>_. 0)"

theorem malformed_config_aborts_witness:
  "\<exists>d w'. run_state (daemon_main sample_inst broken_js broken_os [''cgproxyd'']) sample_world
      = (Inl (Abort (Throw Json_parse_error)), w') \<and>
    trace w' = [Lock_file PID_LOCK_FILE True, Write_file PID_LOCK_FILE d]"
proof -
  obtain r w' where run: "run_state (daemon_main sample_inst broken_js broken_os [''cgproxyd'']) sample_world = (r, w')"
    by fastforce
  have "\<not> da_help (daemon_processArgs (tl [''cgproxyd'']) daemon_args0)" by (simp add: daemon_args0_def)
  moreover have "fst (os_getuid broken_os (kern sample_world)) = 0"
    "\<forall>k. fst (os_flock broken_os PID_LOCK_FILE k)"
    "\<forall>k. fst (os_read broken_os (c_str (DEFAULT_CONFIG_FILE sample_inst)) k) = Some ''{''"
    "js_parse broken_js ''{'' = Inl (Throw Json_parse_error)"
    by (simp_all add: broken_os_def broken_js_def documented_js_def)
  ultimately show ?thesis using malformed_config_aborts [OF _ _ _ _ _ run] run by fastforce
qed

text \<open>The status of the command is lost: the two mains' values are dropped.\<close>

lemma command_status_lost:
  assumes "\<not> as_cgproxyd (tl argv)" and "run_state (cgproxy_main js os net argv) w = (Return s, w')"
  shows "run_state (program_main inst js os net argv) w = (Inl (Some 0), w')"
  using assms by (simp add: program_main_def)

end
