(* ===== verification/Threads_Code.thy ===== *)
theory Threads_Code
  imports Process Lifecycle
begin

text \<open>
  The functions of the daemon's threads once more, one action per call of the operating system and per
  access to the configuration object, which the sequential model takes as a value: \<open>attach\<close> and its
  helpers, \<open>handle_pid\<close>, \<open>processRunningProgram\<close>, the loading and applying of a configuration,
  \<open>handle_msg\<close> with the answer sent back, and \<open>stop\<close>.  The lemmas \<open>agrees_\<dots>\<close> and
  \<open>follows_\<dots>\<close> say that, run alone, a process does what the sequential model says.
  \<open>print_summary\<close> only prints and is not an action.
\<close>

subsection \<open>Queries and attaching\<close>

definition t_getCgroup :: "'k os \<Rightarrow> string \<Rightarrow> ('k shared, string res) process" where
  "t_getCgroup os pid = andthen (call Apart (fileExist os (''/proc/'' @ pid @ ''/cgroup''))) (\<lambda>b.
     if \<not> b then Done (Inr [])
     else andthen (call Apart (read_file os (''/proc/'' @ pid @ ''/cgroup''))) (\<lambda>ifs.
       case ifs of None \<Rightarrow> Done (Inr []) | Some content \<Rightarrow> Done (cgroup_line (getlines content))))"

definition t_attach :: "'k os \<Rightarrow> string \<Rightarrow> string \<Rightarrow> ('k shared, cint res) process" where
  "t_attach os pid cgroup_target = andthen (call Apart (getuid os)) (\<lambda>uid.
     if uid \<noteq> 0 then Done (Inr (- 1))
     else if \<not> validate pid cgroup_target then Done (Inr (- 1))
     else if cgroup2_mount_point = [] then Done (Inr (- 1))
     else (let cgroup_target_path = cgroup2_mount_point @ cgroup_target;
               cgroup_target_procs = cgroup_target_path @ ''/cgroup.procs'' in
       andthen (call Apart (dirExist os cgroup_target_path)) (\<lambda>exists.
       andthen (if \<not> exists then call Apart (mkdir os cgroup_target_path) else Done True) (\<lambda>created.
       if \<not> created then Done (Inr (- 1))
       else andthenE (t_getCgroup os pid) (\<lambda>cg.
         if cg = [] then Done (Inr 0)
         else if cg = cgroup_target then Done (Inr 0)
         else andthen (call Apart (write2procs os pid cgroup_target_procs)) (\<lambda>res.
           if res \<noteq> 0 then Done (Inr (- 1))
           else andthen (call Apart (sleep_ms os 100)) (\<lambda>_.
             andthenE (t_getCgroup os pid) (\<lambda>cg.
               if cg = [] then Done (Inr 0)
               else if cg \<noteq> cgroup_target then
                 andthen (call Apart (write2procs os pid cgroup_target_procs)) (\<lambda>res.
                   Done (Inr (if res \<noteq> 0 then - 1 else 0)))
               else Done (Inr 0)))))))))"

definition t_attach_pid :: "'k os \<Rightarrow> cint \<Rightarrow> string \<Rightarrow> ('k shared, cint res) process" where
  "t_attach_pid os pid cgroup_target = t_attach os (to_str_int pid) cgroup_target"

definition t_bash_output :: "'k os \<Rightarrow> string \<Rightarrow> ('k shared, string) process" where
  "t_bash_output os cmd = andthen (call (Reads Environ) (popen os cmd)) (\<lambda>fp.
     case fp of None \<Rightarrow> Done [] | Some s \<Rightarrow> Done (if s \<noteq> [] then butlast s else s))"

definition t_getRealExistPath :: "'k os \<Rightarrow> string \<Rightarrow> ('k shared, string) process" where
  "t_getRealExistPath os name =
     andthen (if name \<noteq> [] \<and> hd name = CHR ''/'' then call Apart (fileExist os name) else Done False) (\<lambda>direct.
     if direct then Done name
     else andthen (t_bash_output os (''which '' @ name)) (\<lambda>path.
       if path = [] then Done []
       else andthen (t_bash_output os (''readlink -e '' @ path)) (\<lambda>path.
         andthen (call Apart (fileExist os path)) (\<lambda>b. if \<not> b then Done [] else Done path))))"

fun t_realpaths :: "'k os \<Rightarrow> string list \<Rightarrow> ('k shared, string list) process" where
  "t_realpaths os [] = Done []"
| "t_realpaths os (p # v) = andthen (t_getRealExistPath os p) (\<lambda>rpath.
     andthen (t_realpaths os v) (\<lambda>tmp. Done (if rpath \<noteq> [] then rpath # tmp else tmp)))"

definition t_bash_pidof :: "'k os \<Rightarrow> string \<Rightarrow> ('k shared, cint list res) process" where
  "t_bash_pidof os path = andthen (call (Reads Environ) (popen os (''pidof '' @ path))) (\<lambda>fp.
     case fp of
       None \<Rightarrow> Done (Inr [])
     | Some out \<Rightarrow> (case scan_pids out of None \<Rightarrow> Done (Inl Diverge) | Some pids \<Rightarrow> Done (Inr pids)))"

lemma agrees_getCgroup [intro!]: "agrees (t_getCgroup os pid) (\<lambda>c. getCgroup os pid)"
  unfolding t_getCgroup_def getCgroup_def by auto

lemma agrees_attach [intro!]: "agrees (t_attach_pid os pid cg) (\<lambda>c. attach_pid os pid cg)"
  unfolding t_attach_pid_def attach_pid_def t_attach_def attach_def Let_def by auto

lemma agrees_bash_output [intro!]: "agrees (t_bash_output os cmd) (\<lambda>c. bash_output os cmd)"
  unfolding t_bash_output_def bash_output_def by auto

lemma agrees_getRealExistPath [intro!]: "agrees (t_getRealExistPath os name) (\<lambda>c. getRealExistPath os name)"
  unfolding t_getRealExistPath_def getRealExistPath_def bash_which_def bash_readlink_def by auto

lemma agrees_realpaths [intro!]: "agrees (t_realpaths os v) (\<lambda>c. toRealProgramPath os v)"
  by (induction v) auto

lemma agrees_bash_pidof [intro!]: "agrees (t_bash_pidof os path) (\<lambda>c. bash_pidof os path)"
  unfolding t_bash_pidof_def bash_pidof_def by auto

subsection \<open>Executed and running programs\<close>

definition t_pid_block :: "'k os \<Rightarrow> cint \<Rightarrow> string \<Rightarrow> place \<Rightarrow> (config \<Rightarrow> string list) \<Rightarrow> place \<Rightarrow> (config \<Rightarrow> string list) \<Rightarrow>
    string \<Rightarrow> ('k shared, cint option res) process" where
  "t_pid_block os pid path pl programs pl' scope preserved = andthen (look pl programs) (\<lambda>v.
     if path \<in> set v
     then andthenE (t_getCgroup os (to_str_int pid)) (\<lambda>cg.
       if cg = [] then Done (Inr (Some 0))
       else if belongToCgroup cg CGROUP_PROXY_PRESVERED \<or> belongToCgroup cg CGROUP_NOPROXY_PRESVERED
       then Done (Inr (Some 0))
       else andthen (look pl' scope) (\<lambda>sc.
         if \<not> belongToCgroup_vec cg sc
         then andthenE (t_attach_pid os pid preserved) (\<lambda>res. Done (Inr (Some res)))
         else Done (Inr None)))
     else Done (Inr None))"

definition t_handle_pid :: "'k os \<Rightarrow> cint \<Rightarrow> ('k shared, cint res) process" where
  "t_handle_pid os pid = andthen (call Apart (realpath os (''/proc/'' @ to_str_int pid @ ''/exe''))) (\<lambda>path.
     case path of
       None \<Rightarrow> Done (Inr 0)
     | Some path \<Rightarrow>
         andthenE (t_pid_block os pid path Program_noproxy program_noproxy Cgroup_noproxy cgroup_noproxy CGROUP_NOPROXY_PRESVERED)
           (\<lambda>r. case r of Some res \<Rightarrow> Done (Inr res)
             | None \<Rightarrow>
               andthenE (t_pid_block os pid path Program_proxy program_proxy Cgroup_proxy cgroup_proxy CGROUP_PROXY_PRESVERED)
                 (\<lambda>r. case r of Some res \<Rightarrow> Done (Inr res) | None \<Rightarrow> Done (Inr 0))))"

definition t_running_step :: "'k os \<Rightarrow> place \<Rightarrow> (config \<Rightarrow> string list) \<Rightarrow> string \<Rightarrow> cint \<Rightarrow> ('k shared, unit res) process" where
  "t_running_step os pl scope preserved pid =
     andthenE (t_getCgroup os (to_str_int pid)) (\<lambda>cg.
       if cg = [] then Done (Inr ())
       else if belongToCgroup cg CGROUP_PROXY_PRESVERED \<or> belongToCgroup cg CGROUP_NOPROXY_PRESVERED
       then Done (Inr ())
       else andthen (look pl scope) (\<lambda>sc.
         if \<not> belongToCgroup_vec cg sc
         then andthenE (t_attach_pid os pid preserved) (\<lambda>status. Done (Inr ()))
         else Done (Inr ())))"

text \<open>The loop keeps its iterators and reads each element from the vector in the object.\<close>

definition t_scan_list :: "'k os \<Rightarrow> place \<Rightarrow> (config \<Rightarrow> string list) \<Rightarrow> place \<Rightarrow> (config \<Rightarrow> string list) \<Rightarrow> string \<Rightarrow>
    ('k shared, unit res) process" where
  "t_scan_list os pl programs pl' scope preserved = andthen (look pl programs)
     (each (\<lambda>path. andthen (look pl (\<lambda>_. path)) (\<lambda>path.
        andthenE (t_bash_pidof os path) (each (t_running_step os pl' scope preserved)))))"

definition t_processRunningProgram :: "'k os \<Rightarrow> ('k shared, unit res) process" where
  "t_processRunningProgram os =
     andthenE (t_scan_list os Program_noproxy program_noproxy Cgroup_noproxy cgroup_noproxy CGROUP_NOPROXY_PRESVERED) (\<lambda>_.
       t_scan_list os Program_proxy program_proxy Cgroup_proxy cgroup_proxy CGROUP_PROXY_PRESVERED)"

lemma agrees_look_const: "(\<And>c. agrees (q (g c)) (\<lambda>c'. m c' (g c))) \<Longrightarrow> agrees (andthen (look pl g) q) (\<lambda>c. m c (g c))"
  by (simp add: agrees_def run_alone_andthen)

lemma agrees_pid_block [intro!]:
  "agrees (t_pid_block os pid path pl programs pl' scope preserved) (\<lambda>c. pid_block os pid path (programs c) (scope c) preserved)"
proof -
  have last: "agrees (andthen (look pl' scope) (\<lambda>sc.
         if \<not> belongToCgroup_vec cg sc
         then andthenE (t_attach_pid os pid preserved) (\<lambda>res. Done (Inr (Some res)))
         else Done (Inr None)))
     (\<lambda>c. if \<not> belongToCgroup_vec cg (scope c)
         then bindE (attach_pid os pid preserved) (\<lambda>res. ret (Inr (Some res))) else ret (Inr None))" for cg
    by (rule agrees_look_const) auto
  show ?thesis
    unfolding t_pid_block_def pid_block_def getCgroup_pid_def
    by (rule agrees_look_const [where m = "\<lambda>c v. if path \<in> set v then _ c else ret (Inr None)"]) (auto intro!: last)
qed

lemma agrees_handle_pid: "agrees (t_handle_pid os pid) (\<lambda>c. handle_pid os c pid)"
  unfolding t_handle_pid_def handle_pid_def by auto

lemma agrees_running_step [intro!]:
  "agrees (t_running_step os pl scope preserved pid) (\<lambda>c. running_step os (scope c) preserved pid)"
proof -
  have last: "agrees (andthen (look pl scope) (\<lambda>sc.
         if \<not> belongToCgroup_vec cg sc
         then andthenE (t_attach_pid os pid preserved) (\<lambda>status. Done (Inr ()))
         else Done (Inr ())))
     (\<lambda>c. if \<not> belongToCgroup_vec cg (scope c)
         then bindE (attach_pid os pid preserved) (\<lambda>status. ret (Inr ())) else ret (Inr ()))" for cg
    by (rule agrees_look_const) auto
  show ?thesis
    unfolding t_running_step_def running_step_def getCgroup_pid_def by (auto intro!: last)
qed

lemma agrees_processRunningProgram: "agrees (t_processRunningProgram os) (processRunningProgram os)"
proof -
  have one: "agrees (andthen (look pl (\<lambda>_. path)) (\<lambda>path.
        andthenE (t_bash_pidof os path) (each (t_running_step os pl' scope preserved))))
      (\<lambda>c. bindE (bash_pidof os path) (for_each (running_step os (scope c) preserved)))" for pl path pl' scope preserved
    by (rule agrees_look_const) auto
  have "agrees (t_scan_list os pl programs pl' scope preserved)
      (\<lambda>c. for_each (\<lambda>path. bindE (bash_pidof os path) (for_each (running_step os (scope c) preserved))) (programs c))"
    for pl programs pl' scope preserved
    unfolding t_scan_list_def
    by (rule agrees_look_const [where m = "\<lambda>c v. for_each (\<lambda>path. _ c path) v"]) (auto intro!: one)
  then show ?thesis
    unfolding t_processRunningProgram_def processRunningProgram_def by auto
qed

subsection \<open>Applying and loading a configuration\<close>

text \<open>\<open>toEnv\<close>: each member is read and put into its variable, in the order of the source.\<close>

definition env_items :: "(place \<times> string \<times> (config \<Rightarrow> string)) list" where
  "env_items = [
     (Program_proxy, ''program_proxy'', \<lambda>c. join2str_vec (program_proxy c) (CHR '':'')),
     (Program_noproxy, ''program_noproxy'', \<lambda>c. join2str_vec (program_noproxy c) (CHR '':'')),
     (Cgroup_proxy, ''cgroup_proxy'', \<lambda>c. join2str_vec (cgroup_proxy c) (CHR '':'')),
     (Cgroup_noproxy, ''cgroup_noproxy'', \<lambda>c. join2str_vec (cgroup_noproxy c) (CHR '':'')),
     (Scalars, ''enable_gateway'', \<lambda>c. to_str_bool (enable_gateway c)),
     (Scalars, ''port'', \<lambda>c. to_str_int (port c)),
     (Scalars, ''enable_dns'', \<lambda>c. to_str_bool (enable_dns c)),
     (Scalars, ''enable_tcp'', \<lambda>c. to_str_bool (enable_tcp c)),
     (Scalars, ''enable_udp'', \<lambda>c. to_str_bool (enable_udp c)),
     (Scalars, ''enable_ipv4'', \<lambda>c. to_str_bool (enable_ipv4 c)),
     (Scalars, ''enable_ipv6'', \<lambda>c. to_str_bool (enable_ipv6 c)),
     (Scalars, ''table'', \<lambda>c. to_str_int (table c)),
     (Scalars, ''fwmark'', \<lambda>c. to_str_int (fwmark c)),
     (Scalars, ''mark_newin'', \<lambda>c. to_str_int (mark_newin c))]"

fun t_setenv_all :: "(place \<times> string \<times> (config \<Rightarrow> string)) list \<Rightarrow> ('k shared, unit) process" where
  "t_setenv_all [] = Done ()"
| "t_setenv_all ((pl, n, g) # items) = andthen (look pl g) (\<lambda>v.
     andthen (call (Writes Environ) (setenv n v)) (\<lambda>_. t_setenv_all items))"

definition t_toEnv :: "('k shared, unit) process" where
  "t_toEnv = andthen (call (Writes Environ) (setenv ''cgroup_mount_point'' CGROUP2_MOUNT_POINT)) (\<lambda>_. t_setenv_all env_items)"

definition t_applyConfig :: "install \<Rightarrow> 'k os \<Rightarrow> ('k shared, cint) process" where
  "t_applyConfig inst os = andthen (call (Reads Environ) (system_cmd os (TPROXY_IPTABLS_CLEAN inst))) (\<lambda>_.
     andthen t_toEnv (\<lambda>_.
     andthen (call (Reads Environ) (system_cmd os (TPROXY_IPTABLS_START inst))) (\<lambda>_. Done 0)))"

definition t_tryassign :: "nlohmann \<Rightarrow> json \<Rightarrow> place \<Rightarrow> string \<Rightarrow> (json \<Rightarrow> 'a res) \<Rightarrow> ('a \<Rightarrow> config \<Rightarrow> config) \<Rightarrow>
    ('k shared, unit) process" where
  "t_tryassign js j pl v get_to upd = (case res_bind (js_at js j v) get_to of Inl e \<Rightarrow> Done () | Inr x \<Rightarrow> put pl (upd x))"

fun in_order :: "('s, unit) process list \<Rightarrow> ('s, unit) process" where
  "in_order [] = Done ()"
| "in_order (p # ps) = andthen p (\<lambda>_. in_order ps)"

definition t_assign_members :: "nlohmann \<Rightarrow> json \<Rightarrow> ('k shared, unit) process" where
  "t_assign_members js j = in_order [
     t_tryassign js j Program_proxy ''program_proxy'' (js_strings js) (\<lambda>x. program_proxy_update (\<lambda>_. x)),
     t_tryassign js j Program_noproxy ''program_noproxy'' (js_strings js) (\<lambda>x. program_noproxy_update (\<lambda>_. x)),
     t_tryassign js j Cgroup_proxy ''cgroup_proxy'' (js_strings js) (\<lambda>x. cgroup_proxy_update (\<lambda>_. x)),
     t_tryassign js j Cgroup_noproxy ''cgroup_noproxy'' (js_strings js) (\<lambda>x. cgroup_noproxy_update (\<lambda>_. x)),
     t_tryassign js j Scalars ''enable_gateway'' (js_bool js) (\<lambda>x. enable_gateway_update (\<lambda>_. x)),
     t_tryassign js j Scalars ''port'' (js_int js) (\<lambda>x. port_update (\<lambda>_. x)),
     t_tryassign js j Scalars ''enable_dns'' (js_bool js) (\<lambda>x. enable_dns_update (\<lambda>_. x)),
     t_tryassign js j Scalars ''enable_tcp'' (js_bool js) (\<lambda>x. enable_tcp_update (\<lambda>_. x)),
     t_tryassign js j Scalars ''enable_udp'' (js_bool js) (\<lambda>x. enable_udp_update (\<lambda>_. x)),
     t_tryassign js j Scalars ''enable_ipv4'' (js_bool js) (\<lambda>x. enable_ipv4_update (\<lambda>_. x)),
     t_tryassign js j Scalars ''enable_ipv6'' (js_bool js) (\<lambda>x. enable_ipv6_update (\<lambda>_. x)),
     t_tryassign js j Scalars ''table'' (js_int js) (\<lambda>x. table_update (\<lambda>_. x)),
     t_tryassign js j Scalars ''fwmark'' (js_int js) (\<lambda>x. fwmark_update (\<lambda>_. x)),
     t_tryassign js j Scalars ''mark_newin'' (js_int js) (\<lambda>x. mark_newin_update (\<lambda>_. x))]"

definition t_toRealProgramPath :: "'k os \<Rightarrow> place \<Rightarrow> (config \<Rightarrow> string list) \<Rightarrow> (string list \<Rightarrow> config \<Rightarrow> config) \<Rightarrow>
    ('k shared, unit) process" where
  "t_toRealProgramPath os pl get upd = andthen (look pl get) (\<lambda>v. andthen (t_realpaths os v) (\<lambda>tmp. put pl (upd tmp)))"

text \<open>The macro \<open>merge\<close>: \<open>erase\<close>, then \<open>insert\<close>.\<close>

definition t_mergeReserved :: "('k shared, unit) process" where
  "t_mergeReserved = in_order [
     put Cgroup_proxy (\<lambda>c. c\<lparr>cgroup_proxy := filter (\<lambda>x. x \<noteq> CGROUP_PROXY_PRESVERED) (cgroup_proxy c)\<rparr>),
     put Cgroup_proxy (\<lambda>c. c\<lparr>cgroup_proxy := CGROUP_PROXY_PRESVERED # cgroup_proxy c\<rparr>),
     put Cgroup_noproxy (\<lambda>c. c\<lparr>cgroup_noproxy := filter (\<lambda>x. x \<noteq> CGROUP_NOPROXY_PRESVERED) (cgroup_noproxy c)\<rparr>),
     put Cgroup_noproxy (\<lambda>c. c\<lparr>cgroup_noproxy := CGROUP_NOPROXY_PRESVERED # cgroup_noproxy c\<rparr>)]"

definition t_loadFromJsonStr :: "nlohmann \<Rightarrow> 'k os \<Rightarrow> string \<Rightarrow> ('k shared, cint res) process" where
  "t_loadFromJsonStr js os s = (case validateJsonStr js s of
       Inl e \<Rightarrow> Done (Inl e)
     | Inr valid \<Rightarrow>
         if \<not> valid then Done (Inr PARAM_ERROR)
         else (case js_parse js s of
             Inl e \<Rightarrow> Done (Inl e)
           | Inr j \<Rightarrow> andthen (t_assign_members js j) (\<lambda>_.
               andthen (t_toRealProgramPath os Program_noproxy program_noproxy (\<lambda>v c. c\<lparr>program_noproxy := v\<rparr>)) (\<lambda>_.
               andthen (t_toRealProgramPath os Program_proxy program_proxy (\<lambda>v c. c\<lparr>program_proxy := v\<rparr>)) (\<lambda>_.
               andthen t_mergeReserved (\<lambda>_. Done (Inr 0)))))))"

definition t_loadFromFile :: "nlohmann \<Rightarrow> 'k os \<Rightarrow> string \<Rightarrow> ('k shared, cint res) process" where
  "t_loadFromFile js os f = andthen (call Apart (read_file os f)) (\<lambda>ifs.
     case ifs of Some s \<Rightarrow> t_loadFromJsonStr js os s | None \<Rightarrow> Done (Inr FILE_ERROR))"

subsection \<open>Messages and the end\<close>

definition t_load_and_apply :: "install \<Rightarrow> 'k os \<Rightarrow> ('k shared, cint res) process \<Rightarrow> ('k shared, cint res) process" where
  "t_load_and_apply inst os load = andthenE load (\<lambda>status.
     if status = SUCCESS then andthen (t_applyConfig inst os) (\<lambda>status. Done (Inr status)) else Done (Inr status))"

definition t_handle_json :: "install \<Rightarrow> nlohmann \<Rightarrow> 'k os \<Rightarrow> json \<Rightarrow> ('k shared, cint res) process" where
  "t_handle_json inst js os j = (case res_bind (js_at js j ''type'') (js_int js) of
       Inl e \<Rightarrow> Done (Inl e)
     | Inr type \<Rightarrow>
         if type = MSG_TYPE_CONFIG_JSON then
           (case res_bind (js_at js j ''data'') (js_dump js) of
              Inl e \<Rightarrow> Done (Inl e)
            | Inr s \<Rightarrow> t_load_and_apply inst os (t_loadFromJsonStr js os s))
         else if type = MSG_TYPE_CONFIG_PATH then
           (case res_bind (js_at js j ''data'') (js_string js) of
              Inl e \<Rightarrow> Done (Inl e)
            | Inr f \<Rightarrow> t_load_and_apply inst os (t_loadFromFile js os f))
         else if type = MSG_TYPE_PROXY_PID then
           (case res_bind (js_at js j ''data'') (js_int js) of
              Inl e \<Rightarrow> Done (Inl e)
            | Inr pid \<Rightarrow> t_attach_pid os pid CGROUP_PROXY_PRESVERED)
         else if type = MSG_TYPE_NOPROXY_PID then
           (case res_bind (js_at js j ''data'') (js_int js) of
              Inl e \<Rightarrow> Done (Inl e)
            | Inr pid \<Rightarrow> t_attach_pid os pid CGROUP_NOPROXY_PRESVERED)
         else Done (Inr MSG_ERROR))"

definition t_handle_msg :: "install \<Rightarrow> nlohmann \<Rightarrow> 'k os \<Rightarrow> string \<Rightarrow> ('k shared, cint res) process" where
  "t_handle_msg inst js os msg = (case js_parse js msg of
       Inl (Throw e) \<Rightarrow> Done (Inr MSG_ERROR)
     | Inl Diverge \<Rightarrow> Done (Inl Diverge)
     | Inr j \<Rightarrow> andthen (t_handle_json inst js os j) (\<lambda>r. Done (catch_msg r)))"

text \<open>The socket thread with a message it has read: the callback, then the status is sent back.\<close>

definition t_serve :: "install \<Rightarrow> nlohmann \<Rightarrow> 'k os \<Rightarrow> 'k net \<Rightarrow> cint \<Rightarrow> string \<Rightarrow> ('k shared, cint res) process" where
  "t_serve inst js os net fd msg = andthenE (t_handle_msg inst js os msg) (\<lambda>status.
     andthen (call Apart (write_fd net fd (int_bytes status))) (\<lambda>_. Done (Inr status)))"

definition t_stop :: "install \<Rightarrow> 'k os \<Rightarrow> ('k shared, unit) process" where
  "t_stop inst os = andthen (call (Reads Environ) (system_cmd os (TPROXY_IPTABLS_CLEAN inst))) (\<lambda>_.
     andthen (call Apart (close_lock os PID_LOCK_FILE)) (\<lambda>_.
     andthen (call Apart (unlink_file os PID_LOCK_FILE)) (\<lambda>_. Done ())))"

subsection \<open>Alone, they do what the sequential model does\<close>

lemma agrees_stop: "agrees (t_stop inst os) (\<lambda>c. stop inst os)"
  unfolding t_stop_def stop_def unlock_def
  by (auto simp: agrees_def run_alone_andthen split: prod.splits)

lemma run_alone_setenv_all:
  "run_alone (t_setenv_all items) s =
     (case run_state (setenv_all (map (\<lambda>(pl, n, g). (n, g (sh_cfg s))) items)) (sh_world s) of (r, w) \<Rightarrow> (r, s\<lparr>sh_world := w\<rparr>))"
  by (induction items arbitrary: s rule: t_setenv_all.induct) (auto simp: run_alone_andthen split: prod.splits)

lemma config_env_items: "config_env c = (''cgroup_mount_point'', CGROUP2_MOUNT_POINT) # map (\<lambda>(pl, n, g). (n, g c)) env_items"
  by (simp add: env_items_def config_env_def)

lemma agrees_applyConfig: "agrees (t_applyConfig inst os) (\<lambda>c. applyConfig inst os c)"
  unfolding agrees_def t_applyConfig_def applyConfig_def t_toEnv_def toEnv_def
  by (auto simp: run_alone_andthen run_alone_setenv_all config_env_items split: prod.splits)

lemma run_alone_tryassign:
  "run_alone (t_tryassign js j pl v get_to upd) s = ((), s\<lparr>sh_cfg := tryassign js j v get_to upd (sh_cfg s)\<rparr>)"
  by (simp add: t_tryassign_def tryassign_def split: sum.splits)

lemma run_alone_assign_members:
  "run_alone (t_assign_members js j) s = ((), s\<lparr>sh_cfg := assign_members js j (sh_cfg s)\<rparr>)"
  by (simp add: t_assign_members_def assign_members_def run_alone_andthen run_alone_tryassign)

lemma run_alone_mergeReserved: "run_alone t_mergeReserved s = ((), s\<lparr>sh_cfg := mergeReserved (sh_cfg s)\<rparr>)"
  by (simp add: t_mergeReserved_def mergeReserved_def merge_front_def run_alone_andthen)

lemma run_alone_toRealProgramPath:
  "run_alone (t_toRealProgramPath os pl get upd) s =
     (case run_state (toRealProgramPath os (get (sh_cfg s))) (sh_world s) of (v, w) \<Rightarrow>
        ((), s\<lparr>sh_world := w, sh_cfg := upd v (sh_cfg s)\<rparr>))"
  by (simp add: t_toRealProgramPath_def run_alone_andthen agreesD [OF agrees_realpaths] split: prod.splits)

lemma follows_loadFromJsonStr: "follows (t_loadFromJsonStr js os s) (loadFromJsonStr js os s)"
  unfolding follows_def t_loadFromJsonStr_def loadFromJsonStr_def
  by (auto simp: run_alone_andthen run_alone_assign_members run_alone_toRealProgramPath run_alone_mergeReserved
      split: sum.splits prod.splits)

lemma follows_loadFromFile: "follows (t_loadFromFile js os f) (loadFromFile js os f)"
  by (auto simp: follows_def t_loadFromFile_def loadFromFile_def run_alone_andthen followsD [OF follows_loadFromJsonStr]
      split: option.splits prod.splits)

lemma follows_load_and_apply:
  "follows p load \<Longrightarrow> follows (t_load_and_apply inst os p) (load_and_apply inst os load)"
  by (auto simp: follows_def t_load_and_apply_def load_and_apply_def run_alone_andthenE run_alone_andthen
      agreesD [OF agrees_applyConfig] split: sum.splits prod.splits)

lemma follows_attach:
  "follows (t_attach_pid os pid cg) (\<lambda>c. do { status \<leftarrow> attach_pid os pid cg; ret (c, status) })"
  by (simp add: follows_def agreesD [OF agrees_attach] split: prod.splits)

lemma follows_handle_json: "follows (t_handle_json inst js os j) (handle_json inst js os j)"
  unfolding t_handle_json_def handle_json_def
  by (intro follows_sum follows_if follows_Done follows_attach follows_load_and_apply
      follows_loadFromJsonStr follows_loadFromFile)

lemma follows_handle_msg: "follows (t_handle_msg inst js os msg) (handle_msg inst js os msg)"
  by (auto simp: follows_def t_handle_msg_def handle_msg_def run_alone_andthen followsD [OF follows_handle_json]
      split: sum.splits abrupt.splits prod.splits)

lemma follows_serve:
  "follows (t_serve inst js os net fd msg) (\<lambda>c. do {
     (c, r) \<leftarrow> handle_msg inst js os msg c;
     case r of
       Inl e \<Rightarrow> ret (c, Inl e)
     | Inr status \<Rightarrow> do { write_fd net fd (int_bytes status); ret (c, Inr status) } })"
  by (auto simp: follows_def t_serve_def run_alone_andthenE run_alone_andthen followsD [OF follows_handle_msg]
      split: sum.splits prod.splits)

end
