(* ===== verification/System.thy ===== *)
theory System
  imports Lifecycle
begin

text \<open>
  The running daemon as a whole: its configuration object, its socket, and everything that can
  happen to it in any order, one handler at a time: a connection, an executed program, the scan of
  running programs, a signal, and whatever other processes do to the kernel; and \<open>lawful\<close>, all that the daemon ever
  does outside.

  The handlers of the two threads and of the signals are atomic here; in the program nothing keeps
  them apart, and the object they share has no lock.  The theory \<open>Threads\<close> interleaves their actions.

  The invariant of the reachable states is what the script relies on: it was last started with
  the variables of the very configuration the daemon holds, and between a start and the stop
  that undoes it the variables do not change.
\<close>

subsection \<open>States and steps\<close>

datatype fate = Running | Over ended | Crashed

record 'k system =
  sy_world :: "'k world"
  sy_cfg :: config
  sy_srv :: server
  sy_fate :: fate

datatype 'k action = Connection | Executed cint | Scan | Signal | Outside 'k

definition on_connection :: "install \<Rightarrow> nlohmann \<Rightarrow> 'k os \<Rightarrow> 'k net \<Rightarrow> 'k system \<Rightarrow> 'k system" where
  "on_connection inst js os net s =
     (case run_state (serve_one net (handle_msg inst js os) (sy_srv s) (sy_cfg s)) (sy_world s) of
        (Next srv c, w) \<Rightarrow> s\<lparr>sy_world := w, sy_cfg := c, sy_srv := srv\<rparr>
      | (Fault, w) \<Rightarrow> s\<lparr>sy_world := w, sy_fate := Crashed\<rparr>
      | (Uncaught e, w) \<Rightarrow> s\<lparr>sy_world := w, sy_fate := Over (Abort e)\<rparr>)"

text \<open>A thread whose function throws ends the process.\<close>

definition thread_result :: "'a res \<times> 'k world \<Rightarrow> 'k system \<Rightarrow> 'k system" where
  "thread_result rw s = (case rw of
       (Inr x, w) \<Rightarrow> s\<lparr>sy_world := w\<rparr>
     | (Inl e, w) \<Rightarrow> s\<lparr>sy_world := w, sy_fate := Over (Abort e)\<rparr>)"

definition act :: "install \<Rightarrow> nlohmann \<Rightarrow> 'k os \<Rightarrow> 'k net \<Rightarrow> 'k action \<Rightarrow> 'k system \<Rightarrow> 'k system" where
  "act inst js os net a s =
     (if sy_fate s \<noteq> Running then s
      else case a of
          Connection \<Rightarrow> on_connection inst js os net s
        | Executed pid \<Rightarrow> thread_result (run_state (handle_pid_static os (Some (sy_cfg s)) pid) (sy_world s)) s
        | Scan \<Rightarrow> thread_result (run_state (processRunningProgram os (sy_cfg s)) (sy_world s)) s
        | Signal \<Rightarrow> (case run_state (signalHandler inst os (Some (sy_cfg s))) (sy_world s) of
              (e, w) \<Rightarrow> s\<lparr>sy_world := w, sy_fate := Over e\<rparr>)
        | Outside k \<Rightarrow> s\<lparr>sy_world := (sy_world s)\<lparr>kern := k\<rparr>\<rparr>)"

text \<open>A daemon that came up in a fresh process and opened its socket, and what can follow.\<close>

inductive reachable :: "install \<Rightarrow> nlohmann \<Rightarrow> 'k os \<Rightarrow> 'k net \<Rightarrow> 'k system \<Rightarrow> bool"
  for inst js os net where
  boot: "trace w = [] \<Longrightarrow> run_state (daemon_main inst js os argv) w = (Inr c, w1) \<Longrightarrow>
    run_state (open_socket os net new_server) w1 = ((srv, ready), w2) \<Longrightarrow>
    reachable inst js os net \<lparr>sy_world = w2, sy_cfg = c, sy_srv = srv, sy_fate = Running\<rparr>"
| step: "reachable inst js os net s \<Longrightarrow> reachable inst js os net (act inst js os net a s)"

subsection \<open>What the script relies on\<close>

definition start_cmd :: "install \<Rightarrow> string" where
  "start_cmd inst = c_str (TPROXY_IPTABLS_START inst)"

definition clean_cmd :: "install \<Rightarrow> string" where
  "clean_cmd inst = c_str (TPROXY_IPTABLS_CLEAN inst)"

text \<open>A path with no NUL in it keeps the two commands apart.\<close>

definition proper_install :: "install \<Rightarrow> bool" where
  "proper_install inst = (CHR 0x00 \<notin> set (datadir inst))"

lemma commands_differ: "proper_install inst \<Longrightarrow> start_cmd inst \<noteq> clean_cmd inst"
  by (simp add: proper_install_def start_cmd_def clean_cmd_def TPROXY_IPTABLS_START_def
      TPROXY_IPTABLS_CLEAN_def)

text \<open>After a start comes its stop, under the same variables.\<close>

definition same_context :: "install \<Rightarrow> event \<Rightarrow> event \<Rightarrow> bool" where
  "same_context inst e e' = (\<forall>env. e = System (start_cmd inst) env \<longrightarrow> e' = System (clean_cmd inst) env)"

text \<open>The script is up, for this configuration and these variables.\<close>

definition script_up :: "install \<Rightarrow> config \<Rightarrow> env_vars \<Rightarrow> event list \<Rightarrow> bool" where
  "script_up inst c env evs = (in_sync c env \<and> successively (same_context inst) evs \<and>
     (\<exists>pre. evs = pre @ [System (start_cmd inst) env]))"

definition script_down :: "install \<Rightarrow> event list \<Rightarrow> bool" where
  "script_down inst evs = (successively (same_context inst) evs \<and>
     (\<exists>pre env. evs = pre @ [System (clean_cmd inst) env]))"

lemma script_restart:
  assumes "proper_install inst" and "script_up inst c env evs" and "in_sync c' env'"
  shows "script_up inst c' env' (evs @ [System (clean_cmd inst) env, System (start_cmd inst) env'])"
  using assms commands_differ [OF assms(1)]
  by (auto simp: script_up_def same_context_def successively_append_iff)

lemma script_stopped:
  assumes "script_up inst c env evs"
  shows "script_down inst (evs @ [System (clean_cmd inst) env])"
  using assms by (auto simp: script_up_def script_down_def same_context_def successively_append_iff)

lemma script_first:
  assumes "proper_install inst" and "in_sync c env'"
  shows "script_up inst c env' [System (clean_cmd inst) env, System (start_cmd inst) env']"
  using assms commands_differ [OF assms(1)] by (auto simp: script_up_def same_context_def)

lemma systems_apply_events:
  "filter is_system (apply_events inst c env) =
     [System (clean_cmd inst) env, System (start_cmd inst) (env_after c env)]"
  by (simp add: apply_events_def filter_map comp_def split_def clean_cmd_def start_cmd_def)

lemma systems_moves: "list_all moves_pid es \<Longrightarrow> filter is_system es = []"
  by (auto simp: filter_empty_conv list_all_iff moves_pid_def touches_def is_system_def split: event.splits)

subsection \<open>The invariant\<close>

definition daemon_ok :: "install \<Rightarrow> config \<Rightarrow> env_vars \<Rightarrow> event list \<Rightarrow> bool" where
  "daemon_ok inst c env evs = (config_valid c \<and> reserved c \<and> script_up inst c env evs)"

lemma handle_msg_ok:
  assumes "js_documented js" and "proper_install inst"
    and "daemon_ok inst c (environ w) (systems w)"
    and "run_state (handle_msg inst js os msg c) w = ((c', r), w')"
  shows "daemon_ok inst c' (environ w') (systems w')"
proof -
  have inv: "config_valid c" "reserved c" "script_up inst c (environ w) (systems w)"
    using assms(3) by (simp_all add: daemon_ok_def)
  obtain status where out: "config_valid c'" "reserved c'"
    "(status \<noteq> SUCCESS \<and> rejected c c' w w') \<or> attached c c' w w' \<or> (status = SUCCESS \<and> applied inst c' w w')"
    using handle_msg_outcome [OF assms(1) inv(1,2) assms(4)] by blast
  have "script_up inst c' (environ w') (systems w')"
    using out(3)
  proof (elim disjE conjE)
    assume "rejected c c' w w'"
    with inv(3) show ?thesis
      by (auto simp: rejected_def systems_def filter_map comp_def)
  next
    assume "attached c c' w w'"
    with inv(3) show ?thesis
      by (auto simp: attached_def systems_def systems_moves)
  next
    assume "applied inst c' w w'"
    then obtain cmds where "environ w' = env_after c' (environ w)"
        "trace w' = trace w @ map Popen cmds @ apply_events inst c' (environ w)"
      by (auto simp: applied_def)
    with script_restart [OF assms(2) inv(3) in_sync_applied, of c' "environ w"] show ?thesis
      by (simp add: systems_def filter_map comp_def systems_apply_events)
  qed
  with out(1,2) show ?thesis by (simp add: daemon_ok_def)
qed

text \<open>The handler, as the server's callback.\<close>

definition daemon_calls :: "install \<Rightarrow> event \<Rightarrow> bool" where
  "daemon_calls inst e = (moves_pid e \<or> asks_path e \<or> (\<exists>n v. e = Setenv n v) \<or>
     (\<exists>env. e = System (clean_cmd inst) env) \<or> (\<exists>env. e = System (start_cmd inst) env))"

lemma emits_handle_msg: "emits (daemon_calls inst) (handle_msg inst js os msg c)"
proof -
  have load: "emits (daemon_calls inst) (load_and_apply inst os load c)"
    if "emits asks_path (load c)" for load c
  proof -
    have "emits (daemon_calls inst) (setenv_all nvs)" for nvs
      by (induction nvs rule: setenv_all.induct) (auto intro!: emits_setenv simp: daemon_calls_def)
    then have "emits (daemon_calls inst) (applyConfig inst os c)" for c
      unfolding applyConfig_def toEnv_def
      by (auto intro!: emits_system simp: daemon_calls_def clean_cmd_def start_cmd_def)
    moreover have "emits (daemon_calls inst) (load c)"
      by (rule emits_mono [OF that]) (auto simp: daemon_calls_def)
    ultimately show ?thesis unfolding load_and_apply_def by (auto split: sum.splits)
  qed
  have att: "emits (daemon_calls inst) (attach_pid os pid cg)" if "cg \<in> preserved_cgroups" for pid cg
    using that by (rule emits_attach_preserved) (simp add: daemon_calls_def)
  show ?thesis
    unfolding handle_msg_def handle_json_def
    by (auto intro!: load att emits_loadFromJsonStr emits_loadFromFile simp: preserved_cgroups_members
        split: sum.splits abrupt.splits)
qed

interpretation daemon_service: service "handle_msg inst js os"
  "\<lambda>c. js_documented js \<and> config_valid c \<and> reserved c" "daemon_calls inst"
  using handle_msg_outcome emits_handle_msg by unfold_locales blast+

definition system_ok :: "install \<Rightarrow> 'k system \<Rightarrow> bool" where
  "system_ok inst s =
     (config_valid (sy_cfg s) \<and> reserved (sy_cfg s) \<and>
      (sy_fate s = Running \<longrightarrow>
         script_up inst (sy_cfg s) (environ (sy_world s)) (systems (sy_world s))) \<and>
      (\<forall>status. sy_fate s = Over (Exit status) \<longrightarrow> status = 0 \<and> script_down inst (systems (sy_world s))))"

lemma system_ok_running:
  "sy_fate s = Running \<Longrightarrow>
     system_ok inst s = daemon_ok inst (sy_cfg s) (environ (sy_world s)) (systems (sy_world s))"
  by (auto simp: system_ok_def daemon_ok_def)

lemma scriptless_processes:
  "scriptless (handle_pid os c pid)" "scriptless (processRunningProgram os c)"
proof -
  have moves: "\<not> is_system e" if "moves_pid e" for e
    using that by (cases e) (auto simp: moves_pid_def touches_def)
  show "scriptless (handle_pid os c pid)"
    by (rule scriptlessI [OF emits_handle_pid moves keeps_environ_processes(1)])
  show "scriptless (processRunningProgram os c)"
    by (rule scriptlessI [OF emits_processRunningProgram _ keeps_environ_processes(2)])
      (auto simp: asks_pidof_def dest: moves)
qed

lemma scriptless_load_file: "scriptless (loadFromFile js os f c)"
  by (rule scriptlessI [OF emits_loadFromFile _ keeps_environ_load_file]) (auto dest!: asks_path_popen)

text \<open>What a daemon that came up has done.\<close>

lemma boot_ok:
  assumes "js_documented js" and "proper_install inst" and "trace w = []"
    and "run_state (daemon_main inst js os argv) w = (Inr c, w1)"
  shows "daemon_ok inst c (environ w1) (systems w1)"
proof -
  obtain uid w2 where uid: "run_state (getuid os) w = (uid, w2)" by fastforce
  then have t2: "trace w2 = []" using assms(3) by (auto simp: getuid_def split: prod.splits)
  have "\<not> da_help (daemon_processArgs (tl argv) daemon_args0)" "uid = 0"
    using assms(4) uid by (auto simp: daemon_main_def split: if_splits)
  then obtain r2 w3 where start: "run_state (start inst js os) w2 = (r2, w3)"
      and end_: "run_state (seq (case r2 of Inl (Return s) \<Rightarrow> stop inst os | _ \<Rightarrow> ret ()) (\<lambda>_. ret r2)) w3 = (Inr c, w1)"
    using assms(4) uid by (auto simp: daemon_main_def split: prod.splits)
  have r2: "r2 = Inr c" "w1 = w3"
    using end_ by (cases r2; auto split: prod.splits)+
  then have "run_state (start inst js os) w2 = (Inr c, w1)" "(Inr c :: ended + config) \<noteq> Inl (Exit EXIT_FAILURE)"
    using start by simp_all
  from start_with_lock [OF this] t2 obtain d w4 where
    4: "trace w4 = [Lock_file PID_LOCK_FILE True, Write_file PID_LOCK_FILE d]"
    "run_state (start_locked inst js os) w4 = (Inr c, w1)" by (metis append_Nil)
  obtain c5 r5 w5 where load: "run_state (loadFromFile js os (DEFAULT_CONFIG_FILE inst) default_config) w4 = ((c5, r5), w5)"
    by (metis prod.exhaust)
  obtain k where ap: "run_state (applyConfig inst os c5) w5 =
      (0, w5\<lparr>kern := k, environ := env_after c5 (environ w5),
             trace := trace w5 @ apply_events inst c5 (environ w5)\<rparr>)"
    using run_applyConfig [of inst os c5 w5] by (rule exE)
  have ok: "r5 = Inr SUCCESS" "c = c5" and w1: "w1 = w5\<lparr>kern := k, environ := env_after c5 (environ w5),
      trace := trace w5 @ apply_events inst c5 (environ w5)\<rparr>"
    using 4(2) by (auto simp: start_locked_def load ap split: sum.splits if_splits)
  have "config_valid c5" using json_file.load_valid [OF _ load] default_config_valid assms(1) by simp
  moreover have "reserved c5" using json_file.load_built_in load ok(1) by (simp add: SUCCESS_def)
  moreover have "systems w5 = []"
    using scriptlessD [OF scriptless_load_file load] 4(1) by (simp add: systems_def)
  ultimately show ?thesis
    using script_first [OF assms(2) in_sync_applied, of c5 "environ w5" "environ w5"] ok(2)
    by (simp add: daemon_ok_def w1 systems_def systems_apply_events)
qed

lemma act_ok:
  assumes "js_documented js" and "proper_install inst" and "system_ok inst s"
  shows "system_ok inst (act inst js os net a s)"
proof (cases "sy_fate s = Running")
  case False
  with assms(3) show ?thesis by (simp add: act_def)
next
  case run: True
  let ?c = "sy_cfg s" and ?w = "sy_world s"
  have ok: "daemon_ok inst ?c (environ ?w) (systems ?w)"
    using assms(3) run by (simp add: system_ok_running)
  have thread: "system_ok inst (thread_result (run_state m ?w) s)" if "scriptless m" for m :: "('a world, 'b res) state"
  proof -
    obtain r w where r: "run_state m ?w = (r, w)" by fastforce
    from scriptlessD [OF that this] show ?thesis
      using ok run by (cases r) (auto simp: thread_result_def r system_ok_def daemon_ok_def)
  qed
  show ?thesis
  proof (cases a)
    case Connection
    obtain r w where r: "run_state (serve_one net (handle_msg inst js os) (sy_srv s) ?c) ?w = (r, w)" by fastforce
    have "case r of Next srv' c' \<Rightarrow> daemon_ok inst c' (environ w) (systems w)
        | Fault \<Rightarrow> True | Uncaught e \<Rightarrow> (\<exists>c'. daemon_ok inst c' (environ w) (systems w))"
      using hoareD [OF serve_one_keeps [where R = "daemon_ok inst", OF handle_msg_ok [OF assms(1,2)]] ok r] .
    then show ?thesis
      using ok run Connection
      by (cases r) (auto simp: act_def on_connection_def r system_ok_def daemon_ok_def)
  next
    case (Executed pid)
    with run thread [OF scriptless_processes(1)] show ?thesis by (simp add: act_def handle_pid_static_def)
  next
    case Scan
    with run thread [OF scriptless_processes(2)] show ?thesis by (simp add: act_def)
  next
    case Signal
    obtain w where w: "run_state (stop inst os) ?w = ((), w)" by (meson run_unit)
    have "systems w = systems ?w @ [System (clean_cmd inst) (environ ?w)]"
      using run_stop [OF w] by (simp add: systems_def clean_cmd_def)
    with script_stopped [of inst ?c "environ ?w" "systems ?w"] ok run Signal w show ?thesis
      by (simp add: act_def signalHandler_def system_ok_def daemon_ok_def)
  next
    case (Outside k)
    with ok run show ?thesis by (simp add: act_def system_ok_def daemon_ok_def systems_def)
  qed
qed

lemma reachable_ok:
  assumes "js_documented js" and "proper_install inst" and "reachable inst js os net s"
  shows "system_ok inst s"
  using assms(3)
proof (induction rule: reachable.induct)
  case (boot w argv c w1 srv ready w2)
  have "scriptless (open_socket os net new_server)"
    by (rule scriptlessI [where A = "\<lambda>e. \<not> is_system e"])
      (auto simp: open_socket_def Let_def intro!: emits_rules emits_bind_path emits_chmod)
  from scriptlessD [OF this boot(3)] boot_ok [OF assms(1,2) boot(1,2)] show ?case
    by (simp add: system_ok_running)
next
  case (step s a)
  from act_ok [OF assms(1,2) step.IH] show ?case .
qed

text \<open>The sample kernel with a configuration file, and the daemon it boots.\<close>

definition boot_world :: "sample world" where
  "boot_world = sample_world\<lparr>kern := sample_kern\<lparr>s_files := [(''/etc/cgproxy/config.json'', ''{}'')]\<rparr>\<rparr>"

lemma sample_boot_load:
  "snd (fst (run_state (seq (lock sample_os) (\<lambda>_.
     loadFromFile (sample_js (JObject [])) sample_os (DEFAULT_CONFIG_FILE sample_inst) default_config)) boot_world))
   = Inr SUCCESS"
  by code_simp

lemma sample_started:
  assumes "snd (fst (run_state (seq (lock sample_os) (\<lambda>_.
     loadFromFile js sample_os (DEFAULT_CONFIG_FILE sample_inst) default_config)) boot_world)) = Inr SUCCESS"
    and "\<not> da_help (daemon_processArgs (tl argv) daemon_args0)"
  shows "\<exists>c w1 srv ready w2. run_state (daemon_main sample_inst js sample_os argv) boot_world = (Inr c, w1) \<and>
    run_state (open_socket sample_os sample_net new_server) w1 = ((srv, ready), w2)"
proof -
  let ?os = sample_os
  obtain ok w1 where lock: "run_state (lock ?os) boot_world = (ok, w1)" by fastforce
  then have ok by (auto simp: lock_def flock_file_def split: prod.splits)
  obtain c r w2 where load: "run_state (loadFromFile js ?os (DEFAULT_CONFIG_FILE sample_inst) default_config) w1 = ((c, r), w2)"
    by (metis prod.exhaust)
  then have "r = Inr SUCCESS" using assms(1) lock by simp
  obtain w3 where "run_state (applyConfig sample_inst ?os c) w2 = (0, w3)"
    using run_applyConfig [of sample_inst ?os c w2] by blast
  with lock load \<open>ok\<close> \<open>r = Inr SUCCESS\<close> have "run_state (start sample_inst js ?os) boot_world = (Inr c, w3)"
    by (simp add: start_def start_locked_def)
  moreover have "run_state (getuid ?os) boot_world = (0, boot_world)"
    by (simp add: getuid_def boot_world_def)
  ultimately have "run_state (daemon_main sample_inst js ?os argv) boot_world = (Inr c, w3)"
    by (simp add: daemon_main_def assms(2))
  moreover obtain srv ready w4 where "run_state (open_socket ?os sample_net new_server) w3 = ((srv, ready), w4)"
    by (metis prod.exhaust)
  ultimately show ?thesis by blast
qed

lemma sample_boot:
  "\<exists>s. reachable sample_inst (sample_js (JObject [])) sample_os sample_net s \<and> sy_fate s = Running"
proof -
  have "trace boot_world = []" by (simp add: boot_world_def)
  moreover have "\<not> da_help (daemon_processArgs (tl [''cgproxyd'']) daemon_args0)" by (simp add: daemon_args0_def)
  ultimately show ?thesis using sample_started [OF sample_boot_load] reachable.boot by fastforce
qed

lemma sample_proper: "proper_install sample_inst"
  by (simp add: proper_install_def sample_inst_def)

subsection \<open>What the daemon may do\<close>

text \<open>
  All calls outside: those of the handlers, the questions to \<open>pidof\<close>, the statuses sent back, the lock and its file,
  the socket with its file, and what the execsnoop thread does for itself: it reports ready, and at its end it
  interrupts the process group.  Of the command lines given to the shell only the beginning is fixed: the rest is a
  name from the configuration as it stands.
\<close>

definition lawful :: "install \<Rightarrow> event \<Rightarrow> bool" where
  "lawful inst e = (daemon_calls inst e \<or> (\<exists>name. e = Popen (c_str (''pidof '' @ name))) \<or> (\<exists>fd s. e = Send_bytes fd (int_bytes s)) \<or>
     (\<exists>b. e = Lock_file PID_LOCK_FILE b) \<or> (\<exists>d. e = Write_file PID_LOCK_FILE d) \<or>
     e = Close_lock PID_LOCK_FILE \<or> e = Unlink PID_LOCK_FILE \<or> e = Unlink SOCKET_PATH \<or>
     (\<exists>fd. e = Bind fd SOCKET_PATH) \<or> e = Chmod SOCKET_PATH 511 \<or> e = Set_ready ''socketserver'' \<or>
     e = Set_ready ''execsnoop'' \<or> e = Kill 0 SIGINT)"

lemma lawful_calls: "daemon_calls inst e \<Longrightarrow> lawful inst e"
  by (simp add: lawful_def)

lemma emits_lawful_script:
  "emits (lawful inst) (applyConfig inst os c)" "emits (lawful inst) (stop inst os)"
proof -
  have "emits (lawful inst) (setenv_all nvs)" for nvs
    by (induction nvs rule: setenv_all.induct)
      (auto intro!: emits_setenv simp: lawful_def daemon_calls_def)
  then show "emits (lawful inst) (applyConfig inst os c)"
    unfolding applyConfig_def toEnv_def
    by (auto intro!: emits_system simp: lawful_def daemon_calls_def clean_cmd_def start_cmd_def)
  show "emits (lawful inst) (stop inst os)"
    unfolding stop_def unlock_def
    by (auto intro!: emits_system emits_close_lock emits_unlink
        simp: lawful_def daemon_calls_def clean_cmd_def)
qed

lemma emits_lawful_main: "emits (lawful inst) (daemon_main inst js os argv)"
proof -
  have path: "c_str PID_LOCK_FILE = PID_LOCK_FILE" by (simp add: PID_LOCK_FILE_def)
  have "emits (lawful inst) (lock os)"
    unfolding lock_def by (auto intro!: emits_flock emits_write simp: lawful_def path)
  moreover have "emits (lawful inst) (loadFromFile js os f c)" for f c
    by (rule emits_mono [OF emits_loadFromFile]) (auto simp: lawful_def daemon_calls_def)
  ultimately have "emits (lawful inst) (start inst js os)"
    unfolding start_def start_locked_def by (auto intro!: emits_lawful_script split: sum.splits)
  then show ?thesis
    unfolding daemon_main_def by (auto intro!: emits_lawful_script split: sum.splits ended.splits)
qed

lemma emits_lawful_handlers:
  "emits (lawful inst) (serve_one net (handle_msg inst js os) srv c)"
  "emits (lawful inst) (handle_pid os c pid)" "emits (lawful inst) (processRunningProgram os c)"
  "emits (lawful inst) (open_socket os net srv)"
proof -
  have "emits (service.serves (daemon_calls inst)) (serve_one net (handle_msg inst js os) srv c)"
    by (rule daemon_service.emits_serve_one)
  then show "emits (lawful inst) (serve_one net (handle_msg inst js os) srv c)"
    by (rule emits_mono) (auto simp: daemon_service.serves_def lawful_def)
  show "emits (lawful inst) (handle_pid os c pid)"
    by (rule emits_mono [OF emits_handle_pid]) (simp add: lawful_def daemon_calls_def)
  show "emits (lawful inst) (processRunningProgram os c)"
    by (rule emits_mono [OF emits_processRunningProgram]) (auto simp: lawful_def daemon_calls_def asks_pidof_def)
  show "emits (lawful inst) (open_socket os net srv)"
    unfolding open_socket_def Let_def
    by (auto intro!: emits_unlink emits_bind_path emits_chmod emits_set_ready simp: lawful_def)
qed

lemma emits_trace: "emits A m \<Longrightarrow> list_all A (trace w) \<Longrightarrow> run_state m w = (r, w') \<Longrightarrow> list_all A (trace w')"
  by (auto dest!: emitsD)

text \<open>
  C30. No message ends the daemon by an exception: whatever arrives on the socket of a running
  daemon, it goes on, unless the round faulted.
\<close>

theorem messages_never_abort:
  assumes "js_documented js" and "proper_install inst" and "reachable inst js os net s"
    and "sy_fate s = Running"
  shows "sy_fate (act inst js os net Connection s) \<in> {Running, Crashed}"
proof -
  have "config_valid (sy_cfg s) \<and> reserved (sy_cfg s)"
    using reachable_ok [OF assms(1-3)] by (simp add: system_ok_def)
  then have inv: "js_documented js \<and> config_valid (sy_cfg s) \<and> reserved (sy_cfg s)" using assms(1) by simp
  obtain r w where r: "run_state (serve_one net (handle_msg inst js os) (sy_srv s) (sy_cfg s)) (sy_world s) = (r, w)"
    by fastforce
  have "service.served_ok (\<lambda>c. js_documented js \<and> config_valid c \<and> reserved c) r"
    using daemon_service.serve_one_ok [OF inv, of net inst os "sy_srv s" "sy_world s"] r by simp
  then show ?thesis
    using assms(4) by (cases r) (simp_all add: daemon_service.served_ok_def act_def on_connection_def r)
qed

theorem messages_never_abort_witness:
  "\<exists>s. reachable sample_inst (sample_js (JObject [])) sample_os sample_net s \<and>
     sy_fate (act sample_inst (sample_js (JObject [])) sample_os sample_net Connection s) \<in> {Running, Crashed}"
proof -
  obtain s where s: "reachable sample_inst (sample_js (JObject [])) sample_os sample_net s" "sy_fate s = Running"
    using sample_boot by blast
  from messages_never_abort [OF sample_js_documented sample_proper s] s(1) show ?thesis by blast
qed

end
