(* ===== verification/Interference.thy ===== *)
theory Interference
  imports Threads_Code System
begin

text \<open>
  What a handler achieves while others run: only the socket thread changes configuration and variables and
  runs the script, so the others, and everything outside, leave alone what the script sees (\<open>aside\<close>).
  \<open>sure p F v\<close> is total correctness of a process over that view, under such interference; the rules
  follow the syntax of the processes.
\<close>

type_synonym view = "config \<times> env_vars \<times> event list"

definition view :: "'k shared \<Rightarrow> view" where
  "view s = (sh_cfg s, environ (sh_world s), systems (sh_world s))"

lemma aside_view: "aside s s' \<longleftrightarrow> view s' = view s"
  by (simp add: aside_def view_def)

definition sure :: "('k shared, 'a) process \<Rightarrow> ('a \<Rightarrow> view \<Rightarrow> bool) \<Rightarrow> view \<Rightarrow> bool" where
  "sure p F v = (\<forall>s. view s = v \<longrightarrow> assured aside p (\<lambda>a s. F a (view s)) s)"

lemma sure_Done: "F a v \<Longrightarrow> sure (Done a) F v"
  by (simp add: sure_def aside_view)

lemma sureD: "sure p F (view s) \<Longrightarrow> assured aside p (\<lambda>a s. F a (view s)) s"
  by (simp add: sure_def)

lemma sure_DoneD:
  fixes s :: "'k shared"
  assumes "sure (Done a :: ('k shared, 'a) process) F (view s)"
  shows "F a (view s)"
proof -
  from sureD [OF assms] have "aside s s \<longrightarrow> F a (view s)" by (simp only: assured.simps) blast
  then show ?thesis by (simp add: aside_view)
qed

lemma sure_andthen:
  assumes "sure p (\<lambda>a. sure (q a) F) v"
  shows "sure (andthen p q) F v"
  unfolding sure_def
proof (intro allI impI)
  fix s :: "'a shared" assume "view s = v"
  with assms have "assured aside p (\<lambda>a s. sure (q a) F (view s)) s" by (simp add: sure_def)
  then have "assured aside p (\<lambda>a. assured aside (q a) (\<lambda>a s. F a (view s))) s"
    by (rule assured_mono) (simp add: sure_def)
  then show "assured aside (andthen p q) (\<lambda>a s. F a (view s)) s"
    by (rule assured_andthen [OF aside_refl aside_trans])
qed

lemma sure_andthenE:
  assumes "sure p (\<lambda>r v. case r of Inl e \<Rightarrow> F (Inl e) v | Inr a \<Rightarrow> sure (q a) F v) v"
  shows "sure (andthenE p q) F v"
  unfolding andthenE_def
proof (rule sure_andthen)
  show "sure p (\<lambda>r. sure (case r of Inl e \<Rightarrow> Done (Inl e) | Inr x \<Rightarrow> q x) F) v"
    using assms unfolding sure_def by (auto intro!: sure_Done elim!: assured_mono split: sum.splits simp: sure_def aside_view)
qed

lemma sure_mono: "sure p F v \<Longrightarrow> (\<And>a v. F a v \<Longrightarrow> G a v) \<Longrightarrow> sure p G v"
  unfolding sure_def by (blast intro: assured_mono)

lemma sure_aside: "stands_aside p \<Longrightarrow> (\<And>a. F a v) \<Longrightarrow> sure p F v"
  unfolding sure_def by (auto intro!: assured_always [OF aside_trans] simp: aside_view)

lemma sure_call: "scriptless m \<Longrightarrow> (\<And>a. F a v) \<Longrightarrow> sure (call x m) F v"
  by (rule sure_aside [OF aside_call])

lemma sure_look: "F (g c) (c, env, sys) \<Longrightarrow> sure (look p g) F (c, env, sys)"
  by (auto simp: sure_def look_def aside_view) (simp add: view_def)

lemma sure_put: "F () (u c, env, sys) \<Longrightarrow> sure (put p u) F (c, env, sys)"
  by (auto simp: sure_def put_def aside_view) (simp add: view_def)

lemma sure_setenv: "F () (c, env(n \<mapsto> c_str x), sys) \<Longrightarrow> sure (call y (setenv n x)) F (c, env, sys)"
  by (auto simp: sure_def call_def aside_view) (simp add: view_def systems_def)

lemma sure_system:
  "(\<And>r. F r (c, env, sys @ [System (c_str cmd) env])) \<Longrightarrow> sure (call y (system_cmd os cmd)) F (c, env, sys)"
  by (auto simp: sure_def call_def aside_view split: prod.splits) (auto simp: view_def systems_def)

text \<open>One action of the process itself.\<close>

lemma sure_step: "sure (Act x f k) F (view s) \<Longrightarrow> assured aside (k s) (\<lambda>a s. F a (view s)) (f s)"
  by (auto simp: sure_def aside_view)

subsection \<open>Processes that stand aside\<close>

lemma scriptless_calls:
  "scriptless (fileExist os p)" "scriptless (dirExist os p)" "scriptless (read_file os p)" "scriptless (getuid os)"
  "scriptless (mkdir os p)" "scriptless (write2procs os pid p)" "scriptless (sleep_ms os n)" "scriptless (popen os cmd)"
  "scriptless (realpath os p)" "scriptless (close_lock os p)" "scriptless (unlink_file os p)"
  by (auto simp: scriptless_def systems_def fileExist_def dirExist_def write2procs_def call_defs split: prod.splits)

lemmas aside_calls = scriptless_calls [THEN aside_call]

lemma aside_getCgroup [intro!]: "stands_aside (t_getCgroup os pid)"
  unfolding t_getCgroup_def by (auto intro!: aside_calls split: option.splits)

lemma aside_attach [intro!]: "stands_aside (t_attach_pid os pid cg)"
  unfolding t_attach_pid_def t_attach_def Let_def by (auto intro!: aside_calls)

lemma aside_bash_output [intro!]: "stands_aside (t_bash_output os cmd)"
  unfolding t_bash_output_def by (auto intro!: aside_calls split: option.splits)

lemma aside_realpaths [intro!]: "stands_aside (t_realpaths os v)"
  by (induction v) (auto simp: t_getRealExistPath_def intro!: aside_calls)

lemma aside_pid_block [intro!]: "stands_aside (t_pid_block os pid path pl programs pl' scope preserved)"
  unfolding t_pid_block_def by (auto intro!: aside_calls aside_look)

lemma aside_handle_pid: "stands_aside (t_handle_pid os pid)"
  unfolding t_handle_pid_def by (auto intro!: aside_calls split: option.splits)

lemma aside_scan_list [intro!]: "stands_aside (t_scan_list os pl programs pl' scope preserved)"
  unfolding t_scan_list_def t_running_step_def t_bash_pidof_def
  by (auto intro!: always_each aside_calls aside_look split: option.splits)

lemma aside_processRunningProgram: "stands_aside (t_processRunningProgram os)"
  unfolding t_processRunningProgram_def by auto

subsection \<open>Loading\<close>

lemma sure_in_order: "sure p (\<lambda>_. sure (in_order ps) F) v \<Longrightarrow> sure (in_order (p # ps)) F v"
  by (simp add: sure_andthen)

lemma sure_tryassign:
  "F () (tryassign js j v get_to upd c, env, sys) \<Longrightarrow> sure (t_tryassign js j pl v get_to upd) F (c, env, sys)"
  by (auto simp: t_tryassign_def tryassign_def intro!: sure_Done sure_put split: sum.splits)

lemma sure_assign_members:
  "F () (assign_members js j c, env, sys) \<Longrightarrow> sure (t_assign_members js j) F (c, env, sys)"
  unfolding t_assign_members_def assign_members_def
  by (intro sure_in_order sure_tryassign) (simp add: sure_Done)

lemma sure_toRealProgramPath:
  "(\<And>v. F () (upd v c, env, sys)) \<Longrightarrow> sure (t_toRealProgramPath os pl get upd) F (c, env, sys)"
  unfolding t_toRealProgramPath_def
  by (intro sure_andthen sure_look sure_aside [OF aside_realpaths] sure_put) simp

lemma sure_mergeReserved: "F () (mergeReserved c, env, sys) \<Longrightarrow> sure t_mergeReserved F (c, env, sys)"
  unfolding t_mergeReserved_def
  by (intro sure_in_order sure_put) (simp add: sure_Done mergeReserved_def merge_front_def)

text \<open>
  A load that succeeds leaves a valid configuration with the built-in scopes first, any other the
  configuration it found.
\<close>

definition loaded :: "config \<Rightarrow> env_vars \<Rightarrow> event list \<Rightarrow> cint res \<Rightarrow> view \<Rightarrow> bool" where
  "loaded c env sys r v = (case v of (c', env', sys') \<Rightarrow> env' = env \<and> sys' = sys \<and>
     (if r = Inr SUCCESS then config_valid c' \<and> reserved c' else c' = c))"

lemma sure_loadFromJsonStr:
  assumes "js_documented js" and "config_valid c"
  shows "sure (t_loadFromJsonStr js os s) (loaded c env sys) (c, env, sys)"
proof (cases "validateJsonStr js s = Inr True")
  case False
  then show ?thesis
    by (auto simp: t_loadFromJsonStr_def loaded_def status_defs intro!: sure_Done split: sum.splits)
next
  case True
  then obtain j where j: "js_parse js s = Inr j" "check_members js (js_items js j) = Inr True"
    by (auto simp: validateJsonStr_def res_bind_Inr_iff)
  have valid: "config_valid (assign_members js j c)"
    by (rule assign_members_valid [OF assms(1) j(2) assms(2)])
  have "config_valid (mergeReserved (assign_members js j c\<lparr>program_noproxy := v, program_proxy := v'\<rparr>))" for v v'
    using valid by (intro mergeReserved_valid) (simp add: config_valid_def)
  then show ?thesis
    using True j(1)
    by (auto simp: t_loadFromJsonStr_def loaded_def mergeReserved_reserved status_defs
        intro!: sure_andthen sure_assign_members sure_toRealProgramPath sure_mergeReserved sure_Done)
qed

lemma sure_loadFromFile:
  assumes "js_documented js" and "config_valid c"
  shows "sure (t_loadFromFile js os f) (loaded c env sys) (c, env, sys)"
  unfolding t_loadFromFile_def
proof (intro sure_andthen sure_call scriptless_calls)
  fix ifs :: "string option"
  show "sure (case ifs of None \<Rightarrow> Done (Inr FILE_ERROR) | Some s \<Rightarrow> t_loadFromJsonStr js os s)
      (loaded c env sys) (c, env, sys)"
    using sure_loadFromJsonStr [OF assms]
    by (cases ifs) (auto intro!: sure_Done simp: loaded_def status_defs)
qed

subsection \<open>Applying\<close>

lemma sure_setenv_all:
  "F () (c, env ++ map_of (rev (map (\<lambda>(pl, n, g). (n, c_str (g c))) items)), sys) \<Longrightarrow>
   sure (t_setenv_all items) F (c, env, sys)"
  by (induction items arbitrary: env rule: t_setenv_all.induct)
    (auto intro!: sure_Done sure_andthen sure_look sure_setenv simp: map_add_upd_left)

lemma env_after_items:
  "env(''cgroup_mount_point'' \<mapsto> c_str CGROUP2_MOUNT_POINT) ++ map_of (rev (map (\<lambda>(pl, n, g). (n, c_str (g c))) env_items)) =
     env_after c env"
proof -
  have "distinct (map fst (map (\<lambda>(pl, n, g). (n, c_str (g c))) env_items))"
    by (simp add: env_items_def)
  then have "map_of (rev (map (\<lambda>(pl, n, g). (n, c_str (g c))) env_items)) =
      map_of (map (\<lambda>(pl, n, g). (n, c_str (g c))) env_items)"
    by (rule distinct_map_of_rev)
  moreover have "''cgroup_mount_point'' \<notin> dom (map_of (map (\<lambda>(pl, n, g). (n, c_str (g c))) env_items))"
    by (simp add: env_items_def)
  ultimately show ?thesis
    by (simp add: env_after_def config_env_items comp_def split_def map_add_upd_left)
qed

lemma sure_applyConfig:
  assumes "\<And>r. F r (c, env_after c env, sys @ [System (clean_cmd inst) env, System (start_cmd inst) (env_after c env)])"
  shows "sure (t_applyConfig inst os) F (c, env, sys)"
  unfolding t_applyConfig_def t_toEnv_def
  using assms
  by (intro sure_andthen sure_system sure_setenv sure_setenv_all sure_Done)
    (simp add: env_after_items clean_cmd_def start_cmd_def)

subsection \<open>The handler\<close>

definition in_order_view :: "install \<Rightarrow> view \<Rightarrow> bool" where
  "in_order_view inst v = (case v of (c, env, sys) \<Rightarrow> daemon_ok inst c env sys)"

lemma sure_load_and_apply:
  assumes "proper_install inst" and "daemon_ok inst c env sys" and "sure p (loaded c env sys) (c, env, sys)"
  shows "sure (t_load_and_apply inst os p) (\<lambda>r. in_order_view inst) (c, env, sys)"
  unfolding t_load_and_apply_def
proof (rule sure_andthenE, rule sure_mono [OF assms(3)])
  fix r :: "cint res" and v assume v: "loaded c env sys r v"
  obtain c' env' sys' where [simp]: "v = (c', env', sys')" by (cases v)
  have env: "env' = env" "sys' = sys" using v by (simp_all add: loaded_def)
  have up: "script_up inst c env sys" using assms(2) by (simp add: daemon_ok_def)
  show "case r of Inl e \<Rightarrow> in_order_view inst v
      | Inr status \<Rightarrow> sure (if status = SUCCESS then andthen (t_applyConfig inst os) (\<lambda>status. Done (Inr status))
          else Done (Inr status)) (\<lambda>r. in_order_view inst) v"
  proof (cases "r = Inr SUCCESS")
    case True
    then have "config_valid c'" "reserved c'" using v by (simp_all add: loaded_def)
    with True script_restart [OF assms(1) up in_sync_applied, of c' env] show ?thesis
      by (auto simp: in_order_view_def daemon_ok_def env intro!: sure_andthen sure_applyConfig sure_Done)
  next
    case False
    then have "in_order_view inst v" using v env assms(2) by (simp add: loaded_def in_order_view_def)
    then show ?thesis using False by (cases r) (auto intro: sure_Done)
  qed
qed

lemma sure_handle_msg:
  assumes "js_documented js" and "proper_install inst" and "in_order_view inst v"
  shows "sure (t_handle_msg inst js os msg) (\<lambda>r. in_order_view inst) v"
proof -
  obtain c env sys where v: "v = (c, env, sys)" by (cases v)
  have ok: "daemon_ok inst c env sys" "config_valid c"
    using assms(3) by (simp_all add: v in_order_view_def daemon_ok_def)
  have json: "sure (t_load_and_apply inst os (t_loadFromJsonStr js os s)) (\<lambda>r. in_order_view inst) v" for s
    unfolding v by (rule sure_load_and_apply [OF assms(2) ok(1) sure_loadFromJsonStr [OF assms(1) ok(2)]])
  have path: "sure (t_load_and_apply inst os (t_loadFromFile js os f)) (\<lambda>r. in_order_view inst) v" for f
    unfolding v by (rule sure_load_and_apply [OF assms(2) ok(1) sure_loadFromFile [OF assms(1) ok(2)]])
  have stay: "sure (Done r) (\<lambda>r. in_order_view inst) v" for r :: "cint res"
    using assms(3) by (rule sure_Done)
  have attach: "sure (t_attach_pid os pid cg) (\<lambda>r. in_order_view inst) v" for pid cg
    using assms(3) by (intro sure_aside [OF aside_attach])
  have handled: "sure (t_handle_json inst js os j) (\<lambda>r. in_order_view inst) v" for j
    unfolding t_handle_json_def
    by (auto intro: stay attach json path split: sum.splits)
  have "sure (andthen (t_handle_json inst js os j) (\<lambda>r. Done (catch_msg r))) (\<lambda>r. in_order_view inst) v" for j
    by (rule sure_andthen, rule sure_mono [OF handled], erule sure_Done)
  with stay show ?thesis
    unfolding t_handle_msg_def by (auto split: sum.splits abrupt.splits)
qed

lemma sure_serve:
  assumes "js_documented js" and "proper_install inst" and "in_order_view inst v"
  shows "sure (t_serve inst js os net fd msg) (\<lambda>r. in_order_view inst) v"
  unfolding t_serve_def
proof (rule sure_andthenE, rule sure_mono [OF sure_handle_msg [OF assms]])
  fix r :: "cint res" and v assume "in_order_view inst v"
  then show "case r of Inl e \<Rightarrow> in_order_view inst v
      | Inr status \<Rightarrow> sure (andthen (call Apart (write_fd net fd (int_bytes status))) (\<lambda>_. Done (Inr status))) (\<lambda>r. in_order_view inst) v"
    by (cases r) (auto intro!: sure_andthen sure_call scriptless_net sure_Done)
qed

lemma sure_stop:
  assumes "in_order_view inst v"
  shows "sure (t_stop inst os) (\<lambda>_ (c, env, sys). script_down inst sys) v"
proof -
  obtain c env sys where v: "v = (c, env, sys)" by (cases v)
  then have "script_down inst (sys @ [System (clean_cmd inst) env])"
    using assms by (auto simp: in_order_view_def daemon_ok_def intro: script_stopped)
  then show ?thesis
    unfolding t_stop_def v
    by (intro sure_andthen sure_system sure_call scriptless_calls sure_Done) (simp add: clean_cmd_def)
qed

end
