(* ===== verification/Threads.thy ===== *)
theory Threads
  imports Interference
begin

text \<open>
  The daemon with its threads interleaved action by action: the socket thread with \<open>handle_msg\<close> and the answer,
  the execsnoop thread with its report, \<open>handle_pid\<close> and its end, the main thread with the scan of running programs,
  and a signal handler that takes the place of one of them.  Nothing in the program keeps them apart.

  What holds of every interleaving: all the daemon does stays lawful and its configuration valid;
  whenever the socket thread rests, the script is up for the configuration.
\<close>

subsection \<open>States and moves\<close>

datatype thread = Socket | Snoop | Scanner

text \<open>The execsnoop thread sets up its library, reports ready and watches, until a poll fails.\<close>

datatype snoop_phase = Unstarted | Starting | Watching | Finished

record 'k pool =
  pl_shared :: "'k shared"
  pl_socket :: "('k shared, cint res) process"
  pl_snoop :: "('k shared, cint res) process"
  pl_scanner :: "('k shared, unit res) process"
  pl_phase :: snoop_phase
  pl_scan :: bool
  pl_handler :: "(thread \<times> ('k shared, unit) process) option"
  pl_over :: "ended option"

definition pl_snooping :: "'k pool \<Rightarrow> bool" where
  "pl_snooping P = (pl_phase P = Watching)"

text \<open>
  A message that has arrived on a connection; the thread's report; a record in the buffer; a poll that fails; the
  start of the scan; a turn; a signal; what anybody else does to the kernel, the libraries of the threads included.
\<close>

datatype 'k move = Message cint string | Snoop_ready | Program cint | Snoop_end | Scan |
  Turn thread | Interrupt thread | Handler_turn | Elsewhere 'k

definition at_once :: "('k world, unit) state \<Rightarrow> 'k shared \<Rightarrow> 'k shared" where
  "at_once m s = s\<lparr>sh_world := snd (run_state m (sh_world s))\<rparr>"

definition turn :: "('s, 'a) process \<Rightarrow> 's \<Rightarrow> ('s, 'a) process \<times> 's" where
  "turn p s = (case p of Done a \<Rightarrow> (p, s) | Act x f k \<Rightarrow> (k s, f s))"

text \<open>A thread whose function throws ends the process; one at rest takes the next message or program.\<close>

definition thrown :: "('s, 'a res) process \<Rightarrow> ended option" where
  "thrown p = (case p of Done (Inl (Throw e)) \<Rightarrow> Some (Abort (Throw e)) | _ \<Rightarrow> None)"

definition resting :: "('s, 'a res) process \<Rightarrow> bool" where
  "resting p = (case p of Done (Inr a) \<Rightarrow> True | _ \<Rightarrow> False)"

fun thread_turn :: "thread \<Rightarrow> 'k pool \<Rightarrow> 'k pool" where
  "thread_turn Socket P = (case turn (pl_socket P) (pl_shared P) of
     (p, s) \<Rightarrow> P\<lparr>pl_socket := p, pl_shared := s, pl_over := thrown p\<rparr>)"
| "thread_turn Snoop P = (case turn (pl_snoop P) (pl_shared P) of
     (p, s) \<Rightarrow> P\<lparr>pl_snoop := p, pl_shared := s, pl_over := thrown p\<rparr>)"
| "thread_turn Scanner P = (case turn (pl_scanner P) (pl_shared P) of
     (p, s) \<Rightarrow> P\<lparr>pl_scanner := p, pl_shared := s, pl_over := thrown p\<rparr>)"

text \<open>The handler runs in the place of the thread it interrupts, and ends the process with \<open>exit (0)\<close>.\<close>

definition runs :: "'k pool \<Rightarrow> thread \<Rightarrow> bool" where
  "runs P t = (\<forall>h. pl_handler P \<noteq> Some (t, h))"

definition move :: "install \<Rightarrow> nlohmann \<Rightarrow> 'k os \<Rightarrow> 'k net \<Rightarrow> 'k move \<Rightarrow> 'k pool \<Rightarrow> 'k pool" where
  "move inst js os net a P =
     (if pl_over P \<noteq> None then P
      else case a of
          Message fd msg \<Rightarrow> if runs P Socket \<and> resting (pl_socket P) then P\<lparr>pl_socket := t_serve inst js os net fd msg\<rparr> else P
        | Snoop_ready \<Rightarrow> if pl_phase P = Starting \<and> runs P Snoop
            then P\<lparr>pl_phase := Watching, pl_shared := at_once (set_ready ''execsnoop'') (pl_shared P)\<rparr> else P
        | Program pid \<Rightarrow> if pl_snooping P \<and> runs P Snoop \<and> resting (pl_snoop P) then P\<lparr>pl_snoop := t_handle_pid os pid\<rparr> else P
        | Snoop_end \<Rightarrow> if pl_snooping P \<and> runs P Snoop \<and> resting (pl_snoop P)
            then P\<lparr>pl_phase := Finished, pl_shared := at_once (kill os 0 SIGINT) (pl_shared P)\<rparr> else P
        | Scan \<Rightarrow> if pl_scan P \<and> pl_phase P \<in> {Watching, Finished} \<and> runs P Scanner
            then P\<lparr>pl_scan := False, pl_scanner := t_processRunningProgram os\<rparr> else P
        | Turn t \<Rightarrow> if runs P t then thread_turn t P else P
        | Interrupt t \<Rightarrow> if pl_handler P = None then P\<lparr>pl_handler := Some (t, t_stop inst os)\<rparr> else P
        | Handler_turn \<Rightarrow> (case pl_handler P of
              None \<Rightarrow> P
            | Some (t, Done _) \<Rightarrow> P\<lparr>pl_over := Some (Exit 0)\<rparr>
            | Some (t, Act x f k) \<Rightarrow> P\<lparr>pl_handler := Some (t, k (pl_shared P)), pl_shared := f (pl_shared P)\<rparr>)
        | Elsewhere k \<Rightarrow> P\<lparr>pl_shared := (pl_shared P)\<lparr>sh_world := (sh_world (pl_shared P))\<lparr>kern := k\<rparr>\<rparr>\<rparr>)"

text \<open>
  The threads of a daemon that came up.  With \<open>--execsnoop\<close> there is the execsnoop thread, where its library loads,
  and the main thread scans once, where that thread has reported ready in time.
\<close>

definition pool0 :: "'k world \<Rightarrow> config \<Rightarrow> bool \<Rightarrow> 'k pool" where
  "pool0 w c started = \<lparr>pl_shared = \<lparr>sh_world = w, sh_cfg = c\<rparr>, pl_socket = Done (Inr 0), pl_snoop = Done (Inr 0),
     pl_scanner = Done (Inr ()),
     pl_phase = (if started then Starting else Unstarted), pl_scan = started, pl_handler = None, pl_over = None\<rparr>"

text \<open>What it can come to when the messages are of the kind \<open>M\<close>.\<close>

inductive live :: "install \<Rightarrow> nlohmann \<Rightarrow> 'k os \<Rightarrow> 'k net \<Rightarrow> (string \<Rightarrow> bool) \<Rightarrow> 'k pool \<Rightarrow> bool"
  for inst js os net M where
  boot: "trace w = [] \<Longrightarrow> run_state (daemon_main inst js os argv) w = (Inr c, w1) \<Longrightarrow>
    run_state (open_socket os net new_server) w1 = ((srv, ready), w2) \<Longrightarrow>
    (started \<longrightarrow> da_execsnoop (daemon_processArgs (tl argv) daemon_args0)) \<Longrightarrow>
    live inst js os net M (pool0 w2 c started)"
| step: "live inst js os net M P \<Longrightarrow> (\<forall>fd msg. a = Message fd msg \<longrightarrow> M msg) \<Longrightarrow>
    live inst js os net M (move inst js os net a P)"

text \<open>A race: two threads about to touch the same place, one of them to write it.\<close>

fun thread_access :: "'k pool \<Rightarrow> thread \<Rightarrow> access" where
  "thread_access P Socket = next_access (pl_socket P)"
| "thread_access P Snoop = next_access (pl_snoop P)"
| "thread_access P Scanner = next_access (pl_scanner P)"

definition current_access :: "'k pool \<Rightarrow> thread \<Rightarrow> access" where
  "current_access P t = (case pl_handler P of
       Some (t', h) \<Rightarrow> if t = t' then next_access h else thread_access P t
     | None \<Rightarrow> thread_access P t)"

definition racy :: "'k pool \<Rightarrow> bool" where
  "racy P = (pl_over P = None \<and> list_ex (\<lambda>(t, t'). conflict (current_access P t) (current_access P t'))
     [(Socket, Snoop), (Socket, Scanner), (Snoop, Scanner)])"

text \<open>A message comes in.\<close>

lemma take_message:
  assumes "live inst js os net M P" and "pl_over P = None" and "pl_handler P = None" and "resting (pl_socket P)" and "M msg"
  shows "live inst js os net M (P\<lparr>pl_socket := t_serve inst js os net fd msg\<rparr>)"
  using live.step [OF assms(1), of "Message fd msg"] assms(2-5) by (simp add: move_def runs_def)

subsection \<open>What every action has\<close>

definition every :: "(access \<Rightarrow> ('k shared \<Rightarrow> 'k shared) \<Rightarrow> bool) \<Rightarrow> 'k pool \<Rightarrow> bool" where
  "every A P = (always A (pl_socket P) \<and> always A (pl_snoop P) \<and> always A (pl_scanner P) \<and>
     (\<forall>t h. pl_handler P = Some (t, h) \<longrightarrow> always A h))"

definition codes :: "(access \<Rightarrow> ('k shared \<Rightarrow> 'k shared) \<Rightarrow> bool) \<Rightarrow> install \<Rightarrow> nlohmann \<Rightarrow> 'k os \<Rightarrow> 'k net \<Rightarrow>
    (string \<Rightarrow> bool) \<Rightarrow> bool" where
  "codes A inst js os net M = ((\<forall>fd msg. M msg \<longrightarrow> always A (t_serve inst js os net fd msg)) \<and> (\<forall>pid. always A (t_handle_pid os pid)) \<and>
     always A (t_processRunningProgram os) \<and> always A (t_stop inst os) \<and>
     A Apart (at_once (set_ready ''execsnoop'')) \<and> A Apart (at_once (kill os 0 SIGINT)))"

lemma always_turn: "turn p s = (p', s') \<Longrightarrow> always A p \<Longrightarrow> always A p'"
  by (cases p) (auto simp: turn_def)

lemma turn_state: "turn p s = (p', s') \<Longrightarrow> always A p \<Longrightarrow> s' = s \<or> (\<exists>x f. A x f \<and> s' = f s)"
  by (cases p) (auto simp: turn_def)

lemma every_thread_turn: "every A P \<Longrightarrow> every A (thread_turn t P)"
  by (cases t) (auto simp: every_def dest: always_turn split: prod.splits)

lemma every_move:
  assumes "codes A inst js os net M" and "every A P" and "\<forall>fd msg. a = Message fd msg \<longrightarrow> M msg"
  shows "every A (move inst js os net a P)"
  using assms every_thread_turn [OF assms(2)]
  by (cases a) (auto simp: move_def codes_def every_def split: option.splits process.splits)

lemma live_every:
  assumes "codes A inst js os net M" and "live inst js os net M P"
  shows "every A P"
  using assms(2)
proof (induction rule: live.induct)
  case (boot w argv c w1 srv ready w2 started)
  with assms(1) show ?case by (simp add: pool0_def every_def codes_def)
next
  case (step P a)
  from every_move [OF assms(1) step.IH step(2)] show ?case .
qed

definition elsewhere :: "'k \<Rightarrow> 'k shared \<Rightarrow> 'k shared" where
  "elsewhere k s = s\<lparr>sh_world := (sh_world s)\<lparr>kern := k\<rparr>\<rparr>"

lemma thread_turn_state:
  assumes "every A P"
  shows "pl_shared (thread_turn t P) = pl_shared P \<or> (\<exists>x f. A x f \<and> pl_shared (thread_turn t P) = f (pl_shared P))"
  using assms by (cases t) (auto simp: every_def dest: turn_state split: prod.splits)

text \<open>So a move is an action of the threads, or one of somebody else.\<close>

lemma move_state:
  assumes "codes A inst js os net M" and "every A P"
  shows "pl_shared (move inst js os net a P) = pl_shared P \<or> (\<exists>x f. A x f \<and> pl_shared (move inst js os net a P) = f (pl_shared P)) \<or>
    (\<exists>k. pl_shared (move inst js os net a P) = elsewhere k (pl_shared P))"
  using assms thread_turn_state [OF assms(2)]
  by (cases a) (auto simp: move_def every_def codes_def elsewhere_def split: option.splits process.splits, blast+)

lemma live_shared:
  assumes "codes A inst js os net M" and "live inst js os net M P"
    and start: "\<And>w argv c w1 srv ready w2. trace w = [] \<Longrightarrow> run_state (daemon_main inst js os argv) w = (Inr c, w1) \<Longrightarrow>
      run_state (open_socket os net new_server) w1 = ((srv, ready), w2) \<Longrightarrow> I \<lparr>sh_world = w2, sh_cfg = c\<rparr>"
    and act: "\<And>x f s. A x f \<Longrightarrow> I s \<Longrightarrow> I (f s)" and outside: "\<And>k s. I s \<Longrightarrow> I (elsewhere k s)"
  shows "I (pl_shared P)"
  using assms(2)
proof (induction rule: live.induct)
  case (boot w argv c w1 srv ready w2 started)
  from start [OF boot(1-3)] show ?case by (simp add: pool0_def)
next
  case (step P a)
  from move_state [OF assms(1) live_every [OF assms(1) step(1)], of a] step.IH act outside show ?case by metis
qed

subsection \<open>Lawful and valid, whatever the interleaving\<close>

definition harmless :: "install \<Rightarrow> access \<Rightarrow> ('k shared \<Rightarrow> 'k shared) \<Rightarrow> bool" where
  "harmless inst x f = (adds (lawful inst) f \<and> (\<forall>s. config_valid (sh_cfg s) \<longrightarrow> config_valid (sh_cfg (f s))))"

lemma harmless_call: "emits (lawful inst) m \<Longrightarrow> always (harmless inst) (call x m)"
  by (simp add: call_def harmless_def adds_def emits_def)

lemma harmless_at_once: "emits (lawful inst) m \<Longrightarrow> harmless inst Apart (at_once m)"
  by (simp add: at_once_def harmless_def adds_def emits_def)

lemma harmless_look: "always (harmless inst) (look pl g)"
  by (simp add: look_def harmless_def adds_def)

lemma harmless_put: "(\<And>c. config_valid c \<Longrightarrow> config_valid (u c)) \<Longrightarrow> always (harmless inst) (put pl u)"
  by (simp add: put_def harmless_def adds_def)

lemma lawful_preserved:
  "cg \<in> preserved_cgroups \<Longrightarrow> lawful inst (Mkdir (c_str (cgroup2_mount_point @ cg)) b)"
  "cg \<in> preserved_cgroups \<Longrightarrow> lawful inst (Append (c_str (cgroup2_mount_point @ cg @ ''/cgroup.procs'')) d r)"
  by (auto simp: lawful_def daemon_calls_def moves_pid_def touches_def)

lemma lawful_popen:
  "lawful inst (Popen (c_str (''which '' @ name)))" "lawful inst (Popen (c_str (''readlink -e '' @ name)))"
  "lawful inst (Popen (c_str (''pidof '' @ name)))"
  using asks_path_cmds unfolding lawful_def daemon_calls_def by blast+

lemma harmless_getCgroup [intro!]: "always (harmless inst) (t_getCgroup os pid)"
  unfolding t_getCgroup_def by (auto intro!: harmless_call split: option.splits)

lemma harmless_attach: "cg \<in> preserved_cgroups \<Longrightarrow> always (harmless inst) (t_attach_pid os pid cg)"
  unfolding t_attach_pid_def t_attach_def Let_def
  by (auto intro!: harmless_call emits_mkdir emits_write2procs lawful_preserved)

lemma harmless_bash_output: "lawful inst (Popen (c_str cmd)) \<Longrightarrow> always (harmless inst) (t_bash_output os cmd)"
  unfolding t_bash_output_def by (auto intro!: harmless_call emits_popen split: option.splits)

lemmas harmless_queries = harmless_bash_output [OF lawful_popen(1), simplified] harmless_bash_output [OF lawful_popen(2), simplified]

lemma harmless_getRealExistPath [intro!]: "always (harmless inst) (t_getRealExistPath os name)"
  unfolding t_getRealExistPath_def by (intro always_andthen) (auto intro!: harmless_call harmless_queries)

lemma harmless_realpaths [intro!]: "always (harmless inst) (t_realpaths os v)"
  by (induction v) auto

lemma harmless_pid_block: "cg \<in> preserved_cgroups \<Longrightarrow> always (harmless inst) (t_pid_block os pid path pl g pl' g' cg)"
  unfolding t_pid_block_def by (auto intro!: harmless_look harmless_attach)

lemma harmless_handle_pid: "always (harmless inst) (t_handle_pid os pid)"
  unfolding t_handle_pid_def
  by (auto intro!: harmless_call harmless_pid_block simp: preserved_cgroups_members split: option.splits)

lemma harmless_scan_list: "cg \<in> preserved_cgroups \<Longrightarrow> always (harmless inst) (t_scan_list os pl g pl' g' cg)"
  unfolding t_scan_list_def t_running_step_def t_bash_pidof_def
  by (auto intro!: always_each harmless_call harmless_look harmless_attach emits_popen lawful_popen(3) [simplified] split: option.splits)

lemma harmless_processRunningProgram: "always (harmless inst) (t_processRunningProgram os)"
  unfolding t_processRunningProgram_def by (auto intro!: harmless_scan_list simp: preserved_cgroups_members)

lemma harmless_stop: "always (harmless inst) (t_stop inst os)"
  unfolding t_stop_def
  by (auto intro!: harmless_call emits_system emits_close_lock emits_unlink
      simp: lawful_def daemon_calls_def clean_cmd_def)

lemma harmless_applyConfig [intro!]: "always (harmless inst) (t_applyConfig inst os)"
proof -
  have "always (harmless inst) (t_setenv_all items)" for items
    by (induction items rule: t_setenv_all.induct)
      (auto intro!: harmless_call harmless_look emits_setenv simp: lawful_def daemon_calls_def)
  then show ?thesis
    unfolding t_applyConfig_def t_toEnv_def
    by (auto intro!: harmless_call emits_system emits_setenv
        simp: lawful_def daemon_calls_def clean_cmd_def start_cmd_def)
qed

text \<open>A member is assigned only what validation accepted for it.\<close>

lemma harmless_tryassign:
  "(\<And>y x c. js_at js j v = Inr y \<Longrightarrow> get_to y = Inr x \<Longrightarrow> config_valid c \<Longrightarrow> config_valid (upd x c)) \<Longrightarrow>
   always (harmless inst) (t_tryassign js j pl v get_to upd)"
  by (auto simp: t_tryassign_def res_bind_Inr_iff intro!: harmless_put split: sum.splits)

lemma harmless_in_order: "list_all (always A) ps \<Longrightarrow> always A (in_order ps)"
  by (induction ps) auto

lemma harmless_assign_members:
  assumes doc: "js_documented js" and ok: "check_members js (js_items js j) = Inr True"
  shows "always (harmless inst) (t_assign_members js j)"
proof -
  have cgroups: "validCgroup_vec x"
    if "k = ''cgroup_proxy'' \<or> k = ''cgroup_noproxy''" "js_at js j k = Inr y" "js_strings js y = Inr x" for k x y
  proof -
    from validated_at [OF doc ok that(2)] that(1) have "check_cgroup js y = Inr True" by (auto simp: check_member_def)
    from check_cgroup_strings [OF doc this that(3)] show ?thesis .
  qed
  have "validPort x" if "js_at js j ''port'' = Inr y" "js_int js y = Inr x" for x y
    using validated_at [OF doc ok that(1)] that(2) by (simp add: check_member_def)
  then show ?thesis
    unfolding t_assign_members_def
    by (intro harmless_in_order) (auto intro!: harmless_tryassign intro: cgroups simp: config_valid_def)
qed

lemma harmless_load:
  assumes "js_documented js"
  shows "always (harmless inst) (t_loadFromJsonStr js os s)"
proof -
  have programs: "always (harmless inst) (t_toRealProgramPath os pl get upd)"
    if "\<And>v c. config_valid c \<Longrightarrow> config_valid (upd v c)" for pl get upd
    unfolding t_toRealProgramPath_def using that by (auto intro!: harmless_look harmless_put)
  have "always (harmless inst) t_mergeReserved"
    unfolding t_mergeReserved_def
    by (intro harmless_in_order)
      (auto intro!: harmless_put simp: config_valid_def validCgroup_vec_def list_all_iff)
  then show ?thesis
    unfolding t_loadFromJsonStr_def
    using harmless_assign_members [OF assms]
    by (auto simp: validateJsonStr_def intro!: programs split: sum.splits) (auto simp: config_valid_def)
qed

lemma harmless_handle_msg:
  assumes "js_documented js"
  shows "always (harmless inst) (t_handle_msg inst js os msg)"
proof -
  have both: "always (harmless inst) (t_load_and_apply inst os p)" if "always (harmless inst) p" for p
    unfolding t_load_and_apply_def using that by auto
  show ?thesis
    unfolding t_handle_msg_def t_handle_json_def t_loadFromFile_def
    using harmless_load [OF assms]
    by (auto intro!: both harmless_attach harmless_call simp: preserved_cgroups_members
        split: sum.splits abrupt.splits option.splits)
qed

lemma harmless_serve: "js_documented js \<Longrightarrow> always (harmless inst) (t_serve inst js os net fd msg)"
  unfolding t_serve_def by (auto intro!: harmless_handle_msg harmless_call emits_write_fd simp: lawful_def)

lemma harmless_own:
  "harmless inst Apart (at_once (set_ready ''execsnoop''))" "harmless inst Apart (at_once (kill os 0 SIGINT))"
  by (intro harmless_at_once emits_set_ready emits_kill; simp add: lawful_def)+

lemma codes_harmless: "js_documented js \<Longrightarrow> codes (harmless inst) inst js os net M"
  by (simp add: codes_def harmless_serve harmless_handle_pid harmless_processRunningProgram harmless_stop harmless_own)

lemma scriptless_open_socket: "scriptless (open_socket os net srv)"
  by (rule scriptlessI [where A = "\<lambda>e. \<not> is_system e"])
    (auto simp: open_socket_def Let_def intro!: emits_rules emits_bind_path emits_chmod)

text \<open>A daemon that came up.\<close>

lemma boot_view:
  assumes "js_documented js" and "proper_install inst" and "trace w = []"
    and "run_state (daemon_main inst js os argv) w = (Inr c, w1)"
    and "run_state (open_socket os net new_server) w1 = ((srv, ready), w2)"
  shows "in_order_view inst (c, environ w2, systems w2)"
  using boot_ok [OF assms(1-4)] scriptlessD [OF scriptless_open_socket assms(5)]
  by (simp add: in_order_view_def)

text \<open>
  C18. Whatever the threads do in whatever order, action by action, with any messages and signals and
  anything other processes do to the kernel: every event of the trace is one of the lawful ones, and the
  configuration object is valid at every moment, in the middle of a load too.
\<close>

theorem threads_lawful:
  assumes "js_documented js" and "proper_install inst" and "live inst js os net M P"
  shows "list_all (lawful inst) (trace (sh_world (pl_shared P))) \<and> config_valid (sh_cfg (pl_shared P))"
proof (rule live_shared [OF codes_harmless [OF assms(1)] assms(3)])
  fix w :: "'a world" and argv c w1 srv ready w2
  assume boot: "trace w = []" "run_state (daemon_main inst js os argv) w = (Inr c, w1)"
    "run_state (open_socket os net new_server) w1 = ((srv, ready), w2)"
  have "list_all (lawful inst) (trace w1)"
    by (rule emits_trace [OF emits_lawful_main _ boot(2)]) (simp add: boot(1))
  from emits_trace [OF emits_lawful_handlers(4) this boot(3)] boot_view [OF assms(1,2) boot]
  show "list_all (lawful inst) (trace (sh_world \<lparr>sh_world = w2, sh_cfg = c\<rparr>)) \<and> config_valid (sh_cfg \<lparr>sh_world = w2, sh_cfg = c\<rparr>)"
    by (simp add: in_order_view_def daemon_ok_def)
next
  fix x and f :: "'a shared \<Rightarrow> 'a shared" and s :: "'a shared"
  assume "harmless inst x f" "list_all (lawful inst) (trace (sh_world s)) \<and> config_valid (sh_cfg s)"
  then show "list_all (lawful inst) (trace (sh_world (f s))) \<and> config_valid (sh_cfg (f s))"
    by (auto simp: harmless_def adds_def) (metis list_all_append)
qed (simp add: elsewhere_def)

subsection \<open>At rest\<close>

lemma turn_aside:
  "stands_aside p \<Longrightarrow> turn p s = (p', s') \<Longrightarrow> aside s s' \<and> stands_aside p'"
  by (cases p) (auto simp: turn_def aside_def)

lemma turn_sure:
  fixes s :: "'k shared"
  assumes "sure p F (view s)" and "turn p s = (p', s')"
  shows "sure p' F (view s')"
proof (cases p)
  case (Done a)
  with assms show ?thesis by (simp add: turn_def)
next
  case (Act x f k)
  with assms(2) have p': "p' = k s" "s' = f s" by (simp_all add: turn_def)
  have "assured aside (k s) (\<lambda>a s. F a (view s)) t" if "view t = view s'" for t
    using sure_step [OF assms(1) [unfolded Act]] assured_moved [OF aside_trans] that p'(2)
    by (auto simp: aside_view)
  then show ?thesis by (simp add: sure_def p'(1))
qed

text \<open>
  The others stand aside, and until a signal comes the socket thread is on its way to a state in order.
\<close>

definition on_its_way :: "install \<Rightarrow> 'k pool \<Rightarrow> bool" where
  "on_its_way inst P = (stands_aside (pl_snoop P) \<and> stands_aside (pl_scanner P) \<and>
     (pl_handler P = None \<longrightarrow> sure (pl_socket P) (\<lambda>r. in_order_view inst) (view (pl_shared P))))"

lemma resting_sure:
  fixes p :: "('k shared, 'a res) process" and s :: "'k shared"
  assumes "resting p" and "sure p (\<lambda>r v. G v) (view s)"
  shows "G (view s)"
  using assms by (cases p) (auto simp: resting_def dest: sure_DoneD)

lemma sure_aside_move: "aside s s' \<Longrightarrow> sure p F (view s) \<Longrightarrow> sure p F (view s')"
  by (simp add: aside_view)

lemma on_its_way_turn:
  assumes "on_its_way inst P"
  shows "on_its_way inst (thread_turn t P)"
proof (cases t)
  case Socket
  with assms show ?thesis by (auto simp: on_its_way_def intro: turn_sure split: prod.splits)
next
  case Snoop
  with assms show ?thesis
    by (auto simp: on_its_way_def split: prod.splits dest: turn_aside intro: sure_aside_move)
next
  case Scanner
  with assms show ?thesis
    by (auto simp: on_its_way_def split: prod.splits dest: turn_aside intro: sure_aside_move)
qed

lemma view_elsewhere [simp]: "view (s\<lparr>sh_world := (sh_world s)\<lparr>kern := k\<rparr>\<rparr>) = view s"
  by (simp add: view_def systems_def)

lemma view_at_once: "scriptless m \<Longrightarrow> view (at_once m s) = view s"
  by (simp add: at_once_def view_def scriptless_def)

lemma view_own [simp]:
  "view (at_once (set_ready n) s) = view s" "view (at_once (kill os pid sig) s) = view s"
  by (auto intro!: view_at_once simp: scriptless_def systems_def call_defs)

lemma on_its_way_move:
  assumes "js_documented js" and "proper_install inst" and "on_its_way inst P"
  shows "on_its_way inst (move inst js os net a P)"
proof -
  have msg: "sure (t_serve inst js os net fd msg) (\<lambda>r. in_order_view inst) (view (pl_shared P))"
    if "resting (pl_socket P)" "pl_handler P = None" for fd msg
  proof (rule sure_serve [OF assms(1,2)])
    have "sure (pl_socket P) (\<lambda>r. in_order_view inst) (view (pl_shared P))"
      using assms(3) that(2) by (simp add: on_its_way_def)
    from resting_sure [OF that(1) this] show "in_order_view inst (view (pl_shared P))" .
  qed
  show ?thesis
    using assms(3) on_its_way_turn [OF assms(3)] msg aside_handle_pid aside_processRunningProgram
    by (cases a) (auto simp: move_def on_its_way_def split: option.splits process.splits)
qed

lemma live_on_its_way:
  assumes "js_documented js" and "proper_install inst" and "live inst js os net M P"
  shows "on_its_way inst P"
  using assms(3)
proof (induction rule: live.induct)
  case (boot w argv c w1 srv ready w2 started)
  from boot_view [OF assms(1,2) boot(1-3)] show ?case
    by (auto simp: on_its_way_def pool0_def view_def aside_processRunningProgram intro: sure_Done)
next
  case (step P a)
  from on_its_way_move [OF assms(1,2) step.IH] show ?case .
qed

text \<open>
  C4. However the threads are interleaved, as long as no signal has come: whenever the socket thread is between two
  messages, the script was last started under exactly the variables that are set, they hold the configuration
  in the object, and every earlier start was undone by a stop under its own variables.
\<close>

theorem at_rest_in_order:
  assumes "js_documented js" and "proper_install inst" and "live inst js os net M P"
    and "pl_handler P = None" and "resting (pl_socket P)"
  shows "daemon_ok inst (sh_cfg (pl_shared P)) (environ (sh_world (pl_shared P))) (systems (sh_world (pl_shared P)))"
proof -
  have "sure (pl_socket P) (\<lambda>r. in_order_view inst) (view (pl_shared P))"
    using live_on_its_way [OF assms(1-3)] assms(4) by (simp add: on_its_way_def)
  from resting_sure [OF assms(5) this] show ?thesis by (simp add: in_order_view_def view_def)
qed

subsection \<open>The sample daemon\<close>

lemma sample_pool:
  assumes "snd (fst (run_state (seq (lock sample_os) (\<lambda>_.
     loadFromFile js sample_os (DEFAULT_CONFIG_FILE sample_inst) default_config)) boot_world)) = Inr SUCCESS"
  shows "\<exists>P. live sample_inst js sample_os sample_net M P \<and> pl_over P = None \<and> pl_handler P = None \<and>
    resting (pl_socket P) \<and> resting (pl_snoop P) \<and> pl_snooping P \<and> kern (sh_world (pl_shared P)) = sample_kern"
proof -
  obtain c w1 srv ready w2 where "run_state (daemon_main sample_inst js sample_os [''cgproxyd'', ''--execsnoop'']) boot_world = (Inr c, w1)"
    "run_state (open_socket sample_os sample_net new_server) w1 = ((srv, ready), w2)"
    using sample_started [OF assms, of "[''cgproxyd'', ''--execsnoop'']"] by (auto simp: daemon_args0_def daemon_flags_def not_option_def)
  then have "live sample_inst js sample_os sample_net M (pool0 w2 c True)"
    by (intro live.boot) (auto simp: boot_world_def daemon_args0_def daemon_flags_def not_option_def)
  then have "live sample_inst js sample_os sample_net M (move sample_inst js sample_os sample_net (Elsewhere sample_kern)
      (move sample_inst js sample_os sample_net Snoop_ready (pool0 w2 c True)))"
    by (intro live.step) auto
  then show ?thesis
    by (intro exI conjI) (auto simp: move_def pool0_def resting_def runs_def pl_snooping_def)
qed

definition rest_js :: nlohmann where
  "rest_js = sample_js (JObject [])"

definition news_js :: nlohmann where
  "news_js = wire_js ''msg'' (JObject [(''type'', JInt 1), (''data'', JNull)]) (JObject [(''program_noproxy'', JArray [])])"

lemma news_documented: "js_documented news_js"
  by (simp add: news_js_def wire_js_documented)

lemma sample_news_load:
  "snd (fst (run_state (seq (lock sample_os) (\<lambda>_.
     loadFromFile news_js sample_os (DEFAULT_CONFIG_FILE sample_inst) default_config)) boot_world)) = Inr SUCCESS"
  by code_simp

lemmas news_pool = sample_pool [OF sample_news_load]

theorem threads_lawful_witness:
  "\<exists>P. live sample_inst news_js sample_os sample_net (\<lambda>_. True) P \<and>
    pl_socket P = t_serve sample_inst news_js sample_os sample_net 5 ''msg'' \<and>
    list_all (lawful sample_inst) (trace (sh_world (pl_shared P))) \<and> config_valid (sh_cfg (pl_shared P))"
proof -
  obtain P where P: "live sample_inst news_js sample_os sample_net (\<lambda>_. True) P" "pl_over P = None" "pl_handler P = None"
    "resting (pl_socket P)" using news_pool by blast
  note P' = take_message [OF P TrueI, of 5 "''msg''"]
  from P' threads_lawful [OF news_documented sample_proper P'] show ?thesis
    by (intro exI [of _ "P\<lparr>pl_socket := t_serve sample_inst news_js sample_os sample_net 5 ''msg''\<rparr>"]) simp
qed

theorem at_rest_in_order_witness:
  "\<exists>P. live sample_inst news_js sample_os sample_net (\<lambda>_. True) P \<and>
    daemon_ok sample_inst (sh_cfg (pl_shared P)) (environ (sh_world (pl_shared P))) (systems (sh_world (pl_shared P)))"
proof -
  obtain P where P: "live sample_inst news_js sample_os sample_net (\<lambda>_. True) P" "pl_handler P = None" "resting (pl_socket P)"
    using news_pool by blast
  from P(1) at_rest_in_order [OF news_documented sample_proper P] show ?thesis by blast
qed

end
