(* ===== verification/Thread_Races.thy ===== *)
theory Thread_Races
  imports Threads
begin

text \<open>
  What the interleaved threads do to each other.  Without configuration messages there is no data race and a
  signal leaves the script down, also where such messages came before; with them, threads write and read the same vectors,
  \<open>handle_pid\<close> can act on two configurations at once, and a signal can leave the rules in place.
\<close>

subsection \<open>Without configuration messages\<close>

definition config_free :: "nlohmann \<Rightarrow> string \<Rightarrow> bool" where
  "config_free js msg = (case res_bind (js_parse js msg) (\<lambda>j. res_bind (js_at js j ''type'') (js_int js)) of
       Inl e \<Rightarrow> True
     | Inr type \<Rightarrow> type \<noteq> MSG_TYPE_CONFIG_JSON \<and> type \<noteq> MSG_TYPE_CONFIG_PATH)"

lemma always_config_free:
  assumes "config_free js msg" and "\<And>pid cg. always A (t_attach_pid os pid cg)"
    and "\<And>bs. always A (call Apart (write_fd net fd bs))"
  shows "always A (t_serve inst js os net fd msg)"
proof -
  have "always A (t_handle_msg inst js os msg)"
    using assms(1,2)
    by (auto simp: t_handle_msg_def t_handle_json_def config_free_def split: sum.splits abrupt.splits)
  with assms(3) show ?thesis unfolding t_serve_def by auto
qed

abbreviation no_write :: "access \<Rightarrow> ('s \<Rightarrow> 's) \<Rightarrow> bool" where
  "no_write x f \<equiv> (\<forall>pl. x \<noteq> Writes pl)"

lemma no_write_call: "no_write x f \<Longrightarrow> always no_write (call x m)"
  by (simp add: call_def)

lemma no_write_look: "always no_write (look pl g)"
  by (simp add: look_def)

lemma no_write_attach [intro!]: "always no_write (t_attach_pid os pid cg)"
  unfolding t_attach_pid_def t_attach_def t_getCgroup_def Let_def
  by (auto intro!: no_write_call split: option.splits)

lemma no_write_pid_block [intro!]: "always no_write (t_pid_block os pid path pl g pl' g' cg)"
  unfolding t_pid_block_def t_getCgroup_def by (auto intro!: no_write_call no_write_look split: option.splits)

lemma no_write_scan_list [intro!]: "always no_write (t_scan_list os pl g pl' g' cg)"
  unfolding t_scan_list_def t_running_step_def t_bash_pidof_def t_getCgroup_def
  by (auto intro!: always_each no_write_call no_write_look split: option.splits)

lemma no_write_stop: "always no_write (t_stop inst os)"
  unfolding t_stop_def by (auto intro!: no_write_call)

lemma codes_no_write: "codes no_write inst js os net (config_free js)"
  unfolding codes_def t_handle_pid_def t_processRunningProgram_def
  by (auto intro!: always_config_free no_write_call no_write_stop split: option.splits)

lemma no_write_next: "always no_write p \<Longrightarrow> next_access p \<noteq> Writes pl"
  by (cases p) auto

lemma not_racy:
  assumes "every no_write P"
  shows "\<not> racy P"
proof -
  have none: "current_access P t \<noteq> Writes pl" for t pl
    using assms by (cases t) (auto simp: every_def current_access_def dest: no_write_next split: option.splits)
  have "\<not> conflict (current_access P t) (current_access P t')" for t t'
    using none [of t] none [of t'] by (cases "current_access P t"; cases "current_access P t'") auto
  then show ?thesis by (simp add: racy_def)
qed

text \<open>The handler's way out, and what it leaves.\<close>

definition leaving :: "install \<Rightarrow> 'k pool \<Rightarrow> bool" where
  "leaving inst P = (stands_aside (pl_socket P) \<and> stands_aside (pl_snoop P) \<and> stands_aside (pl_scanner P) \<and>
     (pl_handler P = None \<longrightarrow> in_order_view inst (view (pl_shared P))) \<and>
     (\<forall>t h. pl_handler P = Some (t, h) \<longrightarrow> sure h (\<lambda>_ (c, env, sys). script_down inst sys) (view (pl_shared P))) \<and>
     (\<forall>status. pl_over P = Some (Exit status) \<longrightarrow> status = 0 \<and> script_down inst (snd (snd (view (pl_shared P))))))"

lemma thrown_not_Exit: "thrown p \<noteq> Some (Exit status)"
  by (auto simp: thrown_def split: process.splits sum.splits abrupt.splits)

lemma thread_turn_aside:
  fixes P :: "'k pool" and t :: thread
  assumes "stands_aside (pl_socket P)" and "stands_aside (pl_snoop P)" and "stands_aside (pl_scanner P)"
  defines "P' \<equiv> thread_turn t P"
  shows "view (pl_shared P') = view (pl_shared P)" "pl_handler P' = pl_handler P" "pl_over P' \<noteq> Some (Exit status)"
    "stands_aside (pl_socket P')" "stands_aside (pl_snoop P')" "stands_aside (pl_scanner P')"
proof -
  show "pl_over P' \<noteq> Some (Exit status)"
    unfolding P'_def by (cases t) (auto simp: thrown_not_Exit split: prod.splits)
  show "view (pl_shared P') = view (pl_shared P)" "pl_handler P' = pl_handler P"
    "stands_aside (pl_socket P')" "stands_aside (pl_snoop P')" "stands_aside (pl_scanner P')"
    unfolding P'_def using assms(1-3)
    by (cases t; auto split: prod.splits dest!: turn_aside [rotated] simp: aside_view)+
qed

lemma leaving_turn: "leaving inst P \<Longrightarrow> leaving inst (thread_turn t P)"
  unfolding leaving_def by (auto simp: thread_turn_aside)

lemma leaving_handler:
  assumes "leaving inst P" and "pl_handler P = Some (t, h)" and "pl_over P = None"
  shows "leaving inst (move inst js os net Handler_turn P)"
proof (cases h)
  case (Done a)
  then have "script_down inst (snd (snd (view (pl_shared P))))"
    using assms(1,2) sure_DoneD [of a "\<lambda>_ (c, env, sys). script_down inst sys" "pl_shared P"]
    by (auto simp: leaving_def split: prod.splits)
  with assms Done show ?thesis by (simp add: move_def leaving_def)
next
  case (Act x f k)
  then have "turn h (pl_shared P) = (k (pl_shared P), f (pl_shared P))" by (simp add: turn_def)
  with assms Act turn_sure show ?thesis by (fastforce simp: move_def leaving_def)
qed

lemma leaving_move:
  assumes "leaving inst P" and "\<forall>fd msg. a = Message fd msg \<longrightarrow> config_free js msg"
  shows "leaving inst (move inst js os net a P)"
proof (cases "pl_over P = None")
  case True
  have "stands_aside (t_serve inst js os net fd msg)" if "config_free js msg" for fd msg
    using that by (rule always_config_free) (auto intro: aside_call scriptless_net)
  moreover have "sure (t_stop inst os) (\<lambda>_ (c, env, sys). script_down inst sys) (view (pl_shared P))"
    if "pl_handler P = None"
  proof (cases "view (pl_shared P)")
    case (fields c env sys)
    with assms(1) that show ?thesis by (auto simp: leaving_def intro: sure_stop)
  qed
  ultimately show ?thesis
    using assms True leaving_turn [OF assms(1)] leaving_handler [OF assms(1) _ True] aside_handle_pid aside_processRunningProgram
    by (cases a; cases "pl_handler P") (auto simp: move_def leaving_def)
qed (use assms in \<open>simp add: move_def\<close>)

lemma live_leaving:
  assumes "js_documented js" and "proper_install inst" and "live inst js os net (config_free js) P"
  shows "leaving inst P"
  using assms(3)
proof (induction rule: live.induct)
  case (boot w argv c w1 srv ready w2 started)
  from boot_view [OF assms(1,2) boot(1-3)] show ?case
    by (auto simp: leaving_def pool0_def view_def aside_processRunningProgram)
next
  case (step P a)
  from leaving_move [OF step.IH step(2)] show ?case .
qed

text \<open>
  C31. As long as no message changes the configuration, the threads are free of data races, and a signal ends the
  daemon as it should: with status 0, the last run of the script its stop, whatever the other threads are in
  the middle of.
\<close>

theorem orderly_without_config_messages:
  assumes "js_documented js" and "proper_install inst" and "live inst js os net (config_free js) P"
  shows "\<not> racy P \<and> (\<forall>status. pl_over P = Some (Exit status) \<longrightarrow>
    status = 0 \<and> script_down inst (systems (sh_world (pl_shared P))))"
  using not_racy [OF live_every [OF codes_no_write assms(3)]] live_leaving [OF assms] by (simp add: leaving_def view_def)

lemma leaving_moves:
  "leaving inst P \<Longrightarrow> \<forall>fd msg. Message fd msg \<in> set as \<longrightarrow> config_free js msg \<Longrightarrow>
   leaving inst (fold (move inst js os net) as P)"
proof (induction as arbitrary: P)
  case (Cons a as)
  have "leaving inst (move inst js os net a P)" by (rule leaving_move [OF Cons.prems(1)]) (use Cons.prems(2) in auto)
  with Cons show ?case by simp
qed simp

lemma resting_leaving:
  assumes "on_its_way inst P" and "pl_over P = None" and "pl_handler P = None" and "resting (pl_socket P)"
  shows "leaving inst P"
proof -
  have "sure (pl_socket P) (\<lambda>r. in_order_view inst) (view (pl_shared P))"
    using assms(1,3) by (simp add: on_its_way_def)
  from resting_sure [OF assms(4) this] show ?thesis
    using assms by (cases "pl_socket P") (auto simp: leaving_def on_its_way_def resting_def)
qed

text \<open>A signal that nothing comes in between of.\<close>

abbreviation signalled :: "thread \<Rightarrow> 'k move list" where
  "signalled t \<equiv> [Interrupt t, Handler_turn, Handler_turn, Handler_turn, Handler_turn]"

lemma signal_ends:
  assumes "pl_over P = None" and "pl_handler P = None"
  shows "pl_over (fold (move inst js os net) (signalled t) P) = Some (Exit 0)"
  using assms by (simp add: move_def t_stop_def call_def)

text \<open>
  C3. A signal that does not meet a configuration message: whatever the daemon has been through, from any moment between
  two messages on, as long as no further message changes the configuration, a signal at any point, in the middle of
  an attach, a \<open>handle_pid\<close> or the scan, ends it with status 0 and the script down, whatever the other threads do
  until the handler is through; and the handler, let run, does end it.
\<close>

theorem signal_between_messages:
  assumes "js_documented js" and "proper_install inst" and "live inst js os net M P"
    and "pl_over P = None" and "pl_handler P = None" and "resting (pl_socket P)"
    and "\<forall>fd msg. Message fd msg \<in> set as \<longrightarrow> config_free js msg"
  shows "let P' = fold (move inst js os net) as P in
    (\<forall>status. pl_over P' = Some (Exit status) \<longrightarrow> status = 0 \<and> script_down inst (systems (sh_world (pl_shared P')))) \<and>
    (pl_over P' = None \<and> pl_handler P' = None \<longrightarrow>
      (\<forall>t. pl_over (fold (move inst js os net) (signalled t) P') = Some (Exit 0) \<and>
        script_down inst (systems (sh_world (pl_shared (fold (move inst js os net) (signalled t) P'))))))"
proof -
  let ?at = "\<lambda>as. fold (move inst js os net) as P"
  have down: "script_down inst (systems (sh_world (pl_shared (?at as)))) \<and> status = 0"
    if "pl_over (?at as) = Some (Exit status)" "\<forall>fd msg. Message fd msg \<in> set as \<longrightarrow> config_free js msg" for as status
    using leaving_moves [OF resting_leaving [OF live_on_its_way [OF assms(1-3)] assms(4-6)] that(2)] that(1)
    by (simp add: leaving_def view_def)
  have "script_down inst (systems (sh_world (pl_shared (fold (move inst js os net) (signalled t) (?at as)))))"
    if "pl_over (?at as) = None" "pl_handler (?at as) = None" for t
    using down [of "as @ signalled t" 0] signal_ends [OF that] assms(7) by (simp del: fold.simps)
  then show ?thesis using down [OF _ assms(7)] signal_ends unfolding Let_def by blast
qed

subsection \<open>With them\<close>

text \<open>Moves of one thread until a part of its process is over.\<close>

lemma socket_runs:
  assumes "pl_over P = None" and "pl_handler P = None"
    and "pl_socket P = andthen p q" and "run_alone p (pl_shared P) = (a, s)" and "thrown (q a) = None"
  shows "\<exists>n. fold (move inst js os net) (replicate n (Turn Socket)) P = P\<lparr>pl_socket := q a, pl_shared := s\<rparr>"
  using assms
proof (induction p arbitrary: P)
  case (Done b)
  then have "fold (move inst js os net) (replicate 0 (Turn Socket)) P = P\<lparr>pl_socket := q a, pl_shared := s\<rparr>"
    by (cases P) simp
  then show ?case by blast
next
  case (Act y g l)
  let ?s = "pl_shared P"
  let ?P = "move inst js os net (Turn Socket) P"
  from Act.prems(4) have rest: "run_alone (l ?s) (g ?s) = (a, s)" by simp
  have "thrown (andthen (l ?s) q) = None"
    using rest Act.prems(5) by (cases "l ?s") (auto simp: thrown_def)
  then have P: "?P = P\<lparr>pl_socket := andthen (l ?s) q, pl_shared := g ?s\<rparr>"
    using Act.prems(1-3) by (cases P) (simp add: move_def runs_def turn_def)
  have "\<exists>n. fold (move inst js os net) (replicate n (Turn Socket)) ?P = ?P\<lparr>pl_socket := q a, pl_shared := s\<rparr>"
    by (rule Act.IH) (use Act.prems rest in \<open>auto simp: P\<close>)
  then obtain n where "fold (move inst js os net) (replicate n (Turn Socket)) ?P = ?P\<lparr>pl_socket := q a, pl_shared := s\<rparr>" ..
  then have "fold (move inst js os net) (replicate (Suc n) (Turn Socket)) P = P\<lparr>pl_socket := q a, pl_shared := s\<rparr>"
    by (simp add: P)
  then show ?case by blast
qed

lemma live_moves:
  "live inst js os net M P \<Longrightarrow> \<forall>fd msg. Message fd msg \<in> set as \<longrightarrow> M msg \<Longrightarrow> live inst js os net M (fold (move inst js os net) as P)"
proof (induction as arbitrary: P)
  case (Cons a as)
  have "live inst js os net M (move inst js os net a P)" by (rule live.step [OF Cons.prems(1)]) (use Cons.prems(2) in auto)
  with Cons show ?case by simp
qed simp

lemma live_socket_runs:
  assumes "live inst js os net M P" and "pl_over P = None" and "pl_handler P = None"
    and "pl_socket P = andthen p q" and "run_alone p (pl_shared P) = (a, s)" and "thrown (q a) = None"
  shows "live inst js os net M (P\<lparr>pl_socket := q a, pl_shared := s\<rparr>)"
proof -
  obtain n where n: "fold (move inst js os net) (replicate n (Turn Socket)) P = P\<lparr>pl_socket := q a, pl_shared := s\<rparr>"
    using socket_runs [OF assms(2-6)] by blast
  show ?thesis unfolding n [symmetric] by (rule live_moves [OF assms(1)]) auto
qed

text \<open>A message that brings a configuration, as the library reads it.\<close>

definition config_message :: "nlohmann \<Rightarrow> string \<Rightarrow> string \<Rightarrow> json \<Rightarrow> bool" where
  "config_message js msg d doc = (\<exists>j. js_parse js msg = Inr j \<and>
     res_bind (js_at js j ''type'') (js_int js) = Inr MSG_TYPE_CONFIG_JSON \<and>
     res_bind (js_at js j ''data'') (js_dump js) = Inr d \<and> validateJsonStr js d = Inr True \<and> js_parse js d = Inr doc)"

lemma config_message_process:
  "config_message js msg d doc \<Longrightarrow> t_handle_msg inst js os msg =
     andthen (t_load_and_apply inst os (t_loadFromJsonStr js os d)) (\<lambda>r. Done (catch_msg r))"
  by (auto simp: config_message_def t_handle_msg_def t_handle_json_def)

text \<open>What the socket thread does with a message whose handler returned: the answer.\<close>

abbreviation send_answer :: "'k net \<Rightarrow> cint \<Rightarrow> cint res \<Rightarrow> ('k shared, cint res) process" where
  "send_answer net fd r \<equiv> (case r of Inl e \<Rightarrow> Done (Inl e)
     | Inr status \<Rightarrow> andthen (call Apart (write_fd net fd (int_bytes status))) (\<lambda>_. Done (Inr status)))"

lemma config_message_serve:
  "config_message js msg d doc \<Longrightarrow> t_serve inst js os net fd msg =
     andthen (t_load_and_apply inst os (t_loadFromJsonStr js os d)) (\<lambda>r. send_answer net fd (catch_msg r))"
  by (simp add: t_serve_def config_message_process andthenE_def andthen_assoc)

lemma config_message_loads:
  assumes "config_message js msg d doc"
  obtains s' where "run_alone (t_loadFromJsonStr js os d) s = (Inr SUCCESS, s')"
proof -
  from assms have "fst (run_alone (t_loadFromJsonStr js os d) s) = Inr SUCCESS"
    by (auto simp: config_message_def t_loadFromJsonStr_def run_alone_andthen status_defs split: prod.splits)
  with that show thesis by (cases "run_alone (t_loadFromJsonStr js os d) s") auto
qed

lemma about_to_start:
  assumes "pl_over P = None" and "pl_handler P = None" and "resting (pl_socket P)" and "config_message js msg d doc"
  shows "\<exists>n P'. fold (move inst js os net) ([Message fd msg] @ replicate n (Turn Socket)) P = P' \<and> pl_over P' = None \<and>
    pl_handler P' = None \<and> pl_socket P' = andthen (call (Reads Environ) (system_cmd os (TPROXY_IPTABLS_START inst))) (\<lambda>_. send_answer net fd (Inr 0))"
proof -
  let ?m = "move inst js os net" and ?load = "t_loadFromJsonStr js os d"
  define clean where "clean = andthen (call (Reads Environ) (system_cmd os (TPROXY_IPTABLS_CLEAN inst))) (\<lambda>_. t_toEnv :: ('a shared, unit) process)"
  define start where "start = (call (Reads Environ) (system_cmd os (TPROXY_IPTABLS_START inst)) :: ('a shared, cint) process)"
  define q where "q = (\<lambda>r. andthen (case r of Inl e \<Rightarrow> Done (Inl e)
      | Inr status \<Rightarrow> if status = SUCCESS then andthen (t_applyConfig inst os) (\<lambda>status. Done (Inr status)) else Done (Inr status))
    (\<lambda>r. send_answer net fd (catch_msg r)))"
  obtain s1 where load: "run_alone ?load (pl_shared P) = (Inr SUCCESS, s1)" using config_message_loads [OF assms(4)] .
  obtain s2 where clean: "run_alone clean s1 = ((), s2)" by (metis prod.exhaust unit.exhaust)
  have q: "q (Inr SUCCESS) = andthen clean (\<lambda>_. andthen start (\<lambda>_. send_answer net fd (Inr 0)))"
    by (simp add: q_def clean_def start_def t_applyConfig_def andthen_assoc)
  have unthrown: "thrown (andthen clean k) = None" "thrown (andthen start k') = None" for k k' :: "_ \<Rightarrow> ('a shared, cint res) process"
    by (simp_all add: clean_def start_def call_def thrown_def)
  have "andthen ?load q = t_serve inst js os net fd msg"
    by (simp add: config_message_serve [OF assms(4)] t_load_and_apply_def andthenE_def andthen_assoc q_def [abs_def])
  then have taken: "fold ?m [Message fd msg] P = P\<lparr>pl_socket := andthen ?load q\<rparr>"
    using assms(1-3) by (simp add: move_def runs_def)
  obtain n where n: "fold ?m (replicate n (Turn Socket)) (P\<lparr>pl_socket := andthen ?load q\<rparr>) =
      P\<lparr>pl_socket := andthen clean (\<lambda>_. andthen start (\<lambda>_. send_answer net fd (Inr 0))), pl_shared := s1\<rparr>"
    using socket_runs [of "P\<lparr>pl_socket := andthen ?load q\<rparr>" ?load q "Inr SUCCESS" s1 inst js os net] assms(1,2) load
    by (auto simp: q unthrown)
  obtain m where m: "fold ?m (replicate m (Turn Socket)) (P\<lparr>pl_socket := andthen clean (\<lambda>_. andthen start (\<lambda>_. send_answer net fd (Inr 0))), pl_shared := s1\<rparr>) =
      P\<lparr>pl_socket := andthen start (\<lambda>_. send_answer net fd (Inr 0)), pl_shared := s2\<rparr>"
    using socket_runs [of "P\<lparr>pl_socket := andthen clean (\<lambda>_. andthen start (\<lambda>_. send_answer net fd (Inr 0))), pl_shared := s1\<rparr>" clean
        "\<lambda>_. andthen start (\<lambda>_. send_answer net fd (Inr 0))" "()" s2 inst js os net] assms(1,2) clean
    by (auto simp: unthrown)
  have "fold ?m ([Message fd msg] @ replicate (n + m) (Turn Socket)) P =
      P\<lparr>pl_socket := andthen start (\<lambda>_. send_answer net fd (Inr 0)), pl_shared := s2\<rparr>"
    by (simp only: fold_append comp_apply replicate_add taken n m)
  then show ?thesis using assms(1,2) unfolding start_def by (intro exI [of _ "n + m"]) auto
qed

text \<open>
  C33. A signal during a configuration message: from any state at rest, let a message with a valid configuration come and its
  handler run to the point where it is about to start the script; let then a signal interrupt the main thread, which
  runs \<open>stop\<close>, and the socket thread start the script before the handler gets to \<open>exit\<close>.  This schedule ends the
  daemon with status 0 and with the script started last: the rules stay in place.
\<close>

theorem signal_leaves_rules:
  assumes "proper_install inst" and "live inst js os net M P" and "pl_over P = None" and "pl_handler P = None"
    and "resting (pl_socket P)" and "M msg" and "config_message js msg d doc"
  shows "\<exists>n P' pre env. fold (move inst js os net) ([Message fd msg] @ replicate n (Turn Socket) @
      [Interrupt Scanner, Handler_turn, Handler_turn, Handler_turn, Turn Socket, Handler_turn]) P = P' \<and>
    live inst js os net M P' \<and> pl_over P' = Some (Exit 0) \<and>
    systems (sh_world (pl_shared P')) = pre @ [System (start_cmd inst) env] \<and>
    \<not> script_down inst (systems (sh_world (pl_shared P')))"
proof -
  let ?m = "move inst js os net"
  obtain n P1 s1 where P1: "fold ?m ([Message fd msg] @ replicate n (Turn Socket)) P = P1" "pl_over P1 = None" "pl_handler P1 = None"
    "pl_shared P1 = s1" "pl_socket P1 = andthen (call (Reads Environ) (system_cmd os (TPROXY_IPTABLS_START inst))) (\<lambda>_. send_answer net fd (Inr 0))"
    using about_to_start [OF assms(3-5,7)] by blast
  let ?fin = "[Interrupt Scanner, Handler_turn, Handler_turn, Handler_turn, Turn Socket, Handler_turn]"
  have run: "fold ?m ([Message fd msg] @ replicate n (Turn Socket) @ ?fin) P = fold ?m ?fin P1"
    using P1(1) by (simp only: fold_append comp_apply)
  have "live inst js os net M (fold ?m ([Message fd msg] @ replicate n (Turn Socket) @ ?fin) P)"
    by (rule live_moves [OF assms(2)]) (use assms(6) in auto)
  then have live: "live inst js os net M (fold ?m ?fin P1)" unfolding run .
  obtain pre env where over: "pl_over (fold ?m ?fin P1) = Some (Exit 0)"
    and start: "systems (sh_world (pl_shared (fold ?m ?fin P1))) = pre @ [System (start_cmd inst) env]"
    using P1(2-5) by (simp add: move_def runs_def t_stop_def call_def turn_def thrown_def systems_def start_cmd_def split: prod.splits)
  have "\<not> script_down inst (pre @ [System (start_cmd inst) env])"
    using commands_differ [OF assms(1)] by (auto simp: script_down_def)
  with live over start show ?thesis using run by (intro exI [of _ n] exI [of _ "fold ?m ?fin P1"]) (simp del: fold.simps fold_append fold_replicate)
qed

lemma config_message_assigns:
  assumes "config_message js msg d doc"
  shows "\<exists>rest. t_serve inst js os net fd msg =
    andthen (t_tryassign js doc Program_proxy ''program_proxy'' (js_strings js) (\<lambda>x. program_proxy_update (\<lambda>_. x))) (\<lambda>_.
    andthen (t_tryassign js doc Program_noproxy ''program_noproxy'' (js_strings js) (\<lambda>x. program_noproxy_update (\<lambda>_. x))) rest)"
  using assms
  by (auto simp: config_message_serve t_load_and_apply_def andthenE_def andthen_assoc t_loadFromJsonStr_def
      t_assign_members_def config_message_def intro!: exI)

lemma socket_about_to_write:
  assumes "pl_over P = None" and "pl_handler P = None" and "resting (pl_socket P)"
    and "config_message js msg d doc" and "res_bind (js_at js doc ''program_noproxy'') (js_strings js) = Inr v"
  shows "\<exists>n P'. n \<le> 1 \<and> fold (move inst js os net) ([Message fd msg] @ replicate n (Turn Socket)) P = P' \<and> pl_over P' = None \<and>
    pl_handler P' = None \<and> pl_snoop P' = pl_snoop P \<and> pl_snooping P' = pl_snooping P \<and>
    sh_world (pl_shared P') = sh_world (pl_shared P) \<and> next_access (pl_socket P') = Writes Program_noproxy"
proof -
  obtain rest where msg: "t_serve inst js os net fd msg =
    andthen (t_tryassign js doc Program_proxy ''program_proxy'' (js_strings js) (\<lambda>x. program_proxy_update (\<lambda>_. x))) (\<lambda>_.
    andthen (t_tryassign js doc Program_noproxy ''program_noproxy'' (js_strings js) (\<lambda>x. program_noproxy_update (\<lambda>_. x))) rest)"
    using config_message_assigns [OF assms(4)] by blast
  show ?thesis
  proof (cases "res_bind (js_at js doc ''program_proxy'') (js_strings js)")
    case (Inl e)
    with msg assms show ?thesis
      by (intro exI [of _ 0]) (simp add: t_tryassign_def put_def move_def runs_def pl_snooping_def)
  next
    case (Inr u)
    with msg assms show ?thesis
      by (intro exI [of _ 1]) (simp add: t_tryassign_def put_def move_def runs_def turn_def thrown_def pl_snooping_def)
  qed
qed

text \<open>
  C34. A data race: from any state at rest, let a message with a valid configuration that assigns \<open>program_noproxy\<close> come and
  the socket thread go on for at most one action; let then, where the execsnoop thread watches, a program be executed and that
  thread look up its path.  Then the socket thread is about to write the vector \<open>program_noproxy\<close> that the execsnoop
  thread is about to copy.
\<close>

theorem config_message_races:
  assumes "live inst js os net M P" and "pl_over P = None" and "pl_handler P = None"
    and "resting (pl_socket P)" and "pl_snooping P" and "resting (pl_snoop P)" and "M msg" and "config_message js msg d doc"
    and "res_bind (js_at js doc ''program_noproxy'') (js_strings js) = Inr v"
    and "fst (run_state (realpath os (''/proc/'' @ to_str_int pid @ ''/exe'')) (sh_world (pl_shared P))) = Some path"
  shows "\<exists>n P'. n \<le> 1 \<and>
    fold (move inst js os net) ([Message fd msg] @ replicate n (Turn Socket) @ [Program pid, Turn Snoop]) P = P' \<and>
    live inst js os net M P' \<and> thread_access P' Socket = Writes Program_noproxy \<and>
    thread_access P' Snoop = Reads Program_noproxy \<and> racy P'"
proof -
  let ?m = "move inst js os net"
  obtain n P1 where P1: "n \<le> 1" "fold ?m ([Message fd msg] @ replicate n (Turn Socket)) P = P1" "pl_over P1 = None" "pl_handler P1 = None"
    "pl_snoop P1 = pl_snoop P" "pl_snooping P1 = pl_snooping P" "sh_world (pl_shared P1) = sh_world (pl_shared P)"
    "next_access (pl_socket P1) = Writes Program_noproxy"
    using socket_about_to_write [OF assms(2-4,8,9)] by blast
  let ?P = "fold ?m [Program pid, Turn Snoop] P1"
  have run: "fold ?m ([Message fd msg] @ replicate n (Turn Socket) @ [Program pid, Turn Snoop]) P = ?P"
    using P1(2) by (simp only: fold_append comp_apply)
  have "live inst js os net M (fold ?m ([Message fd msg] @ replicate n (Turn Socket) @ [Program pid, Turn Snoop]) P)"
    by (rule live_moves [OF assms(1)]) (use assms(7) in auto)
  moreover have "next_access (pl_snoop ?P) = Reads Program_noproxy" "pl_over ?P = None" "pl_handler ?P = None" "pl_socket ?P = pl_socket P1"
    using P1(3-7) assms(5,6,10)
    by (simp_all add: move_def runs_def t_handle_pid_def call_def turn_def t_pid_block_def andthenE_def look_def thrown_def)
  ultimately show ?thesis
    using P1(1,8) run by (intro exI [of _ n]) (auto simp: racy_def current_access_def)
qed

text \<open>
  C35. A torn configuration: even where each access to a member is whole, \<open>handle_pid\<close> can act on two configurations at once.
  A program that is not in the old \<open>program_noproxy\<close> and not in the new \<open>program_proxy\<close> is left alone by an execution
  that reads the one before and the other after a message, though the old configuration may have it proxied and
  the new one exempted: nothing happens but what the message does, and nobody looks at the process again.
\<close>

theorem torn_configuration:
  assumes "quiet_reads os" and "pl_over P = None" and "pl_handler P = None"
    and "resting (pl_socket P)" and "pl_snooping P" and "resting (pl_snoop P)"
    and "exe_of os (kern (sh_world (pl_shared P))) pid = Some path" and "path \<notin> set (program_noproxy (sh_cfg (pl_shared P)))"
    and "run_alone (t_serve inst js os net fd msg) (pl_shared P) = (Inr status, s)" and "path \<notin> set (program_proxy (sh_cfg s))"
  shows "\<exists>n P'. fold (move inst js os net) ([Program pid, Turn Snoop, Turn Snoop, Message fd msg] @ replicate n (Turn Socket) @ [Turn Snoop]) P = P' \<and>
    pl_over P' = None \<and> pl_shared P' = s \<and> pl_socket P' = Done (Inr status) \<and> pl_snoop P' = Done (Inr 0)"
proof -
  let ?m = "move inst js os net"
  define block where "block = andthenE (t_pid_block os pid path Program_proxy program_proxy Cgroup_proxy cgroup_proxy CGROUP_PROXY_PRESVERED)
    (\<lambda>r. case r of Some res \<Rightarrow> Done (Inr res) | None \<Rightarrow> Done (Inr 0))"
  have read: "run_state (realpath os (''/proc/'' @ to_str_int pid @ ''/exe'')) (sh_world (pl_shared P)) =
      (Some path, sh_world (pl_shared P))"
    using run_exe [OF assms(1), of pid "sh_world (pl_shared P)"] assms(7) by simp
  have "?m (Turn Snoop) (?m (Turn Snoop) (?m (Program pid) P)) = P\<lparr>pl_snoop := block\<rparr>"
    using assms(2-6,8) read
    by (cases P) (simp add: move_def runs_def t_handle_pid_def call_def turn_def t_pid_block_def andthenE_def look_def thrown_def block_def)
  then have start: "fold ?m [Program pid, Turn Snoop, Turn Snoop, Message fd msg] P =
      P\<lparr>pl_snoop := block, pl_socket := t_serve inst js os net fd msg\<rparr>"
    using assms(2-4) by (simp add: move_def runs_def)
  have "\<exists>n. fold ?m (replicate n (Turn Socket)) (P\<lparr>pl_snoop := block, pl_socket := t_serve inst js os net fd msg\<rparr>) =
      P\<lparr>pl_snoop := block, pl_socket := t_serve inst js os net fd msg\<rparr>\<lparr>pl_socket := Done (Inr status), pl_shared := s\<rparr>"
    by (rule socket_runs [where q = Done]) (use assms(2,3,9) in \<open>simp_all add: andthen_Done thrown_def\<close>)
  then obtain n where n: "fold ?m (replicate n (Turn Socket)) (P\<lparr>pl_snoop := block, pl_socket := t_serve inst js os net fd msg\<rparr>) =
      P\<lparr>pl_snoop := block, pl_socket := Done (Inr status), pl_shared := s\<rparr>" by auto
  let ?P' = "?m (Turn Snoop) (P\<lparr>pl_snoop := block, pl_socket := Done (Inr status), pl_shared := s\<rparr>)"
  have "fold ?m ([Program pid, Turn Snoop, Turn Snoop, Message fd msg] @ replicate n (Turn Socket) @ [Turn Snoop]) P = ?P'"
    by (simp only: fold_append comp_apply start n) simp
  moreover have "pl_over ?P' = None" "pl_shared ?P' = s" "pl_socket ?P' = Done (Inr status)" "pl_snoop ?P' = Done (Inr 0)"
    using assms(2,3,10)
    by (simp_all add: block_def move_def runs_def turn_def t_pid_block_def andthenE_def look_def thrown_def)
  ultimately show ?thesis by blast
qed

subsection \<open>On the sample daemon\<close>

lemma news_message: "config_message news_js ''msg'' ''doc'' (JObject [(''program_noproxy'', JArray [])])"
  unfolding config_message_def
  by (rule exI [of _ "JObject [(''type'', JInt 1), (''data'', JNull)]"]) code_simp

lemmas rest_pool = sample_pool [OF sample_boot_load, folded rest_js_def]

lemma rest_documented: "js_documented rest_js"
  by (simp add: rest_js_def sample_js_documented)

theorem signal_between_messages_witness:
  "\<exists>P P'. live sample_inst rest_js sample_os sample_net (config_free rest_js) P \<and>
    P' = fold (move sample_inst rest_js sample_os sample_net) ([Program 42, Turn Snoop] @ signalled Scanner) P \<and>
    pl_over P' = Some (Exit 0) \<and> script_down sample_inst (systems (sh_world (pl_shared P')))"
proof -
  let ?m = "move sample_inst rest_js sample_os sample_net"
  obtain P where P: "live sample_inst rest_js sample_os sample_net (config_free rest_js) P" "pl_over P = None" "pl_handler P = None"
    "resting (pl_socket P)" "pl_snooping P" "resting (pl_snoop P)" using rest_pool by blast
  have "pl_over (fold ?m [Program 42, Turn Snoop] P) = None" "pl_handler (fold ?m [Program 42, Turn Snoop] P) = None"
    using P(2,3,5,6)
    by (simp_all add: move_def runs_def turn_def t_handle_pid_def call_def thrown_def t_pid_block_def andthenE_def look_def split: option.splits)
  with P(1) signal_between_messages [OF rest_documented sample_proper P(1-4), of "[Program 42, Turn Snoop]"]
  have "pl_over (fold ?m ([Program 42, Turn Snoop] @ signalled Scanner) P) = Some (Exit 0) \<and>
      script_down sample_inst (systems (sh_world (pl_shared (fold ?m ([Program 42, Turn Snoop] @ signalled Scanner) P))))"
    by (simp only: fold_append comp_apply Let_def) auto
  with P(1) show ?thesis by blast
qed

theorem orderly_without_config_messages_witness:
  "\<exists>P. live sample_inst rest_js sample_os sample_net (config_free rest_js) P \<and> pl_over P = Some (Exit 0) \<and>
    script_down sample_inst (systems (sh_world (pl_shared P)))"
proof -
  obtain P where P: "live sample_inst rest_js sample_os sample_net (config_free rest_js) P" "pl_over P = None" "pl_handler P = None"
    "resting (pl_socket P)" using rest_pool by blast
  let ?Q = "fold (move sample_inst rest_js sample_os sample_net) (signalled Scanner) P"
  have "live sample_inst rest_js sample_os sample_net (config_free rest_js) ?Q"
    by (rule live_moves [OF P(1)]) simp
  from this signal_ends [OF P(2,3)] orderly_without_config_messages [OF rest_documented sample_proper this] show ?thesis by blast
qed

theorem signal_leaves_rules_witness:
  "\<exists>P n P' pre env. live sample_inst news_js sample_os sample_net (\<lambda>_. True) P \<and>
    fold (move sample_inst news_js sample_os sample_net) ([Message 5 ''msg''] @ replicate n (Turn Socket) @
      [Interrupt Scanner, Handler_turn, Handler_turn, Handler_turn, Turn Socket, Handler_turn]) P = P' \<and>
    pl_over P' = Some (Exit 0) \<and> systems (sh_world (pl_shared P')) = pre @ [System (start_cmd sample_inst) env]"
proof -
  obtain P where P: "live sample_inst news_js sample_os sample_net (\<lambda>_. True) P" "pl_over P = None" "pl_handler P = None"
    "resting (pl_socket P)" using news_pool by blast
  from P(1) signal_leaves_rules [OF sample_proper P TrueI news_message, of 5] show ?thesis by blast
qed

theorem config_message_races_witness:
  "\<exists>P n P'. live sample_inst news_js sample_os sample_net (\<lambda>_. True) P \<and>
    fold (move sample_inst news_js sample_os sample_net)
      ([Message 5 ''msg''] @ replicate n (Turn Socket) @ [Program 42, Turn Snoop]) P = P' \<and> racy P'"
proof -
  obtain P where P: "live sample_inst news_js sample_os sample_net (\<lambda>_. True) P" "pl_over P = None" "pl_handler P = None"
    "resting (pl_socket P)" "pl_snooping P" "resting (pl_snoop P)" and kern: "kern (sh_world (pl_shared P)) = sample_kern"
    using news_pool by blast
  have strings: "res_bind (js_at news_js (JObject [(''program_noproxy'', JArray [])]) ''program_noproxy'') (js_strings news_js) = Inr []"
    by code_simp
  have "''/proc/'' @ to_str_int 42 @ ''/exe'' = ''/proc/42/exe''" by code_simp
  with kern have "fst (run_state (realpath sample_os (''/proc/'' @ to_str_int 42 @ ''/exe'')) (sh_world (pl_shared P))) =
      Some ''/usr/bin/curl''"
    by (simp add: realpath_def c_str_def)
  from P(1) config_message_races [OF P TrueI news_message strings this, of 5] show ?thesis by blast
qed

text \<open>A message with a configuration, handled with nobody else about.\<close>

lemma config_message_outcome:
  assumes "quiet_queries os" and "config_message js msg d doc"
  shows "\<exists>s'. run_alone (t_serve inst js os net fd msg) s = (Inr 0, s') \<and>
    sh_cfg s' = (let c = assign_members js doc (sh_cfg s); k = kern (sh_world s) in
      mergeReserved (c\<lparr>program_noproxy := resolve_all os k (program_noproxy c), program_proxy := resolve_all os k (program_proxy c)\<rparr>))"
proof -
  define c where "c = assign_members js doc (sh_cfg s)"
  define c' where "c' = mergeReserved (c\<lparr>program_noproxy := resolve_all os (kern (sh_world s)) (program_noproxy c),
    program_proxy := resolve_all os (kern (sh_world s)) (program_proxy c)\<rparr>)"
  have "validateJsonStr js d = Inr True" "js_parse js d = Inr doc" using assms(2) by (auto simp: config_message_def)
  from run_load_quiet [OF assms(1) this c_def [symmetric], of "sh_world s"] obtain es where
    load: "run_state (loadFromJsonStr js os d (sh_cfg s)) (sh_world s) =
      ((c', Inr SUCCESS), sh_world s\<lparr>trace := trace (sh_world s) @ es\<rparr>)" unfolding c'_def by blast
  obtain w where "run_state (applyConfig inst os c') (sh_world s\<lparr>trace := trace (sh_world s) @ es\<rparr>) = (0, w)"
    using run_applyConfig [of inst os c'] by blast
  with load have "run_alone (t_load_and_apply inst os (t_loadFromJsonStr js os d)) s = (Inr 0, s\<lparr>sh_world := w, sh_cfg := c'\<rparr>)"
    by (simp add: followsD [OF follows_load_and_apply [OF follows_loadFromJsonStr]] load_and_apply_def)
  then show ?thesis
    by (simp add: config_message_serve [OF assms(2)] run_alone_andthen c_def c'_def Let_def)
qed

definition lists_doc :: "string list \<Rightarrow> string list \<Rightarrow> json" where
  "lists_doc ps nps = JObject [(''program_proxy'', JStrings ps), (''program_noproxy'', JStrings nps),
     (''cgroup_proxy'', JStrings []), (''cgroup_noproxy'', JStrings [])]"

definition switch_js :: nlohmann where
  "switch_js = documented_js
     (\<lambda>s. Inr (if s = ''one'' then JObject [(''type'', JInt 1), (''data'', JInt 1)]
        else if s = ''two'' then JObject [(''type'', JInt 1), (''data'', JInt 2)]
        else if s = ''d1'' then lists_doc [''/usr/bin/curl''] [] else if s = ''d2'' then lists_doc [] [''/usr/bin/curl'']
        else JObject []))
     (\<lambda>v. Inr (if v = JInt 1 then ''d1'' else ''d2'')) (\<lambda>_. 0)"

lemma switch_documented: "js_documented switch_js"
  by (simp add: switch_js_def documented_js_documented)

lemma sample_switch_load:
  "snd (fst (run_state (seq (lock sample_os) (\<lambda>_.
     loadFromFile switch_js sample_os (DEFAULT_CONFIG_FILE sample_inst) default_config)) boot_world)) = Inr SUCCESS"
  by code_simp

lemma switch_messages:
  "config_message switch_js ''one'' ''d1'' (lists_doc [''/usr/bin/curl''] [])"
  "config_message switch_js ''two'' ''d2'' (lists_doc [] [''/usr/bin/curl''])"
  unfolding config_message_def
  by (rule exI [of _ "JObject [(''type'', JInt 1), (''data'', JInt 1)]"], code_simp)
    (rule exI [of _ "JObject [(''type'', JInt 1), (''data'', JInt 2)]"], code_simp)

lemma lists_assigned:
  "program_proxy (assign_members switch_js (lists_doc ps nps) c) = ps"
  "program_noproxy (assign_members switch_js (lists_doc ps nps) c) = nps"
  "cgroup_proxy (assign_members switch_js (lists_doc ps nps) c) = []"
  "cgroup_noproxy (assign_members switch_js (lists_doc ps nps) c) = []"
  using js_get_doc(5) [OF switch_documented, of ps] js_get_doc(5) [OF switch_documented, of nps]
    js_get_doc(5) [OF switch_documented, of "[]"]
  by (simp_all add: assign_members_eq assigned_def lists_doc_def js_at_doc [OF switch_documented])

theorem torn_configuration_witness:
  "\<exists>P P'. live sample_inst switch_js sample_os sample_net (\<lambda>_. True) P \<and> live sample_inst switch_js sample_os sample_net (\<lambda>_. True) P' \<and>
    verdict (sh_cfg (pl_shared P)) ''/usr/bin/curl'' ''/user.slice'' = Proxied \<and>
    verdict (sh_cfg (pl_shared P')) ''/usr/bin/curl'' ''/user.slice'' = Exempt \<and>
    (\<exists>n. P' = fold (move sample_inst switch_js sample_os sample_net)
       ([Program 42, Turn Snoop, Turn Snoop, Message 5 ''two''] @ replicate n (Turn Socket) @ [Turn Snoop]) P) \<and>
    run_alone (t_serve sample_inst switch_js sample_os sample_net 5 ''two'') (pl_shared P) = (Inr 0, pl_shared P') \<and>
    pl_snoop P' = Done (Inr 0)"
proof -
  let ?m = "move sample_inst switch_js sample_os sample_net" and ?live = "live sample_inst switch_js sample_os sample_net (\<lambda>_. True)"
  obtain P where P: "?live P" "pl_over P = None" "pl_handler P = None" "resting (pl_socket P)" "pl_snooping P"
    "resting (pl_snoop P)" "kern (sh_world (pl_shared P)) = sample_kern"
    using sample_pool [OF sample_switch_load] by blast
  obtain s1 where one: "run_alone (t_serve sample_inst switch_js sample_os sample_net 5 ''one'') (pl_shared P) = (Inr 0, s1)"
    and c1: "program_proxy (sh_cfg s1) = [''/usr/bin/curl'']" "program_noproxy (sh_cfg s1) = []" "cgroup_proxy (sh_cfg s1) = [''/proxy.slice'']"
    using config_message_outcome [OF sample_quiet(1) switch_messages(1), of sample_inst sample_net 5 "pl_shared P"]
    by (auto simp: P(7) Let_def lists_assigned mergeReserved_def merge_front_def resolve_all_def sample_resolve preserved_defs)
  let ?P1 = "P\<lparr>pl_socket := Done (Inr 0), pl_shared := s1\<rparr>"
  have "?live ?P1"
    using live_socket_runs [OF take_message [OF P(1-4) TrueI], of 5 "''one''" "t_serve sample_inst switch_js sample_os sample_net 5 ''one''" Done]
      P(2,3) one by (simp add: andthen_Done thrown_def)
  from live.step [OF this, of "Elsewhere sample_kern"] have live2: "?live (?m (Elsewhere sample_kern) ?P1)" by simp
  define P2 where "P2 = ?m (Elsewhere sample_kern) ?P1"
  have P2: "pl_over P2 = None" "pl_handler P2 = None" "resting (pl_socket P2)" "pl_snooping P2" "resting (pl_snoop P2)"
    "kern (sh_world (pl_shared P2)) = sample_kern" "sh_cfg (pl_shared P2) = sh_cfg s1"
    using P by (simp_all add: P2_def move_def resting_def pl_snooping_def)
  obtain s2 where two: "run_alone (t_serve sample_inst switch_js sample_os sample_net 5 ''two'') (pl_shared P2) = (Inr 0, s2)"
    and c2: "program_proxy (sh_cfg s2) = []" "program_noproxy (sh_cfg s2) = [''/usr/bin/curl'']"
      "cgroup_noproxy (sh_cfg s2) = [''/noproxy.slice'']"
    using config_message_outcome [OF sample_quiet(1) switch_messages(2), of sample_inst sample_net 5 "pl_shared P2"]
    by (auto simp: P2(6) Let_def lists_assigned mergeReserved_def merge_front_def resolve_all_def sample_resolve preserved_defs)
  have exe: "exe_of sample_os (kern (sh_world (pl_shared P2))) 42 = Some ''/usr/bin/curl''"
    unfolding P2(6) by code_simp
  have apart: "\<not> belongToCgroup ''/user.slice'' ''/proxy.slice''" "\<not> belongToCgroup ''/user.slice'' ''/noproxy.slice''"
    by code_simp+
  obtain n P' where P': "fold ?m ([Program 42, Turn Snoop, Turn Snoop, Message 5 ''two''] @ replicate n (Turn Socket) @ [Turn Snoop]) P2 = P'"
    "pl_shared P' = s2" "pl_snoop P' = Done (Inr 0)"
    using torn_configuration [OF sample_quiet(2) P2(1-5) exe _ two] c1 c2 P2(7) by auto
  have "verdict (sh_cfg (pl_shared P2)) ''/usr/bin/curl'' ''/user.slice'' = Proxied"
    "verdict (sh_cfg (pl_shared P')) ''/usr/bin/curl'' ''/user.slice'' = Exempt"
    using apart by (simp_all add: verdict_def preserved_cgroups_def preserved_defs P2(7) P'(2) c1 c2)
  moreover have "?live P2" "?live P'"
    using live2 unfolding P2_def [symmetric] by (blast, unfold P'(1) [symmetric]) (rule live_moves, simp_all)
  ultimately show ?thesis using P' two by blast
qed

end
