(* ===== verification/Image.thy ===== *)
theory Image
  imports Prelude
begin

text \<open>
  Bytes of the object files that the generated headers embed as string literals
  (\<open>execsnoop-libbpf/execsnoop.skel.h\<close>, \<open>execsnoop-kernel/x86_64\<close> and \<open>aarch64/execsnoop_kern_skel.h\<close>).

  A literal is kept as the source has it, one list per line.  \<open>cut\<close> reads bytes out of such lines
  without joining them; an \<open>image\<close> is a file of which only some pieces are transcribed, and reading
  it gives \<open>None\<close> outside them.
\<close>

type_synonym bytes = "nat list"
type_synonym image = "(nat \<times> bytes list) list"

definition byte_list :: "bytes \<Rightarrow> bool" where
  "byte_list bs = list_all (\<lambda>b. b < 256) bs"

text \<open>The lowest byte first.\<close>

fun le :: "bytes \<Rightarrow> nat" where
  "le [] = 0"
| "le (b # bs) = b + 256 * le bs"

lemma le_bound: "byte_list bs \<Longrightarrow> le bs < 256 ^ length bs"
  by (induction bs) (auto simp: byte_list_def)

lemma le_append: "le (xs @ ys) = le xs + 256 ^ length xs * le ys"
  by (induction xs) (auto simp: algebra_simps)

subsection \<open>Reading\<close>

fun cut :: "nat \<Rightarrow> nat \<Rightarrow> bytes list \<Rightarrow> bytes" where
  "cut n pos [] = []"
| "cut n pos (l # ls) =
     (if n = 0 then []
      else if length l \<le> pos then cut n (pos - length l) ls
      else if n \<le> length l - pos then take n (drop pos l)
      else drop pos l @ cut (n - (length l - pos)) 0 ls)"

lemma cut_eq: "cut n pos ls = take n (drop pos (concat ls))"
  by (induction ls arbitrary: n pos) auto

fun at :: "image \<Rightarrow> nat \<Rightarrow> nat \<Rightarrow> bytes option" where
  "at [] pos n = None"
| "at ((s, ls) # img) pos n =
     (if s \<le> pos
      then (case cut n (pos - s) ls of bs \<Rightarrow> if length bs = n then Some bs else at img pos n)
      else at img pos n)"

definition num_at :: "image \<Rightarrow> nat \<Rightarrow> nat \<Rightarrow> nat option" where
  "num_at img pos n = map_option le (at img pos n)"

lemma at_length: "at img pos n = Some bs \<Longrightarrow> length bs = n"
  by (induction img pos n rule: at.induct) (auto split: if_splits)

text \<open>Reading two neighbouring pieces at once is reading one after the other.\<close>

lemma at_single_append:
  assumes "at [(s, ls)] pos n = Some xs" and "at [(s, ls)] (pos + n) m = Some ys"
  shows "at [(s, ls)] pos (n + m) = Some (xs @ ys)"
proof -
  have pos: "s \<le> pos" and x: "xs = take n (drop (pos - s) (concat ls))" "length xs = n"
    and y: "ys = take m (drop (pos + n - s) (concat ls))" "length ys = m"
    using assms by (auto simp: cut_eq split: if_splits)
  have "drop (pos + n - s) (concat ls) = drop n (drop (pos - s) (concat ls))"
    using pos by (simp add: add.commute)
  then have "take (n + m) (drop (pos - s) (concat ls)) = xs @ ys"
    using x(1) y(1) by (simp only: take_add)
  with pos x(2) y(2) show ?thesis by (simp add: cut_eq)
qed

text \<open>The printable characters, for evaluation.\<close>

lemma char_of_ascii [simp]:
  "char_of (32 :: nat) = CHR '' ''" "char_of (33 :: nat) = CHR ''!''"
  "char_of (35 :: nat) = CHR ''#''" "char_of (36 :: nat) = CHR ''$''"
  "char_of (37 :: nat) = CHR ''%''" "char_of (38 :: nat) = CHR ''&''"
  "char_of (40 :: nat) = CHR ''(''" "char_of (41 :: nat) = CHR '')''"
  "char_of (42 :: nat) = CHR ''*''" "char_of (43 :: nat) = CHR ''+''"
  "char_of (44 :: nat) = CHR '',''" "char_of (45 :: nat) = CHR ''-''"
  "char_of (46 :: nat) = CHR ''.''" "char_of (47 :: nat) = CHR ''/''"
  "char_of (48 :: nat) = CHR ''0''" "char_of (49 :: nat) = CHR ''1''"
  "char_of (50 :: nat) = CHR ''2''" "char_of (51 :: nat) = CHR ''3''"
  "char_of (52 :: nat) = CHR ''4''" "char_of (53 :: nat) = CHR ''5''"
  "char_of (54 :: nat) = CHR ''6''" "char_of (55 :: nat) = CHR ''7''"
  "char_of (56 :: nat) = CHR ''8''" "char_of (57 :: nat) = CHR ''9''"
  "char_of (58 :: nat) = CHR '':''" "char_of (59 :: nat) = CHR '';''"
  "char_of (60 :: nat) = CHR ''<''" "char_of (61 :: nat) = CHR ''=''"
  "char_of (62 :: nat) = CHR ''>''" "char_of (63 :: nat) = CHR ''?''"
  "char_of (64 :: nat) = CHR ''@''" "char_of (65 :: nat) = CHR ''A''"
  "char_of (66 :: nat) = CHR ''B''" "char_of (67 :: nat) = CHR ''C''"
  "char_of (68 :: nat) = CHR ''D''" "char_of (69 :: nat) = CHR ''E''"
  "char_of (70 :: nat) = CHR ''F''" "char_of (71 :: nat) = CHR ''G''"
  "char_of (72 :: nat) = CHR ''H''" "char_of (73 :: nat) = CHR ''I''"
  "char_of (74 :: nat) = CHR ''J''" "char_of (75 :: nat) = CHR ''K''"
  "char_of (76 :: nat) = CHR ''L''" "char_of (77 :: nat) = CHR ''M''"
  "char_of (78 :: nat) = CHR ''N''" "char_of (79 :: nat) = CHR ''O''"
  "char_of (80 :: nat) = CHR ''P''" "char_of (81 :: nat) = CHR ''Q''"
  "char_of (82 :: nat) = CHR ''R''" "char_of (83 :: nat) = CHR ''S''"
  "char_of (84 :: nat) = CHR ''T''" "char_of (85 :: nat) = CHR ''U''"
  "char_of (86 :: nat) = CHR ''V''" "char_of (87 :: nat) = CHR ''W''"
  "char_of (88 :: nat) = CHR ''X''" "char_of (89 :: nat) = CHR ''Y''"
  "char_of (90 :: nat) = CHR ''Z''" "char_of (91 :: nat) = CHR ''[''"
  "char_of (93 :: nat) = CHR '']''" "char_of (94 :: nat) = CHR ''^''"
  "char_of (95 :: nat) = CHR ''_''" "char_of (97 :: nat) = CHR ''a''"
  "char_of (98 :: nat) = CHR ''b''" "char_of (99 :: nat) = CHR ''c''"
  "char_of (100 :: nat) = CHR ''d''" "char_of (101 :: nat) = CHR ''e''"
  "char_of (102 :: nat) = CHR ''f''" "char_of (103 :: nat) = CHR ''g''"
  "char_of (104 :: nat) = CHR ''h''" "char_of (105 :: nat) = CHR ''i''"
  "char_of (106 :: nat) = CHR ''j''" "char_of (107 :: nat) = CHR ''k''"
  "char_of (108 :: nat) = CHR ''l''" "char_of (109 :: nat) = CHR ''m''"
  "char_of (110 :: nat) = CHR ''n''" "char_of (111 :: nat) = CHR ''o''"
  "char_of (112 :: nat) = CHR ''p''" "char_of (113 :: nat) = CHR ''q''"
  "char_of (114 :: nat) = CHR ''r''" "char_of (115 :: nat) = CHR ''s''"
  "char_of (116 :: nat) = CHR ''t''" "char_of (117 :: nat) = CHR ''u''"
  "char_of (118 :: nat) = CHR ''v''" "char_of (119 :: nat) = CHR ''w''"
  "char_of (120 :: nat) = CHR ''x''" "char_of (121 :: nat) = CHR ''y''"
  "char_of (122 :: nat) = CHR ''z''" "char_of (123 :: nat) = CHR ''{''"
  "char_of (124 :: nat) = CHR ''|''" "char_of (125 :: nat) = CHR ''}''"
  "char_of (126 :: nat) = CHR ''~''"
  by (simp_all add: char_of_def bit_Suc_0_iff)

text \<open>A string of a string table: from an offset to the next NUL, inside the table.\<close>

definition cstring_at :: "bytes \<Rightarrow> nat \<Rightarrow> string option" where
  "cstring_at tab pos =
     (if 0 \<in> set (drop pos tab) then Some (map char_of (takeWhile (\<lambda>b. b \<noteq> 0) (drop pos tab))) else None)"

lemma cstring_at_terminated:
  assumes "pos < length tab" and "last tab = 0"
  shows "cstring_at tab pos \<noteq> None"
proof -
  have "last (drop pos tab) = 0" "drop pos tab \<noteq> []" using assms by simp_all
  then have "0 \<in> set (drop pos tab)" by (metis last_in_set)
  then show ?thesis by (simp add: cstring_at_def)
qed

end
