(* ===== verification/Core_Debug.thy ===== *)
theory Core_Debug
  imports Image
begin

text \<open>
  Lines 209 to 266 of \<open>execsnoop-libbpf/execsnoop.skel.h\<close>, the next after \<open>core_head\<close>: the sections
  \<open>.debug_loclists\<close> and \<open>.debug_abbrev\<close> of the newer object; and the
  two lines before \<open>.BTF\<close>, with \<open>.debug_addr\<close>.
\<close>

definition core_debug :: "bytes list" where
  "core_debug = [
   [0, 0x0a, 0, 0, 0, 0x28, 0, 0, 0, 0x39, 0, 0, 0, 0x42, 0, 0, 0, 0x57, 0, 0, 0, 0x6d, 0, 0, 0,
    0x77, 0, 0, 0, 0x81, 0],
   [0, 0, 0x8c, 0, 0, 0, 0x9a, 0, 0, 0, 0xa4, 0, 0, 0, 0x01, 0x04, 0x04, 0x50, 0xe0, 0x01, 0x02,
    0x7a, 0x2c, 0x04, 0xe0],
   [0x01, 0x80, 0x02, 0x01, 0x51, 0, 0x01, 0x04, 0x04, 0x10, 0xd8, 0x01, 0x01, 0x56, 0, 0x01,
    0x04, 0x04, 0x28, 0x80],
   [0x03, 0x0d, 0x77, 0, 0xa8, 0xaf, 0x80, 0x80, 0, 0xa8, 0xb4, 0x80, 0x80, 0, 0x9f, 0, 0x01,
    0x04, 0x04, 0xd8, 0x01],
   [0xf0, 0x02, 0x0d, 0x76, 0, 0xa8, 0xaf, 0x80, 0x80, 0, 0xa8, 0xb4, 0x80, 0x80, 0, 0x9f, 0,
    0x01, 0x04, 0x04, 0xc8],
   [0x01, 0xd8, 0x02, 0x01, 0x58, 0, 0x01, 0x04, 0x04, 0x80, 0x02, 0x90, 0x02, 0x01, 0x50, 0,
    0x01, 0x04, 0x04, 0x90],
   [0x02, 0xb8, 0x02, 0x02, 0x7a, 0x20, 0, 0x01, 0x05, 0x04, 0, 0x08, 0x01, 0x51, 0x04, 0x08,
    0xf8, 0x01, 0x01, 0x56, 0],
   [0x01, 0x05, 0x04, 0x18, 0xf8, 0x01, 0x02, 0x7a, 0x04, 0, 0x01, 0x05, 0x04, 0x48, 0xf8, 0x01,
    0x01, 0x57, 0, 0x01],
   [0x11, 0x01, 0x25, 0x25, 0x13, 0x05, 0x03, 0x25, 0x72, 0x17, 0x10, 0x17, 0x1b, 0x25, 0x11,
    0x01, 0x55, 0x23, 0x73],
   [0x17, 0x74, 0x17, 0x8c, 0x01, 0x17, 0, 0, 0x02, 0x24, 0, 0x03, 0x26, 0x3e, 0x0b, 0x0b, 0x0b,
    0, 0, 0x03, 0x34, 0],
   [0x03, 0x25, 0x49, 0x13, 0x3f, 0x19, 0x3a, 0x0b, 0x3b, 0x0b, 0x02, 0x18, 0, 0, 0x04, 0x01,
    0x01, 0x49, 0x13, 0, 0],
   [0x05, 0x21, 0, 0x49, 0x13, 0x37, 0x0b, 0, 0, 0x06, 0x24, 0, 0x03, 0x25, 0x3e, 0x0b, 0x0b,
    0x0b, 0, 0, 0x07, 0x24, 0],
   [0x03, 0x25, 0x0b, 0x0b, 0x3e, 0x0b, 0, 0, 0x08, 0x16, 0, 0x49, 0x13, 0x03, 0x25, 0x3a, 0x0b,
    0x3b, 0x0b, 0, 0, 0x09],
   [0x13, 0x01, 0x0b, 0x0b, 0x3a, 0x0b, 0x3b, 0x0b, 0, 0, 0x0a, 0x0d, 0, 0x03, 0x25, 0x49, 0x13,
    0x3a, 0x0b, 0x3b, 0x0b],
   [0x38, 0x0b, 0, 0, 0x0b, 0x0f, 0, 0x49, 0x13, 0, 0, 0x0c, 0x21, 0, 0x49, 0x13, 0x37, 0x05, 0,
    0, 0x0d, 0x16, 0, 0x49],
   [0x13, 0x03, 0x25, 0x3a, 0x0b, 0x3b, 0x05, 0, 0, 0x0e, 0x13, 0x01, 0x03, 0x25, 0x0b, 0x0b,
    0x3a, 0x0b, 0x3b, 0x0b, 0],
   [0, 0x0f, 0x34, 0, 0x03, 0x25, 0x49, 0x13, 0x3a, 0x0b, 0x3b, 0x05, 0, 0, 0x10, 0x15, 0, 0x49,
    0x13, 0x27, 0x19, 0, 0],
   [0x11, 0x34, 0, 0x03, 0x25, 0x49, 0x13, 0x3a, 0x0b, 0x3b, 0x0b, 0, 0, 0x12, 0x15, 0x01, 0x49,
    0x13, 0x27, 0x19, 0, 0],
   [0x13, 0x05, 0, 0x49, 0x13, 0, 0, 0x14, 0x0f, 0, 0, 0, 0x15, 0x26, 0, 0, 0, 0x16, 0x04, 0x01,
    0x49, 0x13, 0x03, 0x25],
   [0x0b, 0x0b, 0x3a, 0x0b, 0x3b, 0x05, 0, 0, 0x17, 0x28, 0, 0x03, 0x25, 0x1c, 0x0f, 0, 0, 0x18,
    0x04, 0x01, 0x49, 0x13],
   [0x03, 0x25, 0x0b, 0x0b, 0x3a, 0x0b, 0x3b, 0x06, 0, 0, 0x19, 0x04, 0x01, 0x49, 0x13, 0x03,
    0x26, 0x0b, 0x0b, 0x3a],
   [0x0b, 0x3b, 0x05, 0, 0, 0x1a, 0x28, 0, 0x03, 0x26, 0x1c, 0x0f, 0, 0, 0x1b, 0x28, 0, 0x03,
    0x26, 0x1c, 0x0d, 0, 0],
   [0x1c, 0x04, 0x01, 0x49, 0x13, 0x03, 0x26, 0x0b, 0x0b, 0x3a, 0x0b, 0x3b, 0x06, 0, 0, 0x1d,
    0x13, 0x01, 0x03, 0x26],
   [0x0b, 0x0b, 0x3a, 0x0b, 0x3b, 0x06, 0, 0, 0x1e, 0x0d, 0, 0x49, 0x13, 0x3a, 0x0b, 0x3b, 0x06,
    0x38, 0x0b, 0, 0, 0x1f],
   [0x17, 0x01, 0x0b, 0x0b, 0x3a, 0x0b, 0x3b, 0x06, 0, 0, 0x20, 0x0d, 0, 0x03, 0x26, 0x49, 0x13,
    0x3a, 0x0b, 0x3b, 0x06],
   [0x38, 0x0b, 0, 0, 0x21, 0x13, 0x01, 0x0b, 0x0b, 0x3a, 0x0b, 0x3b, 0x06, 0, 0, 0x22, 0x0d, 0,
    0x03, 0x25, 0x49, 0x13],
   [0x3a, 0x0b, 0x3b, 0x06, 0x38, 0x0b, 0, 0, 0x23, 0x04, 0x01, 0x49, 0x13, 0x0b, 0x0b, 0x3a,
    0x0b, 0x3b, 0x06, 0, 0],
   [0x24, 0x16, 0, 0x49, 0x13, 0x03, 0x26, 0x3a, 0x0b, 0x3b, 0x05, 0, 0, 0x25, 0x04, 0x01, 0x49,
    0x13, 0x0b, 0x0b, 0x3a],
   [0x0b, 0x3b, 0x05, 0, 0, 0x26, 0x13, 0x01, 0x03, 0x26, 0x0b, 0x0b, 0x3a, 0x0b, 0x3b, 0x05, 0,
    0, 0x27, 0x0d, 0, 0x03],
   [0x25, 0x49, 0x13, 0x3a, 0x0b, 0x3b, 0x05, 0x38, 0x0b, 0, 0, 0x28, 0x0d, 0, 0x03, 0x26, 0x49,
    0x13, 0x3a, 0x0b, 0x3b],
   [0x05, 0x38, 0x0b, 0, 0, 0x29, 0x0d, 0, 0x49, 0x13, 0x3a, 0x0b, 0x3b, 0x05, 0x38, 0x0b, 0, 0,
    0x2a, 0x17, 0x01, 0x0b],
   [0x0b, 0x3a, 0x0b, 0x3b, 0x05, 0, 0, 0x2b, 0x13, 0x01, 0x0b, 0x0b, 0x3a, 0x0b, 0x3b, 0x05, 0,
    0, 0x2c, 0x26, 0, 0x49],
   [0x13, 0, 0, 0x2d, 0x13, 0x01, 0x03, 0x26, 0x0b, 0x05, 0x3a, 0x0b, 0x3b, 0x05, 0, 0, 0x2e,
    0x0d, 0, 0x03, 0x26, 0x49],
   [0x13, 0x3a, 0x0b, 0x3b, 0x05, 0x38, 0x05, 0, 0, 0x2f, 0x0d, 0, 0x03, 0x25, 0x49, 0x13, 0x3a,
    0x0b, 0x3b, 0x05, 0x38],
   [0x05, 0, 0, 0x30, 0x0d, 0, 0x03, 0x26, 0x49, 0x13, 0x3a, 0x0b, 0x3b, 0x05, 0x0b, 0x0b, 0x0d,
    0x0b, 0x0c, 0x0b, 0x38],
   [0x05, 0, 0, 0x31, 0x0d, 0, 0x49, 0x13, 0x3a, 0x0b, 0x3b, 0x05, 0x38, 0x05, 0, 0, 0x32, 0x15,
    0x01, 0x27, 0x19, 0, 0],
   [0x33, 0x0d, 0, 0x03, 0x26, 0x49, 0x13, 0x3a, 0x0b, 0x3b, 0x05, 0x0b, 0x0b, 0x0d, 0x0b, 0x0c,
    0x0b, 0x38, 0x0b, 0, 0],
   [0x34, 0x16, 0, 0x49, 0x13, 0x03, 0x26, 0x3a, 0x0b, 0x3b, 0x0b, 0, 0, 0x35, 0x35, 0, 0x49,
    0x13, 0, 0, 0x36, 0x0d, 0],
   [0x03, 0x25, 0x49, 0x13, 0x3a, 0x0b, 0x3b, 0x05, 0x0b, 0x0b, 0x0d, 0x0b, 0x0c, 0x0b, 0x38,
    0x0b, 0, 0, 0x37, 0x15],
   [0x01, 0x49, 0x13, 0, 0, 0x38, 0x18, 0, 0, 0, 0x39, 0x13, 0x01, 0x0b, 0x05, 0x3a, 0x0b, 0x3b,
    0x05, 0, 0, 0x3a, 0x13],
   [0, 0x0b, 0x0b, 0x3a, 0x0b, 0x3b, 0x05, 0, 0, 0x3b, 0x13, 0x01, 0x03, 0x25, 0x0b, 0x0b, 0x3a,
    0x0b, 0x3b, 0x05, 0, 0],
   [0x3c, 0x17, 0x01, 0x03, 0x26, 0x0b, 0x0b, 0x3a, 0x0b, 0x3b, 0x05, 0, 0, 0x3d, 0x13, 0, 0x03,
    0x26, 0x0b, 0x0b, 0x3a],
   [0x0b, 0x3b, 0x05, 0, 0, 0x3e, 0x13, 0, 0x03, 0x26, 0x3c, 0x19, 0, 0, 0x3f, 0x13, 0x01, 0x03,
    0x26, 0x0b, 0x05, 0x3a],
   [0x0b, 0x3b, 0x06, 0, 0, 0x40, 0x0d, 0, 0x03, 0x26, 0x49, 0x13, 0x3a, 0x0b, 0x3b, 0x06, 0x38,
    0x05, 0, 0, 0x41, 0x0d],
   [0, 0x03, 0x25, 0x49, 0x13, 0x3a, 0x0b, 0x3b, 0x06, 0x0b, 0x0b, 0x0d, 0x0b, 0x0c, 0x0b, 0x38,
    0x0b, 0, 0, 0x42, 0x0d],
   [0, 0x03, 0x26, 0x49, 0x13, 0x3a, 0x0b, 0x3b, 0x06, 0x0b, 0x0b, 0x0d, 0x0b, 0x0c, 0x0b, 0x38,
    0x0b, 0, 0, 0x43, 0x0d],
   [0, 0x49, 0x13, 0x3a, 0x0b, 0x3b, 0x06, 0x38, 0x05, 0, 0, 0x44, 0x16, 0, 0x49, 0x13, 0x03,
    0x26, 0x3a, 0x0b, 0x3b],
   [0x06, 0, 0, 0x45, 0x15, 0x01, 0, 0, 0x46, 0x13, 0, 0x03, 0x26, 0x0b, 0x0b, 0x3a, 0x0b, 0x3b,
    0x06, 0, 0, 0x47, 0x17],
   [0x01, 0x03, 0x26, 0x0b, 0x0b, 0x3a, 0x0b, 0x3b, 0x06, 0, 0, 0x48, 0x17, 0x01, 0x03, 0x26,
    0x0b, 0x05, 0x3a, 0x0b],
   [0x3b, 0x05, 0, 0, 0x49, 0x0d, 0, 0x03, 0x26, 0x49, 0x13, 0x3a, 0x0b, 0x3b, 0x06, 0x0b, 0x0b,
    0x0d, 0x0b, 0x0c, 0x0b],
   [0x38, 0x05, 0, 0, 0x4a, 0x13, 0x01, 0x03, 0x26, 0x0b, 0x06, 0x3a, 0x0b, 0x3b, 0x06, 0, 0,
    0x4b, 0x2e, 0x01, 0x11],
   [0x1b, 0x12, 0x06, 0x40, 0x18, 0x7a, 0x19, 0x03, 0x26, 0x3a, 0x0b, 0x3b, 0x0b, 0x27, 0x19,
    0x49, 0x13, 0x3f, 0x19, 0],
   [0, 0x4c, 0x05, 0, 0x03, 0x26, 0x3a, 0x0b, 0x3b, 0x0b, 0x49, 0x13, 0, 0, 0x4d, 0x34, 0, 0x02,
    0x18, 0x03, 0x26, 0x3a],
   [0x0b, 0x3b, 0x0b, 0x49, 0x13, 0, 0, 0x4e, 0x34, 0, 0x02, 0x22, 0x03, 0x25, 0x3a, 0x0b, 0x3b,
    0x0b, 0x49, 0x13, 0, 0],
   [0x4f, 0x34, 0, 0x02, 0x22, 0x03, 0x26, 0x3a, 0x0b, 0x3b, 0x0b, 0x49, 0x13, 0, 0, 0x50, 0x05,
    0, 0x02, 0x22, 0x03],
   [0x26, 0x3a, 0x0b, 0x3b, 0x0b, 0x49, 0x13, 0, 0, 0x51, 0x0a, 0, 0x03, 0x26, 0x3a, 0x0b, 0x3b,
    0x0b, 0x11, 0x1b, 0, 0],
   [0x52, 0x13, 0x01, 0x03, 0x26, 0x0b, 0x0b, 0x3a, 0x0b, 0x3b, 0x0b, 0, 0, 0x53, 0x0d, 0, 0x03,
    0x26, 0x49, 0x13, 0x3a],
   [0x0b, 0x3b, 0x0b, 0x38, 0x0b, 0, 0, 0, 0x33, 0xdb, 0x03, 0, 0x05, 0, 0x01, 0x08, 0, 0, 0, 0,
    0x01, 0, 0x0c, 0, 0x01]]"

definition core_addr :: "bytes list" where
  "core_addr = [
   [0x61, 0x72, 0x67, 0x73, 0, 0x3c, 0, 0, 0, 0x05, 0, 0x08, 0, 0, 0, 0, 0, 0, 0, 0, 0, 0, 0, 0,
    0, 0, 0, 0, 0, 0, 0, 0],
   [0, 0, 0, 0, 0, 0, 0, 0, 0, 0, 0, 0, 0, 0, 0, 0, 0, 0, 0, 0, 0, 0, 0, 0, 0, 0, 0, 0, 0, 0xc0,
    0, 0, 0, 0, 0, 0, 0]]"

lemma length_core_debug: "length (concat core_debug) = 1262"
  by (simp add: core_debug_def)

lemma length_core_addr: "length (concat core_addr) = 69"
  by (simp add: core_addr_def)

end
