(* ===== verification/Bpf_Machine.thy ===== *)
theory Bpf_Machine
  imports Image Execsnoop_Bpf
begin

text \<open>
  The BPF machine as far as the two compiled programs use it: decoding of their instructions
  (eight bytes each, \<open>LD_IMM64\<close> sixteen) and their execution.

  A pointer is a value of its own, an offset into the stack frame, into the value of a map
  element, or into the context, as the kernel's verifier tracks it: an access outside its object,
  not aligned, or of memory never written is \<open>Stuck\<close>, and so is every use of a value as something it
  is not.  What a helper finds in the kernel is the record \<open>bpf_env\<close>.
\<close>

unbundle bit_operations_syntax

subsection \<open>Instructions\<close>

datatype alu = Mov | Add | Lsh | Rsh

datatype cond = J_eq | J_ne | J_sgt

datatype insn =
    Alu_imm alu nat int
  | Alu_reg alu nat nat
  | Load nat nat nat int
  | Store nat nat int nat
  | Ld_imm64 nat "64 word"
  | Ld_map nat string
  | Jump_imm cond nat int int
  | Jump_reg cond nat nat int
  | Call int
  | Exit_insn
  | Pad

definition signed_num :: "nat \<Rightarrow> nat \<Rightarrow> int" where
  "signed_num w n = (if 2 ^ (w - 1) \<le> n then int n - 2 ^ w else int n)"

definition insn_of :: "nat \<Rightarrow> nat \<Rightarrow> nat \<Rightarrow> int \<Rightarrow> int \<Rightarrow> insn option" where
  "insn_of op dst src off imm =
     (if op = 0xb7 then Some (Alu_imm Mov dst imm)
      else if op = 0xbf then Some (Alu_reg Mov dst src)
      else if op = 0x07 then Some (Alu_imm Add dst imm)
      else if op = 0x0f then Some (Alu_reg Add dst src)
      else if op = 0x67 then Some (Alu_imm Lsh dst imm)
      else if op = 0x77 then Some (Alu_imm Rsh dst imm)
      else if op = 0x61 then Some (Load 4 dst src off)
      else if op = 0x79 then Some (Load 8 dst src off)
      else if op = 0x63 then Some (Store 4 dst off src)
      else if op = 0x7b then Some (Store 8 dst off src)
      else if op = 0x15 then Some (Jump_imm J_eq dst imm off)
      else if op = 0x55 then Some (Jump_imm J_ne dst imm off)
      else if op = 0x6d then Some (Jump_reg J_sgt dst src off)
      else if op = 0x85 then Some (Call imm)
      else if op = 0x95 then Some Exit_insn
      else None)"

text \<open>
  The slots of a section.  \<open>rel\<close> names the map a relocation puts into the \<open>LD_IMM64\<close> at an offset.
\<close>

fun decode :: "(nat \<Rightarrow> string option) \<Rightarrow> nat \<Rightarrow> bytes \<Rightarrow> insn list option" where
  "decode rel i (op # r # o0 # o1 # i0 # i1 # i2 # i3 # bs) =
     (if op = 0x18 then
        (case bs of
           _ # _ # _ # _ # j0 # j1 # j2 # j3 # bs' \<Rightarrow>
             map_option (\<lambda>is. (case rel i of
                   Some s \<Rightarrow> Ld_map (r mod 16) s
                 | None \<Rightarrow> Ld_imm64 (r mod 16) (word_of_nat (le [i0, i1, i2, i3, j0, j1, j2, j3])))
               # Pad # is) (decode rel (i + 16) bs')
         | _ \<Rightarrow> None)
      else (case insn_of op (r mod 16) (r div 16) (signed_num 16 (le [o0, o1])) (signed_num 32 (le [i0, i1, i2, i3])) of
          None \<Rightarrow> None
        | Some x \<Rightarrow> map_option ((#) x) (decode rel (i + 8) bs)))"
| "decode rel i [] = Some []"
| "decode rel i bs = None"

subsection \<open>Values and memory\<close>

datatype val = Num "64 word" | Stack_at int | Record_at cint int | Ctx_at int | Map_ref string

definition bytes_of :: "nat \<Rightarrow> 64 word \<Rightarrow> 8 word list" where
  "bytes_of n w = map (\<lambda>i. ucast (drop_bit (8 * i) w)) [0..<n]"

fun word_of :: "8 word list \<Rightarrow> 64 word" where
  "word_of [] = 0"
| "word_of (b # bs) = ucast b OR push_bit 8 (word_of bs)"

text \<open>The bytes of \<open>struct event\<close>.\<close>

definition char_byte :: "char \<Rightarrow> 8 word" where
  "char_byte c = word_of_nat (of_char c)"

definition byte_char :: "8 word \<Rightarrow> char" where
  "byte_char b = char_of (unat b)"

definition event_bytes :: "bpf_event \<Rightarrow> 8 word list" where
  "event_bytes e = map char_byte (comm e) @ bytes_of 4 (ucast (ev_pid e)) @ bytes_of 4 (ucast (ev_tgid e))
     @ bytes_of 4 (ucast (ev_ppid e)) @ bytes_of 4 (ucast (ev_uid e))"

definition bytes_event :: "8 word list \<Rightarrow> bpf_event" where
  "bytes_event bs = \<lparr>
     comm = map byte_char (take 16 bs),
     ev_pid = ucast (word_of (take 4 (drop 16 bs))),
     ev_tgid = ucast (word_of (take 4 (drop 20 bs))),
     ev_ppid = ucast (word_of (take 4 (drop 24 bs))),
     ev_uid = ucast (word_of (take 4 (drop 28 bs))) \<rparr>"

definition splice :: "nat \<Rightarrow> 'a list \<Rightarrow> 'a list \<Rightarrow> 'a list" where
  "splice i new old = take i old @ new @ drop (i + length new) old"

text \<open>
  What the helpers give: the map \<open>records\<close>, the error of an update, the current task and its
  address, what \<open>bpf_probe_read\<close> stores for an address and a size, and the context.
\<close>

record 'm bpf_env =
  be_map :: "'m bpf_map"
  be_err :: cint
  be_task :: task
  be_task_addr :: "64 word"
  be_probe :: "64 word \<Rightarrow> nat \<Rightarrow> 8 word list"
  be_ret :: "64 word"
  be_ctx :: "8 word list"

record 'm bpf_state =
  reg :: "nat \<Rightarrow> val option"
  stack_frame :: "int \<Rightarrow> 8 word option"
  recs :: 'm
  perf :: "8 word list list"
  pc :: nat

fun cells :: "(int \<Rightarrow> 8 word option) \<Rightarrow> int \<Rightarrow> nat \<Rightarrow> 8 word list option" where
  "cells f a 0 = Some []"
| "cells f a (Suc n) = (case f a of None \<Rightarrow> None | Some b \<Rightarrow> map_option ((#) b) (cells f (a + 1) n))"

fun set_cells :: "(int \<Rightarrow> 8 word option) \<Rightarrow> int \<Rightarrow> 8 word list \<Rightarrow> int \<Rightarrow> 8 word option" where
  "set_cells f a [] = f"
| "set_cells f a (b # bs) = set_cells (f(a \<mapsto> b)) (a + 1) bs"

definition stack_size :: int where "stack_size = 512"
definition record_size :: int where "record_size = 32"

fun load_bytes :: "'m bpf_env \<Rightarrow> 'm bpf_state \<Rightarrow> val \<Rightarrow> nat \<Rightarrow> 8 word list option" where
  "load_bytes env st (Stack_at pos) n =
     (if - stack_size \<le> pos \<and> pos + int n \<le> 0 then cells (stack_frame st) pos n else None)"
| "load_bytes env st (Record_at k pos) n =
     (case bm_lookup (be_map env) k (recs st) of
        None \<Rightarrow> None
      | Some e \<Rightarrow> if 0 \<le> pos \<and> pos + int n \<le> record_size
          then Some (take n (drop (nat pos) (event_bytes e))) else None)"
| "load_bytes env st (Ctx_at pos) n =
     (if 0 \<le> pos \<and> pos + int n \<le> int (length (be_ctx env)) then Some (take n (drop (nat pos) (be_ctx env))) else None)"
| "load_bytes env st _ n = None"

fun store_bytes :: "'m bpf_env \<Rightarrow> 'm bpf_state \<Rightarrow> val \<Rightarrow> 8 word list \<Rightarrow> 'm bpf_state option" where
  "store_bytes env st (Stack_at pos) bs =
     (if - stack_size \<le> pos \<and> pos + int (length bs) \<le> 0
      then Some (st\<lparr>stack_frame := set_cells (stack_frame st) pos bs\<rparr>) else None)"
| "store_bytes env st (Record_at k pos) bs =
     (case bm_lookup (be_map env) k (recs st) of
        None \<Rightarrow> None
      | Some e \<Rightarrow> if 0 \<le> pos \<and> pos + int (length bs) \<le> record_size
          then Some (st\<lparr>recs := bm_store (be_map env) k (bytes_event (splice (nat pos) bs (event_bytes e))) (recs st)\<rparr>)
          else None)"
| "store_bytes env st _ bs = None"

fun shift :: "int \<Rightarrow> val \<Rightarrow> val option" where
  "shift d (Num w) = Some (Num (w + word_of_int d))"
| "shift d (Stack_at pos) = Some (Stack_at (pos + d))"
| "shift d (Record_at k pos) = Some (Record_at k (pos + d))"
| "shift d (Ctx_at pos) = Some (Ctx_at (pos + d))"
| "shift d (Map_ref s) = None"

subsection \<open>Arithmetic and conditions\<close>

fun alu_val :: "alu \<Rightarrow> val \<Rightarrow> val \<Rightarrow> val option" where
  "alu_val Mov a b = Some b"
| "alu_val Add a (Num w) = shift (sint w) a"
| "alu_val Add (Num w) b = shift (sint w) b"
| "alu_val Lsh (Num a) (Num b) = Some (Num (push_bit (unat (b AND 63)) a))"
| "alu_val Rsh (Num a) (Num b) = Some (Num (drop_bit (unat (b AND 63)) a))"
| "alu_val _ _ _ = None"

text \<open>A pointer may only be compared with 0, which none of them is.\<close>

fun holds :: "cond \<Rightarrow> val \<Rightarrow> val \<Rightarrow> bool option" where
  "holds J_eq (Num a) (Num b) = Some (a = b)"
| "holds J_ne (Num a) (Num b) = Some (a \<noteq> b)"
| "holds J_sgt (Num a) (Num b) = Some (sint b < sint a)"
| "holds J_eq p (Num b) = (if b = 0 then Some False else None)"
| "holds J_ne p (Num b) = (if b = 0 then Some True else None)"
| "holds _ _ _ = None"

subsection \<open>Helpers\<close>

text \<open>\<open>bpf_map_update_elem\<close> is there for \<open>BPF_NOEXIST\<close>, the only flag the programs use.\<close>

definition BPF_NOEXIST :: "64 word" where "BPF_NOEXIST = 1"
definition BPF_F_CURRENT_CPU :: "64 word" where "BPF_F_CURRENT_CPU = 0xffffffff"

definition key_at :: "'m bpf_env \<Rightarrow> 'm bpf_state \<Rightarrow> val \<Rightarrow> cint option" where
  "key_at env st p = map_option (\<lambda>bs. ucast (word_of bs)) (load_bytes env st p 4)"

definition errno_word :: "cint \<Rightarrow> 64 word" where
  "errno_word err = word_of_int (sint err)"

text \<open>The value in register 0 and the state after it.\<close>

definition helper :: "'m bpf_env \<Rightarrow> int \<Rightarrow> 'm bpf_state \<Rightarrow> (val \<times> 'm bpf_state) option" where
  "helper env n st =
     (if n = 1 then
        (case (reg st 1, reg st 2) of
           (Some (Map_ref m), Some p) \<Rightarrow>
             if m \<noteq> ''records'' then None
             else (case key_at env st p of
                 None \<Rightarrow> None
               | Some k \<Rightarrow> Some (if bm_lookup (be_map env) k (recs st) = None then Num 0 else Record_at k 0, st))
         | _ \<Rightarrow> None)
      else if n = 2 then
        (case (reg st 1, reg st 2, reg st 3, reg st 4) of
           (Some (Map_ref m), Some p, Some q, Some (Num flags)) \<Rightarrow>
             if m \<noteq> ''records'' \<or> flags \<noteq> BPF_NOEXIST then None
             else (case (key_at env st p, load_bytes env st q (nat record_size)) of
                 (Some k, Some bs) \<Rightarrow>
                   (case bm_noexist (be_map env) k (bytes_event bs) (recs st) of
                      (ok, m') \<Rightarrow> Some (Num (if ok then 0 else errno_word (be_err env)), st\<lparr>recs := m'\<rparr>))
               | _ \<Rightarrow> None)
         | _ \<Rightarrow> None)
      else if n = 3 then
        (case (reg st 1, reg st 2) of
           (Some (Map_ref m), Some p) \<Rightarrow>
             if m \<noteq> ''records'' then None
             else (case key_at env st p of
                 None \<Rightarrow> None
               | Some k \<Rightarrow> Some (Num (be_ret env), st\<lparr>recs := bm_delete (be_map env) k (recs st)\<rparr>))
         | _ \<Rightarrow> None)
      else if n = 4 then
        (case (reg st 1, reg st 2, reg st 3) of
           (Some p, Some (Num len), Some (Num a)) \<Rightarrow>
             map_option (\<lambda>st. (Num (be_ret env), st)) (store_bytes env st p (be_probe env a (unat len)))
         | _ \<Rightarrow> None)
      else if n = 14 then Some (Num (t_pid_tgid (be_task env)), st)
      else if n = 15 then Some (Num (t_uid_gid (be_task env)), st)
      else if n = 16 then
        (case (reg st 1, reg st 2) of
           (Some p, Some (Num len)) \<Rightarrow>
             if unat len \<noteq> TASK_COMM_LEN then None
             else map_option (\<lambda>st. (Num (be_ret env), st)) (store_bytes env st p (map char_byte (t_comm (be_task env))))
         | _ \<Rightarrow> None)
      else if n = 25 then
        (case (reg st 1, reg st 2, reg st 3, reg st 4, reg st 5) of
           (Some (Ctx_at c), Some (Map_ref m), Some (Num flags), Some p, Some (Num len)) \<Rightarrow>
             if c \<noteq> 0 \<or> m \<noteq> ''perf_events'' \<or> flags \<noteq> BPF_F_CURRENT_CPU then None
             else map_option (\<lambda>bs. (Num (be_ret env), st\<lparr>perf := perf st @ [bs]\<rparr>)) (load_bytes env st p (unat len))
         | _ \<Rightarrow> None)
      else if n = 35 then Some (Num (be_task_addr env), st)
      else None)"

subsection \<open>Execution\<close>

datatype 'm outcome = Continue "'m bpf_state" | Exited "64 word" "'m bpf_state" | Stuck

definition set_reg :: "nat \<Rightarrow> val \<Rightarrow> 'm bpf_state \<Rightarrow> 'm bpf_state option" where
  "set_reg d v st = (if d < 10 then Some (st\<lparr>reg := (reg st)(d \<mapsto> v)\<rparr>) else None)"

definition advance :: "int \<Rightarrow> 'm bpf_state option \<Rightarrow> 'm outcome" where
  "advance d st = (case st of None \<Rightarrow> Stuck
     | Some st \<Rightarrow> if int (pc st) + 1 + d < 0 then Stuck else Continue (st\<lparr>pc := nat (int (pc st) + 1 + d)\<rparr>))"

definition aligned_to :: "nat \<Rightarrow> val \<Rightarrow> bool" where
  "aligned_to n p = (case p of Stack_at pos \<Rightarrow> pos mod int n = 0 | Record_at k pos \<Rightarrow> pos mod int n = 0
     | Ctx_at pos \<Rightarrow> pos mod int n = 0 | _ \<Rightarrow> False)"

definition clobber :: "'m bpf_state \<Rightarrow> 'm bpf_state" where
  "clobber st = st\<lparr>reg := (reg st)(1 := None, 2 := None, 3 := None, 4 := None, 5 := None)\<rparr>"

definition bind_reg :: "'m bpf_state \<Rightarrow> nat \<Rightarrow> (val \<Rightarrow> 'm outcome) \<Rightarrow> 'm outcome" where
  "bind_reg st r f = (case reg st r of None \<Rightarrow> Stuck | Some v \<Rightarrow> f v)"

definition offset :: "int \<Rightarrow> val \<Rightarrow> val" where
  "offset d p = (case shift d p of None \<Rightarrow> p | Some q \<Rightarrow> q)"

fun exec :: "'m bpf_env \<Rightarrow> insn \<Rightarrow> 'm bpf_state \<Rightarrow> 'm outcome" where
  "exec env (Alu_imm Mov d imm) st = advance 0 (set_reg d (Num (word_of_int imm)) st)"
| "exec env (Alu_imm f d imm) st = bind_reg st d (\<lambda>v.
     advance 0 (Option.bind (alu_val f v (Num (word_of_int imm))) (\<lambda>v. set_reg d v st)))"
| "exec env (Alu_reg Mov d s) st = bind_reg st s (\<lambda>v. advance 0 (set_reg d v st))"
| "exec env (Alu_reg f d s) st = bind_reg st d (\<lambda>v. bind_reg st s (\<lambda>u.
     advance 0 (Option.bind (alu_val f v u) (\<lambda>v. set_reg d v st))))"
| "exec env (Load n d s off) st = bind_reg st s (\<lambda>p.
     let q = offset off p in
     if \<not> aligned_to n q then Stuck
     else advance 0 (Option.bind (load_bytes env st q n) (\<lambda>bs. set_reg d (Num (word_of bs)) st)))"
| "exec env (Store n d off s) st = bind_reg st d (\<lambda>p. bind_reg st s (\<lambda>v.
     let q = offset off p in
     if \<not> aligned_to n q then Stuck
     else (case v of Num w \<Rightarrow> advance 0 (store_bytes env st q (bytes_of n w)) | _ \<Rightarrow> Stuck)))"
| "exec env (Ld_imm64 d w) st = advance 1 (set_reg d (Num w) st)"
| "exec env (Ld_map d s) st = advance 1 (set_reg d (Map_ref s) st)"
| "exec env (Jump_imm c d imm off) st = bind_reg st d (\<lambda>v.
     case holds c v (Num (word_of_int imm)) of
       None \<Rightarrow> Stuck | Some b \<Rightarrow> advance (if b then off else 0) (Some st))"
| "exec env (Jump_reg c d s off) st = bind_reg st d (\<lambda>v. bind_reg st s (\<lambda>u.
     case holds c v u of None \<Rightarrow> Stuck | Some b \<Rightarrow> advance (if b then off else 0) (Some st)))"
| "exec env (Call n) st =
     (case helper env n st of None \<Rightarrow> Stuck
      | Some (v, st) \<Rightarrow> advance 0 (set_reg 0 v (clobber st)))"
| "exec env Exit_insn st = bind_reg st 0 (\<lambda>v. case v of Num w \<Rightarrow> Exited w st | _ \<Rightarrow> Stuck)"
| "exec env Pad st = Stuck"

definition bpf_step :: "'m bpf_env \<Rightarrow> insn list \<Rightarrow> 'm bpf_state \<Rightarrow> 'm outcome" where
  "bpf_step env prog st = (if pc st < length prog then exec env (prog ! pc st) st else Stuck)"

text \<open>At most so many instructions; \<open>Continue\<close> is where they were not enough.\<close>

fun bpf_run :: "nat \<Rightarrow> 'm bpf_env \<Rightarrow> insn list \<Rightarrow> 'm bpf_state \<Rightarrow> 'm outcome" where
  "bpf_run 0 env prog st = Continue st"
| "bpf_run (Suc n) env prog st =
     (case bpf_step env prog st of Continue st' \<Rightarrow> bpf_run n env prog st' | r \<Rightarrow> r)"

text \<open>A program starts with the context in register 1 and the frame pointer in register 10.\<close>

definition entry_state :: "'m \<Rightarrow> 'm bpf_state" where
  "entry_state m = \<lparr>reg = [1 \<mapsto> Ctx_at 0, 10 \<mapsto> Stack_at 0], stack_frame = Map.empty, recs = m, perf = [], pc = 0\<rparr>"

subsection \<open>Termination\<close>

text \<open>A program whose jumps all lead forward.\<close>

fun forward_insn :: "insn \<Rightarrow> bool" where
  "forward_insn (Jump_imm c d imm off) = (0 \<le> off)"
| "forward_insn (Jump_reg c d s off) = (0 \<le> off)"
| "forward_insn _ = True"

definition loop_free :: "insn list \<Rightarrow> bool" where
  "loop_free prog = list_all forward_insn prog"

lemma pc_set_reg: "set_reg d v st = Some st' \<Longrightarrow> pc st' = pc st"
  by (auto simp: set_reg_def split: if_splits)

lemma pc_store_bytes: "store_bytes env st p bs = Some st' \<Longrightarrow> pc st' = pc st"
  by (cases p) (auto split: if_splits option.splits)

lemma pc_helper: "helper env n st = Some (v, st') \<Longrightarrow> pc st' = pc st"
  by (auto simp: helper_def pc_store_bytes split: if_splits option.splits val.splits prod.splits)

lemma advance_Continue:
  assumes "advance d st = Continue st'"
  obtains st1 where "st = Some st1" "int (pc st') = int (pc st1) + 1 + d"
  using assms by (cases st) (auto simp: advance_def split: if_splits)

lemma exec_forward:
  assumes "forward_insn x" and "exec env x st = Continue st'"
  shows "pc st < pc st'"
  using assms(2,1)
  by (induction env x st rule: exec.induct)
    (auto simp: bind_reg_def Let_def clobber_def Option.bind_eq_Some_conv split: option.splits if_splits val.splits prod.splits
      elim!: advance_Continue dest!: pc_set_reg pc_store_bytes pc_helper)

lemma bpf_run_ends:
  assumes "loop_free prog" and "length prog - pc st < n"
  shows "bpf_run n env prog st \<noteq> Continue st'"
  using assms(2)
proof (induction n arbitrary: st)
  case (Suc n)
  show ?case
  proof (cases "bpf_step env prog st")
    case (Continue st1)
    then have pc: "pc st < length prog" and ex: "exec env (prog ! pc st) st = Continue st1"
      by (auto simp: bpf_step_def split: if_splits)
    have "forward_insn (prog ! pc st)" using assms(1) pc by (simp add: loop_free_def list_all_length)
    from exec_forward [OF this ex] Suc.prems pc have "length prog - pc st1 < n" by linarith
    from Suc.IH [OF this] Continue show ?thesis by simp
  qed simp_all
qed simp

end
