(* ===== verification/Elf.thy ===== *)
theory Elf
  imports Bpf_Machine
begin

text \<open>
  The parts of the ELF format (64 bits, the lowest byte first, relocations without addend) that lead
  from an object file to its programs: section headers, names, symbols, relocations.  Every read can
  fail, outside the file or where the file is not transcribed.
\<close>

record section_header =
  sh_name :: nat
  sh_type :: nat
  sh_offset :: nat
  sh_size :: nat
  sh_link :: nat
  sh_info :: nat

record elf_symbol =
  st_name :: nat
  st_shndx :: nat
  st_value :: nat
  st_size :: nat

definition field :: "nat \<Rightarrow> nat \<Rightarrow> bytes \<Rightarrow> nat" where
  "field pos n bs = le (take n (drop pos bs))"

definition header_of :: "bytes \<Rightarrow> section_header" where
  "header_of bs = \<lparr>sh_name = field 0 4 bs, sh_type = field 4 4 bs, sh_offset = field 24 8 bs,
     sh_size = field 32 8 bs, sh_link = field 40 4 bs, sh_info = field 44 4 bs\<rparr>"

definition symbol_of :: "bytes \<Rightarrow> elf_symbol" where
  "symbol_of bs = \<lparr>st_name = field 0 4 bs, st_shndx = field 6 2 bs, st_value = field 8 8 bs,
     st_size = field 16 8 bs\<rparr>"

text \<open>A table of \<open>n\<close> entries of \<open>len\<close> bytes each.\<close>

fun rows :: "(bytes \<Rightarrow> 'a) \<Rightarrow> nat \<Rightarrow> nat \<Rightarrow> bytes \<Rightarrow> 'a list" where
  "rows f len 0 bs = []"
| "rows f len (Suc n) bs = f (take len bs) # rows f len n (drop len bs)"

lemma rows_numeral [simp]:
  "rows f len (numeral k) bs = f (take len bs) # rows f len (pred_numeral k) (drop len bs)"
  by (simp add: numeral_eq_Suc)

definition entries :: "image \<Rightarrow> (bytes \<Rightarrow> 'a) \<Rightarrow> nat \<Rightarrow> nat \<Rightarrow> nat \<Rightarrow> 'a list option" where
  "entries img f len n pos = map_option (rows f len n) (at img pos (len * n))"

definition ELF_MAGIC :: bytes where "ELF_MAGIC = [0x7f, 0x45, 0x4c, 0x46]"
definition EM_BPF :: nat where "EM_BPF = 247"

definition SHT_SYMTAB :: nat where "SHT_SYMTAB = 2"
definition SHT_REL :: nat where "SHT_REL = 9"

record elf =
  elf_end :: nat
  elf_shstrndx :: nat
  elf_headers :: "section_header list"

definition elf_of :: "image \<Rightarrow> elf option" where
  "elf_of img = (case at img 0 64 of
       None \<Rightarrow> None
     | Some h \<Rightarrow>
         if take 4 h \<noteq> ELF_MAGIC \<or> field 18 2 h \<noteq> EM_BPF then None
         else map_option (\<lambda>hs. \<lparr>elf_end = field 40 8 h + 64 * field 60 2 h, elf_shstrndx = field 62 2 h, elf_headers = hs\<rparr>)
           (entries img header_of 64 (field 60 2 h) (field 40 8 h)))"

definition contents :: "image \<Rightarrow> section_header \<Rightarrow> bytes option" where
  "contents img sh = at img (sh_offset sh) (sh_size sh)"

text \<open>The name of every section.\<close>

definition section_names :: "image \<Rightarrow> elf \<Rightarrow> string option list" where
  "section_names img e =
     (if elf_shstrndx e < length (elf_headers e) then
        (case contents img (elf_headers e ! elf_shstrndx e) of
           None \<Rightarrow> []
         | Some tab \<Rightarrow> map (\<lambda>sh. cstring_at tab (sh_name sh)) (elf_headers e))
      else [])"

fun index_of :: "'a \<Rightarrow> 'a list \<Rightarrow> nat option" where
  "index_of x [] = None"
| "index_of x (y # ys) = (if x = y then Some 0 else map_option Suc (index_of x ys))"

text \<open>The symbols with their names.\<close>

definition symbols :: "image \<Rightarrow> elf \<Rightarrow> (string \<times> elf_symbol) list" where
  "symbols img e = (case find (\<lambda>sh. sh_type sh = SHT_SYMTAB) (elf_headers e) of
       None \<Rightarrow> []
     | Some sh \<Rightarrow>
         (case (entries img symbol_of 24 (sh_size sh div 24) (sh_offset sh),
                if sh_link sh < length (elf_headers e) then contents img (elf_headers e ! sh_link sh) else None) of
            (Some syms, Some tab) \<Rightarrow>
              map (\<lambda>s. (case cstring_at tab (st_name s) of None \<Rightarrow> [] | Some nm \<Rightarrow> nm, s)) syms
          | _ \<Rightarrow> []))"

text \<open>The relocations of section \<open>k\<close>: offset and name of the symbol.\<close>

definition relocations :: "image \<Rightarrow> elf \<Rightarrow> nat \<Rightarrow> (nat \<times> string) list" where
  "relocations img e k =
     (case find (\<lambda>sh. sh_type sh = SHT_REL \<and> sh_info sh = k) (elf_headers e) of
        None \<Rightarrow> []
      | Some sh \<Rightarrow>
          (case entries img (\<lambda>bs. (field 0 8 bs, field 12 4 bs)) 16 (sh_size sh div 16) (sh_offset sh) of
             None \<Rightarrow> []
           | Some rs \<Rightarrow> map (\<lambda>(pos, i). (pos, if i < length (symbols img e) then fst (symbols img e ! i) else [])) rs))"

text \<open>A program: the decoded section of that name, with the maps its relocations name.\<close>

definition program_of :: "image \<Rightarrow> string \<Rightarrow> insn list option" where
  "program_of img nm = Option.bind (elf_of img) (\<lambda>e.
     Option.bind (index_of (Some nm) (section_names img e)) (\<lambda>k.
       Option.bind (contents img (elf_headers e ! k)) (\<lambda>code.
         decode (map_of (relocations img e k)) 0 code)))"

definition section_data :: "image \<Rightarrow> string \<Rightarrow> bytes option" where
  "section_data img nm = Option.bind (elf_of img) (\<lambda>e.
     Option.bind (index_of (Some nm) (section_names img e)) (\<lambda>k. contents img (elf_headers e ! k)))"

end
