(* ===== verification/Btf.thy ===== *)
theory Btf
  imports Elf
begin

text \<open>
  BTF, the type information a loader reads from an object file: the section's header, its types and
  its strings.  \<open>btf_types\<close> reads the types; \<open>scan_lines\<close> checks them word by word with a state that
  stays small: what it accepts, \<open>btf_types\<close> reads, and every reference in it is in range
  (\<open>scan_lines_words\<close>, \<open>scan_types\<close>), so that the types are \<open>valid_btf\<close>.
\<close>

subsection \<open>Words\<close>

fun words_of :: "bytes \<Rightarrow> nat list \<times> bytes" where
  "words_of (a # b # c # d # bs) = (case words_of bs of (ws, r) \<Rightarrow> (le [a, b, c, d] # ws, r))"
| "words_of bs = ([], bs)"

lemma words_of_append:
  "words_of (xs @ ys) = (case words_of xs of (ws, r) \<Rightarrow> case words_of (r @ ys) of (vs, q) \<Rightarrow> (ws @ vs, q))"
  by (induction xs rule: words_of.induct) (auto split: prod.splits)

lemma words_of_eq: "words_of bs =
    (map (\<lambda>i. le (take 4 (drop (4 * i) bs))) [0..<length bs div 4], drop (4 * (length bs div 4)) bs)"
proof (induction bs rule: words_of.induct)
  case (1 a b c d bs)
  have drop4: "drop (4 + k) (a # b # c # d # bs) = drop k bs" for k
    using drop_drop [of k 4 "a # b # c # d # bs"] by (simp add: add.commute)
  have len: "length (a # b # c # d # bs) div 4 = Suc (length bs div 4)" by simp
  have "map (\<lambda>i. le (take 4 (drop (4 * i) (a # b # c # d # bs)))) [0..<Suc (length bs div 4)] =
      le [a, b, c, d] # map (\<lambda>i. le (take 4 (drop (4 * i) bs))) [0..<length bs div 4]"
    by (simp add: upt_conv_Cons map_Suc_upt [symmetric] drop4 del: upt_Suc le.simps)
  then show ?case using 1 unfolding len by (simp add: drop4 del: le.simps upt_Suc)
qed simp_all

subsection \<open>Types\<close>

record btf_type =
  bt_name :: nat
  bt_kind :: nat
  bt_vlen :: nat
  bt_flag :: bool
  bt_arg :: nat
  bt_extra :: "nat list"

definition info_kind :: "nat \<Rightarrow> nat" where "info_kind info = info div 2 ^ 24 mod 32"
definition info_vlen :: "nat \<Rightarrow> nat" where "info_vlen info = info mod 2 ^ 16"

text \<open>The number of words that follow the three every type has.\<close>

definition extra_words :: "nat \<Rightarrow> nat \<Rightarrow> nat" where
  "extra_words kind vlen =
     (if kind \<in> {1, 14, 17} then 1
      else if kind = 3 then 3
      else if kind \<in> {4, 5, 15, 19} then 3 * vlen
      else if kind \<in> {6, 13} then 2 * vlen
      else 0)"

definition make_type :: "nat \<Rightarrow> nat \<Rightarrow> nat \<Rightarrow> nat list \<Rightarrow> btf_type" where
  "make_type name info arg ws = \<lparr>bt_name = name, bt_kind = info_kind info, bt_vlen = info_vlen info,
     bt_flag = (2 ^ 31 \<le> info), bt_arg = arg, bt_extra = ws\<rparr>"

function btf_types :: "nat list \<Rightarrow> btf_type list option" where
  "btf_types [] = Some []"
| "btf_types [name] = None"
| "btf_types [name, info] = None"
| "btf_types (name # info # arg # ws) =
     (if length ws < extra_words (info_kind info) (info_vlen info) then None
      else map_option ((#) (make_type name info arg (take (extra_words (info_kind info) (info_vlen info)) ws)))
        (btf_types (drop (extra_words (info_kind info) (info_vlen info)) ws)))"
  by pat_completeness auto
termination by (relation "measure length") auto

lemma btf_types_append:
  "btf_types xs = Some ts \<Longrightarrow> btf_types (xs @ ys) = map_option ((@) ts) (btf_types ys)"
proof (induction xs arbitrary: ts rule: btf_types.induct)
  case 1
  then show ?case by (simp add: option.map_ident_strong)
next
  case (4 name info arg ws)
  let ?k = "extra_words (info_kind info) (info_vlen info)"
  have k: "\<not> length ws < ?k" using "4.prems" by (auto split: if_splits)
  with "4.prems" obtain us where us: "btf_types (drop ?k ws) = Some us"
    and ts: "ts = make_type name info arg (take ?k ws) # us" by auto
  from "4.IH" [OF k us] k show ?case
    by (simp add: ts option.map_comp comp_def)
qed simp_all

subsection \<open>Reading a section \<open>.BTF\<close>\<close>

definition BTF_MAGIC :: nat where "BTF_MAGIC = 0xeb9f"

text \<open>The types and the strings.\<close>

definition btf_of :: "bytes \<Rightarrow> (btf_type list \<times> bytes) option" where
  "btf_of bs = (if field 0 2 bs \<noteq> BTF_MAGIC \<or>
       length bs \<noteq> field 4 4 bs + field 16 4 bs + field 20 4 bs \<or> field 8 4 bs + field 12 4 bs \<noteq> field 16 4 bs
     then None
     else (case words_of (take (field 12 4 bs) (drop (field 4 4 bs + field 8 4 bs) bs)) of
         (ws, r) \<Rightarrow> if r \<noteq> [] then None
           else map_option (\<lambda>ts. (ts, drop (field 4 4 bs + field 16 4 bs) bs)) (btf_types ws)))"

definition type_at :: "btf_type list \<Rightarrow> nat \<Rightarrow> btf_type option" where
  "type_at ts k = (if k = 0 \<or> length ts < k then None else Some (ts ! (k - 1)))"

text \<open>The members of a structure: name, type and offset in bits.\<close>

fun triples :: "nat list \<Rightarrow> (nat \<times> nat \<times> nat) list" where
  "triples (a # b # c # xs) = (a, b, c) # triples xs"
| "triples xs = []"

definition members :: "btf_type \<Rightarrow> (nat \<times> nat \<times> nat) list" where
  "members t = map (\<lambda>(nm, ty, pos). (nm, ty, if bt_flag t then pos mod 2 ^ 24 else pos)) (triples (bt_extra t))"

subsection \<open>Names and references\<close>

text \<open>
  Which of a type's words have to be the offset of a string, and which the number of a type, of
  which there are \<open>n\<close> (and \<open>void\<close>, number 0).
\<close>

definition arg_is_type :: "nat \<Rightarrow> bool" where
  "arg_is_type kind = (kind \<in> {2, 8, 9, 10, 11, 12, 13, 14, 17, 18})"

definition word_ok :: "nat \<Rightarrow> nat \<Rightarrow> nat \<Rightarrow> int \<Rightarrow> nat \<Rightarrow> bool" where
  "word_ok strs n kind i w =
     (if kind = 3 then i = 2 \<or> w \<le> n
      else if kind \<in> {4, 5} then (i mod 3 = 0 \<longrightarrow> w < strs) \<and> (i mod 3 = 1 \<longrightarrow> w \<le> n)
      else if kind \<in> {6, 19} then i mod (if kind = 6 then 2 else 3) = 0 \<longrightarrow> w < strs
      else if kind = 13 then (if i mod 2 = 0 then w < strs else w \<le> n)
      else if kind = 15 then i mod 3 = 0 \<longrightarrow> w \<le> n
      else True)"

fun words_ok :: "nat \<Rightarrow> nat \<Rightarrow> nat \<Rightarrow> int \<Rightarrow> nat list \<Rightarrow> bool" where
  "words_ok strs n kind i [] = True"
| "words_ok strs n kind i (w # ws) = (word_ok strs n kind i w \<and> words_ok strs n kind (i + 1) ws)"

definition type_ok :: "nat \<Rightarrow> nat \<Rightarrow> btf_type \<Rightarrow> bool" where
  "type_ok strs n t = (bt_name t < strs \<and> (arg_is_type (bt_kind t) \<longrightarrow> bt_arg t \<le> n) \<and>
     words_ok strs n (bt_kind t) 0 (bt_extra t))"

subsection \<open>Checking word by word\<close>

datatype scan = Head "nat list" | Body nat int int

fun scan_word :: "nat \<Rightarrow> nat \<Rightarrow> nat \<Rightarrow> (int \<times> scan) option \<Rightarrow> (int \<times> scan) option" where
  "scan_word strs n w (Some (m, Head [])) = (if w < strs then Some (m, Head [w]) else None)"
| "scan_word strs n w (Some (m, Head [name])) = Some (m, Head [name, w])"
| "scan_word strs n w (Some (m, Head [name, info])) =
     (if arg_is_type (info_kind info) \<and> n < w then None
      else if extra_words (info_kind info) (info_vlen info) = 0 then Some (m + 1, Head [])
      else Some (m, Body (info_kind info) 0 (int (extra_words (info_kind info) (info_vlen info)))))"
| "scan_word strs n w (Some (m, Body kind i k)) =
     (if \<not> word_ok strs n kind i w then None
      else if k = 1 then Some (m + 1, Head []) else Some (m, Body kind (i + 1) (k - 1)))"
| "scan_word strs n w _ = None"

definition scan_words :: "nat \<Rightarrow> nat \<Rightarrow> nat list \<Rightarrow> (int \<times> scan) option \<Rightarrow> (int \<times> scan) option" where
  "scan_words strs n = fold (scan_word strs n)"

definition scan_line :: "nat \<Rightarrow> nat \<Rightarrow> bytes \<Rightarrow> bytes \<times> (int \<times> scan) option \<Rightarrow> bytes \<times> (int \<times> scan) option" where
  "scan_line strs n l st = (case words_of (fst st @ l) of (ws, r) \<Rightarrow> (r, scan_words strs n ws (snd st)))"

definition scan_lines :: "nat \<Rightarrow> nat \<Rightarrow> bytes list \<Rightarrow> bytes \<times> (int \<times> scan) option \<Rightarrow> bytes \<times> (int \<times> scan) option" where
  "scan_lines strs n = fold (scan_line strs n)"

lemma scan_lines_Nil [simp]: "scan_lines strs n [] st = st"
  and scan_lines_Cons [simp]: "scan_lines strs n (l # ls) st = scan_lines strs n ls (scan_line strs n l st)"
  by (simp_all add: scan_lines_def)

lemma scan_lines_append: "scan_lines strs n (xs @ ys) st = scan_lines strs n ys (scan_lines strs n xs st)"
  by (simp add: scan_lines_def)

lemma words_of_rest: "words_of bs = (ws, r) \<Longrightarrow> words_of r = ([], r)"
  by (induction bs arbitrary: ws rule: words_of.induct) (auto split: prod.splits)

lemma scan_lines_words:
  assumes "words_of p = ([], p)"
  shows "scan_lines strs n ls (p, st) =
    (case words_of (p @ concat ls) of (ws, r) \<Rightarrow> (r, scan_words strs n ws st))"
  using assms
proof (induction ls arbitrary: p st)
  case Nil
  then show ?case by (simp add: scan_lines_def scan_words_def)
next
  case (Cons l ls)
  obtain ws r where 1: "words_of (p @ l) = (ws, r)" by fastforce
  obtain vs q where 2: "words_of (r @ concat ls) = (vs, q)" by fastforce
  have "scan_lines strs n (l # ls) (p, st) = scan_lines strs n ls (r, scan_words strs n ws st)"
    by (simp add: scan_lines_def scan_line_def 1)
  also have "\<dots> = (q, scan_words strs n vs (scan_words strs n ws st))"
    using Cons.IH [OF words_of_rest [OF 1]] 2 by simp
  finally show ?case
    using words_of_append [of "p @ l" "concat ls"] 1 2 by (simp add: scan_words_def)
qed

lemma scan_words_None [simp]: "scan_words strs n ws None = None"
  by (induction ws) (simp_all add: scan_words_def)

lemma scan_words_Cons [simp]: "scan_words strs n (w # ws) st = scan_words strs n ws (scan_word strs n w st)"
  and scan_words_Nil [simp]: "scan_words strs n [] st = st"
  by (simp_all add: scan_words_def)

lemma scan_body:
  assumes "scan_words strs n ws (Some (m, Body kind i (int k))) = Some (m', Head [])" and "0 < k"
  shows "k \<le> length ws \<and> words_ok strs n kind i (take k ws) \<and>
    scan_words strs n (drop k ws) (Some (m + 1, Head [])) = Some (m', Head [])"
  using assms
proof (induction ws arbitrary: i k)
  case (Cons w ws)
  then have ok: "word_ok strs n kind i w" by (simp split: if_splits)
  show ?case
  proof (cases "k = 1")
    case True
    with Cons.prems ok show ?thesis by simp
  next
    case False
    then obtain k' where k: "k = Suc k'" "0 < k'" using Cons.prems(2) by (cases k) auto
    have "scan_words strs n ws (Some (m, Body kind (i + 1) (int k'))) = Some (m', Head [])"
      using Cons.prems(1) ok k by (simp split: if_splits)
    from Cons.IH [OF this k(2)] ok k show ?thesis by simp
  qed
qed simp

lemma scan_types:
  assumes "scan_words strs n ws (Some (m, Head [])) = Some (m', Head [])"
  shows "\<exists>ts. btf_types ws = Some ts \<and> list_all (type_ok strs n) ts \<and> m' = m + int (length ts)"
  using assms
proof (induction ws arbitrary: m rule: btf_types.induct)
  case (4 name info arg ws)
  let ?k = "extra_words (info_kind info) (info_vlen info)"
  from 4(2) have ok: "name < strs" "arg_is_type (info_kind info) \<longrightarrow> arg \<le> n"
    by (auto split: if_splits)
  have rest: "?k \<le> length ws \<and> words_ok strs n (info_kind info) 0 (take ?k ws) \<and>
      scan_words strs n (drop ?k ws) (Some (m + 1, Head [])) = Some (m', Head [])"
  proof (cases "?k = 0")
    case True
    with 4(2) ok show ?thesis by (auto split: if_splits)
  next
    case False
    with 4(2) ok have "scan_words strs n ws (Some (m, Body (info_kind info) 0 (int ?k))) = Some (m', Head [])"
      by (auto split: if_splits)
    from scan_body [OF this] False show ?thesis by simp
  qed
  then have k: "\<not> length ws < ?k" by simp
  from 4(1) [OF k] rest obtain ts where "btf_types (drop ?k ws) = Some ts"
      "list_all (type_ok strs n) ts" "m' = m + 1 + int (length ts)" by blast
  moreover have "type_ok strs n (make_type name info arg (take ?k ws))"
    using rest ok by (simp add: type_ok_def make_type_def)
  ultimately show ?case using k by simp
qed (simp_all split: if_splits)

subsection \<open>Well-formed type information\<close>

fun twos :: "nat list \<Rightarrow> (nat \<times> nat) list" where
  "twos (a # b # xs) = (a, b) # twos xs"
| "twos xs = []"

text \<open>The strings a type names, and the types it refers to.\<close>

definition type_names :: "btf_type \<Rightarrow> nat list" where
  "type_names t = bt_name t #
     (if bt_kind t \<in> {4, 5, 19} then map fst (triples (bt_extra t))
      else if bt_kind t \<in> {6, 13} then map fst (twos (bt_extra t)) else [])"

definition type_refs :: "btf_type \<Rightarrow> nat list" where
  "type_refs t = (if arg_is_type (bt_kind t) then [bt_arg t] else []) @
     (if bt_kind t = 3 then take 2 (bt_extra t)
      else if bt_kind t \<in> {4, 5} then map (\<lambda>(nm, ty, pos). ty) (triples (bt_extra t))
      else if bt_kind t = 13 then map snd (twos (bt_extra t))
      else if bt_kind t = 15 then map fst (triples (bt_extra t)) else [])"

text \<open>Every name is a string of the string table, every number that of a type or of \<open>void\<close>.\<close>

definition valid_btf :: "btf_type list \<times> bytes \<Rightarrow> bool" where
  "valid_btf btf = list_all (\<lambda>t. list_all (\<lambda>pos. cstring_at (snd btf) pos \<noteq> None) (type_names t) \<and>
     list_all (\<lambda>k. k = 0 \<or> type_at (fst btf) k \<noteq> None) (type_refs t)) (fst btf)"

lemma triples_ok:
  "words_ok strs n kind i ws \<Longrightarrow> i mod 3 = 0 \<Longrightarrow> (a, b, c) \<in> set (triples ws) \<Longrightarrow>
     \<exists>j. j mod 3 = 0 \<and> word_ok strs n kind j a \<and> word_ok strs n kind (j + 1) b"
proof (induction ws arbitrary: i rule: triples.induct)
  case (1 a' b' c' xs)
  have "words_ok strs n kind (i + 3) xs" "(i + 3) mod 3 = 0" using 1 by (simp_all add: add.assoc)
  from 1(1) [OF this] have "(a, b, c) \<in> set (triples xs) \<Longrightarrow> ?case" .
  moreover have ?case if "a = a' \<and> b = b'"
    using 1(2,3) that by (intro exI [of _ i]) auto
  ultimately show ?case using 1(4) by auto
qed simp_all

lemma twos_ok:
  "words_ok strs n kind i ws \<Longrightarrow> i mod 2 = 0 \<Longrightarrow> (a, b) \<in> set (twos ws) \<Longrightarrow>
     \<exists>j. j mod 2 = 0 \<and> word_ok strs n kind j a \<and> word_ok strs n kind (j + 1) b"
proof (induction ws arbitrary: i rule: twos.induct)
  case (1 a' b' xs)
  have "words_ok strs n kind (i + 2) xs" "(i + 2) mod 2 = 0" using 1 by (simp_all add: add.assoc)
  from 1(1) [OF this] have "(a, b) \<in> set (twos xs) \<Longrightarrow> ?case" .
  moreover have ?case if "a = a' \<and> b = b'"
    using 1(2,3) that by (intro exI [of _ i]) auto
  ultimately show ?case using 1(4) by auto
qed simp_all

lemma type_ok_names: "type_ok strs n t \<Longrightarrow> list_all (\<lambda>pos. pos < strs) (type_names t)"
proof -
  assume ok: "type_ok strs n t"
  then have w: "words_ok strs n (bt_kind t) 0 (bt_extra t)" by (simp add: type_ok_def)
  have "a < strs" if "bt_kind t \<in> {4, 5, 19}" "(a, b, c) \<in> set (triples (bt_extra t))" for a b c
    using triples_ok [OF w _ that(2)] that(1) by (auto simp: word_ok_def)
  moreover have "a < strs" if "bt_kind t \<in> {6, 13}" "(a, b) \<in> set (twos (bt_extra t))" for a b
    using twos_ok [OF w _ that(2)] that(1) by (auto simp: word_ok_def)
  ultimately show ?thesis using ok by (auto simp: type_names_def list_all_iff type_ok_def)
qed

lemma type_ok_refs: "type_ok strs n t \<Longrightarrow> list_all (\<lambda>k. k \<le> n) (type_refs t)"
proof -
  assume ok: "type_ok strs n t"
  then have w: "words_ok strs n (bt_kind t) 0 (bt_extra t)" by (simp add: type_ok_def)
  have "b \<le> n" if "bt_kind t \<in> {4, 5}" "(a, b, c) \<in> set (triples (bt_extra t))" for a b c
    using triples_ok [OF w _ that(2)] that(1) by (auto simp: word_ok_def)
  moreover have "a \<le> n" if "bt_kind t = 15" "(a, b, c) \<in> set (triples (bt_extra t))" for a b c
    using triples_ok [OF w _ that(2)] that(1) by (auto simp: word_ok_def)
  moreover have "b \<le> n" if "bt_kind t = 13" "(a, b) \<in> set (twos (bt_extra t))" for a b
    using twos_ok [OF w _ that(2)] that(1) by (auto simp: word_ok_def split: if_splits)
  moreover have "k \<le> n" if "bt_kind t = 3" "k \<in> set (take 2 (bt_extra t))" for k
    using w that by (cases "bt_extra t"; cases "tl (bt_extra t)") (auto simp: word_ok_def)
  ultimately show ?thesis using ok by (fastforce simp: type_refs_def list_all_iff type_ok_def)
qed

lemma valid_btf_ok:
  assumes "list_all (type_ok (length strs) (length ts)) ts" and "last strs = 0"
  shows "valid_btf (ts, strs)"
  using assms type_ok_names type_ok_refs cstring_at_terminated
  by (fastforce simp: valid_btf_def list_all_iff type_at_def)

end
