(* ===== verification/Core_Btf_Types.thy ===== *)
theory Core_Btf_Types
  imports Btf
begin

text \<open>
  Lines of the section \<open>.BTF\<close> in \<open>execsnoop-libbpf/execsnoop.skel.h\<close>: its header and its
  types, up to the line in which the strings begin.
\<close>

definition btf_types_1 :: "bytes list" where
  "btf_types_1 = [
   [0x9f, 0xeb, 0x01, 0, 0x18, 0, 0, 0, 0, 0, 0, 0, 0x20, 0x43, 0, 0, 0x20, 0x43, 0, 0, 0xec,
    0x2f, 0, 0, 0, 0, 0, 0, 0],
   [0, 0, 0x02, 0x03, 0, 0, 0, 0x01, 0, 0, 0, 0, 0, 0, 0x01, 0x04, 0, 0, 0, 0x20, 0, 0, 0x01, 0,
    0, 0, 0, 0, 0, 0, 0x03],
   [0, 0, 0, 0, 0x02, 0, 0, 0, 0x04, 0, 0, 0, 0x01, 0, 0, 0, 0x05, 0, 0, 0, 0, 0, 0, 0x01, 0x04,
    0, 0, 0, 0x20, 0, 0, 0],
   [0, 0, 0, 0, 0, 0, 0, 0x02, 0x06, 0, 0, 0, 0, 0, 0, 0, 0, 0, 0, 0x03, 0, 0, 0, 0, 0x02, 0, 0,
    0, 0x04, 0, 0, 0, 0],
   [0x28, 0, 0, 0, 0, 0, 0, 0, 0, 0, 0x02, 0x08, 0, 0, 0, 0x19, 0, 0, 0, 0, 0, 0, 0x08, 0x09, 0,
    0, 0, 0x1f, 0, 0, 0, 0],
   [0, 0, 0x08, 0x02, 0, 0, 0, 0, 0, 0, 0, 0, 0, 0, 0x02, 0x0b, 0, 0, 0, 0x2e, 0, 0, 0, 0x05, 0,
    0, 0x04, 0x20, 0, 0, 0],
   [0x34, 0, 0, 0, 0x0d, 0, 0, 0, 0, 0, 0, 0, 0x39, 0, 0, 0, 0x08, 0, 0, 0, 0x80, 0, 0, 0, 0x3d,
    0, 0, 0, 0x08, 0, 0, 0],
   [0xa0, 0, 0, 0, 0x42, 0, 0, 0, 0x08, 0, 0, 0, 0xc0, 0, 0, 0, 0x47, 0, 0, 0, 0x0e, 0, 0, 0,
    0xe0, 0, 0, 0, 0x4b, 0, 0],
   [0, 0, 0, 0, 0x01, 0x01, 0, 0, 0, 0x08, 0, 0, 0x01, 0, 0, 0, 0, 0, 0, 0, 0x03, 0, 0, 0, 0,
    0x0c, 0, 0, 0, 0x04, 0, 0],
   [0, 0x10, 0, 0, 0, 0x50, 0, 0, 0, 0, 0, 0, 0x08, 0x0f, 0, 0, 0, 0x56, 0, 0, 0, 0, 0, 0, 0x08,
    0x10, 0, 0, 0, 0x67, 0],
   [0, 0, 0, 0, 0, 0x01, 0x04, 0, 0, 0, 0x20, 0, 0, 0, 0, 0, 0, 0, 0x04, 0, 0, 0x04, 0x20, 0, 0,
    0, 0x74, 0, 0, 0, 0x01],
   [0, 0, 0, 0, 0, 0, 0, 0x79, 0, 0, 0, 0x05, 0, 0, 0, 0x40, 0, 0, 0, 0x85, 0, 0, 0, 0x07, 0, 0,
    0, 0x80, 0, 0, 0, 0x89],
   [0, 0, 0, 0x0a, 0, 0, 0, 0xc0, 0, 0, 0, 0x8f, 0, 0, 0, 0, 0, 0, 0x0e, 0x11, 0, 0, 0, 0x01, 0,
    0, 0, 0, 0, 0, 0, 0, 0],
   [0, 0x02, 0x14, 0, 0, 0, 0, 0, 0, 0, 0, 0, 0, 0x03, 0, 0, 0, 0, 0x02, 0, 0, 0, 0x04, 0, 0, 0,
    0x04, 0, 0, 0, 0, 0, 0],
   [0, 0, 0, 0, 0x02, 0x16, 0, 0, 0, 0, 0, 0, 0, 0, 0, 0, 0x03, 0, 0, 0, 0, 0x02, 0, 0, 0, 0x04,
    0, 0, 0, 0x80, 0, 0, 0],
   [0, 0, 0, 0, 0, 0, 0, 0x02, 0x18, 0, 0, 0, 0x97, 0, 0, 0, 0, 0, 0, 0x08, 0x19, 0, 0, 0, 0x9b,
    0, 0, 0, 0, 0, 0, 0x08],
   [0x10, 0, 0, 0, 0, 0, 0, 0, 0x04, 0, 0, 0x04, 0x20, 0, 0, 0, 0x74, 0, 0, 0, 0x13, 0, 0, 0, 0,
    0, 0, 0, 0x79, 0, 0, 0],
   [0x15, 0, 0, 0, 0x40, 0, 0, 0, 0x85, 0, 0, 0, 0x17, 0, 0, 0, 0x80, 0, 0, 0, 0x89, 0, 0, 0,
    0x17, 0, 0, 0, 0xc0, 0, 0],
   [0, 0xa1, 0, 0, 0, 0, 0, 0, 0x0e, 0x1a, 0, 0, 0, 0x01, 0, 0, 0, 0, 0, 0, 0, 0, 0, 0, 0x02,
    0x1d, 0, 0, 0, 0xad, 0, 0],
   [0, 0x05, 0, 0, 0x04, 0x20, 0, 0, 0, 0xc8, 0, 0, 0, 0x1e, 0, 0, 0, 0, 0, 0, 0, 0xcf, 0, 0, 0,
    0x02, 0, 0, 0, 0x40, 0],
   [0, 0, 0xda, 0, 0, 0, 0x20, 0, 0, 0, 0x60, 0, 0, 0, 0xe7, 0, 0, 0, 0x21, 0, 0, 0, 0x80, 0, 0,
    0, 0xec, 0, 0, 0, 0x21],
   [0, 0, 0, 0xc0, 0, 0, 0, 0xf1, 0, 0, 0, 0, 0, 0, 0x08, 0x1f, 0, 0, 0, 0xf7, 0, 0, 0, 0, 0, 0,
    0x01, 0x08, 0, 0, 0],
   [0x40, 0, 0, 0, 0, 0, 0, 0, 0, 0, 0, 0x0a, 0x0c, 0, 0, 0, 0, 0, 0, 0, 0, 0, 0, 0x02, 0x22, 0,
    0, 0, 0, 0, 0, 0, 0, 0],
   [0, 0x0a, 0x23, 0, 0, 0, 0, 0, 0, 0, 0, 0, 0, 0x02, 0x20, 0, 0, 0, 0, 0, 0, 0, 0x01, 0, 0,
    0x0d, 0x02, 0, 0, 0, 0x0a],
   [0x01, 0, 0, 0x1c, 0, 0, 0, 0x0e, 0x01, 0, 0, 0x01, 0, 0, 0x0c, 0x24, 0, 0, 0, 0x12, 0x03, 0,
    0, 0, 0x01, 0, 0x84],
   [0x40, 0x2d, 0, 0, 0x1e, 0x03, 0, 0, 0x27, 0, 0, 0, 0, 0, 0, 0, 0x2a, 0x03, 0, 0, 0x10, 0, 0,
    0, 0xc0, 0, 0, 0, 0x32],
   [0x03, 0, 0, 0x29, 0, 0, 0, 0, 0x01, 0, 0, 0x38, 0x03, 0, 0, 0x2a, 0, 0, 0, 0x40, 0x01, 0, 0,
    0x3e, 0x03, 0, 0, 0x10],
   [0, 0, 0, 0x60, 0x01, 0, 0, 0x44, 0x03, 0, 0, 0x10, 0, 0, 0, 0x80, 0x01, 0, 0, 0x4b, 0x03, 0,
    0, 0x02, 0, 0, 0, 0xa0],
   [0x01, 0, 0, 0x52, 0x03, 0, 0, 0x2e, 0, 0, 0, 0xc0, 0x01, 0, 0, 0x5d, 0x03, 0, 0, 0x10, 0, 0,
    0, 0x40, 0x02, 0, 0],
   [0x69, 0x03, 0, 0, 0x28, 0, 0, 0, 0x80, 0x02, 0, 0, 0x7d, 0x03, 0, 0, 0x35, 0, 0, 0, 0xc0,
    0x02, 0, 0, 0x88, 0x03, 0],
   [0, 0x02, 0, 0, 0, 0, 0x03, 0, 0, 0x98, 0x03, 0, 0, 0x02, 0, 0, 0, 0x20, 0x03, 0, 0, 0xa1,
    0x03, 0, 0, 0x02, 0, 0, 0],
   [0x40, 0x03, 0, 0, 0xa7, 0x03, 0, 0, 0x02, 0, 0, 0, 0x60, 0x03, 0, 0, 0xac, 0x03, 0, 0, 0x02,
    0, 0, 0, 0x80, 0x03, 0],
   [0, 0xb8, 0x03, 0, 0, 0x02, 0, 0, 0, 0xa0, 0x03, 0, 0, 0xc4, 0x03, 0, 0, 0x10, 0, 0, 0, 0xc0,
    0x03, 0, 0, 0xd0, 0x03],
   [0, 0, 0x36, 0, 0, 0, 0, 0x04, 0, 0, 0xd3, 0x03, 0, 0, 0x41, 0, 0, 0, 0, 0x0c, 0, 0, 0xd6,
    0x03, 0, 0, 0x43, 0, 0, 0],
   [0x80, 0x0d, 0, 0, 0xd9, 0x03, 0, 0, 0x53, 0, 0, 0, 0x80, 0x14, 0, 0, 0xe5, 0x03, 0, 0, 0x38,
    0, 0, 0, 0xc0, 0x14, 0],
   [0, 0xef, 0x03, 0, 0, 0x28, 0, 0, 0, 0x80, 0x15, 0, 0, 0xfb, 0x03, 0, 0, 0x10, 0, 0, 0, 0xc0,
    0x15, 0, 0, 0x0b, 0x04],
   [0, 0, 0x55, 0, 0, 0, 0, 0x16, 0, 0, 0x1c, 0x04, 0, 0, 0x57, 0, 0, 0, 0x40, 0x16, 0, 0, 0x27,
    0x04, 0, 0, 0x57, 0, 0],
   [0, 0x80, 0x16, 0, 0, 0x2e, 0x04, 0, 0, 0x58, 0, 0, 0, 0, 0x18, 0, 0, 0x34, 0x04, 0, 0, 0x59,
    0, 0, 0, 0, 0x20, 0, 0],
   [0x46, 0x04, 0, 0, 0x10, 0, 0, 0, 0x40, 0x20, 0, 0, 0x51, 0x04, 0, 0, 0x10, 0, 0, 0, 0x60,
    0x20, 0, 0, 0x58, 0x04, 0],
   [0, 0x02, 0, 0, 0, 0x80, 0x20, 0, 0, 0x68, 0x04, 0, 0, 0x5b, 0, 0, 0, 0xc0, 0x20, 0, 0, 0x71,
    0x04, 0, 0, 0x5e, 0, 0],
   [0, 0, 0x21, 0, 0, 0x7f, 0x04, 0, 0, 0x5d, 0, 0, 0, 0x40, 0x21, 0, 0, 0x89, 0x04, 0, 0, 0x29,
    0, 0, 0, 0x80, 0x22, 0],
   [0, 0x9b, 0x04, 0, 0, 0x34, 0, 0, 0, 0xc0, 0x22, 0, 0, 0xae, 0x04, 0, 0, 0x34, 0, 0, 0, 0xd0,
    0x22, 0, 0, 0xbe, 0x04],
   [0, 0, 0x02, 0, 0, 0, 0xe0, 0x22, 0, 0, 0xd4, 0x04, 0, 0, 0x61, 0, 0, 0, 0, 0x23, 0, 0, 0xec,
    0x04, 0, 0, 0x3a, 0, 0],
   [0, 0x40, 0x23, 0, 0, 0xfb, 0x04, 0, 0, 0x63, 0, 0, 0, 0xc0, 0x23, 0, 0, 0x0c, 0x05, 0, 0,
    0x28, 0, 0, 0, 0, 0x24, 0],
   [0, 0x1c, 0x05, 0, 0, 0x4f, 0, 0, 0, 0x40, 0x24, 0, 0, 0x2e, 0x05, 0, 0, 0x4f, 0, 0, 0, 0x48,
    0x24, 0, 0, 0x3c, 0x05],
   [0, 0, 0x02, 0, 0, 0, 0x60, 0x24, 0, 0, 0x4f, 0x05, 0, 0, 0x3a, 0, 0, 0, 0x80, 0x24, 0, 0,
    0x66, 0x05, 0, 0, 0x02, 0],
   [0, 0, 0, 0x25, 0, 0, 0x79, 0x05, 0, 0, 0x02, 0, 0, 0, 0x20, 0x25, 0, 0, 0x88, 0x05, 0, 0,
    0x61, 0, 0, 0, 0x40, 0x25],
   [0, 0, 0x9b, 0x05, 0, 0, 0x3a, 0, 0, 0, 0x80, 0x25, 0, 0, 0xac, 0x05, 0, 0, 0x3a, 0, 0, 0, 0,
    0x26, 0, 0, 0xba, 0x05],
   [0, 0, 0x02, 0, 0, 0, 0x80, 0x26, 0, 0, 0xc7, 0x05, 0, 0, 0x64, 0, 0, 0, 0xc0, 0x26, 0, 0,
    0xd2, 0x05, 0, 0, 0x3a, 0],
   [0, 0, 0xc0, 0x27, 0, 0, 0xd8, 0x05, 0, 0, 0x65, 0, 0, 0, 0x40, 0x28, 0, 0, 0xe7, 0x05, 0, 0,
    0x38, 0, 0, 0, 0x80],
   [0x29, 0, 0, 0xf9, 0x05, 0, 0, 0x66, 0, 0, 0, 0x40, 0x2a, 0, 0, 0xfc, 0x05, 0, 0, 0x66, 0, 0,
    0, 0x80, 0x2a, 0, 0],
   [0x06, 0x06, 0, 0, 0x67, 0, 0, 0, 0xc0, 0x2a, 0, 0, 0x0f, 0x06, 0, 0, 0x02, 0, 0, 0, 0x60,
    0x2b, 0, 0, 0x1a, 0x06, 0],
   [0, 0x02, 0, 0, 0, 0x80, 0x2b, 0, 0, 0x24, 0x06, 0, 0, 0x02, 0, 0, 0, 0xa0, 0x2b, 0, 0, 0x30,
    0x06, 0, 0, 0x02, 0, 0],
   [0, 0xc0, 0x2b, 0, 0, 0x3e, 0x06, 0, 0, 0x28, 0, 0, 0, 0, 0x2c, 0, 0, 0x45, 0x06, 0, 0, 0x10,
    0, 0, 0, 0x40, 0x2c, 0],
   [0, 0x51, 0x06, 0, 0, 0x10, 0, 0, 0, 0x60, 0x2c, 0, 0x01, 0x65, 0x06, 0, 0, 0x10, 0, 0, 0,
    0x61, 0x2c, 0, 0x01, 0x7f],
   [0x06, 0, 0, 0x10, 0, 0, 0, 0x62, 0x2c, 0, 0x01, 0x8e, 0x06, 0, 0, 0x10, 0, 0, 0, 0x63, 0x2c,
    0, 0x01, 0xa5, 0x06, 0],
   [0, 0x10, 0, 0, 0, 0x80, 0x2c, 0, 0x01, 0xb9, 0x06, 0, 0, 0x10, 0, 0, 0, 0x81, 0x2c, 0, 0x01,
    0xc3, 0x06, 0, 0, 0x10],
   [0, 0, 0, 0x82, 0x2c, 0, 0x01, 0xcd, 0x06, 0, 0, 0x10, 0, 0, 0, 0x83, 0x2c, 0, 0x01, 0xdd,
    0x06, 0, 0, 0x10, 0, 0, 0],
   [0x84, 0x2c, 0, 0x01, 0xeb, 0x06, 0, 0, 0x10, 0, 0, 0, 0x85, 0x2c, 0, 0x01, 0xf8, 0x06, 0, 0,
    0x10, 0, 0, 0, 0x86],
   [0x2c, 0, 0x01, 0x0c, 0x07, 0, 0, 0x10, 0, 0, 0, 0x87, 0x2c, 0, 0x01, 0x13, 0x07, 0, 0, 0x10,
    0, 0, 0, 0x88, 0x2c, 0],
   [0x01, 0x20, 0x07, 0, 0, 0x10, 0, 0, 0, 0x89, 0x2c, 0, 0x01, 0x2c, 0x07, 0, 0, 0x10, 0, 0, 0,
    0x8a, 0x2c, 0, 0x01],
   [0x37, 0x07, 0, 0, 0x10, 0, 0, 0, 0x8b, 0x2c, 0, 0x01, 0x47, 0x07, 0, 0, 0x10, 0, 0, 0, 0x8c,
    0x2c, 0, 0x01, 0x5b],
   [0x07, 0, 0, 0x10, 0, 0, 0, 0x8d, 0x2c, 0, 0x01, 0x68, 0x07, 0, 0, 0x28, 0, 0, 0, 0xc0, 0x2c,
    0, 0, 0x75, 0x07, 0, 0],
   [0x68, 0, 0, 0, 0, 0x2d, 0, 0, 0x39, 0, 0, 0, 0x08, 0, 0, 0, 0xc0, 0x2e, 0, 0, 0x3d, 0, 0, 0,
    0x08, 0, 0, 0, 0xe0],
   [0x2e, 0, 0, 0x83, 0x07, 0, 0, 0x28, 0, 0, 0, 0, 0x2f, 0, 0, 0x90, 0x07, 0, 0, 0x35, 0, 0, 0,
    0x40, 0x2f, 0, 0, 0x9c],
   [0x07, 0, 0, 0x35, 0, 0, 0, 0x80, 0x2f, 0, 0, 0xa3, 0x07, 0, 0, 0x3a, 0, 0, 0, 0xc0, 0x2f, 0,
    0, 0xac, 0x07, 0, 0],
   [0x3a, 0, 0, 0, 0x40, 0x30, 0, 0, 0xb4, 0x07, 0, 0, 0x35, 0, 0, 0, 0xc0, 0x30, 0, 0, 0xc1,
    0x07, 0, 0, 0x3a, 0, 0, 0],
   [0, 0x31, 0, 0, 0xc9, 0x07, 0, 0, 0x3a, 0, 0, 0, 0x80, 0x31, 0, 0, 0xd6, 0x07, 0, 0, 0x78, 0,
    0, 0, 0, 0x32, 0, 0],
   [0xe1, 0x07, 0, 0, 0x7b, 0, 0, 0, 0x40, 0x32, 0, 0, 0xeb, 0x07, 0, 0, 0x3a, 0, 0, 0, 0x40,
    0x34, 0, 0, 0xf8, 0x07, 0],
   [0, 0x3a, 0, 0, 0, 0xc0, 0x34, 0, 0, 0x04, 0x08, 0, 0, 0x7c, 0, 0, 0, 0x40, 0x35, 0, 0, 0x0f,
    0x08, 0, 0, 0x7d, 0, 0],
   [0, 0x80, 0x35, 0, 0, 0x1d, 0x08, 0, 0, 0x7d, 0, 0, 0, 0xc0, 0x35, 0, 0, 0x2d, 0x08, 0, 0,
    0x29, 0, 0, 0, 0, 0x36, 0],
   [0, 0x3c, 0x08, 0, 0, 0x3c, 0, 0, 0, 0x40, 0x36, 0, 0, 0x42, 0x08, 0, 0, 0x3c, 0, 0, 0, 0x80,
    0x36, 0, 0, 0x48, 0x08],
   [0, 0, 0x3c, 0, 0, 0, 0xc0, 0x36, 0, 0, 0x4e, 0x08, 0, 0, 0x7e, 0, 0, 0, 0, 0x37, 0, 0, 0x5b,
    0x08, 0, 0, 0x86, 0, 0],
   [0, 0xc0, 0x37, 0, 0, 0x61, 0x08, 0, 0, 0x2c, 0, 0, 0, 0x40, 0x39, 0, 0, 0x6f, 0x08, 0, 0,
    0x28, 0, 0, 0, 0x80, 0x39],
   [0, 0, 0x75, 0x08, 0, 0, 0x28, 0, 0, 0, 0xc0, 0x39, 0, 0, 0x7c, 0x08, 0, 0, 0x3c, 0, 0, 0, 0,
    0x3a, 0, 0, 0x87, 0x08],
   [0, 0, 0x3c, 0, 0, 0, 0x40, 0x3a, 0, 0, 0x96, 0x08, 0, 0, 0x28, 0, 0, 0, 0x80, 0x3a, 0, 0,
    0x9e, 0x08, 0, 0, 0x28, 0],
   [0, 0, 0xc0, 0x3a, 0, 0, 0xa6, 0x08, 0, 0, 0x8a, 0, 0, 0, 0, 0x3b, 0, 0, 0xb6, 0x08, 0, 0,
    0x90, 0, 0, 0, 0x80, 0x3d],
   [0, 0, 0xcb, 0x08, 0, 0, 0x95, 0, 0, 0, 0x40, 0x3e, 0, 0, 0xd8, 0x08, 0, 0, 0x95, 0, 0, 0,
    0x80, 0x3e, 0, 0, 0xe2],
   [0x08, 0, 0, 0x95, 0, 0, 0, 0xc0, 0x3e, 0, 0, 0xe7, 0x08, 0, 0, 0x97, 0, 0, 0, 0, 0x3f, 0, 0,
    0x34, 0, 0, 0, 0x0d, 0],
   [0, 0, 0x40, 0x3f, 0, 0, 0xfc, 0x08, 0, 0, 0x98, 0, 0, 0, 0xc0, 0x3f, 0, 0, 0x06, 0x09, 0, 0,
    0x99, 0, 0, 0, 0, 0x40],
   [0, 0, 0x0e, 0x09, 0, 0, 0x9b, 0, 0, 0, 0x40, 0x40, 0, 0, 0x16, 0x09, 0, 0, 0x28, 0, 0, 0,
    0xc0, 0x40, 0, 0, 0x28],
   [0x09, 0, 0, 0x28, 0, 0, 0, 0, 0x41, 0, 0, 0x39, 0x09, 0, 0, 0x9c, 0, 0, 0, 0x40, 0x41, 0, 0,
    0x3c, 0x09, 0, 0, 0x9d],
   [0, 0, 0, 0x80, 0x41, 0, 0, 0x42, 0x09, 0, 0, 0x9e, 0, 0, 0, 0xc0, 0x41, 0, 0, 0x4b, 0x09, 0,
    0, 0x9f, 0, 0, 0, 0],
   [0x42, 0, 0, 0x53, 0x09, 0, 0, 0xa0, 0, 0, 0, 0x40, 0x42, 0, 0, 0x5a, 0x09, 0, 0, 0xa1, 0, 0,
    0, 0x80, 0x42, 0, 0],
   [0x62, 0x09, 0, 0, 0xa2, 0, 0, 0, 0xc0, 0x42, 0, 0, 0x6a, 0x09, 0, 0, 0xa2, 0, 0, 0, 0, 0x43,
    0, 0, 0x77, 0x09, 0, 0],
   [0xa2, 0, 0, 0, 0x40, 0x43, 0, 0, 0x85, 0x09, 0, 0, 0xa5, 0, 0, 0, 0x80, 0x43, 0, 0, 0x8d,
    0x09, 0, 0, 0x28, 0, 0, 0],
   [0x40, 0x44, 0, 0, 0x97, 0x09, 0, 0, 0xa6, 0, 0, 0, 0x80, 0x44, 0, 0, 0xa3, 0x09, 0, 0, 0x10,
    0, 0, 0, 0xc0, 0x44, 0],
   [0, 0xb0, 0x09, 0, 0, 0x92, 0, 0, 0, 0, 0x45, 0, 0, 0xbb, 0x09, 0, 0, 0xa9, 0, 0, 0, 0x40,
    0x45, 0, 0, 0xc9, 0x09, 0],
   [0, 0xaa, 0, 0, 0, 0x80, 0x45, 0, 0, 0xd2, 0x09, 0, 0, 0x10, 0, 0, 0, 0xa0, 0x45, 0, 0, 0xdc,
    0x09, 0, 0, 0xac, 0, 0],
   [0, 0xc0, 0x45, 0, 0, 0xe4, 0x09, 0, 0, 0xae, 0, 0, 0, 0x40, 0x46, 0, 0, 0xf5, 0x09, 0, 0,
    0x3c, 0, 0, 0, 0x40, 0x47],
   [0, 0, 0x04, 0x0a, 0, 0, 0x3c, 0, 0, 0, 0x80, 0x47, 0, 0, 0x11, 0x0a, 0, 0, 0xb2, 0, 0, 0,
    0xc0, 0x47, 0, 0, 0x1c],
   [0x0a, 0, 0, 0x7f, 0, 0, 0, 0xe0, 0x47, 0, 0, 0x24, 0x0a, 0, 0, 0xb5, 0, 0, 0, 0, 0x48, 0, 0,
    0x2b, 0x0a, 0, 0, 0x8d],
   [0, 0, 0, 0x40, 0x48, 0, 0, 0x36, 0x0a, 0, 0, 0x35, 0, 0, 0, 0xc0, 0x48, 0, 0, 0x42, 0x0a, 0,
    0, 0xb7, 0, 0, 0, 0],
   [0x49, 0, 0, 0x50, 0x0a, 0, 0, 0x29, 0, 0, 0, 0x40, 0x49, 0, 0, 0x5d, 0x0a, 0, 0, 0xb8, 0, 0,
    0, 0x80, 0x49, 0, 0],
   [0x66, 0x0a, 0, 0, 0xb9, 0, 0, 0, 0xc0, 0x49, 0, 0, 0x6b, 0x0a, 0, 0, 0xba, 0, 0, 0, 0, 0x4a,
    0, 0, 0x79, 0x0a, 0, 0],
   [0xbb, 0, 0, 0, 0x40, 0x4a, 0, 0, 0x8a, 0x0a, 0, 0, 0xbc, 0, 0, 0, 0x80, 0x4a, 0, 0, 0x95,
    0x0a, 0, 0, 0xbd, 0, 0, 0],
   [0xc0, 0x4a, 0, 0, 0xa5, 0x0a, 0, 0, 0x28, 0, 0, 0, 0, 0x4b, 0, 0, 0xb4, 0x0a, 0, 0, 0xbe, 0,
    0, 0, 0x40, 0x4b, 0, 0],
   [0xc1, 0x0a, 0, 0, 0xc0, 0, 0, 0, 0x80, 0x4b, 0, 0, 0xc6, 0x0a, 0, 0, 0x10, 0, 0, 0, 0x40,
    0x4d, 0, 0, 0xd0, 0x0a, 0],
   [0, 0x3c, 0, 0, 0, 0x80, 0x4d, 0, 0, 0xde, 0x0a, 0, 0, 0x3c, 0, 0, 0, 0xc0, 0x4d, 0, 0, 0xeb,
    0x0a, 0, 0, 0x3c, 0, 0],
   [0, 0, 0x4e, 0, 0, 0xf8, 0x0a, 0, 0, 0xc1, 0, 0, 0, 0x40, 0x4e, 0, 0, 0x05, 0x0b, 0, 0, 0xc3,
    0, 0, 0, 0x80, 0x4e, 0],
   [0, 0x16, 0x0b, 0, 0, 0x02, 0, 0, 0, 0xa0, 0x4e, 0, 0, 0x2e, 0x0b, 0, 0, 0x02, 0, 0, 0, 0xc0,
    0x4e, 0, 0, 0x47, 0x0b],
   [0, 0, 0xc5, 0, 0, 0, 0, 0x4f, 0, 0, 0x4f, 0x0b, 0, 0, 0x3a, 0, 0, 0, 0x40, 0x4f, 0, 0, 0x57,
    0x0b, 0, 0, 0x18, 0, 0],
   [0, 0xc0, 0x4f, 0, 0, 0x5e, 0x0b, 0, 0, 0x18, 0, 0, 0, 0xe0, 0x4f, 0, 0, 0x63, 0x0b, 0, 0,
    0xc6, 0, 0, 0, 0, 0x50, 0],
   [0, 0x6f, 0x0b, 0, 0, 0xc7, 0, 0, 0, 0x40, 0x50, 0, 0, 0x82, 0x0b, 0, 0, 0x3a, 0, 0, 0, 0x80,
    0x50, 0, 0, 0x90, 0x0b],
   [0, 0, 0xc8, 0, 0, 0, 0, 0x51, 0, 0, 0x9f, 0x0b, 0, 0, 0xc9, 0, 0, 0, 0x40, 0x51, 0, 0, 0xb0,
    0x0b, 0, 0, 0x10, 0, 0],
   [0, 0x40, 0x52, 0, 0, 0xbc, 0x0b, 0, 0, 0xd4, 0, 0, 0, 0x80, 0x52, 0, 0, 0xcc, 0x0b, 0, 0,
    0xc9, 0, 0, 0, 0, 0x53, 0],
   [0, 0xdd, 0x0b, 0, 0, 0x3a, 0, 0, 0, 0, 0x54, 0, 0, 0xed, 0x0b, 0, 0, 0xd5, 0, 0, 0, 0x80,
    0x54, 0, 0, 0xf7, 0x0b, 0],
   [0, 0xd6, 0, 0, 0, 0xc0, 0x54, 0, 0, 0xff, 0x0b, 0, 0, 0xd6, 0, 0, 0, 0xd0, 0x54, 0, 0, 0x0e,
    0x0c, 0, 0, 0x02, 0, 0],
   [0, 0xe0, 0x54, 0, 0, 0x1c, 0x0c, 0, 0, 0x10, 0, 0, 0, 0, 0x55, 0, 0, 0x2d, 0x0c, 0, 0, 0x10,
    0, 0, 0, 0x20, 0x55, 0],
   [0, 0x42, 0x0c, 0, 0, 0x02, 0, 0, 0, 0x40, 0x55, 0, 0, 0x55, 0x0c, 0, 0, 0x28, 0, 0, 0, 0x80,
    0x55, 0, 0, 0x68, 0x0c],
   [0, 0, 0x3c, 0, 0, 0, 0xc0, 0x55, 0, 0, 0x73, 0x0c, 0, 0, 0x3c, 0, 0, 0, 0, 0x56, 0, 0, 0x8c,
    0x0c, 0, 0, 0x3c, 0, 0],
   [0, 0x40, 0x56, 0, 0, 0xa2, 0x0c, 0, 0, 0x91, 0, 0, 0, 0x80, 0x56, 0, 0, 0xac, 0x0c, 0, 0,
    0xd7, 0, 0, 0, 0, 0x57, 0],
   [0, 0xb7, 0x0c, 0, 0, 0xd8, 0, 0, 0, 0x40, 0x57, 0, 0, 0xc3, 0x0c, 0, 0, 0x28, 0, 0, 0, 0x80,
    0x57, 0, 0, 0xd5, 0x0c],
   [0, 0, 0xd9, 0, 0, 0, 0xc0, 0x57, 0, 0, 0xea, 0x0c, 0, 0, 0x28, 0, 0, 0, 0x80, 0x58, 0, 0,
    0xfe, 0x0c, 0, 0, 0xda, 0],
   [0, 0, 0xc0, 0x58, 0, 0, 0x03, 0x0d, 0, 0, 0x18, 0, 0, 0, 0, 0x59, 0, 0, 0x0c, 0x0d, 0, 0,
    0x28, 0, 0, 0, 0x40, 0x59],
   [0, 0, 0x1c, 0x0d, 0, 0, 0xdb, 0, 0, 0, 0x80, 0x59, 0, 0, 0, 0, 0, 0, 0xdd, 0, 0, 0, 0, 0x5b,
    0, 0, 0x24, 0x0d, 0, 0],
   [0xde, 0, 0, 0, 0x80, 0x5b, 0, 0, 0x30, 0x0d, 0, 0, 0xdf, 0, 0, 0, 0xc0, 0x5b, 0, 0, 0x3a,
    0x0d, 0, 0, 0xe1, 0, 0, 0],
   [0x40, 0x5c, 0, 0, 0x41, 0x0d, 0, 0, 0x02, 0, 0, 0, 0x80, 0x5c, 0, 0, 0x4c, 0x0d, 0, 0, 0x02,
    0, 0, 0, 0xa0, 0x5c, 0],
   [0, 0x5d, 0x0d, 0, 0, 0x28, 0, 0, 0, 0xc0, 0x5c, 0, 0, 0x6f, 0x0d, 0, 0, 0x02, 0, 0, 0, 0,
    0x5d, 0, 0, 0x84, 0x0d, 0],
   [0, 0xe4, 0, 0, 0, 0x40, 0x5d, 0, 0, 0x93, 0x0d, 0, 0, 0x3c, 0, 0, 0, 0x40, 0xd5, 0, 0, 0xa2,
    0x0d, 0, 0, 0x3c, 0, 0],
   [0, 0x80, 0xd5, 0, 0, 0xb9, 0x0d, 0, 0, 0x02, 0, 0, 0, 0xc0, 0xd5, 0, 0, 0xc8, 0x0d, 0, 0,
    0x02, 0, 0, 0, 0xe0, 0xd5],
   [0, 0, 0xd7, 0x0d, 0, 0, 0xe5, 0, 0, 0, 0, 0xd6, 0, 0, 0xe1, 0x0d, 0, 0, 0x1f, 0, 0, 0, 0x40,
    0xd6, 0, 0, 0xf2, 0x0d],
   [0, 0, 0x2c, 0, 0, 0, 0x80, 0xd6, 0, 0, 0, 0x0e, 0, 0, 0x2c, 0, 0, 0, 0xa0, 0xd6, 0, 0, 0x14,
    0x0e, 0, 0, 0x28, 0, 0],
   [0, 0xc0, 0xd6, 0, 0, 0x24, 0x0e, 0, 0, 0xe6, 0, 0, 0, 0, 0xd7, 0, 0, 0x31, 0x0e, 0, 0, 0xe7,
    0, 0, 0, 0x40, 0xd7, 0],
   [0, 0x44, 0x0e, 0, 0, 0x02, 0, 0, 0, 0x60, 0xd7, 0, 0, 0x54, 0x0e, 0, 0, 0x10, 0, 0, 0, 0x80,
    0xd7, 0, 0, 0x6d, 0x0e],
   [0, 0, 0xe6, 0, 0, 0, 0xc0, 0xd7, 0, 0, 0x7a, 0x0e, 0, 0, 0xe8, 0, 0, 0, 0, 0xd8, 0, 0, 0x89,
    0x0e, 0, 0, 0xe9, 0, 0],
   [0, 0x40, 0xd8, 0, 0, 0x8f, 0x0e, 0, 0, 0x10, 0, 0, 0, 0x80, 0xd8, 0, 0, 0x9d, 0x0e, 0, 0,
    0x10, 0, 0, 0, 0xa0, 0xd8],
   [0, 0, 0xaf, 0x0e, 0, 0, 0xea, 0, 0, 0, 0xc0, 0xd8, 0, 0, 0xb9, 0x0e, 0, 0, 0x02, 0, 0, 0,
    0xc0, 0xd8, 0, 0, 0xcc],
   [0x0e, 0, 0, 0x35, 0, 0, 0, 0, 0xd9, 0, 0, 0xdc, 0x0e, 0, 0, 0xeb, 0, 0, 0, 0x40, 0xd9, 0, 0,
    0xed, 0x0e, 0, 0, 0xef],
   [0, 0, 0, 0x80, 0xda, 0, 0, 0xfb, 0x0e, 0, 0, 0x2a, 0, 0, 0, 0xc0, 0xda, 0, 0, 0x0a, 0x0f, 0,
    0, 0x29, 0, 0, 0, 0],
   [0xdb, 0, 0, 0x13, 0x0f, 0, 0, 0xf0, 0, 0, 0, 0x40, 0xdb, 0, 0, 0x1f, 0x0f, 0, 0, 0xf1, 0, 0,
    0, 0x80, 0xdb, 0, 0],
   [0x27, 0x0f, 0, 0, 0x29, 0, 0, 0, 0xc0, 0xdb, 0, 0, 0x31, 0x0f, 0, 0, 0x1e, 0, 0, 0, 0, 0xdc,
    0, 0, 0x3c, 0x0f, 0, 0],
   [0x3c, 0, 0, 0, 0x40, 0xdc, 0, 0, 0x45, 0x0f, 0, 0, 0x1e, 0, 0, 0, 0x80, 0xdc, 0, 0x01, 0x4e,
    0x0f, 0, 0, 0x1e, 0, 0],
   [0, 0x81, 0xdc, 0, 0x01, 0x5d, 0x0f, 0, 0, 0x1e, 0, 0, 0, 0x82, 0xdc, 0, 0x3e, 0x6c, 0x0f, 0,
    0, 0x91, 0, 0, 0, 0xc0],
   [0xdc, 0, 0, 0x78, 0x0f, 0, 0, 0x02, 0, 0, 0, 0x40, 0xdd, 0, 0, 0x82, 0x0f, 0, 0, 0xf2, 0, 0,
    0, 0x80, 0xdd, 0, 0],
   [0x96, 0x0f, 0, 0, 0xf2, 0, 0, 0, 0xc0, 0xdd, 0, 0, 0x9f, 0x0f, 0, 0, 0x91, 0, 0, 0, 0, 0xde,
    0, 0, 0xae, 0x0f, 0, 0],
   [0xf3, 0, 0, 0, 0, 0xe0, 0, 0, 0x1e, 0x03, 0, 0, 0x04, 0, 0, 0x04, 0x18, 0, 0, 0, 0x3e, 0x03,
    0, 0, 0x28, 0, 0, 0, 0],
   [0, 0, 0, 0xb5, 0x0f, 0, 0, 0x28, 0, 0, 0, 0x40, 0, 0, 0, 0xc2, 0x0f, 0, 0, 0x18, 0, 0, 0,
    0x80, 0, 0, 0, 0xc9, 0x0f],
   [0, 0, 0x18, 0, 0, 0, 0xa0, 0, 0, 0, 0xcd, 0x0f, 0, 0, 0, 0, 0, 0x01, 0x08, 0, 0, 0, 0x40, 0,
    0, 0, 0, 0, 0, 0, 0, 0],
   [0, 0x02, 0, 0, 0, 0, 0xdb, 0x0f, 0, 0, 0, 0, 0, 0x08, 0x2b, 0, 0, 0, 0xe6, 0x0f, 0, 0, 0x01,
    0, 0, 0x04, 0x04, 0, 0],
   [0, 0xf6, 0x0f, 0, 0, 0x2c, 0, 0, 0, 0, 0, 0, 0, 0xfb, 0x0f, 0, 0, 0, 0, 0, 0x08, 0x2d, 0, 0,
    0, 0, 0, 0, 0, 0x01, 0],
   [0, 0x04, 0x04, 0, 0, 0, 0x04, 0x10, 0, 0, 0x02, 0, 0, 0, 0, 0, 0, 0, 0x0c, 0x10, 0, 0, 0x04,
    0, 0, 0x04, 0x10, 0, 0],
   [0, 0x1f, 0x10, 0, 0, 0x2f, 0, 0, 0, 0, 0, 0, 0, 0, 0, 0, 0, 0x31, 0, 0, 0, 0x40, 0, 0, 0,
    0x25, 0x10, 0, 0, 0x32, 0],
   [0, 0, 0x60, 0, 0, 0, 0x29, 0x10, 0, 0, 0x32, 0, 0, 0, 0x70, 0, 0, 0, 0x2d, 0x10, 0, 0, 0x01,
    0, 0, 0x04, 0x08, 0, 0],
   [0, 0x38, 0x10, 0, 0, 0x30, 0, 0, 0, 0, 0, 0, 0, 0, 0, 0, 0, 0, 0, 0, 0x02, 0x2f, 0, 0, 0, 0,
    0, 0, 0, 0x02, 0, 0],
   [0x05, 0x04, 0, 0, 0, 0x3d, 0x10, 0, 0, 0x10, 0, 0, 0, 0, 0, 0, 0, 0x45, 0x10, 0, 0, 0x2c, 0,
    0, 0, 0, 0, 0, 0, 0x4d]]"

lemma length_btf_types_1: "length (concat btf_types_1) = 4157"
  by (simp add: btf_types_1_def)

definition btf_types_2 :: "bytes list" where
  "btf_types_2 = [
   [0x10, 0, 0, 0, 0, 0, 0x08, 0x33, 0, 0, 0, 0x51, 0x10, 0, 0, 0, 0, 0, 0x08, 0x34, 0, 0, 0,
    0x57, 0x10, 0, 0, 0, 0, 0],
   [0x01, 0x02, 0, 0, 0, 0x10, 0, 0, 0, 0, 0, 0, 0, 0, 0, 0, 0x02, 0x26, 0, 0, 0, 0x66, 0x10, 0,
    0, 0x0f, 0, 0, 0x04, 0],
   [0x01, 0, 0, 0x73, 0x10, 0, 0, 0x37, 0, 0, 0, 0, 0, 0, 0, 0x78, 0x10, 0, 0, 0x38, 0, 0, 0,
    0x80, 0, 0, 0, 0x81, 0x10],
   [0, 0, 0x3a, 0, 0, 0, 0x40, 0x01, 0, 0, 0xa1, 0x03, 0, 0, 0x10, 0, 0, 0, 0xc0, 0x01, 0, 0,
    0x8c, 0x10, 0, 0, 0x3c, 0],
   [0, 0, 0, 0x02, 0, 0, 0x97, 0x10, 0, 0, 0x3c, 0, 0, 0, 0x40, 0x02, 0, 0, 0xa8, 0x10, 0, 0,
    0x3c, 0, 0, 0, 0x80, 0x02],
   [0, 0, 0xb1, 0x10, 0, 0, 0x3c, 0, 0, 0, 0xc0, 0x02, 0, 0, 0xc7, 0x10, 0, 0, 0x3c, 0, 0, 0, 0,
    0x03, 0, 0, 0xd5, 0x10],
   [0, 0, 0x02, 0, 0, 0, 0x40, 0x03, 0, 0, 0x9c, 0x07, 0, 0, 0x3d, 0, 0, 0, 0x80, 0x03, 0, 0,
    0xdb, 0x10, 0, 0, 0x3e, 0],
   [0, 0, 0xc0, 0x03, 0, 0, 0xe2, 0x10, 0, 0, 0x3e, 0, 0, 0, 0, 0x04, 0, 0, 0xe7, 0x10, 0, 0,
    0x28, 0, 0, 0, 0x40, 0x04],
   [0, 0, 0xf7, 0x10, 0, 0, 0x3f, 0, 0, 0, 0, 0x06, 0, 0, 0xfb, 0x10, 0, 0, 0x02, 0, 0, 0x04,
    0x10, 0, 0, 0, 0x07, 0x11],
   [0, 0, 0x28, 0, 0, 0, 0, 0, 0, 0, 0x0e, 0x11, 0, 0, 0x18, 0, 0, 0, 0x40, 0, 0, 0, 0x19, 0x11,
    0, 0, 0x03, 0, 0, 0x04],
   [0x18, 0, 0, 0, 0x21, 0x11, 0, 0, 0x28, 0, 0, 0, 0, 0, 0, 0, 0x33, 0x11, 0, 0, 0x39, 0, 0, 0,
    0x40, 0, 0, 0, 0x3c],
   [0x11, 0, 0, 0x39, 0, 0, 0, 0x80, 0, 0, 0, 0, 0, 0, 0, 0, 0, 0, 0x02, 0x38, 0, 0, 0, 0x44,
    0x11, 0, 0, 0x02, 0, 0],
   [0x04, 0x10, 0, 0, 0, 0x38, 0x10, 0, 0, 0x3b, 0, 0, 0, 0, 0, 0, 0, 0x4e, 0x11, 0, 0, 0x3b, 0,
    0, 0, 0x40, 0, 0, 0, 0],
   [0, 0, 0, 0, 0, 0, 0x02, 0x3a, 0, 0, 0, 0x53, 0x11, 0, 0, 0, 0, 0, 0x08, 0x1e, 0, 0, 0, 0, 0,
    0, 0, 0, 0, 0, 0x02],
   [0x36, 0, 0, 0, 0, 0, 0, 0, 0, 0, 0, 0x02, 0x70, 0x01, 0, 0, 0x57, 0x11, 0, 0, 0x09, 0, 0,
    0x04, 0x40, 0, 0, 0, 0x61],
   [0x11, 0, 0, 0x3c, 0, 0, 0, 0, 0, 0, 0, 0x72, 0x11, 0, 0, 0x3c, 0, 0, 0, 0x40, 0, 0, 0, 0x7b,
    0x11, 0, 0, 0x3c, 0, 0],
   [0, 0x80, 0, 0, 0, 0x88, 0x11, 0, 0, 0x18, 0, 0, 0, 0xc0, 0, 0, 0, 0x91, 0x11, 0, 0, 0x18, 0,
    0, 0, 0xe0, 0, 0, 0],
   [0xa0, 0x11, 0, 0, 0x28, 0, 0, 0, 0, 0x01, 0, 0, 0xa9, 0x11, 0, 0, 0x28, 0, 0, 0, 0x40, 0x01,
    0, 0, 0xb6, 0x11, 0, 0],
   [0x28, 0, 0, 0, 0x80, 0x01, 0, 0, 0xbf, 0x11, 0, 0, 0x40, 0, 0, 0, 0xc0, 0x01, 0, 0, 0xbf,
    0x11, 0, 0, 0x02, 0, 0],
   [0x04, 0x08, 0, 0, 0, 0xc8, 0x11, 0, 0, 0x10, 0, 0, 0, 0, 0, 0, 0, 0xd1, 0x11, 0, 0, 0x10, 0,
    0, 0, 0x20, 0, 0, 0],
   [0xd6, 0x11, 0, 0, 0x07, 0, 0, 0x04, 0x30, 0, 0, 0, 0xe6, 0x11, 0, 0, 0x3a, 0, 0, 0, 0, 0, 0,
    0, 0xef, 0x11, 0, 0],
   [0x28, 0, 0, 0, 0x80, 0, 0, 0, 0xf7, 0x11, 0, 0, 0x28, 0, 0, 0, 0xc0, 0, 0, 0, 0x06, 0x12, 0,
    0, 0x10, 0, 0, 0, 0],
   [0x01, 0, 0, 0xa1, 0x03, 0, 0, 0x34, 0, 0, 0, 0x20, 0x01, 0, 0, 0x11, 0x12, 0, 0, 0x34, 0, 0,
    0, 0x30, 0x01, 0, 0],
   [0x19, 0x12, 0, 0, 0x42, 0, 0, 0, 0x40, 0x01, 0, 0, 0, 0, 0, 0, 0, 0, 0, 0x02, 0x41, 0, 0, 0,
    0x1e, 0x12, 0, 0, 0x10],
   [0, 0, 0x84, 0xe0, 0, 0, 0, 0x19, 0x11, 0, 0, 0x38, 0, 0, 0, 0, 0, 0, 0, 0x2e, 0x12, 0, 0,
    0x3c, 0, 0, 0, 0xc0, 0, 0],
   [0, 0x39, 0x12, 0, 0, 0x3c, 0, 0, 0, 0, 0x01, 0, 0, 0x45, 0x12, 0, 0, 0x3c, 0, 0, 0, 0x40,
    0x01, 0, 0, 0x4f, 0x12, 0],
   [0, 0x3c, 0, 0, 0, 0x80, 0x01, 0, 0, 0x55, 0x12, 0, 0, 0x3c, 0, 0, 0, 0xc0, 0x01, 0, 0, 0x60,
    0x12, 0, 0, 0x44, 0, 0],
   [0, 0, 0x02, 0, 0, 0x68, 0x12, 0, 0, 0x3c, 0, 0, 0, 0x40, 0x02, 0, 0, 0x3e, 0x03, 0, 0, 0x10,
    0, 0, 0, 0x80, 0x02, 0],
   [0, 0x71, 0x12, 0, 0, 0x10, 0, 0, 0, 0xa0, 0x02, 0, 0x01, 0x7e, 0x12, 0, 0, 0x10, 0, 0, 0,
    0xa1, 0x02, 0, 0x01, 0x89],
   [0x12, 0, 0, 0x10, 0, 0, 0, 0xa2, 0x02, 0, 0x01, 0x9b, 0x12, 0, 0, 0x10, 0, 0, 0, 0xa3, 0x02,
    0, 0x01, 0xa6, 0x12, 0],
   [0, 0x47, 0, 0, 0, 0xc0, 0x02, 0, 0, 0xaf, 0x12, 0, 0, 0x47, 0, 0, 0, 0xc0, 0x04, 0, 0, 0xbe,
    0x12, 0, 0, 0x52, 0, 0],
   [0, 0xc0, 0x06, 0, 0, 0xc4, 0x12, 0, 0, 0, 0, 0, 0x08, 0x45, 0, 0, 0, 0xc8, 0x12, 0, 0, 0, 0,
    0, 0x08, 0x46, 0, 0, 0],
   [0xce, 0x12, 0, 0, 0, 0, 0, 0x01, 0x08, 0, 0, 0, 0x40, 0, 0, 0x01, 0xd8, 0x12, 0, 0, 0x08, 0,
    0, 0x04, 0x40, 0, 0, 0],
   [0xe0, 0x12, 0, 0, 0x48, 0, 0, 0, 0, 0, 0, 0, 0xe5, 0x12, 0, 0, 0x49, 0, 0, 0, 0, 0x01, 0, 0,
    0xf2, 0x12, 0, 0, 0x4a],
   [0, 0, 0, 0x40, 0x01, 0, 0, 0xfb, 0x12, 0, 0, 0x4e, 0, 0, 0, 0x80, 0x01, 0, 0, 0, 0x13, 0, 0,
    0x4f, 0, 0, 0, 0xc0],
   [0x01, 0, 0, 0x06, 0x13, 0, 0, 0x4f, 0, 0, 0, 0xc8, 0x01, 0, 0, 0x0d, 0x13, 0, 0, 0x4f, 0, 0,
    0, 0xd0, 0x01, 0, 0],
   [0x15, 0x13, 0, 0, 0x4f, 0, 0, 0, 0xd8, 0x01, 0, 0, 0x1d, 0x13, 0, 0, 0x02, 0, 0, 0x04, 0x20,
    0, 0, 0, 0xe0, 0x12, 0],
   [0, 0x38, 0, 0, 0, 0, 0, 0, 0, 0x2d, 0x13, 0, 0, 0x49, 0, 0, 0, 0xc0, 0, 0, 0, 0x35, 0x13, 0,
    0, 0, 0, 0, 0x08, 0x44],
   [0, 0, 0, 0, 0, 0, 0, 0, 0, 0, 0x02, 0x4b, 0, 0, 0, 0, 0, 0, 0, 0x01, 0, 0, 0x0d, 0x4c, 0, 0,
    0, 0, 0, 0, 0, 0x4d, 0],
   [0, 0, 0x3d, 0x13, 0, 0, 0x02, 0, 0, 0x06, 0x04, 0, 0, 0, 0x4d, 0x13, 0, 0, 0, 0, 0, 0, 0x5f,
    0x13, 0, 0, 0x01, 0, 0],
   [0, 0, 0, 0, 0, 0, 0, 0, 0x02, 0x47, 0, 0, 0, 0, 0, 0, 0, 0, 0, 0, 0x02, 0x7c, 0x01, 0, 0,
    0x6f, 0x13, 0, 0, 0, 0, 0],
   [0x08, 0x50, 0, 0, 0, 0x72, 0x13, 0, 0, 0, 0, 0, 0x08, 0x51, 0, 0, 0, 0x77, 0x13, 0, 0, 0, 0,
    0, 0x01, 0x01, 0, 0, 0],
   [0x08, 0, 0, 0, 0, 0, 0, 0, 0, 0, 0, 0x02, 0x43, 0, 0, 0, 0, 0, 0, 0, 0, 0, 0, 0x02, 0x54, 0,
    0, 0, 0, 0, 0, 0, 0, 0],
   [0, 0x0a, 0x9c, 0x01, 0, 0, 0, 0, 0, 0, 0, 0, 0, 0x02, 0xa2, 0x01, 0, 0, 0x85, 0x13, 0, 0,
    0x04, 0, 0, 0x84, 0x04, 0],
   [0, 0, 0x89, 0, 0, 0, 0x10, 0, 0, 0, 0, 0, 0, 0x0b, 0x8f, 0x13, 0, 0, 0x10, 0, 0, 0, 0x0b, 0,
    0, 0x03, 0x99, 0x13, 0],
   [0, 0x10, 0, 0, 0, 0x0e, 0, 0, 0x01, 0xa0, 0x13, 0, 0, 0x10, 0, 0, 0, 0x0f, 0, 0, 0x01, 0, 0,
    0, 0, 0, 0, 0, 0x03, 0],
   [0, 0, 0, 0x56, 0, 0, 0, 0x04, 0, 0, 0, 0x02, 0, 0, 0, 0xad, 0x13, 0, 0, 0x1d, 0, 0, 0x04, 0,
    0x01, 0, 0, 0xbe, 0x13],
   [0, 0, 0x3c, 0, 0, 0, 0, 0, 0, 0, 0xc9, 0x13, 0, 0, 0x3c, 0, 0, 0, 0x40, 0, 0, 0, 0xd2, 0x13,
    0, 0, 0x3c, 0, 0, 0],
   [0x80, 0, 0, 0, 0xdd, 0x13, 0, 0, 0x3c, 0, 0, 0, 0xc0, 0, 0, 0, 0xe6, 0x13, 0, 0, 0x3c, 0, 0,
    0, 0, 0x01, 0, 0, 0xf3],
   [0x13, 0, 0, 0x3c, 0, 0, 0, 0x40, 0x01, 0, 0, 0xfe, 0x13, 0, 0, 0x3c, 0, 0, 0, 0x80, 0x01, 0,
    0, 0x0a, 0x14, 0, 0],
   [0x3c, 0, 0, 0, 0xc0, 0x01, 0, 0, 0x14, 0x14, 0, 0, 0x44, 0, 0, 0, 0, 0x02, 0, 0, 0x26, 0x14,
    0, 0, 0x3c, 0, 0, 0],
   [0x40, 0x02, 0, 0, 0x32, 0x14, 0, 0, 0x3c, 0, 0, 0, 0x80, 0x02, 0, 0, 0x3c, 0x14, 0, 0, 0x44,
    0, 0, 0, 0xc0, 0x02, 0],
   [0, 0x4e, 0x14, 0, 0, 0x3c, 0, 0, 0, 0, 0x03, 0, 0, 0x57, 0x14, 0, 0, 0x3c, 0, 0, 0, 0x40,
    0x03, 0, 0, 0x61, 0x14, 0],
   [0, 0x3c, 0, 0, 0, 0x80, 0x03, 0, 0, 0x74, 0x14, 0, 0, 0x3c, 0, 0, 0, 0xc0, 0x03, 0, 0, 0x90,
    0x14, 0, 0, 0x3c, 0, 0],
   [0, 0, 0x04, 0, 0, 0xad, 0x14, 0, 0, 0x3c, 0, 0, 0, 0x40, 0x04, 0, 0, 0xc6, 0x14, 0, 0, 0x3c,
    0, 0, 0, 0x80, 0x04, 0],
   [0, 0xdb, 0x14, 0, 0, 0x3c, 0, 0, 0, 0xc0, 0x04, 0, 0, 0xe6, 0x14, 0, 0, 0x3c, 0, 0, 0, 0,
    0x05, 0, 0, 0xf6, 0x14, 0],
   [0, 0x3c, 0, 0, 0, 0x40, 0x05, 0, 0, 0x09, 0x15, 0, 0, 0x3c, 0, 0, 0, 0x80, 0x05, 0, 0, 0x1a,
    0x15, 0, 0, 0x3c, 0, 0],
   [0, 0xc0, 0x05, 0, 0, 0x2c, 0x15, 0, 0, 0x3c, 0, 0, 0, 0, 0x06, 0, 0, 0x3e, 0x15, 0, 0, 0x3c,
    0, 0, 0, 0x40, 0x06, 0],
   [0, 0x59, 0x15, 0, 0, 0x3c, 0, 0, 0, 0x80, 0x06, 0, 0, 0x6c, 0x15, 0, 0, 0x3c, 0, 0, 0, 0xc0,
    0x06, 0, 0, 0x7c, 0x15],
   [0, 0, 0x3c, 0, 0, 0, 0, 0x07, 0, 0, 0x8f, 0x15, 0, 0, 0x01, 0, 0, 0x04, 0x08, 0, 0, 0, 0x9a,
    0x15, 0, 0, 0x5a, 0, 0],
   [0, 0, 0, 0, 0, 0, 0, 0, 0, 0, 0, 0, 0x02, 0x79, 0, 0, 0, 0, 0, 0, 0, 0, 0, 0, 0x02, 0x5c, 0,
    0, 0, 0, 0, 0, 0, 0, 0],
   [0, 0x0a, 0x5d, 0, 0, 0, 0xa0, 0x15, 0, 0, 0, 0, 0, 0x08, 0x5f, 0, 0, 0, 0, 0, 0, 0, 0, 0, 0,
    0x02, 0x5d, 0, 0, 0],
   [0xaa, 0x15, 0, 0, 0x01, 0, 0, 0x04, 0x28, 0, 0, 0, 0xb2, 0x15, 0, 0, 0x60, 0, 0, 0, 0, 0, 0,
    0, 0, 0, 0, 0, 0, 0, 0],
   [0x03, 0, 0, 0, 0, 0x28, 0, 0, 0, 0x04, 0, 0, 0, 0x05, 0, 0, 0, 0xb7, 0x15, 0, 0, 0x02, 0, 0,
    0x05, 0x04, 0, 0, 0],
   [0xc3, 0x15, 0, 0, 0x62, 0, 0, 0, 0, 0, 0, 0, 0xc5, 0x15, 0, 0, 0x18, 0, 0, 0, 0, 0, 0, 0, 0,
    0, 0, 0, 0x04, 0, 0],
   [0x04, 0x04, 0, 0, 0, 0x62, 0x09, 0, 0, 0x4f, 0, 0, 0, 0, 0, 0, 0, 0xc7, 0x15, 0, 0, 0x4f, 0,
    0, 0, 0x08, 0, 0, 0],
   [0xcf, 0x15, 0, 0, 0x4f, 0, 0, 0, 0x10, 0, 0, 0, 0xd8, 0x15, 0, 0, 0x4f, 0, 0, 0, 0x18, 0, 0,
    0, 0, 0, 0, 0, 0, 0, 0],
   [0x02, 0x96, 0x01, 0, 0, 0xc7, 0x05, 0, 0, 0x04, 0, 0, 0x04, 0x20, 0, 0, 0, 0xe0, 0x15, 0, 0,
    0x28, 0, 0, 0, 0, 0, 0],
   [0, 0xe7, 0x15, 0, 0, 0x1f, 0, 0, 0, 0x40, 0, 0, 0, 0xf1, 0x15, 0, 0, 0x1f, 0, 0, 0, 0x80, 0,
    0, 0, 0xfe, 0x15, 0, 0],
   [0x1f, 0, 0, 0, 0xc0, 0, 0, 0, 0x0a, 0x16, 0, 0, 0x03, 0, 0, 0x04, 0x28, 0, 0, 0, 0xa7, 0x03,
    0, 0, 0x02, 0, 0, 0, 0],
   [0, 0, 0, 0x15, 0x16, 0, 0, 0x3a, 0, 0, 0, 0x40, 0, 0, 0, 0x1f, 0x16, 0, 0, 0x3a, 0, 0, 0,
    0xc0, 0, 0, 0, 0, 0, 0, 0],
   [0, 0, 0, 0x02, 0x85, 0x01, 0, 0, 0x29, 0x16, 0, 0, 0x02, 0, 0, 0x04, 0x14, 0, 0, 0, 0x37,
    0x16, 0, 0, 0x02, 0, 0, 0],
   [0, 0, 0, 0, 0x3e, 0x16, 0, 0, 0x14, 0, 0, 0, 0x20, 0, 0, 0, 0x75, 0x07, 0, 0, 0x03, 0, 0,
    0x04, 0x38, 0, 0, 0, 0x44],
   [0x16, 0, 0, 0x28, 0, 0, 0, 0, 0, 0, 0, 0x4e, 0x16, 0, 0, 0x69, 0, 0, 0, 0x40, 0, 0, 0, 0, 0,
    0, 0, 0x6d, 0, 0, 0],
   [0x80, 0, 0, 0, 0, 0, 0, 0, 0, 0, 0, 0x02, 0x6a, 0, 0, 0, 0, 0, 0, 0, 0x01, 0, 0, 0x0d, 0x6b,
    0, 0, 0, 0, 0, 0, 0],
   [0x6c, 0, 0, 0, 0x51, 0x16, 0, 0, 0, 0, 0, 0x01, 0x08, 0, 0, 0, 0x40, 0, 0, 0x01, 0, 0, 0, 0,
    0, 0, 0, 0x02, 0x68, 0],
   [0, 0, 0, 0, 0, 0, 0x03, 0, 0, 0x05, 0x28, 0, 0, 0, 0x56, 0x16, 0, 0, 0x6e, 0, 0, 0, 0, 0, 0,
    0, 0x5c, 0x16, 0, 0],
   [0x6f, 0, 0, 0, 0, 0, 0, 0, 0x66, 0x16, 0, 0, 0x76, 0, 0, 0, 0, 0, 0, 0, 0, 0, 0, 0, 0x06, 0,
    0, 0x04, 0x28, 0, 0, 0],
   [0x6b, 0x16, 0, 0, 0x17, 0, 0, 0, 0, 0, 0, 0, 0x71, 0x16, 0, 0, 0x18, 0, 0, 0, 0x40, 0, 0, 0,
    0x3e, 0x03, 0, 0, 0x18],
   [0, 0, 0, 0x60, 0, 0, 0, 0x75, 0x16, 0, 0, 0x18, 0, 0, 0, 0x80, 0, 0, 0, 0x7c, 0x16, 0, 0,
    0x3c, 0, 0, 0, 0xc0, 0, 0],
   [0, 0x81, 0x16, 0, 0, 0x17, 0, 0, 0, 0, 0x01, 0, 0, 0, 0, 0, 0, 0x04, 0, 0, 0x04, 0x18, 0, 0,
    0, 0x88, 0x16, 0, 0],
   [0x70, 0, 0, 0, 0, 0, 0, 0, 0x74, 0, 0, 0, 0x72, 0, 0, 0, 0x20, 0, 0, 0, 0, 0, 0, 0, 0x73, 0,
    0, 0, 0x40, 0, 0, 0],
   [0x2d, 0x13, 0, 0, 0x3c, 0, 0, 0, 0x80, 0, 0, 0, 0x90, 0x16, 0, 0, 0, 0, 0, 0x08, 0x71, 0, 0,
    0, 0x9a, 0x16, 0, 0, 0],
   [0, 0, 0x08, 0x02, 0, 0, 0, 0xad, 0x16, 0, 0, 0x03, 0, 0, 0x06, 0x04, 0, 0, 0, 0xbb, 0x16, 0,
    0, 0, 0, 0, 0, 0xc3],
   [0x16, 0, 0, 0x01, 0, 0, 0, 0xcd, 0x16, 0, 0, 0x02, 0, 0, 0, 0, 0, 0, 0, 0x02, 0, 0, 0x05,
    0x08, 0, 0, 0, 0xd7, 0x16],
   [0, 0, 0x74, 0, 0, 0, 0, 0, 0, 0, 0xdc, 0x16, 0, 0, 0x75, 0, 0, 0, 0, 0, 0, 0, 0, 0, 0, 0, 0,
    0, 0, 0x02, 0x67, 0x01],
   [0, 0, 0, 0, 0, 0, 0, 0, 0, 0x02, 0x89, 0x01, 0, 0, 0, 0, 0, 0, 0x05, 0, 0, 0x04, 0x20, 0, 0,
    0, 0xe8, 0x16, 0, 0],
   [0x77, 0, 0, 0, 0, 0, 0, 0, 0xed, 0x16, 0, 0, 0x02, 0, 0, 0, 0x40, 0, 0, 0, 0xf2, 0x16, 0, 0,
    0x02, 0, 0, 0, 0x60, 0],
   [0, 0, 0xfe, 0x16, 0, 0, 0x28, 0, 0, 0, 0x80, 0, 0, 0, 0x05, 0x17, 0, 0, 0x28, 0, 0, 0, 0xc0,
    0, 0, 0, 0, 0, 0, 0, 0],
   [0, 0, 0x02, 0x95, 0x01, 0, 0, 0, 0, 0, 0, 0, 0, 0, 0x02, 0x91, 0x01, 0, 0, 0x0d, 0x17, 0, 0,
    0x02, 0, 0, 0x04, 0x10],
   [0, 0, 0, 0x38, 0x10, 0, 0, 0x5a, 0, 0, 0, 0, 0, 0, 0, 0x18, 0x17, 0, 0, 0x7a, 0, 0, 0, 0x40,
    0, 0, 0, 0, 0, 0, 0, 0],
   [0, 0, 0x02, 0x5a, 0, 0, 0, 0, 0, 0, 0, 0, 0, 0, 0x03, 0, 0, 0, 0, 0x79, 0, 0, 0, 0x04, 0, 0,
    0, 0x04, 0, 0, 0, 0, 0],
   [0, 0, 0, 0, 0, 0x02, 0x72, 0x01, 0, 0, 0, 0, 0, 0, 0, 0, 0, 0x02, 0x02, 0, 0, 0, 0x4e, 0x08,
    0, 0, 0x03, 0, 0, 0x04],
   [0x18, 0, 0, 0, 0x3c, 0x08, 0, 0, 0x3c, 0, 0, 0, 0, 0, 0, 0, 0x42, 0x08, 0, 0, 0x3c, 0, 0, 0,
    0x40, 0, 0, 0, 0x1e],
   [0x17, 0, 0, 0x7f, 0, 0, 0, 0x80, 0, 0, 0, 0x23, 0x17, 0, 0, 0, 0, 0, 0x08, 0x80, 0, 0, 0,
    0x32, 0x17, 0, 0, 0x01, 0],
   [0, 0x04, 0x04, 0, 0, 0, 0x3f, 0x17, 0, 0, 0x81, 0, 0, 0, 0, 0, 0, 0, 0x48, 0x17, 0, 0, 0, 0,
    0, 0x08, 0x82, 0, 0, 0],
   [0x58, 0x17, 0, 0, 0x01, 0, 0, 0x04, 0x04, 0, 0, 0, 0, 0, 0, 0, 0x83, 0, 0, 0, 0, 0, 0, 0, 0,
    0, 0, 0, 0x03, 0, 0],
   [0x05, 0x04, 0, 0, 0, 0x71, 0x16, 0, 0, 0x2c, 0, 0, 0, 0, 0, 0, 0, 0, 0, 0, 0, 0x84, 0, 0, 0,
    0, 0, 0, 0, 0, 0, 0, 0],
   [0x85, 0, 0, 0, 0, 0, 0, 0, 0, 0, 0, 0, 0x02, 0, 0, 0x04, 0x02, 0, 0, 0, 0x62, 0x17, 0, 0,
    0x4f, 0, 0, 0, 0, 0, 0, 0],
   [0x85, 0x09, 0, 0, 0x4f, 0, 0, 0, 0x08, 0, 0, 0, 0, 0, 0, 0, 0x02, 0, 0, 0x04, 0x04, 0, 0, 0,
    0x69, 0x17, 0, 0, 0x32],
   [0, 0, 0, 0, 0, 0, 0, 0x78, 0x17, 0, 0, 0x32, 0, 0, 0, 0x10, 0, 0, 0, 0x5b, 0x08, 0, 0, 0x07,
    0, 0, 0x04, 0x30, 0, 0],
   [0, 0x7d, 0x17, 0, 0, 0x87, 0, 0, 0, 0, 0, 0, 0, 0x86, 0x17, 0, 0, 0x1f, 0, 0, 0, 0x40, 0, 0,
    0, 0, 0x13, 0, 0, 0x89],
   [0, 0, 0, 0x80, 0, 0, 0, 0xc9, 0x0f, 0, 0, 0x10, 0, 0, 0, 0xa0, 0, 0, 0, 0x3c, 0x08, 0, 0,
    0x3c, 0, 0, 0, 0xc0, 0, 0],
   [0, 0x42, 0x08, 0, 0, 0x3c, 0, 0, 0, 0, 0x01, 0, 0, 0x48, 0x08, 0, 0, 0x3c, 0, 0, 0, 0x40,
    0x01, 0, 0, 0x90, 0x17, 0],
   [0, 0, 0, 0, 0x08, 0x88, 0, 0, 0, 0x7d, 0x17, 0, 0, 0x01, 0, 0, 0x04, 0x04, 0, 0, 0, 0x9b,
    0x17, 0, 0, 0x10, 0, 0, 0],
   [0, 0, 0, 0, 0xa4, 0x17, 0, 0, 0x05, 0, 0, 0x06, 0x04, 0, 0, 0, 0xb0, 0x17, 0, 0, 0, 0, 0, 0,
    0xbf, 0x17, 0, 0, 0x01],
   [0, 0, 0, 0xca, 0x17, 0, 0, 0x02, 0, 0, 0, 0xd4, 0x17, 0, 0, 0x03, 0, 0, 0, 0xdf, 0x17, 0, 0,
    0x04, 0, 0, 0, 0xa6],
   [0x08, 0, 0, 0x03, 0, 0, 0x04, 0x50, 0, 0, 0, 0xeb, 0x17, 0, 0, 0x8f, 0, 0, 0, 0, 0, 0, 0,
    0xf1, 0x17, 0, 0, 0x10, 0],
   [0, 0, 0x40, 0x02, 0, 0, 0xff, 0x17, 0, 0, 0x10, 0, 0, 0, 0x60, 0x02, 0, 0, 0x0d, 0x18, 0, 0,
    0x02, 0, 0, 0x04, 0x18],
   [0, 0, 0, 0x21, 0x18, 0, 0, 0x3c, 0, 0, 0, 0, 0, 0, 0, 0x29, 0x18, 0, 0, 0x8c, 0, 0, 0, 0x40,
    0, 0, 0, 0x30, 0x18, 0],
   [0, 0x01, 0, 0, 0x04, 0x10, 0, 0, 0, 0x40, 0x18, 0, 0, 0x8d, 0, 0, 0, 0, 0, 0, 0, 0x48, 0x18,
    0, 0, 0x02, 0, 0, 0x04],
   [0x10, 0, 0, 0, 0x40, 0x18, 0, 0, 0x8e, 0, 0, 0, 0, 0, 0, 0, 0x57, 0x18, 0, 0, 0x39, 0, 0, 0,
    0x40, 0, 0, 0, 0x40],
   [0x18, 0, 0, 0x01, 0, 0, 0x04, 0x08, 0, 0, 0, 0x19, 0x11, 0, 0, 0x39, 0, 0, 0, 0, 0, 0, 0, 0,
    0, 0, 0, 0, 0, 0, 0x03],
   [0, 0, 0, 0, 0x8b, 0, 0, 0, 0x04, 0, 0, 0, 0x03, 0, 0, 0, 0xb6, 0x08, 0, 0, 0x02, 0, 0, 0x04,
    0x18, 0, 0, 0, 0x63],
   [0x18, 0, 0, 0x91, 0, 0, 0, 0, 0, 0, 0, 0x68, 0x18, 0, 0, 0x10, 0, 0, 0, 0x80, 0, 0, 0, 0x72,
    0x18, 0, 0, 0x02, 0, 0],
   [0x04, 0x10, 0, 0, 0, 0x38, 0x10, 0, 0, 0x92, 0, 0, 0, 0, 0, 0, 0, 0x80, 0x18, 0, 0, 0x93, 0,
    0, 0, 0x40, 0, 0, 0, 0],
   [0, 0, 0, 0, 0, 0, 0x02, 0x91, 0, 0, 0, 0, 0, 0, 0, 0, 0, 0, 0x02, 0x94, 0, 0, 0, 0, 0, 0, 0,
    0x01, 0, 0, 0x0d, 0, 0],
   [0, 0, 0, 0, 0, 0, 0x92, 0, 0, 0, 0, 0, 0, 0, 0, 0, 0, 0x02, 0x96, 0, 0, 0, 0, 0, 0, 0, 0, 0,
    0, 0x0a, 0x73, 0x01, 0],
   [0, 0, 0, 0, 0, 0, 0, 0, 0x02, 0x81, 0x01, 0, 0, 0, 0, 0, 0, 0, 0, 0, 0x02, 0x86, 0x01, 0, 0,
    0x85, 0x18, 0, 0, 0x01],
   [0, 0, 0x04, 0x08, 0, 0, 0, 0x8e, 0x18, 0, 0, 0x9a, 0, 0, 0, 0, 0, 0, 0, 0, 0, 0, 0, 0, 0, 0,
    0x02, 0x9e, 0x01, 0, 0],
   [0x98, 0x18, 0, 0, 0x01, 0, 0, 0x04, 0x10, 0, 0, 0, 0xa1, 0x18, 0, 0, 0x3a, 0, 0, 0, 0, 0, 0,
    0, 0, 0, 0, 0, 0, 0, 0],
   [0x02, 0x78, 0x01, 0, 0, 0, 0, 0, 0, 0, 0, 0, 0x02, 0x77, 0x01, 0, 0, 0, 0, 0, 0, 0, 0, 0,
    0x02, 0x7f, 0x01, 0, 0, 0],
   [0, 0, 0, 0, 0, 0, 0x02, 0x87, 0x01, 0, 0, 0, 0, 0, 0, 0, 0, 0, 0x02, 0xa0, 0x01, 0, 0, 0, 0,
    0, 0, 0, 0, 0, 0x02],
   [0x9f, 0x01, 0, 0, 0xab, 0x18, 0, 0, 0, 0, 0, 0x08, 0xa3, 0, 0, 0, 0, 0, 0, 0, 0x01, 0, 0,
    0x04, 0x08, 0, 0, 0, 0xb4],
   [0x18, 0, 0, 0xa4, 0, 0, 0, 0, 0, 0, 0, 0, 0, 0, 0, 0, 0, 0, 0x03, 0, 0, 0, 0, 0x28, 0, 0, 0,
    0x04, 0, 0, 0, 0x01, 0],
   [0, 0, 0xb8, 0x18, 0, 0, 0x02, 0, 0, 0x04, 0x18, 0, 0, 0, 0xc3, 0x18, 0, 0, 0x3a, 0, 0, 0, 0,
    0, 0, 0, 0x53, 0x09, 0],
   [0, 0xa2, 0, 0, 0, 0x80, 0, 0, 0, 0xc8, 0x18, 0, 0, 0, 0, 0, 0x08, 0xa7, 0, 0, 0, 0xcf, 0x18,
    0, 0, 0, 0, 0, 0x08],
   [0xa8, 0, 0, 0, 0xdf, 0x18, 0, 0, 0, 0, 0, 0x08, 0x28, 0, 0, 0, 0, 0, 0, 0, 0, 0, 0, 0x02,
    0x68, 0x01, 0, 0, 0xf0],
   [0x18, 0, 0, 0, 0, 0, 0x08, 0xab, 0, 0, 0, 0, 0, 0, 0, 0x01, 0, 0, 0x04, 0x04, 0, 0, 0, 0x71,
    0x16, 0, 0, 0x0e, 0, 0],
   [0, 0, 0, 0, 0, 0xdc, 0x09, 0, 0, 0x03, 0, 0, 0x04, 0x10, 0, 0, 0, 0xf7, 0x18, 0, 0, 0x02, 0,
    0, 0, 0, 0, 0, 0, 0xfc],
   [0x18, 0, 0, 0x2c, 0, 0, 0, 0x20, 0, 0, 0, 0x09, 0x19, 0, 0, 0xad, 0, 0, 0, 0x40, 0, 0, 0, 0,
    0, 0, 0, 0, 0, 0, 0x02],
   [0x9d, 0x01, 0, 0, 0x10, 0x19, 0, 0, 0x04, 0, 0, 0x04, 0x20, 0, 0, 0, 0x26, 0x19, 0, 0, 0xaf,
    0, 0, 0, 0, 0, 0, 0],
   [0x2f, 0x19, 0, 0, 0x28, 0, 0, 0, 0x40, 0, 0, 0, 0x36, 0x19, 0, 0, 0x28, 0, 0, 0, 0x80, 0, 0,
    0, 0x3a, 0x19, 0, 0],
   [0xb0, 0, 0, 0, 0xc0, 0, 0, 0, 0, 0, 0, 0, 0, 0, 0, 0x02, 0x0c, 0, 0, 0, 0x46, 0x19, 0, 0, 0,
    0, 0, 0x08, 0xb1, 0, 0],
   [0, 0x4b, 0x19, 0, 0, 0, 0, 0, 0x01, 0x01, 0, 0, 0, 0x08, 0, 0, 0x04, 0x51, 0x19, 0, 0, 0, 0,
    0, 0x08, 0xb3, 0, 0, 0]]"

lemma length_btf_types_2: "length (concat btf_types_2) = 3975"
  by (simp add: btf_types_2_def)

definition btf_types_3 :: "bytes list" where
  "btf_types_3 = [
   [0x5c, 0x19, 0, 0, 0x01, 0, 0, 0x04, 0x04, 0, 0, 0, 0, 0, 0, 0, 0xb4, 0, 0, 0, 0, 0, 0, 0, 0,
    0, 0, 0, 0x01, 0, 0],
   [0x05, 0x04, 0, 0, 0, 0x65, 0x19, 0, 0, 0x80, 0, 0, 0, 0, 0, 0, 0, 0x6b, 0x19, 0, 0, 0x01, 0,
    0, 0x04, 0x08, 0, 0, 0],
   [0x38, 0x10, 0, 0, 0xb6, 0, 0, 0, 0, 0, 0, 0, 0, 0, 0, 0, 0, 0, 0, 0x02, 0xb5, 0, 0, 0, 0, 0,
    0, 0, 0, 0, 0, 0x02],
   [0x9b, 0x01, 0, 0, 0, 0, 0, 0, 0, 0, 0, 0x02, 0x6a, 0x01, 0, 0, 0, 0, 0, 0, 0, 0, 0, 0x02,
    0x6b, 0x01, 0, 0, 0, 0, 0],
   [0, 0, 0, 0, 0x02, 0x97, 0x01, 0, 0, 0, 0, 0, 0, 0, 0, 0, 0x02, 0x69, 0x01, 0, 0, 0, 0, 0, 0,
    0, 0, 0, 0x02, 0x7e],
   [0x01, 0, 0, 0, 0, 0, 0, 0, 0, 0, 0x02, 0x6f, 0x01, 0, 0, 0, 0, 0, 0, 0, 0, 0, 0x02, 0xbf, 0,
    0, 0, 0x77, 0x19, 0, 0],
   [0, 0, 0, 0x08, 0x80, 0x01, 0, 0, 0x88, 0x19, 0, 0, 0x07, 0, 0, 0x04, 0x38, 0, 0, 0, 0x9b,
    0x19, 0, 0, 0x3c, 0, 0, 0],
   [0, 0, 0, 0, 0xa1, 0x19, 0, 0, 0x3c, 0, 0, 0, 0x40, 0, 0, 0, 0xa7, 0x19, 0, 0, 0x3c, 0, 0, 0,
    0x80, 0, 0, 0, 0xad],
   [0x19, 0, 0, 0x3c, 0, 0, 0, 0xc0, 0, 0, 0, 0xb3, 0x19, 0, 0, 0x3c, 0, 0, 0, 0, 0x01, 0, 0,
    0xbe, 0x19, 0, 0, 0x3c, 0],
   [0, 0, 0x40, 0x01, 0, 0, 0xca, 0x19, 0, 0, 0x3c, 0, 0, 0, 0x80, 0x01, 0, 0, 0xe0, 0x19, 0, 0,
    0, 0, 0, 0x08, 0xc2, 0],
   [0, 0, 0, 0, 0, 0, 0x01, 0, 0, 0x04, 0x08, 0, 0, 0, 0xb2, 0x15, 0, 0, 0xa4, 0, 0, 0, 0, 0, 0,
    0, 0xeb, 0x19, 0, 0, 0],
   [0, 0, 0x08, 0xc4, 0, 0, 0, 0xff, 0x19, 0, 0, 0x01, 0, 0, 0x04, 0x04, 0, 0, 0, 0x7d, 0x17, 0,
    0, 0x87, 0, 0, 0, 0, 0],
   [0, 0, 0, 0, 0, 0, 0, 0, 0, 0x02, 0x74, 0x01, 0, 0, 0, 0, 0, 0, 0, 0, 0, 0x02, 0x99, 0x01, 0,
    0, 0, 0, 0, 0, 0, 0, 0],
   [0x02, 0x71, 0x01, 0, 0, 0, 0, 0, 0, 0, 0, 0, 0x02, 0x7b, 0x01, 0, 0, 0x11, 0x1a, 0, 0, 0x04,
    0, 0, 0x04, 0x20, 0, 0],
   [0, 0x17, 0x1a, 0, 0, 0xca, 0, 0, 0, 0, 0, 0, 0, 0x1d, 0x1a, 0, 0, 0x7f, 0, 0, 0, 0x40, 0, 0,
    0, 0x27, 0x1a, 0, 0],
   [0xcd, 0, 0, 0, 0x60, 0, 0, 0, 0x2b, 0x1a, 0, 0, 0x3a, 0, 0, 0, 0x80, 0, 0, 0, 0x35, 0x1a, 0,
    0, 0, 0, 0, 0x08, 0xcb],
   [0, 0, 0, 0x43, 0x1a, 0, 0, 0, 0, 0, 0x08, 0xcc, 0, 0, 0, 0, 0, 0, 0, 0x01, 0, 0, 0x04, 0x08,
    0, 0, 0, 0x04, 0x10, 0],
   [0, 0x44, 0, 0, 0, 0, 0, 0, 0, 0x4e, 0x1a, 0, 0, 0x01, 0, 0, 0x04, 0x04, 0, 0, 0, 0x78, 0x17,
    0, 0, 0x2c, 0, 0, 0, 0],
   [0, 0, 0, 0, 0, 0, 0, 0, 0, 0, 0x02, 0xcf, 0, 0, 0, 0x64, 0x1a, 0, 0, 0x1e, 0, 0, 0x04, 0x18,
    0x01, 0, 0, 0x77, 0x1a],
   [0, 0, 0xd0, 0, 0, 0, 0, 0, 0, 0, 0x1e, 0x17, 0, 0, 0x7f, 0, 0, 0, 0x40, 0, 0, 0, 0x11, 0x1a,
    0, 0, 0xc9, 0, 0, 0],
   [0x80, 0, 0, 0, 0x7b, 0x1a, 0, 0, 0x3a, 0, 0, 0, 0x80, 0x01, 0, 0, 0x8b, 0x1a, 0, 0, 0xd1, 0,
    0, 0, 0, 0x02, 0, 0],
   [0x99, 0x1a, 0, 0, 0xd1, 0, 0, 0, 0x80, 0x02, 0, 0, 0xa9, 0x1a, 0, 0, 0x3a, 0, 0, 0, 0, 0x03,
    0, 0, 0xb4, 0x1a, 0, 0],
   [0x3a, 0, 0, 0, 0x80, 0x03, 0, 0, 0xc2, 0x1a, 0, 0, 0x3a, 0, 0, 0, 0, 0x04, 0, 0, 0xd2, 0x1a,
    0, 0, 0x02, 0, 0, 0],
   [0x80, 0x04, 0, 0, 0xdc, 0x1a, 0, 0, 0x02, 0, 0, 0, 0xa0, 0x04, 0, 0, 0xe6, 0x1a, 0, 0, 0x02,
    0, 0, 0, 0xc0, 0x04, 0],
   [0, 0xee, 0x1a, 0, 0, 0x02, 0, 0, 0, 0xe0, 0x04, 0, 0, 0xf8, 0x1a, 0, 0, 0x02, 0, 0, 0, 0,
    0x05, 0, 0, 0, 0x1b, 0, 0],
   [0x02, 0, 0, 0, 0x20, 0x05, 0, 0, 0x08, 0x1b, 0, 0, 0x02, 0, 0, 0, 0x40, 0x05, 0, 0, 0x17,
    0x1b, 0, 0, 0x02, 0, 0, 0],
   [0x60, 0x05, 0, 0, 0x28, 0x1b, 0, 0, 0x2a, 0, 0, 0, 0x80, 0x05, 0, 0, 0x31, 0x1b, 0, 0, 0x35,
    0, 0, 0, 0xc0, 0x05, 0],
   [0, 0x7c, 0x16, 0, 0, 0x3c, 0, 0, 0, 0, 0x06, 0, 0, 0x36, 0x1b, 0, 0, 0x3c, 0, 0, 0, 0x40,
    0x06, 0, 0, 0x40, 0x1b, 0],
   [0, 0x3c, 0, 0, 0, 0x80, 0x06, 0, 0, 0x4b, 0x1b, 0, 0, 0xce, 0, 0, 0, 0xc0, 0x06, 0, 0, 0x56,
    0x1b, 0, 0, 0x3c, 0, 0],
   [0, 0, 0x07, 0, 0, 0x61, 0x1b, 0, 0, 0x3c, 0, 0, 0, 0x40, 0x07, 0, 0, 0x6c, 0x1b, 0, 0, 0x02,
    0, 0, 0, 0x80, 0x07, 0],
   [0, 0x76, 0x1b, 0, 0, 0x02, 0, 0, 0, 0xa0, 0x07, 0, 0, 0x81, 0x1b, 0, 0, 0x29, 0, 0, 0, 0xc0,
    0x07, 0, 0, 0x72, 0x18],
   [0, 0, 0x91, 0, 0, 0, 0, 0x08, 0, 0, 0x8f, 0x1b, 0, 0, 0xd2, 0, 0, 0, 0x80, 0x08, 0, 0, 0, 0,
    0, 0, 0, 0, 0, 0x02],
   [0x94, 0x01, 0, 0, 0x9a, 0x1b, 0, 0, 0x02, 0, 0, 0x04, 0x10, 0, 0, 0, 0xac, 0x1b, 0, 0, 0x8e,
    0, 0, 0, 0, 0, 0, 0],
   [0xb1, 0x1b, 0, 0, 0x3c, 0, 0, 0, 0x40, 0, 0, 0, 0xb7, 0x1b, 0, 0, 0, 0, 0, 0x08, 0xd3, 0, 0,
    0, 0, 0, 0, 0, 0x01, 0],
   [0, 0x04, 0x08, 0, 0, 0, 0xbf, 0x1b, 0, 0, 0xca, 0, 0, 0, 0, 0, 0, 0, 0, 0, 0, 0, 0, 0, 0,
    0x03, 0, 0, 0, 0, 0xce, 0],
   [0, 0, 0x04, 0, 0, 0, 0x02, 0, 0, 0, 0, 0, 0, 0, 0, 0, 0, 0x02, 0x84, 0x01, 0, 0, 0xc1, 0x1b,
    0, 0, 0, 0, 0, 0x01],
   [0x02, 0, 0, 0, 0x10, 0, 0, 0x01, 0, 0, 0, 0, 0, 0, 0, 0x02, 0x88, 0x01, 0, 0, 0, 0, 0, 0, 0,
    0, 0, 0x02, 0x28, 0, 0],
   [0, 0, 0, 0, 0, 0, 0, 0, 0x03, 0, 0, 0, 0, 0x28, 0, 0, 0, 0x04, 0, 0, 0, 0x03, 0, 0, 0, 0, 0,
    0, 0, 0, 0, 0, 0x02],
   [0x9a, 0x01, 0, 0, 0xc7, 0x1b, 0, 0, 0x03, 0, 0, 0x04, 0x30, 0, 0, 0, 0xdc, 0x1b, 0, 0, 0xdc,
    0, 0, 0, 0, 0, 0, 0],
   [0xe1, 0x1b, 0, 0, 0xb0, 0, 0, 0, 0x40, 0x01, 0, 0, 0xf0, 0x1b, 0, 0, 0xb0, 0, 0, 0, 0x48,
    0x01, 0, 0, 0xf9, 0x1b, 0],
   [0, 0x01, 0, 0, 0x04, 0x28, 0, 0, 0, 0xaa, 0x15, 0, 0, 0x5f, 0, 0, 0, 0, 0, 0, 0, 0, 0, 0, 0,
    0x02, 0, 0, 0x05, 0x10],
   [0, 0, 0, 0x13, 0x1c, 0, 0, 0x2a, 0, 0, 0, 0, 0, 0, 0, 0x1d, 0x1c, 0, 0, 0x91, 0, 0, 0, 0, 0,
    0, 0, 0, 0, 0, 0, 0, 0],
   [0, 0x02, 0x93, 0x01, 0, 0, 0x21, 0x1c, 0, 0, 0x03, 0, 0, 0x04, 0x10, 0, 0, 0, 0x2b, 0x1c, 0,
    0, 0xe0, 0, 0, 0, 0, 0],
   [0, 0, 0x2f, 0x19, 0, 0, 0x19, 0, 0, 0, 0x40, 0, 0, 0, 0x30, 0x1c, 0, 0, 0x19, 0, 0, 0, 0x60,
    0, 0, 0, 0, 0, 0, 0, 0],
   [0, 0, 0x02, 0x8a, 0x01, 0, 0, 0, 0, 0, 0, 0, 0, 0, 0x02, 0xa1, 0x01, 0, 0, 0x84, 0x0d, 0, 0,
    0x04, 0, 0, 0x04, 0x78],
   [0, 0, 0, 0x35, 0x1c, 0, 0, 0xe3, 0, 0, 0, 0, 0, 0, 0, 0x3e, 0x16, 0, 0, 0x10, 0, 0, 0, 0,
    0x03, 0, 0, 0x7c, 0x16, 0],
   [0, 0x28, 0, 0, 0, 0x40, 0x03, 0, 0, 0x3f, 0x1c, 0, 0, 0x28, 0, 0, 0, 0x80, 0x03, 0, 0, 0, 0,
    0, 0, 0, 0, 0, 0x03, 0],
   [0, 0, 0, 0x28, 0, 0, 0, 0x04, 0, 0, 0, 0x0c, 0, 0, 0, 0, 0, 0, 0, 0, 0, 0, 0x03, 0, 0, 0, 0,
    0xe2, 0, 0, 0, 0x04, 0],
   [0, 0, 0x20, 0, 0, 0, 0, 0, 0, 0, 0, 0, 0, 0x02, 0x7a, 0x01, 0, 0, 0, 0, 0, 0, 0, 0, 0, 0x02,
    0x83, 0x01, 0, 0, 0x43],
   [0x1c, 0, 0, 0, 0, 0, 0x08, 0x10, 0, 0, 0, 0, 0, 0, 0, 0, 0, 0, 0x02, 0x98, 0x01, 0, 0, 0, 0,
    0, 0, 0, 0, 0, 0x02],
   [0xa4, 0x01, 0, 0, 0xaf, 0x0e, 0, 0, 0, 0, 0, 0x04, 0, 0, 0, 0, 0x49, 0x1c, 0, 0, 0x04, 0, 0,
    0x04, 0x28, 0, 0, 0],
   [0x54, 0x1c, 0, 0, 0x79, 0, 0, 0, 0, 0, 0, 0, 0x2d, 0x13, 0, 0, 0x28, 0, 0, 0, 0x80, 0, 0, 0,
    0xf2, 0x12, 0, 0, 0xec],
   [0, 0, 0, 0xc0, 0, 0, 0, 0x3e, 0x03, 0, 0, 0x18, 0, 0, 0, 0, 0x01, 0, 0, 0, 0, 0, 0, 0, 0, 0,
    0x02, 0xed, 0, 0, 0, 0],
   [0, 0, 0, 0x01, 0, 0, 0x0d, 0, 0, 0, 0, 0, 0, 0, 0, 0xee, 0, 0, 0, 0, 0, 0, 0, 0, 0, 0, 0x02,
    0xeb, 0, 0, 0, 0, 0, 0],
   [0, 0, 0, 0, 0x02, 0xa5, 0x01, 0, 0, 0, 0, 0, 0, 0, 0, 0, 0x02, 0x6c, 0x01, 0, 0, 0, 0, 0, 0,
    0, 0, 0, 0x02, 0x6e],
   [0x01, 0, 0, 0x5a, 0x1c, 0, 0, 0x01, 0, 0, 0x04, 0x08, 0, 0, 0, 0x9a, 0x15, 0, 0, 0x30, 0, 0,
    0, 0, 0, 0, 0, 0x65],
   [0x1c, 0, 0, 0x14, 0, 0, 0x84, 0x40, 0x11, 0, 0, 0x73, 0x1c, 0, 0, 0xf5, 0, 0, 0, 0, 0, 0, 0,
    0x7d, 0x1c, 0, 0, 0x28],
   [0, 0, 0, 0xc0, 0, 0, 0, 0x80, 0x1c, 0, 0, 0x34, 0, 0, 0, 0, 0x01, 0, 0, 0x83, 0x1c, 0, 0,
    0x34, 0, 0, 0, 0x10, 0x01],
   [0, 0, 0x86, 0x1c, 0, 0, 0x34, 0, 0, 0, 0x20, 0x01, 0, 0, 0x8e, 0x1c, 0, 0, 0x34, 0, 0, 0,
    0x30, 0x01, 0, 0, 0x96],
   [0x1c, 0, 0, 0x28, 0, 0, 0, 0x40, 0x01, 0, 0, 0x9d, 0x1c, 0, 0, 0x28, 0, 0, 0, 0x80, 0x01, 0,
    0, 0xa4, 0x1c, 0, 0],
   [0x45, 0x01, 0, 0, 0xc0, 0x01, 0, 0, 0xaf, 0x1c, 0, 0, 0x28, 0, 0, 0, 0xc0, 0x02, 0, 0, 0xbb,
    0x1c, 0, 0, 0x28, 0, 0],
   [0, 0, 0x03, 0, 0, 0xc6, 0x1c, 0, 0, 0x28, 0, 0, 0, 0x40, 0x03, 0, 0, 0xca, 0x1c, 0, 0, 0x28,
    0, 0, 0, 0x80, 0x03, 0],
   [0, 0xd2, 0x1c, 0, 0, 0x28, 0, 0, 0, 0xc0, 0x03, 0, 0, 0xdd, 0x1c, 0, 0, 0x46, 0x01, 0, 0, 0,
    0x04, 0, 0, 0xe7, 0x1c],
   [0, 0, 0x28, 0, 0, 0, 0x40, 0x04, 0, 0, 0xf1, 0x1c, 0, 0, 0x10, 0, 0, 0, 0x80, 0x04, 0, 0x01,
    0xfb, 0x1c, 0, 0, 0x10],
   [0, 0, 0, 0x81, 0x04, 0, 0x01, 0x0e, 0x1d, 0, 0, 0x18, 0, 0, 0, 0xa0, 0x04, 0, 0, 0x13, 0x1d,
    0, 0, 0x47, 0x01, 0, 0],
   [0, 0x06, 0, 0, 0x17, 0x1d, 0, 0, 0x0d, 0, 0, 0x84, 0x08, 0, 0, 0, 0x23, 0x1d, 0, 0, 0x32, 0,
    0, 0, 0, 0, 0, 0, 0x2a],
   [0x1d, 0, 0, 0x32, 0, 0, 0, 0x10, 0, 0, 0, 0x30, 0x1d, 0, 0, 0x32, 0, 0, 0, 0x20, 0, 0, 0x08,
    0x74, 0, 0, 0, 0x32, 0],
   [0, 0, 0x28, 0, 0, 0x04, 0xc5, 0x15, 0, 0, 0x32, 0, 0, 0, 0x2c, 0, 0, 0x01, 0x36, 0x1d, 0, 0,
    0x32, 0, 0, 0, 0x2d, 0],
   [0, 0x02, 0x3a, 0x1d, 0, 0, 0x32, 0, 0, 0, 0x2f, 0, 0, 0x01, 0x3c, 0x1d, 0, 0, 0x32, 0, 0, 0,
    0x30, 0, 0, 0x04, 0x43],
   [0x1d, 0, 0, 0x32, 0, 0, 0, 0x34, 0, 0, 0x01, 0x47, 0x1d, 0, 0, 0x32, 0, 0, 0, 0x35, 0, 0,
    0x01, 0x49, 0x1d, 0, 0],
   [0x32, 0, 0, 0, 0x36, 0, 0, 0x01, 0x4b, 0x1d, 0, 0, 0x32, 0, 0, 0, 0x37, 0, 0, 0x01, 0x4d,
    0x1d, 0, 0, 0x32, 0, 0, 0],
   [0x38, 0, 0, 0x08, 0, 0, 0, 0, 0, 0, 0, 0x03, 0, 0, 0, 0, 0xf4, 0, 0, 0, 0x04, 0, 0, 0, 0x03,
    0, 0, 0, 0, 0, 0, 0, 0],
   [0, 0, 0x02, 0xf7, 0, 0, 0, 0x53, 0x1d, 0, 0, 0x4b, 0, 0, 0x04, 0xd0, 0x04, 0, 0, 0x5e, 0x1d,
    0, 0, 0x3a, 0, 0, 0, 0],
   [0, 0, 0, 0x6a, 0x1d, 0, 0, 0x3a, 0, 0, 0, 0x80, 0, 0, 0, 0x77, 0x1d, 0, 0, 0x3a, 0, 0, 0, 0,
    0x01, 0, 0, 0x81, 0x10],
   [0, 0, 0x38, 0, 0, 0, 0x80, 0x01, 0, 0, 0x83, 0x1d, 0, 0, 0x3c, 0, 0, 0, 0x40, 0x02, 0, 0,
    0x8f, 0x1d, 0, 0, 0x3a, 0],
   [0, 0, 0x80, 0x02, 0, 0, 0x9d, 0x1d, 0, 0, 0x79, 0, 0, 0, 0, 0x03, 0, 0, 0xa9, 0x1d, 0, 0,
    0x3a, 0, 0, 0, 0x80, 0x03],
   [0, 0, 0xb6, 0x1d, 0, 0, 0x02, 0, 0, 0, 0, 0x04, 0, 0, 0xc2, 0x1d, 0, 0, 0x02, 0, 0, 0, 0x20,
    0x04, 0, 0, 0xcd, 0x1d],
   [0, 0, 0x02, 0, 0, 0, 0x40, 0x04, 0, 0, 0xb4, 0x07, 0, 0, 0xf6, 0, 0, 0, 0x80, 0x04, 0, 0,
    0x77, 0x1a, 0, 0, 0xd0, 0],
   [0, 0, 0xc0, 0x04, 0, 0, 0xd8, 0x1d, 0, 0, 0x29, 0, 0, 0, 0, 0x05, 0, 0, 0, 0x13, 0, 0, 0xf8,
    0, 0, 0, 0x40, 0x05, 0],
   [0, 0xe4, 0x1d, 0, 0, 0x10, 0, 0, 0, 0x60, 0x05, 0, 0, 0x3e, 0x16, 0, 0, 0xf9, 0, 0, 0, 0x80,
    0x05, 0, 0, 0xf1, 0x1d],
   [0, 0, 0xcb, 0, 0, 0, 0xc0, 0x05, 0, 0, 0xfd, 0x1d, 0, 0, 0x3c, 0, 0, 0, 0, 0x06, 0, 0, 0x10,
    0x1e, 0, 0, 0x3c, 0, 0],
   [0, 0x40, 0x06, 0, 0, 0x23, 0x1e, 0, 0, 0x3c, 0, 0, 0, 0x80, 0x06, 0, 0, 0x2a, 0x1e, 0, 0,
    0xfb, 0, 0, 0, 0xc0, 0x06],
   [0, 0, 0x2f, 0x1e, 0, 0, 0x32, 0, 0, 0, 0xc0, 0x0a, 0, 0, 0x3b, 0x1e, 0, 0, 0x32, 0, 0, 0,
    0xd0, 0x0a, 0, 0, 0x4a],
   [0x1e, 0, 0, 0x32, 0, 0, 0, 0xe0, 0x0a, 0, 0, 0x54, 0x1e, 0, 0, 0x01, 0x01, 0, 0, 0, 0x0b, 0,
    0, 0x0a, 0x01, 0, 0],
   [0xce, 0, 0, 0, 0, 0x11, 0, 0, 0x28, 0x1b, 0, 0, 0xca, 0, 0, 0, 0x40, 0x11, 0, 0, 0x57, 0x1e,
    0, 0, 0xcb, 0, 0, 0],
   [0x80, 0x11, 0, 0, 0x70, 0x1e, 0, 0, 0xcb, 0, 0, 0, 0xc0, 0x11, 0, 0, 0x89, 0x1e, 0, 0, 0xc9,
    0, 0, 0, 0, 0x12, 0, 0],
   [0x95, 0x1e, 0, 0, 0x3a, 0, 0, 0, 0, 0x13, 0, 0, 0x9c, 0x07, 0, 0, 0xf6, 0, 0, 0, 0x80, 0x13,
    0, 0, 0xa0, 0x1e, 0, 0],
   [0x02, 0, 0, 0, 0xc0, 0x13, 0, 0, 0xc9, 0x0f, 0, 0, 0x02, 0, 0, 0, 0xe0, 0x13, 0, 0, 0xa6,
    0x1e, 0, 0, 0x3a, 0, 0, 0],
   [0, 0x14, 0, 0, 0x17, 0x1a, 0, 0, 0x35, 0, 0, 0, 0x80, 0x14, 0, 0, 0xb2, 0x1e, 0, 0, 0xc9, 0,
    0, 0, 0xc0, 0x14, 0, 0],
   [0xbd, 0x1e, 0, 0, 0x2c, 0, 0, 0, 0xc0, 0x15, 0, 0, 0xc8, 0x1e, 0, 0, 0x12, 0x01, 0, 0, 0,
    0x16, 0, 0, 0xcb, 0x1e, 0],
   [0, 0x3a, 0, 0, 0, 0x40, 0x16, 0, 0, 0xd4, 0x1e, 0, 0, 0x28, 0, 0, 0, 0xc0, 0x16, 0, 0, 0xe0,
    0x1e, 0, 0, 0x02, 0, 0],
   [0, 0, 0x17, 0, 0, 0xec, 0x1e, 0, 0, 0x13, 0x01, 0, 0, 0x40, 0x17, 0, 0, 0xf2, 0x1e, 0, 0,
    0x15, 0x01, 0, 0, 0, 0x18],
   [0, 0, 0xf9, 0x1e, 0, 0, 0x10, 0, 0, 0, 0x40, 0x18, 0, 0, 0x08, 0x1f, 0, 0, 0x10, 0, 0, 0,
    0x60, 0x18, 0, 0, 0x15],
   [0x1f, 0, 0, 0x10, 0, 0, 0, 0x80, 0x18, 0, 0, 0x25, 0x1f, 0, 0, 0x10, 0, 0, 0, 0xa0, 0x18, 0,
    0, 0x35, 0x1f, 0, 0],
   [0x28, 0, 0, 0, 0xc0, 0x18, 0, 0, 0x42, 0x1f, 0, 0, 0x16, 0x01, 0, 0, 0, 0x19, 0, 0, 0x4e,
    0x1f, 0, 0, 0x91, 0, 0, 0],
   [0, 0x1a, 0, 0, 0x5b, 0x1f, 0, 0, 0x10, 0, 0, 0, 0x80, 0x1a, 0, 0, 0x68, 0x1f, 0, 0, 0x2c, 0,
    0, 0, 0xa0, 0x1a, 0, 0],
   [0x74, 0x1f, 0, 0, 0x1b, 0x01, 0, 0, 0xc0, 0x1a, 0, 0, 0x81, 0x1f, 0, 0, 0x1c, 0x01, 0, 0,
    0x80, 0x1b, 0, 0, 0x94],
   [0x1f, 0, 0, 0x28, 0, 0, 0, 0xc0, 0x1b, 0, 0, 0xa5, 0x1f, 0, 0, 0xf6, 0, 0, 0, 0, 0x1c, 0, 0,
    0xaf, 0x1f, 0, 0, 0x1d],
   [0x01, 0, 0, 0x40, 0x1c, 0, 0, 0x72, 0x18, 0, 0, 0x91, 0, 0, 0, 0x80, 0x1c, 0, 0, 0xb7, 0x1f,
    0, 0, 0x1f, 0x01, 0, 0],
   [0, 0x1d, 0, 0, 0xba, 0x1f, 0, 0, 0x3c, 0, 0, 0, 0x40, 0x1d, 0, 0, 0xbd, 0x1f, 0, 0, 0xcb, 0,
    0, 0, 0x80, 0x1d, 0, 0],
   [0xca, 0x1f, 0, 0, 0x20, 0x01, 0, 0, 0xc0, 0x1d, 0, 0, 0xd0, 0x1f, 0, 0, 0x22, 0x01, 0, 0, 0,
    0x1e, 0, 0, 0xe1, 0x1f],
   [0, 0, 0x29, 0, 0, 0, 0x40, 0x1e, 0, 0, 0xfa, 0x1f, 0, 0, 0x22, 0x01, 0, 0, 0x80, 0x1e, 0, 0,
    0x10, 0x20, 0, 0, 0x32],
   [0x01, 0, 0, 0xc0, 0x1e, 0, 0, 0x15, 0x20, 0, 0, 0x3c, 0, 0, 0, 0, 0x1f, 0, 0, 0x20, 0x20, 0,
    0, 0x33, 0x01, 0, 0],
   [0x40, 0x1f, 0, 0, 0x09, 0x19, 0, 0, 0x34, 0x01, 0, 0, 0x80, 0x1f, 0, 0, 0x29, 0x20, 0, 0,
    0x35, 0x01, 0, 0, 0xc0],
   [0x1f, 0, 0, 0x34, 0x20, 0, 0, 0x44, 0x01, 0, 0, 0x80, 0x25, 0, 0, 0x0a, 0x0f, 0, 0, 0x29, 0,
    0, 0, 0xc0, 0x25, 0, 0],
   [0x39, 0x20, 0, 0, 0x3a, 0, 0, 0, 0, 0x26, 0, 0, 0x41, 0x20, 0, 0, 0x06, 0, 0, 0x06, 0x04, 0,
    0, 0, 0x52, 0x20, 0, 0],
   [0xfc, 0xff, 0xff, 0xff, 0x68, 0x20, 0, 0, 0xfd, 0xff, 0xff, 0xff, 0x7e, 0x20, 0, 0, 0xfe,
    0xff, 0xff, 0xff, 0x95],
   [0x20, 0, 0, 0xff, 0xff, 0xff, 0xff, 0xaa, 0x20, 0, 0, 0, 0, 0, 0, 0xc4, 0x20, 0, 0, 0x01, 0,
    0, 0, 0xdc, 0x20, 0, 0],
   [0, 0, 0, 0x08, 0xfa, 0, 0, 0, 0, 0, 0, 0, 0x01, 0, 0, 0x04, 0x08, 0, 0, 0, 0xbf, 0x1b, 0, 0,
    0xd2, 0, 0, 0, 0, 0, 0],
   [0, 0xe6, 0x20, 0, 0, 0x3b, 0, 0, 0x84, 0x80, 0, 0, 0, 0x74, 0, 0, 0, 0x19, 0, 0, 0, 0, 0, 0,
    0, 0x30, 0x1c, 0, 0],
   [0x19, 0, 0, 0, 0x20, 0, 0, 0, 0xf6, 0x20, 0, 0, 0x1e, 0, 0, 0, 0x40, 0, 0, 0, 0, 0, 0, 0,
    0xfc, 0, 0, 0, 0x80, 0, 0],
   [0, 0xfd, 0x20, 0, 0, 0x1e, 0, 0, 0, 0xc0, 0, 0, 0, 0x09, 0x21, 0, 0, 0x1e, 0, 0, 0, 0, 0x01,
    0, 0, 0x15, 0x21, 0, 0],
   [0x1e, 0, 0, 0, 0x40, 0x01, 0, 0x01, 0x1e, 0x21, 0, 0, 0x1e, 0, 0, 0, 0x41, 0x01, 0, 0x01,
    0x26, 0x21, 0, 0, 0x1e, 0],
   [0, 0, 0x42, 0x01, 0, 0x01, 0x2d, 0x21, 0, 0, 0x1e, 0, 0, 0, 0x43, 0x01, 0, 0x01, 0x37, 0x21,
    0, 0, 0x1e, 0, 0, 0],
   [0x44, 0x01, 0, 0x01, 0x44, 0x21, 0, 0, 0x1e, 0, 0, 0, 0x45, 0x01, 0, 0x01, 0x53, 0x21, 0, 0,
    0x1e, 0, 0, 0, 0x46],
   [0x01, 0, 0x01, 0x5e, 0x21, 0, 0, 0x1e, 0, 0, 0, 0x47, 0x01, 0, 0x01, 0x6b, 0x21, 0, 0, 0x1e,
    0, 0, 0, 0x48, 0x01, 0],
   [0x01, 0x34, 0, 0, 0, 0x1e, 0, 0, 0, 0x49, 0x01, 0, 0x01, 0x70, 0x21, 0, 0, 0x1e, 0, 0, 0,
    0x4a, 0x01, 0, 0x01, 0x75],
   [0x21, 0, 0, 0x1e, 0, 0, 0, 0x4b, 0x01, 0, 0x01, 0x82, 0x21, 0, 0, 0x1e, 0, 0, 0, 0x4c, 0x01,
    0, 0x01, 0x31, 0x1b, 0],
   [0, 0x1e, 0, 0, 0, 0x4d, 0x01, 0, 0x01, 0x91, 0x21, 0, 0, 0x1e, 0, 0, 0, 0x4e, 0x01, 0, 0x01,
    0x9b, 0x21, 0, 0, 0x1e],
   [0, 0, 0, 0x4f, 0x01, 0, 0x02, 0xa6, 0x21, 0, 0, 0x1e, 0, 0, 0, 0x51, 0x01, 0, 0x01, 0xb0,
    0x21, 0, 0, 0x1e, 0, 0, 0],
   [0x52, 0x01, 0, 0x01, 0xbe, 0x21, 0, 0, 0x1e, 0, 0, 0, 0x53, 0x01, 0, 0x01, 0xcb, 0x21, 0, 0,
    0x1e, 0, 0, 0, 0x54],
   [0x01, 0, 0x01, 0xd9, 0x21, 0, 0, 0x1e, 0, 0, 0, 0x55, 0x01, 0, 0x01, 0xf2, 0x21, 0, 0, 0x1e,
    0, 0, 0, 0x56, 0x01, 0],
   [0x01, 0x09, 0x22, 0, 0, 0x1e, 0, 0, 0, 0x57, 0x01, 0, 0x01, 0x0f, 0x22, 0, 0, 0x1e, 0, 0, 0,
    0x58, 0x01, 0, 0x01],
   [0x19, 0x22, 0, 0, 0x1e, 0, 0, 0, 0x59, 0x01, 0, 0x01, 0x25, 0x22, 0, 0, 0x1e, 0, 0, 0, 0x5a,
    0x01, 0, 0x01, 0x34],
   [0x22, 0, 0, 0x1e, 0, 0, 0, 0x5b, 0x01, 0, 0x01, 0x43, 0x22, 0, 0, 0x1e, 0, 0, 0, 0x5c, 0x01,
    0, 0x01, 0x4e, 0x22, 0],
   [0, 0x1e, 0, 0, 0, 0x5d, 0x01, 0, 0x01, 0x56, 0x22, 0, 0, 0x1e, 0, 0, 0, 0x5e, 0x01, 0, 0x01,
    0x60, 0x22, 0, 0, 0x1e],
   [0, 0, 0, 0x5f, 0x01, 0, 0x01, 0x6b, 0x22, 0, 0, 0x1e, 0, 0, 0, 0x60, 0x01, 0, 0x01, 0x72,
    0x22, 0, 0, 0x1e, 0, 0, 0],
   [0x61, 0x01, 0, 0x01, 0x7c, 0x22, 0, 0, 0x1e, 0, 0, 0, 0x62, 0x01, 0, 0x01, 0x85, 0x22, 0, 0,
    0x1e, 0, 0, 0, 0x63],
   [0x01, 0, 0x01, 0x94, 0x22, 0, 0, 0x1e, 0, 0, 0, 0x64, 0x01, 0, 0x01, 0xa3, 0x22, 0, 0, 0x1e,
    0, 0, 0, 0x65, 0x01, 0],
   [0x01, 0xab, 0x22, 0, 0, 0x1e, 0, 0, 0, 0x66, 0x01, 0, 0x1a, 0, 0, 0, 0, 0xfd, 0, 0, 0, 0x80,
    0x01, 0, 0, 0xb8, 0x22],
   [0, 0, 0x19, 0, 0, 0, 0xa0, 0x01, 0, 0, 0, 0, 0, 0, 0xfe, 0, 0, 0, 0xc0, 0x01, 0, 0, 0, 0, 0,
    0, 0xff, 0, 0, 0, 0],
   [0x02, 0, 0, 0xc0, 0x22, 0, 0, 0x1e, 0, 0, 0, 0x40, 0x02, 0, 0, 0xd3, 0x22, 0, 0, 0x1e, 0, 0,
    0, 0x80, 0x02, 0, 0],
   [0xe4, 0x22, 0, 0, 0x19, 0, 0, 0, 0xc0, 0x02, 0, 0, 0x88, 0x16, 0, 0, 0, 0x01, 0, 0, 0xe0,
    0x02, 0, 0, 0xf6, 0x22, 0],
   [0, 0x1e, 0, 0, 0, 0, 0x03, 0, 0, 0x07, 0x23, 0, 0, 0x19, 0, 0, 0, 0x40, 0x03, 0, 0, 0x15,
    0x23, 0, 0, 0x33, 0, 0, 0],
   [0x60, 0x03, 0, 0, 0x26, 0x23, 0, 0, 0x33, 0, 0, 0, 0x70, 0x03, 0, 0, 0x33, 0x23, 0, 0, 0x19,
    0, 0, 0, 0x80, 0x03, 0],
   [0, 0x43, 0x23, 0, 0, 0x19, 0, 0, 0, 0xa0, 0x03, 0, 0, 0x50, 0x23, 0, 0, 0x1e, 0, 0, 0, 0xc0,
    0x03, 0, 0, 0, 0, 0, 0],
   [0x02, 0, 0, 0x05, 0x08, 0, 0, 0, 0x59, 0x23, 0, 0, 0x1e, 0, 0, 0, 0, 0, 0, 0, 0x67, 0x23, 0,
    0, 0x1e, 0, 0, 0, 0, 0],
   [0, 0, 0, 0, 0, 0, 0x02, 0, 0, 0x05, 0x04, 0, 0, 0, 0x73, 0x23, 0, 0, 0x19, 0, 0, 0, 0, 0, 0,
    0, 0x81, 0x23, 0, 0],
   [0x19, 0, 0, 0, 0, 0, 0, 0, 0, 0, 0, 0, 0x04, 0, 0, 0x05, 0x08, 0, 0, 0, 0x92, 0x23, 0, 0,
    0x1e, 0, 0, 0, 0, 0, 0, 0],
   [0x9a, 0x23, 0, 0, 0x1e, 0, 0, 0, 0, 0, 0, 0, 0xa6, 0x23, 0, 0, 0x1e, 0, 0, 0, 0, 0, 0, 0,
    0xb2, 0x23, 0, 0, 0x1e, 0],
   [0, 0, 0, 0, 0, 0, 0, 0, 0, 0, 0x04, 0, 0, 0x05, 0x08, 0, 0, 0, 0xba, 0x23, 0, 0, 0x1e, 0, 0,
    0, 0, 0, 0, 0, 0xc1],
   [0x23, 0, 0, 0x1e, 0, 0, 0, 0, 0, 0, 0, 0xcd, 0x23, 0, 0, 0x1e, 0, 0, 0, 0, 0, 0, 0, 0xda,
    0x23, 0, 0, 0x1e, 0, 0, 0],
   [0, 0, 0, 0, 0xe2, 0x23, 0, 0, 0, 0, 0, 0x08, 0x02, 0, 0, 0, 0xe8, 0x23, 0, 0, 0x0c, 0, 0,
    0x04, 0xc0, 0, 0, 0, 0, 0],
   [0, 0, 0x02, 0x01, 0, 0, 0, 0, 0, 0, 0xf6, 0x23, 0, 0, 0x35, 0, 0, 0, 0, 0x03, 0, 0, 0x74,
    0x1f, 0, 0, 0x29, 0, 0, 0],
   [0x40, 0x03, 0, 0, 0x94, 0x1f, 0, 0, 0x28, 0, 0, 0, 0x80, 0x03, 0, 0, 0, 0x13, 0, 0, 0x02, 0,
    0, 0, 0xc0, 0x03, 0, 0],
   [0xfd, 0x23, 0, 0, 0xf9, 0, 0, 0, 0, 0x04, 0, 0, 0x59, 0x23, 0, 0, 0x3c, 0, 0, 0, 0x40, 0x04,
    0, 0, 0, 0, 0, 0, 0x0f],
   [0x01, 0, 0, 0x80, 0x04, 0, 0, 0x08, 0x24, 0, 0, 0x3c, 0, 0, 0, 0, 0x05, 0, 0, 0x17, 0x24, 0,
    0, 0x3c, 0, 0, 0, 0x40],
   [0x05, 0, 0, 0x22, 0x24, 0, 0, 0x3c, 0, 0, 0, 0x80, 0x05, 0, 0, 0x32, 0x24, 0, 0, 0x3c, 0, 0,
    0, 0xc0, 0x05, 0, 0, 0]]"

lemma length_btf_types_3: "length (concat btf_types_3) = 4201"
  by (simp add: btf_types_3_def)

definition btf_types_4 :: "bytes list" where
  "btf_types_4 = [
   [0, 0, 0, 0x06, 0, 0, 0x05, 0x60, 0, 0, 0, 0, 0, 0, 0, 0x03, 0x01, 0, 0, 0, 0, 0, 0, 0, 0, 0,
    0, 0x05, 0x01, 0, 0, 0],
   [0, 0, 0, 0, 0, 0, 0, 0x06, 0x01, 0, 0, 0, 0, 0, 0, 0, 0, 0, 0, 0x07, 0x01, 0, 0, 0, 0, 0, 0,
    0, 0, 0, 0, 0x08, 0x01],
   [0, 0, 0, 0, 0, 0, 0, 0, 0, 0, 0x0e, 0x01, 0, 0, 0, 0, 0, 0, 0, 0, 0, 0, 0x0a, 0, 0, 0x04,
    0x60, 0, 0, 0, 0xf6, 0x20],
   [0, 0, 0x3c, 0, 0, 0, 0, 0, 0, 0, 0x43, 0x24, 0, 0, 0x3c, 0, 0, 0, 0x40, 0, 0, 0, 0x4c, 0x24,
    0, 0, 0x28, 0, 0, 0],
   [0x80, 0, 0, 0, 0x58, 0x24, 0, 0, 0x28, 0, 0, 0, 0xc0, 0, 0, 0, 0x63, 0x24, 0, 0, 0x02, 0, 0,
    0, 0, 0x01, 0, 0, 0x74],
   [0x24, 0, 0, 0x02, 0, 0, 0, 0x20, 0x01, 0, 0, 0x78, 0x24, 0, 0, 0x02, 0, 0, 0, 0x40, 0x01, 0,
    0, 0x3e, 0x03, 0, 0],
   [0x02, 0, 0, 0, 0x60, 0x01, 0, 0, 0x81, 0x24, 0, 0, 0x04, 0x01, 0, 0, 0x80, 0x01, 0, 0, 0x8b,
    0x24, 0, 0, 0x04, 0x01],
   [0, 0, 0x40, 0x02, 0, 0, 0x96, 0x24, 0, 0, 0x04, 0, 0, 0x04, 0x18, 0, 0, 0, 0xf6, 0x20, 0, 0,
    0x3c, 0, 0, 0, 0, 0, 0],
   [0, 0xaa, 0x24, 0, 0, 0x10, 0, 0, 0, 0x40, 0, 0, 0, 0xae, 0x24, 0, 0, 0x02, 0, 0, 0, 0x60, 0,
    0, 0, 0x74, 0x24, 0, 0],
   [0x02, 0, 0, 0, 0x80, 0, 0, 0, 0, 0, 0, 0, 0x01, 0, 0, 0x04, 0x40, 0, 0, 0, 0xd8, 0x12, 0, 0,
    0x47, 0, 0, 0, 0, 0, 0],
   [0, 0, 0, 0, 0, 0x01, 0, 0, 0x04, 0x10, 0, 0, 0, 0xb4, 0x24, 0, 0, 0x3a, 0, 0, 0, 0, 0, 0, 0,
    0, 0, 0, 0, 0x02, 0, 0],
   [0x04, 0x10, 0, 0, 0, 0xbc, 0x24, 0, 0, 0x3c, 0, 0, 0, 0, 0, 0, 0, 0xc4, 0x24, 0, 0, 0x3c, 0,
    0, 0, 0x40, 0, 0, 0, 0],
   [0, 0, 0, 0x02, 0, 0, 0x04, 0x28, 0, 0, 0, 0xc9, 0x24, 0, 0, 0x09, 0x01, 0, 0, 0, 0, 0, 0,
    0xce, 0x24, 0, 0, 0x0a],
   [0x01, 0, 0, 0xc0, 0, 0, 0, 0xd6, 0x24, 0, 0, 0x04, 0, 0, 0x04, 0x18, 0, 0, 0, 0xe9, 0x24, 0,
    0, 0x28, 0, 0, 0, 0, 0],
   [0, 0, 0xf1, 0x24, 0, 0, 0x28, 0, 0, 0, 0x40, 0, 0, 0, 0x36, 0x19, 0, 0, 0x4f, 0, 0, 0, 0x80,
    0, 0, 0, 0x74, 0, 0, 0],
   [0x4f, 0, 0, 0, 0x88, 0, 0, 0, 0xf6, 0x24, 0, 0, 0x02, 0, 0, 0x04, 0x10, 0, 0, 0, 0x02, 0x25,
    0, 0, 0x0b, 0x01, 0, 0],
   [0, 0, 0, 0, 0x38, 0x10, 0, 0, 0x0d, 0x01, 0, 0, 0x40, 0, 0, 0, 0x08, 0x25, 0, 0, 0x01, 0, 0,
    0x04, 0x08, 0, 0, 0],
   [0x38, 0x10, 0, 0, 0x0c, 0x01, 0, 0, 0, 0, 0, 0, 0, 0, 0, 0, 0, 0, 0, 0x02, 0x0b, 0x01, 0, 0,
    0, 0, 0, 0, 0, 0, 0],
   [0x02, 0x0a, 0x01, 0, 0, 0, 0, 0, 0, 0x05, 0, 0, 0x04, 0x18, 0, 0, 0, 0x13, 0x25, 0, 0, 0x4f,
    0, 0, 0, 0, 0, 0, 0],
   [0x1e, 0x25, 0, 0, 0x4f, 0, 0, 0, 0x08, 0, 0, 0, 0x29, 0x25, 0, 0, 0x32, 0, 0, 0, 0x10, 0, 0,
    0, 0x31, 0x25, 0, 0],
   [0x3c, 0, 0, 0, 0x40, 0, 0, 0, 0x36, 0x25, 0, 0, 0x3c, 0, 0, 0, 0x80, 0, 0, 0, 0, 0, 0, 0,
    0x02, 0, 0, 0x05, 0x10, 0],
   [0, 0, 0, 0, 0, 0, 0x10, 0x01, 0, 0, 0, 0, 0, 0, 0, 0, 0, 0, 0x11, 0x01, 0, 0, 0, 0, 0, 0, 0,
    0, 0, 0, 0x02, 0, 0],
   [0x04, 0x10, 0, 0, 0, 0x3c, 0x25, 0, 0, 0x3c, 0, 0, 0, 0, 0, 0, 0, 0x48, 0x25, 0, 0, 0xf9, 0,
    0, 0, 0x40, 0, 0, 0, 0],
   [0, 0, 0, 0x02, 0, 0, 0x04, 0x10, 0, 0, 0, 0x54, 0x25, 0, 0, 0x3c, 0, 0, 0, 0, 0, 0, 0, 0x61,
    0x25, 0, 0, 0x3c, 0, 0],
   [0, 0x40, 0, 0, 0, 0, 0, 0, 0, 0, 0, 0, 0x02, 0x8d, 0x01, 0, 0, 0x6d, 0x25, 0, 0, 0, 0, 0,
    0x08, 0x14, 0x01, 0, 0],
   [0x7f, 0x25, 0, 0, 0x02, 0, 0, 0x04, 0x18, 0, 0, 0, 0x1e, 0x17, 0, 0, 0xb2, 0, 0, 0, 0, 0, 0,
    0, 0x8f, 0x25, 0, 0],
   [0x3a, 0, 0, 0, 0x40, 0, 0, 0, 0, 0, 0, 0, 0, 0, 0, 0x02, 0x76, 0x01, 0, 0, 0x94, 0x25, 0, 0,
    0x03, 0, 0, 0x04, 0x20],
   [0, 0, 0, 0xe0, 0x12, 0, 0, 0x2e, 0, 0, 0, 0, 0, 0, 0, 0x80, 0x18, 0, 0, 0x17, 0x01, 0, 0,
    0x80, 0, 0, 0, 0x9d, 0x25],
   [0, 0, 0x1a, 0x01, 0, 0, 0xc0, 0, 0, 0, 0, 0, 0, 0, 0, 0, 0, 0x02, 0x18, 0x01, 0, 0, 0, 0, 0,
    0, 0x01, 0, 0, 0x0d, 0],
   [0, 0, 0, 0, 0, 0, 0, 0x19, 0x01, 0, 0, 0, 0, 0, 0, 0, 0, 0, 0x02, 0x16, 0x01, 0, 0, 0xa5,
    0x25, 0, 0, 0x01, 0, 0],
   [0x04, 0x08, 0, 0, 0, 0x31, 0x1b, 0, 0, 0x35, 0, 0, 0, 0, 0, 0, 0, 0xad, 0x25, 0, 0, 0x03, 0,
    0, 0x04, 0x18, 0, 0, 0],
   [0xc3, 0x18, 0, 0, 0x3a, 0, 0, 0, 0, 0, 0, 0, 0x1e, 0x17, 0, 0, 0x7f, 0, 0, 0, 0x80, 0, 0, 0,
    0xc4, 0x25, 0, 0, 0x10],
   [0, 0, 0, 0xa0, 0, 0, 0, 0, 0, 0, 0, 0, 0, 0, 0x02, 0x8b, 0x01, 0, 0, 0, 0, 0, 0, 0, 0, 0,
    0x02, 0x1e, 0x01, 0, 0, 0],
   [0, 0, 0, 0x01, 0, 0, 0x0d, 0, 0, 0, 0, 0, 0, 0, 0, 0xf6, 0, 0, 0, 0, 0, 0, 0, 0, 0, 0, 0x02,
    0x92, 0x01, 0, 0, 0, 0],
   [0, 0, 0, 0, 0, 0x02, 0x21, 0x01, 0, 0, 0, 0, 0, 0, 0x01, 0, 0, 0x0d, 0x3c, 0, 0, 0, 0, 0, 0,
    0, 0, 0, 0, 0, 0xd4],
   [0x25, 0, 0, 0, 0, 0, 0x08, 0x23, 0x01, 0, 0, 0, 0, 0, 0, 0, 0, 0, 0x02, 0x24, 0x01, 0, 0, 0,
    0, 0, 0, 0x03, 0, 0],
   [0x0d, 0, 0, 0, 0, 0, 0, 0, 0, 0xf6, 0, 0, 0, 0, 0, 0, 0, 0x25, 0x01, 0, 0, 0, 0, 0, 0, 0x31,
    0x01, 0, 0, 0, 0, 0, 0],
   [0, 0, 0, 0x02, 0x26, 0x01, 0, 0, 0xec, 0x25, 0, 0, 0x18, 0, 0, 0x04, 0, 0x01, 0, 0, 0xfd,
    0x25, 0, 0, 0x3c, 0, 0, 0],
   [0, 0, 0, 0, 0x0a, 0x26, 0, 0, 0x3c, 0, 0, 0, 0x40, 0, 0, 0, 0x11, 0x26, 0, 0, 0x27, 0x01, 0,
    0, 0x80, 0, 0, 0, 0x07],
   [0x11, 0, 0, 0x28, 0x01, 0, 0, 0xc0, 0, 0, 0, 0x1a, 0x26, 0, 0, 0x2a, 0x01, 0, 0, 0, 0x01, 0,
    0, 0x23, 0x26, 0, 0],
   [0x3c, 0, 0, 0, 0x40, 0x01, 0, 0, 0x27, 0x26, 0, 0, 0x3c, 0, 0, 0, 0x80, 0x01, 0, 0, 0x2c,
    0x26, 0, 0, 0x2c, 0x01, 0],
   [0, 0xc0, 0x01, 0, 0, 0x74, 0, 0, 0, 0x3c, 0, 0, 0, 0, 0x02, 0, 0, 0x30, 0x26, 0, 0, 0x3c, 0,
    0, 0, 0x40, 0x02, 0, 0],
   [0x33, 0x26, 0, 0, 0x2d, 0x01, 0, 0, 0x80, 0x02, 0, 0, 0x7c, 0x16, 0, 0, 0x3c, 0, 0, 0, 0xc0,
    0x02, 0, 0, 0xba, 0x1f],
   [0, 0, 0x3c, 0, 0, 0, 0, 0x03, 0, 0, 0x3d, 0x26, 0, 0, 0x3c, 0, 0, 0, 0x40, 0x03, 0, 0, 0x47,
    0x26, 0, 0, 0x2e, 0x01],
   [0, 0, 0x80, 0x03, 0, 0, 0x51, 0x26, 0, 0, 0x2f, 0x01, 0, 0, 0xc0, 0x03, 0, 0, 0x5b, 0x26, 0,
    0, 0x3c, 0, 0, 0, 0],
   [0x04, 0, 0, 0x64, 0x26, 0, 0, 0x30, 0x01, 0, 0, 0x40, 0x04, 0, 0, 0x6e, 0x26, 0, 0, 0x30,
    0x01, 0, 0, 0xc0, 0x04, 0],
   [0, 0x78, 0x26, 0, 0, 0x3c, 0, 0, 0, 0x40, 0x05, 0, 0, 0x88, 0x26, 0, 0, 0x3c, 0, 0, 0, 0x80,
    0x05, 0, 0, 0x6b, 0x22],
   [0, 0, 0x3c, 0, 0, 0, 0xc0, 0x05, 0, 0, 0x92, 0x26, 0, 0, 0x3c, 0, 0, 0, 0, 0x06, 0, 0, 0xa1,
    0x26, 0, 0, 0x3c, 0, 0],
   [0, 0x40, 0x06, 0, 0, 0, 0, 0, 0, 0, 0, 0, 0x02, 0x8c, 0x01, 0, 0, 0xb0, 0x26, 0, 0, 0x02, 0,
    0, 0x05, 0x08, 0, 0, 0],
   [0xc3, 0x26, 0, 0, 0x1e, 0, 0, 0, 0, 0, 0, 0, 0, 0, 0, 0, 0x29, 0x01, 0, 0, 0, 0, 0, 0, 0, 0,
    0, 0, 0x03, 0, 0, 0x04],
   [0x08, 0, 0, 0, 0xc8, 0x26, 0, 0, 0x19, 0, 0, 0, 0, 0, 0, 0, 0xd0, 0x26, 0, 0, 0x33, 0, 0, 0,
    0x20, 0, 0, 0, 0xd7],
   [0x26, 0, 0, 0x33, 0, 0, 0, 0x30, 0, 0, 0, 0xde, 0x26, 0, 0, 0x02, 0, 0, 0x05, 0x08, 0, 0, 0,
    0x71, 0x16, 0, 0, 0x1e],
   [0, 0, 0, 0, 0, 0, 0, 0, 0, 0, 0, 0x2b, 0x01, 0, 0, 0, 0, 0, 0, 0, 0, 0, 0, 0x0b, 0, 0, 0x84,
    0x08, 0, 0, 0, 0xf0],
   [0x26, 0, 0, 0x1e, 0, 0, 0, 0, 0, 0, 0x05, 0xf7, 0x26, 0, 0, 0x1e, 0, 0, 0, 0x05, 0, 0, 0x0e,
    0xff, 0x26, 0, 0, 0x1e],
   [0, 0, 0, 0x13, 0, 0, 0x05, 0x09, 0x27, 0, 0, 0x1e, 0, 0, 0, 0x18, 0, 0, 0x02, 0x12, 0x27, 0,
    0, 0x1e, 0, 0, 0, 0x1a],
   [0, 0, 0x07, 0x1b, 0x27, 0, 0, 0x1e, 0, 0, 0, 0x21, 0, 0, 0x04, 0x27, 0x27, 0, 0, 0x1e, 0, 0,
    0, 0x25, 0, 0, 0x01],
   [0x32, 0x27, 0, 0, 0x1e, 0, 0, 0, 0x26, 0, 0, 0x02, 0x3d, 0x27, 0, 0, 0x1e, 0, 0, 0, 0x28, 0,
    0, 0x03, 0x45, 0x27, 0],
   [0, 0x1e, 0, 0, 0, 0x2b, 0, 0, 0x03, 0x4e, 0x27, 0, 0, 0x1e, 0, 0, 0, 0x2e, 0, 0, 0x12, 0, 0,
    0, 0, 0, 0, 0, 0x02],
   [0x90, 0x01, 0, 0, 0, 0, 0, 0, 0x02, 0, 0, 0x04, 0x08, 0, 0, 0, 0x39, 0, 0, 0, 0x18, 0, 0, 0,
    0, 0, 0, 0, 0x57, 0x27],
   [0, 0, 0x18, 0, 0, 0, 0x20, 0, 0, 0, 0, 0, 0, 0, 0x02, 0, 0, 0x04, 0x08, 0, 0, 0, 0xc9, 0x0f,
    0, 0, 0x18, 0, 0, 0, 0],
   [0, 0, 0, 0x5b, 0x27, 0, 0, 0x18, 0, 0, 0, 0x20, 0, 0, 0, 0, 0, 0, 0, 0, 0, 0, 0x02, 0x8e,
    0x01, 0, 0, 0x64, 0x27, 0],
   [0, 0x02, 0, 0, 0x04, 0x10, 0, 0, 0, 0x6e, 0x27, 0, 0, 0x1e, 0, 0, 0, 0, 0, 0, 0, 0x72, 0x27,
    0, 0, 0x31, 0x01, 0, 0],
   [0x40, 0, 0, 0, 0, 0, 0, 0, 0, 0, 0, 0x02, 0x3c, 0x01, 0, 0, 0, 0, 0, 0, 0, 0, 0, 0x02, 0x6d,
    0x01, 0, 0, 0, 0, 0, 0],
   [0, 0, 0, 0x02, 0xa3, 0x01, 0, 0, 0, 0, 0, 0, 0, 0, 0, 0x02, 0x75, 0x01, 0, 0, 0x29, 0x20, 0,
    0, 0x0c, 0, 0, 0x04],
   [0xb8, 0, 0, 0, 0x80, 0x18, 0, 0, 0x36, 0x01, 0, 0, 0, 0, 0, 0, 0x38, 0x10, 0, 0, 0x39, 0x01,
    0, 0, 0x40, 0, 0, 0],
   [0x3e, 0x03, 0, 0, 0x28, 0, 0, 0, 0x80, 0, 0, 0, 0x77, 0x27, 0, 0, 0x29, 0, 0, 0, 0xc0, 0, 0,
    0, 0x7f, 0x27, 0, 0],
   [0x36, 0x01, 0, 0, 0, 0x01, 0, 0, 0x8a, 0x27, 0, 0, 0x3d, 0x01, 0, 0, 0x40, 0x01, 0, 0, 0x95,
    0x27, 0, 0, 0x3f, 0x01],
   [0, 0, 0xc0, 0x02, 0, 0, 0x9f, 0x27, 0, 0, 0x3d, 0x01, 0, 0, 0, 0x03, 0, 0, 0xa8, 0x27, 0, 0,
    0x28, 0, 0, 0, 0x80],
   [0x04, 0, 0, 0xb3, 0x27, 0, 0, 0x28, 0, 0, 0, 0xc0, 0x04, 0, 0, 0xc3, 0x18, 0, 0, 0x3a, 0, 0,
    0, 0, 0x05, 0, 0, 0xc3],
   [0x27, 0, 0, 0x40, 0x01, 0, 0, 0x80, 0x05, 0, 0, 0xcc, 0x27, 0, 0, 0, 0, 0, 0x08, 0x37, 0x01,
    0, 0, 0, 0, 0, 0, 0, 0],
   [0, 0x02, 0x38, 0x01, 0, 0, 0, 0, 0, 0, 0x04, 0, 0, 0x0d, 0, 0, 0, 0, 0, 0, 0, 0, 0x28, 0, 0,
    0, 0, 0, 0, 0, 0x28, 0],
   [0, 0, 0, 0, 0, 0, 0x39, 0x01, 0, 0, 0, 0, 0, 0, 0x3a, 0x01, 0, 0, 0, 0, 0, 0, 0, 0, 0, 0x02,
    0x35, 0x01, 0, 0, 0, 0],
   [0, 0, 0, 0, 0, 0x02, 0x3b, 0x01, 0, 0, 0xda, 0x27, 0, 0, 0x01, 0, 0, 0x04, 0xa8, 0, 0, 0,
    0x72, 0x27, 0, 0, 0x3c],
   [0x01, 0, 0, 0, 0, 0, 0, 0xe6, 0x27, 0, 0, 0x15, 0, 0, 0x04, 0xa8, 0, 0, 0, 0xee, 0x27, 0, 0,
    0x28, 0, 0, 0, 0, 0, 0],
   [0, 0xf2, 0x27, 0, 0, 0x28, 0, 0, 0, 0x40, 0, 0, 0, 0xf6, 0x27, 0, 0, 0x28, 0, 0, 0, 0x80, 0,
    0, 0, 0xfa, 0x27, 0, 0],
   [0x28, 0, 0, 0, 0xc0, 0, 0, 0, 0xfe, 0x27, 0, 0, 0x28, 0, 0, 0, 0, 0x01, 0, 0, 0x01, 0x28, 0,
    0, 0x28, 0, 0, 0, 0x40],
   [0x01, 0, 0, 0x04, 0x28, 0, 0, 0x28, 0, 0, 0, 0x80, 0x01, 0, 0, 0x08, 0x28, 0, 0, 0x28, 0, 0,
    0, 0xc0, 0x01, 0, 0],
   [0x0c, 0x28, 0, 0, 0x28, 0, 0, 0, 0, 0x02, 0, 0, 0x0f, 0x28, 0, 0, 0x28, 0, 0, 0, 0x40, 0x02,
    0, 0, 0x12, 0x28, 0, 0],
   [0x28, 0, 0, 0, 0x80, 0x02, 0, 0, 0x15, 0x28, 0, 0, 0x28, 0, 0, 0, 0xc0, 0x02, 0, 0, 0x18,
    0x28, 0, 0, 0x28, 0, 0, 0],
   [0, 0x03, 0, 0, 0x1b, 0x28, 0, 0, 0x28, 0, 0, 0, 0x40, 0x03, 0, 0, 0x1e, 0x28, 0, 0, 0x28, 0,
    0, 0, 0x80, 0x03, 0, 0],
   [0x21, 0x28, 0, 0, 0x28, 0, 0, 0, 0xc0, 0x03, 0, 0, 0x30, 0x26, 0, 0, 0x28, 0, 0, 0, 0, 0x04,
    0, 0, 0x29, 0x28, 0, 0],
   [0x28, 0, 0, 0, 0x40, 0x04, 0, 0, 0x3e, 0x03, 0, 0, 0x28, 0, 0, 0, 0x80, 0x04, 0, 0, 0x7d,
    0x1c, 0, 0, 0x28, 0, 0, 0],
   [0xc0, 0x04, 0, 0, 0x2c, 0x28, 0, 0, 0x28, 0, 0, 0, 0, 0x05, 0, 0, 0x2f, 0x28, 0, 0, 0x03, 0,
    0, 0x04, 0x30, 0, 0, 0],
   [0x3f, 0x28, 0, 0, 0x3e, 0x01, 0, 0, 0, 0, 0, 0, 0x4c, 0x28, 0, 0, 0x3e, 0x01, 0, 0, 0x40, 0,
    0, 0, 0x58, 0x28, 0, 0],
   [0xc9, 0, 0, 0, 0x80, 0, 0, 0, 0, 0, 0, 0, 0, 0, 0, 0x02, 0x79, 0x01, 0, 0, 0, 0, 0, 0, 0, 0,
    0, 0x02, 0x3d, 0x01, 0],
   [0, 0x63, 0x28, 0, 0, 0, 0, 0, 0x08, 0x41, 0x01, 0, 0, 0, 0, 0, 0, 0, 0, 0, 0x02, 0x42, 0x01,
    0, 0, 0, 0, 0, 0, 0x02],
   [0, 0, 0x0d, 0x02, 0, 0, 0, 0, 0, 0, 0, 0x39, 0x01, 0, 0, 0, 0, 0, 0, 0x43, 0x01, 0, 0, 0x75,
    0x28, 0, 0, 0x03, 0, 0],
   [0x06, 0x04, 0, 0, 0, 0x84, 0x28, 0, 0, 0, 0, 0, 0, 0xae, 0x28, 0, 0, 0x01, 0, 0, 0, 0xd8,
    0x28, 0, 0, 0x02, 0, 0, 0],
   [0, 0, 0, 0, 0, 0, 0, 0x02, 0x8f, 0x01, 0, 0, 0, 0, 0, 0, 0, 0, 0, 0x03, 0, 0, 0, 0, 0xf6, 0,
    0, 0, 0x04, 0, 0, 0],
   [0x04, 0, 0, 0, 0, 0, 0, 0, 0, 0, 0, 0x02, 0x7d, 0x01, 0, 0, 0x13, 0x1d, 0, 0, 0x07, 0, 0,
    0x04, 0x80, 0x10, 0, 0],
   [0x78, 0x24, 0, 0, 0x10, 0, 0, 0, 0, 0, 0, 0, 0x03, 0x29, 0, 0, 0x28, 0, 0, 0, 0x40, 0, 0, 0,
    0x14, 0x29, 0, 0, 0x48],
   [0x01, 0, 0, 0x80, 0, 0, 0, 0x1c, 0x29, 0, 0, 0x48, 0x01, 0, 0, 0xc0, 0, 0, 0, 0x2b, 0x29, 0,
    0, 0x49, 0x01, 0, 0, 0],
   [0x01, 0, 0, 0x30, 0x29, 0, 0, 0x49, 0x01, 0, 0, 0x80, 0x01, 0, 0, 0x3b, 0x29, 0, 0, 0x4a,
    0x01, 0, 0, 0, 0x02, 0, 0],
   [0, 0, 0, 0, 0, 0, 0, 0x02, 0x4a, 0x01, 0, 0, 0x45, 0x29, 0, 0, 0x03, 0, 0, 0x04, 0x10, 0, 0,
    0, 0x54, 0x29, 0, 0],
   [0x3c, 0, 0, 0, 0, 0, 0, 0, 0x61, 0x29, 0, 0, 0x10, 0, 0, 0, 0x40, 0, 0, 0, 0x6e, 0x29, 0, 0,
    0x10, 0, 0, 0, 0x60, 0],
   [0, 0, 0x14, 0x29, 0, 0, 0x0a, 0, 0, 0x84, 0x40, 0x10, 0, 0, 0x30, 0x1c, 0, 0, 0x10, 0, 0, 0,
    0, 0, 0, 0, 0x80, 0x29],
   [0, 0, 0x10, 0, 0, 0, 0x20, 0, 0, 0, 0x8a, 0x29, 0, 0, 0x3c, 0, 0, 0, 0x40, 0, 0, 0, 0x94,
    0x29, 0, 0, 0x3c, 0, 0, 0],
   [0x80, 0, 0, 0, 0xa3, 0x29, 0, 0, 0x3c, 0, 0, 0, 0xc0, 0, 0, 0, 0xa7, 0x29, 0, 0, 0x10, 0, 0,
    0, 0, 0x01, 0, 0x01],
   [0xb1, 0x29, 0, 0, 0x10, 0, 0, 0, 0x01, 0x01, 0, 0x01, 0xba, 0x29, 0, 0, 0x10, 0, 0, 0, 0x02,
    0x01, 0, 0x01, 0xca],
   [0x29, 0, 0, 0x10, 0, 0, 0, 0x03, 0x01, 0, 0x01, 0x72, 0x27, 0, 0, 0x4b, 0x01, 0, 0, 0, 0x02,
    0, 0, 0xd1, 0x29, 0, 0],
   [0x05, 0, 0, 0x05, 0, 0x10, 0, 0, 0xde, 0x29, 0, 0, 0x4c, 0x01, 0, 0, 0, 0, 0, 0, 0xe4, 0x29,
    0, 0, 0x4e, 0x01, 0, 0],
   [0, 0, 0, 0, 0xeb, 0x29, 0, 0, 0x56, 0x01, 0, 0, 0, 0, 0, 0, 0xf0, 0x29, 0, 0, 0x58, 0x01, 0,
    0, 0, 0, 0, 0, 0xf6],
   [0x29, 0, 0, 0x5c, 0x01, 0, 0, 0, 0, 0, 0, 0, 0x2a, 0, 0, 0x09, 0, 0, 0x04, 0x70, 0, 0, 0,
    0x0c, 0x2a, 0, 0, 0x18, 0],
   [0, 0, 0, 0, 0, 0, 0x10, 0x2a, 0, 0, 0x18, 0, 0, 0, 0x20, 0, 0, 0, 0x14, 0x2a, 0, 0, 0x18, 0,
    0, 0, 0x40, 0, 0, 0],
   [0x18, 0x2a, 0, 0, 0x18, 0, 0, 0, 0x60, 0, 0, 0, 0x1c, 0x2a, 0, 0, 0x18, 0, 0, 0, 0x80, 0, 0,
    0, 0x20, 0x2a, 0, 0],
   [0x18, 0, 0, 0, 0xa0, 0, 0, 0, 0x24, 0x2a, 0, 0, 0x18, 0, 0, 0, 0xc0, 0, 0, 0, 0x28, 0x2a, 0,
    0, 0x4d, 0x01, 0, 0],
   [0xe0, 0, 0, 0, 0xc2, 0x0f, 0, 0, 0x18, 0, 0, 0, 0x60, 0x03, 0, 0, 0, 0, 0, 0, 0, 0, 0, 0x03,
    0, 0, 0, 0, 0x18, 0, 0],
   [0, 0x04, 0, 0, 0, 0x14, 0, 0, 0, 0x31, 0x2a, 0, 0, 0x0b, 0, 0, 0x04, 0, 0x02, 0, 0, 0x0c,
    0x2a, 0, 0, 0x32, 0, 0, 0],
   [0, 0, 0, 0, 0x10, 0x2a, 0, 0, 0x32, 0, 0, 0, 0x10, 0, 0, 0, 0x14, 0x2a, 0, 0, 0x32, 0, 0, 0,
    0x20, 0, 0, 0, 0x3e],
   [0x2a, 0, 0, 0x32, 0, 0, 0, 0x30, 0, 0, 0, 0, 0, 0, 0, 0x4f, 0x01, 0, 0, 0x40, 0, 0, 0, 0x42,
    0x2a, 0, 0, 0x18, 0, 0],
   [0, 0xc0, 0, 0, 0, 0x48, 0x2a, 0, 0, 0x18, 0, 0, 0, 0xe0, 0, 0, 0, 0x28, 0x2a, 0, 0, 0x52,
    0x01, 0, 0, 0, 0x01, 0, 0],
   [0x53, 0x2a, 0, 0, 0x53, 0x01, 0, 0, 0, 0x05, 0, 0, 0x29, 0x25, 0, 0, 0x54, 0x01, 0, 0, 0,
    0x0d, 0, 0, 0, 0, 0, 0],
   [0x55, 0x01, 0, 0, 0x80, 0x0e, 0, 0, 0, 0, 0, 0, 0x02, 0, 0, 0x05, 0x10, 0, 0, 0, 0, 0, 0, 0,
    0x50, 0x01, 0, 0, 0, 0],
   [0, 0, 0, 0, 0, 0, 0x51, 0x01, 0, 0, 0, 0, 0, 0, 0, 0, 0, 0, 0x02, 0, 0, 0x04, 0x10, 0, 0, 0,
    0x5d, 0x2a, 0, 0, 0x3c],
   [0, 0, 0, 0, 0, 0, 0, 0x61, 0x2a, 0, 0, 0x3c, 0, 0, 0, 0x40, 0, 0, 0, 0, 0, 0, 0, 0x04, 0, 0,
    0x04, 0x10, 0, 0, 0],
   [0x18, 0x2a, 0, 0, 0x18, 0, 0, 0, 0, 0, 0, 0, 0x1c, 0x2a, 0, 0, 0x18, 0, 0, 0, 0x20, 0, 0, 0,
    0x20, 0x2a, 0, 0, 0x18],
   [0, 0, 0, 0x40, 0, 0, 0, 0x24, 0x2a, 0, 0, 0x18, 0, 0, 0, 0x60, 0, 0, 0, 0, 0, 0, 0, 0, 0, 0,
    0x03, 0, 0, 0, 0, 0x18],
   [0, 0, 0, 0x04, 0, 0, 0, 0x20, 0, 0, 0, 0, 0, 0, 0, 0, 0, 0, 0x03, 0, 0, 0, 0, 0x18, 0, 0, 0,
    0x04, 0, 0, 0, 0x40, 0],
   [0, 0, 0, 0, 0, 0, 0, 0, 0, 0x03, 0, 0, 0, 0, 0x18, 0, 0, 0, 0x04, 0, 0, 0, 0x0c, 0, 0, 0, 0,
    0, 0, 0, 0x02, 0, 0],
   [0x05, 0x30, 0, 0, 0, 0x65, 0x2a, 0, 0, 0x54, 0x01, 0, 0, 0, 0, 0, 0, 0x6e, 0x2a, 0, 0, 0x54,
    0x01, 0, 0, 0, 0, 0, 0]]"

lemma length_btf_types_4: "length (concat btf_types_4) = 3503"
  by (simp add: btf_types_4_def)

definition btf_types_5 :: "bytes list" where
  "btf_types_5 = [
   [0x7a, 0x2a, 0, 0, 0x10, 0, 0, 0x04, 0x88, 0, 0, 0, 0x0c, 0x2a, 0, 0, 0x18, 0, 0, 0, 0, 0, 0,
    0, 0x10, 0x2a, 0, 0],
   [0x18, 0, 0, 0, 0x20, 0, 0, 0, 0x14, 0x2a, 0, 0, 0x18, 0, 0, 0, 0x40, 0, 0, 0, 0x18, 0x2a, 0,
    0, 0x18, 0, 0, 0, 0x60],
   [0, 0, 0, 0x1c, 0x2a, 0, 0, 0x18, 0, 0, 0, 0x80, 0, 0, 0, 0x20, 0x2a, 0, 0, 0x18, 0, 0, 0,
    0xa0, 0, 0, 0, 0x24, 0x2a],
   [0, 0, 0x18, 0, 0, 0, 0xc0, 0, 0, 0, 0x28, 0x2a, 0, 0, 0x4d, 0x01, 0, 0, 0xe0, 0, 0, 0, 0x87,
    0x2a, 0, 0, 0x4f, 0, 0],
   [0, 0x60, 0x03, 0, 0, 0x8c, 0x2a, 0, 0, 0x4f, 0, 0, 0, 0x68, 0x03, 0, 0, 0x94, 0x2a, 0, 0,
    0x4f, 0, 0, 0, 0x70, 0x03],
   [0, 0, 0x9e, 0x2a, 0, 0, 0x4f, 0, 0, 0, 0x78, 0x03, 0, 0, 0xa8, 0x2a, 0, 0, 0x4f, 0, 0, 0,
    0x80, 0x03, 0, 0, 0xab],
   [0x2a, 0, 0, 0x4f, 0, 0, 0, 0x88, 0x03, 0, 0, 0xc9, 0x24, 0, 0, 0x57, 0x01, 0, 0, 0xc0, 0x03,
    0, 0, 0xb2, 0x2a, 0, 0],
   [0x18, 0, 0, 0, 0, 0x04, 0, 0, 0, 0, 0, 0, 0, 0, 0, 0x02, 0x82, 0x01, 0, 0, 0xbc, 0x2a, 0, 0,
    0x03, 0, 0, 0x04, 0x40],
   [0x02, 0, 0, 0xc8, 0x2a, 0, 0, 0x4e, 0x01, 0, 0, 0, 0, 0, 0, 0xcd, 0x2a, 0, 0, 0x59, 0x01, 0,
    0, 0, 0x10, 0, 0, 0xd4],
   [0x2a, 0, 0, 0x5b, 0x01, 0, 0, 0, 0x12, 0, 0, 0xe8, 0x2a, 0, 0, 0x03, 0, 0, 0x04, 0x40, 0, 0,
    0, 0x8a, 0x29, 0, 0],
   [0x3c, 0, 0, 0, 0, 0, 0, 0, 0xf6, 0x2a, 0, 0, 0x3c, 0, 0, 0, 0x40, 0, 0, 0, 0x5b, 0x27, 0, 0,
    0x5a, 0x01, 0, 0, 0x80],
   [0, 0, 0, 0, 0, 0, 0, 0, 0, 0, 0x03, 0, 0, 0, 0, 0x3c, 0, 0, 0, 0x04, 0, 0, 0, 0x06, 0, 0, 0,
    0, 0, 0, 0, 0, 0, 0],
   [0x03, 0, 0, 0, 0, 0x4f, 0, 0, 0, 0x04, 0, 0, 0, 0, 0, 0, 0, 0, 0, 0, 0, 0, 0, 0, 0x03, 0, 0,
    0, 0, 0x4f, 0, 0, 0],
   [0x04, 0, 0, 0, 0, 0x10, 0, 0, 0, 0, 0, 0, 0, 0, 0, 0x02, 0x5e, 0x01, 0, 0, 0x90, 0x2b, 0, 0,
    0x03, 0, 0, 0x04, 0x18],
   [0, 0, 0, 0xc8, 0, 0, 0, 0x1e, 0, 0, 0, 0, 0, 0, 0, 0xcf, 0, 0, 0, 0x02, 0, 0, 0, 0x40, 0, 0,
    0, 0xaa, 0x2b, 0, 0],
   [0x6b, 0, 0, 0, 0x80, 0, 0, 0, 0, 0, 0, 0, 0x01, 0, 0, 0x0d, 0x02, 0, 0, 0, 0x0a, 0x01, 0, 0,
    0x5d, 0x01, 0, 0, 0xae],
   [0x2b, 0, 0, 0x01, 0, 0, 0x0c, 0x5f, 0x01, 0, 0, 0, 0, 0, 0, 0, 0, 0, 0x03, 0, 0, 0, 0, 0x0c,
    0, 0, 0, 0x04, 0, 0, 0],
   [0x04, 0, 0, 0, 0x58, 0x2d, 0, 0, 0, 0, 0, 0x0e, 0x61, 0x01, 0, 0, 0x01, 0, 0, 0, 0x61, 0x2d,
    0, 0, 0, 0, 0, 0x0e],
   [0x18, 0, 0, 0, 0x01, 0, 0, 0, 0x6a, 0x2d, 0, 0, 0x02, 0, 0, 0x0f, 0, 0, 0, 0, 0x12, 0, 0, 0,
    0, 0, 0, 0, 0x20, 0, 0],
   [0, 0x1b, 0, 0, 0, 0, 0, 0, 0, 0x20, 0, 0, 0, 0x70, 0x2d, 0, 0, 0x01, 0, 0, 0x0f, 0, 0, 0, 0,
    0x62, 0x01, 0, 0, 0, 0],
   [0, 0, 0x04, 0, 0, 0, 0x78, 0x2d, 0, 0, 0x01, 0, 0, 0x0f, 0, 0, 0, 0, 0x63, 0x01, 0, 0, 0, 0,
    0, 0, 0x04, 0, 0, 0],
   [0x80, 0x2d, 0, 0, 0, 0, 0, 0x07, 0, 0, 0, 0, 0xbb, 0x09, 0, 0, 0, 0, 0, 0x07, 0, 0, 0, 0,
    0x79, 0x0a, 0, 0, 0, 0, 0],
   [0x07, 0, 0, 0, 0, 0x5d, 0x0a, 0, 0, 0, 0, 0, 0x07, 0, 0, 0, 0, 0x92, 0x2d, 0, 0, 0, 0, 0,
    0x07, 0, 0, 0, 0, 0x9b],
   [0x2d, 0, 0, 0, 0, 0, 0x07, 0, 0, 0, 0, 0xad, 0x2d, 0, 0, 0, 0, 0, 0x07, 0, 0, 0, 0, 0xb6,
    0x2d, 0, 0, 0, 0, 0, 0x07],
   [0, 0, 0, 0, 0x95, 0x0a, 0, 0, 0, 0, 0, 0x07, 0, 0, 0, 0, 0xdb, 0x10, 0, 0, 0, 0, 0, 0x07, 0,
    0, 0, 0, 0xc2, 0x2d, 0],
   [0, 0, 0, 0, 0x07, 0, 0, 0, 0, 0xda, 0x2d, 0, 0, 0, 0, 0, 0x07, 0, 0, 0, 0, 0xe2, 0x08, 0, 0,
    0, 0, 0, 0x07, 0, 0, 0],
   [0, 0xe5, 0x2d, 0, 0, 0, 0, 0, 0x07, 0, 0, 0, 0, 0xed, 0x2d, 0, 0, 0, 0, 0, 0x07, 0, 0, 0, 0,
    0xfa, 0x2d, 0, 0, 0, 0],
   [0, 0x07, 0, 0, 0, 0, 0x08, 0x2e, 0, 0, 0, 0, 0, 0x07, 0, 0, 0, 0, 0x15, 0x2e, 0, 0, 0, 0, 0,
    0x07, 0, 0, 0, 0, 0x1f],
   [0x2e, 0, 0, 0, 0, 0, 0x07, 0, 0, 0, 0, 0x2b, 0x2e, 0, 0, 0, 0, 0, 0x07, 0, 0, 0, 0, 0x3c,
    0x2e, 0, 0, 0, 0, 0, 0x07],
   [0, 0, 0, 0, 0x4b, 0x2e, 0, 0, 0, 0, 0, 0x07, 0, 0, 0, 0, 0xdd, 0x1c, 0, 0, 0, 0, 0, 0x07, 0,
    0, 0, 0, 0x8a, 0x0a, 0],
   [0, 0, 0, 0, 0x07, 0, 0, 0, 0, 0x5e, 0x2e, 0, 0, 0, 0, 0, 0x07, 0, 0, 0, 0, 0x6c, 0x2e, 0, 0,
    0, 0, 0, 0x07, 0, 0, 0],
   [0, 0x85, 0, 0, 0, 0, 0, 0, 0x07, 0, 0, 0, 0, 0x7b, 0x2e, 0, 0, 0, 0, 0, 0x07, 0, 0, 0, 0,
    0x89, 0x2e, 0, 0, 0, 0, 0],
   [0x07, 0, 0, 0, 0, 0xed, 0x0b, 0, 0, 0, 0, 0, 0x07, 0, 0, 0, 0, 0x94, 0x2e, 0, 0, 0, 0, 0,
    0x07, 0, 0, 0, 0, 0xfc],
   [0x08, 0, 0, 0, 0, 0, 0x07, 0, 0, 0, 0, 0x4b, 0x09, 0, 0, 0, 0, 0, 0x07, 0, 0, 0, 0, 0xac,
    0x0c, 0, 0, 0, 0, 0, 0x07],
   [0, 0, 0, 0, 0x9e, 0x2e, 0, 0, 0, 0, 0, 0x07, 0, 0, 0, 0, 0x2b, 0x1c, 0, 0, 0, 0, 0, 0x07, 0,
    0, 0, 0, 0xad, 0x2e, 0],
   [0, 0, 0, 0, 0x07, 0, 0, 0, 0, 0xc4, 0x2e, 0, 0, 0, 0, 0, 0x07, 0, 0, 0, 0, 0xd6, 0x2e, 0, 0,
    0, 0, 0, 0x07, 0, 0, 0],
   [0, 0xe2, 0x2e, 0, 0, 0, 0, 0, 0x07, 0, 0, 0, 0, 0xf7, 0x2e, 0, 0, 0, 0, 0, 0x07, 0, 0, 0, 0,
    0x03, 0x2f, 0, 0, 0, 0],
   [0, 0x07, 0, 0, 0, 0, 0x39, 0, 0, 0, 0, 0, 0, 0x07, 0, 0, 0, 0, 0x13, 0x2f, 0, 0, 0, 0, 0,
    0x07, 0, 0, 0, 0, 0x21],
   [0x2f, 0, 0, 0, 0, 0, 0x07, 0, 0, 0, 0, 0x77, 0x1a, 0, 0, 0, 0, 0, 0x07, 0, 0, 0, 0, 0x31,
    0x2f, 0, 0, 0, 0, 0, 0x07],
   [0, 0, 0, 0, 0x38, 0x2f, 0, 0, 0, 0, 0, 0x07, 0, 0, 0, 0, 0x6b, 0x0a, 0, 0, 0, 0, 0, 0x07, 0,
    0, 0, 0, 0x41, 0x2f, 0],
   [0, 0, 0, 0, 0x07, 0, 0, 0, 0, 0x4f, 0x2f, 0, 0, 0, 0, 0, 0x07, 0, 0, 0, 0, 0xfe, 0x0c, 0, 0,
    0, 0, 0, 0x07, 0, 0, 0],
   [0, 0x60, 0x2f, 0, 0, 0, 0, 0, 0x07, 0, 0, 0, 0, 0xd9, 0x03, 0, 0, 0, 0, 0, 0x07, 0, 0, 0, 0,
    0x70, 0x2f, 0, 0, 0, 0],
   [0, 0x07, 0, 0, 0, 0, 0x7f, 0x2f, 0, 0, 0, 0, 0, 0x07, 0, 0, 0, 0, 0x8d, 0x2f, 0, 0, 0, 0, 0,
    0x07, 0, 0, 0, 0, 0x9c],
   [0x2f, 0, 0, 0, 0, 0, 0x07, 0, 0, 0, 0, 0xaa, 0x2f, 0, 0, 0, 0, 0, 0x07, 0, 0, 0, 0, 0xba,
    0x2f, 0, 0, 0, 0, 0, 0x07],
   [0, 0, 0, 0, 0xc5, 0x2f, 0, 0, 0, 0, 0, 0x07, 0, 0, 0, 0, 0xd6, 0x2f, 0, 0, 0, 0, 0, 0x07, 0,
    0, 0, 0, 0xe2, 0x2f, 0]]"

lemma length_btf_types_5: "length (concat btf_types_5) = 1363"
  by (simp add: btf_types_5_def)

lemmas scan_simps = scan_line_def extra_words_def info_kind_def info_vlen_def arg_is_type_def word_ok_def

text \<open>
  Every reference of the types is in range: less than 12268, the length of the strings, or at most
  421, the number of types.  The header's 24 bytes are not scanned.
\<close>

definition btf_header_line :: bytes where "btf_header_line = hd btf_types_1"

lemma scan_types_1: "scan_lines 12268 421 (drop 24 btf_header_line # tl btf_types_1) ([], Some (0, Head [])) =
  ([77], Some (49, Head []))"
  by (simp add: btf_header_line_def btf_types_1_def scan_simps)

lemma scan_types_2: "scan_lines 12268 421 btf_types_2 ([77], Some (49, Head [])) =
  ([], Some (178, Head []))"
  by (simp add: btf_types_2_def scan_simps)

lemma scan_types_3: "scan_lines 12268 421 btf_types_3 ([], Some (178, Head [])) =
  ([0], Some (257, Head []))"
  by (simp add: btf_types_3_def scan_simps)

lemma scan_types_4: "scan_lines 12268 421 btf_types_4 ([0], Some (257, Head [])) =
  ([], Some (341, Head []))"
  by (simp add: btf_types_4_def scan_simps)

lemma scan_types_5: "scan_lines 12268 421 btf_types_5 ([], Some (341, Head [])) =
  ([226,47,0], Some (420, Head []))"
  by (simp add: btf_types_5_def scan_simps)

end
