(* ===== verification/Core_Btf_Strings.thy ===== *)
theory Core_Btf_Strings
  imports Btf
begin

text \<open>
  Lines of the section \<open>.BTF\<close> in \<open>execsnoop-libbpf/execsnoop.skel.h\<close>: its strings, from the line
  in which they begin (after the last bytes of the types) up to the line before they end.
\<close>

definition btf_strings_1 :: "bytes list" where
  "btf_strings_1 = [
   [0, 0, 0, 0, 0x07, 0, 0, 0, 0, 0, 0x69, 0x6e, 0x74, 0, 0x5f, 0x5f, 0x41, 0x52, 0x52, 0x41,
    0x59, 0x5f, 0x53, 0x49],
   [0x5a, 0x45, 0x5f, 0x54, 0x59, 0x50, 0x45, 0x5f, 0x5f, 0, 0x70, 0x69, 0x64, 0x5f, 0x74, 0,
    0x5f, 0x5f, 0x6b, 0x65],
   [0x72, 0x6e, 0x65, 0x6c, 0x5f, 0x70, 0x69, 0x64, 0x5f, 0x74, 0, 0x65, 0x76, 0x65, 0x6e, 0x74,
    0, 0x63, 0x6f, 0x6d],
   [0x6d, 0, 0x70, 0x69, 0x64, 0, 0x74, 0x67, 0x69, 0x64, 0, 0x70, 0x70, 0x69, 0x64, 0, 0x75,
    0x69, 0x64, 0, 0x63, 0x68],
   [0x61, 0x72, 0, 0x75, 0x69, 0x64, 0x5f, 0x74, 0, 0x5f, 0x5f, 0x6b, 0x65, 0x72, 0x6e, 0x65,
    0x6c, 0x5f, 0x75, 0x69],
   [0x64, 0x33, 0x32, 0x5f, 0x74, 0, 0x75, 0x6e, 0x73, 0x69, 0x67, 0x6e, 0x65, 0x64, 0x20, 0x69,
    0x6e, 0x74, 0, 0x74],
   [0x79, 0x70, 0x65, 0, 0x6d, 0x61, 0x78, 0x5f, 0x65, 0x6e, 0x74, 0x72, 0x69, 0x65, 0x73, 0,
    0x6b, 0x65, 0x79, 0, 0x76],
   [0x61, 0x6c, 0x75, 0x65, 0, 0x72, 0x65, 0x63, 0x6f, 0x72, 0x64, 0x73, 0, 0x75, 0x33, 0x32, 0,
    0x5f, 0x5f, 0x75, 0x33],
   [0x32, 0, 0x70, 0x65, 0x72, 0x66, 0x5f, 0x65, 0x76, 0x65, 0x6e, 0x74, 0x73, 0, 0x73, 0x79,
    0x73, 0x63, 0x61, 0x6c],
   [0x6c, 0x73, 0x5f, 0x65, 0x6e, 0x74, 0x65, 0x72, 0x5f, 0x65, 0x78, 0x65, 0x63, 0x76, 0x65,
    0x5f, 0x61, 0x72, 0x67],
   [0x73, 0, 0x75, 0x6e, 0x75, 0x73, 0x65, 0x64, 0, 0x73, 0x79, 0x73, 0x63, 0x61, 0x6c, 0x6c,
    0x5f, 0x6e, 0x72, 0, 0x66],
   [0x69, 0x6c, 0x65, 0x6e, 0x61, 0x6d, 0x65, 0x5f, 0x70, 0x74, 0x72, 0, 0x61, 0x72, 0x67, 0x76,
    0, 0x65, 0x6e, 0x76],
   [0x70, 0, 0x5f, 0x5f, 0x75, 0x36, 0x34, 0, 0x75, 0x6e, 0x73, 0x69, 0x67, 0x6e, 0x65, 0x64,
    0x20, 0x6c, 0x6f, 0x6e],
   [0x67, 0x20, 0x6c, 0x6f, 0x6e, 0x67, 0, 0x63, 0x74, 0x78, 0, 0x73, 0x79, 0x73, 0x63, 0x61,
    0x6c, 0x6c, 0x5f, 0x65],
   [0x6e, 0x74, 0x65, 0x72, 0x5f, 0x65, 0x78, 0x65, 0x63, 0x76, 0x65, 0, 0x74, 0x72, 0x61, 0x63,
    0x65, 0x70, 0x6f, 0x69],
   [0x6e, 0x74, 0x2f, 0x73, 0x79, 0x73, 0x63, 0x61, 0x6c, 0x6c, 0x73, 0x2f, 0x73, 0x79, 0x73,
    0x5f, 0x65, 0x6e, 0x74],
   [0x65, 0x72, 0x5f, 0x65, 0x78, 0x65, 0x63, 0x76, 0x65, 0, 0x2f, 0x68, 0x6f, 0x6d, 0x65, 0x2f,
    0x66, 0x61, 0x6e, 0x63],
   [0x79, 0x2f, 0x77, 0x6f, 0x72, 0x6b, 0x73, 0x70, 0x61, 0x63, 0x65, 0x2d, 0x78, 0x70, 0x73,
    0x2f, 0x63, 0x67, 0x70],
   [0x72, 0x6f, 0x78, 0x79, 0x2f, 0x65, 0x78, 0x65, 0x63, 0x73, 0x6e, 0x6f, 0x6f, 0x70, 0x2d,
    0x6c, 0x69, 0x62, 0x62],
   [0x70, 0x66, 0x2f, 0x65, 0x78, 0x65, 0x63, 0x73, 0x6e, 0x6f, 0x6f, 0x70, 0x2e, 0x62, 0x70,
    0x66, 0x2e, 0x63, 0, 0x20],
   [0x20, 0x20, 0x20, 0x75, 0x36, 0x34, 0x20, 0x69, 0x64, 0x20, 0x3d, 0x20, 0x62, 0x70, 0x66,
    0x5f, 0x67, 0x65, 0x74],
   [0x5f, 0x63, 0x75, 0x72, 0x72, 0x65, 0x6e, 0x74, 0x5f, 0x70, 0x69, 0x64, 0x5f, 0x74, 0x67,
    0x69, 0x64, 0x28, 0x29],
   [0x3b, 0, 0x09, 0x70, 0x69, 0x64, 0x20, 0x3d, 0x20, 0x28, 0x70, 0x69, 0x64, 0x5f, 0x74, 0x29,
    0x69, 0x64, 0x3b, 0],
   [0x09, 0x75, 0x69, 0x64, 0x20, 0x3d, 0x20, 0x28, 0x75, 0x33, 0x32, 0x29, 0x62, 0x70, 0x66,
    0x5f, 0x67, 0x65, 0x74],
   [0x5f, 0x63, 0x75, 0x72, 0x72, 0x65, 0x6e, 0x74, 0x5f, 0x75, 0x69, 0x64, 0x5f, 0x67, 0x69,
    0x64, 0x28, 0x29, 0x3b, 0],
   [0x09, 0x73, 0x74, 0x72, 0x75, 0x63, 0x74, 0x20, 0x65, 0x76, 0x65, 0x6e, 0x74, 0x20, 0x65,
    0x6d, 0x70, 0x74, 0x79],
   [0x5f, 0x65, 0x76, 0x65, 0x6e, 0x74, 0x3d, 0x7b, 0x7d, 0x3b, 0, 0x09, 0x69, 0x66, 0x20, 0x28,
    0x62, 0x70, 0x66, 0x5f],
   [0x6d, 0x61, 0x70, 0x5f, 0x75, 0x70, 0x64, 0x61, 0x74, 0x65, 0x5f, 0x65, 0x6c, 0x65, 0x6d,
    0x28, 0x26, 0x72, 0x65],
   [0x63, 0x6f, 0x72, 0x64, 0x73, 0x2c, 0x20, 0x26, 0x70, 0x69, 0x64, 0x2c, 0x20, 0x26, 0x65,
    0x6d, 0x70, 0x74, 0x79],
   [0x5f, 0x65, 0x76, 0x65, 0x6e, 0x74, 0x2c, 0x20, 0x42, 0x50, 0x46, 0x5f, 0x4e, 0x4f, 0x45,
    0x58, 0x49, 0x53, 0x54],
   [0x29, 0x21, 0x3d, 0x30, 0x29, 0x20, 0x72, 0x65, 0x74, 0x75, 0x72, 0x6e, 0x20, 0x30, 0x3b, 0,
    0x09, 0x65, 0x76, 0x65],
   [0x6e, 0x74, 0x20, 0x3d, 0x20, 0x62, 0x70, 0x66, 0x5f, 0x6d, 0x61, 0x70, 0x5f, 0x6c, 0x6f,
    0x6f, 0x6b, 0x75, 0x70],
   [0x5f, 0x65, 0x6c, 0x65, 0x6d, 0x28, 0x26, 0x72, 0x65, 0x63, 0x6f, 0x72, 0x64, 0x73, 0x2c,
    0x20, 0x26, 0x70, 0x69],
   [0x64, 0x29, 0x3b, 0, 0x09, 0x69, 0x66, 0x20, 0x28, 0x21, 0x65, 0x76, 0x65, 0x6e, 0x74, 0x29,
    0x20, 0x72, 0x65, 0x74],
   [0x75, 0x72, 0x6e, 0x20, 0x30, 0x3b, 0, 0x09, 0x65, 0x76, 0x65, 0x6e, 0x74, 0x2d, 0x3e, 0x70,
    0x69, 0x64, 0x20, 0x3d],
   [0x20, 0x70, 0x69, 0x64, 0x3b, 0, 0x09, 0x65, 0x76, 0x65, 0x6e, 0x74, 0x2d, 0x3e, 0x75, 0x69,
    0x64, 0x20, 0x3d, 0x20],
   [0x75, 0x69, 0x64, 0x3b, 0, 0x09, 0x65, 0x76, 0x65, 0x6e, 0x74, 0x2d, 0x3e, 0x74, 0x67, 0x69,
    0x64, 0x20, 0x3d, 0x20],
   [0x74, 0x67, 0x69, 0x64, 0x3b, 0, 0x09, 0x74, 0x61, 0x73, 0x6b, 0x20, 0x3d, 0x20, 0x28, 0x73,
    0x74, 0x72, 0x75, 0x63],
   [0x74, 0x20, 0x74, 0x61, 0x73, 0x6b, 0x5f, 0x73, 0x74, 0x72, 0x75, 0x63, 0x74, 0x2a, 0x29,
    0x62, 0x70, 0x66, 0x5f],
   [0x67, 0x65, 0x74, 0x5f, 0x63, 0x75, 0x72, 0x72, 0x65, 0x6e, 0x74, 0x5f, 0x74, 0x61, 0x73,
    0x6b, 0x28, 0x29, 0x3b, 0],
   [0x74, 0x61, 0x73, 0x6b, 0x5f, 0x73, 0x74, 0x72, 0x75, 0x63, 0x74, 0, 0x74, 0x68, 0x72, 0x65,
    0x61, 0x64, 0x5f, 0x69],
   [0x6e, 0x66, 0x6f, 0, 0x5f, 0x5f, 0x73, 0x74, 0x61, 0x74, 0x65, 0, 0x73, 0x74, 0x61, 0x63,
    0x6b, 0, 0x75, 0x73, 0x61],
   [0x67, 0x65, 0, 0x66, 0x6c, 0x61, 0x67, 0x73, 0, 0x70, 0x74, 0x72, 0x61, 0x63, 0x65, 0, 0x6f,
    0x6e, 0x5f, 0x63, 0x70],
   [0x75, 0, 0x77, 0x61, 0x6b, 0x65, 0x5f, 0x65, 0x6e, 0x74, 0x72, 0x79, 0, 0x77, 0x61, 0x6b,
    0x65, 0x65, 0x5f, 0x66],
   [0x6c, 0x69, 0x70, 0x73, 0, 0x77, 0x61, 0x6b, 0x65, 0x65, 0x5f, 0x66, 0x6c, 0x69, 0x70, 0x5f,
    0x64, 0x65, 0x63, 0x61],
   [0x79, 0x5f, 0x74, 0x73, 0, 0x6c, 0x61, 0x73, 0x74, 0x5f, 0x77, 0x61, 0x6b, 0x65, 0x65, 0,
    0x72, 0x65, 0x63, 0x65],
   [0x6e, 0x74, 0x5f, 0x75, 0x73, 0x65, 0x64, 0x5f, 0x63, 0x70, 0x75, 0, 0x77, 0x61, 0x6b, 0x65,
    0x5f, 0x63, 0x70, 0x75],
   [0, 0x6f, 0x6e, 0x5f, 0x72, 0x71, 0, 0x70, 0x72, 0x69, 0x6f, 0, 0x73, 0x74, 0x61, 0x74, 0x69,
    0x63, 0x5f, 0x70, 0x72],
   [0x69, 0x6f, 0, 0x6e, 0x6f, 0x72, 0x6d, 0x61, 0x6c, 0x5f, 0x70, 0x72, 0x69, 0x6f, 0, 0x72,
    0x74, 0x5f, 0x70, 0x72],
   [0x69, 0x6f, 0x72, 0x69, 0x74, 0x79, 0, 0x73, 0x65, 0, 0x72, 0x74, 0, 0x64, 0x6c, 0, 0x73,
    0x63, 0x68, 0x65, 0x64],
   [0x5f, 0x63, 0x6c, 0x61, 0x73, 0x73, 0, 0x63, 0x6f, 0x72, 0x65, 0x5f, 0x6e, 0x6f, 0x64, 0x65,
    0, 0x63, 0x6f, 0x72],
   [0x65, 0x5f, 0x63, 0x6f, 0x6f, 0x6b, 0x69, 0x65, 0, 0x63, 0x6f, 0x72, 0x65, 0x5f, 0x6f, 0x63,
    0x63, 0x75, 0x70, 0x61],
   [0x74, 0x69, 0x6f, 0x6e, 0, 0x73, 0x63, 0x68, 0x65, 0x64, 0x5f, 0x74, 0x61, 0x73, 0x6b, 0x5f,
    0x67, 0x72, 0x6f, 0x75],
   [0x70, 0, 0x75, 0x63, 0x6c, 0x61, 0x6d, 0x70, 0x5f, 0x72, 0x65, 0x71, 0, 0x75, 0x63, 0x6c,
    0x61, 0x6d, 0x70, 0, 0x73],
   [0x74, 0x61, 0x74, 0x73, 0, 0x70, 0x72, 0x65, 0x65, 0x6d, 0x70, 0x74, 0x5f, 0x6e, 0x6f, 0x74,
    0x69, 0x66, 0x69, 0x65],
   [0x72, 0x73, 0, 0x62, 0x74, 0x72, 0x61, 0x63, 0x65, 0x5f, 0x73, 0x65, 0x71, 0, 0x70, 0x6f,
    0x6c, 0x69, 0x63, 0x79, 0],
   [0x6e, 0x72, 0x5f, 0x63, 0x70, 0x75, 0x73, 0x5f, 0x61, 0x6c, 0x6c, 0x6f, 0x77, 0x65, 0x64, 0,
    0x63, 0x70, 0x75, 0x73],
   [0x5f, 0x70, 0x74, 0x72, 0, 0x75, 0x73, 0x65, 0x72, 0x5f, 0x63, 0x70, 0x75, 0x73, 0x5f, 0x70,
    0x74, 0x72, 0, 0x63],
   [0x70, 0x75, 0x73, 0x5f, 0x6d, 0x61, 0x73, 0x6b, 0, 0x6d, 0x69, 0x67, 0x72, 0x61, 0x74, 0x69,
    0x6f, 0x6e, 0x5f, 0x70],
   [0x65, 0x6e, 0x64, 0x69, 0x6e, 0x67, 0, 0x6d, 0x69, 0x67, 0x72, 0x61, 0x74, 0x69, 0x6f, 0x6e,
    0x5f, 0x64, 0x69, 0x73],
   [0x61, 0x62, 0x6c, 0x65, 0x64, 0, 0x6d, 0x69, 0x67, 0x72, 0x61, 0x74, 0x69, 0x6f, 0x6e, 0x5f,
    0x66, 0x6c, 0x61, 0x67],
   [0x73, 0, 0x72, 0x63, 0x75, 0x5f, 0x72, 0x65, 0x61, 0x64, 0x5f, 0x6c, 0x6f, 0x63, 0x6b, 0x5f,
    0x6e, 0x65, 0x73, 0x74],
   [0x69, 0x6e, 0x67, 0, 0x72, 0x63, 0x75, 0x5f, 0x72, 0x65, 0x61, 0x64, 0x5f, 0x75, 0x6e, 0x6c,
    0x6f, 0x63, 0x6b, 0x5f],
   [0x73, 0x70, 0x65, 0x63, 0x69, 0x61, 0x6c, 0, 0x72, 0x63, 0x75, 0x5f, 0x6e, 0x6f, 0x64, 0x65,
    0x5f, 0x65, 0x6e, 0x74],
   [0x72, 0x79, 0, 0x72, 0x63, 0x75, 0x5f, 0x62, 0x6c, 0x6f, 0x63, 0x6b, 0x65, 0x64, 0x5f, 0x6e,
    0x6f, 0x64, 0x65, 0],
   [0x72, 0x63, 0x75, 0x5f, 0x74, 0x61, 0x73, 0x6b, 0x73, 0x5f, 0x6e, 0x76, 0x63, 0x73, 0x77, 0,
    0x72, 0x63, 0x75, 0x5f],
   [0x74, 0x61, 0x73, 0x6b, 0x73, 0x5f, 0x68, 0x6f, 0x6c, 0x64, 0x6f, 0x75, 0x74, 0, 0x72, 0x63,
    0x75, 0x5f, 0x74, 0x61],
   [0x73, 0x6b, 0x73, 0x5f, 0x69, 0x64, 0x78, 0, 0x72, 0x63, 0x75, 0x5f, 0x74, 0x61, 0x73, 0x6b,
    0x73, 0x5f, 0x69, 0x64],
   [0x6c, 0x65, 0x5f, 0x63, 0x70, 0x75, 0, 0x72, 0x63, 0x75, 0x5f, 0x74, 0x61, 0x73, 0x6b, 0x73,
    0x5f, 0x68, 0x6f, 0x6c],
   [0x64, 0x6f, 0x75, 0x74, 0x5f, 0x6c, 0x69, 0x73, 0x74, 0, 0x74, 0x72, 0x63, 0x5f, 0x72, 0x65,
    0x61, 0x64, 0x65, 0x72],
   [0x5f, 0x6e, 0x65, 0x73, 0x74, 0x69, 0x6e, 0x67, 0, 0x74, 0x72, 0x63, 0x5f, 0x69, 0x70, 0x69,
    0x5f, 0x74, 0x6f, 0x5f],
   [0x63, 0x70, 0x75, 0, 0x74, 0x72, 0x63, 0x5f, 0x72, 0x65, 0x61, 0x64, 0x65, 0x72, 0x5f, 0x73,
    0x70, 0x65, 0x63, 0x69],
   [0x61, 0x6c, 0, 0x74, 0x72, 0x63, 0x5f, 0x68, 0x6f, 0x6c, 0x64, 0x6f, 0x75, 0x74, 0x5f, 0x6c,
    0x69, 0x73, 0x74, 0],
   [0x74, 0x72, 0x63, 0x5f, 0x62, 0x6c, 0x6b, 0x64, 0x5f, 0x6e, 0x6f, 0x64, 0x65, 0, 0x74, 0x72,
    0x63, 0x5f, 0x62, 0x6c],
   [0x6b, 0x64, 0x5f, 0x63, 0x70, 0x75, 0, 0x73, 0x63, 0x68, 0x65, 0x64, 0x5f, 0x69, 0x6e, 0x66,
    0x6f, 0, 0x74, 0x61],
   [0x73, 0x6b, 0x73, 0, 0x70, 0x75, 0x73, 0x68, 0x61, 0x62, 0x6c, 0x65, 0x5f, 0x74, 0x61, 0x73,
    0x6b, 0x73, 0, 0x70],
   [0x75, 0x73, 0x68, 0x61, 0x62, 0x6c, 0x65, 0x5f, 0x64, 0x6c, 0x5f, 0x74, 0x61, 0x73, 0x6b,
    0x73, 0, 0x6d, 0x6d, 0],
   [0x61, 0x63, 0x74, 0x69, 0x76, 0x65, 0x5f, 0x6d, 0x6d, 0, 0x72, 0x73, 0x73, 0x5f, 0x73, 0x74,
    0x61, 0x74, 0, 0x65],
   [0x78, 0x69, 0x74, 0x5f, 0x73, 0x74, 0x61, 0x74, 0x65, 0, 0x65, 0x78, 0x69, 0x74, 0x5f, 0x63,
    0x6f, 0x64, 0x65, 0],
   [0x65, 0x78, 0x69, 0x74, 0x5f, 0x73, 0x69, 0x67, 0x6e, 0x61, 0x6c, 0, 0x70, 0x64, 0x65, 0x61,
    0x74, 0x68, 0x5f, 0x73],
   [0x69, 0x67, 0x6e, 0x61, 0x6c, 0, 0x6a, 0x6f, 0x62, 0x63, 0x74, 0x6c, 0, 0x70, 0x65, 0x72,
    0x73, 0x6f, 0x6e, 0x61],
   [0x6c, 0x69, 0x74, 0x79, 0, 0x73, 0x63, 0x68, 0x65, 0x64, 0x5f, 0x72, 0x65, 0x73, 0x65, 0x74,
    0x5f, 0x6f, 0x6e, 0x5f],
   [0x66, 0x6f, 0x72, 0x6b, 0, 0x73, 0x63, 0x68, 0x65, 0x64, 0x5f, 0x63, 0x6f, 0x6e, 0x74, 0x72,
    0x69, 0x62, 0x75, 0x74],
   [0x65, 0x73, 0x5f, 0x74, 0x6f, 0x5f, 0x6c, 0x6f, 0x61, 0x64, 0, 0x73, 0x63, 0x68, 0x65, 0x64,
    0x5f, 0x6d, 0x69, 0x67],
   [0x72, 0x61, 0x74, 0x65, 0x64, 0, 0x73, 0x63, 0x68, 0x65, 0x64, 0x5f, 0x70, 0x73, 0x69, 0x5f,
    0x77, 0x61, 0x6b, 0x65],
   [0x5f, 0x72, 0x65, 0x71, 0x75, 0x65, 0x75, 0x65, 0, 0x73, 0x63, 0x68, 0x65, 0x64, 0x5f, 0x72,
    0x65, 0x6d, 0x6f, 0x74],
   [0x65, 0x5f, 0x77, 0x61, 0x6b, 0x65, 0x75, 0x70, 0, 0x69, 0x6e, 0x5f, 0x65, 0x78, 0x65, 0x63,
    0x76, 0x65, 0, 0x69],
   [0x6e, 0x5f, 0x69, 0x6f, 0x77, 0x61, 0x69, 0x74, 0, 0x72, 0x65, 0x73, 0x74, 0x6f, 0x72, 0x65,
    0x5f, 0x73, 0x69, 0x67],
   [0x6d, 0x61, 0x73, 0x6b, 0, 0x69, 0x6e, 0x5f, 0x75, 0x73, 0x65, 0x72, 0x5f, 0x66, 0x61, 0x75,
    0x6c, 0x74, 0, 0x69],
   [0x6e, 0x5f, 0x6c, 0x72, 0x75, 0x5f, 0x66, 0x61, 0x75, 0x6c, 0x74, 0, 0x6e, 0x6f, 0x5f, 0x63,
    0x67, 0x72, 0x6f, 0x75],
   [0x70, 0x5f, 0x6d, 0x69, 0x67, 0x72, 0x61, 0x74, 0x69, 0x6f, 0x6e, 0, 0x66, 0x72, 0x6f, 0x7a,
    0x65, 0x6e, 0, 0x75],
   [0x73, 0x65, 0x5f, 0x6d, 0x65, 0x6d, 0x64, 0x65, 0x6c, 0x61, 0x79, 0, 0x69, 0x6e, 0x5f, 0x6d,
    0x65, 0x6d, 0x73, 0x74],
   [0x61, 0x6c, 0x6c, 0, 0x69, 0x6e, 0x5f, 0x65, 0x76, 0x65, 0x6e, 0x74, 0x66, 0x64, 0, 0x70,
    0x61, 0x73, 0x69, 0x64],
   [0x5f, 0x61, 0x63, 0x74, 0x69, 0x76, 0x61, 0x74, 0x65, 0x64, 0, 0x72, 0x65, 0x70, 0x6f, 0x72,
    0x74, 0x65, 0x64, 0x5f],
   [0x73, 0x70, 0x6c, 0x69, 0x74, 0x5f, 0x6c, 0x6f, 0x63, 0x6b, 0, 0x69, 0x6e, 0x5f, 0x74, 0x68,
    0x72, 0x61, 0x73, 0x68],
   [0x69, 0x6e, 0x67, 0, 0x61, 0x74, 0x6f, 0x6d, 0x69, 0x63, 0x5f, 0x66, 0x6c, 0x61, 0x67, 0x73,
    0, 0x72, 0x65, 0x73],
   [0x74, 0x61, 0x72, 0x74, 0x5f, 0x62, 0x6c, 0x6f, 0x63, 0x6b, 0, 0x73, 0x74, 0x61, 0x63, 0x6b,
    0x5f, 0x63, 0x61, 0x6e],
   [0x61, 0x72, 0x79, 0, 0x72, 0x65, 0x61, 0x6c, 0x5f, 0x70, 0x61, 0x72, 0x65, 0x6e, 0x74, 0,
    0x70, 0x61, 0x72, 0x65],
   [0x6e, 0x74, 0, 0x63, 0x68, 0x69, 0x6c, 0x64, 0x72, 0x65, 0x6e, 0, 0x73, 0x69, 0x62, 0x6c,
    0x69, 0x6e, 0x67, 0, 0x67],
   [0x72, 0x6f, 0x75, 0x70, 0x5f, 0x6c, 0x65, 0x61, 0x64, 0x65, 0x72, 0, 0x70, 0x74, 0x72, 0x61,
    0x63, 0x65, 0x64, 0],
   [0x70, 0x74, 0x72, 0x61, 0x63, 0x65, 0x5f, 0x65, 0x6e, 0x74, 0x72, 0x79, 0, 0x74, 0x68, 0x72,
    0x65, 0x61, 0x64, 0x5f],
   [0x70, 0x69, 0x64, 0, 0x70, 0x69, 0x64, 0x5f, 0x6c, 0x69, 0x6e, 0x6b, 0x73, 0, 0x74, 0x68,
    0x72, 0x65, 0x61, 0x64],
   [0x5f, 0x67, 0x72, 0x6f, 0x75, 0x70, 0, 0x74, 0x68, 0x72, 0x65, 0x61, 0x64, 0x5f, 0x6e, 0x6f,
    0x64, 0x65, 0, 0x76],
   [0x66, 0x6f, 0x72, 0x6b, 0x5f, 0x64, 0x6f, 0x6e, 0x65, 0, 0x73, 0x65, 0x74, 0x5f, 0x63, 0x68,
    0x69, 0x6c, 0x64, 0x5f],
   [0x74, 0x69, 0x64, 0, 0x63, 0x6c, 0x65, 0x61, 0x72, 0x5f, 0x63, 0x68, 0x69, 0x6c, 0x64, 0x5f,
    0x74, 0x69, 0x64, 0],
   [0x77, 0x6f, 0x72, 0x6b, 0x65, 0x72, 0x5f, 0x70, 0x72, 0x69, 0x76, 0x61, 0x74, 0x65, 0, 0x75,
    0x74, 0x69, 0x6d, 0x65],
   [0, 0x73, 0x74, 0x69, 0x6d, 0x65, 0, 0x67, 0x74, 0x69, 0x6d, 0x65, 0, 0x70, 0x72, 0x65, 0x76,
    0x5f, 0x63, 0x70, 0x75],
   [0x74, 0x69, 0x6d, 0x65, 0, 0x76, 0x74, 0x69, 0x6d, 0x65, 0, 0x74, 0x69, 0x63, 0x6b, 0x5f,
    0x64, 0x65, 0x70, 0x5f],
   [0x6d, 0x61, 0x73, 0x6b, 0, 0x6e, 0x76, 0x63, 0x73, 0x77, 0, 0x6e, 0x69, 0x76, 0x63, 0x73,
    0x77, 0, 0x73, 0x74, 0x61],
   [0x72, 0x74, 0x5f, 0x74, 0x69, 0x6d, 0x65, 0, 0x73, 0x74, 0x61, 0x72, 0x74, 0x5f, 0x62, 0x6f,
    0x6f, 0x74, 0x74, 0x69],
   [0x6d, 0x65, 0, 0x6d, 0x69, 0x6e, 0x5f, 0x66, 0x6c, 0x74, 0, 0x6d, 0x61, 0x6a, 0x5f, 0x66,
    0x6c, 0x74, 0, 0x70, 0x6f],
   [0x73, 0x69, 0x78, 0x5f, 0x63, 0x70, 0x75, 0x74, 0x69, 0x6d, 0x65, 0x72, 0x73, 0, 0x70, 0x6f,
    0x73, 0x69, 0x78, 0x5f],
   [0x63, 0x70, 0x75, 0x74, 0x69, 0x6d, 0x65, 0x72, 0x73, 0x5f, 0x77, 0x6f, 0x72, 0x6b, 0, 0x70,
    0x74, 0x72, 0x61, 0x63],
   [0x65, 0x72, 0x5f, 0x63, 0x72, 0x65, 0x64, 0, 0x72, 0x65, 0x61, 0x6c, 0x5f, 0x63, 0x72, 0x65,
    0x64, 0, 0x63, 0x72],
   [0x65, 0x64, 0, 0x63, 0x61, 0x63, 0x68, 0x65, 0x64, 0x5f, 0x72, 0x65, 0x71, 0x75, 0x65, 0x73,
    0x74, 0x65, 0x64, 0x5f],
   [0x6b, 0x65, 0x79, 0, 0x6e, 0x61, 0x6d, 0x65, 0x69, 0x64, 0x61, 0x74, 0x61, 0, 0x73, 0x79,
    0x73, 0x76, 0x73, 0x65],
   [0x6d, 0, 0x73, 0x79, 0x73, 0x76, 0x73, 0x68, 0x6d, 0, 0x6c, 0x61, 0x73, 0x74, 0x5f, 0x73,
    0x77, 0x69, 0x74, 0x63],
   [0x68, 0x5f, 0x63, 0x6f, 0x75, 0x6e, 0x74, 0, 0x6c, 0x61, 0x73, 0x74, 0x5f, 0x73, 0x77, 0x69,
    0x74, 0x63, 0x68, 0x5f],
   [0x74, 0x69, 0x6d, 0x65, 0, 0x66, 0x73, 0, 0x66, 0x69, 0x6c, 0x65, 0x73, 0, 0x69, 0x6f, 0x5f,
    0x75, 0x72, 0x69, 0x6e],
   [0x67, 0, 0x6e, 0x73, 0x70, 0x72, 0x6f, 0x78, 0x79, 0, 0x73, 0x69, 0x67, 0x6e, 0x61, 0x6c, 0,
    0x73, 0x69, 0x67, 0x68],
   [0x61, 0x6e, 0x64, 0, 0x62, 0x6c, 0x6f, 0x63, 0x6b, 0x65, 0x64, 0, 0x72, 0x65, 0x61, 0x6c,
    0x5f, 0x62, 0x6c, 0x6f],
   [0x63, 0x6b, 0x65, 0x64, 0, 0x73, 0x61, 0x76, 0x65, 0x64, 0x5f, 0x73, 0x69, 0x67, 0x6d, 0x61,
    0x73, 0x6b, 0, 0x70]]"

lemma length_btf_strings_1: "length (concat btf_strings_1) = 2447"
  by (simp add: btf_strings_1_def)

definition btf_strings_2 :: "bytes list" where
  "btf_strings_2 = [
   [0x65, 0x6e, 0x64, 0x69, 0x6e, 0x67, 0, 0x73, 0x61, 0x73, 0x5f, 0x73, 0x73, 0x5f, 0x73, 0x70,
    0, 0x73, 0x61, 0x73],
   [0x5f, 0x73, 0x73, 0x5f, 0x73, 0x69, 0x7a, 0x65, 0, 0x73, 0x61, 0x73, 0x5f, 0x73, 0x73, 0x5f,
    0x66, 0x6c, 0x61, 0x67],
   [0x73, 0, 0x74, 0x61, 0x73, 0x6b, 0x5f, 0x77, 0x6f, 0x72, 0x6b, 0x73, 0, 0x61, 0x75, 0x64,
    0x69, 0x74, 0x5f, 0x63],
   [0x6f, 0x6e, 0x74, 0x65, 0x78, 0x74, 0, 0x6c, 0x6f, 0x67, 0x69, 0x6e, 0x75, 0x69, 0x64, 0,
    0x73, 0x65, 0x73, 0x73],
   [0x69, 0x6f, 0x6e, 0x69, 0x64, 0, 0x73, 0x65, 0x63, 0x63, 0x6f, 0x6d, 0x70, 0, 0x73, 0x79,
    0x73, 0x63, 0x61, 0x6c],
   [0x6c, 0x5f, 0x64, 0x69, 0x73, 0x70, 0x61, 0x74, 0x63, 0x68, 0, 0x70, 0x61, 0x72, 0x65, 0x6e,
    0x74, 0x5f, 0x65, 0x78],
   [0x65, 0x63, 0x5f, 0x69, 0x64, 0, 0x73, 0x65, 0x6c, 0x66, 0x5f, 0x65, 0x78, 0x65, 0x63, 0x5f,
    0x69, 0x64, 0, 0x61],
   [0x6c, 0x6c, 0x6f, 0x63, 0x5f, 0x6c, 0x6f, 0x63, 0x6b, 0, 0x70, 0x69, 0x5f, 0x6c, 0x6f, 0x63,
    0x6b, 0, 0x77, 0x61],
   [0x6b, 0x65, 0x5f, 0x71, 0, 0x70, 0x69, 0x5f, 0x77, 0x61, 0x69, 0x74, 0x65, 0x72, 0x73, 0,
    0x70, 0x69, 0x5f, 0x74],
   [0x6f, 0x70, 0x5f, 0x74, 0x61, 0x73, 0x6b, 0, 0x70, 0x69, 0x5f, 0x62, 0x6c, 0x6f, 0x63, 0x6b,
    0x65, 0x64, 0x5f, 0x6f],
   [0x6e, 0, 0x6a, 0x6f, 0x75, 0x72, 0x6e, 0x61, 0x6c, 0x5f, 0x69, 0x6e, 0x66, 0x6f, 0, 0x62,
    0x69, 0x6f, 0x5f, 0x6c],
   [0x69, 0x73, 0x74, 0, 0x70, 0x6c, 0x75, 0x67, 0, 0x72, 0x65, 0x63, 0x6c, 0x61, 0x69, 0x6d,
    0x5f, 0x73, 0x74, 0x61],
   [0x74, 0x65, 0, 0x62, 0x61, 0x63, 0x6b, 0x69, 0x6e, 0x67, 0x5f, 0x64, 0x65, 0x76, 0x5f, 0x69,
    0x6e, 0x66, 0x6f, 0],
   [0x69, 0x6f, 0x5f, 0x63, 0x6f, 0x6e, 0x74, 0x65, 0x78, 0x74, 0, 0x63, 0x61, 0x70, 0x74, 0x75,
    0x72, 0x65, 0x5f, 0x63],
   [0x6f, 0x6e, 0x74, 0x72, 0x6f, 0x6c, 0, 0x70, 0x74, 0x72, 0x61, 0x63, 0x65, 0x5f, 0x6d, 0x65,
    0x73, 0x73, 0x61, 0x67],
   [0x65, 0, 0x6c, 0x61, 0x73, 0x74, 0x5f, 0x73, 0x69, 0x67, 0x69, 0x6e, 0x66, 0x6f, 0, 0x69,
    0x6f, 0x61, 0x63, 0, 0x70],
   [0x73, 0x69, 0x5f, 0x66, 0x6c, 0x61, 0x67, 0x73, 0, 0x61, 0x63, 0x63, 0x74, 0x5f, 0x72, 0x73,
    0x73, 0x5f, 0x6d, 0x65],
   [0x6d, 0x31, 0, 0x61, 0x63, 0x63, 0x74, 0x5f, 0x76, 0x6d, 0x5f, 0x6d, 0x65, 0x6d, 0x31, 0,
    0x61, 0x63, 0x63, 0x74],
   [0x5f, 0x74, 0x69, 0x6d, 0x65, 0x78, 0x70, 0x64, 0, 0x6d, 0x65, 0x6d, 0x73, 0x5f, 0x61, 0x6c,
    0x6c, 0x6f, 0x77, 0x65],
   [0x64, 0, 0x6d, 0x65, 0x6d, 0x73, 0x5f, 0x61, 0x6c, 0x6c, 0x6f, 0x77, 0x65, 0x64, 0x5f, 0x73,
    0x65, 0x71, 0, 0x63],
   [0x70, 0x75, 0x73, 0x65, 0x74, 0x5f, 0x6d, 0x65, 0x6d, 0x5f, 0x73, 0x70, 0x72, 0x65, 0x61,
    0x64, 0x5f, 0x72, 0x6f],
   [0x74, 0x6f, 0x72, 0, 0x63, 0x70, 0x75, 0x73, 0x65, 0x74, 0x5f, 0x73, 0x6c, 0x61, 0x62, 0x5f,
    0x73, 0x70, 0x72, 0x65],
   [0x61, 0x64, 0x5f, 0x72, 0x6f, 0x74, 0x6f, 0x72, 0, 0x63, 0x67, 0x72, 0x6f, 0x75, 0x70, 0x73,
    0, 0x63, 0x67, 0x5f],
   [0x6c, 0x69, 0x73, 0x74, 0, 0x63, 0x6c, 0x6f, 0x73, 0x69, 0x64, 0, 0x72, 0x6d, 0x69, 0x64, 0,
    0x72, 0x6f, 0x62, 0x75],
   [0x73, 0x74, 0x5f, 0x6c, 0x69, 0x73, 0x74, 0, 0x63, 0x6f, 0x6d, 0x70, 0x61, 0x74, 0x5f, 0x72,
    0x6f, 0x62, 0x75, 0x73],
   [0x74, 0x5f, 0x6c, 0x69, 0x73, 0x74, 0, 0x70, 0x69, 0x5f, 0x73, 0x74, 0x61, 0x74, 0x65, 0x5f,
    0x6c, 0x69, 0x73, 0x74],
   [0, 0x70, 0x69, 0x5f, 0x73, 0x74, 0x61, 0x74, 0x65, 0x5f, 0x63, 0x61, 0x63, 0x68, 0x65, 0,
    0x66, 0x75, 0x74, 0x65],
   [0x78, 0x5f, 0x65, 0x78, 0x69, 0x74, 0x5f, 0x6d, 0x75, 0x74, 0x65, 0x78, 0, 0x66, 0x75, 0x74,
    0x65, 0x78, 0x5f, 0x73],
   [0x74, 0x61, 0x74, 0x65, 0, 0x70, 0x65, 0x72, 0x66, 0x5f, 0x65, 0x76, 0x65, 0x6e, 0x74, 0x5f,
    0x63, 0x74, 0x78, 0x70],
   [0, 0x70, 0x65, 0x72, 0x66, 0x5f, 0x65, 0x76, 0x65, 0x6e, 0x74, 0x5f, 0x6d, 0x75, 0x74, 0x65,
    0x78, 0, 0x70, 0x65],
   [0x72, 0x66, 0x5f, 0x65, 0x76, 0x65, 0x6e, 0x74, 0x5f, 0x6c, 0x69, 0x73, 0x74, 0, 0x6d, 0x65,
    0x6d, 0x70, 0x6f, 0x6c],
   [0x69, 0x63, 0x79, 0, 0x69, 0x6c, 0x5f, 0x70, 0x72, 0x65, 0x76, 0, 0x70, 0x72, 0x65, 0x66,
    0x5f, 0x6e, 0x6f, 0x64],
   [0x65, 0x5f, 0x66, 0x6f, 0x72, 0x6b, 0, 0x6e, 0x75, 0x6d, 0x61, 0x5f, 0x73, 0x63, 0x61, 0x6e,
    0x5f, 0x73, 0x65, 0x71],
   [0, 0x6e, 0x75, 0x6d, 0x61, 0x5f, 0x73, 0x63, 0x61, 0x6e, 0x5f, 0x70, 0x65, 0x72, 0x69, 0x6f,
    0x64, 0, 0x6e, 0x75],
   [0x6d, 0x61, 0x5f, 0x73, 0x63, 0x61, 0x6e, 0x5f, 0x70, 0x65, 0x72, 0x69, 0x6f, 0x64, 0x5f,
    0x6d, 0x61, 0x78, 0, 0x6e],
   [0x75, 0x6d, 0x61, 0x5f, 0x70, 0x72, 0x65, 0x66, 0x65, 0x72, 0x72, 0x65, 0x64, 0x5f, 0x6e,
    0x69, 0x64, 0, 0x6e, 0x75],
   [0x6d, 0x61, 0x5f, 0x6d, 0x69, 0x67, 0x72, 0x61, 0x74, 0x65, 0x5f, 0x72, 0x65, 0x74, 0x72,
    0x79, 0, 0x6e, 0x6f, 0x64],
   [0x65, 0x5f, 0x73, 0x74, 0x61, 0x6d, 0x70, 0, 0x6c, 0x61, 0x73, 0x74, 0x5f, 0x74, 0x61, 0x73,
    0x6b, 0x5f, 0x6e, 0x75],
   [0x6d, 0x61, 0x5f, 0x70, 0x6c, 0x61, 0x63, 0x65, 0x6d, 0x65, 0x6e, 0x74, 0, 0x6c, 0x61, 0x73,
    0x74, 0x5f, 0x73, 0x75],
   [0x6d, 0x5f, 0x65, 0x78, 0x65, 0x63, 0x5f, 0x72, 0x75, 0x6e, 0x74, 0x69, 0x6d, 0x65, 0, 0x6e,
    0x75, 0x6d, 0x61, 0x5f],
   [0x77, 0x6f, 0x72, 0x6b, 0, 0x6e, 0x75, 0x6d, 0x61, 0x5f, 0x67, 0x72, 0x6f, 0x75, 0x70, 0,
    0x6e, 0x75, 0x6d, 0x61],
   [0x5f, 0x66, 0x61, 0x75, 0x6c, 0x74, 0x73, 0, 0x74, 0x6f, 0x74, 0x61, 0x6c, 0x5f, 0x6e, 0x75,
    0x6d, 0x61, 0x5f, 0x66],
   [0x61, 0x75, 0x6c, 0x74, 0x73, 0, 0x6e, 0x75, 0x6d, 0x61, 0x5f, 0x66, 0x61, 0x75, 0x6c, 0x74,
    0x73, 0x5f, 0x6c, 0x6f],
   [0x63, 0x61, 0x6c, 0x69, 0x74, 0x79, 0, 0x6e, 0x75, 0x6d, 0x61, 0x5f, 0x70, 0x61, 0x67, 0x65,
    0x73, 0x5f, 0x6d, 0x69],
   [0x67, 0x72, 0x61, 0x74, 0x65, 0x64, 0, 0x72, 0x73, 0x65, 0x71, 0, 0x72, 0x73, 0x65, 0x71,
    0x5f, 0x73, 0x69, 0x67, 0],
   [0x72, 0x73, 0x65, 0x71, 0x5f, 0x65, 0x76, 0x65, 0x6e, 0x74, 0x5f, 0x6d, 0x61, 0x73, 0x6b, 0,
    0x74, 0x6c, 0x62, 0x5f],
   [0x75, 0x62, 0x63, 0, 0x73, 0x70, 0x6c, 0x69, 0x63, 0x65, 0x5f, 0x70, 0x69, 0x70, 0x65, 0,
    0x74, 0x61, 0x73, 0x6b],
   [0x5f, 0x66, 0x72, 0x61, 0x67, 0, 0x64, 0x65, 0x6c, 0x61, 0x79, 0x73, 0, 0x6e, 0x72, 0x5f,
    0x64, 0x69, 0x72, 0x74],
   [0x69, 0x65, 0x64, 0, 0x6e, 0x72, 0x5f, 0x64, 0x69, 0x72, 0x74, 0x69, 0x65, 0x64, 0x5f, 0x70,
    0x61, 0x75, 0x73, 0x65],
   [0, 0x64, 0x69, 0x72, 0x74, 0x79, 0x5f, 0x70, 0x61, 0x75, 0x73, 0x65, 0x64, 0x5f, 0x77, 0x68,
    0x65, 0x6e, 0, 0x6c],
   [0x61, 0x74, 0x65, 0x6e, 0x63, 0x79, 0x5f, 0x72, 0x65, 0x63, 0x6f, 0x72, 0x64, 0x5f, 0x63,
    0x6f, 0x75, 0x6e, 0x74, 0],
   [0x6c, 0x61, 0x74, 0x65, 0x6e, 0x63, 0x79, 0x5f, 0x72, 0x65, 0x63, 0x6f, 0x72, 0x64, 0, 0x74,
    0x69, 0x6d, 0x65, 0x72],
   [0x5f, 0x73, 0x6c, 0x61, 0x63, 0x6b, 0x5f, 0x6e, 0x73, 0, 0x64, 0x65, 0x66, 0x61, 0x75, 0x6c,
    0x74, 0x5f, 0x74, 0x69],
   [0x6d, 0x65, 0x72, 0x5f, 0x73, 0x6c, 0x61, 0x63, 0x6b, 0x5f, 0x6e, 0x73, 0, 0x63, 0x75, 0x72,
    0x72, 0x5f, 0x72, 0x65],
   [0x74, 0x5f, 0x73, 0x74, 0x61, 0x63, 0x6b, 0, 0x63, 0x75, 0x72, 0x72, 0x5f, 0x72, 0x65, 0x74,
    0x5f, 0x64, 0x65, 0x70],
   [0x74, 0x68, 0, 0x72, 0x65, 0x74, 0x5f, 0x73, 0x74, 0x61, 0x63, 0x6b, 0, 0x66, 0x74, 0x72,
    0x61, 0x63, 0x65, 0x5f],
   [0x74, 0x69, 0x6d, 0x65, 0x73, 0x74, 0x61, 0x6d, 0x70, 0, 0x74, 0x72, 0x61, 0x63, 0x65, 0x5f,
    0x6f, 0x76, 0x65, 0x72],
   [0x72, 0x75, 0x6e, 0, 0x74, 0x72, 0x61, 0x63, 0x69, 0x6e, 0x67, 0x5f, 0x67, 0x72, 0x61, 0x70,
    0x68, 0x5f, 0x70, 0x61],
   [0x75, 0x73, 0x65, 0, 0x74, 0x72, 0x61, 0x63, 0x65, 0x5f, 0x72, 0x65, 0x63, 0x75, 0x72, 0x73,
    0x69, 0x6f, 0x6e, 0],
   [0x6d, 0x65, 0x6d, 0x63, 0x67, 0x5f, 0x69, 0x6e, 0x5f, 0x6f, 0x6f, 0x6d, 0, 0x6d, 0x65, 0x6d,
    0x63, 0x67, 0x5f, 0x6f],
   [0x6f, 0x6d, 0x5f, 0x67, 0x66, 0x70, 0x5f, 0x6d, 0x61, 0x73, 0x6b, 0, 0x6d, 0x65, 0x6d, 0x63,
    0x67, 0x5f, 0x6f, 0x6f],
   [0x6d, 0x5f, 0x6f, 0x72, 0x64, 0x65, 0x72, 0, 0x6d, 0x65, 0x6d, 0x63, 0x67, 0x5f, 0x6e, 0x72,
    0x5f, 0x70, 0x61, 0x67],
   [0x65, 0x73, 0x5f, 0x6f, 0x76, 0x65, 0x72, 0x5f, 0x68, 0x69, 0x67, 0x68, 0, 0x61, 0x63, 0x74,
    0x69, 0x76, 0x65, 0x5f],
   [0x6d, 0x65, 0x6d, 0x63, 0x67, 0, 0x74, 0x68, 0x72, 0x6f, 0x74, 0x74, 0x6c, 0x65, 0x5f, 0x71,
    0x75, 0x65, 0x75, 0x65],
   [0, 0x75, 0x74, 0x61, 0x73, 0x6b, 0, 0x73, 0x65, 0x71, 0x75, 0x65, 0x6e, 0x74, 0x69, 0x61,
    0x6c, 0x5f, 0x69, 0x6f, 0],
   [0x73, 0x65, 0x71, 0x75, 0x65, 0x6e, 0x74, 0x69, 0x61, 0x6c, 0x5f, 0x69, 0x6f, 0x5f, 0x61,
    0x76, 0x67, 0, 0x6b, 0x6d],
   [0x61, 0x70, 0x5f, 0x63, 0x74, 0x72, 0x6c, 0, 0x70, 0x61, 0x67, 0x65, 0x66, 0x61, 0x75, 0x6c,
    0x74, 0x5f, 0x64, 0x69],
   [0x73, 0x61, 0x62, 0x6c, 0x65, 0x64, 0, 0x6f, 0x6f, 0x6d, 0x5f, 0x72, 0x65, 0x61, 0x70, 0x65,
    0x72, 0x5f, 0x6c, 0x69],
   [0x73, 0x74, 0, 0x6f, 0x6f, 0x6d, 0x5f, 0x72, 0x65, 0x61, 0x70, 0x65, 0x72, 0x5f, 0x74, 0x69,
    0x6d, 0x65, 0x72, 0],
   [0x73, 0x74, 0x61, 0x63, 0x6b, 0x5f, 0x76, 0x6d, 0x5f, 0x61, 0x72, 0x65, 0x61, 0, 0x73, 0x74,
    0x61, 0x63, 0x6b, 0x5f],
   [0x72, 0x65, 0x66, 0x63, 0x6f, 0x75, 0x6e, 0x74, 0, 0x73, 0x65, 0x63, 0x75, 0x72, 0x69, 0x74,
    0x79, 0, 0x62, 0x70],
   [0x66, 0x5f, 0x73, 0x74, 0x6f, 0x72, 0x61, 0x67, 0x65, 0, 0x62, 0x70, 0x66, 0x5f, 0x63, 0x74,
    0x78, 0, 0x6d, 0x63],
   [0x65, 0x5f, 0x76, 0x61, 0x64, 0x64, 0x72, 0, 0x6d, 0x63, 0x65, 0x5f, 0x6b, 0x66, 0x6c, 0x61,
    0x67, 0x73, 0, 0x6d],
   [0x63, 0x65, 0x5f, 0x61, 0x64, 0x64, 0x72, 0, 0x6d, 0x63, 0x65, 0x5f, 0x72, 0x69, 0x70, 0x76,
    0, 0x6d, 0x63, 0x65],
   [0x5f, 0x77, 0x68, 0x6f, 0x6c, 0x65, 0x5f, 0x70, 0x61, 0x67, 0x65, 0, 0x5f, 0x5f, 0x6d, 0x63,
    0x65, 0x5f, 0x72, 0x65],
   [0x73, 0x65, 0x72, 0x76, 0x65, 0x64, 0, 0x6d, 0x63, 0x65, 0x5f, 0x6b, 0x69, 0x6c, 0x6c, 0x5f,
    0x6d, 0x65, 0, 0x6d],
   [0x63, 0x65, 0x5f, 0x63, 0x6f, 0x75, 0x6e, 0x74, 0, 0x6b, 0x72, 0x65, 0x74, 0x70, 0x72, 0x6f,
    0x62, 0x65, 0x5f, 0x69],
   [0x6e, 0x73, 0x74, 0x61, 0x6e, 0x63, 0x65, 0x73, 0, 0x72, 0x65, 0x74, 0x68, 0x6f, 0x6f, 0x6b,
    0x73, 0, 0x6c, 0x31],
   [0x64, 0x5f, 0x66, 0x6c, 0x75, 0x73, 0x68, 0x5f, 0x6b, 0x69, 0x6c, 0x6c, 0, 0x74, 0x68, 0x72,
    0x65, 0x61, 0x64, 0],
   [0x73, 0x79, 0x73, 0x63, 0x61, 0x6c, 0x6c, 0x5f, 0x77, 0x6f, 0x72, 0x6b, 0, 0x73, 0x74, 0x61,
    0x74, 0x75, 0x73, 0],
   [0x63, 0x70, 0x75, 0, 0x75, 0x6e, 0x73, 0x69, 0x67, 0x6e, 0x65, 0x64, 0x20, 0x6c, 0x6f, 0x6e,
    0x67, 0, 0x72, 0x65],
   [0x66, 0x63, 0x6f, 0x75, 0x6e, 0x74, 0x5f, 0x74, 0, 0x72, 0x65, 0x66, 0x63, 0x6f, 0x75, 0x6e,
    0x74, 0x5f, 0x73, 0x74],
   [0x72, 0x75, 0x63, 0x74, 0, 0x72, 0x65, 0x66, 0x73, 0, 0x61, 0x74, 0x6f, 0x6d, 0x69, 0x63,
    0x5f, 0x74, 0, 0x63, 0x6f],
   [0x75, 0x6e, 0x74, 0x65, 0x72, 0, 0x5f, 0x5f, 0x63, 0x61, 0x6c, 0x6c, 0x5f, 0x73, 0x69, 0x6e,
    0x67, 0x6c, 0x65, 0x5f],
   [0x6e, 0x6f, 0x64, 0x65, 0, 0x6c, 0x6c, 0x69, 0x73, 0x74, 0, 0x73, 0x72, 0x63, 0, 0x64, 0x73,
    0x74, 0, 0x6c, 0x6c],
   [0x69, 0x73, 0x74, 0x5f, 0x6e, 0x6f, 0x64, 0x65, 0, 0x6e, 0x65, 0x78, 0x74, 0, 0x75, 0x5f,
    0x66, 0x6c, 0x61, 0x67],
   [0x73, 0, 0x61, 0x5f, 0x66, 0x6c, 0x61, 0x67, 0x73, 0, 0x75, 0x31, 0x36, 0, 0x5f, 0x5f, 0x75,
    0x31, 0x36, 0, 0x75],
   [0x6e, 0x73, 0x69, 0x67, 0x6e, 0x65, 0x64, 0x20, 0x73, 0x68, 0x6f, 0x72, 0x74, 0, 0x73, 0x63,
    0x68, 0x65, 0x64, 0x5f],
   [0x65, 0x6e, 0x74, 0x69, 0x74, 0x79, 0, 0x6c, 0x6f, 0x61, 0x64, 0, 0x72, 0x75, 0x6e, 0x5f,
    0x6e, 0x6f, 0x64, 0x65, 0],
   [0x67, 0x72, 0x6f, 0x75, 0x70, 0x5f, 0x6e, 0x6f, 0x64, 0x65, 0, 0x65, 0x78, 0x65, 0x63, 0x5f,
    0x73, 0x74, 0x61, 0x72],
   [0x74, 0, 0x73, 0x75, 0x6d, 0x5f, 0x65, 0x78, 0x65, 0x63, 0x5f, 0x72, 0x75, 0x6e, 0x74, 0x69,
    0x6d, 0x65, 0, 0x76],
   [0x72, 0x75, 0x6e, 0x74, 0x69, 0x6d, 0x65, 0, 0x70, 0x72, 0x65, 0x76, 0x5f, 0x73, 0x75, 0x6d,
    0x5f, 0x65, 0x78, 0x65],
   [0x63, 0x5f, 0x72, 0x75, 0x6e, 0x74, 0x69, 0x6d, 0x65, 0, 0x6e, 0x72, 0x5f, 0x6d, 0x69, 0x67,
    0x72, 0x61, 0x74, 0x69],
   [0x6f, 0x6e, 0x73, 0, 0x64, 0x65, 0x70, 0x74, 0x68, 0, 0x63, 0x66, 0x73, 0x5f, 0x72, 0x71, 0,
    0x6d, 0x79, 0x5f, 0x71],
   [0, 0x72, 0x75, 0x6e, 0x6e, 0x61, 0x62, 0x6c, 0x65, 0x5f, 0x77, 0x65, 0x69, 0x67, 0x68, 0x74,
    0, 0x61, 0x76, 0x67, 0],
   [0x6c, 0x6f, 0x61, 0x64, 0x5f, 0x77, 0x65, 0x69, 0x67, 0x68, 0x74, 0, 0x77, 0x65, 0x69, 0x67,
    0x68, 0x74, 0, 0x69],
   [0x6e, 0x76, 0x5f, 0x77, 0x65, 0x69, 0x67, 0x68, 0x74, 0, 0x72, 0x62, 0x5f, 0x6e, 0x6f, 0x64,
    0x65, 0, 0x5f, 0x5f],
   [0x72, 0x62, 0x5f, 0x70, 0x61, 0x72, 0x65, 0x6e, 0x74, 0x5f, 0x63, 0x6f, 0x6c, 0x6f, 0x72, 0,
    0x72, 0x62, 0x5f, 0x72],
   [0x69, 0x67, 0x68, 0x74, 0, 0x72, 0x62, 0x5f, 0x6c, 0x65, 0x66, 0x74, 0, 0x6c, 0x69, 0x73,
    0x74, 0x5f, 0x68, 0x65],
   [0x61, 0x64, 0, 0x70, 0x72, 0x65, 0x76, 0, 0x75, 0x36, 0x34, 0, 0x73, 0x63, 0x68, 0x65, 0x64,
    0x5f, 0x61, 0x76, 0x67],
   [0, 0x6c, 0x61, 0x73, 0x74, 0x5f, 0x75, 0x70, 0x64, 0x61, 0x74, 0x65, 0x5f, 0x74, 0x69, 0x6d,
    0x65, 0, 0x6c, 0x6f],
   [0x61, 0x64, 0x5f, 0x73, 0x75, 0x6d, 0, 0x72, 0x75, 0x6e, 0x6e, 0x61, 0x62, 0x6c, 0x65, 0x5f,
    0x73, 0x75, 0x6d, 0],
   [0x75, 0x74, 0x69, 0x6c, 0x5f, 0x73, 0x75, 0x6d, 0, 0x70, 0x65, 0x72, 0x69, 0x6f, 0x64, 0x5f,
    0x63, 0x6f, 0x6e, 0x74],
   [0x72, 0x69, 0x62, 0, 0x6c, 0x6f, 0x61, 0x64, 0x5f, 0x61, 0x76, 0x67, 0, 0x72, 0x75, 0x6e,
    0x6e, 0x61, 0x62, 0x6c],
   [0x65, 0x5f, 0x61, 0x76, 0x67, 0, 0x75, 0x74, 0x69, 0x6c, 0x5f, 0x61, 0x76, 0x67, 0, 0x75,
    0x74, 0x69, 0x6c, 0x5f],
   [0x65, 0x73, 0x74, 0, 0x65, 0x6e, 0x71, 0x75, 0x65, 0x75, 0x65, 0x64, 0, 0x65, 0x77, 0x6d,
    0x61, 0, 0x73, 0x63, 0x68],
   [0x65, 0x64, 0x5f, 0x72, 0x74, 0x5f, 0x65, 0x6e, 0x74, 0x69, 0x74, 0x79, 0, 0x72, 0x75, 0x6e,
    0x5f, 0x6c, 0x69, 0x73],
   [0x74, 0, 0x74, 0x69, 0x6d, 0x65, 0x6f, 0x75, 0x74, 0, 0x77, 0x61, 0x74, 0x63, 0x68, 0x64,
    0x6f, 0x67, 0x5f, 0x73],
   [0x74, 0x61, 0x6d, 0x70, 0, 0x74, 0x69, 0x6d, 0x65, 0x5f, 0x73, 0x6c, 0x69, 0x63, 0x65, 0,
    0x6f, 0x6e, 0x5f, 0x6c],
   [0x69, 0x73, 0x74, 0, 0x62, 0x61, 0x63, 0x6b, 0, 0x73, 0x63, 0x68, 0x65, 0x64, 0x5f, 0x64,
    0x6c, 0x5f, 0x65, 0x6e],
   [0x74, 0x69, 0x74, 0x79, 0, 0x64, 0x6c, 0x5f, 0x72, 0x75, 0x6e, 0x74, 0x69, 0x6d, 0x65, 0,
    0x64, 0x6c, 0x5f, 0x64],
   [0x65, 0x61, 0x64, 0x6c, 0x69, 0x6e, 0x65, 0, 0x64, 0x6c, 0x5f, 0x70, 0x65, 0x72, 0x69, 0x6f,
    0x64, 0, 0x64, 0x6c],
   [0x5f, 0x62, 0x77, 0, 0x64, 0x6c, 0x5f, 0x64, 0x65, 0x6e, 0x73, 0x69, 0x74, 0x79, 0, 0x72,
    0x75, 0x6e, 0x74, 0x69],
   [0x6d, 0x65, 0, 0x64, 0x65, 0x61, 0x64, 0x6c, 0x69, 0x6e, 0x65, 0, 0x64, 0x6c, 0x5f, 0x74,
    0x68, 0x72, 0x6f, 0x74],
   [0x74, 0x6c, 0x65, 0x64, 0, 0x64, 0x6c, 0x5f, 0x79, 0x69, 0x65, 0x6c, 0x64, 0x65, 0x64, 0,
    0x64, 0x6c, 0x5f, 0x6e],
   [0x6f, 0x6e, 0x5f, 0x63, 0x6f, 0x6e, 0x74, 0x65, 0x6e, 0x64, 0x69, 0x6e, 0x67, 0, 0x64, 0x6c,
    0x5f, 0x6f, 0x76, 0x65],
   [0x72, 0x72, 0x75, 0x6e, 0, 0x64, 0x6c, 0x5f, 0x74, 0x69, 0x6d, 0x65, 0x72, 0, 0x69, 0x6e,
    0x61, 0x63, 0x74, 0x69],
   [0x76, 0x65, 0x5f, 0x74, 0x69, 0x6d, 0x65, 0x72, 0, 0x70, 0x69, 0x5f, 0x73, 0x65, 0, 0x73,
    0x36, 0x34, 0, 0x5f, 0x5f],
   [0x73, 0x36, 0x34, 0, 0x6c, 0x6f, 0x6e, 0x67, 0x20, 0x6c, 0x6f, 0x6e, 0x67, 0, 0x68, 0x72,
    0x74, 0x69, 0x6d, 0x65],
   [0x72, 0, 0x6e, 0x6f, 0x64, 0x65, 0, 0x5f, 0x73, 0x6f, 0x66, 0x74, 0x65, 0x78, 0x70, 0x69,
    0x72, 0x65, 0x73, 0, 0x66],
   [0x75, 0x6e, 0x63, 0x74, 0x69, 0x6f, 0x6e, 0, 0x62, 0x61, 0x73, 0x65, 0, 0x73, 0x74, 0x61,
    0x74, 0x65, 0, 0x69, 0x73],
   [0x5f, 0x72, 0x65, 0x6c, 0, 0x69, 0x73, 0x5f, 0x73, 0x6f, 0x66, 0x74, 0, 0x69, 0x73, 0x5f,
    0x68, 0x61, 0x72, 0x64, 0]]"

lemma length_btf_strings_2: "length (concat btf_strings_2) = 2455"
  by (simp add: btf_strings_2_def)

definition btf_strings_3 :: "bytes list" where
  "btf_strings_3 = [
   [0x74, 0x69, 0x6d, 0x65, 0x72, 0x71, 0x75, 0x65, 0x75, 0x65, 0x5f, 0x6e, 0x6f, 0x64, 0x65, 0,
    0x65, 0x78, 0x70, 0x69],
   [0x72, 0x65, 0x73, 0, 0x6b, 0x74, 0x69, 0x6d, 0x65, 0x5f, 0x74, 0, 0x68, 0x72, 0x74, 0x69,
    0x6d, 0x65, 0x72, 0x5f],
   [0x72, 0x65, 0x73, 0x74, 0x61, 0x72, 0x74, 0, 0x48, 0x52, 0x54, 0x49, 0x4d, 0x45, 0x52, 0x5f,
    0x4e, 0x4f, 0x52, 0x45],
   [0x53, 0x54, 0x41, 0x52, 0x54, 0, 0x48, 0x52, 0x54, 0x49, 0x4d, 0x45, 0x52, 0x5f, 0x52, 0x45,
    0x53, 0x54, 0x41, 0x52],
   [0x54, 0, 0x75, 0x38, 0, 0x5f, 0x5f, 0x75, 0x38, 0, 0x75, 0x6e, 0x73, 0x69, 0x67, 0x6e, 0x65,
    0x64, 0x20, 0x63, 0x68],
   [0x61, 0x72, 0, 0x75, 0x63, 0x6c, 0x61, 0x6d, 0x70, 0x5f, 0x73, 0x65, 0, 0x62, 0x75, 0x63,
    0x6b, 0x65, 0x74, 0x5f],
   [0x69, 0x64, 0, 0x61, 0x63, 0x74, 0x69, 0x76, 0x65, 0, 0x75, 0x73, 0x65, 0x72, 0x5f, 0x64,
    0x65, 0x66, 0x69, 0x6e],
   [0x65, 0x64, 0, 0x73, 0x63, 0x68, 0x65, 0x64, 0x5f, 0x73, 0x74, 0x61, 0x74, 0x69, 0x73, 0x74,
    0x69, 0x63, 0x73, 0],
   [0x77, 0x61, 0x69, 0x74, 0x5f, 0x73, 0x74, 0x61, 0x72, 0x74, 0, 0x77, 0x61, 0x69, 0x74, 0x5f,
    0x6d, 0x61, 0x78, 0],
   [0x77, 0x61, 0x69, 0x74, 0x5f, 0x63, 0x6f, 0x75, 0x6e, 0x74, 0, 0x77, 0x61, 0x69, 0x74, 0x5f,
    0x73, 0x75, 0x6d, 0],
   [0x69, 0x6f, 0x77, 0x61, 0x69, 0x74, 0x5f, 0x63, 0x6f, 0x75, 0x6e, 0x74, 0, 0x69, 0x6f, 0x77,
    0x61, 0x69, 0x74, 0x5f],
   [0x73, 0x75, 0x6d, 0, 0x73, 0x6c, 0x65, 0x65, 0x70, 0x5f, 0x73, 0x74, 0x61, 0x72, 0x74, 0,
    0x73, 0x6c, 0x65, 0x65],
   [0x70, 0x5f, 0x6d, 0x61, 0x78, 0, 0x73, 0x75, 0x6d, 0x5f, 0x73, 0x6c, 0x65, 0x65, 0x70, 0x5f,
    0x72, 0x75, 0x6e, 0x74],
   [0x69, 0x6d, 0x65, 0, 0x62, 0x6c, 0x6f, 0x63, 0x6b, 0x5f, 0x73, 0x74, 0x61, 0x72, 0x74, 0,
    0x62, 0x6c, 0x6f, 0x63],
   [0x6b, 0x5f, 0x6d, 0x61, 0x78, 0, 0x73, 0x75, 0x6d, 0x5f, 0x62, 0x6c, 0x6f, 0x63, 0x6b, 0x5f,
    0x72, 0x75, 0x6e, 0x74],
   [0x69, 0x6d, 0x65, 0, 0x65, 0x78, 0x65, 0x63, 0x5f, 0x6d, 0x61, 0x78, 0, 0x73, 0x6c, 0x69,
    0x63, 0x65, 0x5f, 0x6d],
   [0x61, 0x78, 0, 0x6e, 0x72, 0x5f, 0x6d, 0x69, 0x67, 0x72, 0x61, 0x74, 0x69, 0x6f, 0x6e, 0x73,
    0x5f, 0x63, 0x6f, 0x6c],
   [0x64, 0, 0x6e, 0x72, 0x5f, 0x66, 0x61, 0x69, 0x6c, 0x65, 0x64, 0x5f, 0x6d, 0x69, 0x67, 0x72,
    0x61, 0x74, 0x69, 0x6f],
   [0x6e, 0x73, 0x5f, 0x61, 0x66, 0x66, 0x69, 0x6e, 0x65, 0, 0x6e, 0x72, 0x5f, 0x66, 0x61, 0x69,
    0x6c, 0x65, 0x64, 0x5f],
   [0x6d, 0x69, 0x67, 0x72, 0x61, 0x74, 0x69, 0x6f, 0x6e, 0x73, 0x5f, 0x72, 0x75, 0x6e, 0x6e,
    0x69, 0x6e, 0x67, 0, 0x6e],
   [0x72, 0x5f, 0x66, 0x61, 0x69, 0x6c, 0x65, 0x64, 0x5f, 0x6d, 0x69, 0x67, 0x72, 0x61, 0x74,
    0x69, 0x6f, 0x6e, 0x73],
   [0x5f, 0x68, 0x6f, 0x74, 0, 0x6e, 0x72, 0x5f, 0x66, 0x6f, 0x72, 0x63, 0x65, 0x64, 0x5f, 0x6d,
    0x69, 0x67, 0x72, 0x61],
   [0x74, 0x69, 0x6f, 0x6e, 0x73, 0, 0x6e, 0x72, 0x5f, 0x77, 0x61, 0x6b, 0x65, 0x75, 0x70, 0x73,
    0, 0x6e, 0x72, 0x5f],
   [0x77, 0x61, 0x6b, 0x65, 0x75, 0x70, 0x73, 0x5f, 0x73, 0x79, 0x6e, 0x63, 0, 0x6e, 0x72, 0x5f,
    0x77, 0x61, 0x6b, 0x65],
   [0x75, 0x70, 0x73, 0x5f, 0x6d, 0x69, 0x67, 0x72, 0x61, 0x74, 0x65, 0, 0x6e, 0x72, 0x5f, 0x77,
    0x61, 0x6b, 0x65, 0x75],
   [0x70, 0x73, 0x5f, 0x6c, 0x6f, 0x63, 0x61, 0x6c, 0, 0x6e, 0x72, 0x5f, 0x77, 0x61, 0x6b, 0x65,
    0x75, 0x70, 0x73, 0x5f],
   [0x72, 0x65, 0x6d, 0x6f, 0x74, 0x65, 0, 0x6e, 0x72, 0x5f, 0x77, 0x61, 0x6b, 0x65, 0x75, 0x70,
    0x73, 0x5f, 0x61, 0x66],
   [0x66, 0x69, 0x6e, 0x65, 0, 0x6e, 0x72, 0x5f, 0x77, 0x61, 0x6b, 0x65, 0x75, 0x70, 0x73, 0x5f,
    0x61, 0x66, 0x66, 0x69],
   [0x6e, 0x65, 0x5f, 0x61, 0x74, 0x74, 0x65, 0x6d, 0x70, 0x74, 0x73, 0, 0x6e, 0x72, 0x5f, 0x77,
    0x61, 0x6b, 0x65, 0x75],
   [0x70, 0x73, 0x5f, 0x70, 0x61, 0x73, 0x73, 0x69, 0x76, 0x65, 0, 0x6e, 0x72, 0x5f, 0x77, 0x61,
    0x6b, 0x65, 0x75, 0x70],
   [0x73, 0x5f, 0x69, 0x64, 0x6c, 0x65, 0, 0x63, 0x6f, 0x72, 0x65, 0x5f, 0x66, 0x6f, 0x72, 0x63,
    0x65, 0x69, 0x64, 0x6c],
   [0x65, 0x5f, 0x73, 0x75, 0x6d, 0, 0x68, 0x6c, 0x69, 0x73, 0x74, 0x5f, 0x68, 0x65, 0x61, 0x64,
    0, 0x66, 0x69, 0x72],
   [0x73, 0x74, 0, 0x63, 0x70, 0x75, 0x6d, 0x61, 0x73, 0x6b, 0x5f, 0x74, 0, 0x63, 0x70, 0x75,
    0x6d, 0x61, 0x73, 0x6b, 0],
   [0x62, 0x69, 0x74, 0x73, 0, 0x72, 0x63, 0x75, 0x5f, 0x73, 0x70, 0x65, 0x63, 0x69, 0x61, 0x6c,
    0, 0x62, 0, 0x73, 0],
   [0x6e, 0x65, 0x65, 0x64, 0x5f, 0x71, 0x73, 0, 0x65, 0x78, 0x70, 0x5f, 0x68, 0x69, 0x6e, 0x74,
    0, 0x6e, 0x65, 0x65],
   [0x64, 0x5f, 0x6d, 0x62, 0, 0x70, 0x63, 0x6f, 0x75, 0x6e, 0x74, 0, 0x72, 0x75, 0x6e, 0x5f,
    0x64, 0x65, 0x6c, 0x61],
   [0x79, 0, 0x6c, 0x61, 0x73, 0x74, 0x5f, 0x61, 0x72, 0x72, 0x69, 0x76, 0x61, 0x6c, 0, 0x6c,
    0x61, 0x73, 0x74, 0x5f],
   [0x71, 0x75, 0x65, 0x75, 0x65, 0x64, 0, 0x70, 0x6c, 0x69, 0x73, 0x74, 0x5f, 0x6e, 0x6f, 0x64,
    0x65, 0, 0x70, 0x72],
   [0x69, 0x6f, 0x5f, 0x6c, 0x69, 0x73, 0x74, 0, 0x6e, 0x6f, 0x64, 0x65, 0x5f, 0x6c, 0x69, 0x73,
    0x74, 0, 0x74, 0x61],
   [0x73, 0x6b, 0x5f, 0x72, 0x73, 0x73, 0x5f, 0x73, 0x74, 0x61, 0x74, 0, 0x65, 0x76, 0x65, 0x6e,
    0x74, 0x73, 0, 0x63],
   [0x6f, 0x75, 0x6e, 0x74, 0, 0x61, 0x72, 0x63, 0x68, 0x5f, 0x64, 0x61, 0x74, 0x61, 0, 0x66,
    0x6e, 0, 0x6c, 0x6f, 0x6e],
   [0x67, 0, 0x66, 0x75, 0x74, 0x65, 0x78, 0, 0x6e, 0x61, 0x6e, 0x6f, 0x73, 0x6c, 0x65, 0x65,
    0x70, 0, 0x70, 0x6f, 0x6c],
   [0x6c, 0, 0x75, 0x61, 0x64, 0x64, 0x72, 0, 0x76, 0x61, 0x6c, 0, 0x62, 0x69, 0x74, 0x73, 0x65,
    0x74, 0, 0x74, 0x69],
   [0x6d, 0x65, 0, 0x75, 0x61, 0x64, 0x64, 0x72, 0x32, 0, 0x63, 0x6c, 0x6f, 0x63, 0x6b, 0x69,
    0x64, 0, 0x63, 0x6c, 0x6f],
   [0x63, 0x6b, 0x69, 0x64, 0x5f, 0x74, 0, 0x5f, 0x5f, 0x6b, 0x65, 0x72, 0x6e, 0x65, 0x6c, 0x5f,
    0x63, 0x6c, 0x6f, 0x63],
   [0x6b, 0x69, 0x64, 0x5f, 0x74, 0, 0x74, 0x69, 0x6d, 0x65, 0x73, 0x70, 0x65, 0x63, 0x5f, 0x74,
    0x79, 0x70, 0x65, 0],
   [0x54, 0x54, 0x5f, 0x4e, 0x4f, 0x4e, 0x45, 0, 0x54, 0x54, 0x5f, 0x4e, 0x41, 0x54, 0x49, 0x56,
    0x45, 0, 0x54, 0x54],
   [0x5f, 0x43, 0x4f, 0x4d, 0x50, 0x41, 0x54, 0, 0x72, 0x6d, 0x74, 0x70, 0, 0x63, 0x6f, 0x6d,
    0x70, 0x61, 0x74, 0x5f],
   [0x72, 0x6d, 0x74, 0x70, 0, 0x75, 0x66, 0x64, 0x73, 0, 0x6e, 0x66, 0x64, 0x73, 0, 0x68, 0x61,
    0x73, 0x5f, 0x74, 0x69],
   [0x6d, 0x65, 0x6f, 0x75, 0x74, 0, 0x74, 0x76, 0x5f, 0x73, 0x65, 0x63, 0, 0x74, 0x76, 0x5f,
    0x6e, 0x73, 0x65, 0x63, 0],
   [0x68, 0x6c, 0x69, 0x73, 0x74, 0x5f, 0x6e, 0x6f, 0x64, 0x65, 0, 0x70, 0x70, 0x72, 0x65, 0x76,
    0, 0x6c, 0x6f, 0x63],
   [0x6b, 0, 0x72, 0x61, 0x77, 0x5f, 0x73, 0x70, 0x69, 0x6e, 0x6c, 0x6f, 0x63, 0x6b, 0x5f, 0x74,
    0, 0x72, 0x61, 0x77],
   [0x5f, 0x73, 0x70, 0x69, 0x6e, 0x6c, 0x6f, 0x63, 0x6b, 0, 0x72, 0x61, 0x77, 0x5f, 0x6c, 0x6f,
    0x63, 0x6b, 0, 0x61],
   [0x72, 0x63, 0x68, 0x5f, 0x73, 0x70, 0x69, 0x6e, 0x6c, 0x6f, 0x63, 0x6b, 0x5f, 0x74, 0, 0x71,
    0x73, 0x70, 0x69, 0x6e],
   [0x6c, 0x6f, 0x63, 0x6b, 0, 0x6c, 0x6f, 0x63, 0x6b, 0x65, 0x64, 0, 0x6c, 0x6f, 0x63, 0x6b,
    0x65, 0x64, 0x5f, 0x70],
   [0x65, 0x6e, 0x64, 0x69, 0x6e, 0x67, 0, 0x74, 0x61, 0x69, 0x6c, 0, 0x73, 0x65, 0x71, 0x63,
    0x6f, 0x75, 0x6e, 0x74, 0],
   [0x73, 0x74, 0x61, 0x72, 0x74, 0x74, 0x69, 0x6d, 0x65, 0, 0x73, 0x65, 0x71, 0x63, 0x6f, 0x75,
    0x6e, 0x74, 0x5f, 0x74],
   [0, 0x73, 0x65, 0x71, 0x75, 0x65, 0x6e, 0x63, 0x65, 0, 0x76, 0x74, 0x69, 0x6d, 0x65, 0x5f,
    0x73, 0x74, 0x61, 0x74],
   [0x65, 0, 0x56, 0x54, 0x49, 0x4d, 0x45, 0x5f, 0x49, 0x4e, 0x41, 0x43, 0x54, 0x49, 0x56, 0x45,
    0, 0x56, 0x54, 0x49],
   [0x4d, 0x45, 0x5f, 0x49, 0x44, 0x4c, 0x45, 0, 0x56, 0x54, 0x49, 0x4d, 0x45, 0x5f, 0x53, 0x59,
    0x53, 0, 0x56, 0x54],
   [0x49, 0x4d, 0x45, 0x5f, 0x55, 0x53, 0x45, 0x52, 0, 0x56, 0x54, 0x49, 0x4d, 0x45, 0x5f, 0x47,
    0x55, 0x45, 0x53, 0x54],
   [0, 0x62, 0x61, 0x73, 0x65, 0x73, 0, 0x74, 0x69, 0x6d, 0x65, 0x72, 0x73, 0x5f, 0x61, 0x63,
    0x74, 0x69, 0x76, 0x65, 0],
   [0x65, 0x78, 0x70, 0x69, 0x72, 0x79, 0x5f, 0x61, 0x63, 0x74, 0x69, 0x76, 0x65, 0, 0x70, 0x6f,
    0x73, 0x69, 0x78, 0x5f],
   [0x63, 0x70, 0x75, 0x74, 0x69, 0x6d, 0x65, 0x72, 0x5f, 0x62, 0x61, 0x73, 0x65, 0, 0x6e, 0x65,
    0x78, 0x74, 0x65, 0x76],
   [0x74, 0, 0x74, 0x71, 0x68, 0x65, 0x61, 0x64, 0, 0x74, 0x69, 0x6d, 0x65, 0x72, 0x71, 0x75,
    0x65, 0x75, 0x65, 0x5f],
   [0x68, 0x65, 0x61, 0x64, 0, 0x72, 0x62, 0x5f, 0x72, 0x6f, 0x6f, 0x74, 0, 0x72, 0x62, 0x5f,
    0x72, 0x6f, 0x6f, 0x74],
   [0x5f, 0x63, 0x61, 0x63, 0x68, 0x65, 0x64, 0, 0x72, 0x62, 0x5f, 0x6c, 0x65, 0x66, 0x74, 0x6d,
    0x6f, 0x73, 0x74, 0],
   [0x77, 0x6f, 0x72, 0x6b, 0, 0x73, 0x63, 0x68, 0x65, 0x64, 0x75, 0x6c, 0x65, 0x64, 0, 0x63,
    0x61, 0x6c, 0x6c, 0x62],
   [0x61, 0x63, 0x6b, 0x5f, 0x68, 0x65, 0x61, 0x64, 0, 0x66, 0x75, 0x6e, 0x63, 0, 0x73, 0x79,
    0x73, 0x76, 0x5f, 0x73],
   [0x65, 0x6d, 0, 0x75, 0x6e, 0x64, 0x6f, 0x5f, 0x6c, 0x69, 0x73, 0x74, 0, 0x73, 0x79, 0x73,
    0x76, 0x5f, 0x73, 0x68],
   [0x6d, 0, 0x73, 0x68, 0x6d, 0x5f, 0x63, 0x6c, 0x69, 0x73, 0x74, 0, 0x73, 0x69, 0x67, 0x73,
    0x65, 0x74, 0x5f, 0x74, 0],
   [0x73, 0x69, 0x67, 0, 0x73, 0x69, 0x67, 0x70, 0x65, 0x6e, 0x64, 0x69, 0x6e, 0x67, 0, 0x6c,
    0x69, 0x73, 0x74, 0, 0x73],
   [0x69, 0x7a, 0x65, 0x5f, 0x74, 0, 0x5f, 0x5f, 0x6b, 0x65, 0x72, 0x6e, 0x65, 0x6c, 0x5f, 0x73,
    0x69, 0x7a, 0x65, 0x5f],
   [0x74, 0, 0x5f, 0x5f, 0x6b, 0x65, 0x72, 0x6e, 0x65, 0x6c, 0x5f, 0x75, 0x6c, 0x6f, 0x6e, 0x67,
    0x5f, 0x74, 0, 0x6b],
   [0x75, 0x69, 0x64, 0x5f, 0x74, 0, 0x6d, 0x6f, 0x64, 0x65, 0, 0x66, 0x69, 0x6c, 0x74, 0x65,
    0x72, 0x5f, 0x63, 0x6f],
   [0x75, 0x6e, 0x74, 0, 0x66, 0x69, 0x6c, 0x74, 0x65, 0x72, 0, 0x73, 0x79, 0x73, 0x63, 0x61,
    0x6c, 0x6c, 0x5f, 0x75],
   [0x73, 0x65, 0x72, 0x5f, 0x64, 0x69, 0x73, 0x70, 0x61, 0x74, 0x63, 0x68, 0, 0x73, 0x65, 0x6c,
    0x65, 0x63, 0x74, 0x6f],
   [0x72, 0, 0x6f, 0x66, 0x66, 0x73, 0x65, 0x74, 0, 0x6c, 0x65, 0x6e, 0, 0x6f, 0x6e, 0x5f, 0x64,
    0x69, 0x73, 0x70, 0x61],
   [0x74, 0x63, 0x68, 0, 0x62, 0x6f, 0x6f, 0x6c, 0, 0x5f, 0x42, 0x6f, 0x6f, 0x6c, 0, 0x73, 0x70,
    0x69, 0x6e, 0x6c, 0x6f],
   [0x63, 0x6b, 0x5f, 0x74, 0, 0x73, 0x70, 0x69, 0x6e, 0x6c, 0x6f, 0x63, 0x6b, 0, 0x72, 0x6c,
    0x6f, 0x63, 0x6b, 0, 0x77],
   [0x61, 0x6b, 0x65, 0x5f, 0x71, 0x5f, 0x6e, 0x6f, 0x64, 0x65, 0, 0x6b, 0x65, 0x72, 0x6e, 0x65,
    0x6c, 0x5f, 0x73, 0x69],
   [0x67, 0x69, 0x6e, 0x66, 0x6f, 0x5f, 0x74, 0, 0x74, 0x61, 0x73, 0x6b, 0x5f, 0x69, 0x6f, 0x5f,
    0x61, 0x63, 0x63, 0x6f],
   [0x75, 0x6e, 0x74, 0x69, 0x6e, 0x67, 0, 0x72, 0x63, 0x68, 0x61, 0x72, 0, 0x77, 0x63, 0x68,
    0x61, 0x72, 0, 0x73, 0x79],
   [0x73, 0x63, 0x72, 0, 0x73, 0x79, 0x73, 0x63, 0x77, 0, 0x72, 0x65, 0x61, 0x64, 0x5f, 0x62,
    0x79, 0x74, 0x65, 0x73, 0],
   [0x77, 0x72, 0x69, 0x74, 0x65, 0x5f, 0x62, 0x79, 0x74, 0x65, 0x73, 0, 0x63, 0x61, 0x6e, 0x63,
    0x65, 0x6c, 0x6c, 0x65],
   [0x64, 0x5f, 0x77, 0x72, 0x69, 0x74, 0x65, 0x5f, 0x62, 0x79, 0x74, 0x65, 0x73, 0, 0x6e, 0x6f,
    0x64, 0x65, 0x6d, 0x61],
   [0x73, 0x6b, 0x5f, 0x74, 0, 0x73, 0x65, 0x71, 0x63, 0x6f, 0x75, 0x6e, 0x74, 0x5f, 0x73, 0x70,
    0x69, 0x6e, 0x6c, 0x6f],
   [0x63, 0x6b, 0x5f, 0x74, 0, 0x73, 0x65, 0x71, 0x63, 0x6f, 0x75, 0x6e, 0x74, 0x5f, 0x73, 0x70,
    0x69, 0x6e, 0x6c, 0x6f],
   [0x63, 0x6b, 0, 0x6d, 0x75, 0x74, 0x65, 0x78, 0, 0x6f, 0x77, 0x6e, 0x65, 0x72, 0, 0x77, 0x61,
    0x69, 0x74, 0x5f, 0x6c],
   [0x6f, 0x63, 0x6b, 0, 0x6f, 0x73, 0x71, 0, 0x77, 0x61, 0x69, 0x74, 0x5f, 0x6c, 0x69, 0x73,
    0x74, 0, 0x61, 0x74, 0x6f],
   [0x6d, 0x69, 0x63, 0x5f, 0x6c, 0x6f, 0x6e, 0x67, 0x5f, 0x74, 0, 0x61, 0x74, 0x6f, 0x6d, 0x69,
    0x63, 0x36, 0x34, 0x5f],
   [0x74, 0, 0x6f, 0x70, 0x74, 0x69, 0x6d, 0x69, 0x73, 0x74, 0x69, 0x63, 0x5f, 0x73, 0x70, 0x69,
    0x6e, 0x5f, 0x71, 0x75],
   [0x65, 0x75, 0x65, 0, 0x70, 0x65, 0x72, 0x66, 0x5f, 0x65, 0x76, 0x65, 0x6e, 0x74, 0x5f, 0x63,
    0x6f, 0x6e, 0x74, 0x65],
   [0x78, 0x74, 0, 0x70, 0x6d, 0x75, 0, 0x61, 0x63, 0x74, 0x69, 0x76, 0x65, 0x5f, 0x63, 0x74,
    0x78, 0x5f, 0x6c, 0x69],
   [0x73, 0x74, 0, 0x70, 0x69, 0x6e, 0x6e, 0x65, 0x64, 0x5f, 0x67, 0x72, 0x6f, 0x75, 0x70, 0x73,
    0, 0x66, 0x6c, 0x65],
   [0x78, 0x69, 0x62, 0x6c, 0x65, 0x5f, 0x67, 0x72, 0x6f, 0x75, 0x70, 0x73, 0, 0x65, 0x76, 0x65,
    0x6e, 0x74, 0x5f, 0x6c],
   [0x69, 0x73, 0x74, 0, 0x70, 0x69, 0x6e, 0x6e, 0x65, 0x64, 0x5f, 0x61, 0x63, 0x74, 0x69, 0x76,
    0x65, 0, 0x66, 0x6c],
   [0x65, 0x78, 0x69, 0x62, 0x6c, 0x65, 0x5f, 0x61, 0x63, 0x74, 0x69, 0x76, 0x65, 0, 0x6e, 0x72,
    0x5f, 0x65, 0x76, 0x65],
   [0x6e, 0x74, 0x73, 0, 0x6e, 0x72, 0x5f, 0x61, 0x63, 0x74, 0x69, 0x76, 0x65, 0, 0x6e, 0x72,
    0x5f, 0x75, 0x73, 0x65],
   [0x72, 0, 0x69, 0x73, 0x5f, 0x61, 0x63, 0x74, 0x69, 0x76, 0x65, 0, 0x6e, 0x72, 0x5f, 0x73,
    0x74, 0x61, 0x74, 0, 0x6e],
   [0x72, 0x5f, 0x66, 0x72, 0x65, 0x71, 0, 0x72, 0x6f, 0x74, 0x61, 0x74, 0x65, 0x5f, 0x64, 0x69,
    0x73, 0x61, 0x62, 0x6c],
   [0x65, 0, 0x72, 0x6f, 0x74, 0x61, 0x74, 0x65, 0x5f, 0x6e, 0x65, 0x63, 0x65, 0x73, 0x73, 0x61,
    0x72, 0x79, 0, 0x72],
   [0x65, 0x66, 0x63, 0x6f, 0x75, 0x6e, 0x74, 0, 0x74, 0x61, 0x73, 0x6b, 0, 0x74, 0x69, 0x6d,
    0x65, 0x73, 0x74, 0x61],
   [0x6d, 0x70, 0, 0x74, 0x69, 0x6d, 0x65, 0x6f, 0x66, 0x66, 0x73, 0x65, 0x74, 0, 0x70, 0x61,
    0x72, 0x65, 0x6e, 0x74],
   [0x5f, 0x63, 0x74, 0x78, 0, 0x70, 0x61, 0x72, 0x65, 0x6e, 0x74, 0x5f, 0x67, 0x65, 0x6e, 0,
    0x67, 0x65, 0x6e, 0x65],
   [0x72, 0x61, 0x74, 0x69, 0x6f, 0x6e, 0, 0x70, 0x69, 0x6e, 0x5f, 0x63, 0x6f, 0x75, 0x6e, 0x74,
    0, 0x6e, 0x72, 0x5f],
   [0x63, 0x67, 0x72, 0x6f, 0x75, 0x70, 0x73, 0, 0x74, 0x61, 0x73, 0x6b, 0x5f, 0x63, 0x74, 0x78,
    0x5f, 0x64, 0x61, 0x74],
   [0x61, 0, 0x6e, 0x72, 0x5f, 0x70, 0x65, 0x6e, 0x64, 0x69, 0x6e, 0x67, 0, 0x70, 0x65, 0x72,
    0x66, 0x5f, 0x65, 0x76],
   [0x65, 0x6e, 0x74, 0x5f, 0x67, 0x72, 0x6f, 0x75, 0x70, 0x73, 0, 0x74, 0x72, 0x65, 0x65, 0,
    0x69, 0x6e, 0x64, 0x65],
   [0x78, 0, 0x6c, 0x6f, 0x63, 0x61, 0x6c, 0x5f, 0x74, 0, 0x61, 0, 0x73, 0x68, 0x6f, 0x72, 0x74,
    0, 0x74, 0x6c, 0x62],
   [0x66, 0x6c, 0x75, 0x73, 0x68, 0x5f, 0x75, 0x6e, 0x6d, 0x61, 0x70, 0x5f, 0x62, 0x61, 0x74,
    0x63, 0x68, 0, 0x61, 0x72],
   [0x63, 0x68, 0, 0x66, 0x6c, 0x75, 0x73, 0x68, 0x5f, 0x72, 0x65, 0x71, 0x75, 0x69, 0x72, 0x65,
    0x64, 0, 0x77, 0x72],
   [0x69, 0x74, 0x61, 0x62, 0x6c, 0x65, 0, 0x61, 0x72, 0x63, 0x68, 0x5f, 0x74, 0x6c, 0x62, 0x66,
    0x6c, 0x75, 0x73, 0x68],
   [0x5f, 0x75, 0x6e, 0x6d, 0x61, 0x70, 0x5f, 0x62, 0x61, 0x74, 0x63, 0x68, 0, 0x72, 0x63, 0x75,
    0x5f, 0x75, 0x73, 0x65],
   [0x72, 0x73, 0, 0x72, 0x63, 0x75, 0, 0x70, 0x61, 0x67, 0x65, 0x5f, 0x66, 0x72, 0x61, 0x67, 0,
    0x70, 0x61, 0x67, 0x65],
   [0, 0x73, 0x69, 0x7a, 0x65, 0, 0x62, 0x61, 0x63, 0x6b, 0x74, 0x72, 0x61, 0x63, 0x65, 0, 0x6d,
    0x61, 0x78, 0, 0x67],
   [0x66, 0x70, 0x5f, 0x74, 0, 0x74, 0x69, 0x6d, 0x65, 0x72, 0x5f, 0x6c, 0x69, 0x73, 0x74, 0,
    0x65, 0x6e, 0x74, 0x72],
   [0x79, 0, 0x6c, 0x6c, 0x69, 0x73, 0x74, 0x5f, 0x68, 0x65, 0x61, 0x64, 0, 0x74, 0x68, 0x72,
    0x65, 0x61, 0x64, 0x5f],
   [0x73, 0x74, 0x72, 0x75, 0x63, 0x74, 0, 0x74, 0x6c, 0x73, 0x5f, 0x61, 0x72, 0x72, 0x61, 0x79,
    0, 0x73, 0x70, 0, 0x65],
   [0x73, 0, 0x64, 0x73, 0, 0x66, 0x73, 0x69, 0x6e, 0x64, 0x65, 0x78, 0, 0x67, 0x73, 0x69, 0x6e,
    0x64, 0x65, 0x78, 0],
   [0x66, 0x73, 0x62, 0x61, 0x73, 0x65, 0, 0x67, 0x73, 0x62, 0x61, 0x73, 0x65, 0, 0x70, 0x74,
    0x72, 0x61, 0x63, 0x65],
   [0x5f, 0x62, 0x70, 0x73, 0, 0x76, 0x69, 0x72, 0x74, 0x75, 0x61, 0x6c, 0x5f, 0x64, 0x72, 0x36,
    0, 0x70, 0x74, 0x72]]"

lemma length_btf_strings_3: "length (concat btf_strings_3) = 2465"
  by (simp add: btf_strings_3_def)

definition btf_strings_4 :: "bytes list" where
  "btf_strings_4 = [
   [0x61, 0x63, 0x65, 0x5f, 0x64, 0x72, 0x37, 0, 0x63, 0x72, 0x32, 0, 0x74, 0x72, 0x61, 0x70,
    0x5f, 0x6e, 0x72, 0, 0x65],
   [0x72, 0x72, 0x6f, 0x72, 0x5f, 0x63, 0x6f, 0x64, 0x65, 0, 0x69, 0x6f, 0x5f, 0x62, 0x69, 0x74,
    0x6d, 0x61, 0x70, 0],
   [0x69, 0x6f, 0x70, 0x6c, 0x5f, 0x65, 0x6d, 0x75, 0x6c, 0, 0x69, 0x6f, 0x70, 0x6c, 0x5f, 0x77,
    0x61, 0x72, 0x6e, 0],
   [0x73, 0x69, 0x67, 0x5f, 0x6f, 0x6e, 0x5f, 0x75, 0x61, 0x63, 0x63, 0x65, 0x73, 0x73, 0x5f,
    0x65, 0x72, 0x72, 0, 0x70],
   [0x6b, 0x72, 0x75, 0, 0x66, 0x70, 0x75, 0, 0x64, 0x65, 0x73, 0x63, 0x5f, 0x73, 0x74, 0x72,
    0x75, 0x63, 0x74, 0, 0x6c],
   [0x69, 0x6d, 0x69, 0x74, 0x30, 0, 0x62, 0x61, 0x73, 0x65, 0x30, 0, 0x62, 0x61, 0x73, 0x65,
    0x31, 0, 0x64, 0x70, 0x6c],
   [0, 0x70, 0, 0x6c, 0x69, 0x6d, 0x69, 0x74, 0x31, 0, 0x61, 0x76, 0x6c, 0, 0x6c, 0, 0x64, 0,
    0x67, 0, 0x62, 0x61, 0x73],
   [0x65, 0x32, 0, 0x70, 0x65, 0x72, 0x66, 0x5f, 0x65, 0x76, 0x65, 0x6e, 0x74, 0, 0x65, 0x76,
    0x65, 0x6e, 0x74, 0x5f],
   [0x65, 0x6e, 0x74, 0x72, 0x79, 0, 0x73, 0x69, 0x62, 0x6c, 0x69, 0x6e, 0x67, 0x5f, 0x6c, 0x69,
    0x73, 0x74, 0, 0x61],
   [0x63, 0x74, 0x69, 0x76, 0x65, 0x5f, 0x6c, 0x69, 0x73, 0x74, 0, 0x67, 0x72, 0x6f, 0x75, 0x70,
    0x5f, 0x69, 0x6e, 0x64],
   [0x65, 0x78, 0, 0x6d, 0x69, 0x67, 0x72, 0x61, 0x74, 0x65, 0x5f, 0x65, 0x6e, 0x74, 0x72, 0x79,
    0, 0x68, 0x6c, 0x69],
   [0x73, 0x74, 0x5f, 0x65, 0x6e, 0x74, 0x72, 0x79, 0, 0x61, 0x63, 0x74, 0x69, 0x76, 0x65, 0x5f,
    0x65, 0x6e, 0x74, 0x72],
   [0x79, 0, 0x6e, 0x72, 0x5f, 0x73, 0x69, 0x62, 0x6c, 0x69, 0x6e, 0x67, 0x73, 0, 0x65, 0x76,
    0x65, 0x6e, 0x74, 0x5f],
   [0x63, 0x61, 0x70, 0x73, 0, 0x67, 0x72, 0x6f, 0x75, 0x70, 0x5f, 0x63, 0x61, 0x70, 0x73, 0,
    0x70, 0x6d, 0x75, 0x5f],
   [0x70, 0x72, 0x69, 0x76, 0x61, 0x74, 0x65, 0, 0x61, 0x74, 0x74, 0x61, 0x63, 0x68, 0x5f, 0x73,
    0x74, 0x61, 0x74, 0x65],
   [0, 0x63, 0x68, 0x69, 0x6c, 0x64, 0x5f, 0x63, 0x6f, 0x75, 0x6e, 0x74, 0, 0x74, 0x6f, 0x74,
    0x61, 0x6c, 0x5f, 0x74],
   [0x69, 0x6d, 0x65, 0x5f, 0x65, 0x6e, 0x61, 0x62, 0x6c, 0x65, 0x64, 0, 0x74, 0x6f, 0x74, 0x61,
    0x6c, 0x5f, 0x74, 0x69],
   [0x6d, 0x65, 0x5f, 0x72, 0x75, 0x6e, 0x6e, 0x69, 0x6e, 0x67, 0, 0x74, 0x73, 0x74, 0x61, 0x6d,
    0x70, 0, 0x61, 0x74],
   [0x74, 0x72, 0, 0x68, 0x65, 0x61, 0x64, 0x65, 0x72, 0x5f, 0x73, 0x69, 0x7a, 0x65, 0, 0x69,
    0x64, 0x5f, 0x68, 0x65],
   [0x61, 0x64, 0x65, 0x72, 0x5f, 0x73, 0x69, 0x7a, 0x65, 0, 0x72, 0x65, 0x61, 0x64, 0x5f, 0x73,
    0x69, 0x7a, 0x65, 0],
   [0x68, 0x77, 0, 0x63, 0x68, 0x69, 0x6c, 0x64, 0x5f, 0x74, 0x6f, 0x74, 0x61, 0x6c, 0x5f, 0x74,
    0x69, 0x6d, 0x65, 0x5f],
   [0x65, 0x6e, 0x61, 0x62, 0x6c, 0x65, 0x64, 0, 0x63, 0x68, 0x69, 0x6c, 0x64, 0x5f, 0x74, 0x6f,
    0x74, 0x61, 0x6c, 0x5f],
   [0x74, 0x69, 0x6d, 0x65, 0x5f, 0x72, 0x75, 0x6e, 0x6e, 0x69, 0x6e, 0x67, 0, 0x63, 0x68, 0x69,
    0x6c, 0x64, 0x5f, 0x6d],
   [0x75, 0x74, 0x65, 0x78, 0, 0x63, 0x68, 0x69, 0x6c, 0x64, 0x5f, 0x6c, 0x69, 0x73, 0x74, 0,
    0x6f, 0x6e, 0x63, 0x70],
   [0x75, 0, 0x6f, 0x77, 0x6e, 0x65, 0x72, 0x5f, 0x65, 0x6e, 0x74, 0x72, 0x79, 0, 0x6d, 0x6d,
    0x61, 0x70, 0x5f, 0x6d],
   [0x75, 0x74, 0x65, 0x78, 0, 0x6d, 0x6d, 0x61, 0x70, 0x5f, 0x63, 0x6f, 0x75, 0x6e, 0x74, 0,
    0x72, 0x62, 0, 0x72, 0x62],
   [0x5f, 0x65, 0x6e, 0x74, 0x72, 0x79, 0, 0x72, 0x63, 0x75, 0x5f, 0x62, 0x61, 0x74, 0x63, 0x68,
    0x65, 0x73, 0, 0x72],
   [0x63, 0x75, 0x5f, 0x70, 0x65, 0x6e, 0x64, 0x69, 0x6e, 0x67, 0, 0x77, 0x61, 0x69, 0x74, 0x71,
    0, 0x66, 0x61, 0x73],
   [0x79, 0x6e, 0x63, 0, 0x70, 0x65, 0x6e, 0x64, 0x69, 0x6e, 0x67, 0x5f, 0x77, 0x61, 0x6b, 0x65,
    0x75, 0x70, 0, 0x70],
   [0x65, 0x6e, 0x64, 0x69, 0x6e, 0x67, 0x5f, 0x6b, 0x69, 0x6c, 0x6c, 0, 0x70, 0x65, 0x6e, 0x64,
    0x69, 0x6e, 0x67, 0x5f],
   [0x64, 0x69, 0x73, 0x61, 0x62, 0x6c, 0x65, 0, 0x70, 0x65, 0x6e, 0x64, 0x69, 0x6e, 0x67, 0x5f,
    0x73, 0x69, 0x67, 0x74],
   [0x72, 0x61, 0x70, 0, 0x70, 0x65, 0x6e, 0x64, 0x69, 0x6e, 0x67, 0x5f, 0x61, 0x64, 0x64, 0x72,
    0, 0x70, 0x65, 0x6e],
   [0x64, 0x69, 0x6e, 0x67, 0x5f, 0x69, 0x72, 0x71, 0, 0x70, 0x65, 0x6e, 0x64, 0x69, 0x6e, 0x67,
    0x5f, 0x74, 0x61, 0x73],
   [0x6b, 0, 0x70, 0x65, 0x6e, 0x64, 0x69, 0x6e, 0x67, 0x5f, 0x77, 0x6f, 0x72, 0x6b, 0, 0x65,
    0x76, 0x65, 0x6e, 0x74],
   [0x5f, 0x6c, 0x69, 0x6d, 0x69, 0x74, 0, 0x61, 0x64, 0x64, 0x72, 0x5f, 0x66, 0x69, 0x6c, 0x74,
    0x65, 0x72, 0x73, 0],
   [0x61, 0x64, 0x64, 0x72, 0x5f, 0x66, 0x69, 0x6c, 0x74, 0x65, 0x72, 0x5f, 0x72, 0x61, 0x6e,
    0x67, 0x65, 0x73, 0, 0x61],
   [0x64, 0x64, 0x72, 0x5f, 0x66, 0x69, 0x6c, 0x74, 0x65, 0x72, 0x73, 0x5f, 0x67, 0x65, 0x6e, 0,
    0x61, 0x75, 0x78, 0x5f],
   [0x65, 0x76, 0x65, 0x6e, 0x74, 0, 0x64, 0x65, 0x73, 0x74, 0x72, 0x6f, 0x79, 0, 0x6e, 0x73, 0,
    0x69, 0x64, 0, 0x6c],
   [0x6f, 0x73, 0x74, 0x5f, 0x73, 0x61, 0x6d, 0x70, 0x6c, 0x65, 0x73, 0, 0x63, 0x6c, 0x6f, 0x63,
    0x6b, 0, 0x6f, 0x76],
   [0x65, 0x72, 0x66, 0x6c, 0x6f, 0x77, 0x5f, 0x68, 0x61, 0x6e, 0x64, 0x6c, 0x65, 0x72, 0, 0x6f,
    0x76, 0x65, 0x72, 0x66],
   [0x6c, 0x6f, 0x77, 0x5f, 0x68, 0x61, 0x6e, 0x64, 0x6c, 0x65, 0x72, 0x5f, 0x63, 0x6f, 0x6e,
    0x74, 0x65, 0x78, 0x74, 0],
   [0x6f, 0x72, 0x69, 0x67, 0x5f, 0x6f, 0x76, 0x65, 0x72, 0x66, 0x6c, 0x6f, 0x77, 0x5f, 0x68,
    0x61, 0x6e, 0x64, 0x6c],
   [0x65, 0x72, 0, 0x70, 0x72, 0x6f, 0x67, 0, 0x62, 0x70, 0x66, 0x5f, 0x63, 0x6f, 0x6f, 0x6b,
    0x69, 0x65, 0, 0x74, 0x70],
   [0x5f, 0x65, 0x76, 0x65, 0x6e, 0x74, 0, 0x66, 0x74, 0x72, 0x61, 0x63, 0x65, 0x5f, 0x6f, 0x70,
    0x73, 0, 0x63, 0x67],
   [0x72, 0x70, 0, 0x73, 0x62, 0x5f, 0x6c, 0x69, 0x73, 0x74, 0, 0x70, 0x65, 0x72, 0x66, 0x5f,
    0x65, 0x76, 0x65, 0x6e],
   [0x74, 0x5f, 0x73, 0x74, 0x61, 0x74, 0x65, 0, 0x50, 0x45, 0x52, 0x46, 0x5f, 0x45, 0x56, 0x45,
    0x4e, 0x54, 0x5f, 0x53],
   [0x54, 0x41, 0x54, 0x45, 0x5f, 0x44, 0x45, 0x41, 0x44, 0, 0x50, 0x45, 0x52, 0x46, 0x5f, 0x45,
    0x56, 0x45, 0x4e, 0x54],
   [0x5f, 0x53, 0x54, 0x41, 0x54, 0x45, 0x5f, 0x45, 0x58, 0x49, 0x54, 0, 0x50, 0x45, 0x52, 0x46,
    0x5f, 0x45, 0x56, 0x45],
   [0x4e, 0x54, 0x5f, 0x53, 0x54, 0x41, 0x54, 0x45, 0x5f, 0x45, 0x52, 0x52, 0x4f, 0x52, 0, 0x50,
    0x45, 0x52, 0x46, 0x5f],
   [0x45, 0x56, 0x45, 0x4e, 0x54, 0x5f, 0x53, 0x54, 0x41, 0x54, 0x45, 0x5f, 0x4f, 0x46, 0x46, 0,
    0x50, 0x45, 0x52, 0x46],
   [0x5f, 0x45, 0x56, 0x45, 0x4e, 0x54, 0x5f, 0x53, 0x54, 0x41, 0x54, 0x45, 0x5f, 0x49, 0x4e,
    0x41, 0x43, 0x54, 0x49],
   [0x56, 0x45, 0, 0x50, 0x45, 0x52, 0x46, 0x5f, 0x45, 0x56, 0x45, 0x4e, 0x54, 0x5f, 0x53, 0x54,
    0x41, 0x54, 0x45, 0x5f],
   [0x41, 0x43, 0x54, 0x49, 0x56, 0x45, 0, 0x6c, 0x6f, 0x63, 0x61, 0x6c, 0x36, 0x34, 0x5f, 0x74,
    0, 0x70, 0x65, 0x72],
   [0x66, 0x5f, 0x65, 0x76, 0x65, 0x6e, 0x74, 0x5f, 0x61, 0x74, 0x74, 0x72, 0, 0x63, 0x6f, 0x6e,
    0x66, 0x69, 0x67, 0],
   [0x73, 0x61, 0x6d, 0x70, 0x6c, 0x65, 0x5f, 0x74, 0x79, 0x70, 0x65, 0, 0x72, 0x65, 0x61, 0x64,
    0x5f, 0x66, 0x6f, 0x72],
   [0x6d, 0x61, 0x74, 0, 0x64, 0x69, 0x73, 0x61, 0x62, 0x6c, 0x65, 0x64, 0, 0x69, 0x6e, 0x68,
    0x65, 0x72, 0x69, 0x74, 0],
   [0x70, 0x69, 0x6e, 0x6e, 0x65, 0x64, 0, 0x65, 0x78, 0x63, 0x6c, 0x75, 0x73, 0x69, 0x76, 0x65,
    0, 0x65, 0x78, 0x63],
   [0x6c, 0x75, 0x64, 0x65, 0x5f, 0x75, 0x73, 0x65, 0x72, 0, 0x65, 0x78, 0x63, 0x6c, 0x75, 0x64,
    0x65, 0x5f, 0x6b, 0x65],
   [0x72, 0x6e, 0x65, 0x6c, 0, 0x65, 0x78, 0x63, 0x6c, 0x75, 0x64, 0x65, 0x5f, 0x68, 0x76, 0,
    0x65, 0x78, 0x63, 0x6c],
   [0x75, 0x64, 0x65, 0x5f, 0x69, 0x64, 0x6c, 0x65, 0, 0x6d, 0x6d, 0x61, 0x70, 0, 0x66, 0x72,
    0x65, 0x71, 0, 0x69, 0x6e],
   [0x68, 0x65, 0x72, 0x69, 0x74, 0x5f, 0x73, 0x74, 0x61, 0x74, 0, 0x65, 0x6e, 0x61, 0x62, 0x6c,
    0x65, 0x5f, 0x6f, 0x6e],
   [0x5f, 0x65, 0x78, 0x65, 0x63, 0, 0x77, 0x61, 0x74, 0x65, 0x72, 0x6d, 0x61, 0x72, 0x6b, 0,
    0x70, 0x72, 0x65, 0x63],
   [0x69, 0x73, 0x65, 0x5f, 0x69, 0x70, 0, 0x6d, 0x6d, 0x61, 0x70, 0x5f, 0x64, 0x61, 0x74, 0x61,
    0, 0x73, 0x61, 0x6d],
   [0x70, 0x6c, 0x65, 0x5f, 0x69, 0x64, 0x5f, 0x61, 0x6c, 0x6c, 0, 0x65, 0x78, 0x63, 0x6c, 0x75,
    0x64, 0x65, 0x5f, 0x68],
   [0x6f, 0x73, 0x74, 0, 0x65, 0x78, 0x63, 0x6c, 0x75, 0x64, 0x65, 0x5f, 0x67, 0x75, 0x65, 0x73,
    0x74, 0, 0x65, 0x78],
   [0x63, 0x6c, 0x75, 0x64, 0x65, 0x5f, 0x63, 0x61, 0x6c, 0x6c, 0x63, 0x68, 0x61, 0x69, 0x6e,
    0x5f, 0x6b, 0x65, 0x72],
   [0x6e, 0x65, 0x6c, 0, 0x65, 0x78, 0x63, 0x6c, 0x75, 0x64, 0x65, 0x5f, 0x63, 0x61, 0x6c, 0x6c,
    0x63, 0x68, 0x61, 0x69],
   [0x6e, 0x5f, 0x75, 0x73, 0x65, 0x72, 0, 0x6d, 0x6d, 0x61, 0x70, 0x32, 0, 0x63, 0x6f, 0x6d,
    0x6d, 0x5f, 0x65, 0x78],
   [0x65, 0x63, 0, 0x75, 0x73, 0x65, 0x5f, 0x63, 0x6c, 0x6f, 0x63, 0x6b, 0x69, 0x64, 0, 0x63,
    0x6f, 0x6e, 0x74, 0x65],
   [0x78, 0x74, 0x5f, 0x73, 0x77, 0x69, 0x74, 0x63, 0x68, 0, 0x77, 0x72, 0x69, 0x74, 0x65, 0x5f,
    0x62, 0x61, 0x63, 0x6b],
   [0x77, 0x61, 0x72, 0x64, 0, 0x6e, 0x61, 0x6d, 0x65, 0x73, 0x70, 0x61, 0x63, 0x65, 0x73, 0,
    0x6b, 0x73, 0x79, 0x6d],
   [0x62, 0x6f, 0x6c, 0, 0x62, 0x70, 0x66, 0x5f, 0x65, 0x76, 0x65, 0x6e, 0x74, 0, 0x61, 0x75,
    0x78, 0x5f, 0x6f, 0x75],
   [0x74, 0x70, 0x75, 0x74, 0, 0x63, 0x67, 0x72, 0x6f, 0x75, 0x70, 0, 0x74, 0x65, 0x78, 0x74,
    0x5f, 0x70, 0x6f, 0x6b],
   [0x65, 0, 0x62, 0x75, 0x69, 0x6c, 0x64, 0x5f, 0x69, 0x64, 0, 0x69, 0x6e, 0x68, 0x65, 0x72,
    0x69, 0x74, 0x5f, 0x74],
   [0x68, 0x72, 0x65, 0x61, 0x64, 0, 0x72, 0x65, 0x6d, 0x6f, 0x76, 0x65, 0x5f, 0x6f, 0x6e, 0x5f,
    0x65, 0x78, 0x65, 0x63],
   [0, 0x73, 0x69, 0x67, 0x74, 0x72, 0x61, 0x70, 0, 0x5f, 0x5f, 0x72, 0x65, 0x73, 0x65, 0x72,
    0x76, 0x65, 0x64, 0x5f],
   [0x31, 0, 0x62, 0x70, 0x5f, 0x74, 0x79, 0x70, 0x65, 0, 0x62, 0x72, 0x61, 0x6e, 0x63, 0x68,
    0x5f, 0x73, 0x61, 0x6d],
   [0x70, 0x6c, 0x65, 0x5f, 0x74, 0x79, 0x70, 0x65, 0, 0x73, 0x61, 0x6d, 0x70, 0x6c, 0x65, 0x5f,
    0x72, 0x65, 0x67, 0x73],
   [0x5f, 0x75, 0x73, 0x65, 0x72, 0, 0x73, 0x61, 0x6d, 0x70, 0x6c, 0x65, 0x5f, 0x73, 0x74, 0x61,
    0x63, 0x6b, 0x5f, 0x75],
   [0x73, 0x65, 0x72, 0, 0x73, 0x61, 0x6d, 0x70, 0x6c, 0x65, 0x5f, 0x72, 0x65, 0x67, 0x73, 0x5f,
    0x69, 0x6e, 0x74, 0x72],
   [0, 0x61, 0x75, 0x78, 0x5f, 0x77, 0x61, 0x74, 0x65, 0x72, 0x6d, 0x61, 0x72, 0x6b, 0, 0x73,
    0x61, 0x6d, 0x70, 0x6c],
   [0x65, 0x5f, 0x6d, 0x61, 0x78, 0x5f, 0x73, 0x74, 0x61, 0x63, 0x6b, 0, 0x5f, 0x5f, 0x72, 0x65,
    0x73, 0x65, 0x72, 0x76],
   [0x65, 0x64, 0x5f, 0x32, 0, 0x61, 0x75, 0x78, 0x5f, 0x73, 0x61, 0x6d, 0x70, 0x6c, 0x65, 0x5f,
    0x73, 0x69, 0x7a, 0x65],
   [0, 0x5f, 0x5f, 0x72, 0x65, 0x73, 0x65, 0x72, 0x76, 0x65, 0x64, 0x5f, 0x33, 0, 0x73, 0x69,
    0x67, 0x5f, 0x64, 0x61],
   [0x74, 0x61, 0, 0x73, 0x61, 0x6d, 0x70, 0x6c, 0x65, 0x5f, 0x70, 0x65, 0x72, 0x69, 0x6f, 0x64,
    0, 0x73, 0x61, 0x6d],
   [0x70, 0x6c, 0x65, 0x5f, 0x66, 0x72, 0x65, 0x71, 0, 0x77, 0x61, 0x6b, 0x65, 0x75, 0x70, 0x5f,
    0x65, 0x76, 0x65, 0x6e],
   [0x74, 0x73, 0, 0x77, 0x61, 0x6b, 0x65, 0x75, 0x70, 0x5f, 0x77, 0x61, 0x74, 0x65, 0x72, 0x6d,
    0x61, 0x72, 0x6b, 0],
   [0x62, 0x70, 0x5f, 0x61, 0x64, 0x64, 0x72, 0, 0x6b, 0x70, 0x72, 0x6f, 0x62, 0x65, 0x5f, 0x66,
    0x75, 0x6e, 0x63, 0],
   [0x75, 0x70, 0x72, 0x6f, 0x62, 0x65, 0x5f, 0x70, 0x61, 0x74, 0x68, 0, 0x63, 0x6f, 0x6e, 0x66,
    0x69, 0x67, 0x31, 0],
   [0x62, 0x70, 0x5f, 0x6c, 0x65, 0x6e, 0, 0x6b, 0x70, 0x72, 0x6f, 0x62, 0x65, 0x5f, 0x61, 0x64,
    0x64, 0x72, 0, 0x70],
   [0x72, 0x6f, 0x62, 0x65, 0x5f, 0x6f, 0x66, 0x66, 0x73, 0x65, 0x74, 0, 0x63, 0x6f, 0x6e, 0x66,
    0x69, 0x67, 0x32, 0],
   [0x5f, 0x5f, 0x73, 0x33, 0x32, 0, 0x68, 0x77, 0x5f, 0x70, 0x65, 0x72, 0x66, 0x5f, 0x65, 0x76,
    0x65, 0x6e, 0x74, 0],
   [0x74, 0x61, 0x72, 0x67, 0x65, 0x74, 0, 0x70, 0x72, 0x65, 0x76, 0x5f, 0x63, 0x6f, 0x75, 0x6e,
    0x74, 0, 0x69, 0x6e],
   [0x74, 0x65, 0x72, 0x72, 0x75, 0x70, 0x74, 0x73, 0x5f, 0x73, 0x65, 0x71, 0, 0x69, 0x6e, 0x74,
    0x65, 0x72, 0x72, 0x75],
   [0x70, 0x74, 0x73, 0, 0x66, 0x72, 0x65, 0x71, 0x5f, 0x74, 0x69, 0x6d, 0x65, 0x5f, 0x73, 0x74,
    0x61, 0x6d, 0x70, 0],
   [0x66, 0x72, 0x65, 0x71, 0x5f, 0x63, 0x6f, 0x75, 0x6e, 0x74, 0x5f, 0x73, 0x74, 0x61, 0x6d,
    0x70, 0, 0x6c, 0x61, 0x73],
   [0x74, 0x5f, 0x74, 0x61, 0x67, 0, 0x63, 0x6f, 0x6e, 0x66, 0x69, 0x67, 0x5f, 0x62, 0x61, 0x73,
    0x65, 0, 0x65, 0x76],
   [0x65, 0x6e, 0x74, 0x5f, 0x62, 0x61, 0x73, 0x65, 0, 0x65, 0x76, 0x65, 0x6e, 0x74, 0x5f, 0x62,
    0x61, 0x73, 0x65, 0x5f],
   [0x72, 0x64, 0x70, 0x6d, 0x63, 0, 0x69, 0x64, 0x78, 0, 0x6c, 0x61, 0x73, 0x74, 0x5f, 0x63,
    0x70, 0x75, 0, 0x65, 0x78],
   [0x74, 0x72, 0x61, 0x5f, 0x72, 0x65, 0x67, 0, 0x62, 0x72, 0x61, 0x6e, 0x63, 0x68, 0x5f, 0x72,
    0x65, 0x67, 0, 0x68],
   [0x77, 0x5f, 0x70, 0x65, 0x72, 0x66, 0x5f, 0x65, 0x76, 0x65, 0x6e, 0x74, 0x5f, 0x65, 0x78,
    0x74, 0x72, 0x61, 0, 0x72],
   [0x65, 0x67, 0, 0x61, 0x6c, 0x6c, 0x6f, 0x63, 0, 0x74, 0x70, 0x5f, 0x6c, 0x69, 0x73, 0x74, 0,
    0x70, 0x77, 0x72, 0x5f],
   [0x61, 0x63, 0x63, 0, 0x70, 0x74, 0x73, 0x63, 0, 0x69, 0x6e, 0x66, 0x6f, 0, 0x62, 0x70, 0x5f,
    0x6c, 0x69, 0x73, 0x74],
   [0, 0x61, 0x72, 0x63, 0x68, 0x5f, 0x68, 0x77, 0x5f, 0x62, 0x72, 0x65, 0x61, 0x6b, 0x70, 0x6f,
    0x69, 0x6e, 0x74, 0],
   [0x61, 0x64, 0x64, 0x72, 0x65, 0x73, 0x73, 0, 0x6d, 0x61, 0x73, 0x6b, 0, 0x72, 0x68, 0x6c,
    0x69, 0x73, 0x74, 0x5f],
   [0x68, 0x65, 0x61, 0x64, 0, 0x72, 0x68, 0x65, 0x61, 0x64, 0, 0x72, 0x68, 0x61, 0x73, 0x68,
    0x5f, 0x68, 0x65, 0x61],
   [0x64, 0, 0x69, 0x6f, 0x6d, 0x6d, 0x75, 0x5f, 0x62, 0x61, 0x6e, 0x6b, 0, 0x69, 0x6f, 0x6d,
    0x6d, 0x75, 0x5f, 0x63],
   [0x6e, 0x74, 0x72, 0, 0x70, 0x61, 0x64, 0x64, 0x69, 0x6e, 0x67, 0, 0x63, 0x6f, 0x6e, 0x66, 0,
    0x63, 0x6f, 0x6e, 0x66],
   [0x31, 0, 0x6c, 0x61, 0x73, 0x74, 0x5f, 0x70, 0x65, 0x72, 0x69, 0x6f, 0x64, 0, 0x70, 0x65,
    0x72, 0x69, 0x6f, 0x64],
   [0x5f, 0x6c, 0x65, 0x66, 0x74, 0, 0x73, 0x61, 0x76, 0x65, 0x64, 0x5f, 0x6d, 0x65, 0x74, 0x72,
    0x69, 0x63, 0, 0x73],
   [0x61, 0x76, 0x65, 0x64, 0x5f, 0x73, 0x6c, 0x6f, 0x74, 0x73, 0, 0x77, 0x61, 0x69, 0x74, 0x5f,
    0x71, 0x75, 0x65, 0x75],
   [0x65, 0x5f, 0x68, 0x65, 0x61, 0x64, 0x5f, 0x74, 0, 0x77, 0x61, 0x69, 0x74, 0x5f, 0x71, 0x75,
    0x65, 0x75, 0x65, 0x5f],
   [0x68, 0x65, 0x61, 0x64, 0, 0x68, 0x65, 0x61, 0x64, 0, 0x69, 0x72, 0x71, 0x5f, 0x77, 0x6f,
    0x72, 0x6b, 0, 0x69, 0x72],
   [0x71, 0x77, 0x61, 0x69, 0x74, 0, 0x72, 0x63, 0x75, 0x77, 0x61, 0x69, 0x74, 0, 0x70, 0x65,
    0x72, 0x66, 0x5f, 0x61],
   [0x64, 0x64, 0x72, 0x5f, 0x66, 0x69, 0x6c, 0x74, 0x65, 0x72, 0x73, 0x5f, 0x68, 0x65, 0x61,
    0x64, 0, 0x6e, 0x72, 0x5f],
   [0x66, 0x69, 0x6c, 0x65, 0x5f, 0x66, 0x69, 0x6c, 0x74, 0x65, 0x72, 0x73, 0, 0x70, 0x65, 0x72,
    0x66, 0x5f, 0x6f, 0x76],
   [0x65, 0x72, 0x66, 0x6c, 0x6f, 0x77, 0x5f, 0x68, 0x61, 0x6e, 0x64, 0x6c, 0x65, 0x72, 0x5f,
    0x74, 0, 0x70, 0x65, 0x72],
   [0x66, 0x5f, 0x73, 0x61, 0x6d, 0x70, 0x6c, 0x65, 0x5f, 0x64, 0x61, 0x74, 0x61, 0, 0x73, 0x61,
    0x6d, 0x70, 0x6c, 0x65],
   [0x5f, 0x66, 0x6c, 0x61, 0x67, 0x73, 0, 0x70, 0x65, 0x72, 0x69, 0x6f, 0x64, 0, 0x62, 0x72,
    0x5f, 0x73, 0x74, 0x61],
   [0x63, 0x6b, 0, 0x64, 0x61, 0x74, 0x61, 0x5f, 0x73, 0x72, 0x63, 0, 0x74, 0x78, 0x6e, 0, 0x61,
    0x64, 0x64, 0x72, 0],
   [0x72, 0x61, 0x77, 0, 0x69, 0x70, 0, 0x74, 0x69, 0x64, 0x5f, 0x65, 0x6e, 0x74, 0x72, 0x79, 0,
    0x73, 0x74, 0x72, 0x65],
   [0x61, 0x6d, 0x5f, 0x69, 0x64, 0, 0x63, 0x70, 0x75, 0x5f, 0x65, 0x6e, 0x74, 0x72, 0x79, 0,
    0x63, 0x61, 0x6c, 0x6c]]"

lemma length_btf_strings_4: "length (concat btf_strings_4) = 2455"
  by (simp add: btf_strings_4_def)

definition btf_strings_5 :: "bytes list" where
  "btf_strings_5 = [
   [0x63, 0x68, 0x61, 0x69, 0x6e, 0, 0x61, 0x75, 0x78, 0x5f, 0x73, 0x69, 0x7a, 0x65, 0, 0x72,
    0x65, 0x67, 0x73, 0x5f],
   [0x75, 0x73, 0x65, 0x72, 0, 0x72, 0x65, 0x67, 0x73, 0x5f, 0x69, 0x6e, 0x74, 0x72, 0, 0x73,
    0x74, 0x61, 0x63, 0x6b],
   [0x5f, 0x75, 0x73, 0x65, 0x72, 0x5f, 0x73, 0x69, 0x7a, 0x65, 0, 0x70, 0x68, 0x79, 0x73, 0x5f,
    0x61, 0x64, 0x64, 0x72],
   [0, 0x64, 0x61, 0x74, 0x61, 0x5f, 0x70, 0x61, 0x67, 0x65, 0x5f, 0x73, 0x69, 0x7a, 0x65, 0,
    0x63, 0x6f, 0x64, 0x65],
   [0x5f, 0x70, 0x61, 0x67, 0x65, 0x5f, 0x73, 0x69, 0x7a, 0x65, 0, 0x70, 0x65, 0x72, 0x66, 0x5f,
    0x73, 0x61, 0x6d, 0x70],
   [0x6c, 0x65, 0x5f, 0x77, 0x65, 0x69, 0x67, 0x68, 0x74, 0, 0x66, 0x75, 0x6c, 0x6c, 0, 0x76,
    0x61, 0x72, 0x31, 0x5f],
   [0x64, 0x77, 0, 0x76, 0x61, 0x72, 0x32, 0x5f, 0x77, 0, 0x76, 0x61, 0x72, 0x33, 0x5f, 0x77, 0,
    0x70, 0x65, 0x72, 0x66],
   [0x5f, 0x6d, 0x65, 0x6d, 0x5f, 0x64, 0x61, 0x74, 0x61, 0x5f, 0x73, 0x72, 0x63, 0, 0x6d, 0x65,
    0x6d, 0x5f, 0x6f, 0x70],
   [0, 0x6d, 0x65, 0x6d, 0x5f, 0x6c, 0x76, 0x6c, 0, 0x6d, 0x65, 0x6d, 0x5f, 0x73, 0x6e, 0x6f,
    0x6f, 0x70, 0, 0x6d, 0x65],
   [0x6d, 0x5f, 0x6c, 0x6f, 0x63, 0x6b, 0, 0x6d, 0x65, 0x6d, 0x5f, 0x64, 0x74, 0x6c, 0x62, 0,
    0x6d, 0x65, 0x6d, 0x5f],
   [0x6c, 0x76, 0x6c, 0x5f, 0x6e, 0x75, 0x6d, 0, 0x6d, 0x65, 0x6d, 0x5f, 0x72, 0x65, 0x6d, 0x6f,
    0x74, 0x65, 0, 0x6d],
   [0x65, 0x6d, 0x5f, 0x73, 0x6e, 0x6f, 0x6f, 0x70, 0x78, 0, 0x6d, 0x65, 0x6d, 0x5f, 0x62, 0x6c,
    0x6b, 0, 0x6d, 0x65],
   [0x6d, 0x5f, 0x68, 0x6f, 0x70, 0x73, 0, 0x6d, 0x65, 0x6d, 0x5f, 0x72, 0x73, 0x76, 0x64, 0,
    0x74, 0x69, 0x64, 0, 0x72],
   [0x65, 0x73, 0x65, 0x72, 0x76, 0x65, 0x64, 0, 0x70, 0x65, 0x72, 0x66, 0x5f, 0x72, 0x65, 0x67,
    0x73, 0, 0x61, 0x62],
   [0x69, 0, 0x72, 0x65, 0x67, 0x73, 0, 0x70, 0x72, 0x69, 0x76, 0x61, 0x74, 0x65, 0, 0x73, 0x61,
    0x76, 0x65, 0x64, 0x5f],
   [0x66, 0x75, 0x6e, 0x63, 0, 0x6c, 0x6f, 0x63, 0x61, 0x6c, 0x5f, 0x68, 0x61, 0x73, 0x68, 0,
    0x66, 0x75, 0x6e, 0x63],
   [0x5f, 0x68, 0x61, 0x73, 0x68, 0, 0x6f, 0x6c, 0x64, 0x5f, 0x68, 0x61, 0x73, 0x68, 0, 0x74,
    0x72, 0x61, 0x6d, 0x70],
   [0x6f, 0x6c, 0x69, 0x6e, 0x65, 0, 0x74, 0x72, 0x61, 0x6d, 0x70, 0x6f, 0x6c, 0x69, 0x6e, 0x65,
    0x5f, 0x73, 0x69, 0x7a],
   [0x65, 0, 0x6f, 0x70, 0x73, 0x5f, 0x66, 0x75, 0x6e, 0x63, 0, 0x66, 0x74, 0x72, 0x61, 0x63,
    0x65, 0x5f, 0x66, 0x75],
   [0x6e, 0x63, 0x5f, 0x74, 0, 0x66, 0x74, 0x72, 0x61, 0x63, 0x65, 0x5f, 0x72, 0x65, 0x67, 0x73,
    0, 0x70, 0x74, 0x5f],
   [0x72, 0x65, 0x67, 0x73, 0, 0x72, 0x31, 0x35, 0, 0x72, 0x31, 0x34, 0, 0x72, 0x31, 0x33, 0,
    0x72, 0x31, 0x32, 0, 0x62],
   [0x70, 0, 0x62, 0x78, 0, 0x72, 0x31, 0x31, 0, 0x72, 0x31, 0x30, 0, 0x72, 0x39, 0, 0x72, 0x38,
    0, 0x61, 0x78, 0, 0x63],
   [0x78, 0, 0x64, 0x78, 0, 0x73, 0x69, 0, 0x64, 0x69, 0, 0x6f, 0x72, 0x69, 0x67, 0x5f, 0x61,
    0x78, 0, 0x63, 0x73, 0],
   [0x73, 0x73, 0, 0x66, 0x74, 0x72, 0x61, 0x63, 0x65, 0x5f, 0x6f, 0x70, 0x73, 0x5f, 0x68, 0x61,
    0x73, 0x68, 0, 0x6e],
   [0x6f, 0x74, 0x72, 0x61, 0x63, 0x65, 0x5f, 0x68, 0x61, 0x73, 0x68, 0, 0x66, 0x69, 0x6c, 0x74,
    0x65, 0x72, 0x5f, 0x68],
   [0x61, 0x73, 0x68, 0, 0x72, 0x65, 0x67, 0x65, 0x78, 0x5f, 0x6c, 0x6f, 0x63, 0x6b, 0, 0x66,
    0x74, 0x72, 0x61, 0x63],
   [0x65, 0x5f, 0x6f, 0x70, 0x73, 0x5f, 0x66, 0x75, 0x6e, 0x63, 0x5f, 0x74, 0, 0x66, 0x74, 0x72,
    0x61, 0x63, 0x65, 0x5f],
   [0x6f, 0x70, 0x73, 0x5f, 0x63, 0x6d, 0x64, 0, 0x46, 0x54, 0x52, 0x41, 0x43, 0x45, 0x5f, 0x4f,
    0x50, 0x53, 0x5f, 0x43],
   [0x4d, 0x44, 0x5f, 0x45, 0x4e, 0x41, 0x42, 0x4c, 0x45, 0x5f, 0x53, 0x48, 0x41, 0x52, 0x45,
    0x5f, 0x49, 0x50, 0x4d],
   [0x4f, 0x44, 0x49, 0x46, 0x59, 0x5f, 0x53, 0x45, 0x4c, 0x46, 0, 0x46, 0x54, 0x52, 0x41, 0x43,
    0x45, 0x5f, 0x4f, 0x50],
   [0x53, 0x5f, 0x43, 0x4d, 0x44, 0x5f, 0x45, 0x4e, 0x41, 0x42, 0x4c, 0x45, 0x5f, 0x53, 0x48,
    0x41, 0x52, 0x45, 0x5f],
   [0x49, 0x50, 0x4d, 0x4f, 0x44, 0x49, 0x46, 0x59, 0x5f, 0x50, 0x45, 0x45, 0x52, 0, 0x46, 0x54,
    0x52, 0x41, 0x43, 0x45],
   [0x5f, 0x4f, 0x50, 0x53, 0x5f, 0x43, 0x4d, 0x44, 0x5f, 0x44, 0x49, 0x53, 0x41, 0x42, 0x4c,
    0x45, 0x5f, 0x53, 0x48],
   [0x41, 0x52, 0x45, 0x5f, 0x49, 0x50, 0x4d, 0x4f, 0x44, 0x49, 0x46, 0x59, 0x5f, 0x50, 0x45,
    0x45, 0x52, 0, 0x61, 0x76],
   [0x78, 0x35, 0x31, 0x32, 0x5f, 0x74, 0x69, 0x6d, 0x65, 0x73, 0x74, 0x61, 0x6d, 0x70, 0, 0x66,
    0x70, 0x73, 0x74, 0x61],
   [0x74, 0x65, 0, 0x5f, 0x5f, 0x74, 0x61, 0x73, 0x6b, 0x5f, 0x66, 0x70, 0x73, 0x74, 0x61, 0x74,
    0x65, 0, 0x70, 0x65],
   [0x72, 0x6d, 0, 0x67, 0x75, 0x65, 0x73, 0x74, 0x5f, 0x70, 0x65, 0x72, 0x6d, 0, 0x5f, 0x5f,
    0x66, 0x70, 0x73, 0x74],
   [0x61, 0x74, 0x65, 0, 0x66, 0x70, 0x75, 0x5f, 0x73, 0x74, 0x61, 0x74, 0x65, 0x5f, 0x70, 0x65,
    0x72, 0x6d, 0, 0x5f],
   [0x5f, 0x73, 0x74, 0x61, 0x74, 0x65, 0x5f, 0x70, 0x65, 0x72, 0x6d, 0, 0x5f, 0x5f, 0x73, 0x74,
    0x61, 0x74, 0x65, 0x5f],
   [0x73, 0x69, 0x7a, 0x65, 0, 0x5f, 0x5f, 0x75, 0x73, 0x65, 0x72, 0x5f, 0x73, 0x74, 0x61, 0x74,
    0x65, 0x5f, 0x73, 0x69],
   [0x7a, 0x65, 0, 0x75, 0x73, 0x65, 0x72, 0x5f, 0x73, 0x69, 0x7a, 0x65, 0, 0x78, 0x66, 0x65,
    0x61, 0x74, 0x75, 0x72],
   [0x65, 0x73, 0, 0x75, 0x73, 0x65, 0x72, 0x5f, 0x78, 0x66, 0x65, 0x61, 0x74, 0x75, 0x72, 0x65,
    0x73, 0, 0x78, 0x66],
   [0x64, 0, 0x69, 0x73, 0x5f, 0x76, 0x61, 0x6c, 0x6c, 0x6f, 0x63, 0, 0x69, 0x73, 0x5f, 0x67,
    0x75, 0x65, 0x73, 0x74, 0],
   [0x69, 0x73, 0x5f, 0x63, 0x6f, 0x6e, 0x66, 0x69, 0x64, 0x65, 0x6e, 0x74, 0x69, 0x61, 0x6c, 0,
    0x69, 0x6e, 0x5f, 0x75],
   [0x73, 0x65, 0, 0x66, 0x70, 0x72, 0x65, 0x67, 0x73, 0x5f, 0x73, 0x74, 0x61, 0x74, 0x65, 0,
    0x66, 0x73, 0x61, 0x76],
   [0x65, 0, 0x66, 0x78, 0x73, 0x61, 0x76, 0x65, 0, 0x73, 0x6f, 0x66, 0x74, 0, 0x78, 0x73, 0x61,
    0x76, 0x65, 0, 0x5f],
   [0x5f, 0x70, 0x61, 0x64, 0x64, 0x69, 0x6e, 0x67, 0, 0x66, 0x72, 0x65, 0x67, 0x73, 0x5f, 0x73,
    0x74, 0x61, 0x74, 0x65],
   [0, 0x63, 0x77, 0x64, 0, 0x73, 0x77, 0x64, 0, 0x74, 0x77, 0x64, 0, 0x66, 0x69, 0x70, 0, 0x66,
    0x63, 0x73, 0, 0x66],
   [0x6f, 0x6f, 0, 0x66, 0x6f, 0x73, 0, 0x73, 0x74, 0x5f, 0x73, 0x70, 0x61, 0x63, 0x65, 0, 0x66,
    0x78, 0x72, 0x65, 0x67],
   [0x73, 0x5f, 0x73, 0x74, 0x61, 0x74, 0x65, 0, 0x66, 0x6f, 0x70, 0, 0x6d, 0x78, 0x63, 0x73,
    0x72, 0, 0x6d, 0x78, 0x63],
   [0x73, 0x72, 0x5f, 0x6d, 0x61, 0x73, 0x6b, 0, 0x78, 0x6d, 0x6d, 0x5f, 0x73, 0x70, 0x61, 0x63,
    0x65, 0, 0x72, 0x69],
   [0x70, 0, 0x72, 0x64, 0x70, 0, 0x70, 0x61, 0x64, 0x64, 0x69, 0x6e, 0x67, 0x31, 0, 0x73, 0x77,
    0x5f, 0x72, 0x65, 0x73],
   [0x65, 0x72, 0x76, 0x65, 0x64, 0, 0x73, 0x77, 0x72, 0x65, 0x67, 0x73, 0x5f, 0x73, 0x74, 0x61,
    0x74, 0x65, 0, 0x66],
   [0x74, 0x6f, 0x70, 0, 0x63, 0x68, 0x61, 0x6e, 0x67, 0x65, 0x64, 0, 0x6c, 0x6f, 0x6f, 0x6b,
    0x61, 0x68, 0x65, 0x61],
   [0x64, 0, 0x6e, 0x6f, 0x5f, 0x75, 0x70, 0x64, 0x61, 0x74, 0x65, 0, 0x72, 0x6d, 0, 0x61, 0x6c,
    0x69, 0x6d, 0x69, 0x74],
   [0, 0x65, 0x6e, 0x74, 0x72, 0x79, 0x5f, 0x65, 0x69, 0x70, 0, 0x78, 0x72, 0x65, 0x67, 0x73,
    0x5f, 0x73, 0x74, 0x61],
   [0x74, 0x65, 0, 0x69, 0x33, 0x38, 0x37, 0, 0x68, 0x65, 0x61, 0x64, 0x65, 0x72, 0, 0x65, 0x78,
    0x74, 0x65, 0x6e, 0x64],
   [0x65, 0x64, 0x5f, 0x73, 0x74, 0x61, 0x74, 0x65, 0x5f, 0x61, 0x72, 0x65, 0x61, 0, 0x78, 0x73,
    0x74, 0x61, 0x74, 0x65],
   [0x5f, 0x68, 0x65, 0x61, 0x64, 0x65, 0x72, 0, 0x78, 0x63, 0x6f, 0x6d, 0x70, 0x5f, 0x62, 0x76,
    0, 0x30, 0x3a, 0x39],
   [0x30, 0, 0x09, 0x62, 0x70, 0x66, 0x5f, 0x70, 0x72, 0x6f, 0x62, 0x65, 0x5f, 0x72, 0x65, 0x61,
    0x64, 0x28, 0x26, 0x74],
   [0x61, 0x73, 0x6b, 0x5f, 0x70, 0x2c, 0x20, 0x73, 0x69, 0x7a, 0x65, 0x6f, 0x66, 0x28, 0x73,
    0x74, 0x72, 0x75, 0x63],
   [0x74, 0x20, 0x74, 0x61, 0x73, 0x6b, 0x5f, 0x73, 0x74, 0x72, 0x75, 0x63, 0x74, 0x2a, 0x29,
    0x2c, 0x26, 0x74, 0x61],
   [0x73, 0x6b, 0x2d, 0x3e, 0x72, 0x65, 0x61, 0x6c, 0x5f, 0x70, 0x61, 0x72, 0x65, 0x6e, 0x74,
    0x29, 0x3b, 0, 0x30, 0x3a],
   [0x38, 0x38, 0, 0x09, 0x62, 0x70, 0x66, 0x5f, 0x70, 0x72, 0x6f, 0x62, 0x65, 0x5f, 0x72, 0x65,
    0x61, 0x64, 0x28, 0x26],
   [0x65, 0x76, 0x65, 0x6e, 0x74, 0x2d, 0x3e, 0x70, 0x70, 0x69, 0x64, 0x2c, 0x73, 0x69, 0x7a,
    0x65, 0x6f, 0x66, 0x28],
   [0x70, 0x69, 0x64, 0x5f, 0x74, 0x29, 0x2c, 0x26, 0x74, 0x61, 0x73, 0x6b, 0x5f, 0x70, 0x2d,
    0x3e, 0x74, 0x67, 0x69],
   [0x64, 0x29, 0x3b, 0, 0x7d, 0, 0x73, 0x79, 0x73, 0x63, 0x61, 0x6c, 0x6c, 0x73, 0x5f, 0x65,
    0x78, 0x69, 0x74, 0x5f],
   [0x65, 0x78, 0x65, 0x63, 0x76, 0x65, 0x5f, 0x61, 0x72, 0x67, 0x73, 0, 0x72, 0x65, 0x74, 0,
    0x73, 0x79, 0x73, 0x63],
   [0x61, 0x6c, 0x6c, 0x5f, 0x65, 0x78, 0x69, 0x74, 0x5f, 0x65, 0x78, 0x65, 0x63, 0x76, 0x65, 0,
    0x74, 0x72, 0x61, 0x63],
   [0x65, 0x70, 0x6f, 0x69, 0x6e, 0x74, 0x2f, 0x73, 0x79, 0x73, 0x63, 0x61, 0x6c, 0x6c, 0x73,
    0x2f, 0x73, 0x79, 0x73],
   [0x5f, 0x65, 0x78, 0x69, 0x74, 0x5f, 0x65, 0x78, 0x65, 0x63, 0x76, 0x65, 0, 0x69, 0x6e, 0x74,
    0x20, 0x73, 0x79, 0x73],
   [0x63, 0x61, 0x6c, 0x6c, 0x5f, 0x65, 0x78, 0x69, 0x74, 0x5f, 0x65, 0x78, 0x65, 0x63, 0x76,
    0x65, 0x28, 0x73, 0x74],
   [0x72, 0x75, 0x63, 0x74, 0x20, 0x73, 0x79, 0x73, 0x63, 0x61, 0x6c, 0x6c, 0x73, 0x5f, 0x65,
    0x78, 0x69, 0x74, 0x5f],
   [0x65, 0x78, 0x65, 0x63, 0x76, 0x65, 0x5f, 0x61, 0x72, 0x67, 0x73, 0x20, 0x2a, 0x63, 0x74,
    0x78, 0x29, 0x7b, 0, 0x09],
   [0x70, 0x69, 0x64, 0x20, 0x3d, 0x20, 0x28, 0x70, 0x69, 0x64, 0x5f, 0x74, 0x29, 0x62, 0x70,
    0x66, 0x5f, 0x67, 0x65],
   [0x74, 0x5f, 0x63, 0x75, 0x72, 0x72, 0x65, 0x6e, 0x74, 0x5f, 0x70, 0x69, 0x64, 0x5f, 0x74,
    0x67, 0x69, 0x64, 0x28],
   [0x29, 0x3b, 0, 0x09, 0x65, 0x76, 0x65, 0x6e, 0x74, 0x20, 0x3d, 0x20, 0x62, 0x70, 0x66, 0x5f,
    0x6d, 0x61, 0x70, 0x5f],
   [0x6c, 0x6f, 0x6f, 0x6b, 0x75, 0x70, 0x5f, 0x65, 0x6c, 0x65, 0x6d, 0x28, 0x26, 0x72, 0x65,
    0x63, 0x6f, 0x72, 0x64],
   [0x73, 0x2c, 0x26, 0x70, 0x69, 0x64, 0x29, 0x3b, 0, 0x09, 0x69, 0x66, 0x20, 0x28, 0x63, 0x74,
    0x78, 0x2d, 0x3e, 0x72],
   [0x65, 0x74, 0x20, 0x3c, 0x20, 0x30, 0x29, 0x20, 0x67, 0x6f, 0x74, 0x6f, 0x20, 0x63, 0x6c,
    0x65, 0x61, 0x6e, 0x75],
   [0x70, 0x3b, 0, 0x09, 0x62, 0x70, 0x66, 0x5f, 0x67, 0x65, 0x74, 0x5f, 0x63, 0x75, 0x72, 0x72,
    0x65, 0x6e, 0x74, 0x5f],
   [0x63, 0x6f, 0x6d, 0x6d, 0x28, 0x26, 0x65, 0x76, 0x65, 0x6e, 0x74, 0x2d, 0x3e, 0x63, 0x6f,
    0x6d, 0x6d, 0x2c, 0x73],
   [0x69, 0x7a, 0x65, 0x6f, 0x66, 0x28, 0x65, 0x76, 0x65, 0x6e, 0x74, 0x2d, 0x3e, 0x63, 0x6f,
    0x6d, 0x6d, 0x29, 0x29],
   [0x3b, 0, 0x09, 0x62, 0x70, 0x66, 0x5f, 0x70, 0x65, 0x72, 0x66, 0x5f, 0x65, 0x76, 0x65, 0x6e,
    0x74, 0x5f, 0x6f, 0x75],
   [0x74, 0x70, 0x75, 0x74, 0x28, 0x63, 0x74, 0x78, 0x2c, 0x20, 0x26, 0x70, 0x65, 0x72, 0x66,
    0x5f, 0x65, 0x76, 0x65],
   [0x6e, 0x74, 0x73, 0x2c, 0x20, 0x42, 0x50, 0x46, 0x5f, 0x46, 0x5f, 0x43, 0x55, 0x52, 0x52,
    0x45, 0x4e, 0x54, 0x5f],
   [0x43, 0x50, 0x55, 0x2c, 0x20, 0x65, 0x76, 0x65, 0x6e, 0x74, 0x2c, 0x20, 0x73, 0x69, 0x7a,
    0x65, 0x6f, 0x66, 0x28],
   [0x73, 0x74, 0x72, 0x75, 0x63, 0x74, 0x20, 0x65, 0x76, 0x65, 0x6e, 0x74, 0x29, 0x29, 0x3b, 0,
    0x09, 0x62, 0x70, 0x66],
   [0x5f, 0x6d, 0x61, 0x70, 0x5f, 0x64, 0x65, 0x6c, 0x65, 0x74, 0x65, 0x5f, 0x65, 0x6c, 0x65,
    0x6d, 0x28, 0x26, 0x72],
   [0x65, 0x63, 0x6f, 0x72, 0x64, 0x73, 0x2c, 0x20, 0x26, 0x70, 0x69, 0x64, 0x29, 0x3b, 0, 0x5f,
    0x6c, 0x69, 0x63, 0x65],
   [0x6e, 0x73, 0x65, 0, 0x5f, 0x76, 0x65, 0x72, 0x73, 0x69, 0x6f, 0x6e, 0, 0x2e, 0x6d, 0x61,
    0x70, 0x73, 0, 0x6c, 0x69],
   [0x63, 0x65, 0x6e, 0x73, 0x65, 0, 0x76, 0x65, 0x72, 0x73, 0x69, 0x6f, 0x6e, 0, 0x5f, 0x5f,
    0x6b, 0x65, 0x72, 0x6e],
   [0x65, 0x6c, 0x5f, 0x74, 0x69, 0x6d, 0x65, 0x73, 0x70, 0x65, 0x63, 0, 0x62, 0x6c, 0x6b, 0x5f,
    0x70, 0x6c, 0x75, 0x67],
   [0, 0x62, 0x70, 0x66, 0x5f, 0x6c, 0x6f, 0x63, 0x61, 0x6c, 0x5f, 0x73, 0x74, 0x6f, 0x72, 0x61,
    0x67, 0x65, 0, 0x62],
   [0x70, 0x66, 0x5f, 0x70, 0x72, 0x6f, 0x67, 0, 0x62, 0x70, 0x66, 0x5f, 0x72, 0x75, 0x6e, 0x5f,
    0x63, 0x74, 0x78, 0],
   [0x63, 0x6f, 0x6d, 0x70, 0x61, 0x74, 0x5f, 0x72, 0x6f, 0x62, 0x75, 0x73, 0x74, 0x5f, 0x6c,
    0x69, 0x73, 0x74, 0x5f],
   [0x68, 0x65, 0x61, 0x64, 0, 0x63, 0x6f, 0x6d, 0x70, 0x6c, 0x65, 0x74, 0x69, 0x6f, 0x6e, 0,
    0x63, 0x73, 0x73, 0x5f],
   [0x73, 0x65, 0x74, 0, 0x65, 0x76, 0x65, 0x6e, 0x74, 0x5f, 0x66, 0x69, 0x6c, 0x74, 0x65, 0x72,
    0, 0x66, 0x61, 0x73],
   [0x79, 0x6e, 0x63, 0x5f, 0x73, 0x74, 0x72, 0x75, 0x63, 0x74, 0, 0x66, 0x69, 0x6c, 0x65, 0x73,
    0x5f, 0x73, 0x74, 0x72],
   [0x75, 0x63, 0x74, 0, 0x66, 0x73, 0x5f, 0x73, 0x74, 0x72, 0x75, 0x63, 0x74, 0, 0x66, 0x74,
    0x72, 0x61, 0x63, 0x65],
   [0x5f, 0x68, 0x61, 0x73, 0x68, 0, 0x66, 0x74, 0x72, 0x61, 0x63, 0x65, 0x5f, 0x72, 0x65, 0x74,
    0x5f, 0x73, 0x74, 0x61],
   [0x63, 0x6b, 0, 0x66, 0x75, 0x74, 0x65, 0x78, 0x5f, 0x70, 0x69, 0x5f, 0x73, 0x74, 0x61, 0x74,
    0x65, 0, 0x68, 0x72],
   [0x74, 0x69, 0x6d, 0x65, 0x72, 0x5f, 0x63, 0x6c, 0x6f, 0x63, 0x6b, 0x5f, 0x62, 0x61, 0x73,
    0x65, 0, 0x69, 0x6f, 0x5f],
   [0x75, 0x72, 0x69, 0x6e, 0x67, 0x5f, 0x74, 0x61, 0x73, 0x6b, 0, 0x6b, 0x65, 0x72, 0x6e, 0x65,
    0x6c, 0x5f, 0x73, 0x69],
   [0x67, 0x69, 0x6e, 0x66, 0x6f, 0, 0x6d, 0x61, 0x74, 0x68, 0x5f, 0x65, 0x6d, 0x75, 0x5f, 0x69,
    0x6e, 0x66, 0x6f, 0],
   [0x6d, 0x65, 0x6d, 0x5f, 0x63, 0x67, 0x72, 0x6f, 0x75, 0x70, 0, 0x6d, 0x6d, 0x5f, 0x73, 0x74,
    0x72, 0x75, 0x63, 0x74],
   [0, 0x6f, 0x6c, 0x64, 0x5f, 0x74, 0x69, 0x6d, 0x65, 0x73, 0x70, 0x65, 0x63, 0x33, 0x32, 0,
    0x70, 0x65, 0x72, 0x66],
   [0x5f, 0x61, 0x64, 0x64, 0x72, 0x5f, 0x66, 0x69, 0x6c, 0x74, 0x65, 0x72, 0x5f, 0x72, 0x61,
    0x6e, 0x67, 0x65, 0, 0x70],
   [0x65, 0x72, 0x66, 0x5f, 0x62, 0x72, 0x61, 0x6e, 0x63, 0x68, 0x5f, 0x73, 0x74, 0x61, 0x63,
    0x6b, 0, 0x70, 0x65, 0x72],
   [0x66, 0x5f, 0x62, 0x75, 0x66, 0x66, 0x65, 0x72, 0, 0x70, 0x65, 0x72, 0x66, 0x5f, 0x63, 0x61,
    0x6c, 0x6c, 0x63, 0x68],
   [0x61, 0x69, 0x6e, 0x5f, 0x65, 0x6e, 0x74, 0x72, 0x79, 0, 0x70, 0x65, 0x72, 0x66, 0x5f, 0x63,
    0x67, 0x72, 0x6f, 0x75],
   [0x70, 0, 0x70, 0x65, 0x72, 0x66, 0x5f, 0x72, 0x61, 0x77, 0x5f, 0x72, 0x65, 0x63, 0x6f, 0x72,
    0x64, 0, 0x70, 0x69],
   [0x64, 0x5f, 0x6e, 0x61, 0x6d, 0x65, 0x73, 0x70, 0x61, 0x63, 0x65, 0, 0x70, 0x69, 0x70, 0x65,
    0x5f, 0x69, 0x6e, 0x6f],
   [0x64, 0x65, 0x5f, 0x69, 0x6e, 0x66, 0x6f, 0, 0x70, 0x6f, 0x6c, 0x6c, 0x66, 0x64, 0, 0x72,
    0x63, 0x75, 0x5f, 0x6e],
   [0x6f, 0x64, 0x65, 0, 0x72, 0x65, 0x71, 0x75, 0x65, 0x73, 0x74, 0x5f, 0x71, 0x75, 0x65, 0x75,
    0x65, 0, 0x72, 0x6f],
   [0x62, 0x75, 0x73, 0x74, 0x5f, 0x6c, 0x69, 0x73, 0x74, 0x5f, 0x68, 0x65, 0x61, 0x64, 0, 0x72,
    0x74, 0x5f, 0x6d, 0x75],
   [0x74, 0x65, 0x78, 0x5f, 0x77, 0x61, 0x69, 0x74, 0x65, 0x72, 0, 0x73, 0x65, 0x63, 0x63, 0x6f,
    0x6d, 0x70, 0x5f, 0x66],
   [0x69, 0x6c, 0x74, 0x65, 0x72, 0, 0x73, 0x65, 0x6d, 0x5f, 0x75, 0x6e, 0x64, 0x6f, 0x5f, 0x6c,
    0x69, 0x73, 0x74, 0],
   [0x73, 0x69, 0x67, 0x68, 0x61, 0x6e, 0x64, 0x5f, 0x73, 0x74, 0x72, 0x75, 0x63, 0x74, 0, 0x73,
    0x69, 0x67, 0x6e, 0x61],
   [0x6c, 0x5f, 0x73, 0x74, 0x72, 0x75, 0x63, 0x74, 0, 0x74, 0x61, 0x73, 0x6b, 0x5f, 0x64, 0x65,
    0x6c, 0x61, 0x79, 0x5f],
   [0x69, 0x6e, 0x66, 0x6f, 0, 0x74, 0x61, 0x73, 0x6b, 0x5f, 0x67, 0x72, 0x6f, 0x75, 0x70, 0,
    0x74, 0x72, 0x61, 0x63],
   [0x65, 0x5f, 0x65, 0x76, 0x65, 0x6e, 0x74, 0x5f, 0x63, 0x61, 0x6c, 0x6c, 0, 0x75, 0x70, 0x72,
    0x6f, 0x62, 0x65, 0x5f]]"

lemma length_btf_strings_5: "length (concat btf_strings_5) = 2440"
  by (simp add: btf_strings_5_def)

end
