(* ===== verification/Object_Core.thy ===== *)
theory Object_Core
  imports Core_Debug Core_Btf_Types Core_Btf_Strings
begin

text \<open>
  The object file embedded in \<open>execsnoop-libbpf/execsnoop.skel.h\<close>, as far as it is transcribed: its
  first lines (file header, programs, location lists, abbreviations), the sections \<open>.debug_addr\<close> and
  \<open>.BTF\<close> with what follows them up to the relocations of the programs, and its last lines (relocations,
  names, section headers).  The rest is debugging information that no loader reads.
\<close>

definition core_head :: "bytes list" where
  "core_head = [
   [0x7f, 0x45, 0x4c, 0x46, 0x02, 0x01, 0x01, 0, 0, 0, 0, 0, 0, 0, 0, 0, 0x01, 0, 0xf7, 0, 0x01,
    0, 0, 0, 0, 0, 0, 0, 0],
   [0, 0, 0, 0, 0, 0, 0, 0, 0, 0, 0, 0xd8, 0x4a, 0x0b, 0, 0, 0, 0, 0, 0, 0, 0, 0, 0x40, 0, 0, 0,
    0, 0, 0x40, 0, 0x1f, 0],
   [0x01, 0, 0x85, 0, 0, 0, 0x0e, 0, 0, 0, 0xbf, 0x06, 0, 0, 0, 0, 0, 0, 0x63, 0x6a, 0xfc, 0xff,
    0, 0, 0, 0, 0x85, 0, 0],
   [0, 0x0f, 0, 0, 0, 0xbf, 0x07, 0, 0, 0, 0, 0, 0, 0xb7, 0x01, 0, 0, 0, 0, 0, 0, 0x7b, 0x1a,
    0xe8, 0xff, 0, 0, 0, 0],
   [0x7b, 0x1a, 0xe0, 0xff, 0, 0, 0, 0, 0x7b, 0x1a, 0xd8, 0xff, 0, 0, 0, 0, 0x7b, 0x1a, 0xd0,
    0xff, 0, 0, 0, 0, 0xbf],
   [0xa2, 0, 0, 0, 0, 0, 0, 0x07, 0x02, 0, 0, 0xfc, 0xff, 0xff, 0xff, 0xbf, 0xa3, 0, 0, 0, 0, 0,
    0, 0x07, 0x03, 0, 0],
   [0xd0, 0xff, 0xff, 0xff, 0x18, 0x01, 0, 0, 0, 0, 0, 0, 0, 0, 0, 0, 0, 0, 0, 0, 0xb7, 0x04, 0,
    0, 0x01, 0, 0, 0, 0x85],
   [0, 0, 0, 0x02, 0, 0, 0, 0x55, 0, 0x1b, 0, 0, 0, 0, 0, 0xbf, 0xa2, 0, 0, 0, 0, 0, 0, 0x07,
    0x02, 0, 0, 0xfc, 0xff],
   [0xff, 0xff, 0x18, 0x01, 0, 0, 0, 0, 0, 0, 0, 0, 0, 0, 0, 0, 0, 0, 0x85, 0, 0, 0, 0x01, 0, 0,
    0, 0xbf, 0x08, 0, 0, 0],
   [0, 0, 0, 0x15, 0x08, 0x14, 0, 0, 0, 0, 0, 0x77, 0x06, 0, 0, 0x20, 0, 0, 0, 0x61, 0xa1, 0xfc,
    0xff, 0, 0, 0, 0, 0x63],
   [0x78, 0x1c, 0, 0, 0, 0, 0, 0x63, 0x68, 0x14, 0, 0, 0, 0, 0, 0x63, 0x18, 0x10, 0, 0, 0, 0, 0,
    0x85, 0, 0, 0, 0x23, 0],
   [0, 0, 0xb7, 0x01, 0, 0, 0xe8, 0x05, 0, 0, 0x0f, 0x10, 0, 0, 0, 0, 0, 0, 0xbf, 0xa1, 0, 0, 0,
    0, 0, 0, 0x07, 0x01, 0],
   [0, 0xf0, 0xff, 0xff, 0xff, 0xb7, 0x02, 0, 0, 0x08, 0, 0, 0, 0xbf, 0x03, 0, 0, 0, 0, 0, 0,
    0x85, 0, 0, 0, 0x04, 0, 0],
   [0, 0xb7, 0x01, 0, 0, 0xdc, 0x05, 0, 0, 0x79, 0xa3, 0xf0, 0xff, 0, 0, 0, 0, 0x0f, 0x13, 0, 0,
    0, 0, 0, 0, 0x07, 0x08],
   [0, 0, 0x18, 0, 0, 0, 0xbf, 0x81, 0, 0, 0, 0, 0, 0, 0xb7, 0x02, 0, 0, 0x04, 0, 0, 0, 0x85, 0,
    0, 0, 0x04, 0, 0, 0],
   [0xb7, 0, 0, 0, 0, 0, 0, 0, 0x95, 0, 0, 0, 0, 0, 0, 0, 0xbf, 0x16, 0, 0, 0, 0, 0, 0, 0x85, 0,
    0, 0, 0x0e, 0, 0, 0],
   [0x63, 0x0a, 0xfc, 0xff, 0, 0, 0, 0, 0xbf, 0xa2, 0, 0, 0, 0, 0, 0, 0x07, 0x02, 0, 0, 0xfc,
    0xff, 0xff, 0xff, 0x18],
   [0x01, 0, 0, 0, 0, 0, 0, 0, 0, 0, 0, 0, 0, 0, 0, 0x85, 0, 0, 0, 0x01, 0, 0, 0, 0xbf, 0x07, 0,
    0, 0, 0, 0, 0, 0x15],
   [0x07, 0x13, 0, 0, 0, 0, 0, 0x79, 0x61, 0x10, 0, 0, 0, 0, 0, 0xb7, 0x02, 0, 0, 0, 0, 0, 0,
    0x6d, 0x12, 0x0b, 0, 0, 0],
   [0, 0, 0xbf, 0x71, 0, 0, 0, 0, 0, 0, 0xb7, 0x02, 0, 0, 0x10, 0, 0, 0, 0x85, 0, 0, 0, 0x10, 0,
    0, 0, 0xbf, 0x61, 0, 0],
   [0, 0, 0, 0, 0x18, 0x02, 0, 0, 0, 0, 0, 0, 0, 0, 0, 0, 0, 0, 0, 0, 0x18, 0x03, 0, 0, 0xff,
    0xff, 0xff, 0xff, 0, 0, 0],
   [0, 0, 0, 0, 0, 0xbf, 0x74, 0, 0, 0, 0, 0, 0, 0xb7, 0x05, 0, 0, 0x20, 0, 0, 0, 0x85, 0, 0, 0,
    0x19, 0, 0, 0, 0xbf],
   [0xa2, 0, 0, 0, 0, 0, 0, 0x07, 0x02, 0, 0, 0xfc, 0xff, 0xff, 0xff, 0x18, 0x01, 0, 0, 0, 0, 0,
    0, 0, 0, 0, 0, 0, 0, 0],
   [0, 0x85, 0, 0, 0, 0x03, 0, 0, 0, 0xb7, 0, 0, 0, 0, 0, 0, 0, 0x95, 0, 0, 0, 0, 0, 0, 0, 0, 0,
    0, 0, 0, 0, 0, 0, 0, 0],
   [0, 0, 0, 0, 0, 0, 0, 0, 0, 0, 0, 0, 0, 0, 0, 0, 0, 0, 0, 0, 0, 0, 0, 0, 0, 0, 0, 0, 0, 0, 0,
    0, 0, 0, 0, 0, 0, 0, 0],
   [0, 0, 0, 0, 0, 0, 0, 0, 0, 0, 0, 0, 0, 0, 0, 0x47, 0x50, 0x4c, 0, 0x0f, 0x12, 0x05, 0, 0xb5,
    0, 0, 0, 0x05, 0, 0x08]]"

definition core_tail :: "bytes list" where
  "core_tail = [
   [0x74, 0x61, 0x73, 0x6b, 0, 0x76, 0x6d, 0x5f, 0x73, 0x74, 0x72, 0x75, 0x63, 0x74, 0, 0x9f,
    0xeb, 0x01, 0, 0x20, 0, 0],
   [0, 0, 0, 0, 0, 0x24, 0, 0, 0, 0x24, 0, 0, 0, 0x44, 0x02, 0, 0, 0x68, 0x02, 0, 0, 0x2c, 0, 0,
    0, 0x08, 0, 0, 0, 0x23],
   [0x01, 0, 0, 0x01, 0, 0, 0, 0, 0, 0, 0, 0x25, 0, 0, 0, 0xc2, 0x2b, 0, 0, 0x01, 0, 0, 0, 0, 0,
    0, 0, 0x60, 0x01, 0, 0],
   [0x10, 0, 0, 0, 0x23, 0x01, 0, 0, 0x16, 0, 0, 0, 0, 0, 0, 0, 0x48, 0x01, 0, 0, 0x8b, 0x01, 0,
    0, 0x0e, 0xcc, 0, 0],
   [0x10, 0, 0, 0, 0x48, 0x01, 0, 0, 0xb4, 0x01, 0, 0, 0x06, 0xd0, 0, 0, 0x18, 0, 0, 0, 0x48,
    0x01, 0, 0, 0xc6, 0x01, 0],
   [0, 0x0d, 0xd8, 0, 0, 0x30, 0, 0, 0, 0x48, 0x01, 0, 0, 0xed, 0x01, 0, 0, 0x0f, 0xe0, 0, 0,
    0x58, 0, 0, 0, 0x48, 0x01],
   [0, 0, 0, 0, 0, 0, 0, 0, 0, 0, 0x70, 0, 0, 0, 0x48, 0x01, 0, 0, 0x0b, 0x02, 0, 0, 0x06, 0xe4,
    0, 0, 0x90, 0, 0, 0],
   [0x48, 0x01, 0, 0, 0x0b, 0x02, 0, 0, 0x06, 0xe4, 0, 0, 0xa0, 0, 0, 0, 0x48, 0x01, 0, 0, 0, 0,
    0, 0, 0, 0, 0, 0, 0xa8],
   [0, 0, 0, 0x48, 0x01, 0, 0, 0x5d, 0x02, 0, 0, 0x0a, 0xe8, 0, 0, 0xc8, 0, 0, 0, 0x48, 0x01, 0,
    0, 0x8b, 0x02, 0, 0],
   [0x06, 0xec, 0, 0, 0xd0, 0, 0, 0, 0x48, 0x01, 0, 0, 0, 0, 0, 0, 0, 0, 0, 0, 0xd8, 0, 0, 0,
    0x48, 0x01, 0, 0, 0xa2],
   [0x02, 0, 0, 0x0f, 0xf4, 0, 0, 0xe0, 0, 0, 0, 0x48, 0x01, 0, 0, 0xb5, 0x02, 0, 0, 0x0d, 0xfc,
    0, 0, 0xe8, 0, 0, 0],
   [0x48, 0x01, 0, 0, 0xc8, 0x02, 0, 0, 0x0e, 0xf8, 0, 0, 0xf0, 0, 0, 0, 0x48, 0x01, 0, 0, 0xa2,
    0x02, 0, 0, 0x0d, 0xf4],
   [0, 0, 0xf8, 0, 0, 0, 0x48, 0x01, 0, 0, 0xdd, 0x02, 0, 0, 0x1e, 0x08, 0x01, 0, 0x18, 0x01, 0,
    0, 0x48, 0x01, 0, 0, 0],
   [0, 0, 0, 0, 0, 0, 0, 0x20, 0x01, 0, 0, 0x48, 0x01, 0, 0, 0x04, 0x2b, 0, 0, 0x02, 0x0c, 0x01,
    0, 0x40, 0x01, 0, 0],
   [0x48, 0x01, 0, 0, 0x53, 0x2b, 0, 0, 0x2d, 0x10, 0x01, 0, 0x50, 0x01, 0, 0, 0x48, 0x01, 0, 0,
    0x53, 0x2b, 0, 0, 0x19],
   [0x10, 0x01, 0, 0x58, 0x01, 0, 0, 0x48, 0x01, 0, 0, 0x53, 0x2b, 0, 0, 0x02, 0x10, 0x01, 0,
    0x70, 0x01, 0, 0, 0x48],
   [0x01, 0, 0, 0x8e, 0x2b, 0, 0, 0x01, 0x1c, 0x01, 0, 0xc2, 0x2b, 0, 0, 0x0d, 0, 0, 0, 0, 0, 0,
    0, 0x48, 0x01, 0, 0],
   [0xe6, 0x2b, 0, 0, 0, 0x28, 0x01, 0, 0x08, 0, 0, 0, 0x48, 0x01, 0, 0, 0x26, 0x2c, 0, 0, 0x0f,
    0x38, 0x01, 0, 0x10, 0],
   [0, 0, 0x48, 0x01, 0, 0, 0x26, 0x2c, 0, 0, 0x06, 0x38, 0x01, 0, 0x20, 0, 0, 0, 0x48, 0x01, 0,
    0, 0, 0, 0, 0, 0, 0, 0],
   [0, 0x28, 0, 0, 0, 0x48, 0x01, 0, 0, 0x50, 0x2c, 0, 0, 0x0a, 0x3c, 0x01, 0, 0x48, 0, 0, 0,
    0x48, 0x01, 0, 0, 0x8b],
   [0x02, 0, 0, 0x06, 0x40, 0x01, 0, 0x50, 0, 0, 0, 0x48, 0x01, 0, 0, 0x7d, 0x2c, 0, 0, 0x0b,
    0x44, 0x01, 0, 0x60, 0, 0],
   [0, 0x48, 0x01, 0, 0, 0x7d, 0x2c, 0, 0, 0x06, 0x44, 0x01, 0, 0x68, 0, 0, 0, 0x48, 0x01, 0, 0,
    0x9e, 0x2c, 0, 0, 0x02],
   [0x50, 0x01, 0, 0x80, 0, 0, 0, 0x48, 0x01, 0, 0, 0xd7, 0x2c, 0, 0, 0x02, 0x54, 0x01, 0, 0xc8,
    0, 0, 0, 0x48, 0x01, 0],
   [0, 0, 0, 0, 0, 0, 0, 0, 0, 0xd0, 0, 0, 0, 0x48, 0x01, 0, 0, 0x32, 0x2d, 0, 0, 0x02, 0x5c,
    0x01, 0, 0xe8, 0, 0, 0],
   [0x48, 0x01, 0, 0, 0x8e, 0x2b, 0, 0, 0x01, 0x64, 0x01, 0, 0x10, 0, 0, 0, 0x23, 0x01, 0, 0,
    0x02, 0, 0, 0, 0, 0x01, 0],
   [0, 0x26, 0, 0, 0, 0xff, 0x2a, 0, 0, 0, 0, 0, 0, 0x38, 0x01, 0, 0, 0x26, 0, 0, 0, 0x4e, 0x2b,
    0, 0, 0, 0, 0, 0, 0, 0],
   [0, 0, 0x0c, 0, 0, 0, 0xff, 0xff, 0xff, 0xff, 0x04, 0, 0x08, 0, 0x08, 0x7c, 0x0b, 0, 0x14, 0,
    0, 0, 0, 0, 0, 0, 0, 0],
   [0, 0, 0, 0, 0, 0, 0x80, 0x01, 0, 0, 0, 0, 0, 0, 0x14, 0, 0, 0, 0, 0, 0, 0, 0, 0, 0, 0, 0, 0,
    0, 0, 0xf8, 0, 0, 0, 0],
   [0, 0, 0, 0x32, 0x01, 0, 0, 0x05, 0, 0x08, 0, 0x69, 0, 0, 0, 0x08, 0x01, 0x01, 0xfb, 0x0e,
    0x0d, 0, 0x01, 0x01, 0x01],
   [0x01, 0, 0, 0, 0x01, 0, 0, 0x01, 0x01, 0x01, 0x1f, 0x03, 0, 0, 0, 0, 0x33, 0, 0, 0, 0x35, 0,
    0, 0, 0x03, 0x01, 0x1f],
   [0x02, 0x0f, 0x05, 0x1e, 0x03, 0x46, 0, 0, 0, 0, 0x31, 0x9c, 0xed, 0x7d, 0xfd, 0x5a, 0xd8,
    0x76, 0x32, 0x4a, 0x4f],
   [0xab, 0x46, 0x5b, 0xef, 0x36, 0x56, 0, 0, 0, 0x01, 0x7c, 0x84, 0x80, 0xf7, 0xaf, 0x08, 0x2c,
    0xb9, 0x4f, 0x90, 0xd9],
   [0xb5, 0xb3, 0x15, 0x83, 0x7c, 0x60, 0, 0, 0, 0x02, 0x32, 0xb0, 0x94, 0x5d, 0xf6, 0x10, 0x15,
    0xe3, 0xdd, 0x6b, 0xe9],
   [0xac, 0x5e, 0xa4, 0x27, 0x78, 0x04, 0, 0, 0x09, 0x02, 0, 0, 0, 0, 0, 0, 0, 0, 0x03, 0x2d,
    0x01, 0x05, 0x0e, 0x0a],
   [0x17, 0x05, 0x06, 0x2f, 0x05, 0x0d, 0x22, 0x06, 0x03, 0x4a, 0x2e, 0x05, 0x0f, 0x06, 0x03,
    0x38, 0x20, 0x06, 0x03],
   [0x48, 0x4a, 0x05, 0x06, 0x06, 0x03, 0x39, 0x4a, 0x06, 0x4a, 0x03, 0x47, 0x20, 0x05, 0x0a,
    0x06, 0x03, 0x3a, 0x2e],
   [0x05, 0x06, 0x4b, 0x05, 0, 0x06, 0x03, 0x45, 0x20, 0x05, 0x0f, 0x06, 0x03, 0x3d, 0x20, 0x05,
    0x0d, 0x22, 0x05, 0x0e],
   [0x1f, 0x05, 0x0d, 0x1f, 0x05, 0x1e, 0x25, 0x06, 0x03, 0xbe, 0x7f, 0x20, 0x05, 0x02, 0x06,
    0x03, 0xc3, 0, 0x4a, 0x06],
   [0x03, 0xbd, 0x7f, 0x3c, 0x05, 0x2d, 0x06, 0x03, 0xc4, 0, 0x20, 0x05, 0x19, 0x06, 0x2e, 0x05,
    0x02, 0x20, 0x05, 0x01],
   [0x06, 0x3f, 0x02, 0x02, 0, 0x01, 0x01, 0x04, 0, 0, 0x09, 0x02, 0, 0, 0, 0, 0, 0, 0, 0, 0x03,
    0xc9, 0, 0x01, 0x05],
   [0x0f, 0x0a, 0x24, 0x05, 0x06, 0x06, 0x20, 0x03, 0xb2, 0x7f, 0x20, 0x05, 0x0a, 0x06, 0x03,
    0xcf, 0, 0x2e, 0x05, 0x06],
   [0x4b, 0x05, 0x0b, 0x21, 0x05, 0x06, 0x06, 0x2e, 0x05, 0x02, 0x06, 0x23, 0x3d, 0x06, 0x03,
    0xab, 0x7f, 0x82, 0x06],
   [0x03, 0xd7, 0, 0x2e, 0x05, 0x01, 0x3e, 0x02, 0x02, 0, 0x01, 0x01, 0x2f, 0x68, 0x6f, 0x6d,
    0x65, 0x2f, 0x66, 0x61],
   [0x6e, 0x63, 0x79, 0x2f, 0x77, 0x6f, 0x72, 0x6b, 0x73, 0x70, 0x61, 0x63, 0x65, 0x2d, 0x78,
    0x70, 0x73, 0x2f, 0x63],
   [0x67, 0x70, 0x72, 0x6f, 0x78, 0x79, 0x2f, 0x65, 0x78, 0x65, 0x63, 0x73, 0x6e, 0x6f, 0x6f,
    0x70, 0x2d, 0x6c, 0x69],
   [0x62, 0x62, 0x70, 0x66, 0, 0x2e, 0, 0x2f, 0x75, 0x73, 0x72, 0x2f, 0x69, 0x6e, 0x63, 0x6c,
    0x75, 0x64, 0x65, 0x2f],
   [0x62, 0x70, 0x66, 0, 0x65, 0x78, 0x65, 0x63, 0x73, 0x6e, 0x6f, 0x6f, 0x70, 0x2e, 0x62, 0x70,
    0x66, 0x2e, 0x63, 0],
   [0x76, 0x6d, 0x6c, 0x69, 0x6e, 0x75, 0x78, 0x2e, 0x68, 0, 0x62, 0x70, 0x66, 0x5f, 0x68, 0x65,
    0x6c, 0x70, 0x65, 0x72],
   [0x5f, 0x64, 0x65, 0x66, 0x73, 0x2e, 0x68, 0, 0, 0, 0, 0, 0, 0, 0, 0, 0, 0, 0, 0, 0, 0, 0, 0,
    0, 0, 0, 0, 0, 0, 0, 0],
   [0x69, 0x01, 0, 0, 0x04, 0, 0xf1, 0xff, 0, 0, 0, 0, 0, 0, 0, 0, 0, 0, 0, 0, 0, 0, 0, 0, 0, 0,
    0, 0, 0x03, 0, 0x03, 0],
   [0, 0, 0, 0, 0, 0, 0, 0, 0, 0, 0, 0, 0, 0, 0, 0, 0xa0, 0x01, 0, 0, 0, 0, 0x03, 0, 0x70, 0x01,
    0, 0, 0, 0, 0, 0, 0, 0],
   [0, 0, 0, 0, 0, 0, 0, 0, 0, 0, 0x03, 0, 0x05, 0, 0, 0, 0, 0, 0, 0, 0, 0, 0, 0, 0, 0, 0, 0, 0,
    0, 0x92, 0x01, 0, 0, 0],
   [0, 0x05, 0, 0xe8, 0, 0, 0, 0, 0, 0, 0, 0, 0, 0, 0, 0, 0, 0, 0, 0x99, 0x01, 0, 0, 0, 0, 0x05,
    0, 0xc0, 0, 0, 0, 0, 0],
   [0, 0, 0, 0, 0, 0, 0, 0, 0, 0, 0, 0, 0, 0, 0x03, 0, 0x0a, 0, 0, 0, 0, 0, 0, 0, 0, 0, 0, 0, 0,
    0, 0, 0, 0, 0, 0, 0, 0],
   [0, 0x03, 0, 0x0b, 0, 0, 0, 0, 0, 0, 0, 0, 0, 0, 0, 0, 0, 0, 0, 0, 0, 0, 0, 0, 0, 0x03, 0,
    0x0e, 0, 0, 0, 0, 0, 0, 0],
   [0, 0, 0, 0, 0, 0, 0, 0, 0, 0, 0, 0, 0, 0, 0x03, 0, 0x0f, 0, 0, 0, 0, 0, 0, 0, 0, 0, 0, 0, 0,
    0, 0, 0, 0, 0, 0, 0, 0],
   [0, 0x03, 0, 0x11, 0, 0, 0, 0, 0, 0, 0, 0, 0, 0, 0, 0, 0, 0, 0, 0, 0, 0, 0, 0, 0, 0x03, 0,
    0x12, 0, 0, 0, 0, 0, 0, 0],
   [0, 0, 0, 0, 0, 0, 0, 0, 0, 0, 0, 0, 0, 0, 0x03, 0, 0x18, 0, 0, 0, 0, 0, 0, 0, 0, 0, 0, 0, 0,
    0, 0, 0, 0, 0, 0, 0, 0],
   [0, 0x03, 0, 0x1a, 0, 0, 0, 0, 0, 0, 0, 0, 0, 0, 0, 0, 0, 0, 0, 0, 0, 0, 0, 0, 0, 0x03, 0,
    0x1c, 0, 0, 0, 0, 0, 0, 0],
   [0, 0, 0, 0, 0, 0, 0, 0, 0, 0, 0x2a, 0x01, 0, 0, 0x12, 0, 0x03, 0, 0, 0, 0, 0, 0, 0, 0, 0,
    0x80, 0x01, 0, 0, 0, 0, 0],
   [0, 0x6b, 0, 0, 0, 0x11, 0, 0x07, 0, 0, 0, 0, 0, 0, 0, 0, 0, 0x20, 0, 0, 0, 0, 0, 0, 0, 0xed,
    0, 0, 0, 0x12, 0, 0x05],
   [0, 0, 0, 0, 0, 0, 0, 0, 0, 0xf8, 0, 0, 0, 0, 0, 0, 0, 0x42, 0, 0, 0, 0x11, 0, 0x07, 0, 0x20,
    0, 0, 0, 0, 0, 0, 0],
   [0x20, 0, 0, 0, 0, 0, 0, 0, 0x3f, 0x01, 0, 0, 0x11, 0, 0x08, 0, 0, 0, 0, 0, 0, 0, 0, 0, 0x04,
    0, 0, 0, 0, 0, 0, 0],
   [0xae, 0, 0, 0, 0x11, 0, 0x09, 0, 0, 0, 0, 0, 0, 0, 0, 0, 0x04, 0, 0, 0, 0, 0, 0, 0, 0x70, 0,
    0, 0, 0, 0, 0, 0, 0x01],
   [0, 0, 0, 0x11, 0, 0, 0, 0xa8, 0, 0, 0, 0, 0, 0, 0, 0x01, 0, 0, 0, 0x11, 0, 0, 0, 0x28, 0, 0,
    0, 0, 0, 0, 0, 0x01, 0],
   [0, 0, 0x11, 0, 0, 0, 0x88, 0, 0, 0, 0, 0, 0, 0, 0x01, 0, 0, 0, 0x13, 0, 0, 0, 0xd0, 0, 0, 0,
    0, 0, 0, 0, 0x01, 0, 0],
   [0, 0x11, 0, 0, 0, 0x08, 0, 0, 0, 0, 0, 0, 0, 0x03, 0, 0, 0, 0x08, 0, 0, 0, 0x11, 0, 0, 0, 0,
    0, 0, 0, 0x03, 0, 0, 0]]"

definition core_end :: "bytes list" where
  "core_end = [
   [0, 0, 0, 0, 0, 0x03, 0, 0, 0, 0x0b, 0, 0, 0, 0x08, 0, 0, 0, 0, 0, 0, 0, 0x02, 0, 0, 0, 0x14,
    0, 0, 0, 0x10, 0, 0, 0],
   [0, 0, 0, 0, 0x02, 0, 0, 0, 0x15, 0, 0, 0, 0x18, 0, 0, 0, 0, 0, 0, 0, 0x02, 0, 0, 0, 0x11, 0,
    0, 0, 0x20, 0, 0, 0, 0],
   [0, 0, 0, 0x02, 0, 0, 0, 0x13, 0, 0, 0, 0x28, 0, 0, 0, 0, 0, 0, 0, 0x02, 0, 0, 0, 0x02, 0, 0,
    0, 0x30, 0, 0, 0, 0, 0],
   [0, 0, 0x02, 0, 0, 0, 0x04, 0, 0, 0, 0x38, 0, 0, 0, 0, 0, 0, 0, 0x02, 0, 0, 0, 0x04, 0, 0, 0,
    0, 0x40, 0, 0, 0, 0, 0],
   [0, 0x04, 0, 0, 0, 0x11, 0, 0, 0, 0x0c, 0x40, 0, 0, 0, 0, 0, 0, 0x04, 0, 0, 0, 0x13, 0, 0, 0,
    0x24, 0x40, 0, 0, 0, 0],
   [0, 0, 0x04, 0, 0, 0, 0x14, 0, 0, 0, 0x3c, 0x40, 0, 0, 0, 0, 0, 0, 0x04, 0, 0, 0, 0x15, 0, 0,
    0, 0x2c, 0, 0, 0, 0, 0],
   [0, 0, 0x04, 0, 0, 0, 0x02, 0, 0, 0, 0x3c, 0, 0, 0, 0, 0, 0, 0, 0x04, 0, 0, 0, 0x04, 0, 0, 0,
    0x50, 0, 0, 0, 0, 0, 0],
   [0, 0x04, 0, 0, 0, 0x02, 0, 0, 0, 0x60, 0, 0, 0, 0, 0, 0, 0, 0x04, 0, 0, 0, 0x02, 0, 0, 0,
    0x70, 0, 0, 0, 0, 0, 0, 0],
   [0x04, 0, 0, 0, 0x02, 0, 0, 0, 0x80, 0, 0, 0, 0, 0, 0, 0, 0x04, 0, 0, 0, 0x02, 0, 0, 0, 0x90,
    0, 0, 0, 0, 0, 0, 0],
   [0x04, 0, 0, 0, 0x02, 0, 0, 0, 0xa0, 0, 0, 0, 0, 0, 0, 0, 0x04, 0, 0, 0, 0x02, 0, 0, 0, 0xb0,
    0, 0, 0, 0, 0, 0, 0],
   [0x04, 0, 0, 0, 0x02, 0, 0, 0, 0xc0, 0, 0, 0, 0, 0, 0, 0, 0x04, 0, 0, 0, 0x02, 0, 0, 0, 0xd0,
    0, 0, 0, 0, 0, 0, 0],
   [0x04, 0, 0, 0, 0x02, 0, 0, 0, 0xe0, 0, 0, 0, 0, 0, 0, 0, 0x04, 0, 0, 0, 0x02, 0, 0, 0, 0xf0,
    0, 0, 0, 0, 0, 0, 0],
   [0x04, 0, 0, 0, 0x02, 0, 0, 0, 0, 0x01, 0, 0, 0, 0, 0, 0, 0x04, 0, 0, 0, 0x02, 0, 0, 0, 0x10,
    0x01, 0, 0, 0, 0, 0, 0],
   [0x04, 0, 0, 0, 0x02, 0, 0, 0, 0x20, 0x01, 0, 0, 0, 0, 0, 0, 0x04, 0, 0, 0, 0x02, 0, 0, 0,
    0x30, 0x01, 0, 0, 0, 0, 0],
   [0, 0x04, 0, 0, 0, 0x02, 0, 0, 0, 0x40, 0x01, 0, 0, 0, 0, 0, 0, 0x04, 0, 0, 0, 0x02, 0, 0, 0,
    0x50, 0x01, 0, 0, 0, 0],
   [0, 0, 0x04, 0, 0, 0, 0x02, 0, 0, 0, 0x60, 0x01, 0, 0, 0, 0, 0, 0, 0x04, 0, 0, 0, 0x02, 0, 0,
    0, 0x70, 0x01, 0, 0, 0],
   [0, 0, 0, 0x04, 0, 0, 0, 0x02, 0, 0, 0, 0x80, 0x01, 0, 0, 0, 0, 0, 0, 0x04, 0, 0, 0, 0x02, 0,
    0, 0, 0x90, 0x01, 0, 0],
   [0, 0, 0, 0, 0x04, 0, 0, 0, 0x02, 0, 0, 0, 0xa0, 0x01, 0, 0, 0, 0, 0, 0, 0x04, 0, 0, 0, 0x02,
    0, 0, 0, 0xb8, 0x01, 0],
   [0, 0, 0, 0, 0, 0x04, 0, 0, 0, 0x04, 0, 0, 0, 0xc8, 0x01, 0, 0, 0, 0, 0, 0, 0x04, 0, 0, 0,
    0x04, 0, 0, 0, 0xd8, 0x01],
   [0, 0, 0, 0, 0, 0, 0x04, 0, 0, 0, 0x04, 0, 0, 0, 0xe8, 0x01, 0, 0, 0, 0, 0, 0, 0x04, 0, 0, 0,
    0x04, 0, 0, 0, 0xf8],
   [0x01, 0, 0, 0, 0, 0, 0, 0x04, 0, 0, 0, 0x04, 0, 0, 0, 0x08, 0x02, 0, 0, 0, 0, 0, 0, 0x04, 0,
    0, 0, 0x04, 0, 0, 0],
   [0x18, 0x02, 0, 0, 0, 0, 0, 0, 0x04, 0, 0, 0, 0x04, 0, 0, 0, 0x28, 0x02, 0, 0, 0, 0, 0, 0,
    0x04, 0, 0, 0, 0x04, 0, 0],
   [0, 0x38, 0x02, 0, 0, 0, 0, 0, 0, 0x04, 0, 0, 0, 0x04, 0, 0, 0, 0x48, 0x02, 0, 0, 0, 0, 0, 0,
    0x04, 0, 0, 0, 0x04, 0],
   [0, 0, 0x58, 0x02, 0, 0, 0, 0, 0, 0, 0x04, 0, 0, 0, 0x04, 0, 0, 0, 0x68, 0x02, 0, 0, 0, 0, 0,
    0, 0x04, 0, 0, 0, 0x04],
   [0, 0, 0, 0x78, 0x02, 0, 0, 0, 0, 0, 0, 0x04, 0, 0, 0, 0x04, 0, 0, 0, 0x94, 0x02, 0, 0, 0, 0,
    0, 0, 0x04, 0, 0, 0],
   [0x02, 0, 0, 0, 0xa4, 0x02, 0, 0, 0, 0, 0, 0, 0x04, 0, 0, 0, 0x02, 0, 0, 0, 0x14, 0, 0, 0, 0,
    0, 0, 0, 0x03, 0, 0, 0],
   [0x0d, 0, 0, 0, 0x18, 0, 0, 0, 0, 0, 0, 0, 0x02, 0, 0, 0, 0x02, 0, 0, 0, 0x2c, 0, 0, 0, 0, 0,
    0, 0, 0x03, 0, 0, 0],
   [0x0d, 0, 0, 0, 0x30, 0, 0, 0, 0, 0, 0, 0, 0x02, 0, 0, 0, 0x04, 0, 0, 0, 0x22, 0, 0, 0, 0, 0,
    0, 0, 0x03, 0, 0, 0],
   [0x0f, 0, 0, 0, 0x26, 0, 0, 0, 0, 0, 0, 0, 0x03, 0, 0, 0, 0x0f, 0, 0, 0, 0x2a, 0, 0, 0, 0, 0,
    0, 0, 0x03, 0, 0, 0],
   [0x0f, 0, 0, 0, 0x36, 0, 0, 0, 0, 0, 0, 0, 0x03, 0, 0, 0, 0x0f, 0, 0, 0, 0x4b, 0, 0, 0, 0, 0,
    0, 0, 0x03, 0, 0, 0],
   [0x0f, 0, 0, 0, 0x60, 0, 0, 0, 0, 0, 0, 0, 0x03, 0, 0, 0, 0x0f, 0, 0, 0, 0x7a, 0, 0, 0, 0, 0,
    0, 0, 0x02, 0, 0, 0],
   [0x02, 0, 0, 0, 0xf6, 0, 0, 0, 0, 0, 0, 0, 0x02, 0, 0, 0, 0x04, 0, 0, 0, 0x10, 0x12, 0x11,
    0x13, 0x14, 0x15, 0, 0x2e],
   [0x64, 0x65, 0x62, 0x75, 0x67, 0x5f, 0x61, 0x62, 0x62, 0x72, 0x65, 0x76, 0, 0x2e, 0x74, 0x65,
    0x78, 0x74, 0, 0x2e],
   [0x72, 0x65, 0x6c, 0x2e, 0x42, 0x54, 0x46, 0x2e, 0x65, 0x78, 0x74, 0, 0x2e, 0x64, 0x65, 0x62,
    0x75, 0x67, 0x5f, 0x72],
   [0x6e, 0x67, 0x6c, 0x69, 0x73, 0x74, 0x73, 0, 0x2e, 0x64, 0x65, 0x62, 0x75, 0x67, 0x5f, 0x6c,
    0x6f, 0x63, 0x6c, 0x69],
   [0x73, 0x74, 0x73, 0, 0x70, 0x65, 0x72, 0x66, 0x5f, 0x65, 0x76, 0x65, 0x6e, 0x74, 0x73, 0,
    0x2e, 0x72, 0x65, 0x6c],
   [0x2e, 0x64, 0x65, 0x62, 0x75, 0x67, 0x5f, 0x73, 0x74, 0x72, 0x5f, 0x6f, 0x66, 0x66, 0x73,
    0x65, 0x74, 0x73, 0, 0x2e],
   [0x6d, 0x61, 0x70, 0x73, 0, 0x72, 0x65, 0x63, 0x6f, 0x72, 0x64, 0x73, 0, 0x2e, 0x64, 0x65,
    0x62, 0x75, 0x67, 0x5f],
   [0x73, 0x74, 0x72, 0, 0x2e, 0x64, 0x65, 0x62, 0x75, 0x67, 0x5f, 0x6c, 0x69, 0x6e, 0x65, 0x5f,
    0x73, 0x74, 0x72, 0],
   [0x2e, 0x72, 0x65, 0x6c, 0x2e, 0x64, 0x65, 0x62, 0x75, 0x67, 0x5f, 0x61, 0x64, 0x64, 0x72, 0,
    0x2e, 0x72, 0x65, 0x6c],
   [0x2e, 0x64, 0x65, 0x62, 0x75, 0x67, 0x5f, 0x69, 0x6e, 0x66, 0x6f, 0, 0x5f, 0x76, 0x65, 0x72,
    0x73, 0x69, 0x6f, 0x6e],
   [0, 0x2e, 0x6c, 0x6c, 0x76, 0x6d, 0x5f, 0x61, 0x64, 0x64, 0x72, 0x73, 0x69, 0x67, 0, 0x2e,
    0x72, 0x65, 0x6c, 0x74],
   [0x72, 0x61, 0x63, 0x65, 0x70, 0x6f, 0x69, 0x6e, 0x74, 0x2f, 0x73, 0x79, 0x73, 0x63, 0x61,
    0x6c, 0x6c, 0x73, 0x2f],
   [0x73, 0x79, 0x73, 0x5f, 0x65, 0x78, 0x69, 0x74, 0x5f, 0x65, 0x78, 0x65, 0x63, 0x76, 0x65, 0,
    0x73, 0x79, 0x73, 0x63],
   [0x61, 0x6c, 0x6c, 0x5f, 0x65, 0x78, 0x69, 0x74, 0x5f, 0x65, 0x78, 0x65, 0x63, 0x76, 0x65, 0,
    0x2e, 0x72, 0x65, 0x6c],
   [0x74, 0x72, 0x61, 0x63, 0x65, 0x70, 0x6f, 0x69, 0x6e, 0x74, 0x2f, 0x73, 0x79, 0x73, 0x63,
    0x61, 0x6c, 0x6c, 0x73],
   [0x2f, 0x73, 0x79, 0x73, 0x5f, 0x65, 0x6e, 0x74, 0x65, 0x72, 0x5f, 0x65, 0x78, 0x65, 0x63,
    0x76, 0x65, 0, 0x73, 0x79],
   [0x73, 0x63, 0x61, 0x6c, 0x6c, 0x5f, 0x65, 0x6e, 0x74, 0x65, 0x72, 0x5f, 0x65, 0x78, 0x65,
    0x63, 0x76, 0x65, 0, 0x5f],
   [0x6c, 0x69, 0x63, 0x65, 0x6e, 0x73, 0x65, 0, 0x2e, 0x72, 0x65, 0x6c, 0x2e, 0x64, 0x65, 0x62,
    0x75, 0x67, 0x5f, 0x6c],
   [0x69, 0x6e, 0x65, 0, 0x2e, 0x72, 0x65, 0x6c, 0x2e, 0x64, 0x65, 0x62, 0x75, 0x67, 0x5f, 0x66,
    0x72, 0x61, 0x6d, 0x65],
   [0, 0x65, 0x78, 0x65, 0x63, 0x73, 0x6e, 0x6f, 0x6f, 0x70, 0x2e, 0x62, 0x70, 0x66, 0x2e, 0x63,
    0, 0x2e, 0x73, 0x74],
   [0x72, 0x74, 0x61, 0x62, 0, 0x2e, 0x73, 0x79, 0x6d, 0x74, 0x61, 0x62, 0, 0x2e, 0x72, 0x65,
    0x6c, 0x2e, 0x42, 0x54],
   [0x46, 0, 0x4c, 0x42, 0x42, 0x31, 0x5f, 0x34, 0, 0x4c, 0x42, 0x42, 0x31, 0x5f, 0x33, 0, 0x4c,
    0x42, 0x42, 0x30, 0x5f],
   [0x33, 0, 0, 0, 0, 0, 0, 0, 0, 0, 0, 0, 0, 0, 0, 0, 0, 0, 0, 0, 0, 0, 0, 0, 0, 0, 0, 0, 0, 0,
    0, 0, 0, 0, 0, 0, 0, 0],
   [0, 0, 0, 0, 0, 0, 0, 0, 0, 0, 0, 0, 0, 0, 0, 0, 0, 0, 0, 0, 0, 0, 0, 0, 0, 0, 0, 0, 0, 0, 0,
    0x79, 0x01, 0, 0, 0x03],
   [0, 0, 0, 0, 0, 0, 0, 0, 0, 0, 0, 0, 0, 0, 0, 0, 0, 0, 0, 0x2e, 0x49, 0x0b, 0, 0, 0, 0, 0,
    0xa7, 0x01, 0, 0, 0, 0, 0],
   [0, 0, 0, 0, 0, 0, 0, 0, 0, 0x01, 0, 0, 0, 0, 0, 0, 0, 0, 0, 0, 0, 0, 0, 0, 0, 0x0f, 0, 0, 0,
    0x01, 0, 0, 0, 0x06, 0],
   [0, 0, 0, 0, 0, 0, 0, 0, 0, 0, 0, 0, 0, 0, 0x40, 0, 0, 0, 0, 0, 0, 0, 0, 0, 0, 0, 0, 0, 0, 0,
    0, 0, 0, 0, 0, 0, 0, 0],
   [0x04, 0, 0, 0, 0, 0, 0, 0, 0, 0, 0, 0, 0, 0, 0, 0, 0x05, 0x01, 0, 0, 0x01, 0, 0, 0, 0x06, 0,
    0, 0, 0, 0, 0, 0, 0, 0],
   [0, 0, 0, 0, 0, 0, 0x40, 0, 0, 0, 0, 0, 0, 0, 0x80, 0x01, 0, 0, 0, 0, 0, 0, 0, 0, 0, 0, 0, 0,
    0, 0, 0x08, 0, 0, 0, 0],
   [0, 0, 0, 0, 0, 0, 0, 0, 0, 0, 0, 0x01, 0x01, 0, 0, 0x09, 0, 0, 0, 0x40, 0, 0, 0, 0, 0, 0, 0,
    0, 0, 0, 0, 0, 0, 0, 0],
   [0x88, 0xf1, 0x07, 0, 0, 0, 0, 0, 0x20, 0, 0, 0, 0, 0, 0, 0, 0x1e, 0, 0, 0, 0x03, 0, 0, 0,
    0x08, 0, 0, 0, 0, 0, 0, 0],
   [0x10, 0, 0, 0, 0, 0, 0, 0, 0xc9, 0, 0, 0, 0x01, 0, 0, 0, 0x06, 0, 0, 0, 0, 0, 0, 0, 0, 0, 0,
    0, 0, 0, 0, 0, 0xc0],
   [0x01, 0, 0, 0, 0, 0, 0, 0xf8, 0, 0, 0, 0, 0, 0, 0, 0, 0, 0, 0, 0, 0, 0, 0, 0x08, 0, 0, 0, 0,
    0, 0, 0, 0, 0, 0, 0, 0],
   [0, 0, 0, 0xc5, 0, 0, 0, 0x09, 0, 0, 0, 0x40, 0, 0, 0, 0, 0, 0, 0, 0, 0, 0, 0, 0, 0, 0, 0,
    0xa8, 0xf1, 0x07, 0, 0, 0],
   [0, 0, 0x30, 0, 0, 0, 0, 0, 0, 0, 0x1e, 0, 0, 0, 0x05, 0, 0, 0, 0x08, 0, 0, 0, 0, 0, 0, 0,
    0x10, 0, 0, 0, 0, 0, 0, 0],
   [0x65, 0, 0, 0, 0x01, 0, 0, 0, 0x03, 0, 0, 0, 0, 0, 0, 0, 0, 0, 0, 0, 0, 0, 0, 0, 0xb8, 0x02,
    0, 0, 0, 0, 0, 0, 0x40],
   [0, 0, 0, 0, 0, 0, 0, 0, 0, 0, 0, 0, 0, 0, 0, 0x08, 0, 0, 0, 0, 0, 0, 0, 0, 0, 0, 0, 0, 0, 0,
    0, 0x40, 0x01, 0, 0],
   [0x01, 0, 0, 0, 0x03, 0, 0, 0, 0, 0, 0, 0, 0, 0, 0, 0, 0, 0, 0, 0, 0xf8, 0x02, 0, 0, 0, 0, 0,
    0, 0x04, 0, 0, 0, 0, 0],
   [0, 0, 0, 0, 0, 0, 0, 0, 0, 0, 0x01, 0, 0, 0, 0, 0, 0, 0, 0, 0, 0, 0, 0, 0, 0, 0, 0xaf, 0, 0,
    0, 0x01, 0, 0, 0, 0x03],
   [0, 0, 0, 0, 0, 0, 0, 0, 0, 0, 0, 0, 0, 0, 0, 0xfc, 0x02, 0, 0, 0, 0, 0, 0, 0x04, 0, 0, 0, 0,
    0, 0, 0, 0, 0, 0, 0, 0],
   [0, 0, 0, 0x04, 0, 0, 0, 0, 0, 0, 0, 0, 0, 0, 0, 0, 0, 0, 0, 0x32, 0, 0, 0, 0x01, 0, 0, 0, 0,
    0, 0, 0, 0, 0, 0, 0, 0],
   [0, 0, 0, 0, 0, 0, 0, 0, 0x03, 0, 0, 0, 0, 0, 0, 0xb9, 0, 0, 0, 0, 0, 0, 0, 0, 0, 0, 0, 0, 0,
    0, 0, 0x01, 0, 0, 0, 0],
   [0, 0, 0, 0, 0, 0, 0, 0, 0, 0, 0, 0x01, 0, 0, 0, 0x01, 0, 0, 0, 0, 0, 0, 0, 0, 0, 0, 0, 0, 0,
    0, 0, 0, 0, 0, 0, 0xb9],
   [0x03, 0, 0, 0, 0, 0, 0, 0x2b, 0x04, 0, 0, 0, 0, 0, 0, 0, 0, 0, 0, 0, 0, 0, 0, 0x01, 0, 0, 0,
    0, 0, 0, 0, 0, 0, 0, 0],
   [0, 0, 0, 0, 0xa2, 0, 0, 0, 0x01, 0, 0, 0, 0, 0, 0, 0, 0, 0, 0, 0, 0, 0, 0, 0, 0, 0, 0, 0,
    0xe4, 0x07, 0, 0, 0, 0, 0],
   [0, 0x37, 0xdb, 0x03, 0, 0, 0, 0, 0, 0, 0, 0, 0, 0, 0, 0, 0, 0x01, 0, 0, 0, 0, 0, 0, 0, 0, 0,
    0, 0, 0, 0, 0, 0, 0x9e],
   [0, 0, 0, 0x09, 0, 0, 0, 0x40, 0, 0, 0, 0, 0, 0, 0, 0, 0, 0, 0, 0, 0, 0, 0, 0xd8, 0xf1, 0x07,
    0, 0, 0, 0, 0, 0x60, 0],
   [0, 0, 0, 0, 0, 0, 0x1e, 0, 0, 0, 0x0c, 0, 0, 0, 0x08, 0, 0, 0, 0, 0, 0, 0, 0x10, 0, 0, 0, 0,
    0, 0, 0, 0x22, 0, 0, 0],
   [0x01, 0, 0, 0, 0, 0, 0, 0, 0, 0, 0, 0, 0, 0, 0, 0, 0, 0, 0, 0, 0x1b, 0xe3, 0x03, 0, 0, 0, 0,
    0, 0x19, 0, 0, 0, 0, 0],
   [0, 0, 0, 0, 0, 0, 0, 0, 0, 0, 0x01, 0, 0, 0, 0, 0, 0, 0, 0, 0, 0, 0, 0, 0, 0, 0, 0x52, 0, 0,
    0, 0x01, 0, 0, 0, 0, 0],
   [0, 0, 0, 0, 0, 0, 0, 0, 0, 0, 0, 0, 0, 0, 0x34, 0xe3, 0x03, 0, 0, 0, 0, 0, 0xcc, 0xd4, 0, 0,
    0, 0, 0, 0, 0, 0, 0, 0],
   [0, 0, 0, 0, 0x01, 0, 0, 0, 0, 0, 0, 0, 0, 0, 0, 0, 0, 0, 0, 0, 0x4e, 0, 0, 0, 0x09, 0, 0, 0,
    0x40, 0, 0, 0, 0, 0, 0],
   [0, 0, 0, 0, 0, 0, 0, 0, 0, 0x38, 0xf2, 0x07, 0, 0, 0, 0, 0, 0x10, 0x53, 0x03, 0, 0, 0, 0, 0,
    0x1e, 0, 0, 0, 0x0f, 0],
   [0, 0, 0x08, 0, 0, 0, 0, 0, 0, 0, 0x10, 0, 0, 0, 0, 0, 0, 0, 0x73, 0, 0, 0, 0x01, 0, 0, 0,
    0x30, 0, 0, 0, 0, 0, 0, 0],
   [0, 0, 0, 0, 0, 0, 0, 0, 0, 0xb8, 0x04, 0, 0, 0, 0, 0, 0x74, 0xbf, 0x02, 0, 0, 0, 0, 0, 0, 0,
    0, 0, 0, 0, 0, 0, 0x01],
   [0, 0, 0, 0, 0, 0, 0, 0x01, 0, 0, 0, 0, 0, 0, 0, 0x92, 0, 0, 0, 0x01, 0, 0, 0, 0, 0, 0, 0, 0,
    0, 0, 0, 0, 0, 0, 0, 0],
   [0, 0, 0, 0x74, 0x77, 0x07, 0, 0, 0, 0, 0, 0x40, 0, 0, 0, 0, 0, 0, 0, 0, 0, 0, 0, 0, 0, 0, 0,
    0x01, 0, 0, 0, 0, 0, 0],
   [0, 0, 0, 0, 0, 0, 0, 0, 0, 0x8e, 0, 0, 0, 0x09, 0, 0, 0, 0x40, 0, 0, 0, 0, 0, 0, 0, 0, 0, 0,
    0, 0, 0, 0, 0, 0x48],
   [0x45, 0x0b, 0, 0, 0, 0, 0, 0x70, 0, 0, 0, 0, 0, 0, 0, 0x1e, 0, 0, 0, 0x12, 0, 0, 0, 0x08, 0,
    0, 0, 0, 0, 0, 0, 0x10],
   [0, 0, 0, 0, 0, 0, 0, 0x8d, 0x01, 0, 0, 0x01, 0, 0, 0, 0, 0, 0, 0, 0, 0, 0, 0, 0, 0, 0, 0, 0,
    0, 0, 0, 0xb4, 0x77],
   [0x07, 0, 0, 0, 0, 0, 0x24, 0x73, 0, 0, 0, 0, 0, 0, 0, 0, 0, 0, 0, 0, 0, 0, 0x04, 0, 0, 0, 0,
    0, 0, 0, 0, 0, 0, 0, 0],
   [0, 0, 0, 0x89, 0x01, 0, 0, 0x09, 0, 0, 0, 0x40, 0, 0, 0, 0, 0, 0, 0, 0, 0, 0, 0, 0, 0, 0, 0,
    0xb8, 0x45, 0x0b, 0, 0],
   [0, 0, 0, 0x40, 0, 0, 0, 0, 0, 0, 0, 0x1e, 0, 0, 0, 0x14, 0, 0, 0, 0x08, 0, 0, 0, 0, 0, 0, 0,
    0x10, 0, 0, 0, 0, 0, 0],
   [0, 0x19, 0, 0, 0, 0x01, 0, 0, 0, 0, 0, 0, 0, 0, 0, 0, 0, 0, 0, 0, 0, 0, 0, 0, 0, 0xd8, 0xea,
    0x07, 0, 0, 0, 0, 0],
   [0xb4, 0x02, 0, 0, 0, 0, 0, 0, 0, 0, 0, 0, 0, 0, 0, 0, 0x04, 0, 0, 0, 0, 0, 0, 0, 0, 0, 0, 0,
    0, 0, 0, 0, 0x15, 0, 0],
   [0, 0x09, 0, 0, 0, 0x40, 0, 0, 0, 0, 0, 0, 0, 0, 0, 0, 0, 0, 0, 0, 0, 0xf8, 0x45, 0x0b, 0, 0,
    0, 0, 0, 0x70, 0x02, 0],
   [0, 0, 0, 0, 0, 0x1e, 0, 0, 0, 0x16, 0, 0, 0, 0x08, 0, 0, 0, 0, 0, 0, 0, 0x10, 0, 0, 0, 0, 0,
    0, 0, 0x5c, 0x01, 0, 0],
   [0x01, 0, 0, 0, 0, 0, 0, 0, 0, 0, 0, 0, 0, 0, 0, 0, 0, 0, 0, 0, 0x90, 0xed, 0x07, 0, 0, 0, 0,
    0, 0x40, 0, 0, 0, 0, 0],
   [0, 0, 0, 0, 0, 0, 0, 0, 0, 0, 0x08, 0, 0, 0, 0, 0, 0, 0, 0, 0, 0, 0, 0, 0, 0, 0, 0x58, 0x01,
    0, 0, 0x09, 0, 0, 0],
   [0x40, 0, 0, 0, 0, 0, 0, 0, 0, 0, 0, 0, 0, 0, 0, 0, 0x68, 0x48, 0x0b, 0, 0, 0, 0, 0, 0x40, 0,
    0, 0, 0, 0, 0, 0, 0x1e],
   [0, 0, 0, 0x18, 0, 0, 0, 0x08, 0, 0, 0, 0, 0, 0, 0, 0x10, 0, 0, 0, 0, 0, 0, 0, 0x4c, 0x01, 0,
    0, 0x01, 0, 0, 0, 0, 0],
   [0, 0, 0, 0, 0, 0, 0, 0, 0, 0, 0, 0, 0, 0, 0xd0, 0xed, 0x07, 0, 0, 0, 0, 0, 0x36, 0x01, 0, 0,
    0, 0, 0, 0, 0, 0, 0, 0],
   [0, 0, 0, 0, 0x01, 0, 0, 0, 0, 0, 0, 0, 0, 0, 0, 0, 0, 0, 0, 0, 0x48, 0x01, 0, 0, 0x09, 0, 0,
    0, 0x40, 0, 0, 0, 0, 0],
   [0, 0, 0, 0, 0, 0, 0, 0, 0, 0, 0xa8, 0x48, 0x0b, 0, 0, 0, 0, 0, 0x80, 0, 0, 0, 0, 0, 0, 0,
    0x1e, 0, 0, 0, 0x1a, 0, 0],
   [0, 0x08, 0, 0, 0, 0, 0, 0, 0, 0x10, 0, 0, 0, 0, 0, 0, 0, 0x7e, 0, 0, 0, 0x01, 0, 0, 0, 0x30,
    0, 0, 0, 0, 0, 0, 0, 0],
   [0, 0, 0, 0, 0, 0, 0, 0x06, 0xef, 0x07, 0, 0, 0, 0, 0, 0x72, 0, 0, 0, 0, 0, 0, 0, 0, 0, 0, 0,
    0, 0, 0, 0, 0x01, 0, 0],
   [0, 0, 0, 0, 0, 0x01, 0, 0, 0, 0, 0, 0, 0, 0xb7, 0, 0, 0, 0x03, 0x4c, 0xff, 0x6f, 0, 0, 0,
    0x80, 0, 0, 0, 0, 0, 0, 0],
   [0, 0, 0, 0, 0, 0x28, 0x49, 0x0b, 0, 0, 0, 0, 0, 0x06, 0, 0, 0, 0, 0, 0, 0, 0x1e, 0, 0, 0, 0,
    0, 0, 0, 0x01, 0, 0, 0],
   [0, 0, 0, 0, 0, 0, 0, 0, 0, 0, 0, 0, 0x81, 0x01, 0, 0, 0x02, 0, 0, 0, 0, 0, 0, 0, 0, 0, 0, 0,
    0, 0, 0, 0, 0, 0, 0, 0],
   [0x78, 0xef, 0x07, 0, 0, 0, 0, 0, 0x10, 0x02, 0, 0, 0, 0, 0, 0, 0x01, 0, 0, 0, 0x10, 0, 0, 0,
    0x08, 0, 0, 0, 0, 0, 0],
   [0, 0x18, 0, 0, 0, 0, 0, 0, 0]]"

definition core_btf :: "bytes list" where
  "core_btf = btf_types_1 @ btf_types_2 @ btf_types_3 @ btf_types_4 @ btf_types_5
     @ btf_strings_1 @ btf_strings_2 @ btf_strings_3 @ btf_strings_4 @ btf_strings_5"

definition core_data_sz :: nat where "core_data_sz = 742040"

definition core_image :: image where
  "core_image = [(0, core_head @ core_debug), (489396, core_btf @ core_tail), (738619, core_end),
     (489327, core_addr)]"

lemma length_core_btf: "length (concat core_btf) = 29461"
  by (simp add: core_btf_def length_btf_types_1 length_btf_types_2 length_btf_types_3 length_btf_types_4 length_btf_types_5
      length_btf_strings_1 length_btf_strings_2 length_btf_strings_3 length_btf_strings_4 length_btf_strings_5)

lemma length_core_head: "length (concat core_head) = 775"
  by (simp add: core_head_def)

text \<open>Reading before and after the section \<open>.BTF\<close> does not go through it.\<close>

definition core_first :: image where "core_first = [(0, core_head)]"
definition core_rest :: image where "core_rest = [(518857, core_tail), (738619, core_end)]"

definition core_low :: image where "core_low = [(0, core_head @ core_debug)]"

lemma core_image_low: "pos + n \<le> 2037 \<Longrightarrow> at core_image pos n = at core_low pos n"
  by (simp add: core_image_def core_low_def cut_eq length_core_head length_core_debug)

lemma core_image_first: "pos + n \<le> 775 \<Longrightarrow> at core_image pos n = at core_first pos n"
  by (simp add: core_image_low) (simp add: core_low_def core_first_def cut_eq length_core_head)

lemma core_image_rest:
  assumes "518857 \<le> pos"
  shows "at core_image pos n = at core_rest pos n"
proof -
  have "drop (pos - 489396) (concat (core_btf @ core_tail)) = drop (pos - 518857) (concat core_tail)"
    using assms by (simp add: length_core_btf)
  moreover have "drop pos (concat (core_head @ core_debug)) = []"
    using assms by (simp add: length_core_head length_core_debug)
  ultimately show ?thesis
    using assms by (simp add: core_image_def core_rest_def cut_eq length_core_addr)
qed

subsection \<open>Reading the object\<close>

lemma core_ehdr: "at core_image 0 64 = Some
    [0x7f, 0x45, 0x4c, 0x46, 0x02, 0x01, 0x01, 0, 0, 0, 0, 0, 0, 0, 0, 0, 0x01, 0, 0xf7, 0, 0x01,
    0, 0, 0, 0, 0, 0, 0, 0, 0, 0, 0, 0, 0, 0, 0, 0, 0, 0, 0, 0xd8, 0x4a, 0x0b, 0, 0, 0, 0, 0, 0,
    0, 0, 0, 0x40, 0, 0, 0, 0, 0, 0x40, 0, 0x1f, 0, 0x01, 0]"
  by (simp add: core_image_first core_first_def core_head_def)

definition core_headers :: "section_header list" where
  "core_headers = [
    \<lparr>sh_name = 0, sh_type = 0, sh_offset = 0, sh_size = 0, sh_link = 0, sh_info = 0\<rparr>,
    \<lparr>sh_name = 377, sh_type = 3, sh_offset = 739630, sh_size = 423, sh_link = 0, sh_info = 0\<rparr>,
    \<lparr>sh_name = 15, sh_type = 1, sh_offset = 64, sh_size = 0, sh_link = 0, sh_info = 0\<rparr>,
    \<lparr>sh_name = 261, sh_type = 1, sh_offset = 64, sh_size = 384, sh_link = 0, sh_info = 0\<rparr>,
    \<lparr>sh_name = 257, sh_type = 9, sh_offset = 520584, sh_size = 32, sh_link = 30, sh_info = 3\<rparr>,
    \<lparr>sh_name = 201, sh_type = 1, sh_offset = 448, sh_size = 248, sh_link = 0, sh_info = 0\<rparr>,
    \<lparr>sh_name = 197, sh_type = 9, sh_offset = 520616, sh_size = 48, sh_link = 30, sh_info = 5\<rparr>,
    \<lparr>sh_name = 101, sh_type = 1, sh_offset = 696, sh_size = 64, sh_link = 0, sh_info = 0\<rparr>,
    \<lparr>sh_name = 320, sh_type = 1, sh_offset = 760, sh_size = 4, sh_link = 0, sh_info = 0\<rparr>,
    \<lparr>sh_name = 175, sh_type = 1, sh_offset = 764, sh_size = 4, sh_link = 0, sh_info = 0\<rparr>,
    \<lparr>sh_name = 50, sh_type = 1, sh_offset = 768, sh_size = 185, sh_link = 0, sh_info = 0\<rparr>,
    \<lparr>sh_name = 1, sh_type = 1, sh_offset = 953, sh_size = 1067, sh_link = 0, sh_info = 0\<rparr>,
    \<lparr>sh_name = 162, sh_type = 1, sh_offset = 2020, sh_size = 252727, sh_link = 0, sh_info = 0\<rparr>,
    \<lparr>sh_name = 158, sh_type = 9, sh_offset = 520664, sh_size = 96, sh_link = 30, sh_info = 12\<rparr>,
    \<lparr>sh_name = 34, sh_type = 1, sh_offset = 254747, sh_size = 25, sh_link = 0, sh_info = 0\<rparr>,
    \<lparr>sh_name = 82, sh_type = 1, sh_offset = 254772, sh_size = 54476, sh_link = 0, sh_info = 0\<rparr>,
    \<lparr>sh_name = 78, sh_type = 9, sh_offset = 520760, sh_size = 217872, sh_link = 30, sh_info = 15\<rparr>,
    \<lparr>sh_name = 115, sh_type = 1, sh_offset = 309248, sh_size = 180084, sh_link = 0, sh_info = 0\<rparr>,
    \<lparr>sh_name = 146, sh_type = 1, sh_offset = 489332, sh_size = 64, sh_link = 0, sh_info = 0\<rparr>,
    \<lparr>sh_name = 142, sh_type = 9, sh_offset = 738632, sh_size = 112, sh_link = 30, sh_info = 18\<rparr>,
    \<lparr>sh_name = 397, sh_type = 1, sh_offset = 489396, sh_size = 29476, sh_link = 0, sh_info = 0\<rparr>,
    \<lparr>sh_name = 393, sh_type = 9, sh_offset = 738744, sh_size = 64, sh_link = 30, sh_info = 20\<rparr>,
    \<lparr>sh_name = 25, sh_type = 1, sh_offset = 518872, sh_size = 692, sh_link = 0, sh_info = 0\<rparr>,
    \<lparr>sh_name = 21, sh_type = 9, sh_offset = 738808, sh_size = 624, sh_link = 30, sh_info = 22\<rparr>,
    \<lparr>sh_name = 348, sh_type = 1, sh_offset = 519568, sh_size = 64, sh_link = 0, sh_info = 0\<rparr>,
    \<lparr>sh_name = 344, sh_type = 9, sh_offset = 739432, sh_size = 64, sh_link = 30, sh_info = 24\<rparr>,
    \<lparr>sh_name = 332, sh_type = 1, sh_offset = 519632, sh_size = 310, sh_link = 0, sh_info = 0\<rparr>,
    \<lparr>sh_name = 328, sh_type = 9, sh_offset = 739496, sh_size = 128, sh_link = 30, sh_info = 26\<rparr>,
    \<lparr>sh_name = 126, sh_type = 1, sh_offset = 519942, sh_size = 114, sh_link = 0, sh_info = 0\<rparr>,
    \<lparr>sh_name = 183, sh_type = 1879002115, sh_offset = 739624, sh_size = 6, sh_link = 30, sh_info = 0\<rparr>,
    \<lparr>sh_name = 385, sh_type = 2, sh_offset = 520056, sh_size = 528, sh_link = 1, sh_info = 16\<rparr>]"

definition core_elf :: elf where
  "core_elf = \<lparr>elf_end = 742040, elf_shstrndx = 1, elf_headers = core_headers\<rparr>"

lemma core_section_headers: "entries core_image header_of 64 31 740056 = Some core_headers"
  by (simp add: core_image_rest core_rest_def core_tail_def core_end_def entries_def header_of_def field_def core_headers_def)

lemma core_elf_of: "elf_of core_image = Some core_elf"
  by (simp add: elf_of_def core_ehdr field_def ELF_MAGIC_def EM_BPF_def core_section_headers core_elf_def)

lemma core_strtab: "at core_image 739630 423 = Some
    [0, 0x2e, 0x64, 0x65, 0x62, 0x75, 0x67, 0x5f, 0x61, 0x62, 0x62, 0x72, 0x65, 0x76, 0, 0x2e,
    0x74, 0x65, 0x78, 0x74, 0, 0x2e, 0x72, 0x65, 0x6c, 0x2e, 0x42, 0x54, 0x46, 0x2e, 0x65, 0x78,
    0x74, 0, 0x2e, 0x64, 0x65, 0x62, 0x75, 0x67, 0x5f, 0x72, 0x6e, 0x67, 0x6c, 0x69, 0x73, 0x74,
    0x73, 0, 0x2e, 0x64, 0x65, 0x62, 0x75, 0x67, 0x5f, 0x6c, 0x6f, 0x63, 0x6c, 0x69, 0x73, 0x74,
    0x73, 0, 0x70, 0x65, 0x72, 0x66, 0x5f, 0x65, 0x76, 0x65, 0x6e, 0x74, 0x73, 0, 0x2e, 0x72,
    0x65, 0x6c, 0x2e, 0x64, 0x65, 0x62, 0x75, 0x67, 0x5f, 0x73, 0x74, 0x72, 0x5f, 0x6f, 0x66,
    0x66, 0x73, 0x65, 0x74, 0x73, 0, 0x2e, 0x6d, 0x61, 0x70, 0x73, 0, 0x72, 0x65, 0x63, 0x6f,
    0x72, 0x64, 0x73, 0, 0x2e, 0x64, 0x65, 0x62, 0x75, 0x67, 0x5f, 0x73, 0x74, 0x72, 0, 0x2e,
    0x64, 0x65, 0x62, 0x75, 0x67, 0x5f, 0x6c, 0x69, 0x6e, 0x65, 0x5f, 0x73, 0x74, 0x72, 0, 0x2e,
    0x72, 0x65, 0x6c, 0x2e, 0x64, 0x65, 0x62, 0x75, 0x67, 0x5f, 0x61, 0x64, 0x64, 0x72, 0, 0x2e,
    0x72, 0x65, 0x6c, 0x2e, 0x64, 0x65, 0x62, 0x75, 0x67, 0x5f, 0x69, 0x6e, 0x66, 0x6f, 0, 0x5f,
    0x76, 0x65, 0x72, 0x73, 0x69, 0x6f, 0x6e, 0, 0x2e, 0x6c, 0x6c, 0x76, 0x6d, 0x5f, 0x61, 0x64,
    0x64, 0x72, 0x73, 0x69, 0x67, 0, 0x2e, 0x72, 0x65, 0x6c, 0x74, 0x72, 0x61, 0x63, 0x65, 0x70,
    0x6f, 0x69, 0x6e, 0x74, 0x2f, 0x73, 0x79, 0x73, 0x63, 0x61, 0x6c, 0x6c, 0x73, 0x2f, 0x73,
    0x79, 0x73, 0x5f, 0x65, 0x78, 0x69, 0x74, 0x5f, 0x65, 0x78, 0x65, 0x63, 0x76, 0x65, 0, 0x73,
    0x79, 0x73, 0x63, 0x61, 0x6c, 0x6c, 0x5f, 0x65, 0x78, 0x69, 0x74, 0x5f, 0x65, 0x78, 0x65,
    0x63, 0x76, 0x65, 0, 0x2e, 0x72, 0x65, 0x6c, 0x74, 0x72, 0x61, 0x63, 0x65, 0x70, 0x6f, 0x69,
    0x6e, 0x74, 0x2f, 0x73, 0x79, 0x73, 0x63, 0x61, 0x6c, 0x6c, 0x73, 0x2f, 0x73, 0x79, 0x73,
    0x5f, 0x65, 0x6e, 0x74, 0x65, 0x72, 0x5f, 0x65, 0x78, 0x65, 0x63, 0x76, 0x65, 0, 0x73, 0x79,
    0x73, 0x63, 0x61, 0x6c, 0x6c, 0x5f, 0x65, 0x6e, 0x74, 0x65, 0x72, 0x5f, 0x65, 0x78, 0x65,
    0x63, 0x76, 0x65, 0, 0x5f, 0x6c, 0x69, 0x63, 0x65, 0x6e, 0x73, 0x65, 0, 0x2e, 0x72, 0x65,
    0x6c, 0x2e, 0x64, 0x65, 0x62, 0x75, 0x67, 0x5f, 0x6c, 0x69, 0x6e, 0x65, 0, 0x2e, 0x72, 0x65,
    0x6c, 0x2e, 0x64, 0x65, 0x62, 0x75, 0x67, 0x5f, 0x66, 0x72, 0x61, 0x6d, 0x65, 0, 0x65, 0x78,
    0x65, 0x63, 0x73, 0x6e, 0x6f, 0x6f, 0x70, 0x2e, 0x62, 0x70, 0x66, 0x2e, 0x63, 0, 0x2e, 0x73,
    0x74, 0x72, 0x74, 0x61, 0x62, 0, 0x2e, 0x73, 0x79, 0x6d, 0x74, 0x61, 0x62, 0, 0x2e, 0x72,
    0x65, 0x6c, 0x2e, 0x42, 0x54, 0x46, 0, 0x4c, 0x42, 0x42, 0x31, 0x5f, 0x34, 0, 0x4c, 0x42,
    0x42, 0x31, 0x5f, 0x33, 0, 0x4c, 0x42, 0x42, 0x30, 0x5f, 0x33, 0]"
  by (simp add: core_image_rest core_rest_def core_tail_def core_end_def)

lemma core_section_names: "section_names core_image core_elf = map Some
    ['''', ''.strtab'', ''.text'', ''tracepoint/syscalls/sys_enter_execve'',
    ''.reltracepoint/syscalls/sys_enter_execve'', ''tracepoint/syscalls/sys_exit_execve'',
    ''.reltracepoint/syscalls/sys_exit_execve'', ''.maps'', ''license'', ''version'',
    ''.debug_loclists'', ''.debug_abbrev'', ''.debug_info'', ''.rel.debug_info'',
    ''.debug_rnglists'', ''.debug_str_offsets'', ''.rel.debug_str_offsets'', ''.debug_str'',
    ''.debug_addr'', ''.rel.debug_addr'', ''.BTF'', ''.rel.BTF'', ''.BTF.ext'', ''.rel.BTF.ext'',
    ''.debug_frame'', ''.rel.debug_frame'', ''.debug_line'', ''.rel.debug_line'',
    ''.debug_line_str'', ''.llvm_addrsig'', ''.symtab'']"
  by (simp add: section_names_def contents_def core_elf_def core_headers_def cstring_at_def core_strtab)

lemma core_symbols: "symbols core_image core_elf = [
    ('''', \<lparr>st_name = 0, st_shndx = 0, st_value = 0, st_size = 0\<rparr>),
    (''execsnoop.bpf.c'', \<lparr>st_name = 361, st_shndx = 65521, st_value = 0, st_size = 0\<rparr>),
    ('''', \<lparr>st_name = 0, st_shndx = 3, st_value = 0, st_size = 0\<rparr>),
    (''LBB0_3'', \<lparr>st_name = 416, st_shndx = 3, st_value = 368, st_size = 0\<rparr>),
    ('''', \<lparr>st_name = 0, st_shndx = 5, st_value = 0, st_size = 0\<rparr>),
    (''LBB1_4'', \<lparr>st_name = 402, st_shndx = 5, st_value = 232, st_size = 0\<rparr>),
    (''LBB1_3'', \<lparr>st_name = 409, st_shndx = 5, st_value = 192, st_size = 0\<rparr>),
    ('''', \<lparr>st_name = 0, st_shndx = 10, st_value = 0, st_size = 0\<rparr>),
    ('''', \<lparr>st_name = 0, st_shndx = 11, st_value = 0, st_size = 0\<rparr>),
    ('''', \<lparr>st_name = 0, st_shndx = 14, st_value = 0, st_size = 0\<rparr>),
    ('''', \<lparr>st_name = 0, st_shndx = 15, st_value = 0, st_size = 0\<rparr>),
    ('''', \<lparr>st_name = 0, st_shndx = 17, st_value = 0, st_size = 0\<rparr>),
    ('''', \<lparr>st_name = 0, st_shndx = 18, st_value = 0, st_size = 0\<rparr>),
    ('''', \<lparr>st_name = 0, st_shndx = 24, st_value = 0, st_size = 0\<rparr>),
    ('''', \<lparr>st_name = 0, st_shndx = 26, st_value = 0, st_size = 0\<rparr>),
    ('''', \<lparr>st_name = 0, st_shndx = 28, st_value = 0, st_size = 0\<rparr>),
    (''syscall_enter_execve'', \<lparr>st_name = 298, st_shndx = 3, st_value = 0, st_size = 384\<rparr>),
    (''records'', \<lparr>st_name = 107, st_shndx = 7, st_value = 0, st_size = 32\<rparr>),
    (''syscall_exit_execve'', \<lparr>st_name = 237, st_shndx = 5, st_value = 0, st_size = 248\<rparr>),
    (''perf_events'', \<lparr>st_name = 66, st_shndx = 7, st_value = 32, st_size = 32\<rparr>),
    (''_license'', \<lparr>st_name = 319, st_shndx = 8, st_value = 0, st_size = 4\<rparr>),
    (''_version'', \<lparr>st_name = 174, st_shndx = 9, st_value = 0, st_size = 4\<rparr>)]"
proof -
  have "entries core_image symbol_of 24 22 520056 = Some [
    \<lparr>st_name = 0, st_shndx = 0, st_value = 0, st_size = 0\<rparr>,
    \<lparr>st_name = 361, st_shndx = 65521, st_value = 0, st_size = 0\<rparr>,
    \<lparr>st_name = 0, st_shndx = 3, st_value = 0, st_size = 0\<rparr>,
    \<lparr>st_name = 416, st_shndx = 3, st_value = 368, st_size = 0\<rparr>,
    \<lparr>st_name = 0, st_shndx = 5, st_value = 0, st_size = 0\<rparr>,
    \<lparr>st_name = 402, st_shndx = 5, st_value = 232, st_size = 0\<rparr>,
    \<lparr>st_name = 409, st_shndx = 5, st_value = 192, st_size = 0\<rparr>,
    \<lparr>st_name = 0, st_shndx = 10, st_value = 0, st_size = 0\<rparr>,
    \<lparr>st_name = 0, st_shndx = 11, st_value = 0, st_size = 0\<rparr>,
    \<lparr>st_name = 0, st_shndx = 14, st_value = 0, st_size = 0\<rparr>,
    \<lparr>st_name = 0, st_shndx = 15, st_value = 0, st_size = 0\<rparr>,
    \<lparr>st_name = 0, st_shndx = 17, st_value = 0, st_size = 0\<rparr>,
    \<lparr>st_name = 0, st_shndx = 18, st_value = 0, st_size = 0\<rparr>,
    \<lparr>st_name = 0, st_shndx = 24, st_value = 0, st_size = 0\<rparr>,
    \<lparr>st_name = 0, st_shndx = 26, st_value = 0, st_size = 0\<rparr>,
    \<lparr>st_name = 0, st_shndx = 28, st_value = 0, st_size = 0\<rparr>,
    \<lparr>st_name = 298, st_shndx = 3, st_value = 0, st_size = 384\<rparr>,
    \<lparr>st_name = 107, st_shndx = 7, st_value = 0, st_size = 32\<rparr>,
    \<lparr>st_name = 237, st_shndx = 5, st_value = 0, st_size = 248\<rparr>,
    \<lparr>st_name = 66, st_shndx = 7, st_value = 32, st_size = 32\<rparr>,
    \<lparr>st_name = 319, st_shndx = 8, st_value = 0, st_size = 4\<rparr>,
    \<lparr>st_name = 174, st_shndx = 9, st_value = 0, st_size = 4\<rparr>]"
    by (simp add: core_image_rest core_rest_def core_tail_def core_end_def entries_def symbol_of_def field_def)
  then show ?thesis
    by (simp add: symbols_def contents_def core_elf_def core_headers_def cstring_at_def core_strtab SHT_SYMTAB_def)
qed

lemma core_enter_relocations: "relocations core_image core_elf 3 = [(112, ''records''), (168, ''records'')]"
proof -
  have "entries core_image (\<lambda>bs. (field 0 8 bs, field 12 4 bs)) 16 2 520584 = Some [(112, 17), (168, 17)]"
    by (simp add: core_image_rest core_rest_def core_tail_def core_end_def entries_def field_def)
  moreover have "find (\<lambda>sh. sh_type sh = SHT_REL \<and> sh_info sh = 3) (elf_headers core_elf) = Some
    \<lparr>sh_name = 257, sh_type = 9, sh_offset = 520584, sh_size = 32, sh_link = 30, sh_info = 3\<rparr>"
    by (simp add: core_elf_def core_headers_def SHT_REL_def)
  ultimately show ?thesis by (simp add: relocations_def core_symbols)
qed

definition core_enter :: "insn list" where
  "core_enter = [
    Call 14, Alu_reg Mov 6 0, Store 4 10 (- 4) 6, Call 15, Alu_reg Mov 7 0, Alu_imm Mov 1 0,
    Store 8 10 (- 24) 1, Store 8 10 (- 32) 1, Store 8 10 (- 40) 1, Store 8 10 (- 48) 1, Alu_reg
    Mov 2 10, Alu_imm Add 2 (- 4), Alu_reg Mov 3 10, Alu_imm Add 3 (- 48), Ld_map 1 ''records'',
    Pad, Alu_imm Mov 4 1, Call 2, Jump_imm J_ne 0 0 27, Alu_reg Mov 2 10, Alu_imm Add 2 (- 4),
    Ld_map 1 ''records'', Pad, Call 1, Alu_reg Mov 8 0, Jump_imm J_eq 8 0 20, Alu_imm Rsh 6 32,
    Load 4 1 10 (- 4), Store 4 8 28 7, Store 4 8 20 6, Store 4 8 16 1, Call 35, Alu_imm Mov 1
    1512, Alu_reg Add 0 1, Alu_reg Mov 1 10, Alu_imm Add 1 (- 16), Alu_imm Mov 2 8, Alu_reg Mov 3
    0, Call 4, Alu_imm Mov 1 1500, Load 8 3 10 (- 16), Alu_reg Add 3 1, Alu_imm Add 8 24, Alu_reg
    Mov 1 8, Alu_imm Mov 2 4, Call 4, Alu_imm Mov 0 0, Exit_insn]"

lemma core_enter_program: "program_of core_image ''tracepoint/syscalls/sys_enter_execve'' = Some core_enter"
proof -
  have code: "at core_image 64 384 = Some
    [0x85, 0, 0, 0, 0x0e, 0, 0, 0, 0xbf, 0x06, 0, 0, 0, 0, 0, 0, 0x63, 0x6a, 0xfc, 0xff, 0, 0, 0,
    0, 0x85, 0, 0, 0, 0x0f, 0, 0, 0, 0xbf, 0x07, 0, 0, 0, 0, 0, 0, 0xb7, 0x01, 0, 0, 0, 0, 0, 0,
    0x7b, 0x1a, 0xe8, 0xff, 0, 0, 0, 0, 0x7b, 0x1a, 0xe0, 0xff, 0, 0, 0, 0, 0x7b, 0x1a, 0xd8,
    0xff, 0, 0, 0, 0, 0x7b, 0x1a, 0xd0, 0xff, 0, 0, 0, 0, 0xbf, 0xa2, 0, 0, 0, 0, 0, 0, 0x07,
    0x02, 0, 0, 0xfc, 0xff, 0xff, 0xff, 0xbf, 0xa3, 0, 0, 0, 0, 0, 0, 0x07, 0x03, 0, 0, 0xd0,
    0xff, 0xff, 0xff, 0x18, 0x01, 0, 0, 0, 0, 0, 0, 0, 0, 0, 0, 0, 0, 0, 0, 0xb7, 0x04, 0, 0,
    0x01, 0, 0, 0, 0x85, 0, 0, 0, 0x02, 0, 0, 0, 0x55, 0, 0x1b, 0, 0, 0, 0, 0, 0xbf, 0xa2, 0, 0,
    0, 0, 0, 0, 0x07, 0x02, 0, 0, 0xfc, 0xff, 0xff, 0xff, 0x18, 0x01, 0, 0, 0, 0, 0, 0, 0, 0, 0,
    0, 0, 0, 0, 0, 0x85, 0, 0, 0, 0x01, 0, 0, 0, 0xbf, 0x08, 0, 0, 0, 0, 0, 0, 0x15, 0x08, 0x14,
    0, 0, 0, 0, 0, 0x77, 0x06, 0, 0, 0x20, 0, 0, 0, 0x61, 0xa1, 0xfc, 0xff, 0, 0, 0, 0, 0x63,
    0x78, 0x1c, 0, 0, 0, 0, 0, 0x63, 0x68, 0x14, 0, 0, 0, 0, 0, 0x63, 0x18, 0x10, 0, 0, 0, 0, 0,
    0x85, 0, 0, 0, 0x23, 0, 0, 0, 0xb7, 0x01, 0, 0, 0xe8, 0x05, 0, 0, 0x0f, 0x10, 0, 0, 0, 0, 0,
    0, 0xbf, 0xa1, 0, 0, 0, 0, 0, 0, 0x07, 0x01, 0, 0, 0xf0, 0xff, 0xff, 0xff, 0xb7, 0x02, 0, 0,
    0x08, 0, 0, 0, 0xbf, 0x03, 0, 0, 0, 0, 0, 0, 0x85, 0, 0, 0, 0x04, 0, 0, 0, 0xb7, 0x01, 0, 0,
    0xdc, 0x05, 0, 0, 0x79, 0xa3, 0xf0, 0xff, 0, 0, 0, 0, 0x0f, 0x13, 0, 0, 0, 0, 0, 0, 0x07,
    0x08, 0, 0, 0x18, 0, 0, 0, 0xbf, 0x81, 0, 0, 0, 0, 0, 0, 0xb7, 0x02, 0, 0, 0x04, 0, 0, 0,
    0x85, 0, 0, 0, 0x04, 0, 0, 0, 0xb7, 0, 0, 0, 0, 0, 0, 0, 0x95, 0, 0, 0, 0, 0, 0, 0]"
    by (simp add: core_image_first core_first_def core_head_def)
  have sec: "elf_headers core_elf ! 3 =
    \<lparr>sh_name = 261, sh_type = 1, sh_offset = 64, sh_size = 384, sh_link = 0, sh_info = 0\<rparr>"
    by (simp add: core_elf_def core_headers_def)
  have index: "index_of (Some ''tracepoint/syscalls/sys_enter_execve'') (section_names core_image core_elf) = Some 3"
    by (simp add: core_section_names)
  show ?thesis
    by (simp add: program_of_def core_elf_of index core_enter_relocations contents_def code
        sec insn_of_def signed_num_def core_enter_def)
qed

lemma core_exit_relocations: "relocations core_image core_elf 5 = [(40, ''records''), (136, ''perf_events''), (208, ''records'')]"
proof -
  have "entries core_image (\<lambda>bs. (field 0 8 bs, field 12 4 bs)) 16 3 520616 = Some [(40, 17), (136, 19), (208, 17)]"
    by (simp add: core_image_rest core_rest_def core_tail_def core_end_def entries_def field_def)
  moreover have "find (\<lambda>sh. sh_type sh = SHT_REL \<and> sh_info sh = 5) (elf_headers core_elf) = Some
    \<lparr>sh_name = 197, sh_type = 9, sh_offset = 520616, sh_size = 48, sh_link = 30, sh_info = 5\<rparr>"
    by (simp add: core_elf_def core_headers_def SHT_REL_def)
  ultimately show ?thesis by (simp add: relocations_def core_symbols)
qed

definition core_exit :: "insn list" where
  "core_exit = [
    Alu_reg Mov 6 1, Call 14, Store 4 10 (- 4) 0, Alu_reg Mov 2 10, Alu_imm Add 2 (- 4), Ld_map 1
    ''records'', Pad, Call 1, Alu_reg Mov 7 0, Jump_imm J_eq 7 0 19, Load 8 1 6 16, Alu_imm Mov 2
    0, Jump_reg J_sgt 2 1 11, Alu_reg Mov 1 7, Alu_imm Mov 2 16, Call 16, Alu_reg Mov 1 6, Ld_map
    2 ''perf_events'', Pad, Ld_imm64 3 4294967295, Pad, Alu_reg Mov 4 7, Alu_imm Mov 5 32, Call
    25, Alu_reg Mov 2 10, Alu_imm Add 2 (- 4), Ld_map 1 ''records'', Pad, Call 3, Alu_imm Mov 0
    0, Exit_insn]"

lemma core_exit_program: "program_of core_image ''tracepoint/syscalls/sys_exit_execve'' = Some core_exit"
proof -
  have code: "at core_image 448 248 = Some
    [0xbf, 0x16, 0, 0, 0, 0, 0, 0, 0x85, 0, 0, 0, 0x0e, 0, 0, 0, 0x63, 0x0a, 0xfc, 0xff, 0, 0, 0,
    0, 0xbf, 0xa2, 0, 0, 0, 0, 0, 0, 0x07, 0x02, 0, 0, 0xfc, 0xff, 0xff, 0xff, 0x18, 0x01, 0, 0,
    0, 0, 0, 0, 0, 0, 0, 0, 0, 0, 0, 0, 0x85, 0, 0, 0, 0x01, 0, 0, 0, 0xbf, 0x07, 0, 0, 0, 0, 0,
    0, 0x15, 0x07, 0x13, 0, 0, 0, 0, 0, 0x79, 0x61, 0x10, 0, 0, 0, 0, 0, 0xb7, 0x02, 0, 0, 0, 0,
    0, 0, 0x6d, 0x12, 0x0b, 0, 0, 0, 0, 0, 0xbf, 0x71, 0, 0, 0, 0, 0, 0, 0xb7, 0x02, 0, 0, 0x10,
    0, 0, 0, 0x85, 0, 0, 0, 0x10, 0, 0, 0, 0xbf, 0x61, 0, 0, 0, 0, 0, 0, 0x18, 0x02, 0, 0, 0, 0,
    0, 0, 0, 0, 0, 0, 0, 0, 0, 0, 0x18, 0x03, 0, 0, 0xff, 0xff, 0xff, 0xff, 0, 0, 0, 0, 0, 0, 0,
    0, 0xbf, 0x74, 0, 0, 0, 0, 0, 0, 0xb7, 0x05, 0, 0, 0x20, 0, 0, 0, 0x85, 0, 0, 0, 0x19, 0, 0,
    0, 0xbf, 0xa2, 0, 0, 0, 0, 0, 0, 0x07, 0x02, 0, 0, 0xfc, 0xff, 0xff, 0xff, 0x18, 0x01, 0, 0,
    0, 0, 0, 0, 0, 0, 0, 0, 0, 0, 0, 0, 0x85, 0, 0, 0, 0x03, 0, 0, 0, 0xb7, 0, 0, 0, 0, 0, 0, 0,
    0x95, 0, 0, 0, 0, 0, 0, 0]"
    by (simp add: core_image_first core_first_def core_head_def)
  have sec: "elf_headers core_elf ! 5 =
    \<lparr>sh_name = 201, sh_type = 1, sh_offset = 448, sh_size = 248, sh_link = 0, sh_info = 0\<rparr>"
    by (simp add: core_elf_def core_headers_def)
  have index: "index_of (Some ''tracepoint/syscalls/sys_exit_execve'') (section_names core_image core_elf) = Some 5"
    by (simp add: core_section_names)
  show ?thesis
    by (simp add: program_of_def core_elf_of index core_exit_relocations contents_def code
        sec insn_of_def signed_num_def core_exit_def)
qed

end
