(* ===== verification/Core_Btf.thy ===== *)
theory Core_Btf
  imports Object_Core
begin

text \<open>
  The type information of the object in \<open>execsnoop-libbpf/execsnoop.skel.h\<close>, and what a loader does
  with it: it creates the two maps from the types of the variables \<open>records\<close> and \<open>perf_events\<close>, and
  it replaces the offsets of \<open>task_struct\<close>'s members in the entry program by those of the running
  kernel, after the records in \<open>.BTF.ext\<close>.
\<close>

subsection \<open>The section\<close>

definition core_btf_bytes :: bytes where
  "core_btf_bytes = concat core_btf @ take 15 (concat core_tail)"

lemma core_btf_read: "at core_image 489396 29476 = Some core_btf_bytes"
proof -
  have "take 29476 (concat core_btf @ concat core_tail) = core_btf_bytes"
    by (simp add: core_btf_bytes_def length_core_btf)
  moreover have "length (concat core_tail) \<ge> 15" by (simp add: core_tail_def)
  ultimately show ?thesis
    by (simp add: core_image_def cut_eq length_core_head length_core_debug core_btf_bytes_def length_core_btf)
qed

lemma core_btf_section: "section_data core_image ''.BTF'' = Some core_btf_bytes"
proof -
  have "index_of (Some ''.BTF'') (section_names core_image core_elf) = Some 20"
    by (simp add: core_section_names)
  moreover have "elf_headers core_elf ! 20 = \<lparr>sh_name = 397, sh_type = 1, sh_offset = 489396, sh_size = 29476, sh_link = 0, sh_info = 0\<rparr>"
    by (simp add: core_elf_def core_headers_def)
  ultimately show ?thesis
    by (simp add: section_data_def core_elf_of contents_def core_btf_read)
qed

lemmas length_btf = length_btf_types_1 length_btf_types_2 length_btf_types_3 length_btf_types_4 length_btf_types_5
  length_btf_strings_1 length_btf_strings_2 length_btf_strings_3 length_btf_strings_4 length_btf_strings_5

text \<open>Reading in one of the pieces.\<close>

lemma at_btf_types_1: "0 \<le> pos \<Longrightarrow> pos + n \<le> 4157 \<Longrightarrow> take n (drop pos core_btf_bytes) = cut n (pos - 0) btf_types_1"
  by (simp add: core_btf_bytes_def core_btf_def cut_eq length_btf)

lemma at_btf_strings_1: "17199 \<le> pos \<Longrightarrow> pos + n \<le> 19646 \<Longrightarrow> take n (drop pos core_btf_bytes) = cut n (pos - 17199) btf_strings_1"
  by (simp add: core_btf_bytes_def core_btf_def cut_eq length_btf)

lemma at_btf_strings_5: "27021 \<le> pos \<Longrightarrow> pos + n \<le> 29461 \<Longrightarrow> take n (drop pos core_btf_bytes) = cut n (pos - 27021) btf_strings_5"
  by (simp add: core_btf_bytes_def core_btf_def cut_eq length_btf)

lemma core_btf_header: "take 24 core_btf_bytes = [0x9f, 0xeb, 0x01, 0, 0x18, 0, 0, 0, 0, 0, 0, 0, 0x20, 0x43, 0, 0, 0x20, 0x43, 0, 0, 0xec, 0x2f, 0, 0]"
  using at_btf_types_1 [of 0 24] by (simp add: btf_types_1_def)

lemma length_core_btf_bytes: "length core_btf_bytes = 29476"
  using at_length [OF core_btf_read] .

text \<open>The types before \<open>struct task_struct\<close>.\<close>

definition first_types :: "btf_type list" where
  "first_types = [
    make_type 0 33554432 3 [],
    make_type 1 16777216 4 [16777248],
    make_type 0 50331648 0 [2, 4, 1],
    make_type 5 16777216 4 [32],
    make_type 0 33554432 6 [],
    make_type 0 50331648 0 [2, 4, 10240],
    make_type 0 33554432 8 [],
    make_type 25 134217728 9 [],
    make_type 31 134217728 2 [],
    make_type 0 33554432 11 [],
    make_type 46 67108869 32 [52, 13, 0, 57, 8, 128, 61, 8, 160, 66, 8, 192, 71, 14, 224],
    make_type 75 16777216 1 [16777224],
    make_type 0 50331648 0 [12, 4, 16],
    make_type 80 134217728 15 [],
    make_type 86 134217728 16 [],
    make_type 103 16777216 4 [32],
    make_type 0 67108868 32 [116, 1, 0, 121, 5, 64, 133, 7, 128, 137, 10, 192],
    make_type 143 234881024 17 [1],
    make_type 0 33554432 20 [],
    make_type 0 50331648 0 [2, 4, 4],
    make_type 0 33554432 22 [],
    make_type 0 50331648 0 [2, 4, 128],
    make_type 0 33554432 24 [],
    make_type 151 134217728 25 [],
    make_type 155 134217728 16 [],
    make_type 0 67108868 32 [116, 19, 0, 121, 21, 64, 133, 23, 128, 137, 23, 192],
    make_type 161 234881024 26 [1],
    make_type 0 33554432 29 [],
    make_type 173 67108869 32 [200, 30, 0, 207, 2, 64, 218, 32, 96, 231, 33, 128, 236, 33, 192],
    make_type 241 134217728 31 [],
    make_type 247 16777216 8 [64],
    make_type 0 167772160 12 [],
    make_type 0 33554432 34 [],
    make_type 0 167772160 35 [],
    make_type 0 33554432 32 [],
    make_type 0 218103809 2 [266, 28],
    make_type 270 201326593 36 []]"

lemma length_first_types: "length first_types = 37"
  by (simp add: first_types_def)

lemma first_types_read: "\<exists>ws. words_of (take 756 (drop 24 core_btf_bytes)) = (ws, []) \<and> btf_types ws = Some first_types"
proof -
  have "take 756 (drop 24 core_btf_bytes) = cut 756 24 btf_types_1" using at_btf_types_1 [of 24 756] by simp
  also have "\<dots> =
    [0, 0, 0, 0, 0, 0, 0, 0x02, 0x03, 0, 0, 0, 0x01, 0, 0, 0, 0, 0, 0, 0x01, 0x04, 0, 0, 0, 0x20,
    0, 0, 0x01, 0, 0, 0, 0, 0, 0, 0, 0x03, 0, 0, 0, 0, 0x02, 0, 0, 0, 0x04, 0, 0, 0, 0x01, 0, 0,
    0, 0x05, 0, 0, 0, 0, 0, 0, 0x01, 0x04, 0, 0, 0, 0x20, 0, 0, 0, 0, 0, 0, 0, 0, 0, 0, 0x02,
    0x06, 0, 0, 0, 0, 0, 0, 0, 0, 0, 0, 0x03, 0, 0, 0, 0, 0x02, 0, 0, 0, 0x04, 0, 0, 0, 0, 0x28,
    0, 0, 0, 0, 0, 0, 0, 0, 0, 0x02, 0x08, 0, 0, 0, 0x19, 0, 0, 0, 0, 0, 0, 0x08, 0x09, 0, 0, 0,
    0x1f, 0, 0, 0, 0, 0, 0, 0x08, 0x02, 0, 0, 0, 0, 0, 0, 0, 0, 0, 0, 0x02, 0x0b, 0, 0, 0, 0x2e,
    0, 0, 0, 0x05, 0, 0, 0x04, 0x20, 0, 0, 0, 0x34, 0, 0, 0, 0x0d, 0, 0, 0, 0, 0, 0, 0, 0x39, 0,
    0, 0, 0x08, 0, 0, 0, 0x80, 0, 0, 0, 0x3d, 0, 0, 0, 0x08, 0, 0, 0, 0xa0, 0, 0, 0, 0x42, 0, 0,
    0, 0x08, 0, 0, 0, 0xc0, 0, 0, 0, 0x47, 0, 0, 0, 0x0e, 0, 0, 0, 0xe0, 0, 0, 0, 0x4b, 0, 0, 0,
    0, 0, 0, 0x01, 0x01, 0, 0, 0, 0x08, 0, 0, 0x01, 0, 0, 0, 0, 0, 0, 0, 0x03, 0, 0, 0, 0, 0x0c,
    0, 0, 0, 0x04, 0, 0, 0, 0x10, 0, 0, 0, 0x50, 0, 0, 0, 0, 0, 0, 0x08, 0x0f, 0, 0, 0, 0x56, 0,
    0, 0, 0, 0, 0, 0x08, 0x10, 0, 0, 0, 0x67, 0, 0, 0, 0, 0, 0, 0x01, 0x04, 0, 0, 0, 0x20, 0, 0,
    0, 0, 0, 0, 0, 0x04, 0, 0, 0x04, 0x20, 0, 0, 0, 0x74, 0, 0, 0, 0x01, 0, 0, 0, 0, 0, 0, 0,
    0x79, 0, 0, 0, 0x05, 0, 0, 0, 0x40, 0, 0, 0, 0x85, 0, 0, 0, 0x07, 0, 0, 0, 0x80, 0, 0, 0,
    0x89, 0, 0, 0, 0x0a, 0, 0, 0, 0xc0, 0, 0, 0, 0x8f, 0, 0, 0, 0, 0, 0, 0x0e, 0x11, 0, 0, 0,
    0x01, 0, 0, 0, 0, 0, 0, 0, 0, 0, 0, 0x02, 0x14, 0, 0, 0, 0, 0, 0, 0, 0, 0, 0, 0x03, 0, 0, 0,
    0, 0x02, 0, 0, 0, 0x04, 0, 0, 0, 0x04, 0, 0, 0, 0, 0, 0, 0, 0, 0, 0, 0x02, 0x16, 0, 0, 0, 0,
    0, 0, 0, 0, 0, 0, 0x03, 0, 0, 0, 0, 0x02, 0, 0, 0, 0x04, 0, 0, 0, 0x80, 0, 0, 0, 0, 0, 0, 0,
    0, 0, 0, 0x02, 0x18, 0, 0, 0, 0x97, 0, 0, 0, 0, 0, 0, 0x08, 0x19, 0, 0, 0, 0x9b, 0, 0, 0, 0,
    0, 0, 0x08, 0x10, 0, 0, 0, 0, 0, 0, 0, 0x04, 0, 0, 0x04, 0x20, 0, 0, 0, 0x74, 0, 0, 0, 0x13,
    0, 0, 0, 0, 0, 0, 0, 0x79, 0, 0, 0, 0x15, 0, 0, 0, 0x40, 0, 0, 0, 0x85, 0, 0, 0, 0x17, 0, 0,
    0, 0x80, 0, 0, 0, 0x89, 0, 0, 0, 0x17, 0, 0, 0, 0xc0, 0, 0, 0, 0xa1, 0, 0, 0, 0, 0, 0, 0x0e,
    0x1a, 0, 0, 0, 0x01, 0, 0, 0, 0, 0, 0, 0, 0, 0, 0, 0x02, 0x1d, 0, 0, 0, 0xad, 0, 0, 0, 0x05,
    0, 0, 0x04, 0x20, 0, 0, 0, 0xc8, 0, 0, 0, 0x1e, 0, 0, 0, 0, 0, 0, 0, 0xcf, 0, 0, 0, 0x02, 0,
    0, 0, 0x40, 0, 0, 0, 0xda, 0, 0, 0, 0x20, 0, 0, 0, 0x60, 0, 0, 0, 0xe7, 0, 0, 0, 0x21, 0, 0,
    0, 0x80, 0, 0, 0, 0xec, 0, 0, 0, 0x21, 0, 0, 0, 0xc0, 0, 0, 0, 0xf1, 0, 0, 0, 0, 0, 0, 0x08,
    0x1f, 0, 0, 0, 0xf7, 0, 0, 0, 0, 0, 0, 0x01, 0x08, 0, 0, 0, 0x40, 0, 0, 0, 0, 0, 0, 0, 0, 0,
    0, 0x0a, 0x0c, 0, 0, 0, 0, 0, 0, 0, 0, 0, 0, 0x02, 0x22, 0, 0, 0, 0, 0, 0, 0, 0, 0, 0, 0x0a,
    0x23, 0, 0, 0, 0, 0, 0, 0, 0, 0, 0, 0x02, 0x20, 0, 0, 0, 0, 0, 0, 0, 0x01, 0, 0, 0x0d, 0x02,
    0, 0, 0, 0x0a, 0x01, 0, 0, 0x1c, 0, 0, 0, 0x0e, 0x01, 0, 0, 0x01, 0, 0, 0x0c, 0x24, 0, 0, 0]"
    by (simp add: btf_types_1_def)
  finally have "words_of (take 756 (drop 24 core_btf_bytes)) = (
    [0, 33554432, 3, 1, 16777216, 4, 16777248, 0, 50331648, 0, 2, 4, 1, 5, 16777216, 4, 32, 0,
    33554432, 6, 0, 50331648, 0, 2, 4, 10240, 0, 33554432, 8, 25, 134217728, 9, 31, 134217728, 2,
    0, 33554432, 11, 46, 67108869, 32, 52, 13, 0, 57, 8, 128, 61, 8, 160, 66, 8, 192, 71, 14,
    224, 75, 16777216, 1, 16777224, 0, 50331648, 0, 12, 4, 16, 80, 134217728, 15, 86, 134217728,
    16, 103, 16777216, 4, 32, 0, 67108868, 32, 116, 1, 0, 121, 5, 64, 133, 7, 128, 137, 10, 192,
    143, 234881024, 17, 1, 0, 33554432, 20, 0, 50331648, 0, 2, 4, 4, 0, 33554432, 22, 0,
    50331648, 0, 2, 4, 128, 0, 33554432, 24, 151, 134217728, 25, 155, 134217728, 16, 0, 67108868,
    32, 116, 19, 0, 121, 21, 64, 133, 23, 128, 137, 23, 192, 161, 234881024, 26, 1, 0, 33554432,
    29, 173, 67108869, 32, 200, 30, 0, 207, 2, 64, 218, 32, 96, 231, 33, 128, 236, 33, 192, 241,
    134217728, 31, 247, 16777216, 8, 64, 0, 167772160, 12, 0, 33554432, 34, 0, 167772160, 35, 0,
    33554432, 32, 0, 218103809, 2, 266, 28, 270, 201326593, 36], [])"
    by simp
  then show ?thesis
    by (simp add: first_types_def extra_words_def info_kind_def info_vlen_def)
qed

subsection \<open>Every reference is in range\<close>

definition type_lines :: "bytes list" where
  "type_lines = (drop 24 btf_header_line # tl btf_types_1) @ btf_types_2 @ btf_types_3 @ btf_types_4
     @ btf_types_5 @ [take 9 (hd btf_strings_1)]"

lemma type_bytes: "take 17184 (drop 24 core_btf_bytes) = concat type_lines"
proof -
  have 1: "drop 24 (concat btf_types_1) = concat (drop 24 btf_header_line # tl btf_types_1)"
    by (simp add: btf_header_line_def btf_types_1_def)
  have 9: "take 9 (concat btf_strings_1) = take 9 (hd btf_strings_1)"
    by (simp add: btf_strings_1_def)
  have "length (concat (drop 24 btf_header_line # tl btf_types_1)) = 4133"
    unfolding 1 [symmetric] by (simp add: length_btf_types_1)
  then show ?thesis
    using 9 by (simp add: core_btf_bytes_def core_btf_def length_btf 1 type_lines_def)
qed

lemma scan_all: "scan_lines 12268 421 type_lines ([], Some (0, Head [])) = ([], Some (421, Head []))"
proof -
  have "scan_lines 12268 421 [take 9 (hd btf_strings_1)] ([226, 47, 0], Some (420, Head [])) = ([], Some (421, Head []))"
    by (simp add: btf_strings_1_def scan_simps)
  then show ?thesis
    by (simp only: type_lines_def scan_lines_append scan_types_1 scan_types_2 scan_types_3 scan_types_4 scan_types_5)
qed

lemma core_types:
  obtains ws ts where "words_of (take 17184 (drop 24 core_btf_bytes)) = (ws, [])" "btf_types ws = Some ts"
    "list_all (type_ok 12268 421) ts" "length ts = 421"
proof -
  obtain ws r where ws: "words_of (concat type_lines) = (ws, r)" by fastforce
  with scan_all scan_lines_words [of "[]" 12268 421 type_lines "Some (0, Head [])"]
  have "r = []" "scan_words 12268 421 ws (Some (0, Head [])) = Some (421, Head [])" by simp_all
  moreover from scan_types [OF this(2)] obtain ts where "btf_types ws = Some ts" "list_all (type_ok 12268 421) ts"
    "length ts = 421" by auto
  ultimately show ?thesis using that ws by (simp add: type_bytes)
qed

definition core_types_list :: "btf_type list" where
  "core_types_list = the (btf_types (fst (words_of (take 17184 (drop 24 core_btf_bytes)))))"

definition core_strings :: bytes where "core_strings = drop 17208 core_btf_bytes"

lemma core_btf_of: "btf_of core_btf_bytes = Some (core_types_list, core_strings)"
proof (rule core_types)
  fix ws ts
  assume ws: "words_of (take 17184 (drop 24 core_btf_bytes)) = (ws, [])" and ts: "btf_types ws = Some ts"
  have "field a n core_btf_bytes = field a n (take 24 core_btf_bytes)" if "a + n \<le> 24" for a n
    using that by (simp add: field_def drop_take min_def)
  note header = this [unfolded core_btf_header]
  have "field 0 2 core_btf_bytes = 0xeb9f" "field 4 4 core_btf_bytes = 24" "field 8 4 core_btf_bytes = 0"
    "field 12 4 core_btf_bytes = 17184" "field 16 4 core_btf_bytes = 17184" "field 20 4 core_btf_bytes = 12268"
    by (subst header; simp add: field_def)+
  then show ?thesis
    by (simp add: btf_of_def length_core_btf_bytes BTF_MAGIC_def ws ts core_types_list_def core_strings_def)
qed

lemma core_types_ok: "list_all (type_ok 12268 421) core_types_list" "length core_types_list = 421"
  by (rule core_types; simp add: core_types_list_def)+

lemma length_core_strings: "length core_strings = 12268"
  by (simp add: core_strings_def length_core_btf_bytes)

lemma core_strings_ends: "hd core_strings = 0" "last core_strings = 0"
proof -
  have "take 1 (drop 17208 core_btf_bytes) = [0]"
    using at_btf_strings_1 [of 17208 1] by (simp add: btf_strings_1_def)
  then show "hd core_strings = 0" by (cases core_strings) (simp_all add: core_strings_def)
  have "take 15 (concat core_tail) = [0x74, 0x61, 0x73, 0x6b, 0, 0x76, 0x6d, 0x5f, 0x73, 0x74, 0x72, 0x75, 0x63, 0x74, 0]" by (simp add: core_tail_def)
  then have "last core_btf_bytes = 0" by (simp add: core_btf_bytes_def)
  then show "last core_strings = 0"
    using length_core_btf_bytes by (simp add: core_strings_def)
qed

subsection \<open>The types looked up\<close>

lemma split_types:
  obtains ws vs where "words_of (take 16428 (drop 780 core_btf_bytes)) = (vs, [])"
    "btf_types vs \<noteq> None" "core_types_list = first_types @ the (btf_types vs)"
proof -
  obtain us where us: "words_of (take 756 (drop 24 core_btf_bytes)) = (us, [])" "btf_types us = Some first_types"
    using first_types_read by blast
  obtain vs q where vs: "words_of (take 16428 (drop 780 core_btf_bytes)) = (vs, q)" by fastforce
  have "take 17184 (drop 24 core_btf_bytes) = take 756 (drop 24 core_btf_bytes) @ take 16428 (drop 780 core_btf_bytes)"
    using take_add [of 756 16428 "drop 24 core_btf_bytes"] by simp
  then have "words_of (take 17184 (drop 24 core_btf_bytes)) = (us @ vs, q)"
    using words_of_append [of "take 756 (drop 24 core_btf_bytes)" "take 16428 (drop 780 core_btf_bytes)"] us(1) vs
    by simp
  moreover obtain ws ts where "words_of (take 17184 (drop 24 core_btf_bytes)) = (ws, [])" "btf_types ws = Some ts"
    by (rule core_types)
  ultimately have "q = []" "btf_types (us @ vs) = Some ts" "core_types_list = ts"
    by (simp_all add: core_types_list_def)
  with btf_types_append [OF us(2), of vs] vs show ?thesis by (cases "btf_types vs") (auto intro: that)
qed

lemma type_at_within: "ts = xs @ ys \<Longrightarrow> 0 < k \<Longrightarrow> k \<le> length xs \<Longrightarrow> type_at ts k = Some (xs ! (k - 1))"
  and type_at_next: "ts = xs @ y # ys \<Longrightarrow> type_at ts (length xs + 1) = Some y"
  by (auto simp: type_at_def nth_append)

lemma first_type_at: "0 < k \<Longrightarrow> k \<le> 37 \<Longrightarrow> type_at core_types_list k = Some (first_types ! (k - 1))"
  by (rule split_types) (rule type_at_within; simp add: length_first_types)

text \<open>\<open>struct task_struct\<close>, type 38, and two of its members.\<close>

lemma task_struct_type:
  "type_at core_types_list 38 = Some (make_type 786 2214592768 11584
     (map (\<lambda>i. le (take 4 (drop (4 * i) (drop 792 core_btf_bytes)))) [0..<768]))"
proof -
  let ?B = "take 16428 (drop 780 core_btf_bytes)"
  obtain vs where vs: "words_of ?B = (vs, [])" and ts: "btf_types vs \<noteq> None"
      "core_types_list = first_types @ the (btf_types vs)"
    by (rule split_types)
  have "take 12 (drop 780 core_btf_bytes) = [0x12, 0x03, 0, 0, 0, 0x01, 0, 0x84, 0x40, 0x2d, 0, 0]"
    using at_btf_types_1 [of 780 12] by (simp add: btf_types_1_def)
  then have "?B = [0x12, 0x03, 0, 0, 0, 0x01, 0, 0x84, 0x40, 0x2d, 0, 0] @ take 16416 (drop 792 core_btf_bytes)"
    using take_add [of 12 16416 "drop 780 core_btf_bytes"] by simp
  moreover obtain us where us: "words_of (take 16416 (drop 792 core_btf_bytes)) = (us, [])"
    "us = map (\<lambda>i. le (take 4 (drop (4 * i) (take 16416 (drop 792 core_btf_bytes))))) [0..<4104]"
    by (simp add: words_of_eq length_core_btf_bytes)
  ultimately have v: "vs = 786 # 2214592768 # 11584 # us" using vs by simp
  have "length us = 4104" "take 768 us = map (\<lambda>i. le (take 4 (drop (4 * i) (drop 792 core_btf_bytes)))) [0..<768]"
    by (auto simp: us(2) take_map drop_take min_def)
  moreover obtain ys where ys: "the (btf_types vs) = make_type 786 2214592768 11584 (take 768 us) # ys"
    using ts(1) by (auto simp: v extra_words_def info_kind_def info_vlen_def split: if_splits)
  ultimately show ?thesis
    using type_at_next [OF ts(2) [unfolded ys]] by (simp add: length_first_types)
qed

end
