(* ===== verification/Bpf_Refines.thy ===== *)
theory Bpf_Refines
  imports Bpf_Machine
begin

text \<open>
  The compiled programs do what their source says.  The instructions are schematic in the two offsets
  into \<open>struct task_struct\<close> at which the parent is looked up; the theories of the objects show that
  their code is an instance.  \<open>env_law\<close> is what the kernel's helpers promise.
\<close>

unbundle bit_operations_syntax

subsection \<open>Bytes\<close>

lemma length_bytes_of [simp]: "length (bytes_of n w) = n"
  by (simp add: bytes_of_def)

lemma bit_word_of: "bit (word_of bs) n \<longleftrightarrow> n < 64 \<and> n div 8 < length bs \<and> bit (bs ! (n div 8)) (n mod 8)"
proof (induction bs arbitrary: n)
  case Nil
  then show ?case by simp
next
  case (Cons b bs)
  show ?case
  proof (cases "n < 8")
    case True
    then show ?thesis by (simp add: bit_or_iff bit_ucast_iff bit_push_bit_iff)
  next
    case False
    then have "n div 8 = Suc ((n - 8) div 8)" "(n - 8) mod 8 = n mod 8"
      by (simp_all add: div_if mod_if [of n 8])
    moreover have "\<not> bit b n" using False by (auto dest: bit_imp_le_length)
    ultimately show ?thesis using False Cons.IH [of "n - 8"]
      by (auto simp: bit_or_iff bit_ucast_iff bit_push_bit_iff)
  qed
qed

lemma bit_bytes_of: "i < n \<Longrightarrow> j < 8 \<Longrightarrow> bit (bytes_of n w ! i) j \<longleftrightarrow> bit w (8 * i + j)"
  by (simp add: bytes_of_def bit_ucast_iff bit_drop_bit_eq add.commute)

lemma word_of_bytes_of: "word_of (bytes_of n w) = take_bit (8 * n) w"
proof (rule bit_word_eqI)
  fix i
  assume "i < LENGTH(64)"
  moreover have "i div 8 < n \<longleftrightarrow> i < 8 * n" by auto
  ultimately show "bit (word_of (bytes_of n w)) i \<longleftrightarrow> bit (take_bit (8 * n) w) i"
    by (auto simp: bit_word_of bit_bytes_of bit_take_bit_iff)
qed

lemma ucast_word_of_bytes_of [simp]: "(ucast (word_of (bytes_of 4 w)) :: 32 word) = ucast w"
  by (rule bit_word_eqI) (auto simp: word_of_bytes_of bit_ucast_iff bit_take_bit_iff)

lemma bytes_of_word_of: "length bs = n \<Longrightarrow> n \<le> 8 \<Longrightarrow> bytes_of n (word_of bs) = bs"
proof (rule nth_equalityI)
  fix i assume l: "length bs = n" "n \<le> 8" and "i < length (bytes_of n (word_of bs))"
  then have i: "i < n" by simp
  show "bytes_of n (word_of bs) ! i = bs ! i"
  proof (rule bit_word_eqI)
    fix j assume "j < LENGTH(8)"
    then have j: "j < 8" by simp
    have "(8 * i + j) div 8 = i" "(8 * i + j) mod 8 = j" using j by auto
    then show "bit (bytes_of n (word_of bs) ! i) j \<longleftrightarrow> bit (bs ! i) j"
      using i j l by (simp add: bit_bytes_of bit_word_of)
  qed
qed simp

lemma bytes_of_0: "bytes_of 8 0 = replicate 8 0"
  by (simp add: bytes_of_def eval_nat_numeral)

lemma byte_char_char_byte [simp]: "byte_char (char_byte c) = c"
  by (simp add: byte_char_def char_byte_def unsigned_of_nat take_bit_eq_mod)

lemma char_byte_byte_char [simp]: "char_byte (byte_char b) = b"
proof -
  have "unat b < 256" using unsigned_less [of b, where ?'a = nat] by simp
  then show ?thesis by (simp add: byte_char_def char_byte_def)
qed

lemma set_cells_below: "x < a \<Longrightarrow> set_cells f a bs x = f x"
  by (induction bs arbitrary: f a) auto

lemma set_cells_above: "a + int (length bs) \<le> x \<Longrightarrow> set_cells f a bs x = f x"
  by (induction bs arbitrary: f a) auto

lemma cells_cong: "(\<And>x. a \<le> x \<Longrightarrow> x < a + int n \<Longrightarrow> f x = g x) \<Longrightarrow> cells f a n = cells g a n"
proof (induction n arbitrary: a)
  case (Suc n)
  have "cells f (a + 1) n = cells g (a + 1) n" by (rule Suc.IH) (simp add: Suc.prems)
  moreover have "f a = g a" by (rule Suc.prems) simp_all
  ultimately show ?case by (simp split: option.split)
qed simp

lemma cells_set_other:
  "a + int n \<le> b \<or> b + int (length bs) \<le> a \<Longrightarrow> cells (set_cells f b bs) a n = cells f a n"
  by (rule cells_cong) (auto simp: set_cells_below set_cells_above)

lemma cells_set_same: "length bs = n \<Longrightarrow> cells (set_cells f a bs) a n = Some bs"
  by (induction bs arbitrary: f a n) (auto simp: set_cells_below)

lemma cells_add:
  "cells f a (n + m) = (case cells f a n of None \<Rightarrow> None | Some xs \<Rightarrow> map_option ((@) xs) (cells f (a + int n) m))"
proof (induction n arbitrary: a)
  case (Suc n)
  show ?case
    by (cases "f a"; cases "cells f (a + 1) n"; simp add: Suc.IH [of "a + 1"] add.assoc option.map_comp comp_def;
        cases "cells f (a + (1 + int n)) m"; simp)
qed (simp add: option.map_ident_strong)

subsection \<open>Events and their bytes\<close>

lemma ucast_up_down [simp]: "(ucast (ucast (w :: 32 word) :: 64 word) :: 32 word) = w"
  by (rule bit_word_eqI) (auto simp: bit_ucast_iff dest: bit_imp_le_length)

lemma length_event_bytes: "length (comm e) = 16 \<Longrightarrow> length (event_bytes e) = 32"
  by (simp add: event_bytes_def)

lemma bytes_event_event_bytes: "length (comm e) = 16 \<Longrightarrow> bytes_event (event_bytes e) = e"
  by (cases e) (simp add: bytes_event_def event_bytes_def comp_def)

lemma bytes_event_empty: "bytes_event (replicate 32 0) = empty_event"
  by (simp add: bytes_event_def empty_event_def TASK_COMM_LEN_def eval_nat_numeral byte_char_def char_of_def)

lemma splice_fields:
  assumes "length (comm e) = 16"
  shows "bytes_event (splice 16 (bytes_of 4 w) (event_bytes e)) = e\<lparr>ev_pid := ucast w\<rparr>"
    and "bytes_event (splice 20 (bytes_of 4 w) (event_bytes e)) = e\<lparr>ev_tgid := ucast w\<rparr>"
    and "bytes_event (splice 28 (bytes_of 4 w) (event_bytes e)) = e\<lparr>ev_uid := ucast w\<rparr>"
    and "length bs = 4 \<Longrightarrow>
      bytes_event (splice 24 bs (event_bytes e)) = e\<lparr>ev_ppid := ucast (word_of bs)\<rparr>"
    and "length c = 16 \<Longrightarrow> bytes_event (splice 0 (map char_byte c) (event_bytes e)) = e\<lparr>comm := c\<rparr>"
  using assms by (cases e; simp add: splice_def bytes_event_def event_bytes_def comp_def)+


definition kern_enter_code :: "int \<Rightarrow> int \<Rightarrow> insn list" where
  "kern_enter_code a b = [
    Call 14, Alu_reg Mov 6 0, Store 4 10 (- 4) 6, Call 15, Alu_reg Mov 7 0, Alu_imm Mov 1 0,
    Store 8 10 (- 24) 1, Store 8 10 (- 32) 1, Store 8 10 (- 40) 1, Store 8 10 (- 48) 1, Alu_reg
    Mov 2 10, Alu_imm Add 2 (- 4), Alu_reg Mov 3 10, Alu_imm Add 3 (- 48), Ld_map 1 ''records'',
    Pad, Alu_imm Mov 4 1, Call 2, Alu_imm Lsh 0 32, Alu_imm Rsh 0 32, Jump_imm J_ne 0 0 25,
    Alu_reg Mov 2 10, Alu_imm Add 2 (- 4), Ld_map 1 ''records'', Pad, Call 1, Alu_reg Mov 8 0,
    Jump_imm J_eq 8 0 18, Alu_imm Rsh 6 32, Load 4 1 10 (- 4), Store 4 8 28 7, Store 4 8 20 6,
    Store 4 8 16 1, Call 35, Alu_imm Add 0 a, Alu_reg Mov 1 10, Alu_imm Add 1 (- 16), Alu_imm Mov
    2 8, Alu_reg Mov 3 0, Call 4, Alu_imm Add 8 24, Load 8 3 10 (- 16), Alu_imm Add 3 b, Alu_reg
    Mov 1 8, Alu_imm Mov 2 4, Call 4, Alu_imm Mov 0 0, Exit_insn]"

definition core_enter_code :: "int \<Rightarrow> int \<Rightarrow> insn list" where
  "core_enter_code a b = [
    Call 14, Alu_reg Mov 6 0, Store 4 10 (- 4) 6, Call 15, Alu_reg Mov 7 0, Alu_imm Mov 1 0,
    Store 8 10 (- 24) 1, Store 8 10 (- 32) 1, Store 8 10 (- 40) 1, Store 8 10 (- 48) 1, Alu_reg
    Mov 2 10, Alu_imm Add 2 (- 4), Alu_reg Mov 3 10, Alu_imm Add 3 (- 48), Ld_map 1 ''records'',
    Pad, Alu_imm Mov 4 1, Call 2, Jump_imm J_ne 0 0 27, Alu_reg Mov 2 10, Alu_imm Add 2 (- 4),
    Ld_map 1 ''records'', Pad, Call 1, Alu_reg Mov 8 0, Jump_imm J_eq 8 0 20, Alu_imm Rsh 6 32,
    Load 4 1 10 (- 4), Store 4 8 28 7, Store 4 8 20 6, Store 4 8 16 1, Call 35, Alu_imm Mov 1 a,
    Alu_reg Add 0 1, Alu_reg Mov 1 10, Alu_imm Add 1 (- 16), Alu_imm Mov 2 8, Alu_reg Mov 3 0,
    Call 4, Alu_imm Mov 1 b, Load 8 3 10 (- 16), Alu_reg Add 3 1, Alu_imm Add 8 24, Alu_reg Mov 1
    8, Alu_imm Mov 2 4, Call 4, Alu_imm Mov 0 0, Exit_insn]"

definition exit_code :: "insn list" where
  "exit_code = [
    Alu_reg Mov 6 1, Call 14, Store 4 10 (- 4) 0, Alu_reg Mov 2 10, Alu_imm Add 2 (- 4), Ld_map 1
    ''records'', Pad, Call 1, Alu_reg Mov 7 0, Jump_imm J_eq 7 0 19, Load 8 1 6 16, Alu_imm Mov 2
    0, Jump_reg J_sgt 2 1 11, Alu_reg Mov 1 7, Alu_imm Mov 2 16, Call 16, Alu_reg Mov 1 6, Ld_map
    2 ''perf_events'', Pad, Ld_imm64 3 4294967295, Pad, Alu_reg Mov 4 7, Alu_imm Mov 5 32, Call
    25, Alu_reg Mov 2 10, Alu_imm Add 2 (- 4), Ld_map 1 ''records'', Pad, Call 3, Alu_imm Mov 0
    0, Exit_insn]"

definition probed_parent :: "'m bpf_env \<Rightarrow> int \<Rightarrow> int \<Rightarrow> cint" where
  "probed_parent env a b = ucast (word_of (be_probe env
     (word_of (be_probe env (be_task_addr env + word_of_int a) 8) + word_of_int b) 4))"

definition env_law :: "'m bpf_env \<Rightarrow> bool" where
  "env_law env = (bpf_map_law (be_map env) \<and>
     (\<forall>k v v' m. bm_store (be_map env) k v (bm_store (be_map env) k v' m) = bm_store (be_map env) k v m) \<and>
     be_err env \<noteq> 0 \<and> (\<forall>a n. length (be_probe env a n) = n) \<and> length (t_comm (be_task env)) = TASK_COMM_LEN)"

lemma bpf_run_numeral:
  "bpf_run (numeral k) env p st =
     (case bpf_step env p st of Continue st' \<Rightarrow> bpf_run (pred_numeral k) env p st' | r \<Rightarrow> r)"
  by (simp add: numeral_eq_Suc)

lemmas machine_simps = bpf_run_numeral bpf_step_def advance_def bind_reg_def set_reg_def clobber_def
  offset_def aligned_to_def helper_def key_at_def stack_size_def record_size_def Let_def

lemma zero_record:
  "cells (set_cells (set_cells (set_cells (set_cells f (- 24) (bytes_of 8 0)) (- 32) (bytes_of 8 0))
     (- 40) (bytes_of 8 0)) (- 48) (bytes_of 8 0)) (- 48) 32 = Some (replicate 32 0)"
  (is "cells ?f _ _ = _")
proof -
  have "cells ?f (- 48) 8 = Some (bytes_of 8 0)" "cells ?f (- 40) 8 = Some (bytes_of 8 0)"
    "cells ?f (- 32) 8 = Some (bytes_of 8 0)" "cells ?f (- 24) 8 = Some (bytes_of 8 0)"
    by (simp_all add: cells_set_same cells_set_other)
  then show ?thesis
    using cells_add [of ?f "- 48" 8 24] cells_add [of ?f "- 40" 8 16] cells_add [of ?f "- 32" 8 8]
    by (simp add: bytes_of_0 replicate_add [symmetric])
qed

lemma store_in_place:
  "env_law env \<Longrightarrow> bm_store (be_map env) k v (bm_store (be_map env) k v' m) = bm_store (be_map env) k v m"
  by (simp add: env_law_def)

lemma lookup_stored:
  "env_law env \<Longrightarrow> bm_lookup (be_map env) k m = Some e \<Longrightarrow>
     bm_lookup (be_map env) k (bm_store (be_map env) k v m) = Some v"
  by (simp add: env_law_def lookup_store)

lemma probe_length: "env_law env \<Longrightarrow> length (be_probe env a n) = n"
  by (simp add: env_law_def)

lemma bytes_event_replicate: "length (comm empty_event) = 16"
  by (simp add: empty_event_def TASK_COMM_LEN_def)

lemma errno_nonzero: "env_law env \<Longrightarrow> drop_bit 32 (push_bit 32 (errno_word (be_err env))) \<noteq> 0"
  and errno_word_nonzero: "env_law env \<Longrightarrow> errno_word (be_err env) \<noteq> 0"
proof -
  assume "env_law env"
  then have e: "be_err env \<noteq> 0" by (simp add: env_law_def)
  then obtain i where b: "bit (be_err env) i" by (auto simp: bit_eq_iff)
  then have i: "i < 32" "bit (be_err env) i" by (auto dest: bit_imp_le_length)
  then have b: "bit (errno_word (be_err env)) i"
    by (simp add: errno_word_def bit_simps)
  then show "errno_word (be_err env) \<noteq> 0" by auto
  from b i have "bit (drop_bit 32 (push_bit 32 (errno_word (be_err env)))) i"
    by (simp add: bit_simps)
  then show "drop_bit 32 (push_bit 32 (errno_word (be_err env))) \<noteq> 0" by auto
qed

lemma event_update_order:
  "e\<lparr>ev_uid := u, ev_tgid := t, ev_pid := p, ev_ppid := q\<rparr> = e\<lparr>ev_pid := p, ev_tgid := t, ev_uid := u, ev_ppid := q\<rparr>"
  by (cases e) simp

text \<open>What the source of the entry program does, with the result of its update at hand.\<close>

lemma enter_spec:
  assumes "bm_noexist bm (t_pid t) empty_event m = (ok, m1)"
  shows "syscall_enter_execve bm t m = (if \<not> ok then m1 else case bm_lookup bm (t_pid t) m1 of
      None \<Rightarrow> m1 | Some e \<Rightarrow> bm_store bm (t_pid t) (e\<lparr>ev_pid := t_pid t,
        ev_tgid := t_tgid t, ev_uid := t_uid t, ev_ppid := t_parent t\<rparr>) m1)"
  by (simp add: syscall_enter_execve_def assms Let_def)

lemma pid_of_task: "(ucast (t_pid_tgid t) :: cint) = t_pid t"
  by (simp add: t_pid_def)

lemmas memory_simps = cells_set_same cells_set_other zero_record bytes_event_empty pid_of_task
  entry_state_def BPF_NOEXIST_def BPF_F_CURRENT_CPU_def

lemmas law_simps = lookup_stored store_in_place probe_length

text \<open>The two shapes of the entry program differ in how they test the result of the update.\<close>

lemma enter_refines:
  assumes law: "env_law env" and par: "t_parent (be_task env) = probed_parent env a b"
  shows "\<exists>st. bpf_run 49 env (kern_enter_code a b) (entry_state m) = Exited 0 st \<and>
     recs st = syscall_enter_execve (be_map env) (be_task env) m \<and> perf st = []" (is ?kern)
    and "\<exists>st. bpf_run 49 env (core_enter_code a b) (entry_state m) = Exited 0 st \<and>
     recs st = syscall_enter_execve (be_map env) (be_task env) m \<and> perf st = []" (is ?core)
proof -
  obtain ok m1 where ne: "bm_noexist (be_map env) (t_pid (be_task env)) empty_event m = (ok, m1)" by fastforce
  note spec = enter_spec [OF ne] ne
  have "?kern \<and> ?core"
  proof (cases ok)
    case False
    then show ?thesis
      by (simp add: spec machine_simps memory_simps kern_enter_code_def core_enter_code_def
          errno_nonzero [OF law] errno_word_nonzero [OF law])
  next
    case True
    with law ne have "bm_lookup (be_map env) (t_pid (be_task env)) m1 = Some empty_event"
      by (simp add: env_law_def noexist_ok(2))
    then show ?thesis
      using True
      by (simp add: spec machine_simps memory_simps kern_enter_code_def core_enter_code_def
          law_simps [OF law] splice_fields bytes_event_replicate t_tgid_def t_uid_def par
          probed_parent_def event_update_order)
  qed
  then show ?kern ?core by simp_all
qed

text \<open>The value the system call returned, a field of the exit program's context.\<close>

definition ctx_ret :: "'m bpf_env \<Rightarrow> 64 word" where
  "ctx_ret env = word_of (take 8 (drop 16 (be_ctx env)))"

definition full_names :: "'m bpf_map \<Rightarrow> 'm \<Rightarrow> bool" where
  "full_names bm m = (\<forall>k e. bm_lookup bm k m = Some e \<longrightarrow> length (comm e) = TASK_COMM_LEN)"

lemma exit_refines:
  assumes law: "env_law env" and ctx: "length (be_ctx env) = 24" and names: "full_names (be_map env) m"
  shows "\<exists>st. bpf_run 49 env exit_code (entry_state m) = Exited 0 st \<and>
     recs st = fst (syscall_exit_execve (be_map env) (be_task env) (ctx_ret env) m) \<and>
     perf st = map event_bytes (snd (syscall_exit_execve (be_map env) (be_task env) (ctx_ret env) m))"
proof -
  have comm_len: "length (t_comm (be_task env)) = 16" using law by (simp add: env_law_def TASK_COMM_LEN_def)
  note simps = machine_simps memory_simps exit_code_def TASK_COMM_LEN_def syscall_exit_execve_def ctx ctx_ret_def
  show ?thesis
  proof (cases "bm_lookup (be_map env) (t_pid (be_task env)) m")
    case None
    then show ?thesis by (simp add: simps)
  next
    case (Some e)
    then have len: "length (comm e) = 16" using names by (simp add: full_names_def TASK_COMM_LEN_def)
    from Some show ?thesis
      by (cases "sint (ctx_ret env) < 0")
        (simp_all add: simps splice_fields [OF len] comm_len lookup_stored [OF law] length_event_bytes)
  qed
qed

text \<open>A program that has ended stays ended, whatever fuel it is given.\<close>

lemma bpf_run_more:
  "bpf_run n env prog st = r \<Longrightarrow> (\<And>st'. r \<noteq> Continue st') \<Longrightarrow> bpf_run (n + k) env prog st = r"
proof (induction n arbitrary: st)
  case (Suc n)
  then show ?case by (cases "bpf_step env prog st") auto
next
  case 0
  then show ?case by (metis bpf_run.simps(1))
qed

lemma bpf_run_less:
  assumes "bpf_run n env prog st = Exited w st'"
  shows "bpf_run k env prog st \<noteq> Stuck"
proof (cases "n \<le> k")
  case True
  then show ?thesis using bpf_run_more [OF assms, of "k - n"] by simp
next
  case False
  show ?thesis
  proof
    assume "bpf_run k env prog st = Stuck"
    from bpf_run_more [OF this, of "n - k"] False assms show False by simp
  qed
qed

end
