(* ===== verification/Object_X86.thy ===== *)
theory Object_X86
  imports Elf
begin

text \<open>
  The object file embedded in \<open>execsnoop-kernel/x86_64/execsnoop_kern_skel.h\<close>, line by line, the
  size the header gives for it, and what the loader reads in it.
\<close>

definition x86_literal :: "bytes list" where
  "x86_literal = [
   [0x7f, 0x45, 0x4c, 0x46, 0x02, 0x01, 0x01, 0, 0, 0, 0, 0, 0, 0, 0, 0, 0x01, 0, 0xf7, 0, 0x01,
    0, 0, 0, 0, 0, 0, 0, 0],
   [0, 0, 0, 0, 0, 0, 0, 0, 0, 0, 0, 0xd0, 0x05, 0, 0, 0, 0, 0, 0, 0, 0, 0, 0, 0x40, 0, 0, 0, 0,
    0, 0x40, 0, 0x0d, 0],
   [0x01, 0, 0x85, 0, 0, 0, 0x0e, 0, 0, 0, 0xbf, 0x06, 0, 0, 0, 0, 0, 0, 0x63, 0x6a, 0xfc, 0xff,
    0, 0, 0, 0, 0x85, 0, 0],
   [0, 0x0f, 0, 0, 0, 0xbf, 0x07, 0, 0, 0, 0, 0, 0, 0xb7, 0x01, 0, 0, 0, 0, 0, 0, 0x7b, 0x1a,
    0xe8, 0xff, 0, 0, 0, 0],
   [0x7b, 0x1a, 0xe0, 0xff, 0, 0, 0, 0, 0x7b, 0x1a, 0xd8, 0xff, 0, 0, 0, 0, 0x7b, 0x1a, 0xd0,
    0xff, 0, 0, 0, 0, 0xbf],
   [0xa2, 0, 0, 0, 0, 0, 0, 0x07, 0x02, 0, 0, 0xfc, 0xff, 0xff, 0xff, 0xbf, 0xa3, 0, 0, 0, 0, 0,
    0, 0x07, 0x03, 0, 0],
   [0xd0, 0xff, 0xff, 0xff, 0x18, 0x01, 0, 0, 0, 0, 0, 0, 0, 0, 0, 0, 0, 0, 0, 0, 0xb7, 0x04, 0,
    0, 0x01, 0, 0, 0, 0x85],
   [0, 0, 0, 0x02, 0, 0, 0, 0x67, 0, 0, 0, 0x20, 0, 0, 0, 0x77, 0, 0, 0, 0x20, 0, 0, 0, 0x55, 0,
    0x19, 0, 0, 0, 0, 0],
   [0xbf, 0xa2, 0, 0, 0, 0, 0, 0, 0x07, 0x02, 0, 0, 0xfc, 0xff, 0xff, 0xff, 0x18, 0x01, 0, 0, 0,
    0, 0, 0, 0, 0, 0, 0, 0],
   [0, 0, 0, 0x85, 0, 0, 0, 0x01, 0, 0, 0, 0xbf, 0x08, 0, 0, 0, 0, 0, 0, 0x15, 0x08, 0x12, 0, 0,
    0, 0, 0, 0x77, 0x06, 0],
   [0, 0x20, 0, 0, 0, 0x61, 0xa1, 0xfc, 0xff, 0, 0, 0, 0, 0x63, 0x78, 0x1c, 0, 0, 0, 0, 0, 0x63,
    0x68, 0x14, 0, 0, 0, 0],
   [0, 0x63, 0x18, 0x10, 0, 0, 0, 0, 0, 0x85, 0, 0, 0, 0x23, 0, 0, 0, 0x07, 0, 0, 0, 0xa0, 0x04,
    0, 0, 0xbf, 0xa1, 0, 0],
   [0, 0, 0, 0, 0x07, 0x01, 0, 0, 0xf0, 0xff, 0xff, 0xff, 0xb7, 0x02, 0, 0, 0x08, 0, 0, 0, 0xbf,
    0x03, 0, 0, 0, 0, 0, 0],
   [0x85, 0, 0, 0, 0x04, 0, 0, 0, 0x07, 0x08, 0, 0, 0x18, 0, 0, 0, 0x79, 0xa3, 0xf0, 0xff, 0, 0,
    0, 0, 0x07, 0x03, 0, 0],
   [0x94, 0x04, 0, 0, 0xbf, 0x81, 0, 0, 0, 0, 0, 0, 0xb7, 0x02, 0, 0, 0x04, 0, 0, 0, 0x85, 0, 0,
    0, 0x04, 0, 0, 0, 0xb7],
   [0, 0, 0, 0, 0, 0, 0, 0x95, 0, 0, 0, 0, 0, 0, 0, 0xbf, 0x16, 0, 0, 0, 0, 0, 0, 0x85, 0, 0, 0,
    0x0e, 0, 0, 0, 0x63],
   [0x0a, 0xfc, 0xff, 0, 0, 0, 0, 0xbf, 0xa2, 0, 0, 0, 0, 0, 0, 0x07, 0x02, 0, 0, 0xfc, 0xff,
    0xff, 0xff, 0x18, 0x01, 0],
   [0, 0, 0, 0, 0, 0, 0, 0, 0, 0, 0, 0, 0, 0x85, 0, 0, 0, 0x01, 0, 0, 0, 0xbf, 0x07, 0, 0, 0, 0,
    0, 0, 0x15, 0x07, 0x13],
   [0, 0, 0, 0, 0, 0x79, 0x61, 0x10, 0, 0, 0, 0, 0, 0xb7, 0x02, 0, 0, 0, 0, 0, 0, 0x6d, 0x12,
    0x0b, 0, 0, 0, 0, 0, 0xbf],
   [0x71, 0, 0, 0, 0, 0, 0, 0xb7, 0x02, 0, 0, 0x10, 0, 0, 0, 0x85, 0, 0, 0, 0x10, 0, 0, 0, 0xbf,
    0x61, 0, 0, 0, 0, 0, 0],
   [0x18, 0x02, 0, 0, 0, 0, 0, 0, 0, 0, 0, 0, 0, 0, 0, 0, 0x18, 0x03, 0, 0, 0xff, 0xff, 0xff,
    0xff, 0, 0, 0, 0, 0, 0, 0],
   [0, 0xbf, 0x74, 0, 0, 0, 0, 0, 0, 0xb7, 0x05, 0, 0, 0x20, 0, 0, 0, 0x85, 0, 0, 0, 0x19, 0, 0,
    0, 0xbf, 0xa2, 0, 0, 0],
   [0, 0, 0, 0x07, 0x02, 0, 0, 0xfc, 0xff, 0xff, 0xff, 0x18, 0x01, 0, 0, 0, 0, 0, 0, 0, 0, 0, 0,
    0, 0, 0, 0, 0x85, 0, 0],
   [0, 0x03, 0, 0, 0, 0xb7, 0, 0, 0, 0, 0, 0, 0, 0x95, 0, 0, 0, 0, 0, 0, 0, 0x01, 0, 0, 0, 0x04,
    0, 0, 0, 0x20, 0, 0, 0],
   [0, 0x28, 0, 0, 0, 0, 0, 0, 0x04, 0, 0, 0, 0x04, 0, 0, 0, 0x04, 0, 0, 0, 0x80, 0, 0, 0, 0, 0,
    0, 0, 0x47, 0x50, 0x4c],
   [0, 0x06, 0x07, 0x05, 0, 0x10, 0, 0, 0, 0, 0, 0, 0, 0x01, 0x7a, 0x52, 0, 0x08, 0x7c, 0x0b,
    0x01, 0x0c, 0, 0, 0, 0x18],
   [0, 0, 0, 0x18, 0, 0, 0, 0, 0, 0, 0, 0, 0, 0, 0, 0x80, 0x01, 0, 0, 0, 0, 0, 0, 0, 0, 0, 0,
    0x1c, 0, 0, 0, 0x34, 0, 0],
   [0, 0, 0, 0, 0, 0, 0, 0, 0, 0xf8, 0, 0, 0, 0, 0, 0, 0, 0, 0, 0, 0, 0, 0, 0, 0, 0, 0, 0, 0, 0,
    0, 0, 0, 0, 0, 0, 0, 0],
   [0, 0, 0, 0, 0, 0, 0, 0, 0, 0, 0, 0xba, 0, 0, 0, 0x04, 0, 0xf1, 0xff, 0, 0, 0, 0, 0, 0, 0, 0,
    0, 0, 0, 0, 0, 0, 0, 0],
   [0xe9, 0, 0, 0, 0, 0, 0x03, 0, 0x70, 0x01, 0, 0, 0, 0, 0, 0, 0, 0, 0, 0, 0, 0, 0, 0, 0xe2, 0,
    0, 0, 0, 0, 0x05, 0],
   [0xc0, 0, 0, 0, 0, 0, 0, 0, 0, 0, 0, 0, 0, 0, 0, 0, 0xdb, 0, 0, 0, 0, 0, 0x05, 0, 0xe8, 0, 0,
    0, 0, 0, 0, 0, 0, 0, 0],
   [0, 0, 0, 0, 0, 0, 0, 0, 0, 0x03, 0, 0x03, 0, 0, 0, 0, 0, 0, 0, 0, 0, 0, 0, 0, 0, 0, 0, 0, 0,
    0, 0, 0, 0, 0x03, 0],
   [0x05, 0, 0, 0, 0, 0, 0, 0, 0, 0, 0, 0, 0, 0, 0, 0, 0, 0, 0xa3, 0, 0, 0, 0x11, 0, 0x08, 0, 0,
    0, 0, 0, 0, 0, 0, 0],
   [0x04, 0, 0, 0, 0, 0, 0, 0, 0x20, 0, 0, 0, 0x11, 0, 0x09, 0, 0, 0, 0, 0, 0, 0, 0, 0, 0x04, 0,
    0, 0, 0, 0, 0, 0, 0x07],
   [0, 0, 0, 0x11, 0, 0x07, 0, 0x14, 0, 0, 0, 0, 0, 0, 0, 0x14, 0, 0, 0, 0, 0, 0, 0, 0x18, 0, 0,
    0, 0x11, 0, 0x07, 0, 0],
   [0, 0, 0, 0, 0, 0, 0, 0x14, 0, 0, 0, 0, 0, 0, 0, 0x8e, 0, 0, 0, 0x12, 0, 0x03, 0, 0, 0, 0, 0,
    0, 0, 0, 0, 0x80, 0x01],
   [0, 0, 0, 0, 0, 0, 0x51, 0, 0, 0, 0x12, 0, 0x05, 0, 0, 0, 0, 0, 0, 0, 0, 0, 0xf8, 0, 0, 0, 0,
    0, 0, 0, 0x70, 0, 0, 0],
   [0, 0, 0, 0, 0x01, 0, 0, 0, 0x0a, 0, 0, 0, 0xb8, 0, 0, 0, 0, 0, 0, 0, 0x01, 0, 0, 0, 0x0a, 0,
    0, 0, 0x28, 0, 0, 0, 0],
   [0, 0, 0, 0x01, 0, 0, 0, 0x0a, 0, 0, 0, 0x88, 0, 0, 0, 0, 0, 0, 0, 0x01, 0, 0, 0, 0x09, 0, 0,
    0, 0xd0, 0, 0, 0, 0, 0],
   [0, 0, 0x01, 0, 0, 0, 0x0a, 0, 0, 0, 0x1c, 0, 0, 0, 0, 0, 0, 0, 0x01, 0, 0, 0, 0x05, 0, 0, 0,
    0x38, 0, 0, 0, 0, 0, 0],
   [0, 0x01, 0, 0, 0, 0x06, 0, 0, 0, 0, 0x2e, 0x74, 0x65, 0x78, 0x74, 0, 0x70, 0x65, 0x72, 0x66,
    0x5f, 0x65, 0x76, 0x65],
   [0x6e, 0x74, 0x73, 0, 0x6d, 0x61, 0x70, 0x73, 0, 0x72, 0x65, 0x63, 0x6f, 0x72, 0x64, 0x73, 0,
    0x5f, 0x76, 0x65, 0x72],
   [0x73, 0x69, 0x6f, 0x6e, 0, 0x2e, 0x72, 0x65, 0x6c, 0x74, 0x72, 0x61, 0x63, 0x65, 0x70, 0x6f,
    0x69, 0x6e, 0x74, 0x2f],
   [0x73, 0x79, 0x73, 0x63, 0x61, 0x6c, 0x6c, 0x73, 0x2f, 0x73, 0x79, 0x73, 0x5f, 0x65, 0x78,
    0x69, 0x74, 0x5f, 0x65],
   [0x78, 0x65, 0x63, 0x76, 0x65, 0, 0x73, 0x79, 0x73, 0x63, 0x61, 0x6c, 0x6c, 0x5f, 0x65, 0x78,
    0x69, 0x74, 0x5f, 0x65],
   [0x78, 0x65, 0x63, 0x76, 0x65, 0, 0x2e, 0x72, 0x65, 0x6c, 0x74, 0x72, 0x61, 0x63, 0x65, 0x70,
    0x6f, 0x69, 0x6e, 0x74],
   [0x2f, 0x73, 0x79, 0x73, 0x63, 0x61, 0x6c, 0x6c, 0x73, 0x2f, 0x73, 0x79, 0x73, 0x5f, 0x65,
    0x6e, 0x74, 0x65, 0x72],
   [0x5f, 0x65, 0x78, 0x65, 0x63, 0x76, 0x65, 0, 0x73, 0x79, 0x73, 0x63, 0x61, 0x6c, 0x6c, 0x5f,
    0x65, 0x6e, 0x74, 0x65],
   [0x72, 0x5f, 0x65, 0x78, 0x65, 0x63, 0x76, 0x65, 0, 0x5f, 0x6c, 0x69, 0x63, 0x65, 0x6e, 0x73,
    0x65, 0, 0x2e, 0x72],
   [0x65, 0x6c, 0x2e, 0x65, 0x68, 0x5f, 0x66, 0x72, 0x61, 0x6d, 0x65, 0, 0x65, 0x78, 0x65, 0x63,
    0x73, 0x6e, 0x6f, 0x6f],
   [0x70, 0x5f, 0x6b, 0x65, 0x72, 0x6e, 0x2e, 0x63, 0, 0x2e, 0x73, 0x74, 0x72, 0x74, 0x61, 0x62,
    0, 0x2e, 0x73, 0x79],
   [0x6d, 0x74, 0x61, 0x62, 0, 0x4c, 0x42, 0x42, 0x31, 0x5f, 0x34, 0, 0x4c, 0x42, 0x42, 0x31,
    0x5f, 0x33, 0, 0x4c, 0x42],
   [0x42, 0x30, 0x5f, 0x33, 0, 0, 0, 0, 0, 0, 0, 0, 0, 0, 0, 0, 0, 0, 0, 0, 0, 0, 0, 0, 0, 0, 0,
    0, 0, 0, 0, 0, 0, 0, 0],
   [0, 0, 0, 0, 0, 0, 0, 0, 0, 0, 0, 0, 0, 0, 0, 0, 0, 0, 0, 0, 0, 0, 0, 0, 0, 0, 0, 0, 0, 0, 0,
    0, 0, 0, 0xcb, 0, 0, 0],
   [0x03, 0, 0, 0, 0, 0, 0, 0, 0, 0, 0, 0, 0, 0, 0, 0, 0, 0, 0, 0, 0xe0, 0x04, 0, 0, 0, 0, 0, 0,
    0xf0, 0, 0, 0, 0, 0, 0],
   [0, 0, 0, 0, 0, 0, 0, 0, 0, 0x01, 0, 0, 0, 0, 0, 0, 0, 0, 0, 0, 0, 0, 0, 0, 0, 0x01, 0, 0, 0,
    0x01, 0, 0, 0, 0x06, 0],
   [0, 0, 0, 0, 0, 0, 0, 0, 0, 0, 0, 0, 0, 0, 0x40, 0, 0, 0, 0, 0, 0, 0, 0, 0, 0, 0, 0, 0, 0, 0,
    0, 0, 0, 0, 0, 0, 0, 0],
   [0x04, 0, 0, 0, 0, 0, 0, 0, 0, 0, 0, 0, 0, 0, 0, 0, 0x69, 0, 0, 0, 0x01, 0, 0, 0, 0x06, 0, 0,
    0, 0, 0, 0, 0, 0, 0, 0],
   [0, 0, 0, 0, 0, 0x40, 0, 0, 0, 0, 0, 0, 0, 0x80, 0x01, 0, 0, 0, 0, 0, 0, 0, 0, 0, 0, 0, 0, 0,
    0, 0x08, 0, 0, 0, 0, 0],
   [0, 0, 0, 0, 0, 0, 0, 0, 0, 0, 0x65, 0, 0, 0, 0x09, 0, 0, 0, 0, 0, 0, 0, 0, 0, 0, 0, 0, 0, 0,
    0, 0, 0, 0, 0, 0x70],
   [0x04, 0, 0, 0, 0, 0, 0, 0x20, 0, 0, 0, 0, 0, 0, 0, 0x0c, 0, 0, 0, 0x03, 0, 0, 0, 0x08, 0, 0,
    0, 0, 0, 0, 0, 0x10, 0],
   [0, 0, 0, 0, 0, 0, 0x2d, 0, 0, 0, 0x01, 0, 0, 0, 0x06, 0, 0, 0, 0, 0, 0, 0, 0, 0, 0, 0, 0, 0,
    0, 0, 0xc0, 0x01, 0, 0],
   [0, 0, 0, 0, 0xf8, 0, 0, 0, 0, 0, 0, 0, 0, 0, 0, 0, 0, 0, 0, 0, 0x08, 0, 0, 0, 0, 0, 0, 0, 0,
    0, 0, 0, 0, 0, 0, 0],
   [0x29, 0, 0, 0, 0x09, 0, 0, 0, 0, 0, 0, 0, 0, 0, 0, 0, 0, 0, 0, 0, 0, 0, 0, 0, 0x90, 0x04, 0,
    0, 0, 0, 0, 0, 0x30, 0],
   [0, 0, 0, 0, 0, 0, 0x0c, 0, 0, 0, 0x05, 0, 0, 0, 0x08, 0, 0, 0, 0, 0, 0, 0, 0x10, 0, 0, 0, 0,
    0, 0, 0, 0x13, 0, 0, 0],
   [0x01, 0, 0, 0, 0x03, 0, 0, 0, 0, 0, 0, 0, 0, 0, 0, 0, 0, 0, 0, 0, 0xb8, 0x02, 0, 0, 0, 0, 0,
    0, 0x28, 0, 0, 0, 0, 0],
   [0, 0, 0, 0, 0, 0, 0, 0, 0, 0, 0x04, 0, 0, 0, 0, 0, 0, 0, 0, 0, 0, 0, 0, 0, 0, 0, 0xa4, 0, 0,
    0, 0x01, 0, 0, 0, 0x03],
   [0, 0, 0, 0, 0, 0, 0, 0, 0, 0, 0, 0, 0, 0, 0, 0xe0, 0x02, 0, 0, 0, 0, 0, 0, 0x04, 0, 0, 0, 0,
    0, 0, 0, 0, 0, 0, 0, 0],
   [0, 0, 0, 0x01, 0, 0, 0, 0, 0, 0, 0, 0, 0, 0, 0, 0, 0, 0, 0, 0x21, 0, 0, 0, 0x01, 0, 0, 0,
    0x03, 0, 0, 0, 0, 0, 0, 0],
   [0, 0, 0, 0, 0, 0, 0, 0, 0xe4, 0x02, 0, 0, 0, 0, 0, 0, 0x04, 0, 0, 0, 0, 0, 0, 0, 0, 0, 0, 0,
    0, 0, 0, 0, 0x04, 0, 0],
   [0, 0, 0, 0, 0, 0, 0, 0, 0, 0, 0, 0, 0, 0xb0, 0, 0, 0, 0x01, 0, 0, 0, 0x02, 0, 0, 0, 0, 0, 0,
    0, 0, 0, 0, 0, 0, 0, 0],
   [0, 0xe8, 0x02, 0, 0, 0, 0, 0, 0, 0x50, 0, 0, 0, 0, 0, 0, 0, 0, 0, 0, 0, 0, 0, 0, 0, 0x08, 0,
    0, 0, 0, 0, 0, 0, 0, 0],
   [0, 0, 0, 0, 0, 0, 0xac, 0, 0, 0, 0x09, 0, 0, 0, 0, 0, 0, 0, 0, 0, 0, 0, 0, 0, 0, 0, 0, 0, 0,
    0, 0xc0, 0x04, 0, 0, 0],
   [0, 0, 0, 0x20, 0, 0, 0, 0, 0, 0, 0, 0x0c, 0, 0, 0, 0x0a, 0, 0, 0, 0x08, 0, 0, 0, 0, 0, 0, 0,
    0x10, 0, 0, 0, 0, 0, 0],
   [0, 0xd3, 0, 0, 0, 0x02, 0, 0, 0, 0, 0, 0, 0, 0, 0, 0, 0, 0, 0, 0, 0, 0, 0, 0, 0, 0x38, 0x03,
    0, 0, 0, 0, 0, 0, 0x38],
   [0x01, 0, 0, 0, 0, 0, 0, 0x01, 0, 0, 0, 0x07, 0, 0, 0, 0x08, 0, 0, 0, 0, 0, 0, 0, 0x18, 0, 0,
    0, 0, 0, 0, 0]]"

definition x86_data_sz :: nat where "x86_data_sz = 2320"

definition x86_image :: image where "x86_image = [(0, x86_literal)]"

subsection \<open>Reading the object\<close>

lemma x86_ehdr: "at x86_image 0 64 = Some
    [0x7f, 0x45, 0x4c, 0x46, 0x02, 0x01, 0x01, 0, 0, 0, 0, 0, 0, 0, 0, 0, 0x01, 0, 0xf7, 0, 0x01,
    0, 0, 0, 0, 0, 0, 0, 0, 0, 0, 0, 0, 0, 0, 0, 0, 0, 0, 0, 0xd0, 0x05, 0, 0, 0, 0, 0, 0, 0, 0,
    0, 0, 0x40, 0, 0, 0, 0, 0, 0x40, 0, 0x0d, 0, 0x01, 0]"
  by (simp add: x86_image_def x86_literal_def)

definition x86_headers :: "section_header list" where
  "x86_headers = [
    \<lparr>sh_name = 0, sh_type = 0, sh_offset = 0, sh_size = 0, sh_link = 0, sh_info = 0\<rparr>,
    \<lparr>sh_name = 203, sh_type = 3, sh_offset = 1248, sh_size = 240, sh_link = 0, sh_info = 0\<rparr>,
    \<lparr>sh_name = 1, sh_type = 1, sh_offset = 64, sh_size = 0, sh_link = 0, sh_info = 0\<rparr>,
    \<lparr>sh_name = 105, sh_type = 1, sh_offset = 64, sh_size = 384, sh_link = 0, sh_info = 0\<rparr>,
    \<lparr>sh_name = 101, sh_type = 9, sh_offset = 1136, sh_size = 32, sh_link = 12, sh_info = 3\<rparr>,
    \<lparr>sh_name = 45, sh_type = 1, sh_offset = 448, sh_size = 248, sh_link = 0, sh_info = 0\<rparr>,
    \<lparr>sh_name = 41, sh_type = 9, sh_offset = 1168, sh_size = 48, sh_link = 12, sh_info = 5\<rparr>,
    \<lparr>sh_name = 19, sh_type = 1, sh_offset = 696, sh_size = 40, sh_link = 0, sh_info = 0\<rparr>,
    \<lparr>sh_name = 164, sh_type = 1, sh_offset = 736, sh_size = 4, sh_link = 0, sh_info = 0\<rparr>,
    \<lparr>sh_name = 33, sh_type = 1, sh_offset = 740, sh_size = 4, sh_link = 0, sh_info = 0\<rparr>,
    \<lparr>sh_name = 176, sh_type = 1, sh_offset = 744, sh_size = 80, sh_link = 0, sh_info = 0\<rparr>,
    \<lparr>sh_name = 172, sh_type = 9, sh_offset = 1216, sh_size = 32, sh_link = 12, sh_info = 10\<rparr>,
    \<lparr>sh_name = 211, sh_type = 2, sh_offset = 824, sh_size = 312, sh_link = 1, sh_info = 7\<rparr>]"

definition x86_elf :: elf where
  "x86_elf = \<lparr>elf_end = 2320, elf_shstrndx = 1, elf_headers = x86_headers\<rparr>"

lemma x86_section_headers: "entries x86_image header_of 64 13 1488 = Some x86_headers"
  by (simp add: x86_image_def x86_literal_def entries_def header_of_def field_def x86_headers_def)

lemma x86_elf_of: "elf_of x86_image = Some x86_elf"
  by (simp add: elf_of_def x86_ehdr field_def ELF_MAGIC_def EM_BPF_def x86_section_headers x86_elf_def)

lemma x86_strtab: "at x86_image 1248 240 = Some
    [0, 0x2e, 0x74, 0x65, 0x78, 0x74, 0, 0x70, 0x65, 0x72, 0x66, 0x5f, 0x65, 0x76, 0x65, 0x6e,
    0x74, 0x73, 0, 0x6d, 0x61, 0x70, 0x73, 0, 0x72, 0x65, 0x63, 0x6f, 0x72, 0x64, 0x73, 0, 0x5f,
    0x76, 0x65, 0x72, 0x73, 0x69, 0x6f, 0x6e, 0, 0x2e, 0x72, 0x65, 0x6c, 0x74, 0x72, 0x61, 0x63,
    0x65, 0x70, 0x6f, 0x69, 0x6e, 0x74, 0x2f, 0x73, 0x79, 0x73, 0x63, 0x61, 0x6c, 0x6c, 0x73,
    0x2f, 0x73, 0x79, 0x73, 0x5f, 0x65, 0x78, 0x69, 0x74, 0x5f, 0x65, 0x78, 0x65, 0x63, 0x76,
    0x65, 0, 0x73, 0x79, 0x73, 0x63, 0x61, 0x6c, 0x6c, 0x5f, 0x65, 0x78, 0x69, 0x74, 0x5f, 0x65,
    0x78, 0x65, 0x63, 0x76, 0x65, 0, 0x2e, 0x72, 0x65, 0x6c, 0x74, 0x72, 0x61, 0x63, 0x65, 0x70,
    0x6f, 0x69, 0x6e, 0x74, 0x2f, 0x73, 0x79, 0x73, 0x63, 0x61, 0x6c, 0x6c, 0x73, 0x2f, 0x73,
    0x79, 0x73, 0x5f, 0x65, 0x6e, 0x74, 0x65, 0x72, 0x5f, 0x65, 0x78, 0x65, 0x63, 0x76, 0x65, 0,
    0x73, 0x79, 0x73, 0x63, 0x61, 0x6c, 0x6c, 0x5f, 0x65, 0x6e, 0x74, 0x65, 0x72, 0x5f, 0x65,
    0x78, 0x65, 0x63, 0x76, 0x65, 0, 0x5f, 0x6c, 0x69, 0x63, 0x65, 0x6e, 0x73, 0x65, 0, 0x2e,
    0x72, 0x65, 0x6c, 0x2e, 0x65, 0x68, 0x5f, 0x66, 0x72, 0x61, 0x6d, 0x65, 0, 0x65, 0x78, 0x65,
    0x63, 0x73, 0x6e, 0x6f, 0x6f, 0x70, 0x5f, 0x6b, 0x65, 0x72, 0x6e, 0x2e, 0x63, 0, 0x2e, 0x73,
    0x74, 0x72, 0x74, 0x61, 0x62, 0, 0x2e, 0x73, 0x79, 0x6d, 0x74, 0x61, 0x62, 0, 0x4c, 0x42,
    0x42, 0x31, 0x5f, 0x34, 0, 0x4c, 0x42, 0x42, 0x31, 0x5f, 0x33, 0, 0x4c, 0x42, 0x42, 0x30,
    0x5f, 0x33, 0]"
  by (simp add: x86_image_def x86_literal_def)

lemma x86_section_names: "section_names x86_image x86_elf = map Some
    ['''', ''.strtab'', ''.text'', ''tracepoint/syscalls/sys_enter_execve'',
    ''.reltracepoint/syscalls/sys_enter_execve'', ''tracepoint/syscalls/sys_exit_execve'',
    ''.reltracepoint/syscalls/sys_exit_execve'', ''maps'', ''license'', ''version'',
    ''.eh_frame'', ''.rel.eh_frame'', ''.symtab'']"
  by (simp add: section_names_def contents_def x86_elf_def x86_headers_def cstring_at_def x86_strtab)

lemma x86_symbols: "symbols x86_image x86_elf = [
    ('''', \<lparr>st_name = 0, st_shndx = 0, st_value = 0, st_size = 0\<rparr>),
    (''execsnoop_kern.c'', \<lparr>st_name = 186, st_shndx = 65521, st_value = 0, st_size = 0\<rparr>),
    (''LBB0_3'', \<lparr>st_name = 233, st_shndx = 3, st_value = 368, st_size = 0\<rparr>),
    (''LBB1_3'', \<lparr>st_name = 226, st_shndx = 5, st_value = 192, st_size = 0\<rparr>),
    (''LBB1_4'', \<lparr>st_name = 219, st_shndx = 5, st_value = 232, st_size = 0\<rparr>),
    ('''', \<lparr>st_name = 0, st_shndx = 3, st_value = 0, st_size = 0\<rparr>),
    ('''', \<lparr>st_name = 0, st_shndx = 5, st_value = 0, st_size = 0\<rparr>),
    (''_license'', \<lparr>st_name = 163, st_shndx = 8, st_value = 0, st_size = 4\<rparr>),
    (''_version'', \<lparr>st_name = 32, st_shndx = 9, st_value = 0, st_size = 4\<rparr>),
    (''perf_events'', \<lparr>st_name = 7, st_shndx = 7, st_value = 20, st_size = 20\<rparr>),
    (''records'', \<lparr>st_name = 24, st_shndx = 7, st_value = 0, st_size = 20\<rparr>),
    (''syscall_enter_execve'', \<lparr>st_name = 142, st_shndx = 3, st_value = 0, st_size = 384\<rparr>),
    (''syscall_exit_execve'', \<lparr>st_name = 81, st_shndx = 5, st_value = 0, st_size = 248\<rparr>)]"
proof -
  have "entries x86_image symbol_of 24 13 824 = Some [
    \<lparr>st_name = 0, st_shndx = 0, st_value = 0, st_size = 0\<rparr>,
    \<lparr>st_name = 186, st_shndx = 65521, st_value = 0, st_size = 0\<rparr>,
    \<lparr>st_name = 233, st_shndx = 3, st_value = 368, st_size = 0\<rparr>,
    \<lparr>st_name = 226, st_shndx = 5, st_value = 192, st_size = 0\<rparr>,
    \<lparr>st_name = 219, st_shndx = 5, st_value = 232, st_size = 0\<rparr>,
    \<lparr>st_name = 0, st_shndx = 3, st_value = 0, st_size = 0\<rparr>,
    \<lparr>st_name = 0, st_shndx = 5, st_value = 0, st_size = 0\<rparr>,
    \<lparr>st_name = 163, st_shndx = 8, st_value = 0, st_size = 4\<rparr>,
    \<lparr>st_name = 32, st_shndx = 9, st_value = 0, st_size = 4\<rparr>,
    \<lparr>st_name = 7, st_shndx = 7, st_value = 20, st_size = 20\<rparr>,
    \<lparr>st_name = 24, st_shndx = 7, st_value = 0, st_size = 20\<rparr>,
    \<lparr>st_name = 142, st_shndx = 3, st_value = 0, st_size = 384\<rparr>,
    \<lparr>st_name = 81, st_shndx = 5, st_value = 0, st_size = 248\<rparr>]"
    by (simp add: x86_image_def x86_literal_def entries_def symbol_of_def field_def)
  then show ?thesis
    by (simp add: symbols_def contents_def x86_elf_def x86_headers_def cstring_at_def x86_strtab SHT_SYMTAB_def)
qed

lemma x86_enter_relocations: "relocations x86_image x86_elf 3 = [(112, ''records''), (184, ''records'')]"
proof -
  have "entries x86_image (\<lambda>bs. (field 0 8 bs, field 12 4 bs)) 16 2 1136 = Some [(112, 10), (184, 10)]"
    by (simp add: x86_image_def x86_literal_def entries_def field_def)
  moreover have "find (\<lambda>sh. sh_type sh = SHT_REL \<and> sh_info sh = 3) (elf_headers x86_elf) = Some
    \<lparr>sh_name = 101, sh_type = 9, sh_offset = 1136, sh_size = 32, sh_link = 12, sh_info = 3\<rparr>"
    by (simp add: x86_elf_def x86_headers_def SHT_REL_def)
  ultimately show ?thesis by (simp add: relocations_def x86_symbols)
qed

definition x86_enter :: "insn list" where
  "x86_enter = [
    Call 14, Alu_reg Mov 6 0, Store 4 10 (- 4) 6, Call 15, Alu_reg Mov 7 0, Alu_imm Mov 1 0,
    Store 8 10 (- 24) 1, Store 8 10 (- 32) 1, Store 8 10 (- 40) 1, Store 8 10 (- 48) 1, Alu_reg
    Mov 2 10, Alu_imm Add 2 (- 4), Alu_reg Mov 3 10, Alu_imm Add 3 (- 48), Ld_map 1 ''records'',
    Pad, Alu_imm Mov 4 1, Call 2, Alu_imm Lsh 0 32, Alu_imm Rsh 0 32, Jump_imm J_ne 0 0 25,
    Alu_reg Mov 2 10, Alu_imm Add 2 (- 4), Ld_map 1 ''records'', Pad, Call 1, Alu_reg Mov 8 0,
    Jump_imm J_eq 8 0 18, Alu_imm Rsh 6 32, Load 4 1 10 (- 4), Store 4 8 28 7, Store 4 8 20 6,
    Store 4 8 16 1, Call 35, Alu_imm Add 0 1184, Alu_reg Mov 1 10, Alu_imm Add 1 (- 16), Alu_imm
    Mov 2 8, Alu_reg Mov 3 0, Call 4, Alu_imm Add 8 24, Load 8 3 10 (- 16), Alu_imm Add 3 1172,
    Alu_reg Mov 1 8, Alu_imm Mov 2 4, Call 4, Alu_imm Mov 0 0, Exit_insn]"

lemma x86_enter_program: "program_of x86_image ''tracepoint/syscalls/sys_enter_execve'' = Some x86_enter"
proof -
  have code: "at x86_image 64 384 = Some
    [0x85, 0, 0, 0, 0x0e, 0, 0, 0, 0xbf, 0x06, 0, 0, 0, 0, 0, 0, 0x63, 0x6a, 0xfc, 0xff, 0, 0, 0,
    0, 0x85, 0, 0, 0, 0x0f, 0, 0, 0, 0xbf, 0x07, 0, 0, 0, 0, 0, 0, 0xb7, 0x01, 0, 0, 0, 0, 0, 0,
    0x7b, 0x1a, 0xe8, 0xff, 0, 0, 0, 0, 0x7b, 0x1a, 0xe0, 0xff, 0, 0, 0, 0, 0x7b, 0x1a, 0xd8,
    0xff, 0, 0, 0, 0, 0x7b, 0x1a, 0xd0, 0xff, 0, 0, 0, 0, 0xbf, 0xa2, 0, 0, 0, 0, 0, 0, 0x07,
    0x02, 0, 0, 0xfc, 0xff, 0xff, 0xff, 0xbf, 0xa3, 0, 0, 0, 0, 0, 0, 0x07, 0x03, 0, 0, 0xd0,
    0xff, 0xff, 0xff, 0x18, 0x01, 0, 0, 0, 0, 0, 0, 0, 0, 0, 0, 0, 0, 0, 0, 0xb7, 0x04, 0, 0,
    0x01, 0, 0, 0, 0x85, 0, 0, 0, 0x02, 0, 0, 0, 0x67, 0, 0, 0, 0x20, 0, 0, 0, 0x77, 0, 0, 0,
    0x20, 0, 0, 0, 0x55, 0, 0x19, 0, 0, 0, 0, 0, 0xbf, 0xa2, 0, 0, 0, 0, 0, 0, 0x07, 0x02, 0, 0,
    0xfc, 0xff, 0xff, 0xff, 0x18, 0x01, 0, 0, 0, 0, 0, 0, 0, 0, 0, 0, 0, 0, 0, 0, 0x85, 0, 0, 0,
    0x01, 0, 0, 0, 0xbf, 0x08, 0, 0, 0, 0, 0, 0, 0x15, 0x08, 0x12, 0, 0, 0, 0, 0, 0x77, 0x06, 0,
    0, 0x20, 0, 0, 0, 0x61, 0xa1, 0xfc, 0xff, 0, 0, 0, 0, 0x63, 0x78, 0x1c, 0, 0, 0, 0, 0, 0x63,
    0x68, 0x14, 0, 0, 0, 0, 0, 0x63, 0x18, 0x10, 0, 0, 0, 0, 0, 0x85, 0, 0, 0, 0x23, 0, 0, 0,
    0x07, 0, 0, 0, 0xa0, 0x04, 0, 0, 0xbf, 0xa1, 0, 0, 0, 0, 0, 0, 0x07, 0x01, 0, 0, 0xf0, 0xff,
    0xff, 0xff, 0xb7, 0x02, 0, 0, 0x08, 0, 0, 0, 0xbf, 0x03, 0, 0, 0, 0, 0, 0, 0x85, 0, 0, 0,
    0x04, 0, 0, 0, 0x07, 0x08, 0, 0, 0x18, 0, 0, 0, 0x79, 0xa3, 0xf0, 0xff, 0, 0, 0, 0, 0x07,
    0x03, 0, 0, 0x94, 0x04, 0, 0, 0xbf, 0x81, 0, 0, 0, 0, 0, 0, 0xb7, 0x02, 0, 0, 0x04, 0, 0, 0,
    0x85, 0, 0, 0, 0x04, 0, 0, 0, 0xb7, 0, 0, 0, 0, 0, 0, 0, 0x95, 0, 0, 0, 0, 0, 0, 0]"
    by (simp add: x86_image_def x86_literal_def)
  have sec: "elf_headers x86_elf ! 3 =
    \<lparr>sh_name = 105, sh_type = 1, sh_offset = 64, sh_size = 384, sh_link = 0, sh_info = 0\<rparr>"
    by (simp add: x86_elf_def x86_headers_def)
  have index: "index_of (Some ''tracepoint/syscalls/sys_enter_execve'') (section_names x86_image x86_elf) = Some 3"
    by (simp add: x86_section_names)
  show ?thesis
    by (simp add: program_of_def x86_elf_of index x86_enter_relocations contents_def code
        sec insn_of_def signed_num_def x86_enter_def)
qed

lemma x86_exit_relocations: "relocations x86_image x86_elf 5 = [(40, ''records''), (136, ''perf_events''), (208, ''records'')]"
proof -
  have "entries x86_image (\<lambda>bs. (field 0 8 bs, field 12 4 bs)) 16 3 1168 = Some [(40, 10), (136, 9), (208, 10)]"
    by (simp add: x86_image_def x86_literal_def entries_def field_def)
  moreover have "find (\<lambda>sh. sh_type sh = SHT_REL \<and> sh_info sh = 5) (elf_headers x86_elf) = Some
    \<lparr>sh_name = 41, sh_type = 9, sh_offset = 1168, sh_size = 48, sh_link = 12, sh_info = 5\<rparr>"
    by (simp add: x86_elf_def x86_headers_def SHT_REL_def)
  ultimately show ?thesis by (simp add: relocations_def x86_symbols)
qed

definition x86_exit :: "insn list" where
  "x86_exit = [
    Alu_reg Mov 6 1, Call 14, Store 4 10 (- 4) 0, Alu_reg Mov 2 10, Alu_imm Add 2 (- 4), Ld_map 1
    ''records'', Pad, Call 1, Alu_reg Mov 7 0, Jump_imm J_eq 7 0 19, Load 8 1 6 16, Alu_imm Mov 2
    0, Jump_reg J_sgt 2 1 11, Alu_reg Mov 1 7, Alu_imm Mov 2 16, Call 16, Alu_reg Mov 1 6, Ld_map
    2 ''perf_events'', Pad, Ld_imm64 3 4294967295, Pad, Alu_reg Mov 4 7, Alu_imm Mov 5 32, Call
    25, Alu_reg Mov 2 10, Alu_imm Add 2 (- 4), Ld_map 1 ''records'', Pad, Call 3, Alu_imm Mov 0
    0, Exit_insn]"

lemma x86_exit_program: "program_of x86_image ''tracepoint/syscalls/sys_exit_execve'' = Some x86_exit"
proof -
  have code: "at x86_image 448 248 = Some
    [0xbf, 0x16, 0, 0, 0, 0, 0, 0, 0x85, 0, 0, 0, 0x0e, 0, 0, 0, 0x63, 0x0a, 0xfc, 0xff, 0, 0, 0,
    0, 0xbf, 0xa2, 0, 0, 0, 0, 0, 0, 0x07, 0x02, 0, 0, 0xfc, 0xff, 0xff, 0xff, 0x18, 0x01, 0, 0,
    0, 0, 0, 0, 0, 0, 0, 0, 0, 0, 0, 0, 0x85, 0, 0, 0, 0x01, 0, 0, 0, 0xbf, 0x07, 0, 0, 0, 0, 0,
    0, 0x15, 0x07, 0x13, 0, 0, 0, 0, 0, 0x79, 0x61, 0x10, 0, 0, 0, 0, 0, 0xb7, 0x02, 0, 0, 0, 0,
    0, 0, 0x6d, 0x12, 0x0b, 0, 0, 0, 0, 0, 0xbf, 0x71, 0, 0, 0, 0, 0, 0, 0xb7, 0x02, 0, 0, 0x10,
    0, 0, 0, 0x85, 0, 0, 0, 0x10, 0, 0, 0, 0xbf, 0x61, 0, 0, 0, 0, 0, 0, 0x18, 0x02, 0, 0, 0, 0,
    0, 0, 0, 0, 0, 0, 0, 0, 0, 0, 0x18, 0x03, 0, 0, 0xff, 0xff, 0xff, 0xff, 0, 0, 0, 0, 0, 0, 0,
    0, 0xbf, 0x74, 0, 0, 0, 0, 0, 0, 0xb7, 0x05, 0, 0, 0x20, 0, 0, 0, 0x85, 0, 0, 0, 0x19, 0, 0,
    0, 0xbf, 0xa2, 0, 0, 0, 0, 0, 0, 0x07, 0x02, 0, 0, 0xfc, 0xff, 0xff, 0xff, 0x18, 0x01, 0, 0,
    0, 0, 0, 0, 0, 0, 0, 0, 0, 0, 0, 0, 0x85, 0, 0, 0, 0x03, 0, 0, 0, 0xb7, 0, 0, 0, 0, 0, 0, 0,
    0x95, 0, 0, 0, 0, 0, 0, 0]"
    by (simp add: x86_image_def x86_literal_def)
  have sec: "elf_headers x86_elf ! 5 =
    \<lparr>sh_name = 45, sh_type = 1, sh_offset = 448, sh_size = 248, sh_link = 0, sh_info = 0\<rparr>"
    by (simp add: x86_elf_def x86_headers_def)
  have index: "index_of (Some ''tracepoint/syscalls/sys_exit_execve'') (section_names x86_image x86_elf) = Some 5"
    by (simp add: x86_section_names)
  show ?thesis
    by (simp add: program_of_def x86_elf_of index x86_exit_relocations contents_def code
        sec insn_of_def signed_num_def x86_exit_def)
qed

end
