(* ===== verification/Object_Arm.thy ===== *)
theory Object_Arm
  imports Elf
begin

text \<open>
  The object file embedded in \<open>execsnoop-kernel/aarch64/execsnoop_kern_skel.h\<close>, line by line, the
  size the header gives for it, and what the loader reads in it.
\<close>

definition arm_literal :: "bytes list" where
  "arm_literal = [
   [0x7f, 0x45, 0x4c, 0x46, 0x02, 0x01, 0x01, 0, 0, 0, 0, 0, 0, 0, 0, 0, 0x01, 0, 0xf7, 0, 0x01,
    0, 0, 0, 0, 0, 0, 0, 0],
   [0, 0, 0, 0, 0, 0, 0, 0, 0, 0, 0, 0x28, 0x05, 0, 0, 0, 0, 0, 0, 0, 0, 0, 0, 0x40, 0, 0, 0, 0,
    0, 0x40, 0, 0x0b, 0],
   [0x01, 0, 0x85, 0, 0, 0, 0x0e, 0, 0, 0, 0xbf, 0x06, 0, 0, 0, 0, 0, 0, 0x63, 0x6a, 0xfc, 0xff,
    0, 0, 0, 0, 0x85, 0, 0],
   [0, 0x0f, 0, 0, 0, 0xbf, 0x07, 0, 0, 0, 0, 0, 0, 0xb7, 0x01, 0, 0, 0, 0, 0, 0, 0x7b, 0x1a,
    0xe8, 0xff, 0, 0, 0, 0],
   [0x7b, 0x1a, 0xe0, 0xff, 0, 0, 0, 0, 0x7b, 0x1a, 0xd8, 0xff, 0, 0, 0, 0, 0x7b, 0x1a, 0xd0,
    0xff, 0, 0, 0, 0, 0xbf],
   [0xa2, 0, 0, 0, 0, 0, 0, 0x07, 0x02, 0, 0, 0xfc, 0xff, 0xff, 0xff, 0xbf, 0xa3, 0, 0, 0, 0, 0,
    0, 0x07, 0x03, 0, 0],
   [0xd0, 0xff, 0xff, 0xff, 0x18, 0x01, 0, 0, 0, 0, 0, 0, 0, 0, 0, 0, 0, 0, 0, 0, 0xb7, 0x04, 0,
    0, 0x01, 0, 0, 0, 0x85],
   [0, 0, 0, 0x02, 0, 0, 0, 0x67, 0, 0, 0, 0x20, 0, 0, 0, 0x77, 0, 0, 0, 0x20, 0, 0, 0, 0x55, 0,
    0x19, 0, 0, 0, 0, 0],
   [0xbf, 0xa2, 0, 0, 0, 0, 0, 0, 0x07, 0x02, 0, 0, 0xfc, 0xff, 0xff, 0xff, 0x18, 0x01, 0, 0, 0,
    0, 0, 0, 0, 0, 0, 0, 0],
   [0, 0, 0, 0x85, 0, 0, 0, 0x01, 0, 0, 0, 0xbf, 0x08, 0, 0, 0, 0, 0, 0, 0x15, 0x08, 0x12, 0, 0,
    0, 0, 0, 0x77, 0x06, 0],
   [0, 0x20, 0, 0, 0, 0x61, 0xa1, 0xfc, 0xff, 0, 0, 0, 0, 0x63, 0x78, 0x1c, 0, 0, 0, 0, 0, 0x63,
    0x68, 0x14, 0, 0, 0, 0],
   [0, 0x63, 0x18, 0x10, 0, 0, 0, 0, 0, 0x85, 0, 0, 0, 0x23, 0, 0, 0, 0x07, 0, 0, 0, 0x78, 0x04,
    0, 0, 0xbf, 0xa1, 0, 0],
   [0, 0, 0, 0, 0x07, 0x01, 0, 0, 0xf0, 0xff, 0xff, 0xff, 0xb7, 0x02, 0, 0, 0x08, 0, 0, 0, 0xbf,
    0x03, 0, 0, 0, 0, 0, 0],
   [0x85, 0, 0, 0, 0x04, 0, 0, 0, 0x07, 0x08, 0, 0, 0x18, 0, 0, 0, 0x79, 0xa3, 0xf0, 0xff, 0, 0,
    0, 0, 0x07, 0x03, 0, 0],
   [0x6c, 0x04, 0, 0, 0xbf, 0x81, 0, 0, 0, 0, 0, 0, 0xb7, 0x02, 0, 0, 0x04, 0, 0, 0, 0x85, 0, 0,
    0, 0x04, 0, 0, 0, 0xb7],
   [0, 0, 0, 0, 0, 0, 0, 0x95, 0, 0, 0, 0, 0, 0, 0, 0xbf, 0x16, 0, 0, 0, 0, 0, 0, 0x85, 0, 0, 0,
    0x0e, 0, 0, 0, 0x63],
   [0x0a, 0xfc, 0xff, 0, 0, 0, 0, 0xbf, 0xa2, 0, 0, 0, 0, 0, 0, 0x07, 0x02, 0, 0, 0xfc, 0xff,
    0xff, 0xff, 0x18, 0x01, 0],
   [0, 0, 0, 0, 0, 0, 0, 0, 0, 0, 0, 0, 0, 0x85, 0, 0, 0, 0x01, 0, 0, 0, 0xbf, 0x07, 0, 0, 0, 0,
    0, 0, 0x15, 0x07, 0x13],
   [0, 0, 0, 0, 0, 0x79, 0x61, 0x10, 0, 0, 0, 0, 0, 0xb7, 0x02, 0, 0, 0, 0, 0, 0, 0x6d, 0x12,
    0x0b, 0, 0, 0, 0, 0, 0xbf],
   [0x71, 0, 0, 0, 0, 0, 0, 0xb7, 0x02, 0, 0, 0x10, 0, 0, 0, 0x85, 0, 0, 0, 0x10, 0, 0, 0, 0xbf,
    0x61, 0, 0, 0, 0, 0, 0],
   [0x18, 0x02, 0, 0, 0, 0, 0, 0, 0, 0, 0, 0, 0, 0, 0, 0, 0x18, 0x03, 0, 0, 0xff, 0xff, 0xff,
    0xff, 0, 0, 0, 0, 0, 0, 0],
   [0, 0xbf, 0x74, 0, 0, 0, 0, 0, 0, 0xb7, 0x05, 0, 0, 0x20, 0, 0, 0, 0x85, 0, 0, 0, 0x19, 0, 0,
    0, 0xbf, 0xa2, 0, 0, 0],
   [0, 0, 0, 0x07, 0x02, 0, 0, 0xfc, 0xff, 0xff, 0xff, 0x18, 0x01, 0, 0, 0, 0, 0, 0, 0, 0, 0, 0,
    0, 0, 0, 0, 0x85, 0, 0],
   [0, 0x03, 0, 0, 0, 0xb7, 0, 0, 0, 0, 0, 0, 0, 0x95, 0, 0, 0, 0, 0, 0, 0, 0x01, 0, 0, 0, 0x04,
    0, 0, 0, 0x20, 0, 0, 0],
   [0, 0x28, 0, 0, 0, 0, 0, 0, 0x04, 0, 0, 0, 0x04, 0, 0, 0, 0x04, 0, 0, 0, 0x80, 0, 0, 0, 0, 0,
    0, 0, 0x47, 0x50, 0x4c],
   [0, 0x06, 0x07, 0x05, 0, 0, 0, 0, 0, 0, 0, 0, 0, 0, 0, 0, 0, 0, 0, 0, 0, 0, 0, 0, 0, 0, 0, 0,
    0, 0xac, 0, 0, 0, 0x04],
   [0, 0xf1, 0xff, 0, 0, 0, 0, 0, 0, 0, 0, 0, 0, 0, 0, 0, 0, 0, 0, 0xdb, 0, 0, 0, 0, 0, 0x03, 0,
    0x70, 0x01, 0, 0, 0, 0],
   [0, 0, 0, 0, 0, 0, 0, 0, 0, 0, 0xd4, 0, 0, 0, 0, 0, 0x05, 0, 0xc0, 0, 0, 0, 0, 0, 0, 0, 0, 0,
    0, 0, 0, 0, 0, 0, 0xcd],
   [0, 0, 0, 0, 0, 0x05, 0, 0xe8, 0, 0, 0, 0, 0, 0, 0, 0, 0, 0, 0, 0, 0, 0, 0, 0xa3, 0, 0, 0,
    0x11, 0, 0x08, 0, 0, 0, 0],
   [0, 0, 0, 0, 0, 0x04, 0, 0, 0, 0, 0, 0, 0, 0x20, 0, 0, 0, 0x11, 0, 0x09, 0, 0, 0, 0, 0, 0, 0,
    0, 0, 0x04, 0, 0, 0, 0],
   [0, 0, 0, 0x07, 0, 0, 0, 0x11, 0, 0x07, 0, 0x14, 0, 0, 0, 0, 0, 0, 0, 0x14, 0, 0, 0, 0, 0, 0,
    0, 0x18, 0, 0, 0, 0x11],
   [0, 0x07, 0, 0, 0, 0, 0, 0, 0, 0, 0, 0x14, 0, 0, 0, 0, 0, 0, 0, 0x8e, 0, 0, 0, 0x12, 0, 0x03,
    0, 0, 0, 0, 0, 0, 0, 0],
   [0, 0x80, 0x01, 0, 0, 0, 0, 0, 0, 0x51, 0, 0, 0, 0x12, 0, 0x05, 0, 0, 0, 0, 0, 0, 0, 0, 0,
    0xf8, 0, 0, 0, 0, 0, 0, 0],
   [0x70, 0, 0, 0, 0, 0, 0, 0, 0x01, 0, 0, 0, 0x08, 0, 0, 0, 0xb8, 0, 0, 0, 0, 0, 0, 0, 0x01, 0,
    0, 0, 0x08, 0, 0, 0],
   [0x28, 0, 0, 0, 0, 0, 0, 0, 0x01, 0, 0, 0, 0x08, 0, 0, 0, 0x88, 0, 0, 0, 0, 0, 0, 0, 0x01, 0,
    0, 0, 0x07, 0, 0, 0],
   [0xd0, 0, 0, 0, 0, 0, 0, 0, 0x01, 0, 0, 0, 0x08, 0, 0, 0, 0, 0x2e, 0x74, 0x65, 0x78, 0x74, 0,
    0x70, 0x65, 0x72, 0x66],
   [0x5f, 0x65, 0x76, 0x65, 0x6e, 0x74, 0x73, 0, 0x6d, 0x61, 0x70, 0x73, 0, 0x72, 0x65, 0x63,
    0x6f, 0x72, 0x64, 0x73, 0],
   [0x5f, 0x76, 0x65, 0x72, 0x73, 0x69, 0x6f, 0x6e, 0, 0x2e, 0x72, 0x65, 0x6c, 0x74, 0x72, 0x61,
    0x63, 0x65, 0x70, 0x6f],
   [0x69, 0x6e, 0x74, 0x2f, 0x73, 0x79, 0x73, 0x63, 0x61, 0x6c, 0x6c, 0x73, 0x2f, 0x73, 0x79,
    0x73, 0x5f, 0x65, 0x78],
   [0x69, 0x74, 0x5f, 0x65, 0x78, 0x65, 0x63, 0x76, 0x65, 0, 0x73, 0x79, 0x73, 0x63, 0x61, 0x6c,
    0x6c, 0x5f, 0x65, 0x78],
   [0x69, 0x74, 0x5f, 0x65, 0x78, 0x65, 0x63, 0x76, 0x65, 0, 0x2e, 0x72, 0x65, 0x6c, 0x74, 0x72,
    0x61, 0x63, 0x65, 0x70],
   [0x6f, 0x69, 0x6e, 0x74, 0x2f, 0x73, 0x79, 0x73, 0x63, 0x61, 0x6c, 0x6c, 0x73, 0x2f, 0x73,
    0x79, 0x73, 0x5f, 0x65],
   [0x6e, 0x74, 0x65, 0x72, 0x5f, 0x65, 0x78, 0x65, 0x63, 0x76, 0x65, 0, 0x73, 0x79, 0x73, 0x63,
    0x61, 0x6c, 0x6c, 0x5f],
   [0x65, 0x6e, 0x74, 0x65, 0x72, 0x5f, 0x65, 0x78, 0x65, 0x63, 0x76, 0x65, 0, 0x5f, 0x6c, 0x69,
    0x63, 0x65, 0x6e, 0x73],
   [0x65, 0, 0x65, 0x78, 0x65, 0x63, 0x73, 0x6e, 0x6f, 0x6f, 0x70, 0x5f, 0x6b, 0x65, 0x72, 0x6e,
    0x2e, 0x63, 0, 0x2e],
   [0x73, 0x74, 0x72, 0x74, 0x61, 0x62, 0, 0x2e, 0x73, 0x79, 0x6d, 0x74, 0x61, 0x62, 0, 0x4c,
    0x42, 0x42, 0x31, 0x5f],
   [0x34, 0, 0x4c, 0x42, 0x42, 0x31, 0x5f, 0x33, 0, 0x4c, 0x42, 0x42, 0x30, 0x5f, 0x33, 0, 0, 0,
    0, 0, 0, 0, 0, 0, 0, 0],
   [0, 0, 0, 0, 0, 0, 0, 0, 0, 0, 0, 0, 0, 0, 0, 0, 0, 0, 0, 0, 0, 0, 0, 0, 0, 0, 0, 0, 0, 0, 0,
    0, 0, 0, 0, 0, 0, 0, 0],
   [0, 0, 0, 0, 0, 0, 0, 0, 0, 0, 0, 0, 0, 0, 0, 0, 0, 0, 0, 0, 0, 0xbd, 0, 0, 0, 0x03, 0, 0, 0,
    0, 0, 0, 0, 0, 0, 0, 0],
   [0, 0, 0, 0, 0, 0, 0, 0, 0x40, 0x04, 0, 0, 0, 0, 0, 0, 0xe2, 0, 0, 0, 0, 0, 0, 0, 0, 0, 0, 0,
    0, 0, 0, 0, 0x01, 0, 0],
   [0, 0, 0, 0, 0, 0, 0, 0, 0, 0, 0, 0, 0, 0x01, 0, 0, 0, 0x01, 0, 0, 0, 0x06, 0, 0, 0, 0, 0, 0,
    0, 0, 0, 0, 0, 0, 0, 0],
   [0, 0x40, 0, 0, 0, 0, 0, 0, 0, 0, 0, 0, 0, 0, 0, 0, 0, 0, 0, 0, 0, 0, 0, 0, 0, 0x04, 0, 0, 0,
    0, 0, 0, 0, 0, 0, 0, 0],
   [0, 0, 0, 0, 0x69, 0, 0, 0, 0x01, 0, 0, 0, 0x06, 0, 0, 0, 0, 0, 0, 0, 0, 0, 0, 0, 0, 0, 0, 0,
    0x40, 0, 0, 0, 0, 0, 0],
   [0, 0x80, 0x01, 0, 0, 0, 0, 0, 0, 0, 0, 0, 0, 0, 0, 0, 0, 0x08, 0, 0, 0, 0, 0, 0, 0, 0, 0, 0,
    0, 0, 0, 0, 0, 0x65, 0],
   [0, 0, 0x09, 0, 0, 0, 0, 0, 0, 0, 0, 0, 0, 0, 0, 0, 0, 0, 0, 0, 0, 0, 0xf0, 0x03, 0, 0, 0, 0,
    0, 0, 0x20, 0, 0, 0, 0],
   [0, 0, 0, 0x0a, 0, 0, 0, 0x03, 0, 0, 0, 0x08, 0, 0, 0, 0, 0, 0, 0, 0x10, 0, 0, 0, 0, 0, 0, 0,
    0x2d, 0, 0, 0, 0x01, 0],
   [0, 0, 0x06, 0, 0, 0, 0, 0, 0, 0, 0, 0, 0, 0, 0, 0, 0, 0, 0xc0, 0x01, 0, 0, 0, 0, 0, 0, 0xf8,
    0, 0, 0, 0, 0, 0, 0, 0],
   [0, 0, 0, 0, 0, 0, 0, 0x08, 0, 0, 0, 0, 0, 0, 0, 0, 0, 0, 0, 0, 0, 0, 0, 0x29, 0, 0, 0, 0x09,
    0, 0, 0, 0, 0, 0, 0, 0],
   [0, 0, 0, 0, 0, 0, 0, 0, 0, 0, 0, 0x10, 0x04, 0, 0, 0, 0, 0, 0, 0x30, 0, 0, 0, 0, 0, 0, 0,
    0x0a, 0, 0, 0, 0x05, 0, 0],
   [0, 0x08, 0, 0, 0, 0, 0, 0, 0, 0x10, 0, 0, 0, 0, 0, 0, 0, 0x13, 0, 0, 0, 0x01, 0, 0, 0, 0x03,
    0, 0, 0, 0, 0, 0, 0, 0],
   [0, 0, 0, 0, 0, 0, 0, 0xb8, 0x02, 0, 0, 0, 0, 0, 0, 0x28, 0, 0, 0, 0, 0, 0, 0, 0, 0, 0, 0, 0,
    0, 0, 0, 0x04, 0, 0, 0],
   [0, 0, 0, 0, 0, 0, 0, 0, 0, 0, 0, 0, 0xa4, 0, 0, 0, 0x01, 0, 0, 0, 0x03, 0, 0, 0, 0, 0, 0, 0,
    0, 0, 0, 0, 0, 0, 0, 0],
   [0xe0, 0x02, 0, 0, 0, 0, 0, 0, 0x04, 0, 0, 0, 0, 0, 0, 0, 0, 0, 0, 0, 0, 0, 0, 0, 0x01, 0, 0,
    0, 0, 0, 0, 0, 0, 0, 0],
   [0, 0, 0, 0, 0, 0x21, 0, 0, 0, 0x01, 0, 0, 0, 0x03, 0, 0, 0, 0, 0, 0, 0, 0, 0, 0, 0, 0, 0, 0,
    0, 0xe4, 0x02, 0, 0, 0],
   [0, 0, 0, 0x04, 0, 0, 0, 0, 0, 0, 0, 0, 0, 0, 0, 0, 0, 0, 0, 0x04, 0, 0, 0, 0, 0, 0, 0, 0, 0,
    0, 0, 0, 0, 0, 0, 0xc5],
   [0, 0, 0, 0x02, 0, 0, 0, 0, 0, 0, 0, 0, 0, 0, 0, 0, 0, 0, 0, 0, 0, 0, 0, 0xe8, 0x02, 0, 0, 0,
    0, 0, 0, 0x08, 0x01, 0],
   [0, 0, 0, 0, 0, 0x01, 0, 0, 0, 0x05, 0, 0, 0, 0x08, 0, 0, 0, 0, 0, 0, 0, 0x18, 0, 0, 0, 0, 0,
    0, 0]]"

definition arm_data_sz :: nat where "arm_data_sz = 2024"

definition arm_image :: image where "arm_image = [(0, arm_literal)]"

subsection \<open>Reading the object\<close>

lemma arm_ehdr: "at arm_image 0 64 = Some
    [0x7f, 0x45, 0x4c, 0x46, 0x02, 0x01, 0x01, 0, 0, 0, 0, 0, 0, 0, 0, 0, 0x01, 0, 0xf7, 0, 0x01,
    0, 0, 0, 0, 0, 0, 0, 0, 0, 0, 0, 0, 0, 0, 0, 0, 0, 0, 0, 0x28, 0x05, 0, 0, 0, 0, 0, 0, 0, 0,
    0, 0, 0x40, 0, 0, 0, 0, 0, 0x40, 0, 0x0b, 0, 0x01, 0]"
  by (simp add: arm_image_def arm_literal_def)

definition arm_headers :: "section_header list" where
  "arm_headers = [
    \<lparr>sh_name = 0, sh_type = 0, sh_offset = 0, sh_size = 0, sh_link = 0, sh_info = 0\<rparr>,
    \<lparr>sh_name = 189, sh_type = 3, sh_offset = 1088, sh_size = 226, sh_link = 0, sh_info = 0\<rparr>,
    \<lparr>sh_name = 1, sh_type = 1, sh_offset = 64, sh_size = 0, sh_link = 0, sh_info = 0\<rparr>,
    \<lparr>sh_name = 105, sh_type = 1, sh_offset = 64, sh_size = 384, sh_link = 0, sh_info = 0\<rparr>,
    \<lparr>sh_name = 101, sh_type = 9, sh_offset = 1008, sh_size = 32, sh_link = 10, sh_info = 3\<rparr>,
    \<lparr>sh_name = 45, sh_type = 1, sh_offset = 448, sh_size = 248, sh_link = 0, sh_info = 0\<rparr>,
    \<lparr>sh_name = 41, sh_type = 9, sh_offset = 1040, sh_size = 48, sh_link = 10, sh_info = 5\<rparr>,
    \<lparr>sh_name = 19, sh_type = 1, sh_offset = 696, sh_size = 40, sh_link = 0, sh_info = 0\<rparr>,
    \<lparr>sh_name = 164, sh_type = 1, sh_offset = 736, sh_size = 4, sh_link = 0, sh_info = 0\<rparr>,
    \<lparr>sh_name = 33, sh_type = 1, sh_offset = 740, sh_size = 4, sh_link = 0, sh_info = 0\<rparr>,
    \<lparr>sh_name = 197, sh_type = 2, sh_offset = 744, sh_size = 264, sh_link = 1, sh_info = 5\<rparr>]"

definition arm_elf :: elf where
  "arm_elf = \<lparr>elf_end = 2024, elf_shstrndx = 1, elf_headers = arm_headers\<rparr>"

lemma arm_section_headers: "entries arm_image header_of 64 11 1320 = Some arm_headers"
  by (simp add: arm_image_def arm_literal_def entries_def header_of_def field_def arm_headers_def)

lemma arm_elf_of: "elf_of arm_image = Some arm_elf"
  by (simp add: elf_of_def arm_ehdr field_def ELF_MAGIC_def EM_BPF_def arm_section_headers arm_elf_def)

lemma arm_strtab: "at arm_image 1088 226 = Some
    [0, 0x2e, 0x74, 0x65, 0x78, 0x74, 0, 0x70, 0x65, 0x72, 0x66, 0x5f, 0x65, 0x76, 0x65, 0x6e,
    0x74, 0x73, 0, 0x6d, 0x61, 0x70, 0x73, 0, 0x72, 0x65, 0x63, 0x6f, 0x72, 0x64, 0x73, 0, 0x5f,
    0x76, 0x65, 0x72, 0x73, 0x69, 0x6f, 0x6e, 0, 0x2e, 0x72, 0x65, 0x6c, 0x74, 0x72, 0x61, 0x63,
    0x65, 0x70, 0x6f, 0x69, 0x6e, 0x74, 0x2f, 0x73, 0x79, 0x73, 0x63, 0x61, 0x6c, 0x6c, 0x73,
    0x2f, 0x73, 0x79, 0x73, 0x5f, 0x65, 0x78, 0x69, 0x74, 0x5f, 0x65, 0x78, 0x65, 0x63, 0x76,
    0x65, 0, 0x73, 0x79, 0x73, 0x63, 0x61, 0x6c, 0x6c, 0x5f, 0x65, 0x78, 0x69, 0x74, 0x5f, 0x65,
    0x78, 0x65, 0x63, 0x76, 0x65, 0, 0x2e, 0x72, 0x65, 0x6c, 0x74, 0x72, 0x61, 0x63, 0x65, 0x70,
    0x6f, 0x69, 0x6e, 0x74, 0x2f, 0x73, 0x79, 0x73, 0x63, 0x61, 0x6c, 0x6c, 0x73, 0x2f, 0x73,
    0x79, 0x73, 0x5f, 0x65, 0x6e, 0x74, 0x65, 0x72, 0x5f, 0x65, 0x78, 0x65, 0x63, 0x76, 0x65, 0,
    0x73, 0x79, 0x73, 0x63, 0x61, 0x6c, 0x6c, 0x5f, 0x65, 0x6e, 0x74, 0x65, 0x72, 0x5f, 0x65,
    0x78, 0x65, 0x63, 0x76, 0x65, 0, 0x5f, 0x6c, 0x69, 0x63, 0x65, 0x6e, 0x73, 0x65, 0, 0x65,
    0x78, 0x65, 0x63, 0x73, 0x6e, 0x6f, 0x6f, 0x70, 0x5f, 0x6b, 0x65, 0x72, 0x6e, 0x2e, 0x63, 0,
    0x2e, 0x73, 0x74, 0x72, 0x74, 0x61, 0x62, 0, 0x2e, 0x73, 0x79, 0x6d, 0x74, 0x61, 0x62, 0,
    0x4c, 0x42, 0x42, 0x31, 0x5f, 0x34, 0, 0x4c, 0x42, 0x42, 0x31, 0x5f, 0x33, 0, 0x4c, 0x42,
    0x42, 0x30, 0x5f, 0x33, 0]"
  by (simp add: arm_image_def arm_literal_def)

lemma arm_section_names: "section_names arm_image arm_elf = map Some
    ['''', ''.strtab'', ''.text'', ''tracepoint/syscalls/sys_enter_execve'',
    ''.reltracepoint/syscalls/sys_enter_execve'', ''tracepoint/syscalls/sys_exit_execve'',
    ''.reltracepoint/syscalls/sys_exit_execve'', ''maps'', ''license'', ''version'',
    ''.symtab'']"
  by (simp add: section_names_def contents_def arm_elf_def arm_headers_def cstring_at_def arm_strtab)

lemma arm_symbols: "symbols arm_image arm_elf = [
    ('''', \<lparr>st_name = 0, st_shndx = 0, st_value = 0, st_size = 0\<rparr>),
    (''execsnoop_kern.c'', \<lparr>st_name = 172, st_shndx = 65521, st_value = 0, st_size = 0\<rparr>),
    (''LBB0_3'', \<lparr>st_name = 219, st_shndx = 3, st_value = 368, st_size = 0\<rparr>),
    (''LBB1_3'', \<lparr>st_name = 212, st_shndx = 5, st_value = 192, st_size = 0\<rparr>),
    (''LBB1_4'', \<lparr>st_name = 205, st_shndx = 5, st_value = 232, st_size = 0\<rparr>),
    (''_license'', \<lparr>st_name = 163, st_shndx = 8, st_value = 0, st_size = 4\<rparr>),
    (''_version'', \<lparr>st_name = 32, st_shndx = 9, st_value = 0, st_size = 4\<rparr>),
    (''perf_events'', \<lparr>st_name = 7, st_shndx = 7, st_value = 20, st_size = 20\<rparr>),
    (''records'', \<lparr>st_name = 24, st_shndx = 7, st_value = 0, st_size = 20\<rparr>),
    (''syscall_enter_execve'', \<lparr>st_name = 142, st_shndx = 3, st_value = 0, st_size = 384\<rparr>),
    (''syscall_exit_execve'', \<lparr>st_name = 81, st_shndx = 5, st_value = 0, st_size = 248\<rparr>)]"
proof -
  have "entries arm_image symbol_of 24 11 744 = Some [
    \<lparr>st_name = 0, st_shndx = 0, st_value = 0, st_size = 0\<rparr>,
    \<lparr>st_name = 172, st_shndx = 65521, st_value = 0, st_size = 0\<rparr>,
    \<lparr>st_name = 219, st_shndx = 3, st_value = 368, st_size = 0\<rparr>,
    \<lparr>st_name = 212, st_shndx = 5, st_value = 192, st_size = 0\<rparr>,
    \<lparr>st_name = 205, st_shndx = 5, st_value = 232, st_size = 0\<rparr>,
    \<lparr>st_name = 163, st_shndx = 8, st_value = 0, st_size = 4\<rparr>,
    \<lparr>st_name = 32, st_shndx = 9, st_value = 0, st_size = 4\<rparr>,
    \<lparr>st_name = 7, st_shndx = 7, st_value = 20, st_size = 20\<rparr>,
    \<lparr>st_name = 24, st_shndx = 7, st_value = 0, st_size = 20\<rparr>,
    \<lparr>st_name = 142, st_shndx = 3, st_value = 0, st_size = 384\<rparr>,
    \<lparr>st_name = 81, st_shndx = 5, st_value = 0, st_size = 248\<rparr>]"
    by (simp add: arm_image_def arm_literal_def entries_def symbol_of_def field_def)
  then show ?thesis
    by (simp add: symbols_def contents_def arm_elf_def arm_headers_def cstring_at_def arm_strtab SHT_SYMTAB_def)
qed

lemma arm_enter_relocations: "relocations arm_image arm_elf 3 = [(112, ''records''), (184, ''records'')]"
proof -
  have "entries arm_image (\<lambda>bs. (field 0 8 bs, field 12 4 bs)) 16 2 1008 = Some [(112, 8), (184, 8)]"
    by (simp add: arm_image_def arm_literal_def entries_def field_def)
  moreover have "find (\<lambda>sh. sh_type sh = SHT_REL \<and> sh_info sh = 3) (elf_headers arm_elf) = Some
    \<lparr>sh_name = 101, sh_type = 9, sh_offset = 1008, sh_size = 32, sh_link = 10, sh_info = 3\<rparr>"
    by (simp add: arm_elf_def arm_headers_def SHT_REL_def)
  ultimately show ?thesis by (simp add: relocations_def arm_symbols)
qed

definition arm_enter :: "insn list" where
  "arm_enter = [
    Call 14, Alu_reg Mov 6 0, Store 4 10 (- 4) 6, Call 15, Alu_reg Mov 7 0, Alu_imm Mov 1 0,
    Store 8 10 (- 24) 1, Store 8 10 (- 32) 1, Store 8 10 (- 40) 1, Store 8 10 (- 48) 1, Alu_reg
    Mov 2 10, Alu_imm Add 2 (- 4), Alu_reg Mov 3 10, Alu_imm Add 3 (- 48), Ld_map 1 ''records'',
    Pad, Alu_imm Mov 4 1, Call 2, Alu_imm Lsh 0 32, Alu_imm Rsh 0 32, Jump_imm J_ne 0 0 25,
    Alu_reg Mov 2 10, Alu_imm Add 2 (- 4), Ld_map 1 ''records'', Pad, Call 1, Alu_reg Mov 8 0,
    Jump_imm J_eq 8 0 18, Alu_imm Rsh 6 32, Load 4 1 10 (- 4), Store 4 8 28 7, Store 4 8 20 6,
    Store 4 8 16 1, Call 35, Alu_imm Add 0 1144, Alu_reg Mov 1 10, Alu_imm Add 1 (- 16), Alu_imm
    Mov 2 8, Alu_reg Mov 3 0, Call 4, Alu_imm Add 8 24, Load 8 3 10 (- 16), Alu_imm Add 3 1132,
    Alu_reg Mov 1 8, Alu_imm Mov 2 4, Call 4, Alu_imm Mov 0 0, Exit_insn]"

lemma arm_enter_program: "program_of arm_image ''tracepoint/syscalls/sys_enter_execve'' = Some arm_enter"
proof -
  have code: "at arm_image 64 384 = Some
    [0x85, 0, 0, 0, 0x0e, 0, 0, 0, 0xbf, 0x06, 0, 0, 0, 0, 0, 0, 0x63, 0x6a, 0xfc, 0xff, 0, 0, 0,
    0, 0x85, 0, 0, 0, 0x0f, 0, 0, 0, 0xbf, 0x07, 0, 0, 0, 0, 0, 0, 0xb7, 0x01, 0, 0, 0, 0, 0, 0,
    0x7b, 0x1a, 0xe8, 0xff, 0, 0, 0, 0, 0x7b, 0x1a, 0xe0, 0xff, 0, 0, 0, 0, 0x7b, 0x1a, 0xd8,
    0xff, 0, 0, 0, 0, 0x7b, 0x1a, 0xd0, 0xff, 0, 0, 0, 0, 0xbf, 0xa2, 0, 0, 0, 0, 0, 0, 0x07,
    0x02, 0, 0, 0xfc, 0xff, 0xff, 0xff, 0xbf, 0xa3, 0, 0, 0, 0, 0, 0, 0x07, 0x03, 0, 0, 0xd0,
    0xff, 0xff, 0xff, 0x18, 0x01, 0, 0, 0, 0, 0, 0, 0, 0, 0, 0, 0, 0, 0, 0, 0xb7, 0x04, 0, 0,
    0x01, 0, 0, 0, 0x85, 0, 0, 0, 0x02, 0, 0, 0, 0x67, 0, 0, 0, 0x20, 0, 0, 0, 0x77, 0, 0, 0,
    0x20, 0, 0, 0, 0x55, 0, 0x19, 0, 0, 0, 0, 0, 0xbf, 0xa2, 0, 0, 0, 0, 0, 0, 0x07, 0x02, 0, 0,
    0xfc, 0xff, 0xff, 0xff, 0x18, 0x01, 0, 0, 0, 0, 0, 0, 0, 0, 0, 0, 0, 0, 0, 0, 0x85, 0, 0, 0,
    0x01, 0, 0, 0, 0xbf, 0x08, 0, 0, 0, 0, 0, 0, 0x15, 0x08, 0x12, 0, 0, 0, 0, 0, 0x77, 0x06, 0,
    0, 0x20, 0, 0, 0, 0x61, 0xa1, 0xfc, 0xff, 0, 0, 0, 0, 0x63, 0x78, 0x1c, 0, 0, 0, 0, 0, 0x63,
    0x68, 0x14, 0, 0, 0, 0, 0, 0x63, 0x18, 0x10, 0, 0, 0, 0, 0, 0x85, 0, 0, 0, 0x23, 0, 0, 0,
    0x07, 0, 0, 0, 0x78, 0x04, 0, 0, 0xbf, 0xa1, 0, 0, 0, 0, 0, 0, 0x07, 0x01, 0, 0, 0xf0, 0xff,
    0xff, 0xff, 0xb7, 0x02, 0, 0, 0x08, 0, 0, 0, 0xbf, 0x03, 0, 0, 0, 0, 0, 0, 0x85, 0, 0, 0,
    0x04, 0, 0, 0, 0x07, 0x08, 0, 0, 0x18, 0, 0, 0, 0x79, 0xa3, 0xf0, 0xff, 0, 0, 0, 0, 0x07,
    0x03, 0, 0, 0x6c, 0x04, 0, 0, 0xbf, 0x81, 0, 0, 0, 0, 0, 0, 0xb7, 0x02, 0, 0, 0x04, 0, 0, 0,
    0x85, 0, 0, 0, 0x04, 0, 0, 0, 0xb7, 0, 0, 0, 0, 0, 0, 0, 0x95, 0, 0, 0, 0, 0, 0, 0]"
    by (simp add: arm_image_def arm_literal_def)
  have sec: "elf_headers arm_elf ! 3 =
    \<lparr>sh_name = 105, sh_type = 1, sh_offset = 64, sh_size = 384, sh_link = 0, sh_info = 0\<rparr>"
    by (simp add: arm_elf_def arm_headers_def)
  have index: "index_of (Some ''tracepoint/syscalls/sys_enter_execve'') (section_names arm_image arm_elf) = Some 3"
    by (simp add: arm_section_names)
  show ?thesis
    by (simp add: program_of_def arm_elf_of index arm_enter_relocations contents_def code
        sec insn_of_def signed_num_def arm_enter_def)
qed

lemma arm_exit_relocations: "relocations arm_image arm_elf 5 = [(40, ''records''), (136, ''perf_events''), (208, ''records'')]"
proof -
  have "entries arm_image (\<lambda>bs. (field 0 8 bs, field 12 4 bs)) 16 3 1040 = Some [(40, 8), (136, 7), (208, 8)]"
    by (simp add: arm_image_def arm_literal_def entries_def field_def)
  moreover have "find (\<lambda>sh. sh_type sh = SHT_REL \<and> sh_info sh = 5) (elf_headers arm_elf) = Some
    \<lparr>sh_name = 41, sh_type = 9, sh_offset = 1040, sh_size = 48, sh_link = 10, sh_info = 5\<rparr>"
    by (simp add: arm_elf_def arm_headers_def SHT_REL_def)
  ultimately show ?thesis by (simp add: relocations_def arm_symbols)
qed

definition arm_exit :: "insn list" where
  "arm_exit = [
    Alu_reg Mov 6 1, Call 14, Store 4 10 (- 4) 0, Alu_reg Mov 2 10, Alu_imm Add 2 (- 4), Ld_map 1
    ''records'', Pad, Call 1, Alu_reg Mov 7 0, Jump_imm J_eq 7 0 19, Load 8 1 6 16, Alu_imm Mov 2
    0, Jump_reg J_sgt 2 1 11, Alu_reg Mov 1 7, Alu_imm Mov 2 16, Call 16, Alu_reg Mov 1 6, Ld_map
    2 ''perf_events'', Pad, Ld_imm64 3 4294967295, Pad, Alu_reg Mov 4 7, Alu_imm Mov 5 32, Call
    25, Alu_reg Mov 2 10, Alu_imm Add 2 (- 4), Ld_map 1 ''records'', Pad, Call 3, Alu_imm Mov 0
    0, Exit_insn]"

lemma arm_exit_program: "program_of arm_image ''tracepoint/syscalls/sys_exit_execve'' = Some arm_exit"
proof -
  have code: "at arm_image 448 248 = Some
    [0xbf, 0x16, 0, 0, 0, 0, 0, 0, 0x85, 0, 0, 0, 0x0e, 0, 0, 0, 0x63, 0x0a, 0xfc, 0xff, 0, 0, 0,
    0, 0xbf, 0xa2, 0, 0, 0, 0, 0, 0, 0x07, 0x02, 0, 0, 0xfc, 0xff, 0xff, 0xff, 0x18, 0x01, 0, 0,
    0, 0, 0, 0, 0, 0, 0, 0, 0, 0, 0, 0, 0x85, 0, 0, 0, 0x01, 0, 0, 0, 0xbf, 0x07, 0, 0, 0, 0, 0,
    0, 0x15, 0x07, 0x13, 0, 0, 0, 0, 0, 0x79, 0x61, 0x10, 0, 0, 0, 0, 0, 0xb7, 0x02, 0, 0, 0, 0,
    0, 0, 0x6d, 0x12, 0x0b, 0, 0, 0, 0, 0, 0xbf, 0x71, 0, 0, 0, 0, 0, 0, 0xb7, 0x02, 0, 0, 0x10,
    0, 0, 0, 0x85, 0, 0, 0, 0x10, 0, 0, 0, 0xbf, 0x61, 0, 0, 0, 0, 0, 0, 0x18, 0x02, 0, 0, 0, 0,
    0, 0, 0, 0, 0, 0, 0, 0, 0, 0, 0x18, 0x03, 0, 0, 0xff, 0xff, 0xff, 0xff, 0, 0, 0, 0, 0, 0, 0,
    0, 0xbf, 0x74, 0, 0, 0, 0, 0, 0, 0xb7, 0x05, 0, 0, 0x20, 0, 0, 0, 0x85, 0, 0, 0, 0x19, 0, 0,
    0, 0xbf, 0xa2, 0, 0, 0, 0, 0, 0, 0x07, 0x02, 0, 0, 0xfc, 0xff, 0xff, 0xff, 0x18, 0x01, 0, 0,
    0, 0, 0, 0, 0, 0, 0, 0, 0, 0, 0, 0, 0x85, 0, 0, 0, 0x03, 0, 0, 0, 0xb7, 0, 0, 0, 0, 0, 0, 0,
    0x95, 0, 0, 0, 0, 0, 0, 0]"
    by (simp add: arm_image_def arm_literal_def)
  have sec: "elf_headers arm_elf ! 5 =
    \<lparr>sh_name = 45, sh_type = 1, sh_offset = 448, sh_size = 248, sh_link = 0, sh_info = 0\<rparr>"
    by (simp add: arm_elf_def arm_headers_def)
  have index: "index_of (Some ''tracepoint/syscalls/sys_exit_execve'') (section_names arm_image arm_elf) = Some 5"
    by (simp add: arm_section_names)
  show ?thesis
    by (simp add: program_of_def arm_elf_of index arm_exit_relocations contents_def code
        sec insn_of_def signed_num_def arm_exit_def)
qed

end
