(* ===== verification/Compiled_Snoop.thy ===== *)
theory Compiled_Snoop
  imports Bpf_Refines Object_X86 Object_Arm Object_Core
begin

text \<open>
  The programs in the three object files, run by the kernel at the entry and the exit of every
  \<open>execve\<close>.  \<open>snoop_code\<close> is what the loading side relies on: a pair of programs that implements the two
  programs of the source, up to the place where it looks up the parent.  Each of the three objects is
  an interpretation.
\<close>

subsection \<open>The code read from the objects\<close>

lemma x86_code: "x86_enter = kern_enter_code 1184 1172" "x86_exit = exit_code"
  by (simp_all add: x86_enter_def x86_exit_def kern_enter_code_def exit_code_def)

lemma arm_code: "arm_enter = kern_enter_code 1144 1132" "arm_exit = exit_code"
  by (simp_all add: arm_enter_def arm_exit_def kern_enter_code_def exit_code_def)

lemma core_code: "core_enter = core_enter_code 1512 1500" "core_exit = exit_code"
  by (simp_all add: core_enter_def core_exit_def core_enter_code_def exit_code_def)

definition ENTER_SECTION :: string where "ENTER_SECTION = ''tracepoint/syscalls/sys_enter_execve''"
definition EXIT_SECTION :: string where "EXIT_SECTION = ''tracepoint/syscalls/sys_exit_execve''"

text \<open>Both programs of an object.\<close>

definition object_code :: "image \<Rightarrow> (insn list \<times> insn list) option" where
  "object_code img = (case (program_of img ENTER_SECTION, program_of img EXIT_SECTION) of
       (Some enter, Some exit_prog) \<Rightarrow> Some (enter, exit_prog)
     | _ \<Rightarrow> None)"

lemma object_codes:
  "object_code x86_image = Some (kern_enter_code 1184 1172, exit_code)"
  "object_code arm_image = Some (kern_enter_code 1144 1132, exit_code)"
  "object_code core_image = Some (core_enter_code 1512 1500, exit_code)"
  by (simp_all add: object_code_def ENTER_SECTION_def EXIT_SECTION_def x86_enter_program x86_exit_program
      arm_enter_program arm_exit_program core_enter_program core_exit_program x86_code arm_code core_code)

lemma codes_loop_free:
  "loop_free (kern_enter_code a b)" "loop_free (core_enter_code a b)" "loop_free exit_code"
  by (simp_all add: loop_free_def kern_enter_code_def core_enter_code_def exit_code_def)

text \<open>One run by the kernel: the map and the records put into the perf buffer.\<close>

definition run_program :: "'m bpf_env \<Rightarrow> insn list \<Rightarrow> 'm \<Rightarrow> ('m \<times> 8 word list list) option" where
  "run_program env prog m = (case bpf_run (length prog + 1) env prog (entry_state m) of
       Exited w st \<Rightarrow> Some (recs st, perf st)
     | _ \<Rightarrow> None)"

lemma run_program_eq:
  assumes "loop_free prog" and "bpf_run n env prog (entry_state m) = Exited w st"
  shows "run_program env prog m = Some (recs st, perf st)"
proof (cases "bpf_run (length prog + 1) env prog (entry_state m)")
  case (Continue st')
  moreover have "length prog - pc (entry_state m) < length prog + 1" by simp
  ultimately show ?thesis using bpf_run_ends [OF assms(1)] by blast
next
  case (Exited w' st')
  have "bpf_run (length prog + 1 + n) env prog (entry_state m) = Exited w' st'"
    by (rule bpf_run_more [OF Exited]) simp
  moreover have "bpf_run (n + (length prog + 1)) env prog (entry_state m) = Exited w st"
    by (rule bpf_run_more [OF assms(2)]) simp
  ultimately show ?thesis using Exited by (simp add: run_program_def add.commute)
next
  case Stuck
  with bpf_run_less [OF assms(2)] show ?thesis by blast
qed

subsection \<open>A pair of programs\<close>





text \<open>The objects.\<close>

lemma exit_program:
  assumes "env_law env" and "be_map env = bm" and "length (be_ctx env) = 24" and "full_names bm m"
  shows "run_program env exit_code m =
    Some (apsnd (map event_bytes) (syscall_exit_execve bm (be_task env) (ctx_ret env) m))"
proof -
  obtain st where run: "bpf_run 49 env exit_code (entry_state m) = Exited 0 st"
    and st: "recs st = fst (syscall_exit_execve bm (be_task env) (ctx_ret env) m)"
    "perf st = map event_bytes (snd (syscall_exit_execve bm (be_task env) (ctx_ret env) m))"
    using exit_refines [of env m] assms by auto
  from run_program_eq [OF codes_loop_free(3) run] st show ?thesis
    by (cases "syscall_exit_execve bm (be_task env) (ctx_ret env) m") simp
qed

lemma enter_program:
  assumes "env_law env" and "be_map env = bm" and "t_parent (be_task env) = probed_parent env a b"
  shows "run_program env (kern_enter_code a b) m = Some (syscall_enter_execve bm (be_task env) m, [])"
    and "run_program env (core_enter_code a b) m = Some (syscall_enter_execve bm (be_task env) m, [])"
proof -
  obtain st where run: "bpf_run 49 env (kern_enter_code a b) (entry_state m) = Exited 0 st"
    and st: "recs st = syscall_enter_execve bm (be_task env) m" "perf st = []"
    using enter_refines(1) [OF assms(1,3), of m] assms(2) by auto
  from run_program_eq [OF codes_loop_free(1) run] st
  show "run_program env (kern_enter_code a b) m = Some (syscall_enter_execve bm (be_task env) m, [])" by simp
  obtain st where run: "bpf_run 49 env (core_enter_code a b) (entry_state m) = Exited 0 st"
    and st: "recs st = syscall_enter_execve bm (be_task env) m" "perf st = []"
    using enter_refines(2) [OF assms(1,3), of m] assms(2) by auto
  from run_program_eq [OF codes_loop_free(2) run] st
  show "run_program env (core_enter_code a b) m = Some (syscall_enter_execve bm (be_task env) m, [])" by simp
qed




subsection \<open>The objects implement the source\<close>

text \<open>The objects, with the offsets of \<open>real_parent\<close> and \<open>tgid\<close> in \<open>struct task_struct\<close> they were built for.\<close>

definition objects :: "(image \<times> int \<times> int) set" where
  "objects = {(x86_image, 1184, 1172), (arm_image, 1144, 1132), (core_image, 1512, 1500)}"

lemma objects_code:
  assumes "(img, a, b) \<in> objects" and "object_code img = Some (enter, exit_prog)"
  shows "(enter = kern_enter_code a b \<or> enter = core_enter_code a b) \<and> exit_prog = exit_code"
  using assms by (auto simp: objects_def object_codes)

text \<open>The kernel's helpers in small, for an entry and an exit of process 42.\<close>

definition sample_env :: "(cint \<times> bpf_event) list bpf_env" where
  "sample_env = \<lparr>be_map = bounded_map max_records, be_err = - 17, be_task = sample_task 42 42,
     be_task_addr = 0xffff888000000000, be_probe = (\<lambda>a n. map (\<lambda>i. if i = 0 then 1 else 0) [0..<n]), be_ret = 0,
     be_ctx = replicate 24 0\<rparr>"

lemma update_in_place: "AList.update k v (AList.update k v' m) = AList.update k v m"
  by (induction m) auto

lemma sample_env_law: "env_law sample_env"
  by (auto simp: env_law_def sample_env_def bounded_map_law update_in_place sample_task_def TASK_COMM_LEN_def)

lemma sample_env_parent: "t_parent (sample_task 42 42) = probed_parent sample_env a b"
proof -
  have "word_of (map (\<lambda>i. if i = 0 then 1 else 0) [0..<4]) = 1" by (simp add: eval_nat_numeral)
  then show ?thesis by (simp add: sample_env_def probed_parent_def sample_task_def)
qed

lemma word_of_zeros: "word_of (replicate n 0) = 0"
  by (induction n) simp_all

lemma sample_env_simps [simp]:
  "be_map sample_env = bounded_map max_records" "be_task sample_env = sample_task 42 42"
  "length (be_ctx sample_env) = 24" "ctx_ret sample_env = 0"
  by (simp_all add: sample_env_def ctx_ret_def word_of_zeros)

text \<open>
  C8. The shipped binaries do what the source says: the two programs found in the object file of each
  header (\<open>execsnoop.skel.h\<close>, and \<open>execsnoop_kern_skel.h\<close> for both architectures), decoded and run
  instruction by instruction, leave the map and the perf buffer exactly as \<open>syscall_enter_execve\<close>
  and \<open>syscall_exit_execve\<close> of \<open>execsnoop.bpf.c\<close> do, with the parent found where \<open>struct task_struct\<close>
  has it in the kernel the object was built for.
\<close>

theorem objects_refine_source:
  assumes "(img, a, b) \<in> objects" and "object_code img = Some (enter, exit_prog)" and "env_law env"
  shows "(t_parent (be_task env) = probed_parent env a b \<longrightarrow>
      run_program env enter m = Some (syscall_enter_execve (be_map env) (be_task env) m, [])) \<and>
    (length (be_ctx env) = 24 \<and> full_names (be_map env) m \<longrightarrow>
      run_program env exit_prog m =
        Some (apsnd (map event_bytes) (syscall_exit_execve (be_map env) (be_task env) (ctx_ret env) m)))"
  using objects_code [OF assms(1,2)] enter_program [OF assms(3) refl, of a b m] exit_program [OF assms(3) refl, of m]
  by blast

theorem objects_refine_source_witness:
  "\<exists>enter exit_prog. object_code x86_image = Some (enter, exit_prog) \<and>
     run_program sample_env enter [] = Some ([(42, entered (sample_task 42 42))], []) \<and>
     run_program sample_env exit_prog [(42, entered (sample_task 42 42))] =
       Some ([], [event_bytes (event_of (sample_task 42 42) (sample_task 42 42))])"
proof -
  have x86: "(x86_image, 1184, 1172) \<in> objects" by (simp add: objects_def)
  have names: "full_names (be_map sample_env) [(42, entered (sample_task 42 42))]"
    by (simp add: full_names_def entered_def empty_event_def)
  have "run_program sample_env (kern_enter_code 1184 1172) [] = Some ([(42, entered (sample_task 42 42))], [])"
    using objects_refine_source [OF x86 object_codes(1) sample_env_law, of "[]"] sample_env_parent
    by (simp add: syscall_enter_execve_def Let_def sample_task_pid max_records_def entered_def)
  moreover have "run_program sample_env exit_code [(42, entered (sample_task 42 42))] =
       Some ([], [event_bytes (event_of (sample_task 42 42) (sample_task 42 42))])"
    using objects_refine_source [OF x86 object_codes(1) sample_env_law, of "[(42, entered (sample_task 42 42))]"] names
    by (simp add: syscall_exit_execve_def Let_def sample_task_pid event_of_def)
  ultimately show ?thesis using object_codes(1) by blast
qed

text \<open>
  C13. The programs of the three objects end, whatever the kernel's helpers return and whatever is in the
  map: no more instructions are executed than the program has.
\<close>

theorem objects_end:
  assumes "(img, a, b) \<in> objects" and "object_code img = Some (enter, exit_prog)" and "prog \<in> {enter, exit_prog}"
  shows "bpf_run (length prog + 1) env prog (entry_state m) \<noteq> Continue st"
proof (rule bpf_run_ends)
  show "loop_free prog"
    using objects_code [OF assms(1,2)] assms(3) codes_loop_free by blast
qed simp

theorem objects_end_witness:
  "\<forall>st. bpf_run (length exit_code + 1) sample_env exit_code (entry_state []) \<noteq> Continue st"
  by (intro allI, rule objects_end [of x86_image 1184 1172, OF _ object_codes(1)]) (simp_all add: objects_def)

text \<open>
  C12. No access out of bounds: however far they are run, the programs never read or write outside the
  stack frame, the 32 bytes of the map's value and the 24 of the context, never read stack they have
  not written, and use no value as something it is not.
\<close>

theorem objects_stay_in_bounds:
  assumes "(img, a, b) \<in> objects" and "object_code img = Some (enter, exit_prog)" and "env_law env"
    and "t_parent (be_task env) = probed_parent env a b" and "length (be_ctx env) = 24"
    and "full_names (be_map env) m" and "prog \<in> {enter, exit_prog}"
  shows "bpf_run n env prog (entry_state m) \<noteq> Stuck"
proof -
  have "\<exists>st. bpf_run 49 env prog (entry_state m) = Exited 0 st"
    using objects_code [OF assms(1,2)] assms(7) enter_refines [OF assms(3,4), of m]
      exit_refines [OF assms(3,5,6)] by blast
  then show ?thesis using bpf_run_less by blast
qed

theorem objects_stay_in_bounds_witness:
  "bpf_run 20 sample_env (core_enter_code 1512 1500) (entry_state []) \<noteq> Stuck"
proof -
  have "(core_image, 1512, 1500) \<in> objects" by (simp add: objects_def)
  from objects_stay_in_bounds [OF this object_codes(3) sample_env_law] show ?thesis
    using sample_env_parent by (simp add: full_names_def)
qed





end
