(* ===== verification/Object_Maps.thy ===== *)
theory Object_Maps
  imports Core_Btf Compiled_Snoop
begin

text \<open>
  What a loader makes the two maps from, for each of the objects, against the declarations of
  \<open>execsnoop.bpf.c\<close> and \<open>execsnoop_kern.c\<close>.  The older objects keep a \<open>struct bpf_map_def\<close> per map
  in their section \<open>maps\<close>; the newer one keeps the types of the variables.  Also the layout of
  \<open>struct event\<close> that the newer object records.
\<close>

subsection \<open>The declarations\<close>

record map_def =
  md_type :: nat
  md_key :: nat
  md_value :: nat
  md_max :: nat

definition BPF_MAP_TYPE_HASH :: nat where "BPF_MAP_TYPE_HASH = 1"
definition BPF_MAP_TYPE_PERF_EVENT_ARRAY :: nat where "BPF_MAP_TYPE_PERF_EVENT_ARRAY = 4"

text \<open>The members of \<open>struct event\<close> with their sizes; every one begins where the one before ends.\<close>

definition event_fields :: "(string \<times> nat) list" where
  "event_fields = [(''comm'', TASK_COMM_LEN), (''pid'', 4), (''tgid'', 4), (''ppid'', 4), (''uid'', 4)]"

definition sizeof_event :: nat where "sizeof_event = sum_list (map snd event_fields)"

fun offsets_from :: "nat \<Rightarrow> (string \<times> nat) list \<Rightarrow> (string \<times> nat) list" where
  "offsets_from pos [] = []"
| "offsets_from pos ((nm, n) # fs) = (nm, pos) # offsets_from (pos + n) fs"

definition records_decl :: map_def where
  "records_decl = \<lparr>md_type = BPF_MAP_TYPE_HASH, md_key = 4, md_value = sizeof_event, md_max = max_records\<rparr>"

definition perf_events_decl :: map_def where
  "perf_events_decl = \<lparr>md_type = BPF_MAP_TYPE_PERF_EVENT_ARRAY, md_key = 4, md_value = 4, md_max = 128\<rparr>"

text \<open>The older source writes the same declarations as values of \<open>struct bpf_map_def\<close>.\<close>

definition kern_records_decl :: map_def where
  "kern_records_decl = \<lparr>md_type = BPF_MAP_TYPE_HASH, md_key = 4, md_value = sizeof_event, md_max = 10240\<rparr>"

definition kern_perf_events_decl :: map_def where
  "kern_perf_events_decl = \<lparr>md_type = BPF_MAP_TYPE_PERF_EVENT_ARRAY, md_key = 4, md_value = 4, md_max = 128\<rparr>"

subsection \<open>A section \<open>maps\<close>\<close>

definition legacy_map :: "image \<Rightarrow> string \<Rightarrow> map_def option" where
  "legacy_map img nm = Option.bind (elf_of img) (\<lambda>e.
     Option.bind (map_of (symbols img e) nm) (\<lambda>s.
       if st_shndx s < length (elf_headers e) \<and> section_names img e ! st_shndx s = Some ''maps''
       then map_option (\<lambda>bs. \<lparr>md_type = field 0 4 bs, md_key = field 4 4 bs, md_value = field 8 4 bs, md_max = field 12 4 bs\<rparr>)
         (at img (sh_offset (elf_headers e ! st_shndx s) + st_value s) 20)
       else None))"

lemma legacy_maps:
  "legacy_map x86_image ''records'' = Some kern_records_decl"
  "legacy_map x86_image ''perf_events'' = Some kern_perf_events_decl"
  "legacy_map arm_image ''records'' = Some kern_records_decl"
  "legacy_map arm_image ''perf_events'' = Some kern_perf_events_decl"
proof -
  have x86: "map_of (symbols x86_image x86_elf) ''records'' = Some \<lparr>st_name = 24, st_shndx = 7, st_value = 0, st_size = 20\<rparr>"
    "map_of (symbols x86_image x86_elf) ''perf_events'' = Some \<lparr>st_name = 7, st_shndx = 7, st_value = 20, st_size = 20\<rparr>"
    by (simp_all add: x86_symbols)
  have arm: "map_of (symbols arm_image arm_elf) ''records'' = Some \<lparr>st_name = 24, st_shndx = 7, st_value = 0, st_size = 20\<rparr>"
    "map_of (symbols arm_image arm_elf) ''perf_events'' = Some \<lparr>st_name = 7, st_shndx = 7, st_value = 20, st_size = 20\<rparr>"
    by (simp_all add: arm_symbols)
  note names = x86_section_names arm_section_names
  have n: "section_names x86_image x86_elf ! 7 = Some ''maps''" "section_names arm_image arm_elf ! 7 = Some ''maps''"
    by (simp_all add: names)
  have h: "length (elf_headers x86_elf) = 13" "length (elf_headers arm_elf) = 11"
    "sh_offset (elf_headers x86_elf ! 7) = 696" "sh_offset (elf_headers arm_elf ! 7) = 696"
    by (simp_all add: x86_elf_def arm_elf_def x86_headers_def arm_headers_def)
  have d: "at x86_image 696 20 = Some [1, 0, 0, 0, 4, 0, 0, 0, 32, 0, 0, 0, 0, 40, 0, 0, 0, 0, 0, 0]"
    "at x86_image 716 20 = Some [4, 0, 0, 0, 4, 0, 0, 0, 4, 0, 0, 0, 128, 0, 0, 0, 0, 0, 0, 0]"
    "at arm_image 696 20 = Some [1, 0, 0, 0, 4, 0, 0, 0, 32, 0, 0, 0, 0, 40, 0, 0, 0, 0, 0, 0]"
    "at arm_image 716 20 = Some [4, 0, 0, 0, 4, 0, 0, 0, 4, 0, 0, 0, 128, 0, 0, 0, 0, 0, 0, 0]"
    by (simp_all add: x86_image_def arm_image_def x86_literal_def arm_literal_def)
  note [simp] = BPF_MAP_TYPE_HASH_def BPF_MAP_TYPE_PERF_EVENT_ARRAY_def sizeof_event_def event_fields_def TASK_COMM_LEN_def
    kern_records_decl_def kern_perf_events_decl_def field_def
  show "legacy_map x86_image ''records'' = Some kern_records_decl"
    "legacy_map x86_image ''perf_events'' = Some kern_perf_events_decl"
    by (simp_all add: legacy_map_def x86_elf_of x86 n h d)
  show "legacy_map arm_image ''records'' = Some kern_records_decl"
    "legacy_map arm_image ''perf_events'' = Some kern_perf_events_decl"
    by (simp_all add: legacy_map_def arm_elf_of arm n h d)
qed

subsection \<open>Types read as a loader reads them\<close>

text \<open>
  The size of a type, through \<open>typedef\<close> and the qualifiers, at most as many steps deep as libbpf
  goes (\<open>MAX_RESOLVE_DEPTH\<close>).
\<close>

definition MAX_RESOLVE_DEPTH :: nat where "MAX_RESOLVE_DEPTH = 32"

fun type_size :: "nat \<Rightarrow> btf_type list \<Rightarrow> nat \<Rightarrow> nat option" where
  "type_size 0 ts k = None"
| "type_size (Suc fuel) ts k = Option.bind (type_at ts k) (\<lambda>t.
     if bt_kind t \<in> {1, 4, 5, 6} then Some (bt_arg t)
     else if bt_kind t = 2 then Some 8
     else if bt_kind t \<in> {8, 9, 10, 11} then type_size fuel ts (bt_arg t)
     else if bt_kind t = 3 then map_option (\<lambda>n. n * bt_extra t ! 2) (type_size fuel ts (bt_extra t ! 0))
     else None)"

lemma type_size_numeral [simp]:
  "type_size (numeral d) ts k = Option.bind (type_at ts k) (\<lambda>t.
     if bt_kind t \<in> {1, 4, 5, 6} then Some (bt_arg t)
     else if bt_kind t = 2 then Some 8
     else if bt_kind t \<in> {8, 9, 10, 11} then type_size (pred_numeral d) ts (bt_arg t)
     else if bt_kind t = 3 then map_option (\<lambda>n. n * bt_extra t ! 2) (type_size (pred_numeral d) ts (bt_extra t ! 0))
     else None)"
  by (simp only: numeral_eq_Suc type_size.simps)

text \<open>A member of a structure: its number among the members, its type, its offset in bits.\<close>

definition member_at :: "btf_type list \<times> bytes \<Rightarrow> nat \<Rightarrow> string \<Rightarrow> (nat \<times> nat) option" where
  "member_at btf k nm = Option.bind (type_at (fst btf) k) (\<lambda>t.
     map_option snd (find (\<lambda>(n, ty, pos). cstring_at (snd btf) n = Some nm) (members t)))"

text \<open>
  What \<open>__uint\<close> and \<open>__type\<close> leave in a variable's type: \<open>__uint(name, val)\<close> is a member of type
  pointer to array of \<open>val\<close> elements, \<open>__type(name, val)\<close> one of type pointer to \<open>val\<close>.
\<close>

definition pointee :: "btf_type list \<Rightarrow> nat \<Rightarrow> nat option" where
  "pointee ts k = Option.bind (type_at ts k) (\<lambda>t. if bt_kind t = 2 then Some (bt_arg t) else None)"

definition uint_member :: "btf_type list \<times> bytes \<Rightarrow> nat \<Rightarrow> string \<Rightarrow> nat option" where
  "uint_member btf k nm = Option.bind (member_at btf k nm) (\<lambda>(ty, pos).
     Option.bind (pointee (fst btf) ty) (\<lambda>a.
       Option.bind (type_at (fst btf) a) (\<lambda>t. if bt_kind t = 3 then Some (bt_extra t ! 2) else None)))"

definition type_member :: "btf_type list \<times> bytes \<Rightarrow> nat \<Rightarrow> string \<Rightarrow> nat option" where
  "type_member btf k nm = Option.bind (member_at btf k nm) (\<lambda>(ty, pos).
     Option.bind (pointee (fst btf) ty) (type_size MAX_RESOLVE_DEPTH (fst btf)))"

definition map_of_type :: "btf_type list \<times> bytes \<Rightarrow> nat \<Rightarrow> map_def option" where
  "map_of_type btf k =
     (case (uint_member btf k ''type'', type_member btf k ''key'', type_member btf k ''value'', uint_member btf k ''max_entries'') of
        (Some t, Some ks, Some vs, Some n) \<Rightarrow> Some \<lparr>md_type = t, md_key = ks, md_value = vs, md_max = n\<rparr>
      | _ \<Rightarrow> None)"

text \<open>The map a variable of that name declares.\<close>

definition btf_map :: "image \<Rightarrow> string \<Rightarrow> map_def option" where
  "btf_map img nm = Option.bind (section_data img ''.BTF'') (\<lambda>bs. Option.bind (btf_of bs) (\<lambda>btf.
     Option.bind (find (\<lambda>t. bt_kind t = 14 \<and> cstring_at (snd btf) (bt_name t) = Some nm) (fst btf)) (\<lambda>v.
       map_of_type btf (bt_arg v))))"

subsection \<open>The names in the newer object\<close>

lemma name_in_piece:
  assumes "take n (drop p tab) = bs" and "0 \<in> set (drop k bs)"
  shows "cstring_at tab (p + k) = Some (map char_of (takeWhile (\<lambda>b. b \<noteq> 0) (drop k bs)))"
proof -
  have bs: "drop k bs = take (n - k) (drop (p + k) tab)"
    by (simp add: assms(1) [symmetric] drop_take add.commute)
  have r: "drop (p + k) tab = drop k bs @ drop (n - k) (drop (p + k) tab)"
    unfolding bs by (simp only: append_take_drop_id)
  have "takeWhile (\<lambda>b. b \<noteq> 0) (drop k bs @ q) = takeWhile (\<lambda>b. b \<noteq> 0) (drop k bs)" for q
    using assms(2) by (intro takeWhile_append1 [of 0]) auto
  with assms(2) show ?thesis
    unfolding cstring_at_def by (subst (1 2) r) simp
qed

lemma core_names_read: "take 128 (drop 46 core_strings) = 
    [0x65, 0x76, 0x65, 0x6e, 0x74, 0, 0x63, 0x6f, 0x6d, 0x6d, 0, 0x70, 0x69, 0x64, 0, 0x74, 0x67,
    0x69, 0x64, 0, 0x70, 0x70, 0x69, 0x64, 0, 0x75, 0x69, 0x64, 0, 0x63, 0x68, 0x61, 0x72, 0,
    0x75, 0x69, 0x64, 0x5f, 0x74, 0, 0x5f, 0x5f, 0x6b, 0x65, 0x72, 0x6e, 0x65, 0x6c, 0x5f, 0x75,
    0x69, 0x64, 0x33, 0x32, 0x5f, 0x74, 0, 0x75, 0x6e, 0x73, 0x69, 0x67, 0x6e, 0x65, 0x64, 0x20,
    0x69, 0x6e, 0x74, 0, 0x74, 0x79, 0x70, 0x65, 0, 0x6d, 0x61, 0x78, 0x5f, 0x65, 0x6e, 0x74,
    0x72, 0x69, 0x65, 0x73, 0, 0x6b, 0x65, 0x79, 0, 0x76, 0x61, 0x6c, 0x75, 0x65, 0, 0x72, 0x65,
    0x63, 0x6f, 0x72, 0x64, 0x73, 0, 0x75, 0x33, 0x32, 0, 0x5f, 0x5f, 0x75, 0x33, 0x32, 0, 0x70,
    0x65, 0x72, 0x66, 0x5f, 0x65, 0x76, 0x65, 0x6e, 0x74, 0x73, 0, 0x73]"
  using at_btf_strings_1 [of 17254 128] by (simp add: core_strings_def btf_strings_1_def)

lemma core_names:
  "cstring_at core_strings 46 = Some ''event''"
  "cstring_at core_strings 52 = Some ''comm''"
  "cstring_at core_strings 57 = Some ''pid''"
  "cstring_at core_strings 61 = Some ''tgid''"
  "cstring_at core_strings 66 = Some ''ppid''"
  "cstring_at core_strings 71 = Some ''uid''"
  "cstring_at core_strings 116 = Some ''type''"
  "cstring_at core_strings 121 = Some ''max_entries''"
  "cstring_at core_strings 133 = Some ''key''"
  "cstring_at core_strings 137 = Some ''value''"
  "cstring_at core_strings 143 = Some ''records''"
  "cstring_at core_strings 161 = Some ''perf_events''"
  using core_names_read [THEN name_in_piece, of 0]
   core_names_read [THEN name_in_piece, of 6]
   core_names_read [THEN name_in_piece, of 11]
   core_names_read [THEN name_in_piece, of 15]
   core_names_read [THEN name_in_piece, of 20]
   core_names_read [THEN name_in_piece, of 25]
   core_names_read [THEN name_in_piece, of 70]
   core_names_read [THEN name_in_piece, of 75]
   core_names_read [THEN name_in_piece, of 87]
   core_names_read [THEN name_in_piece, of 91]
   core_names_read [THEN name_in_piece, of 97]
   core_names_read [THEN name_in_piece, of 115]
  by simp_all

subsection \<open>What the objects declare\<close>

lemma core_btf_read_of: "btf_of (the (section_data core_image ''.BTF'')) = Some (core_types_list, core_strings)"
  by (simp add: core_btf_section core_btf_of)

lemmas first_type_simps = first_type_at first_types_def make_type_def info_kind_def info_vlen_def

lemma find_append: "find P xs = Some x \<Longrightarrow> find P (xs @ ys) = Some x"
  by (induction xs) auto

lemma find_records:
  "find (\<lambda>t. bt_kind t = 14 \<and> cstring_at core_strings (bt_name t) = Some ''records'') core_types_list = Some (first_types ! 17)"
  "find (\<lambda>t. bt_kind t = 14 \<and> cstring_at core_strings (bt_name t) = Some ''perf_events'') core_types_list = Some (first_types ! 26)"
proof -
  obtain us where us: "core_types_list = first_types @ us" by (rule split_types)
  show "find (\<lambda>t. bt_kind t = 14 \<and> cstring_at core_strings (bt_name t) = Some ''records'') core_types_list = Some (first_types ! 17)"
    unfolding us by (rule find_append) (simp add: first_types_def make_type_def info_kind_def core_names)
  show "find (\<lambda>t. bt_kind t = 14 \<and> cstring_at core_strings (bt_name t) = Some ''perf_events'') core_types_list = Some (first_types ! 26)"
    unfolding us by (rule find_append) (simp add: first_types_def make_type_def info_kind_def core_names)
qed

lemma core_maps:
  "map_of_type (core_types_list, core_strings) 17 = Some records_decl"
  "map_of_type (core_types_list, core_strings) 26 = Some perf_events_decl"
  by (simp_all add: map_of_type_def uint_member_def type_member_def member_at_def pointee_def first_type_simps members_def
      core_names MAX_RESOLVE_DEPTH_def records_decl_def perf_events_decl_def BPF_MAP_TYPE_HASH_def
      BPF_MAP_TYPE_PERF_EVENT_ARRAY_def sizeof_event_def event_fields_def TASK_COMM_LEN_def max_records_def)

text \<open>The structure of that name: its size, and its members with their offsets in bytes.\<close>

definition struct_layout :: "btf_type list \<times> bytes \<Rightarrow> string \<Rightarrow> (nat \<times> (string option \<times> nat) list) option" where
  "struct_layout btf nm = map_option (\<lambda>t. (bt_arg t, map (\<lambda>(n, ty, pos). (cstring_at (snd btf) n, pos div 8)) (members t)))
     (find (\<lambda>t. bt_kind t = 4 \<and> cstring_at (snd btf) (bt_name t) = Some nm) (fst btf))"

lemma core_event_layout:
  "struct_layout (core_types_list, core_strings) ''event'' =
     Some (sizeof_event, map (apfst Some) (offsets_from 0 event_fields))"
proof -
  obtain us where us: "core_types_list = first_types @ us" by (rule split_types)
  have "find (\<lambda>t. bt_kind t = 4 \<and> cstring_at core_strings (bt_name t) = Some ''event'') core_types_list = Some (first_types ! 10)"
    unfolding us by (rule find_append) (simp add: first_types_def make_type_def info_kind_def core_names)
  then show ?thesis
    by (simp add: struct_layout_def first_types_def make_type_def members_def core_names sizeof_event_def event_fields_def
        TASK_COMM_LEN_def)
qed

text \<open>
  C16. The three objects create the maps their source declares: \<open>records\<close>, a hash map from 4 bytes of thread
  number to the 32 bytes of a \<open>struct event\<close>, 10240 at most, and \<open>perf_events\<close>, a perf event array, both
  read from the section \<open>maps\<close> of the two older objects and, by way of the types of the two variables, from
  the type information of the newer one.
\<close>

theorem maps_as_declared:
  "btf_map core_image ''records'' = Some records_decl \<and> btf_map core_image ''perf_events'' = Some perf_events_decl \<and>
   legacy_map x86_image ''records'' = Some kern_records_decl \<and> legacy_map x86_image ''perf_events'' = Some kern_perf_events_decl \<and>
   legacy_map arm_image ''records'' = Some kern_records_decl \<and> legacy_map arm_image ''perf_events'' = Some kern_perf_events_decl \<and>
   records_decl = kern_records_decl \<and> perf_events_decl = kern_perf_events_decl"
proof (intro conjI)
  show "btf_map core_image ''records'' = Some records_decl" "btf_map core_image ''perf_events'' = Some perf_events_decl"
    using core_maps find_records
    by (simp_all add: btf_map_def core_btf_section core_btf_of first_types_def make_type_def)
qed (simp_all add: legacy_maps records_decl_def kern_records_decl_def perf_events_decl_def kern_perf_events_decl_def max_records_def)

text \<open>A member of an event, cut out of its bytes at the offset of the declaration.\<close>

definition event_member :: "string \<Rightarrow> 8 word list \<Rightarrow> 8 word list option" where
  "event_member nm bs = (case (map_of (offsets_from 0 event_fields) nm, map_of event_fields nm) of
       (Some pos, Some n) \<Rightarrow> if length bs = sizeof_event then Some (take n (drop pos bs)) else None
     | _ \<Rightarrow> None)"

text \<open>
  The kernel and the daemon mean the same \<open>struct event\<close>: the layout recorded in the object (size and
  the offset of every member) is that of the C declaration, and in the bytes of an event each member is found there.
\<close>

theorem event_layout_shared:
  assumes "length (comm e) = TASK_COMM_LEN"
  shows "struct_layout (core_types_list, core_strings) ''event'' =
      Some (length (event_bytes e), map (apfst Some) (offsets_from 0 event_fields)) \<and>
    event_member ''comm'' (event_bytes e) = Some (map char_byte (comm e)) \<and>
    event_member ''pid'' (event_bytes e) = Some (bytes_of 4 (ucast (ev_pid e))) \<and>
    event_member ''tgid'' (event_bytes e) = Some (bytes_of 4 (ucast (ev_tgid e))) \<and>
    event_member ''ppid'' (event_bytes e) = Some (bytes_of 4 (ucast (ev_ppid e))) \<and>
    event_member ''uid'' (event_bytes e) = Some (bytes_of 4 (ucast (ev_uid e)))"
  using assms core_event_layout
  by (simp add: event_member_def event_fields_def sizeof_event_def TASK_COMM_LEN_def event_bytes_def)

theorem event_layout_shared_witness:
  "event_member ''ppid'' (event_bytes (empty_event\<lparr>ev_ppid := 7\<rparr>)) = Some (bytes_of 4 7)"
  using event_layout_shared [of "empty_event\<lparr>ev_ppid := 7\<rparr>"] by (simp add: empty_event_def)

text \<open>
  C14. The type information of the object is well-formed: its 421 types fill their part of the section exactly,
  every name in them is the offset of a terminated string of the section, and every reference to a type is one of them or \<open>void\<close>.
\<close>

theorem core_btf_valid:
  "Option.bind (section_data core_image ''.BTF'') btf_of = Some (core_types_list, core_strings) \<and>
   length core_types_list = 421 \<and> valid_btf (core_types_list, core_strings)"
  using core_btf_section core_btf_of core_types_ok length_core_strings core_strings_ends(2)
  by (simp add: valid_btf_ok)

end
