(* ===== verification/Core_Relocation.thy ===== *)
theory Core_Relocation
  imports Object_Maps Decimal
begin

text \<open>
  \<open>execsnoop.bpf.c\<close> is compiled once and runs on kernels whose \<open>struct task_struct\<close> differs: the
  object names, in \<open>.BTF.ext\<close>, the instructions that hold an offset of a member, and the loader puts
  the running kernel's offsets there.  The offsets are the parameter \<open>off\<close>, from the names of a
  structure and of a member.
\<close>

subsection \<open>The records\<close>

record core_relo =
  cr_insn :: nat
  cr_type :: nat
  cr_access :: nat

definition core_relo_of :: "bytes \<Rightarrow> core_relo" where
  "core_relo_of bs = \<lparr>cr_insn = field 0 4 bs, cr_type = field 4 4 bs, cr_access = field 8 4 bs\<rparr>"

text \<open>Records of any kind by section: the section's name, their number, then each in \<open>rec\<close> bytes.\<close>

function ext_sections :: "(bytes \<Rightarrow> 'a) \<Rightarrow> nat \<Rightarrow> bytes \<Rightarrow> (nat \<times> 'a list) list option" where
  "ext_sections f rec bs =
     (if bs = [] then Some []
      else if length bs < 8 + rec * field 4 4 bs then None
      else map_option ((#) (field 0 4 bs, rows f rec (field 4 4 bs) (drop 8 bs)))
        (ext_sections f rec (drop (8 + rec * field 4 4 bs) bs)))"
  by pat_completeness auto
termination by (relation "measure (\<lambda>(f, rec, bs). length bs)") auto

declare ext_sections.simps [simp del]

definition core_relos :: "image \<Rightarrow> (nat \<times> core_relo list) list option" where
  "core_relos img = Option.bind (section_data img ''.BTF.ext'') (\<lambda>bs.
     let h = field 4 4 bs; area = take (field 28 4 bs) (drop (h + field 24 4 bs) bs) in
     if field 0 2 bs \<noteq> BTF_MAGIC then None else ext_sections core_relo_of (field 0 4 area) (drop 4 area))"

text \<open>An access \<open>0:i\<close> is that of member \<open>i\<close>.\<close>

fun access_path :: "nat \<Rightarrow> string \<Rightarrow> nat list option" where
  "access_path n [] = Some [n]"
| "access_path n (c # cs) = (if c = CHR '':'' then map_option ((#) n) (access_path 0 cs)
     else if is_digit c then access_path (10 * n + digit_val c) cs else None)"

definition accessed_member :: "btf_type list \<times> bytes \<Rightarrow> core_relo \<Rightarrow> (string \<times> string \<times> nat) option" where
  "accessed_member btf r = Option.bind (type_at (fst btf) (cr_type r)) (\<lambda>t.
     case Option.bind (cstring_at (snd btf) (cr_access r)) (access_path 0) of
       Some [0, i] \<Rightarrow>
         if i < length (members t)
         then (case members t ! i of (nm, ty, pos) \<Rightarrow>
           (case (cstring_at (snd btf) (bt_name t), cstring_at (snd btf) nm) of
              (Some s, Some f) \<Rightarrow> Some (s, f, pos div 8)
            | _ \<Rightarrow> None))
         else None
     | _ \<Rightarrow> None)"

subsection \<open>Relocation\<close>

text \<open>
  The offset in the object's own types has to be the constant of the instruction; it is replaced by
  the offset in the running kernel.
\<close>

definition relocate_insn :: "(string \<Rightarrow> string \<Rightarrow> int) \<Rightarrow> btf_type list \<times> bytes \<Rightarrow> core_relo \<Rightarrow> insn list \<Rightarrow> insn list option" where
  "relocate_insn off btf r prog = Option.bind (accessed_member btf r) (\<lambda>(s, f, pos).
     let k = cr_insn r div 8 in
     if cr_insn r mod 8 \<noteq> 0 \<or> length prog \<le> k then None
     else (case prog ! k of
         Alu_imm Mov d imm \<Rightarrow> if imm = int pos then Some (prog[k := Alu_imm Mov d (off s f)]) else None
       | _ \<Rightarrow> None))"

fun relocate_insns :: "(string \<Rightarrow> string \<Rightarrow> int) \<Rightarrow> btf_type list \<times> bytes \<Rightarrow> core_relo list \<Rightarrow> insn list \<Rightarrow> insn list option" where
  "relocate_insns off btf [] prog = Some prog"
| "relocate_insns off btf (r # rs) prog = Option.bind (relocate_insn off btf r prog) (relocate_insns off btf rs)"

definition relocated_program :: "(string \<Rightarrow> string \<Rightarrow> int) \<Rightarrow> image \<Rightarrow> string \<Rightarrow> insn list option" where
  "relocated_program off img nm = Option.bind (Option.bind (section_data img ''.BTF'') btf_of) (\<lambda>btf.
     Option.bind (core_relos img) (\<lambda>secs.
       Option.bind (program_of img nm) (\<lambda>prog.
         case find (\<lambda>(n, rs). cstring_at (snd btf) n = Some nm) secs of
           None \<Rightarrow> Some prog
         | Some (n, rs) \<Rightarrow> relocate_insns off btf rs prog)))"

subsection \<open>Reading the records of the object\<close>

definition core_ext_bytes :: bytes where "core_ext_bytes = take 692 (drop 15 (concat core_tail))"

lemma core_ext_section: "section_data core_image ''.BTF.ext'' = Some core_ext_bytes"
proof -
  have len: "length (concat core_tail) = 1835" by (simp add: core_tail_def)
  have "at core_image 518872 692 = Some core_ext_bytes"
    by (simp add: core_image_rest core_rest_def cut_eq core_ext_bytes_def len)
  moreover have "index_of (Some ''.BTF.ext'') (section_names core_image core_elf) = Some 22"
    by (simp add: core_section_names)
  moreover have "elf_headers core_elf ! 22 = \<lparr>sh_name = 25, sh_type = 1, sh_offset = 518872, sh_size = 692, sh_link = 0, sh_info = 0\<rparr>"
    by (simp add: core_elf_def core_headers_def)
  ultimately show ?thesis
    by (simp add: section_data_def core_elf_of contents_def)
qed

lemma core_ext_piece: "n + k \<le> 692 \<Longrightarrow> take n (drop k core_ext_bytes) = cut n (15 + k) core_tail"
  by (simp add: core_ext_bytes_def cut_eq drop_take add.commute min_def)

lemma core_ext_header:
  "field 0 2 core_ext_bytes = 0xeb9f" "field 4 4 core_ext_bytes = 32"
  "field 16 4 core_ext_bytes = 36" "field 20 4 core_ext_bytes = 580"
  "field 24 4 core_ext_bytes = 616" "field 28 4 core_ext_bytes = 44"
proof -
  have h: "take 32 core_ext_bytes =
    [0x9f, 0xeb, 0x01, 0, 0x20, 0, 0, 0, 0, 0, 0, 0, 0x24, 0, 0, 0, 0x24, 0, 0, 0, 0x44, 0x02, 0,
    0, 0x68, 0x02, 0, 0, 0x2c, 0, 0, 0]"
    using core_ext_piece [of 32 0] by (simp add: core_tail_def)
  have "field a n core_ext_bytes = field a n (take 32 core_ext_bytes)" if "a + n \<le> 32" for a n
    using that by (simp add: field_def drop_take min_def)
  note header = this [unfolded h]
  show "field 0 2 core_ext_bytes = 0xeb9f" "field 4 4 core_ext_bytes = 32"
    "field 16 4 core_ext_bytes = 36" "field 20 4 core_ext_bytes = 580"
    "field 24 4 core_ext_bytes = 616" "field 28 4 core_ext_bytes = 44"
    by (subst header; simp add: field_def)+
qed

lemma core_relos_read:
  "core_relos core_image = Some [(291, [\<lparr>cr_insn = 256, cr_type = 38, cr_access = 11007\<rparr>,
     \<lparr>cr_insn = 312, cr_type = 38, cr_access = 11086\<rparr>])]"
proof -
  have a: "take 44 (drop 648 core_ext_bytes) =
    [0x10, 0, 0, 0, 0x23, 0x01, 0, 0, 0x02, 0, 0, 0, 0, 0x01, 0, 0, 0x26, 0, 0, 0, 0xff, 0x2a, 0,
    0, 0, 0, 0, 0, 0x38, 0x01, 0, 0, 0x26, 0, 0, 0, 0x4e, 0x2b, 0, 0, 0, 0, 0, 0]"
    using core_ext_piece [of 44 648] by (simp add: core_tail_def)
  have "core_relos core_image = ext_sections core_relo_of (field 0 4 (take 44 (drop 648 core_ext_bytes))) (drop 4 (take 44 (drop 648 core_ext_bytes)))"
    by (simp add: core_relos_def core_ext_section core_ext_header BTF_MAGIC_def Let_def)
  then show ?thesis unfolding a
    by (simp add: ext_sections.simps core_relo_of_def field_def)
qed

text \<open>The two members.\<close>

lemma nth_triples: "3 * i + 2 < length ws \<Longrightarrow> triples ws ! i = (ws ! (3 * i), ws ! (3 * i + 1), ws ! (3 * i + 2))"
proof (induction ws arbitrary: i rule: triples.induct)
  case (1 a b c xs)
  then show ?case by (cases i) (simp_all add: nth_Cons')
qed simp_all

lemma length_triples: "length (triples ws) = length ws div 3"
  by (induction ws rule: triples.induct) simp_all

lemma core_names_relo:
  "cstring_at core_strings 786 = Some ''task_struct''"
  "cstring_at core_strings 1936 = Some ''real_parent''"
  "cstring_at core_strings 291 = Some ''tracepoint/syscalls/sys_enter_execve''"
  "cstring_at core_strings 11007 = Some ''0:90''"
  "cstring_at core_strings 11086 = Some ''0:88''"
proof -
  have "take 12 (drop 786 core_strings) = [0x74, 0x61, 0x73, 0x6b, 0x5f, 0x73, 0x74, 0x72, 0x75, 0x63, 0x74, 0]"
    using at_btf_strings_1 [of 17994 12] by (simp add: core_strings_def btf_strings_1_def)
  from name_in_piece [OF this, of 0] show "cstring_at core_strings 786 = Some ''task_struct''" by simp
  have "take 12 (drop 1936 core_strings) = [0x72, 0x65, 0x61, 0x6c, 0x5f, 0x70, 0x61, 0x72, 0x65, 0x6e, 0x74, 0]"
    using at_btf_strings_1 [of 19144 12] by (simp add: core_strings_def btf_strings_1_def)
  from name_in_piece [OF this, of 0] show "cstring_at core_strings 1936 = Some ''real_parent''" by simp
  have "take 37 (drop 291 core_strings) =
    [0x74, 0x72, 0x61, 0x63, 0x65, 0x70, 0x6f, 0x69, 0x6e, 0x74, 0x2f, 0x73, 0x79, 0x73, 0x63,
    0x61, 0x6c, 0x6c, 0x73, 0x2f, 0x73, 0x79, 0x73, 0x5f, 0x65, 0x6e, 0x74, 0x65, 0x72, 0x5f,
    0x65, 0x78, 0x65, 0x63, 0x76, 0x65, 0]"
    using at_btf_strings_1 [of 17499 37] by (simp add: core_strings_def btf_strings_1_def)
  from name_in_piece [OF this, of 0]
  show "cstring_at core_strings 291 = Some ''tracepoint/syscalls/sys_enter_execve''" by simp
  have "take 5 (drop 11007 core_strings) = [0x30, 0x3a, 0x39, 0x30, 0]" "take 5 (drop 11086 core_strings) = [0x30, 0x3a, 0x38, 0x38, 0]"
    using at_btf_strings_5 [of 28215 5] at_btf_strings_5 [of 28294 5] by (simp_all add: core_strings_def btf_strings_5_def)
  from name_in_piece [OF this(1), of 0] name_in_piece [OF this(2), of 0]
  show "cstring_at core_strings 11007 = Some ''0:90''" "cstring_at core_strings 11086 = Some ''0:88''" by simp_all
qed

lemma core_accessed:
  "accessed_member (core_types_list, core_strings) \<lparr>cr_insn = 256, cr_type = 38, cr_access = 11007\<rparr> = Some (''task_struct'', ''real_parent'', 1512)"
  "accessed_member (core_types_list, core_strings) \<lparr>cr_insn = 312, cr_type = 38, cr_access = 11086\<rparr> = Some (''task_struct'', ''tgid'', 1500)"
proof -
  define ws where "ws = map (\<lambda>i. le (take 4 (drop (4 * i) (drop 792 core_btf_bytes)))) [0..<768]"
  let ?t = "make_type 786 2214592768 11584 ws"
  have len: "length ws = 768" by (simp only: ws_def length_map length_upt)
  have nth: "ws ! i = le (take 4 (drop (792 + 4 * i) core_btf_bytes))" if "i < 768" for i
    using that unfolding ws_def by (subst nth_map) (simp_all add: add.commute)
  have w: "ws ! 270 = 1936" "ws ! 271 = 53" "ws ! 272 = 12096" "ws ! 264 = 61" "ws ! 265 = 8" "ws ! 266 = 12000"
    by (simp_all add: nth at_btf_types_1 btf_types_1_def)
  have t: "type_at core_types_list 38 = Some ?t" using task_struct_type by (simp only: ws_def)
  have m: "length (members ?t) = 256" "members ?t ! 90 = (1936, 53, 12096)" "members ?t ! 88 = (61, 8, 12000)"
    using w by (simp_all add: members_def length_triples make_type_def nth_triples len)
  have n: "bt_name ?t = 786" by (simp add: make_type_def)
  show "accessed_member (core_types_list, core_strings) \<lparr>cr_insn = 256, cr_type = 38, cr_access = 11007\<rparr> = Some (''task_struct'', ''real_parent'', 1512)"
    "accessed_member (core_types_list, core_strings) \<lparr>cr_insn = 312, cr_type = 38, cr_access = 11086\<rparr> = Some (''task_struct'', ''tgid'', 1500)"
    by (simp_all add: accessed_member_def t m n core_names_relo core_names is_digit_def char_in_def digit_val_def)
qed

lemma core_relocated:
  "relocated_program off core_image ENTER_SECTION =
     Some (core_enter_code (off ''task_struct'' ''real_parent'') (off ''task_struct'' ''tgid''))"
proof -
  have "program_of core_image ENTER_SECTION = Some (core_enter_code 1512 1500)"
    by (simp add: ENTER_SECTION_def core_enter_program core_code)
  then show ?thesis
    by (simp add: relocated_program_def core_btf_section core_btf_of core_relos_read core_names_relo ENTER_SECTION_def
        relocate_insn_def core_accessed core_enter_code_def)
qed

lemma core_relocated_exit: "relocated_program off core_image EXIT_SECTION = Some exit_code"
proof -
  have "program_of core_image EXIT_SECTION = Some exit_code"
    by (simp add: EXIT_SECTION_def core_exit_program core_code)
  then show ?thesis
    by (simp add: relocated_program_def core_btf_section core_btf_of core_relos_read core_names_relo EXIT_SECTION_def)
qed

subsection \<open>Compile once, run everywhere\<close>

text \<open>
  C10. The newer object runs on any kernel: whatever the offsets of \<open>real_parent\<close> and \<open>tgid\<close> there, the loader finds
  exactly the two instructions that hold them, each with the offset the object's own types give that member,
  and the entry program with the kernel's offsets in their place does what the source says, the parent read
  where this kernel keeps it; the exit program needs no change.
\<close>

theorem relocated_refines_source:
  assumes "env_law env" and "length (be_ctx env) = 24" and "full_names (be_map env) m"
    and "t_parent (be_task env) = probed_parent env (off ''task_struct'' ''real_parent'') (off ''task_struct'' ''tgid'')"
  shows "\<exists>enter exit_prog. relocated_program off core_image ENTER_SECTION = Some enter \<and>
    relocated_program off core_image EXIT_SECTION = Some exit_prog \<and>
    run_program env enter m = Some (syscall_enter_execve (be_map env) (be_task env) m, []) \<and>
    run_program env exit_prog m =
      Some (apsnd (map event_bytes) (syscall_exit_execve (be_map env) (be_task env) (ctx_ret env) m))"
  using core_relocated [of off] core_relocated_exit [of off] enter_program(2) [OF assms(1) refl assms(4), of m]
    exit_program [OF assms(1) refl assms(2,3)] by blast

text \<open>A kernel on which \<open>real_parent\<close> and \<open>tgid\<close> are elsewhere than where the object was built.\<close>

definition sample_offsets :: "string \<Rightarrow> string \<Rightarrow> int" where
  "sample_offsets s f = (if f = ''real_parent'' then 2288 else 2276)"

theorem relocated_refines_source_witness:
  "\<exists>enter. relocated_program sample_offsets core_image ENTER_SECTION = Some enter \<and>
     run_program sample_env enter [] = Some ([(42, entered (sample_task 42 42))], [])"
proof -
  have "full_names (be_map sample_env) []" by (simp add: full_names_def)
  from relocated_refines_source [OF sample_env_law _ this, of sample_offsets] sample_env_parent
  show ?thesis
    by (auto simp: syscall_enter_execve_def Let_def sample_task_pid max_records_def entered_def)
qed

end
