(* ===== verification/Source_Lines.thy ===== *)
theory Source_Lines
  imports Core_Relocation
begin

text \<open>
  The newer object keeps, for the kernel's verifier to print, the source line each stretch of
  instructions comes from.  Every line it names is, character by character, the line of
  \<open>execsnoop.bpf.c\<close> with that number; and line by line, the instructions under a line call the helpers it
  calls, in a branch where it has an \<open>if\<close>, and store to the members it assigns.
\<close>

record line_info =
  li_insn :: nat
  li_file :: nat
  li_text :: nat
  li_pos :: nat

definition line_info_of :: "bytes \<Rightarrow> line_info" where
  "line_info_of bs = \<lparr>li_insn = field 0 4 bs, li_file = field 4 4 bs, li_text = field 8 4 bs, li_pos = field 12 4 bs\<rparr>"

definition line_infos :: "image \<Rightarrow> (nat \<times> line_info list) list option" where
  "line_infos img = Option.bind (section_data img ''.BTF.ext'') (\<lambda>bs.
     let h = field 4 4 bs; area = take (field 20 4 bs) (drop (h + field 16 4 bs) bs) in
     if field 0 2 bs \<noteq> BTF_MAGIC then None else ext_sections line_info_of (field 0 4 area) (drop 4 area))"

text \<open>The records of a program, the names read in the given strings.\<close>

definition program_lines :: "bytes \<Rightarrow> image \<Rightarrow> string \<Rightarrow> line_info list option" where
  "program_lines strs img nm = Option.bind (line_infos img) (\<lambda>secs.
     map_option snd (find (\<lambda>(n, ls). cstring_at strs n = Some nm) secs))"

text \<open>The number of the line, and the column, in one word.\<close>

definition li_line :: "line_info \<Rightarrow> nat" where "li_line l = li_pos l div 1024"

definition TAB :: char where "TAB = CHR 0x09"

text \<open>The bodies of the two programs, line by line.\<close>

definition bpf_source :: "(nat \<times> string) list" where
  "bpf_source = [
    (50, ''''),
    (51, ''    u64 id = bpf_get_current_pid_tgid();''),
    (52, TAB # ''pid = (pid_t)id;''),
    (53, TAB # ''tgid = id >> 32;''),
    (54, TAB # ''uid = (u32)bpf_get_current_uid_gid();''),
    (55, ''''),
    (56, TAB # ''struct event empty_event={};''),
    (57, TAB # ''if (bpf_map_update_elem(&records, &pid, &empty_event, BPF_NOEXIST)!=0) return 0;''),
    (58, TAB # ''event = bpf_map_lookup_elem(&records, &pid);''),
    (59, TAB # ''if (!event) return 0;''),
    (60, ''''),
    (61, TAB # ''event->pid = pid;''),
    (62, TAB # ''event->tgid = tgid;''),
    (63, TAB # ''event->uid = uid;''),
    (64, ''''),
    (65, TAB # ''/* ppid is not reliable here, normal in arch, but become 0 in ubuntu 20.04 */''),
    (66, TAB # ''task = (struct task_struct*)bpf_get_current_task();''),
    (67, TAB # ''bpf_probe_read(&task_p, sizeof(struct task_struct*),&task->real_parent);''),
    (68, TAB # ''bpf_probe_read(&event->ppid,sizeof(pid_t),&task_p->tgid);''),
    (69, ''''),
    (70, ''    return 0;''),
    (71, ''}''),
    (72, ''''),
    (73, ''SEC(\"tracepoint/syscalls/sys_exit_execve\")''),
    (74, ''int syscall_exit_execve(struct syscalls_exit_execve_args *ctx){''),
    (75, TAB # ''pid_t pid;''),
    (76, TAB # ''struct event *event;''),
    (77, ''''),
    (78, TAB # ''pid = (pid_t)bpf_get_current_pid_tgid();''),
    (79, TAB # ''event = bpf_map_lookup_elem(&records,&pid);''),
    (80, TAB # ''if (!event) return 0;''),
    (81, TAB # ''if (ctx->ret < 0) goto cleanup;''),
    (82, ''''),
    (83, TAB # ''/* get comm */''),
    (84, TAB # ''bpf_get_current_comm(&event->comm,sizeof(event->comm));''),
    (85, TAB # ''bpf_perf_event_output(ctx, &perf_events, BPF_F_CURRENT_CPU, event, sizeof(struct event));''),
    (86, ''cleanup:''),
    (87, TAB # ''bpf_map_delete_elem(&records, &pid);''),
    (88, TAB # ''return 0;''),
    (89, ''}'')]"

text \<open>The two functions.\<close>

definition enter_source :: "(nat \<times> string) list" where
  "enter_source = filter (\<lambda>(n, line). n \<le> 71) bpf_source"

definition exit_source :: "(nat \<times> string) list" where
  "exit_source = filter (\<lambda>(n, line). 71 < n) bpf_source"

text \<open>
  A record names the file, and a line of the function with its text; where the compiler gave no place, there is line 0
  and no text.
\<close>

definition line_matches :: "(nat \<times> string) list \<Rightarrow> bytes \<Rightarrow> line_info \<Rightarrow> bool" where
  "line_matches src strs l = (
     cstring_at strs (li_text l) = (if li_line l = 0 then Some [] else map_of src (li_line l)) \<and>
     (case cstring_at strs (li_file l) of None \<Rightarrow> False | Some f \<Rightarrow> suffix ''/execsnoop-libbpf/execsnoop.bpf.c'' f))"

subsection \<open>What a line has its instructions do\<close>

fun begins :: "string \<Rightarrow> string \<Rightarrow> bool" where
  "begins [] s = True"
| "begins (a # p) [] = False"
| "begins (a # p) (c # s) = (if a = c then begins p s else False)"

fun mentions :: "string \<Rightarrow> string \<Rightarrow> bool" where
  "mentions p [] = (p = [])"
| "mentions p (c # s) = (if begins p (c # s) then True else mentions p s)"

text \<open>The helpers of the kernel by their numbers.\<close>

definition helper_names :: "(int \<times> string) list" where
  "helper_names = [(1, ''bpf_map_lookup_elem''), (2, ''bpf_map_update_elem''), (3, ''bpf_map_delete_elem''),
     (4, ''bpf_probe_read''), (14, ''bpf_get_current_pid_tgid''), (15, ''bpf_get_current_uid_gid''),
     (16, ''bpf_get_current_comm''), (25, ''bpf_perf_event_output''), (35, ''bpf_get_current_task'')]"

definition word_char :: "char \<Rightarrow> bool" where
  "word_char c = (c \<notin> set (TAB # '' (){}<>=!&*,;/.''))"

text \<open>The words that stand before an opening parenthesis; \<open>w\<close> is the word read so far, backwards.\<close>

fun words_called :: "string \<Rightarrow> string \<Rightarrow> string list" where
  "words_called w [] = []"
| "words_called w (c # s) = (if c = CHR ''('' then rev w # words_called [] s
     else if word_char c then words_called (c # w) s else words_called [] s)"

definition calls_in :: "string \<Rightarrow> int list" where
  "calls_in line = concat (map (\<lambda>w. map fst (filter (\<lambda>(n, h). h = w) helper_names)) (words_called [] line))"

definition branches_in :: "string \<Rightarrow> nat" where
  "branches_in line = (if mentions ''if ('' line then 1 else 0)"

text \<open>The line an instruction is under: that of the last record at or before it.\<close>

definition line_at :: "line_info list \<Rightarrow> nat \<Rightarrow> nat" where
  "line_at ls i = (case filter (\<lambda>l. li_insn l \<le> 8 * i) ls of [] \<Rightarrow> 0 | r # rs \<Rightarrow> li_line (last (r # rs)))"

definition labelled :: "insn list \<Rightarrow> line_info list \<Rightarrow> (nat \<times> insn) list" where
  "labelled prog ls = zip (map (line_at ls) [0..<length prog]) prog"

definition under :: "insn list \<Rightarrow> line_info list \<Rightarrow> nat \<Rightarrow> insn list" where
  "under prog ls n = map snd (filter (\<lambda>(k, x). k = n) (labelled prog ls))"

fun called :: "insn list \<Rightarrow> int list" where
  "called [] = []"
| "called (Call n # prog) = n # called prog"
| "called (x # prog) = called prog"

fun branches :: "insn list \<Rightarrow> nat" where
  "branches [] = 0"
| "branches (Jump_imm c d imm off # prog) = Suc (branches prog)"
| "branches (Jump_reg c d r off # prog) = Suc (branches prog)"
| "branches (x # prog) = branches prog"

text \<open>A line is compiled as it stands: the helpers called under it are those it calls, and its \<open>if\<close> is one branch.\<close>

definition compiled_as :: "insn list \<Rightarrow> line_info list \<Rightarrow> nat \<times> string \<Rightarrow> bool" where
  "compiled_as prog ls nl = (case nl of (n, line) \<Rightarrow>
     called (under prog ls n) = calls_in line \<and> branches (under prog ls n) = branches_in line)"

text \<open>
  The place of an instruction that does more than arithmetic: a call, branch or exit, the maps, the context, the variables
  \<open>pid\<close> and \<open>empty_event\<close> on the stack, and the members of the record, at their offsets in \<open>struct event\<close>.
\<close>

definition member_at :: "(int \<times> string) list" where
  "member_at = [(16, ''event->pid = ''), (20, ''event->tgid = ''), (28, ''event->uid = '')]"

fun fits :: "insn \<Rightarrow> string \<Rightarrow> bool" where
  "fits (Call n) line = (n \<in> set (calls_in line))"
| "fits (Jump_imm c d imm off) line = mentions ''if ('' line"
| "fits (Jump_reg c d r off) line = mentions ''if ('' line"
| "fits (Ld_map d m) line = mentions (''&'' @ m) line"
| "fits (Ld_imm64 d w) line = (w = BPF_F_CURRENT_CPU \<and> mentions ''BPF_F_CURRENT_CPU'' line)"
| "fits (Store n d off r) line =
     (if d = 10 then (if off = - 4 then mentions ''pid = (pid_t)'' line else n = 8 \<and> mentions ''empty_event={}'' line)
      else n = 4 \<and> (case map_of member_at off of None \<Rightarrow> False | Some m \<Rightarrow> mentions m line))"
| "fits (Load n d r off) line =
     (if r = 10 then mentions (if off = - 4 then '' = pid;'' else ''&task_p->tgid'') line else off = 16 \<and> mentions ''ctx->ret'' line)"
| "fits Exit_insn line = (line = ''}'')"
| "fits x line = True"

definition placed :: "(nat \<times> string) list \<Rightarrow> line_info list \<Rightarrow> insn list \<Rightarrow> bool" where
  "placed src ls prog = list_all (\<lambda>(n, x). fits x (case map_of src n of None \<Rightarrow> [] | Some line \<Rightarrow> line)) (labelled prog ls)"

subsection \<open>The records of the object\<close>

lemma name_read:
  assumes "take n (drop p tab) = bs" and "take (Suc l) (drop k bs) = take l (drop k bs) @ [0]" and "0 \<notin> set (take l (drop k bs))"
  shows "cstring_at tab (p + k) = Some (map char_of (take l (drop k bs)))"
proof -
  have "take (Suc l) (drop k (take n (drop p tab))) = take l (drop k bs) @ [0]" using assms(1,2) by simp
  then have "take (min (Suc l) (n - k)) (drop (p + k) tab) = take l (drop k bs) @ [0]" by (simp add: drop_take add.commute)
  then obtain r where r: "drop (p + k) tab = take l (drop k bs) @ 0 # r"
    using append_take_drop_id [of "min (Suc l) (n - k)" "drop (p + k) tab"] by (metis append.assoc append_Cons append_Nil)
  have "takeWhile (\<lambda>b. b \<noteq> 0) (take l (drop k bs) @ 0 # r) = take l (drop k bs)"
    using assms(3) by (auto simp: takeWhile_append)
  then show ?thesis by (simp add: cstring_at_def r)
qed

lemma line_strings_1: "take 495 (drop 291 core_strings) =
    [0x74, 0x72, 0x61, 0x63, 0x65, 0x70, 0x6f, 0x69, 0x6e, 0x74, 0x2f, 0x73, 0x79, 0x73, 0x63,
    0x61, 0x6c, 0x6c, 0x73, 0x2f, 0x73, 0x79, 0x73, 0x5f, 0x65, 0x6e, 0x74, 0x65, 0x72, 0x5f,
    0x65, 0x78, 0x65, 0x63, 0x76, 0x65, 0, 0x2f, 0x68, 0x6f, 0x6d, 0x65, 0x2f, 0x66, 0x61, 0x6e,
    0x63, 0x79, 0x2f, 0x77, 0x6f, 0x72, 0x6b, 0x73, 0x70, 0x61, 0x63, 0x65, 0x2d, 0x78, 0x70,
    0x73, 0x2f, 0x63, 0x67, 0x70, 0x72, 0x6f, 0x78, 0x79, 0x2f, 0x65, 0x78, 0x65, 0x63, 0x73,
    0x6e, 0x6f, 0x6f, 0x70, 0x2d, 0x6c, 0x69, 0x62, 0x62, 0x70, 0x66, 0x2f, 0x65, 0x78, 0x65,
    0x63, 0x73, 0x6e, 0x6f, 0x6f, 0x70, 0x2e, 0x62, 0x70, 0x66, 0x2e, 0x63, 0, 0x20, 0x20, 0x20,
    0x20, 0x75, 0x36, 0x34, 0x20, 0x69, 0x64, 0x20, 0x3d, 0x20, 0x62, 0x70, 0x66, 0x5f, 0x67,
    0x65, 0x74, 0x5f, 0x63, 0x75, 0x72, 0x72, 0x65, 0x6e, 0x74, 0x5f, 0x70, 0x69, 0x64, 0x5f,
    0x74, 0x67, 0x69, 0x64, 0x28, 0x29, 0x3b, 0, 0x09, 0x70, 0x69, 0x64, 0x20, 0x3d, 0x20, 0x28,
    0x70, 0x69, 0x64, 0x5f, 0x74, 0x29, 0x69, 0x64, 0x3b, 0, 0x09, 0x75, 0x69, 0x64, 0x20, 0x3d,
    0x20, 0x28, 0x75, 0x33, 0x32, 0x29, 0x62, 0x70, 0x66, 0x5f, 0x67, 0x65, 0x74, 0x5f, 0x63,
    0x75, 0x72, 0x72, 0x65, 0x6e, 0x74, 0x5f, 0x75, 0x69, 0x64, 0x5f, 0x67, 0x69, 0x64, 0x28,
    0x29, 0x3b, 0, 0x09, 0x73, 0x74, 0x72, 0x75, 0x63, 0x74, 0x20, 0x65, 0x76, 0x65, 0x6e, 0x74,
    0x20, 0x65, 0x6d, 0x70, 0x74, 0x79, 0x5f, 0x65, 0x76, 0x65, 0x6e, 0x74, 0x3d, 0x7b, 0x7d,
    0x3b, 0, 0x09, 0x69, 0x66, 0x20, 0x28, 0x62, 0x70, 0x66, 0x5f, 0x6d, 0x61, 0x70, 0x5f, 0x75,
    0x70, 0x64, 0x61, 0x74, 0x65, 0x5f, 0x65, 0x6c, 0x65, 0x6d, 0x28, 0x26, 0x72, 0x65, 0x63,
    0x6f, 0x72, 0x64, 0x73, 0x2c, 0x20, 0x26, 0x70, 0x69, 0x64, 0x2c, 0x20, 0x26, 0x65, 0x6d,
    0x70, 0x74, 0x79, 0x5f, 0x65, 0x76, 0x65, 0x6e, 0x74, 0x2c, 0x20, 0x42, 0x50, 0x46, 0x5f,
    0x4e, 0x4f, 0x45, 0x58, 0x49, 0x53, 0x54, 0x29, 0x21, 0x3d, 0x30, 0x29, 0x20, 0x72, 0x65,
    0x74, 0x75, 0x72, 0x6e, 0x20, 0x30, 0x3b, 0, 0x09, 0x65, 0x76, 0x65, 0x6e, 0x74, 0x20, 0x3d,
    0x20, 0x62, 0x70, 0x66, 0x5f, 0x6d, 0x61, 0x70, 0x5f, 0x6c, 0x6f, 0x6f, 0x6b, 0x75, 0x70,
    0x5f, 0x65, 0x6c, 0x65, 0x6d, 0x28, 0x26, 0x72, 0x65, 0x63, 0x6f, 0x72, 0x64, 0x73, 0x2c,
    0x20, 0x26, 0x70, 0x69, 0x64, 0x29, 0x3b, 0, 0x09, 0x69, 0x66, 0x20, 0x28, 0x21, 0x65, 0x76,
    0x65, 0x6e, 0x74, 0x29, 0x20, 0x72, 0x65, 0x74, 0x75, 0x72, 0x6e, 0x20, 0x30, 0x3b, 0, 0x09,
    0x65, 0x76, 0x65, 0x6e, 0x74, 0x2d, 0x3e, 0x70, 0x69, 0x64, 0x20, 0x3d, 0x20, 0x70, 0x69,
    0x64, 0x3b, 0, 0x09, 0x65, 0x76, 0x65, 0x6e, 0x74, 0x2d, 0x3e, 0x75, 0x69, 0x64, 0x20, 0x3d,
    0x20, 0x75, 0x69, 0x64, 0x3b, 0, 0x09, 0x65, 0x76, 0x65, 0x6e, 0x74, 0x2d, 0x3e, 0x74, 0x67,
    0x69, 0x64, 0x20, 0x3d, 0x20, 0x74, 0x67, 0x69, 0x64, 0x3b, 0, 0x09, 0x74, 0x61, 0x73, 0x6b,
    0x20, 0x3d, 0x20, 0x28, 0x73, 0x74, 0x72, 0x75, 0x63, 0x74, 0x20, 0x74, 0x61, 0x73, 0x6b,
    0x5f, 0x73, 0x74, 0x72, 0x75, 0x63, 0x74, 0x2a, 0x29, 0x62, 0x70, 0x66, 0x5f, 0x67, 0x65,
    0x74, 0x5f, 0x63, 0x75, 0x72, 0x72, 0x65, 0x6e, 0x74, 0x5f, 0x74, 0x61, 0x73, 0x6b, 0x28,
    0x29, 0x3b, 0]"
  using at_btf_strings_1 [of 17499 495] by (simp add: core_strings_def btf_strings_1_def)

lemma line_strings_5: "take 596 (drop 11012 core_strings) =
    [0x09, 0x62, 0x70, 0x66, 0x5f, 0x70, 0x72, 0x6f, 0x62, 0x65, 0x5f, 0x72, 0x65, 0x61, 0x64,
    0x28, 0x26, 0x74, 0x61, 0x73, 0x6b, 0x5f, 0x70, 0x2c, 0x20, 0x73, 0x69, 0x7a, 0x65, 0x6f,
    0x66, 0x28, 0x73, 0x74, 0x72, 0x75, 0x63, 0x74, 0x20, 0x74, 0x61, 0x73, 0x6b, 0x5f, 0x73,
    0x74, 0x72, 0x75, 0x63, 0x74, 0x2a, 0x29, 0x2c, 0x26, 0x74, 0x61, 0x73, 0x6b, 0x2d, 0x3e,
    0x72, 0x65, 0x61, 0x6c, 0x5f, 0x70, 0x61, 0x72, 0x65, 0x6e, 0x74, 0x29, 0x3b, 0, 0x30, 0x3a,
    0x38, 0x38, 0, 0x09, 0x62, 0x70, 0x66, 0x5f, 0x70, 0x72, 0x6f, 0x62, 0x65, 0x5f, 0x72, 0x65,
    0x61, 0x64, 0x28, 0x26, 0x65, 0x76, 0x65, 0x6e, 0x74, 0x2d, 0x3e, 0x70, 0x70, 0x69, 0x64,
    0x2c, 0x73, 0x69, 0x7a, 0x65, 0x6f, 0x66, 0x28, 0x70, 0x69, 0x64, 0x5f, 0x74, 0x29, 0x2c,
    0x26, 0x74, 0x61, 0x73, 0x6b, 0x5f, 0x70, 0x2d, 0x3e, 0x74, 0x67, 0x69, 0x64, 0x29, 0x3b, 0,
    0x7d, 0, 0x73, 0x79, 0x73, 0x63, 0x61, 0x6c, 0x6c, 0x73, 0x5f, 0x65, 0x78, 0x69, 0x74, 0x5f,
    0x65, 0x78, 0x65, 0x63, 0x76, 0x65, 0x5f, 0x61, 0x72, 0x67, 0x73, 0, 0x72, 0x65, 0x74, 0,
    0x73, 0x79, 0x73, 0x63, 0x61, 0x6c, 0x6c, 0x5f, 0x65, 0x78, 0x69, 0x74, 0x5f, 0x65, 0x78,
    0x65, 0x63, 0x76, 0x65, 0, 0x74, 0x72, 0x61, 0x63, 0x65, 0x70, 0x6f, 0x69, 0x6e, 0x74, 0x2f,
    0x73, 0x79, 0x73, 0x63, 0x61, 0x6c, 0x6c, 0x73, 0x2f, 0x73, 0x79, 0x73, 0x5f, 0x65, 0x78,
    0x69, 0x74, 0x5f, 0x65, 0x78, 0x65, 0x63, 0x76, 0x65, 0, 0x69, 0x6e, 0x74, 0x20, 0x73, 0x79,
    0x73, 0x63, 0x61, 0x6c, 0x6c, 0x5f, 0x65, 0x78, 0x69, 0x74, 0x5f, 0x65, 0x78, 0x65, 0x63,
    0x76, 0x65, 0x28, 0x73, 0x74, 0x72, 0x75, 0x63, 0x74, 0x20, 0x73, 0x79, 0x73, 0x63, 0x61,
    0x6c, 0x6c, 0x73, 0x5f, 0x65, 0x78, 0x69, 0x74, 0x5f, 0x65, 0x78, 0x65, 0x63, 0x76, 0x65,
    0x5f, 0x61, 0x72, 0x67, 0x73, 0x20, 0x2a, 0x63, 0x74, 0x78, 0x29, 0x7b, 0, 0x09, 0x70, 0x69,
    0x64, 0x20, 0x3d, 0x20, 0x28, 0x70, 0x69, 0x64, 0x5f, 0x74, 0x29, 0x62, 0x70, 0x66, 0x5f,
    0x67, 0x65, 0x74, 0x5f, 0x63, 0x75, 0x72, 0x72, 0x65, 0x6e, 0x74, 0x5f, 0x70, 0x69, 0x64,
    0x5f, 0x74, 0x67, 0x69, 0x64, 0x28, 0x29, 0x3b, 0, 0x09, 0x65, 0x76, 0x65, 0x6e, 0x74, 0x20,
    0x3d, 0x20, 0x62, 0x70, 0x66, 0x5f, 0x6d, 0x61, 0x70, 0x5f, 0x6c, 0x6f, 0x6f, 0x6b, 0x75,
    0x70, 0x5f, 0x65, 0x6c, 0x65, 0x6d, 0x28, 0x26, 0x72, 0x65, 0x63, 0x6f, 0x72, 0x64, 0x73,
    0x2c, 0x26, 0x70, 0x69, 0x64, 0x29, 0x3b, 0, 0x09, 0x69, 0x66, 0x20, 0x28, 0x63, 0x74, 0x78,
    0x2d, 0x3e, 0x72, 0x65, 0x74, 0x20, 0x3c, 0x20, 0x30, 0x29, 0x20, 0x67, 0x6f, 0x74, 0x6f,
    0x20, 0x63, 0x6c, 0x65, 0x61, 0x6e, 0x75, 0x70, 0x3b, 0, 0x09, 0x62, 0x70, 0x66, 0x5f, 0x67,
    0x65, 0x74, 0x5f, 0x63, 0x75, 0x72, 0x72, 0x65, 0x6e, 0x74, 0x5f, 0x63, 0x6f, 0x6d, 0x6d,
    0x28, 0x26, 0x65, 0x76, 0x65, 0x6e, 0x74, 0x2d, 0x3e, 0x63, 0x6f, 0x6d, 0x6d, 0x2c, 0x73,
    0x69, 0x7a, 0x65, 0x6f, 0x66, 0x28, 0x65, 0x76, 0x65, 0x6e, 0x74, 0x2d, 0x3e, 0x63, 0x6f,
    0x6d, 0x6d, 0x29, 0x29, 0x3b, 0, 0x09, 0x62, 0x70, 0x66, 0x5f, 0x70, 0x65, 0x72, 0x66, 0x5f,
    0x65, 0x76, 0x65, 0x6e, 0x74, 0x5f, 0x6f, 0x75, 0x74, 0x70, 0x75, 0x74, 0x28, 0x63, 0x74,
    0x78, 0x2c, 0x20, 0x26, 0x70, 0x65, 0x72, 0x66, 0x5f, 0x65, 0x76, 0x65, 0x6e, 0x74, 0x73,
    0x2c, 0x20, 0x42, 0x50, 0x46, 0x5f, 0x46, 0x5f, 0x43, 0x55, 0x52, 0x52, 0x45, 0x4e, 0x54,
    0x5f, 0x43, 0x50, 0x55, 0x2c, 0x20, 0x65, 0x76, 0x65, 0x6e, 0x74, 0x2c, 0x20, 0x73, 0x69,
    0x7a, 0x65, 0x6f, 0x66, 0x28, 0x73, 0x74, 0x72, 0x75, 0x63, 0x74, 0x20, 0x65, 0x76, 0x65,
    0x6e, 0x74, 0x29, 0x29, 0x3b, 0, 0x09, 0x62, 0x70, 0x66, 0x5f, 0x6d, 0x61, 0x70, 0x5f, 0x64,
    0x65, 0x6c, 0x65, 0x74, 0x65, 0x5f, 0x65, 0x6c, 0x65, 0x6d, 0x28, 0x26, 0x72, 0x65, 0x63,
    0x6f, 0x72, 0x64, 0x73, 0x2c, 0x20, 0x26, 0x70, 0x69, 0x64, 0x29, 0x3b, 0]"
  using at_btf_strings_5 [of 28220 596] by (simp add: core_strings_def btf_strings_5_def)

lemma char_of_tab: "char_of (9 :: nat) = CHR 0x09"
  by (simp add: char_of_def bit_Suc_0_iff)

lemma line_names_1:
  "cstring_at core_strings 291 = Some (''tracepoint/syscalls/sys_enter_execve'')"
  "cstring_at core_strings 328 = Some (''/home/fancy/workspace-xps/cgproxy/execsnoop-libbpf/execsnoop.bpf.c'')"
  "cstring_at core_strings 395 = Some (''    u64 id = bpf_get_current_pid_tgid();'')"
  "cstring_at core_strings 436 = Some (TAB # ''pid = (pid_t)id;'')"
  "cstring_at core_strings 454 = Some (TAB # ''uid = (u32)bpf_get_current_uid_gid();'')"
  "cstring_at core_strings 493 = Some (TAB # ''struct event empty_event={};'')"
  "cstring_at core_strings 523 = Some (TAB # ''if (bpf_map_update_elem(&records, &pid, &empty_event, BPF_NOEXIST)!=0) return 0;'')"
  "cstring_at core_strings 605 = Some (TAB # ''event = bpf_map_lookup_elem(&records, &pid);'')"
  "cstring_at core_strings 651 = Some (TAB # ''if (!event) return 0;'')"
  "cstring_at core_strings 674 = Some (TAB # ''event->pid = pid;'')"
  "cstring_at core_strings 693 = Some (TAB # ''event->uid = uid;'')"
  "cstring_at core_strings 712 = Some (TAB # ''event->tgid = tgid;'')"
  "cstring_at core_strings 733 = Some (TAB # ''task = (struct task_struct*)bpf_get_current_task();'')"
proof -
  note [simp] = TAB_def char_of_tab
  show "cstring_at core_strings 291 = Some (''tracepoint/syscalls/sys_enter_execve'')"
    using name_read [OF line_strings_1, of 36 0] by simp
  show "cstring_at core_strings 328 = Some (''/home/fancy/workspace-xps/cgproxy/execsnoop-libbpf/execsnoop.bpf.c'')"
    using name_read [OF line_strings_1, of 66 37] by simp
  show "cstring_at core_strings 395 = Some (''    u64 id = bpf_get_current_pid_tgid();'')"
    using name_read [OF line_strings_1, of 40 104] by simp
  show "cstring_at core_strings 436 = Some (TAB # ''pid = (pid_t)id;'')"
    using name_read [OF line_strings_1, of 17 145] by simp
  show "cstring_at core_strings 454 = Some (TAB # ''uid = (u32)bpf_get_current_uid_gid();'')"
    using name_read [OF line_strings_1, of 38 163] by simp
  show "cstring_at core_strings 493 = Some (TAB # ''struct event empty_event={};'')"
    using name_read [OF line_strings_1, of 29 202] by simp
  show "cstring_at core_strings 523 = Some (TAB # ''if (bpf_map_update_elem(&records, &pid, &empty_event, BPF_NOEXIST)!=0) return 0;'')"
    using name_read [OF line_strings_1, of 81 232] by simp
  show "cstring_at core_strings 605 = Some (TAB # ''event = bpf_map_lookup_elem(&records, &pid);'')"
    using name_read [OF line_strings_1, of 45 314] by simp
  show "cstring_at core_strings 651 = Some (TAB # ''if (!event) return 0;'')"
    using name_read [OF line_strings_1, of 22 360] by simp
  show "cstring_at core_strings 674 = Some (TAB # ''event->pid = pid;'')"
    using name_read [OF line_strings_1, of 18 383] by simp
  show "cstring_at core_strings 693 = Some (TAB # ''event->uid = uid;'')"
    using name_read [OF line_strings_1, of 18 402] by simp
  show "cstring_at core_strings 712 = Some (TAB # ''event->tgid = tgid;'')"
    using name_read [OF line_strings_1, of 20 421] by simp
  show "cstring_at core_strings 733 = Some (TAB # ''task = (struct task_struct*)bpf_get_current_task();'')"
    using name_read [OF line_strings_1, of 52 442] by simp
qed

lemma line_names_5:
  "cstring_at core_strings 11012 = Some (TAB # ''bpf_probe_read(&task_p, sizeof(struct task_struct*),&task->real_parent);'')"
  "cstring_at core_strings 11091 = Some (TAB # ''bpf_probe_read(&event->ppid,sizeof(pid_t),&task_p->tgid);'')"
  "cstring_at core_strings 11150 = Some (''}'')"
  "cstring_at core_strings 11202 = Some (''tracepoint/syscalls/sys_exit_execve'')"
  "cstring_at core_strings 11238 = Some (''int syscall_exit_execve(struct syscalls_exit_execve_args *ctx){'')"
  "cstring_at core_strings 11302 = Some (TAB # ''pid = (pid_t)bpf_get_current_pid_tgid();'')"
  "cstring_at core_strings 11344 = Some (TAB # ''event = bpf_map_lookup_elem(&records,&pid);'')"
  "cstring_at core_strings 11389 = Some (TAB # ''if (ctx->ret < 0) goto cleanup;'')"
  "cstring_at core_strings 11422 = Some (TAB # ''bpf_get_current_comm(&event->comm,sizeof(event->comm));'')"
  "cstring_at core_strings 11479 = Some (TAB # ''bpf_perf_event_output(ctx, &perf_events, BPF_F_CURRENT_CPU, event, sizeof(struct event));'')"
  "cstring_at core_strings 11570 = Some (TAB # ''bpf_map_delete_elem(&records, &pid);'')"
proof -
  note [simp] = TAB_def char_of_tab
  show "cstring_at core_strings 11012 = Some (TAB # ''bpf_probe_read(&task_p, sizeof(struct task_struct*),&task->real_parent);'')"
    using name_read [OF line_strings_5, of 73 0] by simp
  show "cstring_at core_strings 11091 = Some (TAB # ''bpf_probe_read(&event->ppid,sizeof(pid_t),&task_p->tgid);'')"
    using name_read [OF line_strings_5, of 58 79] by simp
  show "cstring_at core_strings 11150 = Some (''}'')"
    using name_read [OF line_strings_5, of 1 138] by simp
  show "cstring_at core_strings 11202 = Some (''tracepoint/syscalls/sys_exit_execve'')"
    using name_read [OF line_strings_5, of 35 190] by simp
  show "cstring_at core_strings 11238 = Some (''int syscall_exit_execve(struct syscalls_exit_execve_args *ctx){'')"
    using name_read [OF line_strings_5, of 63 226] by simp
  show "cstring_at core_strings 11302 = Some (TAB # ''pid = (pid_t)bpf_get_current_pid_tgid();'')"
    using name_read [OF line_strings_5, of 41 290] by simp
  show "cstring_at core_strings 11344 = Some (TAB # ''event = bpf_map_lookup_elem(&records,&pid);'')"
    using name_read [OF line_strings_5, of 44 332] by simp
  show "cstring_at core_strings 11389 = Some (TAB # ''if (ctx->ret < 0) goto cleanup;'')"
    using name_read [OF line_strings_5, of 32 377] by simp
  show "cstring_at core_strings 11422 = Some (TAB # ''bpf_get_current_comm(&event->comm,sizeof(event->comm));'')"
    using name_read [OF line_strings_5, of 56 410] by simp
  show "cstring_at core_strings 11479 = Some (TAB # ''bpf_perf_event_output(ctx, &perf_events, BPF_F_CURRENT_CPU, event, sizeof(struct event));'')"
    using name_read [OF line_strings_5, of 90 467] by simp
  show "cstring_at core_strings 11570 = Some (TAB # ''bpf_map_delete_elem(&records, &pid);'')"
    using name_read [OF line_strings_5, of 37 558] by simp
qed

lemmas line_names = line_names_1 line_names_5

definition enter_lines :: "line_info list" where
  "enter_lines = [
    \<lparr>li_insn = 0, li_file = 328, li_text = 395, li_pos = 52238\<rparr>,
    \<lparr>li_insn = 16, li_file = 328, li_text = 436, li_pos = 53254\<rparr>,
    \<lparr>li_insn = 24, li_file = 328, li_text = 454, li_pos = 55309\<rparr>,
    \<lparr>li_insn = 48, li_file = 328, li_text = 493, li_pos = 57359\<rparr>,
    \<lparr>li_insn = 88, li_file = 328, li_text = 0, li_pos = 0\<rparr>,
    \<lparr>li_insn = 112, li_file = 328, li_text = 523, li_pos = 58374\<rparr>,
    \<lparr>li_insn = 144, li_file = 328, li_text = 523, li_pos = 58374\<rparr>,
    \<lparr>li_insn = 160, li_file = 328, li_text = 0, li_pos = 0\<rparr>,
    \<lparr>li_insn = 168, li_file = 328, li_text = 605, li_pos = 59402\<rparr>,
    \<lparr>li_insn = 200, li_file = 328, li_text = 651, li_pos = 60422\<rparr>,
    \<lparr>li_insn = 208, li_file = 328, li_text = 0, li_pos = 0\<rparr>,
    \<lparr>li_insn = 216, li_file = 328, li_text = 674, li_pos = 62479\<rparr>,
    \<lparr>li_insn = 224, li_file = 328, li_text = 693, li_pos = 64525\<rparr>,
    \<lparr>li_insn = 232, li_file = 328, li_text = 712, li_pos = 63502\<rparr>,
    \<lparr>li_insn = 240, li_file = 328, li_text = 674, li_pos = 62477\<rparr>,
    \<lparr>li_insn = 248, li_file = 328, li_text = 733, li_pos = 67614\<rparr>,
    \<lparr>li_insn = 280, li_file = 328, li_text = 0, li_pos = 0\<rparr>,
    \<lparr>li_insn = 288, li_file = 328, li_text = 11012, li_pos = 68610\<rparr>,
    \<lparr>li_insn = 320, li_file = 328, li_text = 11091, li_pos = 69677\<rparr>,
    \<lparr>li_insn = 336, li_file = 328, li_text = 11091, li_pos = 69657\<rparr>,
    \<lparr>li_insn = 344, li_file = 328, li_text = 11091, li_pos = 69634\<rparr>,
    \<lparr>li_insn = 368, li_file = 328, li_text = 11150, li_pos = 72705\<rparr>]"

definition exit_lines :: "line_info list" where
  "exit_lines = [
    \<lparr>li_insn = 0, li_file = 328, li_text = 11238, li_pos = 75776\<rparr>,
    \<lparr>li_insn = 8, li_file = 328, li_text = 11302, li_pos = 79887\<rparr>,
    \<lparr>li_insn = 16, li_file = 328, li_text = 11302, li_pos = 79878\<rparr>,
    \<lparr>li_insn = 32, li_file = 328, li_text = 0, li_pos = 0\<rparr>,
    \<lparr>li_insn = 40, li_file = 328, li_text = 11344, li_pos = 80906\<rparr>,
    \<lparr>li_insn = 72, li_file = 328, li_text = 651, li_pos = 81926\<rparr>,
    \<lparr>li_insn = 80, li_file = 328, li_text = 11389, li_pos = 82955\<rparr>,
    \<lparr>li_insn = 96, li_file = 328, li_text = 11389, li_pos = 82950\<rparr>,
    \<lparr>li_insn = 104, li_file = 328, li_text = 11422, li_pos = 86018\<rparr>,
    \<lparr>li_insn = 128, li_file = 328, li_text = 11479, li_pos = 87042\<rparr>,
    \<lparr>li_insn = 200, li_file = 328, li_text = 0, li_pos = 0\<rparr>,
    \<lparr>li_insn = 208, li_file = 328, li_text = 11570, li_pos = 89090\<rparr>,
    \<lparr>li_insn = 232, li_file = 328, li_text = 11150, li_pos = 91137\<rparr>]"

lemma core_line_infos: "line_infos core_image = Some [(291, enter_lines), (11202, exit_lines)]"
proof -
  have a: "take 580 (drop 68 core_ext_bytes) =
    [0x10, 0, 0, 0, 0x23, 0x01, 0, 0, 0x16, 0, 0, 0, 0, 0, 0, 0, 0x48, 0x01, 0, 0, 0x8b, 0x01, 0,
    0, 0x0e, 0xcc, 0, 0, 0x10, 0, 0, 0, 0x48, 0x01, 0, 0, 0xb4, 0x01, 0, 0, 0x06, 0xd0, 0, 0,
    0x18, 0, 0, 0, 0x48, 0x01, 0, 0, 0xc6, 0x01, 0, 0, 0x0d, 0xd8, 0, 0, 0x30, 0, 0, 0, 0x48,
    0x01, 0, 0, 0xed, 0x01, 0, 0, 0x0f, 0xe0, 0, 0, 0x58, 0, 0, 0, 0x48, 0x01, 0, 0, 0, 0, 0, 0,
    0, 0, 0, 0, 0x70, 0, 0, 0, 0x48, 0x01, 0, 0, 0x0b, 0x02, 0, 0, 0x06, 0xe4, 0, 0, 0x90, 0, 0,
    0, 0x48, 0x01, 0, 0, 0x0b, 0x02, 0, 0, 0x06, 0xe4, 0, 0, 0xa0, 0, 0, 0, 0x48, 0x01, 0, 0, 0,
    0, 0, 0, 0, 0, 0, 0, 0xa8, 0, 0, 0, 0x48, 0x01, 0, 0, 0x5d, 0x02, 0, 0, 0x0a, 0xe8, 0, 0,
    0xc8, 0, 0, 0, 0x48, 0x01, 0, 0, 0x8b, 0x02, 0, 0, 0x06, 0xec, 0, 0, 0xd0, 0, 0, 0, 0x48,
    0x01, 0, 0, 0, 0, 0, 0, 0, 0, 0, 0, 0xd8, 0, 0, 0, 0x48, 0x01, 0, 0, 0xa2, 0x02, 0, 0, 0x0f,
    0xf4, 0, 0, 0xe0, 0, 0, 0, 0x48, 0x01, 0, 0, 0xb5, 0x02, 0, 0, 0x0d, 0xfc, 0, 0, 0xe8, 0, 0,
    0, 0x48, 0x01, 0, 0, 0xc8, 0x02, 0, 0, 0x0e, 0xf8, 0, 0, 0xf0, 0, 0, 0, 0x48, 0x01, 0, 0,
    0xa2, 0x02, 0, 0, 0x0d, 0xf4, 0, 0, 0xf8, 0, 0, 0, 0x48, 0x01, 0, 0, 0xdd, 0x02, 0, 0, 0x1e,
    0x08, 0x01, 0, 0x18, 0x01, 0, 0, 0x48, 0x01, 0, 0, 0, 0, 0, 0, 0, 0, 0, 0, 0x20, 0x01, 0, 0,
    0x48, 0x01, 0, 0, 0x04, 0x2b, 0, 0, 0x02, 0x0c, 0x01, 0, 0x40, 0x01, 0, 0, 0x48, 0x01, 0, 0,
    0x53, 0x2b, 0, 0, 0x2d, 0x10, 0x01, 0, 0x50, 0x01, 0, 0, 0x48, 0x01, 0, 0, 0x53, 0x2b, 0, 0,
    0x19, 0x10, 0x01, 0, 0x58, 0x01, 0, 0, 0x48, 0x01, 0, 0, 0x53, 0x2b, 0, 0, 0x02, 0x10, 0x01,
    0, 0x70, 0x01, 0, 0, 0x48, 0x01, 0, 0, 0x8e, 0x2b, 0, 0, 0x01, 0x1c, 0x01, 0, 0xc2, 0x2b, 0,
    0, 0x0d, 0, 0, 0, 0, 0, 0, 0, 0x48, 0x01, 0, 0, 0xe6, 0x2b, 0, 0, 0, 0x28, 0x01, 0, 0x08, 0,
    0, 0, 0x48, 0x01, 0, 0, 0x26, 0x2c, 0, 0, 0x0f, 0x38, 0x01, 0, 0x10, 0, 0, 0, 0x48, 0x01, 0,
    0, 0x26, 0x2c, 0, 0, 0x06, 0x38, 0x01, 0, 0x20, 0, 0, 0, 0x48, 0x01, 0, 0, 0, 0, 0, 0, 0, 0,
    0, 0, 0x28, 0, 0, 0, 0x48, 0x01, 0, 0, 0x50, 0x2c, 0, 0, 0x0a, 0x3c, 0x01, 0, 0x48, 0, 0, 0,
    0x48, 0x01, 0, 0, 0x8b, 0x02, 0, 0, 0x06, 0x40, 0x01, 0, 0x50, 0, 0, 0, 0x48, 0x01, 0, 0,
    0x7d, 0x2c, 0, 0, 0x0b, 0x44, 0x01, 0, 0x60, 0, 0, 0, 0x48, 0x01, 0, 0, 0x7d, 0x2c, 0, 0,
    0x06, 0x44, 0x01, 0, 0x68, 0, 0, 0, 0x48, 0x01, 0, 0, 0x9e, 0x2c, 0, 0, 0x02, 0x50, 0x01, 0,
    0x80, 0, 0, 0, 0x48, 0x01, 0, 0, 0xd7, 0x2c, 0, 0, 0x02, 0x54, 0x01, 0, 0xc8, 0, 0, 0, 0x48,
    0x01, 0, 0, 0, 0, 0, 0, 0, 0, 0, 0, 0xd0, 0, 0, 0, 0x48, 0x01, 0, 0, 0x32, 0x2d, 0, 0, 0x02,
    0x5c, 0x01, 0, 0xe8, 0, 0, 0, 0x48, 0x01, 0, 0, 0x8e, 0x2b, 0, 0, 0x01, 0x64, 0x01, 0]"
    using core_ext_piece [of 580 68] by (simp add: core_tail_def)
  have "line_infos core_image = ext_sections line_info_of (field 0 4 (take 580 (drop 68 core_ext_bytes))) (drop 4 (take 580 (drop 68 core_ext_bytes)))"
    by (simp add: line_infos_def core_ext_section core_ext_header BTF_MAGIC_def Let_def)
  then show ?thesis unfolding a
    by (simp add: ext_sections.simps line_info_of_def field_def enter_lines_def exit_lines_def)
qed

subsection \<open>The source of the object\<close>

definition increasing_in :: "nat \<Rightarrow> line_info list \<Rightarrow> bool" where
  "increasing_in n ls = (sorted_wrt (<) (map li_insn ls) \<and> list_all (\<lambda>l. li_insn l mod 8 = 0 \<and> li_insn l < n) ls)"

lemma program_lines_core:
  "program_lines core_strings core_image ENTER_SECTION = Some enter_lines"
  "program_lines core_strings core_image EXIT_SECTION = Some exit_lines"
  by (simp_all add: program_lines_def core_line_infos line_names ENTER_SECTION_def EXIT_SECTION_def)

lemma no_name: "cstring_at core_strings 0 = Some []"
proof (cases core_strings)
  case (Cons a list)
  then have cs: "drop 0 core_strings = 0 # list" using core_strings_ends(1) by (metis drop0 list.sel(1))
  show ?thesis unfolding cstring_at_def cs by simp
qed (use length_core_strings in simp)

lemma sources_eq:
  "enter_source = take 22 bpf_source" "exit_source = drop 22 bpf_source"
  by (simp_all add: enter_source_def exit_source_def bpf_source_def)

lemma lines_match:
  "list_all (line_matches enter_source core_strings) enter_lines" "list_all (line_matches exit_source core_strings) exit_lines"
  unfolding sources_eq
  by (simp_all add: enter_lines_def exit_lines_def line_matches_def line_names no_name li_line_def bpf_source_def suffix_def)

lemma lines_increasing: "increasing_in 384 enter_lines" "increasing_in 248 exit_lines"
  by (simp_all add: increasing_in_def enter_lines_def exit_lines_def)

lemma enter_labels: "map (line_at enter_lines) [0..<48] =
    [51, 51, 52, 54, 54, 54, 56, 56, 56, 56, 56, 0, 0, 0, 57, 57, 57, 57, 57, 57, 0, 58, 58, 58, 58, 59, 0, 61, 63, 62, 61,
     66, 66, 66, 66, 0, 67, 67, 67, 67, 68, 68, 68, 68, 68, 68, 71, 71]"
  by (simp add: upt_conv_Cons line_at_def enter_lines_def li_line_def)

lemma exit_labels: "map (line_at exit_lines) [0..<31] =
    [74, 78, 78, 78, 0, 79, 79, 79, 79, 80, 81, 81, 81, 84, 84, 84, 85, 85, 85, 85, 85, 85, 85, 85, 85, 0, 87, 87, 87, 89, 89]"
  by (simp add: upt_conv_Cons line_at_def exit_lines_def li_line_def)

lemma source_calls: "map (\<lambda>(n, line). (n, calls_in line)) bpf_source =
    [(50, []), (51, [14]), (52, []), (53, []), (54, [15]), (55, []), (56, []), (57, [2]), (58, [1]), (59, []), (60, []),
     (61, []), (62, []), (63, []), (64, []), (65, []), (66, [35]), (67, [4]), (68, [4]), (69, []), (70, []), (71, []),
     (72, []), (73, []), (74, []), (75, []), (76, []), (77, []), (78, [14]), (79, [1]), (80, []), (81, []), (82, []), (83, []),
     (84, [16]), (85, [25]), (86, []), (87, [3]), (88, []), (89, [])]"
  by (simp add: bpf_source_def calls_in_def helper_names_def word_char_def TAB_def)

lemma source_branches: "map (\<lambda>(n, line). (n, branches_in line)) bpf_source =
    map (\<lambda>n. (n, if n \<in> {57, 59, 80, 81} then 1 else 0)) [50..<90]"
  by (simp add: bpf_source_def branches_in_def TAB_def upt_conv_Cons)

lemma list_all_by:
  "map (\<lambda>(n, line). (n, f line)) xs = ys \<Longrightarrow> list_all (\<lambda>(n, line). P n (f line)) xs = list_all (\<lambda>(n, y). P n y) ys"
  by (auto simp: list_all_iff)

lemma compiled_as_parts:
  assumes "map (\<lambda>(n, line). (n, calls_in line)) src = cs" and "map (\<lambda>(n, line). (n, branches_in line)) src = bs"
    and "list_all (\<lambda>(n, c). called (under prog ls n) = c) cs" and "list_all (\<lambda>(n, b). branches (under prog ls n) = b) bs"
  shows "list_all (compiled_as prog ls) src"
  using assms(3,4) unfolding list_all_by [OF assms(1), symmetric] list_all_by [OF assms(2), symmetric]
  by (auto simp: list_all_iff compiled_as_def)

lemma code_lengths: "length (core_enter_code 1512 1500) = 48" "length exit_code = 31"
  by (simp_all add: core_enter_code_def exit_code_def)

lemma labelled_core:
  "labelled (core_enter_code 1512 1500) enter_lines = zip (map (line_at enter_lines) [0..<48]) (core_enter_code 1512 1500)"
  "labelled exit_code exit_lines = zip (map (line_at exit_lines) [0..<31]) exit_code"
  by (simp_all only: labelled_def code_lengths)

lemmas source_parts =
  arg_cong [OF source_calls, of "take 22", unfolded take_map] arg_cong [OF source_branches, of "take 22", unfolded take_map]
  arg_cong [OF source_calls, of "drop 22", unfolded drop_map] arg_cong [OF source_branches, of "drop 22", unfolded drop_map]

lemma enter_compiled: "list_all (compiled_as (core_enter_code 1512 1500) enter_lines) enter_source"
  unfolding sources_eq
  by (rule compiled_as_parts [OF source_parts(1,2)])
    (unfold under_def labelled_core enter_labels, simp_all add: core_enter_code_def upt_conv_Cons)

lemma exit_compiled: "list_all (compiled_as exit_code exit_lines) exit_source"
  unfolding sources_eq
  by (rule compiled_as_parts [OF source_parts(3,4)])
    (unfold under_def labelled_core exit_labels, simp_all add: exit_code_def upt_conv_Cons)

lemma enter_placed: "placed enter_source enter_lines (core_enter_code 1512 1500)"
  unfolding sources_eq placed_def labelled_core enter_labels
  by (simp add: core_enter_code_def bpf_source_def calls_in_def helper_names_def word_char_def TAB_def member_at_def)

lemma exit_placed: "placed exit_source exit_lines exit_code"
  unfolding sources_eq placed_def labelled_core exit_labels
  by (simp add: exit_code_def bpf_source_def calls_in_def helper_names_def word_char_def TAB_def member_at_def BPF_F_CURRENT_CPU_def)

text \<open>
  C11. The instructions of the newer object follow \<open>execsnoop.bpf.c\<close> line by line: its line records, in order and within the
  program, name that file and lines of the function with exactly their text; the instructions under each line of the
  function call exactly the helpers the line calls and branch exactly where it has an \<open>if\<close>; and every instruction that does
  more than arithmetic on registers is under a line that asks for it, so those without a line do none of this.
\<close>

theorem instructions_follow_source:
  "\<exists>ls ls' enter exit_prog. program_lines core_strings core_image ENTER_SECTION = Some ls \<and>
     program_lines core_strings core_image EXIT_SECTION = Some ls' \<and> object_code core_image = Some (enter, exit_prog) \<and>
     list_all (line_matches enter_source core_strings) ls \<and> list_all (line_matches exit_source core_strings) ls' \<and>
     increasing_in (8 * length enter) ls \<and> increasing_in (8 * length exit_prog) ls' \<and>
     list_all (compiled_as enter ls) enter_source \<and> list_all (compiled_as exit_prog ls') exit_source \<and>
     placed enter_source ls enter \<and> placed exit_source ls' exit_prog"
  using program_lines_core object_codes(3) lines_match lines_increasing enter_compiled exit_compiled enter_placed exit_placed
  by (simp add: code_lengths)

end
