(* ===== verification/Debug_Tables.thy ===== *)
theory Debug_Tables
  imports Source_Lines
begin

text \<open>
  The debugging sections of the newer object, in the format of DWARF 5: the line program, the location
  lists and the abbreviation table.  The compiler writes the lines twice, once here and once in
  \<open>.BTF.ext\<close>; the two tables agree.
\<close>

subsection \<open>Numbers of variable length\<close>

fun uleb :: "bytes \<Rightarrow> (nat \<times> bytes) option" where
  "uleb [] = None"
| "uleb (b # bs) = (if b < 128 then Some (b, bs) else map_option (\<lambda>(n, r). (b - 128 + 128 * n, r)) (uleb bs))"

fun sleb :: "bytes \<Rightarrow> (int \<times> bytes) option" where
  "sleb [] = None"
| "sleb (b # bs) =
     (if b < 64 then Some (int b, bs)
      else if b < 128 then Some (int b - 128, bs)
      else map_option (\<lambda>(n, r). (int b - 128 + 128 * n, r)) (sleb bs))"

lemma uleb_shorter: "uleb bs = Some (n, r) \<Longrightarrow> length r < length bs"
  by (induction bs arbitrary: n r) (fastforce split: if_splits)+

lemma sleb_shorter: "sleb bs = Some (n, r) \<Longrightarrow> length r < length bs"
  by (induction bs arbitrary: n r) (fastforce split: if_splits)+

text \<open>Writing: seven bits a byte, the lowest first.\<close>

fun to_uleb :: "nat \<Rightarrow> bytes" where
  "to_uleb n = (if n < 128 then [n] else (n mod 128 + 128) # to_uleb (n div 128))"

declare to_uleb.simps [simp del]

lemma uleb_to_uleb: "uleb (to_uleb n @ bs) = Some (n, bs)"
proof (induction n rule: to_uleb.induct)
  case (1 n)
  then show ?case by (subst to_uleb.simps) auto
qed

subsection \<open>The line program\<close>

record line_header =
  lh_min_inst :: nat
  lh_line_base :: int
  lh_line_range :: nat
  lh_opcode_base :: nat

text \<open>The registers; \<open>lr_sec\<close> is the section the address is relocated against.\<close>

record line_regs =
  lr_sec :: "nat option"
  lr_addr :: nat
  lr_line :: int
  lr_col :: nat

record line_row =
  lw_sec :: "nat option"
  lw_addr :: nat
  lw_line :: int
  lw_col :: nat
  lw_end :: bool

definition line_regs0 :: line_regs where
  "line_regs0 = \<lparr>lr_sec = None, lr_addr = 0, lr_line = 1, lr_col = 0\<rparr>"

definition row_of :: "bool \<Rightarrow> line_regs \<Rightarrow> line_row" where
  "row_of e r = \<lparr>lw_sec = lr_sec r, lw_addr = lr_addr r, lw_line = lr_line r, lw_col = lr_col r, lw_end = e\<rparr>"

definition advance :: "line_header \<Rightarrow> nat \<Rightarrow> line_regs \<Rightarrow> line_regs" where
  "advance h n r = r\<lparr>lr_addr := lr_addr r + lh_min_inst h * n\<rparr>"

text \<open>
  An extended instruction: its length, its code, its operands.  The address of \<open>DW_LNE_set_address\<close> is
  relocated: \<open>rel\<close> gives, by offset in the section, the section meant.
\<close>

definition line_extended :: "(nat \<Rightarrow> nat option) \<Rightarrow> nat \<Rightarrow> line_regs \<Rightarrow> bytes \<Rightarrow> (line_row list \<times> line_regs \<times> bytes) option" where
  "line_extended rel sz r bs = Option.bind (uleb bs) (\<lambda>(n, bs).
     if n = 0 \<or> length bs < n then None
     else let rest = drop n bs; args = take (n - 1) (tl bs) in
       if hd bs = 1 then Some ([row_of True r], line_regs0, rest)
       else if hd bs = 2 then
         Some ([], r\<lparr>lr_addr := le args, lr_sec := rel (sz - length (tl bs))\<rparr>, rest)
       else Some ([], r, rest))"

text \<open>
  The standard instructions; what only sets the registers the table does not show (the file, the marks of
  statements, blocks and prologues) is read and has no effect.
\<close>

definition line_standard :: "line_header \<Rightarrow> nat \<Rightarrow> line_regs \<Rightarrow> bytes \<Rightarrow> (line_row list \<times> line_regs \<times> bytes) option" where
  "line_standard h op r bs =
     (if op = 1 then Some ([row_of False r], r, bs)
      else if op = 2 then map_option (\<lambda>(n, bs). ([], advance h n r, bs)) (uleb bs)
      else if op = 3 then map_option (\<lambda>(n, bs). ([], r\<lparr>lr_line := lr_line r + n\<rparr>, bs)) (sleb bs)
      else if op = 4 then map_option (\<lambda>(n, bs). ([], r, bs)) (uleb bs)
      else if op = 5 then map_option (\<lambda>(n, bs). ([], r\<lparr>lr_col := n\<rparr>, bs)) (uleb bs)
      else if op = 8 then Some ([], advance h ((255 - lh_opcode_base h) div lh_line_range h) r, bs)
      else if op = 9 then
        (if length bs < 2 then None else Some ([], r\<lparr>lr_addr := lr_addr r + le (take 2 bs)\<rparr>, drop 2 bs))
      else if op = 12 then map_option (\<lambda>(n, bs). ([], r, bs)) (uleb bs)
      else if op \<in> {6, 7, 10, 11} then Some ([], r, bs)
      else None)"

definition line_special :: "line_header \<Rightarrow> nat \<Rightarrow> line_regs \<Rightarrow> line_regs" where
  "line_special h op r = (let a = op - lh_opcode_base h in
     advance h (a div lh_line_range h) (r\<lparr>lr_line := lr_line r + lh_line_base h + int (a mod lh_line_range h)\<rparr>))"

definition line_step :: "line_header \<Rightarrow> (nat \<Rightarrow> nat option) \<Rightarrow> nat \<Rightarrow> line_regs \<Rightarrow> nat \<Rightarrow> bytes \<Rightarrow>
    (line_row list \<times> line_regs \<times> bytes) option" where
  "line_step h rel sz r op bs =
     (if op = 0 then line_extended rel sz r bs
      else if op < lh_opcode_base h then line_standard h op r bs
      else let r = line_special h op r in Some ([row_of False r], r, bs))"

text \<open>No instruction gives bytes back, so a program ends.\<close>

lemma line_step_shorter: "line_step h rel sz r op bs = Some (out, r', bs') \<Longrightarrow> length bs' \<le> length bs"
  unfolding line_step_def line_standard_def line_extended_def
  by (auto simp: bind_eq_Some_conv Let_def dest!: uleb_shorter sleb_shorter split: if_splits)

function line_rows :: "line_header \<Rightarrow> (nat \<Rightarrow> nat option) \<Rightarrow> nat \<Rightarrow> line_regs \<Rightarrow> bytes \<Rightarrow> line_row list option" where
  "line_rows h rel sz r [] = (if r = line_regs0 then Some [] else None)"
| "line_rows h rel sz r (op # bs) = (case line_step h rel sz r op bs of
       None \<Rightarrow> None
     | Some (out, r, bs) \<Rightarrow> map_option (\<lambda>rows. out @ rows) (line_rows h rel sz r bs))"
  by pat_completeness auto
termination by (relation "measure (\<lambda>(h, rel, sz, r, bs). length bs)") (auto dest: line_step_shorter)

subsection \<open>The table of an object\<close>

definition signed8 :: "nat \<Rightarrow> int" where
  "signed8 n = (if n < 128 then int n else int n - 256)"

definition line_table_of :: "(nat \<Rightarrow> nat option) \<Rightarrow> bytes \<Rightarrow> line_row list option" where
  "line_table_of rel bs =
     (if field 0 4 bs + 4 \<noteq> length bs \<or> field 4 2 bs \<noteq> 5 then None
      else line_rows \<lparr>lh_min_inst = field 12 1 bs, lh_line_base = signed8 (field 15 1 bs),
             lh_line_range = field 16 1 bs, lh_opcode_base = field 17 1 bs\<rparr>
           rel (length bs) line_regs0 (drop (12 + field 8 4 bs) bs))"

text \<open>The sections the relocations of section \<open>k\<close> name.\<close>

definition section_targets :: "image \<Rightarrow> elf \<Rightarrow> nat \<Rightarrow> nat \<Rightarrow> nat option" where
  "section_targets img e k =
     (case find (\<lambda>sh. sh_type sh = SHT_REL \<and> sh_info sh = k) (elf_headers e) of
        None \<Rightarrow> Map.empty
      | Some sh \<Rightarrow>
          (case entries img (\<lambda>bs. (field 0 8 bs, field 12 4 bs)) 16 (sh_size sh div 16) (sh_offset sh) of
             None \<Rightarrow> Map.empty
           | Some rs \<Rightarrow> map_of (map (\<lambda>(pos, i). (pos, st_shndx (snd (symbols img e ! i)))) rs)))"

definition line_table :: "image \<Rightarrow> line_row list option" where
  "line_table img = Option.bind (elf_of img) (\<lambda>e.
     Option.bind (index_of (Some ''.debug_line'') (section_names img e)) (\<lambda>k.
       Option.bind (contents img (elf_headers e ! k)) (line_table_of (section_targets img e k))))"

text \<open>Of several rows for one address the last counts.\<close>

fun effective :: "line_row list \<Rightarrow> line_row list" where
  "effective (a # b # ws) =
     (if lw_sec a = lw_sec b \<and> lw_addr a = lw_addr b \<and> \<not> lw_end a then effective (b # ws) else a # effective (b # ws))"
| "effective ws = ws"

text \<open>Where the stretches of a program begin that have a line: address, line, column.\<close>

definition named_rows :: "nat \<Rightarrow> line_row list \<Rightarrow> (nat \<times> int \<times> nat) list" where
  "named_rows k ws = map (\<lambda>w. (lw_addr w, lw_line w, lw_col w))
     (filter (\<lambda>w. lw_sec w = Some k \<and> \<not> lw_end w \<and> lw_line w \<noteq> 0) (effective ws))"

definition program_rows :: "image \<Rightarrow> string \<Rightarrow> (nat \<times> int \<times> nat) list option" where
  "program_rows img nm = Option.bind (elf_of img) (\<lambda>e.
     Option.bind (index_of (Some nm) (section_names img e)) (\<lambda>k. map_option (named_rows k) (line_table img)))"

definition named_infos :: "line_info list \<Rightarrow> (nat \<times> int \<times> nat) list" where
  "named_infos ls = map (\<lambda>l. (li_insn l, int (li_line l), li_pos l mod 1024)) (filter (\<lambda>l. li_line l \<noteq> 0) ls)"

subsection \<open>The table of the newer object\<close>

definition core_line_bytes :: bytes where
  "core_line_bytes = [0x32, 0x01, 0, 0, 0x05, 0, 0x08, 0, 0x69, 0, 0, 0, 0x08, 0x01, 0x01, 0xfb, 0x0e, 0x0d, 0, 0x01, 0x01, 0x01, 0x01, 0, 0, 0, 0x01, 0, 0, 0x01, 0x01, 0x01, 0x1f, 0x03, 0, 0, 0, 0, 0x33, 0, 0, 0, 0x35, 0, 0, 0, 0x03, 0x01, 0x1f, 0x02, 0x0f, 0x05, 0x1e, 0x03, 0x46, 0, 0, 0, 0, 0x31, 0x9c, 0xed, 0x7d, 0xfd, 0x5a, 0xd8, 0x76, 0x32, 0x4a, 0x4f, 0xab, 0x46, 0x5b, 0xef, 0x36, 0x56, 0, 0, 0, 0x01, 0x7c, 0x84, 0x80, 0xf7, 0xaf, 0x08, 0x2c, 0xb9, 0x4f, 0x90, 0xd9, 0xb5, 0xb3, 0x15, 0x83, 0x7c, 0x60, 0, 0, 0, 0x02, 0x32, 0xb0, 0x94, 0x5d, 0xf6, 0x10, 0x15, 0xe3, 0xdd, 0x6b, 0xe9, 0xac, 0x5e, 0xa4, 0x27, 0x78, 0x04, 0, 0, 0x09, 0x02, 0, 0, 0, 0, 0, 0, 0, 0, 0x03, 0x2d, 0x01, 0x05, 0x0e, 0x0a, 0x17, 0x05, 0x06, 0x2f, 0x05, 0x0d, 0x22, 0x06, 0x03, 0x4a, 0x2e, 0x05, 0x0f, 0x06, 0x03, 0x38, 0x20, 0x06, 0x03, 0x48, 0x4a, 0x05, 0x06, 0x06, 0x03, 0x39, 0x4a, 0x06, 0x4a, 0x03, 0x47, 0x20, 0x05, 0x0a, 0x06, 0x03, 0x3a, 0x2e, 0x05, 0x06, 0x4b, 0x05, 0, 0x06, 0x03, 0x45, 0x20, 0x05, 0x0f, 0x06, 0x03, 0x3d, 0x20, 0x05, 0x0d, 0x22, 0x05, 0x0e, 0x1f, 0x05, 0x0d, 0x1f, 0x05, 0x1e, 0x25, 0x06, 0x03, 0xbe, 0x7f, 0x20, 0x05, 0x02, 0x06, 0x03, 0xc3, 0, 0x4a, 0x06, 0x03, 0xbd, 0x7f, 0x3c, 0x05, 0x2d, 0x06, 0x03, 0xc4, 0, 0x20, 0x05, 0x19, 0x06, 0x2e, 0x05, 0x02, 0x20, 0x05, 0x01, 0x06, 0x3f, 0x02, 0x02, 0, 0x01, 0x01, 0x04, 0, 0, 0x09, 0x02, 0, 0, 0, 0, 0, 0, 0, 0, 0x03, 0xc9, 0, 0x01, 0x05, 0x0f, 0x0a, 0x24, 0x05, 0x06, 0x06, 0x20, 0x03, 0xb2, 0x7f, 0x20, 0x05, 0x0a, 0x06, 0x03, 0xcf, 0, 0x2e, 0x05, 0x06, 0x4b, 0x05, 0x0b, 0x21, 0x05, 0x06, 0x06, 0x2e, 0x05, 0x02, 0x06, 0x23, 0x3d, 0x06, 0x03, 0xab, 0x7f, 0x82, 0x06, 0x03, 0xd7, 0, 0x2e, 0x05, 0x01, 0x3e, 0x02, 0x02, 0, 0x01, 0x01]"

lemma core_line_read: "at core_image 519632 310 = Some core_line_bytes"
  by (simp add: core_image_rest core_rest_def core_tail_def core_line_bytes_def)

definition core_rows :: "line_row list" where
  "core_rows = [
    \<lparr>lw_sec = Some 3, lw_addr = 0, lw_line = 46, lw_col = 0, lw_end = False\<rparr>,
    \<lparr>lw_sec = Some 3, lw_addr = 0, lw_line = 51, lw_col = 14, lw_end = False\<rparr>,
    \<lparr>lw_sec = Some 3, lw_addr = 16, lw_line = 52, lw_col = 6, lw_end = False\<rparr>,
    \<lparr>lw_sec = Some 3, lw_addr = 24, lw_line = 54, lw_col = 13, lw_end = False\<rparr>,
    \<lparr>lw_sec = Some 3, lw_addr = 40, lw_line = 0, lw_col = 13, lw_end = False\<rparr>,
    \<lparr>lw_sec = Some 3, lw_addr = 48, lw_line = 56, lw_col = 15, lw_end = False\<rparr>,
    \<lparr>lw_sec = Some 3, lw_addr = 80, lw_line = 0, lw_col = 15, lw_end = False\<rparr>,
    \<lparr>lw_sec = Some 3, lw_addr = 112, lw_line = 57, lw_col = 6, lw_end = False\<rparr>,
    \<lparr>lw_sec = Some 3, lw_addr = 144, lw_line = 57, lw_col = 6, lw_end = False\<rparr>,
    \<lparr>lw_sec = Some 3, lw_addr = 152, lw_line = 0, lw_col = 6, lw_end = False\<rparr>,
    \<lparr>lw_sec = Some 3, lw_addr = 168, lw_line = 58, lw_col = 10, lw_end = False\<rparr>,
    \<lparr>lw_sec = Some 3, lw_addr = 200, lw_line = 59, lw_col = 6, lw_end = False\<rparr>,
    \<lparr>lw_sec = Some 3, lw_addr = 208, lw_line = 0, lw_col = 0, lw_end = False\<rparr>,
    \<lparr>lw_sec = Some 3, lw_addr = 216, lw_line = 61, lw_col = 15, lw_end = False\<rparr>,
    \<lparr>lw_sec = Some 3, lw_addr = 224, lw_line = 63, lw_col = 13, lw_end = False\<rparr>,
    \<lparr>lw_sec = Some 3, lw_addr = 232, lw_line = 62, lw_col = 14, lw_end = False\<rparr>,
    \<lparr>lw_sec = Some 3, lw_addr = 240, lw_line = 61, lw_col = 13, lw_end = False\<rparr>,
    \<lparr>lw_sec = Some 3, lw_addr = 248, lw_line = 66, lw_col = 30, lw_end = False\<rparr>,
    \<lparr>lw_sec = Some 3, lw_addr = 256, lw_line = 0, lw_col = 30, lw_end = False\<rparr>,
    \<lparr>lw_sec = Some 3, lw_addr = 288, lw_line = 67, lw_col = 2, lw_end = False\<rparr>,
    \<lparr>lw_sec = Some 3, lw_addr = 312, lw_line = 0, lw_col = 2, lw_end = False\<rparr>,
    \<lparr>lw_sec = Some 3, lw_addr = 320, lw_line = 68, lw_col = 45, lw_end = False\<rparr>,
    \<lparr>lw_sec = Some 3, lw_addr = 336, lw_line = 68, lw_col = 25, lw_end = False\<rparr>,
    \<lparr>lw_sec = Some 3, lw_addr = 344, lw_line = 68, lw_col = 2, lw_end = False\<rparr>,
    \<lparr>lw_sec = Some 3, lw_addr = 368, lw_line = 71, lw_col = 1, lw_end = False\<rparr>,
    \<lparr>lw_sec = Some 3, lw_addr = 384, lw_line = 71, lw_col = 1, lw_end = True\<rparr>,
    \<lparr>lw_sec = Some 5, lw_addr = 0, lw_line = 74, lw_col = 0, lw_end = False\<rparr>,
    \<lparr>lw_sec = Some 5, lw_addr = 8, lw_line = 78, lw_col = 15, lw_end = False\<rparr>,
    \<lparr>lw_sec = Some 5, lw_addr = 16, lw_line = 78, lw_col = 6, lw_end = False\<rparr>,
    \<lparr>lw_sec = Some 5, lw_addr = 24, lw_line = 0, lw_col = 6, lw_end = False\<rparr>,
    \<lparr>lw_sec = Some 5, lw_addr = 40, lw_line = 79, lw_col = 10, lw_end = False\<rparr>,
    \<lparr>lw_sec = Some 5, lw_addr = 72, lw_line = 80, lw_col = 6, lw_end = False\<rparr>,
    \<lparr>lw_sec = Some 5, lw_addr = 80, lw_line = 81, lw_col = 11, lw_end = False\<rparr>,
    \<lparr>lw_sec = Some 5, lw_addr = 96, lw_line = 81, lw_col = 6, lw_end = False\<rparr>,
    \<lparr>lw_sec = Some 5, lw_addr = 104, lw_line = 84, lw_col = 2, lw_end = False\<rparr>,
    \<lparr>lw_sec = Some 5, lw_addr = 128, lw_line = 85, lw_col = 2, lw_end = False\<rparr>,
    \<lparr>lw_sec = Some 5, lw_addr = 192, lw_line = 0, lw_col = 2, lw_end = False\<rparr>,
    \<lparr>lw_sec = Some 5, lw_addr = 208, lw_line = 87, lw_col = 2, lw_end = False\<rparr>,
    \<lparr>lw_sec = Some 5, lw_addr = 232, lw_line = 89, lw_col = 1, lw_end = False\<rparr>,
    \<lparr>lw_sec = Some 5, lw_addr = 248, lw_line = 89, lw_col = 1, lw_end = True\<rparr>]"

lemma core_line_targets: "section_targets core_image core_elf 26 =
    [34 \<mapsto> 28, 38 \<mapsto> 28, 42 \<mapsto> 28, 54 \<mapsto> 28, 75 \<mapsto> 28, 96 \<mapsto> 28, 122 \<mapsto> 3, 246 \<mapsto> 5]"
proof -
  have "entries core_image (\<lambda>bs. (field 0 8 bs, field 12 4 bs)) 16 8 739496 =
      Some [(34, 15), (38, 15), (42, 15), (54, 15), (75, 15), (96, 15), (122, 2), (246, 4)]"
    by (simp add: core_image_rest core_rest_def core_tail_def core_end_def entries_def field_def)
  moreover have "find (\<lambda>sh. sh_type sh = SHT_REL \<and> sh_info sh = 26) (elf_headers core_elf) = Some
      \<lparr>sh_name = 328, sh_type = 9, sh_offset = 739496, sh_size = 128, sh_link = 30, sh_info = 26\<rparr>"
    by (simp add: core_elf_def core_headers_def SHT_REL_def)
  ultimately show ?thesis
    by (simp add: section_targets_def core_symbols fun_eq_iff)
qed

lemma core_line_rows: "line_table_of (section_targets core_image core_elf 26) core_line_bytes = Some core_rows"
  unfolding line_table_of_def core_line_targets
  by (simp add: core_line_bytes_def field_def signed8_def line_step_def line_extended_def line_standard_def
      line_special_def advance_def row_of_def line_regs0_def core_rows_def)

lemma core_line_section: "index_of (Some ''.debug_line'') (section_names core_image core_elf) = Some 26"
  by (simp add: core_section_names)

lemma core_line_table: "line_table core_image = Some core_rows"
proof -
  have "contents core_image (elf_headers core_elf ! 26) = Some core_line_bytes"
    by (simp add: contents_def core_elf_def core_headers_def core_line_read)
  then show ?thesis
    by (simp add: line_table_def core_elf_of core_line_section core_line_rows)
qed

lemma core_program_rows:
  "program_rows core_image ENTER_SECTION = Some (named_rows 3 core_rows)"
  "program_rows core_image EXIT_SECTION = Some (named_rows 5 core_rows)"
  by (simp_all add: program_rows_def core_elf_of core_section_names ENTER_SECTION_def EXIT_SECTION_def core_line_table eval_nat_numeral)

lemma rows_are_infos: "named_rows 3 core_rows = named_infos enter_lines" "named_rows 5 core_rows = named_infos exit_lines"
  by (simp_all add: named_rows_def core_rows_def named_infos_def enter_lines_def exit_lines_def li_line_def)

text \<open>
  The compiler recorded the lines of the programs twice, and the two tables agree: the line program of
  \<open>.debug_line\<close>, run to its end, and the records of \<open>.BTF.ext\<close> give for each program the same addresses with the
  same lines and columns, and the line program ends each of its sequences where that program ends.
\<close>

theorem line_tables_agree:
  "\<exists>ls ls' rows. program_lines core_strings core_image ENTER_SECTION = Some ls \<and>
     program_lines core_strings core_image EXIT_SECTION = Some ls' \<and> line_table core_image = Some rows \<and>
     program_rows core_image ENTER_SECTION = Some (named_infos ls) \<and>
     program_rows core_image EXIT_SECTION = Some (named_infos ls') \<and> length (named_infos (ls @ ls')) = 29 \<and>
     map lw_addr (filter lw_end rows) = [8 * length core_enter, 8 * length core_exit]"
proof -
  have "map lw_addr (filter lw_end core_rows) = [8 * length core_enter, 8 * length core_exit]"
    by (simp add: core_rows_def core_enter_def core_exit_def)
  moreover have "length (named_infos (enter_lines @ exit_lines)) = 29"
    by (simp add: named_infos_def enter_lines_def exit_lines_def li_line_def)
  ultimately show ?thesis
    using program_lines_core core_line_table core_program_rows rows_are_infos by simp
qed

subsection \<open>Location lists\<close>

datatype loc_entry = Loc_base nat | Loc_range nat nat bytes

definition loc_entry_of :: "nat \<Rightarrow> bytes \<Rightarrow> (loc_entry \<times> bytes) option" where
  "loc_entry_of b bs =
     (if b = 1 then map_option (\<lambda>(i, bs). (Loc_base i, bs)) (uleb bs)
      else if b = 4 then
        Option.bind (uleb bs) (\<lambda>(lo, bs).
          Option.bind (uleb bs) (\<lambda>(hi, bs).
            Option.bind (uleb bs) (\<lambda>(n, bs).
              if length bs < n then None else Some (Loc_range lo hi (take n bs), drop n bs))))
      else None)"

lemma loc_entry_shorter: "loc_entry_of b bs = Some (x, bs') \<Longrightarrow> length bs' \<le> length bs"
  unfolding loc_entry_of_def
  by (auto simp: bind_eq_Some_conv dest!: uleb_shorter split: if_splits)

function loc_list :: "bytes \<Rightarrow> (loc_entry list \<times> bytes) option" where
  "loc_list [] = None"
| "loc_list (b # bs) =
     (if b = 0 then Some ([], bs)
      else case loc_entry_of b bs of
        None \<Rightarrow> None
      | Some (x, bs) \<Rightarrow> map_option (\<lambda>(xs, r). (x # xs, r)) (loc_list bs))"
  by pat_completeness auto
termination by (relation "measure length") (auto dest: loc_entry_shorter)

lemma loc_list_shorter: "loc_list bs = Some (xs, r) \<Longrightarrow> length r < length bs"
proof (induction bs arbitrary: xs r rule: loc_list.induct)
  case (2 b bs)
  show ?case
  proof (cases "b = 0")
    case False
    with 2(2) obtain x bs' ys where x: "loc_entry_of b bs = Some (x, bs')" "loc_list bs' = Some (ys, r)"
      by (auto split: option.splits)
    from 2(1) [OF False x(1) refl x(2)] loc_entry_shorter [OF x(1)] show ?thesis by simp
  qed (use 2 in simp)
qed simp

text \<open>The lists up to the end, each with its offset from the end of a header that leaves \<open>sz\<close> bytes.\<close>

function loc_lists :: "nat \<Rightarrow> bytes \<Rightarrow> (nat \<times> loc_entry list) list option" where
  "loc_lists sz [] = Some []"
| "loc_lists sz (b # bs) = (case loc_list (b # bs) of
       None \<Rightarrow> None
     | Some (xs, r) \<Rightarrow> map_option (\<lambda>ls. (sz - length (b # bs), xs) # ls) (loc_lists sz r))"
  by pat_completeness auto
termination by (relation "measure (length \<circ> snd)") (auto dest: loc_list_shorter simp del: loc_list.simps)

text \<open>The section: the offsets its header announces, and the lists found.\<close>

definition loclists_of :: "bytes \<Rightarrow> (nat list \<times> (nat \<times> loc_entry list) list) option" where
  "loclists_of bs =
     (if field 0 4 bs + 4 \<noteq> length bs \<or> field 4 2 bs \<noteq> 5 \<or> field 6 1 bs \<noteq> 8 then None
      else map_option (Pair (rows (field 0 4) 4 (field 8 4 bs) (drop 12 bs)))
        (loc_lists (length bs - 12) (drop (12 + 4 * field 8 4 bs) bs)))"

text \<open>Entry \<open>i\<close> of \<open>.debug_addr\<close>: the section it is relocated against, and the offset in it.\<close>

definition debug_address :: "image \<Rightarrow> nat \<Rightarrow> (nat \<times> nat) option" where
  "debug_address img i = Option.bind (elf_of img) (\<lambda>e.
     Option.bind (index_of (Some ''.debug_addr'') (section_names img e)) (\<lambda>k.
       Option.bind (contents img (elf_headers e ! k)) (\<lambda>bs.
         map_option (\<lambda>sec. (sec, field (8 + 8 * i) 8 bs)) (section_targets img e k (8 + 8 * i)))))"

text \<open>The ranges of a list: section, first address, address after the last.\<close>

fun loc_ranges :: "(nat \<Rightarrow> (nat \<times> nat) option) \<Rightarrow> (nat \<times> nat) option \<Rightarrow> loc_entry list \<Rightarrow> (nat \<times> nat \<times> nat) list option" where
  "loc_ranges addr base [] = Some []"
| "loc_ranges addr base (Loc_base i # xs) = (case addr i of None \<Rightarrow> None | Some b \<Rightarrow> loc_ranges addr (Some b) xs)"
| "loc_ranges addr base (Loc_range lo hi ex # xs) = (case base of
       None \<Rightarrow> None
     | Some (sec, a) \<Rightarrow> map_option (\<lambda>rs. (sec, a + lo, a + hi) # rs) (loc_ranges addr base xs))"

definition core_loclists :: "(nat \<times> loc_entry list) list" where
  "core_loclists = [
    (40, [Loc_base 4, Loc_range 80 224 [0x7a, 0x2c], Loc_range 224 256 [0x51]]),
    (57, [Loc_base 4, Loc_range 16 216 [0x56]]),
    (66, [Loc_base 4, Loc_range 40 384 [0x77, 0, 0xa8, 0xaf, 0x80, 0x80, 0, 0xa8, 0xb4, 0x80, 0x80, 0, 0x9f]]),
    (87, [Loc_base 4, Loc_range 216 368 [0x76, 0, 0xa8, 0xaf, 0x80, 0x80, 0, 0xa8, 0xb4, 0x80, 0x80, 0, 0x9f]]),
    (109, [Loc_base 4, Loc_range 200 344 [0x58]]),
    (119, [Loc_base 4, Loc_range 256 272 [0x50]]),
    (129, [Loc_base 4, Loc_range 272 312 [0x7a, 0x20]]),
    (140, [Loc_base 5, Loc_range 0 8 [0x51], Loc_range 8 248 [0x56]]),
    (154, [Loc_base 5, Loc_range 24 248 [0x7a, 0x04]]),
    (164, [Loc_base 5, Loc_range 72 248 [0x57]])]"

definition core_loclist_bytes :: bytes where
  "core_loclist_bytes = take 185 (drop 768 (concat (core_head @ core_debug)))"

definition core_abbrev_bytes :: bytes where
  "core_abbrev_bytes = take 1067 (drop 953 (concat (core_head @ core_debug)))"

lemma length_core_low: "length (concat (core_head @ core_debug)) = 2037"
  by (simp add: length_core_head length_core_debug)

lemma core_low_section:
  assumes "index_of (Some nm) (section_names core_image core_elf) = Some k"
    and "sh_offset (core_headers ! k) = pos" and "sh_size (core_headers ! k) = n" and "pos + n \<le> 2037"
  shows "section_data core_image nm = Some (take n (drop pos (concat (core_head @ core_debug))))"
  using assms length_core_low
  by (simp add: section_data_def core_elf_of contents_def core_elf_def core_image_low core_low_def cut_eq)

lemma core_loclist_section: "section_data core_image ''.debug_loclists'' = Some core_loclist_bytes"
  unfolding core_loclist_bytes_def
  by (rule core_low_section [of _ 10]) (simp_all add: core_section_names core_headers_def)

lemma core_abbrev_section: "section_data core_image ''.debug_abbrev'' = Some core_abbrev_bytes"
  unfolding core_abbrev_bytes_def
  by (rule core_low_section [of _ 11]) (simp_all add: core_section_names core_headers_def)

lemma core_loclists_read: "loclists_of core_loclist_bytes = Some (map fst core_loclists, core_loclists)"
proof -
  have bytes: "core_loclist_bytes =
      [0xb5, 0, 0, 0, 0x05, 0, 0x08, 0, 0x0a, 0, 0, 0, 0x28, 0, 0, 0, 0x39, 0, 0, 0, 0x42, 0, 0, 0,
      0x57, 0, 0, 0, 0x6d, 0, 0, 0, 0x77, 0, 0, 0, 0x81, 0, 0, 0, 0x8c, 0, 0, 0, 0x9a, 0, 0, 0,
      0xa4, 0, 0, 0, 0x01, 0x04, 0x04, 0x50, 0xe0, 0x01, 0x02, 0x7a, 0x2c, 0x04, 0xe0, 0x01, 0x80,
      0x02, 0x01, 0x51, 0, 0x01, 0x04, 0x04, 0x10, 0xd8, 0x01, 0x01, 0x56, 0, 0x01, 0x04, 0x04,
      0x28, 0x80, 0x03, 0x0d, 0x77, 0, 0xa8, 0xaf, 0x80, 0x80, 0, 0xa8, 0xb4, 0x80, 0x80, 0, 0x9f,
      0, 0x01, 0x04, 0x04, 0xd8, 0x01, 0xf0, 0x02, 0x0d, 0x76, 0, 0xa8, 0xaf, 0x80, 0x80, 0, 0xa8,
      0xb4, 0x80, 0x80, 0, 0x9f, 0, 0x01, 0x04, 0x04, 0xc8, 0x01, 0xd8, 0x02, 0x01, 0x58, 0, 0x01,
      0x04, 0x04, 0x80, 0x02, 0x90, 0x02, 0x01, 0x50, 0, 0x01, 0x04, 0x04, 0x90, 0x02, 0xb8, 0x02,
      0x02, 0x7a, 0x20, 0, 0x01, 0x05, 0x04, 0, 0x08, 0x01, 0x51, 0x04, 0x08, 0xf8, 0x01, 0x01,
      0x56, 0, 0x01, 0x05, 0x04, 0x18, 0xf8, 0x01, 0x02, 0x7a, 0x04, 0, 0x01, 0x05, 0x04, 0x48,
      0xf8, 0x01, 0x01, 0x57, 0]"
    by (simp add: core_loclist_bytes_def core_head_def core_debug_def)
  show ?thesis
    by (simp add: bytes loclists_of_def field_def loc_entry_of_def core_loclists_def)
qed

lemma core_addr_targets: "section_targets core_image core_elf 18 40 = Some 3" "section_targets core_image core_elf 18 48 = Some 5"
proof -
  have "entries core_image (\<lambda>bs. (field 0 8 bs, field 12 4 bs)) 16 7 738632 =
      Some [(8, 20), (16, 21), (24, 17), (32, 19), (40, 2), (48, 4), (56, 4)]"
    by (simp add: core_image_rest core_rest_def core_tail_def core_end_def entries_def field_def)
  moreover have "find (\<lambda>sh. sh_type sh = SHT_REL \<and> sh_info sh = 18) (elf_headers core_elf) = Some
      (core_headers ! 19)"
    by (simp add: core_elf_def core_headers_def SHT_REL_def)
  ultimately show "section_targets core_image core_elf 18 40 = Some 3" "section_targets core_image core_elf 18 48 = Some 5"
    by (simp_all add: section_targets_def core_symbols core_headers_def)
qed

lemma core_addresses: "debug_address core_image 4 = Some (3, 0)" "debug_address core_image 5 = Some (5, 0)"
proof -
  have "at core_image 489332 64 = Some (drop 5 (concat core_addr))"
    by (simp add: core_image_def cut_eq length_core_head length_core_debug length_core_addr)
  then have "contents core_image (elf_headers core_elf ! 18) = Some (drop 5 (concat core_addr))"
    by (simp add: contents_def core_elf_def core_headers_def)
  moreover have "index_of (Some ''.debug_addr'') (section_names core_image core_elf) = Some 18"
    by (simp add: core_section_names)
  moreover have "field 40 8 (drop 5 (concat core_addr)) = 0" "field 48 8 (drop 5 (concat core_addr)) = 0"
    by (simp_all add: core_addr_def field_def)
  ultimately show "debug_address core_image 4 = Some (3, 0)" "debug_address core_image 5 = Some (5, 0)"
    by (simp_all add: debug_address_def core_elf_of core_addr_targets)
qed

subsection \<open>Abbreviations\<close>

record abbrev =
  ab_code :: nat
  ab_tag :: nat
  ab_children :: nat
  ab_attrs :: "(nat \<times> nat) list"

text \<open>An attribute and its form; a constant follows the form that says so.\<close>

definition attr_spec :: "bytes \<Rightarrow> ((nat \<times> nat) \<times> bytes) option" where
  "attr_spec bs = Option.bind (uleb bs) (\<lambda>(a, bs). Option.bind (uleb bs) (\<lambda>(f, bs).
     if f = 0x21 then map_option (\<lambda>(c, bs). ((a, f), bs)) (sleb bs) else Some ((a, f), bs)))"

lemma attr_spec_shorter: "attr_spec bs = Some (x, r) \<Longrightarrow> length r < length bs"
  unfolding attr_spec_def by (auto simp: bind_eq_Some_conv dest!: uleb_shorter sleb_shorter split: if_splits)

function attr_list :: "bytes \<Rightarrow> ((nat \<times> nat) list \<times> bytes) option" where
  "attr_list bs = (case attr_spec bs of
       None \<Rightarrow> None
     | Some (x, bs) \<Rightarrow>
         if x = (0, 0) then Some ([], bs) else map_option (\<lambda>(xs, r). (x # xs, r)) (attr_list bs))"
  by pat_completeness auto
termination by (relation "measure length") (auto dest: attr_spec_shorter)

declare attr_list.simps [simp del]

lemma attr_list_shorter: "attr_list bs = Some (xs, r) \<Longrightarrow> length r < length bs"
proof (induction bs arbitrary: xs r rule: attr_list.induct)
  case (1 bs)
  from 1(2) obtain x bs' where x: "attr_spec bs = Some (x, bs')" by (auto simp: attr_list.simps split: option.splits)
  note shorter = attr_spec_shorter [OF x]
  show ?case
  proof (cases "x = (0, 0)")
    case True
    then show ?thesis using 1(2) x shorter by (simp add: attr_list.simps)
  next
    case False
    then obtain ys where "attr_list bs' = Some (ys, r)" using 1(2) x by (auto simp: attr_list.simps [of bs])
    from 1(1) [OF x refl False this] shorter show ?thesis by simp
  qed
qed

definition abbrev_head :: "nat \<Rightarrow> bytes \<Rightarrow> (abbrev \<times> bytes) option" where
  "abbrev_head c bs = Option.bind (uleb bs) (\<lambda>(t, bs). case bs of
       [] \<Rightarrow> None
     | ch # bs \<Rightarrow> map_option (\<lambda>(xs, r). (\<lparr>ab_code = c, ab_tag = t, ab_children = ch, ab_attrs = xs\<rparr>, r)) (attr_list bs))"

lemma abbrev_head_shorter:
  assumes "abbrev_head c bs = Some (x, r)"
  shows "length r < length bs"
proof -
  from assms obtain t bs1 where t: "uleb bs = Some (t, bs1)" by (auto simp: abbrev_head_def bind_eq_Some_conv)
  with assms obtain ch bs2 xs where "bs1 = ch # bs2" "attr_list bs2 = Some (xs, r)"
    by (cases bs1) (auto simp: abbrev_head_def)
  with uleb_shorter [OF t] attr_list_shorter show ?thesis by fastforce
qed

text \<open>The table, up to the code 0, and what follows it.\<close>

function abbrev_table :: "bytes \<Rightarrow> (abbrev list \<times> bytes) option" where
  "abbrev_table bs = (case uleb bs of
       None \<Rightarrow> None
     | Some (c, bs) \<Rightarrow>
         if c = 0 then Some ([], bs)
         else (case abbrev_head c bs of
             None \<Rightarrow> None
           | Some (x, bs) \<Rightarrow> map_option (\<lambda>(xs, r). (x # xs, r)) (abbrev_table bs)))"
  by pat_completeness auto
termination by (relation "measure length") (auto dest!: uleb_shorter abbrev_head_shorter)

declare abbrev_table.simps [simp del]

text \<open>Reading a stretch of the table by itself.\<close>

lemma uleb_append: "uleb bs = Some (n, r) \<Longrightarrow> uleb (bs @ s) = Some (n, r @ s)"
  by (induction bs arbitrary: n r) (auto split: if_splits)

lemma sleb_append: "sleb bs = Some (n, r) \<Longrightarrow> sleb (bs @ s) = Some (n, r @ s)"
  by (induction bs arbitrary: n r) (auto split: if_splits)

lemma attr_spec_append:
  assumes "attr_spec bs = Some (x, r)"
  shows "attr_spec (bs @ s) = Some (x, r @ s)"
proof -
  from assms obtain a b1 f b2 where "uleb bs = Some (a, b1)" "uleb b1 = Some (f, b2)"
    by (auto simp: attr_spec_def bind_eq_Some_conv)
  moreover from this have "uleb (bs @ s) = Some (a, b1 @ s)" "uleb (b1 @ s) = Some (f, b2 @ s)"
    by (simp_all add: uleb_append)
  ultimately show ?thesis
    using assms sleb_append [of b2 _ r s] by (auto simp: attr_spec_def split: if_splits)
qed

lemma attr_list_append: "attr_list bs = Some (xs, r) \<Longrightarrow> attr_list (bs @ s) = Some (xs, r @ s)"
proof (induction bs arbitrary: xs r rule: attr_list.induct)
  case (1 bs)
  from 1(2) obtain x bs' where x: "attr_spec bs = Some (x, bs')" by (auto simp: attr_list.simps split: option.splits)
  note x' = attr_spec_append [OF x, of s]
  show ?case
  proof (cases "x = (0, 0)")
    case True
    then show ?thesis using 1(2) x x' by (simp add: attr_list.simps)
  next
    case False
    then obtain ys where ys: "attr_list bs' = Some (ys, r)" "xs = x # ys"
      using 1(2) x by (auto simp: attr_list.simps [of bs])
    from 1(1) [OF x refl False ys(1)] False x' ys(2) show ?thesis by (simp add: attr_list.simps [of "bs @ s"])
  qed
qed

lemma abbrev_head_append:
  assumes "abbrev_head c bs = Some (x, r)"
  shows "abbrev_head c (bs @ s) = Some (x, r @ s)"
proof -
  from assms obtain t bs1 where t: "uleb bs = Some (t, bs1)" by (auto simp: abbrev_head_def bind_eq_Some_conv)
  with assms obtain ch bs2 xs where bs2: "bs1 = ch # bs2" "attr_list bs2 = Some (xs, r)"
    by (cases bs1) (auto simp: abbrev_head_def)
  with uleb_append [OF t, of s] attr_list_append [OF bs2(2), of s] t assms show ?thesis
    by (simp add: abbrev_head_def)
qed

fun abbrev_seq :: "nat \<Rightarrow> bytes \<Rightarrow> abbrev list option" where
  "abbrev_seq 0 bs = (if bs = [] then Some [] else None)"
| "abbrev_seq (Suc k) bs = (case uleb bs of
       None \<Rightarrow> None
     | Some (c, bs) \<Rightarrow>
         if c = 0 then None
         else (case abbrev_head c bs of
             None \<Rightarrow> None
           | Some (x, bs) \<Rightarrow> map_option (\<lambda>xs. x # xs) (abbrev_seq k bs)))"

lemma abbrev_table_append:
  "abbrev_seq k p = Some xs \<Longrightarrow> abbrev_table s = Some (ys, r) \<Longrightarrow> abbrev_table (p @ s) = Some (xs @ ys, r)"
proof (induction k arbitrary: p xs)
  case (Suc k)
  from Suc.prems obtain c bs x bs' zs where "uleb p = Some (c, bs)" "c \<noteq> 0" "abbrev_head c bs = Some (x, bs')"
      "abbrev_seq k bs' = Some zs" "xs = x # zs"
    by (auto split: option.splits if_splits)
  moreover from this Suc have "abbrev_table (bs' @ s) = Some (zs @ ys, r)" by simp
  ultimately show ?case
    using uleb_append [of p c bs s] abbrev_head_append [of c bs x bs' s] by (simp add: abbrev_table.simps [of "p @ s"])
qed (simp split: if_splits)

lemma abbrev_seq_numeral [simp]:
  "abbrev_seq (numeral k) bs = (case uleb bs of
       None \<Rightarrow> None
     | Some (c, bs) \<Rightarrow>
         if c = 0 then None
         else (case abbrev_head c bs of
             None \<Rightarrow> None
           | Some (x, bs) \<Rightarrow> map_option (\<lambda>xs. x # xs) (abbrev_seq (pred_numeral k) bs)))"
  by (simp add: numeral_eq_Suc)

text \<open>A table numbered from \<open>a\<close> on, in stretches.\<close>

definition abbrevs_numbered :: "nat \<Rightarrow> nat \<Rightarrow> abbrev list \<Rightarrow> bool" where
  "abbrevs_numbered a b xs = (map ab_code xs = [a..<b] \<and> list_all (\<lambda>x. ab_children x \<in> {0, 1}) xs)"

fun stretches_read :: "nat \<Rightarrow> nat \<Rightarrow> (nat \<times> bytes) list \<Rightarrow> bool" where
  "stretches_read a b [] = (a = b)"
| "stretches_read a b ((k, bs) # cs) =
     ((case abbrev_seq k bs of None \<Rightarrow> False | Some xs \<Rightarrow> abbrevs_numbered a (a + k) xs) \<and> stretches_read (a + k) b cs)"

lemma stretches_ordered: "stretches_read a b cs \<Longrightarrow> a \<le> b"
  by (induction a b cs rule: stretches_read.induct) auto

lemma stretches_table:
  "stretches_read a b cs \<Longrightarrow> \<exists>xs. abbrev_table (concat (map snd cs) @ [0]) = Some (xs, []) \<and> abbrevs_numbered a b xs"
proof (induction a b cs rule: stretches_read.induct)
  case (1 a b)
  then show ?case by (simp add: abbrev_table.simps abbrevs_numbered_def)
next
  case (2 a b k bs cs)
  from 2(2) obtain xs where xs: "abbrev_seq k bs = Some xs" "abbrevs_numbered a (a + k) xs"
    by (auto split: option.splits)
  from 2 obtain ys where ys: "abbrev_table (concat (map snd cs) @ [0]) = Some (ys, [])" "abbrevs_numbered (a + k) b ys"
    by auto
  have "a + k \<le> b" using 2(2) stretches_ordered [of "a + k" b cs] by simp
  then have "abbrevs_numbered a b (xs @ ys)"
    using xs(2) ys(2) upt_add_eq_append [of a "a + k" "b - (a + k)"] by (simp add: abbrevs_numbered_def)
  with abbrev_table_append [OF xs(1) ys(1)] show ?case by simp
qed

text \<open>The table of the object, six entries to a stretch.\<close>

definition abbrev_stretches :: "(nat \<times> bytes) list" where
  "abbrev_stretches = [
    (6, [0x01, 0x11, 0x01, 0x25, 0x25, 0x13, 0x05, 0x03, 0x25, 0x72, 0x17, 0x10, 0x17, 0x1b, 0x25,
      0x11, 0x01, 0x55, 0x23, 0x73, 0x17, 0x74, 0x17, 0x8c, 0x01, 0x17, 0, 0, 0x02, 0x24, 0, 0x03,
      0x26, 0x3e, 0x0b, 0x0b, 0x0b, 0, 0, 0x03, 0x34, 0, 0x03, 0x25, 0x49, 0x13, 0x3f, 0x19, 0x3a,
      0x0b, 0x3b, 0x0b, 0x02, 0x18, 0, 0, 0x04, 0x01, 0x01, 0x49, 0x13, 0, 0, 0x05, 0x21, 0, 0x49,
      0x13, 0x37, 0x0b, 0, 0, 0x06, 0x24, 0, 0x03, 0x25, 0x3e, 0x0b, 0x0b, 0x0b, 0, 0]),
    (6, [0x07, 0x24, 0, 0x03, 0x25, 0x0b, 0x0b, 0x3e, 0x0b, 0, 0, 0x08, 0x16, 0, 0x49, 0x13, 0x03,
      0x25, 0x3a, 0x0b, 0x3b, 0x0b, 0, 0, 0x09, 0x13, 0x01, 0x0b, 0x0b, 0x3a, 0x0b, 0x3b, 0x0b, 0,
      0, 0x0a, 0x0d, 0, 0x03, 0x25, 0x49, 0x13, 0x3a, 0x0b, 0x3b, 0x0b, 0x38, 0x0b, 0, 0, 0x0b,
      0x0f, 0, 0x49, 0x13, 0, 0, 0x0c, 0x21, 0, 0x49, 0x13, 0x37, 0x05, 0, 0]),
    (6, [0x0d, 0x16, 0, 0x49, 0x13, 0x03, 0x25, 0x3a, 0x0b, 0x3b, 0x05, 0, 0, 0x0e, 0x13, 0x01,
      0x03, 0x25, 0x0b, 0x0b, 0x3a, 0x0b, 0x3b, 0x0b, 0, 0, 0x0f, 0x34, 0, 0x03, 0x25, 0x49, 0x13,
      0x3a, 0x0b, 0x3b, 0x05, 0, 0, 0x10, 0x15, 0, 0x49, 0x13, 0x27, 0x19, 0, 0, 0x11, 0x34, 0,
      0x03, 0x25, 0x49, 0x13, 0x3a, 0x0b, 0x3b, 0x0b, 0, 0, 0x12, 0x15, 0x01, 0x49, 0x13, 0x27,
      0x19, 0, 0]),
    (6, [0x13, 0x05, 0, 0x49, 0x13, 0, 0, 0x14, 0x0f, 0, 0, 0, 0x15, 0x26, 0, 0, 0, 0x16, 0x04,
      0x01, 0x49, 0x13, 0x03, 0x25, 0x0b, 0x0b, 0x3a, 0x0b, 0x3b, 0x05, 0, 0, 0x17, 0x28, 0, 0x03,
      0x25, 0x1c, 0x0f, 0, 0, 0x18, 0x04, 0x01, 0x49, 0x13, 0x03, 0x25, 0x0b, 0x0b, 0x3a, 0x0b,
      0x3b, 0x06, 0, 0]),
    (6, [0x19, 0x04, 0x01, 0x49, 0x13, 0x03, 0x26, 0x0b, 0x0b, 0x3a, 0x0b, 0x3b, 0x05, 0, 0, 0x1a,
      0x28, 0, 0x03, 0x26, 0x1c, 0x0f, 0, 0, 0x1b, 0x28, 0, 0x03, 0x26, 0x1c, 0x0d, 0, 0, 0x1c,
      0x04, 0x01, 0x49, 0x13, 0x03, 0x26, 0x0b, 0x0b, 0x3a, 0x0b, 0x3b, 0x06, 0, 0, 0x1d, 0x13,
      0x01, 0x03, 0x26, 0x0b, 0x0b, 0x3a, 0x0b, 0x3b, 0x06, 0, 0, 0x1e, 0x0d, 0, 0x49, 0x13, 0x3a,
      0x0b, 0x3b, 0x06, 0x38, 0x0b, 0, 0]),
    (6, [0x1f, 0x17, 0x01, 0x0b, 0x0b, 0x3a, 0x0b, 0x3b, 0x06, 0, 0, 0x20, 0x0d, 0, 0x03, 0x26,
      0x49, 0x13, 0x3a, 0x0b, 0x3b, 0x06, 0x38, 0x0b, 0, 0, 0x21, 0x13, 0x01, 0x0b, 0x0b, 0x3a,
      0x0b, 0x3b, 0x06, 0, 0, 0x22, 0x0d, 0, 0x03, 0x25, 0x49, 0x13, 0x3a, 0x0b, 0x3b, 0x06, 0x38,
      0x0b, 0, 0, 0x23, 0x04, 0x01, 0x49, 0x13, 0x0b, 0x0b, 0x3a, 0x0b, 0x3b, 0x06, 0, 0, 0x24,
      0x16, 0, 0x49, 0x13, 0x03, 0x26, 0x3a, 0x0b, 0x3b, 0x05, 0, 0]),
    (6, [0x25, 0x04, 0x01, 0x49, 0x13, 0x0b, 0x0b, 0x3a, 0x0b, 0x3b, 0x05, 0, 0, 0x26, 0x13, 0x01,
      0x03, 0x26, 0x0b, 0x0b, 0x3a, 0x0b, 0x3b, 0x05, 0, 0, 0x27, 0x0d, 0, 0x03, 0x25, 0x49, 0x13,
      0x3a, 0x0b, 0x3b, 0x05, 0x38, 0x0b, 0, 0, 0x28, 0x0d, 0, 0x03, 0x26, 0x49, 0x13, 0x3a, 0x0b,
      0x3b, 0x05, 0x38, 0x0b, 0, 0, 0x29, 0x0d, 0, 0x49, 0x13, 0x3a, 0x0b, 0x3b, 0x05, 0x38, 0x0b,
      0, 0, 0x2a, 0x17, 0x01, 0x0b, 0x0b, 0x3a, 0x0b, 0x3b, 0x05, 0, 0]),
    (6, [0x2b, 0x13, 0x01, 0x0b, 0x0b, 0x3a, 0x0b, 0x3b, 0x05, 0, 0, 0x2c, 0x26, 0, 0x49, 0x13, 0,
      0, 0x2d, 0x13, 0x01, 0x03, 0x26, 0x0b, 0x05, 0x3a, 0x0b, 0x3b, 0x05, 0, 0, 0x2e, 0x0d, 0,
      0x03, 0x26, 0x49, 0x13, 0x3a, 0x0b, 0x3b, 0x05, 0x38, 0x05, 0, 0, 0x2f, 0x0d, 0, 0x03, 0x25,
      0x49, 0x13, 0x3a, 0x0b, 0x3b, 0x05, 0x38, 0x05, 0, 0, 0x30, 0x0d, 0, 0x03, 0x26, 0x49, 0x13,
      0x3a, 0x0b, 0x3b, 0x05, 0x0b, 0x0b, 0x0d, 0x0b, 0x0c, 0x0b, 0x38, 0x05, 0, 0]),
    (6, [0x31, 0x0d, 0, 0x49, 0x13, 0x3a, 0x0b, 0x3b, 0x05, 0x38, 0x05, 0, 0, 0x32, 0x15, 0x01,
      0x27, 0x19, 0, 0, 0x33, 0x0d, 0, 0x03, 0x26, 0x49, 0x13, 0x3a, 0x0b, 0x3b, 0x05, 0x0b, 0x0b,
      0x0d, 0x0b, 0x0c, 0x0b, 0x38, 0x0b, 0, 0, 0x34, 0x16, 0, 0x49, 0x13, 0x03, 0x26, 0x3a, 0x0b,
      0x3b, 0x0b, 0, 0, 0x35, 0x35, 0, 0x49, 0x13, 0, 0, 0x36, 0x0d, 0, 0x03, 0x25, 0x49, 0x13,
      0x3a, 0x0b, 0x3b, 0x05, 0x0b, 0x0b, 0x0d, 0x0b, 0x0c, 0x0b, 0x38, 0x0b, 0, 0]),
    (6, [0x37, 0x15, 0x01, 0x49, 0x13, 0, 0, 0x38, 0x18, 0, 0, 0, 0x39, 0x13, 0x01, 0x0b, 0x05,
      0x3a, 0x0b, 0x3b, 0x05, 0, 0, 0x3a, 0x13, 0, 0x0b, 0x0b, 0x3a, 0x0b, 0x3b, 0x05, 0, 0, 0x3b,
      0x13, 0x01, 0x03, 0x25, 0x0b, 0x0b, 0x3a, 0x0b, 0x3b, 0x05, 0, 0, 0x3c, 0x17, 0x01, 0x03,
      0x26, 0x0b, 0x0b, 0x3a, 0x0b, 0x3b, 0x05, 0, 0]),
    (6, [0x3d, 0x13, 0, 0x03, 0x26, 0x0b, 0x0b, 0x3a, 0x0b, 0x3b, 0x05, 0, 0, 0x3e, 0x13, 0, 0x03,
      0x26, 0x3c, 0x19, 0, 0, 0x3f, 0x13, 0x01, 0x03, 0x26, 0x0b, 0x05, 0x3a, 0x0b, 0x3b, 0x06, 0,
      0, 0x40, 0x0d, 0, 0x03, 0x26, 0x49, 0x13, 0x3a, 0x0b, 0x3b, 0x06, 0x38, 0x05, 0, 0, 0x41,
      0x0d, 0, 0x03, 0x25, 0x49, 0x13, 0x3a, 0x0b, 0x3b, 0x06, 0x0b, 0x0b, 0x0d, 0x0b, 0x0c, 0x0b,
      0x38, 0x0b, 0, 0, 0x42, 0x0d, 0, 0x03, 0x26, 0x49, 0x13, 0x3a, 0x0b, 0x3b, 0x06, 0x0b, 0x0b,
      0x0d, 0x0b, 0x0c, 0x0b, 0x38, 0x0b, 0, 0]),
    (6, [0x43, 0x0d, 0, 0x49, 0x13, 0x3a, 0x0b, 0x3b, 0x06, 0x38, 0x05, 0, 0, 0x44, 0x16, 0, 0x49,
      0x13, 0x03, 0x26, 0x3a, 0x0b, 0x3b, 0x06, 0, 0, 0x45, 0x15, 0x01, 0, 0, 0x46, 0x13, 0, 0x03,
      0x26, 0x0b, 0x0b, 0x3a, 0x0b, 0x3b, 0x06, 0, 0, 0x47, 0x17, 0x01, 0x03, 0x26, 0x0b, 0x0b,
      0x3a, 0x0b, 0x3b, 0x06, 0, 0, 0x48, 0x17, 0x01, 0x03, 0x26, 0x0b, 0x05, 0x3a, 0x0b, 0x3b,
      0x05, 0, 0]),
    (6, [0x49, 0x0d, 0, 0x03, 0x26, 0x49, 0x13, 0x3a, 0x0b, 0x3b, 0x06, 0x0b, 0x0b, 0x0d, 0x0b,
      0x0c, 0x0b, 0x38, 0x05, 0, 0, 0x4a, 0x13, 0x01, 0x03, 0x26, 0x0b, 0x06, 0x3a, 0x0b, 0x3b,
      0x06, 0, 0, 0x4b, 0x2e, 0x01, 0x11, 0x1b, 0x12, 0x06, 0x40, 0x18, 0x7a, 0x19, 0x03, 0x26,
      0x3a, 0x0b, 0x3b, 0x0b, 0x27, 0x19, 0x49, 0x13, 0x3f, 0x19, 0, 0, 0x4c, 0x05, 0, 0x03, 0x26,
      0x3a, 0x0b, 0x3b, 0x0b, 0x49, 0x13, 0, 0, 0x4d, 0x34, 0, 0x02, 0x18, 0x03, 0x26, 0x3a, 0x0b,
      0x3b, 0x0b, 0x49, 0x13, 0, 0, 0x4e, 0x34, 0, 0x02, 0x22, 0x03, 0x25, 0x3a, 0x0b, 0x3b, 0x0b,
      0x49, 0x13, 0, 0]),
    (5, [0x4f, 0x34, 0, 0x02, 0x22, 0x03, 0x26, 0x3a, 0x0b, 0x3b, 0x0b, 0x49, 0x13, 0, 0, 0x50,
      0x05, 0, 0x02, 0x22, 0x03, 0x26, 0x3a, 0x0b, 0x3b, 0x0b, 0x49, 0x13, 0, 0, 0x51, 0x0a, 0,
      0x03, 0x26, 0x3a, 0x0b, 0x3b, 0x0b, 0x11, 0x1b, 0, 0, 0x52, 0x13, 0x01, 0x03, 0x26, 0x0b,
      0x0b, 0x3a, 0x0b, 0x3b, 0x0b, 0, 0, 0x53, 0x0d, 0, 0x03, 0x26, 0x49, 0x13, 0x3a, 0x0b, 0x3b,
      0x0b, 0x38, 0x0b, 0, 0])]"

lemma core_abbrev_stretches: "core_abbrev_bytes = concat (map snd abbrev_stretches) @ [0]"
  by (simp add: core_abbrev_bytes_def core_head_def core_debug_def abbrev_stretches_def)

lemma core_stretches_read: "stretches_read 1 84 abbrev_stretches"
  by (simp add: abbrev_stretches_def abbrev_head_def attr_list.simps attr_spec_def abbrevs_numbered_def upt_rec)

subsection \<open>What the sections say of the programs\<close>

definition section_no :: "image \<Rightarrow> string \<Rightarrow> nat option" where
  "section_no img nm = Option.bind (elf_of img) (\<lambda>e. index_of (Some nm) (section_names img e))"

text \<open>A range of instructions of a program that lies in section \<open>k\<close>.\<close>

definition range_within :: "nat option \<Rightarrow> insn list \<Rightarrow> nat \<times> nat \<times> nat \<Rightarrow> bool" where
  "range_within sec is = (\<lambda>(k, lo, hi). sec = Some k \<and> lo < hi \<and> hi \<le> 8 * length is \<and> 8 dvd lo \<and> 8 dvd hi)"

lemma core_ranges: "map (\<lambda>l. loc_ranges (debug_address core_image) None (snd l)) core_loclists = [
    Some [(3, 80, 224), (3, 224, 256)], Some [(3, 16, 216)], Some [(3, 40, 384)], Some [(3, 216, 368)],
    Some [(3, 200, 344)], Some [(3, 256, 272)], Some [(3, 272, 312)],
    Some [(5, 0, 8), (5, 8, 248)], Some [(5, 24, 248)], Some [(5, 72, 248)]]"
  by (simp add: core_loclists_def core_addresses)

lemma core_section_no:
  "section_no core_image ENTER_SECTION = Some 3" "section_no core_image EXIT_SECTION = Some 5"
  by (simp_all add: section_no_def core_elf_of core_section_names ENTER_SECTION_def EXIT_SECTION_def)

text \<open>
  The debugging sections of the newer object that are transcribed are well-formed: the table of abbreviations is
  numbered from 1 to 83 and fills its section; the location lists fill theirs, begin where its header says, and each of
  them resolves, through \<open>.debug_addr\<close> and its relocations, to ranges of whole instructions within one of the two
  programs.
\<close>

theorem debug_sections_wellformed:
  "(\<exists>xs. Option.bind (section_data core_image ''.debug_abbrev'') abbrev_table = Some (xs, []) \<and>
      abbrevs_numbered 1 84 xs) \<and>
   (\<exists>ls. Option.bind (section_data core_image ''.debug_loclists'') loclists_of = Some (map fst ls, ls) \<and>
      length ls = 10 \<and>
      list_all (\<lambda>l. \<exists>rs. loc_ranges (debug_address core_image) None (snd l) = Some rs \<and> rs \<noteq> [] \<and>
        (list_all (range_within (section_no core_image ENTER_SECTION) core_enter) rs \<or>
         list_all (range_within (section_no core_image EXIT_SECTION) core_exit) rs)) ls)"
proof (intro conjI)
  show "\<exists>xs. Option.bind (section_data core_image ''.debug_abbrev'') abbrev_table = Some (xs, []) \<and>
      abbrevs_numbered 1 84 xs"
    using stretches_table [OF core_stretches_read] by (simp add: core_abbrev_section core_abbrev_stretches)
next
  have len: "length core_enter = 48" "length core_exit = 31"
    by (simp_all add: core_enter_def core_exit_def)
  have "list_all (\<lambda>r. \<exists>rs. r = Some rs \<and> rs \<noteq> [] \<and>
      (list_all (range_within (section_no core_image ENTER_SECTION) core_enter) rs \<or>
       list_all (range_within (section_no core_image EXIT_SECTION) core_exit) rs))
      (map (\<lambda>l. loc_ranges (debug_address core_image) None (snd l)) core_loclists)"
    unfolding core_ranges core_section_no by (simp add: range_within_def len)
  moreover have "length core_loclists = 10" by (simp add: core_loclists_def)
  moreover have "Option.bind (section_data core_image ''.debug_loclists'') loclists_of = Some (map fst core_loclists, core_loclists)"
    by (simp add: core_loclist_section core_loclists_read)
  ultimately show "\<exists>ls. Option.bind (section_data core_image ''.debug_loclists'') loclists_of = Some (map fst ls, ls) \<and>
      length ls = 10 \<and>
      list_all (\<lambda>l. \<exists>rs. loc_ranges (debug_address core_image) None (snd l) = Some rs \<and> rs \<noteq> [] \<and>
        (list_all (range_within (section_no core_image ENTER_SECTION) core_enter) rs \<or>
         list_all (range_within (section_no core_image EXIT_SECTION) core_exit) rs)) ls"
    by (intro exI [of _ core_loclists]) (simp add: list.pred_map comp_def)
qed

end
