(* ===== verification/Skeleton.thy ===== *)
theory Skeleton
  imports Compiled_Snoop
begin

text \<open>
  The life cycle the generated headers give the embedded object: \<open>create_skeleton\<close>, \<open>open_opts\<close>,
  \<open>load\<close>, \<open>open_and_load\<close>, \<open>attach\<close>, \<open>detach\<close> and \<open>destroy\<close>, of \<open>execsnoop.skel.h\<close> (the functions
  \<open>bpf_\<dots>\<close>) and of the older \<open>execsnoop_kern_skel.h\<close> for the two architectures (\<open>kern_\<dots>\<close>, and
  \<open>x86_\<dots>\<close>, \<open>arm_\<dots>\<close> where the object comes in).

  Memory is explicit, and every function returns an \<open>option\<close>: \<open>None\<close> is undefined behaviour, an access
  to a block that is not there or no longer there.  \<open>calloc\<close> names a block by the number of its
  call, so that an address released is not handed out again.  libbpf is the parameter \<open>libbpf\<close>, and
  \<open>libbpf_law\<close> what its documentation says of the blocks of the program.
\<close>

subsection \<open>Blocks\<close>

type_synonym ptr = nat

text \<open>The members of \<open>struct execsnoop_bpf\<close> and \<open>struct execsnoop_kern\<close> that libbpf fills in.\<close>

datatype slot = Obj_slot | Records_map | Perf_events_map | Enter_prog | Exit_prog | Enter_link | Exit_link

record skel_obj =
  ob_skeleton :: "ptr option"
  ob_slots :: "slot \<Rightarrow> nat"

record map_skel =
  ms_name :: string
  ms_map :: "(ptr \<times> slot) option"

record prog_skel =
  ps_name :: string
  ps_prog :: "(ptr \<times> slot) option"
  ps_link :: "(ptr \<times> slot) option"

record bpf_skeleton =
  sk_sz :: nat
  sk_name :: string
  sk_obj :: "(ptr \<times> slot) option"
  sk_map_cnt :: nat
  sk_map_skel_sz :: nat
  sk_maps :: "ptr option"
  sk_prog_cnt :: nat
  sk_prog_skel_sz :: nat
  sk_progs :: "ptr option"
  sk_data :: image
  sk_data_sz :: nat

datatype block =
    Obj skel_obj
  | Skel bpf_skeleton
  | Map_skels "map_skel list"
  | Prog_skels "prog_skel list"

record memory =
  blocks :: "ptr \<Rightarrow> block option"
  allocs :: nat
  errno :: cint

definition ENOMEM :: cint where "ENOMEM = 12"

text \<open>What \<open>calloc\<close> leaves in a block: zeros.\<close>

definition zero_obj :: skel_obj where
  "zero_obj = \<lparr>ob_skeleton = None, ob_slots = (\<lambda>_. 0)\<rparr>"

definition zero_skel :: bpf_skeleton where
  "zero_skel = \<lparr>sk_sz = 0, sk_name = [], sk_obj = None, sk_map_cnt = 0, sk_map_skel_sz = 0, sk_maps = None,
     sk_prog_cnt = 0, sk_prog_skel_sz = 0, sk_progs = None, sk_data = [], sk_data_sz = 0\<rparr>"

definition zero_map :: map_skel where "zero_map = \<lparr>ms_name = [], ms_map = None\<rparr>"
definition zero_prog :: prog_skel where "zero_prog = \<lparr>ps_name = [], ps_prog = None, ps_link = None\<rparr>"

subsection \<open>libbpf\<close>

text \<open>
  Which calls of \<open>calloc\<close> fail, the sizes of libbpf's structures, and its functions: each takes the
  skeleton's address.
\<close>

record libbpf =
  lb_oom :: "nat \<Rightarrow> bool"
  lb_skel_sz :: nat
  lb_map_sz :: nat
  lb_prog_sz :: nat
  lb_open :: "nat option \<Rightarrow> ptr \<Rightarrow> memory \<Rightarrow> cint \<times> memory"
  lb_load :: "ptr \<Rightarrow> memory \<Rightarrow> cint \<times> memory"
  lb_attach :: "ptr \<Rightarrow> memory \<Rightarrow> cint \<times> memory"
  lb_detach :: "ptr \<Rightarrow> memory \<Rightarrow> memory"
  lb_destroy :: "ptr \<Rightarrow> memory \<Rightarrow> memory"

text \<open>The blocks up to the members that libbpf fills in.\<close>

fun shape :: "block \<Rightarrow> block" where
  "shape (Obj ob) = Obj (ob\<lparr>ob_slots := (\<lambda>_. 0)\<rparr>)"
| "shape b = b"

definition shapes :: "memory \<Rightarrow> ptr \<Rightarrow> block option" where
  "shapes m p = map_option shape (blocks m p)"

definition opt_set :: "ptr option \<Rightarrow> ptr set" where
  "opt_set p = (case p of None \<Rightarrow> {} | Some a \<Rightarrow> {a})"

text \<open>
  On a live skeleton: opening, loading, attaching and detaching release nothing and change no more
  than the members of the object; destroying releases the skeleton and its two arrays.
\<close>

definition libbpf_law :: "libbpf \<Rightarrow> bool" where
  "libbpf_law lib = (\<forall>s sk m. blocks m s = Some (Skel sk) \<longrightarrow>
     (\<forall>opts. shapes (snd (lb_open lib opts s m)) = shapes m \<and> allocs (snd (lb_open lib opts s m)) = allocs m) \<and>
     shapes (snd (lb_load lib s m)) = shapes m \<and> allocs (snd (lb_load lib s m)) = allocs m \<and>
     shapes (snd (lb_attach lib s m)) = shapes m \<and> allocs (snd (lb_attach lib s m)) = allocs m \<and>
     shapes (lb_detach lib s m) = shapes m \<and> allocs (lb_detach lib s m) = allocs m \<and>
     shapes (lb_destroy lib s m) = (\<lambda>q. if q \<in> {s} \<union> opt_set (sk_maps sk) \<union> opt_set (sk_progs sk) then None else shapes m q) \<and>
     allocs (lb_destroy lib s m) = allocs m)"

subsection \<open>Access\<close>

definition calloc :: "libbpf \<Rightarrow> block \<Rightarrow> memory \<Rightarrow> ptr option \<times> memory" where
  "calloc lib b m =
     (if lb_oom lib (allocs m) then (None, m\<lparr>allocs := allocs m + 1, errno := ENOMEM\<rparr>)
      else (Some (allocs m), m\<lparr>blocks := (blocks m)(allocs m := Some b), allocs := allocs m + 1\<rparr>))"

definition free_obj :: "ptr \<Rightarrow> memory \<Rightarrow> memory option" where
  "free_obj p m = (case blocks m p of Some (Obj ob) \<Rightarrow> Some (m\<lparr>blocks := (blocks m)(p := None)\<rparr>) | _ \<Rightarrow> None)"

definition set_skel :: "ptr \<Rightarrow> (bpf_skeleton \<Rightarrow> bpf_skeleton) \<Rightarrow> memory \<Rightarrow> memory option" where
  "set_skel s f m = (case blocks m s of Some (Skel sk) \<Rightarrow> Some (m\<lparr>blocks := (blocks m)(s := Some (Skel (f sk)))\<rparr>) | _ \<Rightarrow> None)"

definition set_obj :: "ptr \<Rightarrow> (skel_obj \<Rightarrow> skel_obj) \<Rightarrow> memory \<Rightarrow> memory option" where
  "set_obj p f m = (case blocks m p of Some (Obj ob) \<Rightarrow> Some (m\<lparr>blocks := (blocks m)(p := Some (Obj (f ob)))\<rparr>) | _ \<Rightarrow> None)"

definition set_map :: "ptr \<Rightarrow> nat \<Rightarrow> map_skel \<Rightarrow> memory \<Rightarrow> memory option" where
  "set_map a i x m = (case blocks m a of
       Some (Map_skels xs) \<Rightarrow> if i < length xs then Some (m\<lparr>blocks := (blocks m)(a := Some (Map_skels (xs[i := x])))\<rparr>) else None
     | _ \<Rightarrow> None)"

definition set_prog :: "ptr \<Rightarrow> nat \<Rightarrow> prog_skel \<Rightarrow> memory \<Rightarrow> memory option" where
  "set_prog a i x m = (case blocks m a of
       Some (Prog_skels xs) \<Rightarrow> if i < length xs then Some (m\<lparr>blocks := (blocks m)(a := Some (Prog_skels (xs[i := x])))\<rparr>) else None
     | _ \<Rightarrow> None)"

definition skeleton_of :: "ptr \<Rightarrow> memory \<Rightarrow> ptr option option" where
  "skeleton_of p m = (case blocks m p of Some (Obj ob) \<Rightarrow> Some (ob_skeleton ob) | _ \<Rightarrow> None)"

text \<open>A call of libbpf with a skeleton: the address has to be that of a live one.\<close>

definition live_skeleton :: "ptr option \<Rightarrow> memory \<Rightarrow> ptr option" where
  "live_skeleton s m = (case s of
       None \<Rightarrow> None
     | Some a \<Rightarrow> (case blocks m a of Some (Skel sk) \<Rightarrow> Some a | _ \<Rightarrow> None))"

text \<open>\<open>bpf_object__destroy_skeleton\<close>, which takes a null pointer too.\<close>

definition destroy_skeleton :: "libbpf \<Rightarrow> ptr option \<Rightarrow> memory \<Rightarrow> memory option" where
  "destroy_skeleton lib s m = (if s = None then Some m else map_option (\<lambda>a. lb_destroy lib a m) (live_skeleton s m))"

subsection \<open>The newer header\<close>

definition bpf_destroy :: "libbpf \<Rightarrow> ptr option \<Rightarrow> memory \<Rightarrow> memory option" where
  "bpf_destroy lib obj m = (case obj of
       None \<Rightarrow> Some m
     | Some p \<Rightarrow> do {
         s \<leftarrow> skeleton_of p m;
         m \<leftarrow> (if s \<noteq> None then destroy_skeleton lib s m else Some m);
         free_obj p m })"

text \<open>The label \<open>err\<close> of \<open>create_skeleton\<close>.\<close>

definition create_err :: "libbpf \<Rightarrow> ptr option \<Rightarrow> cint \<Rightarrow> memory \<Rightarrow> (cint \<times> memory) option" where
  "create_err lib s err m = do { m \<leftarrow> destroy_skeleton lib s m; Some (err, m) }"

definition bpf_create_skeleton :: "libbpf \<Rightarrow> ptr \<Rightarrow> memory \<Rightarrow> (cint \<times> memory) option" where
  "bpf_create_skeleton lib obj m = (case calloc lib (Skel zero_skel) m of
       (None, m) \<Rightarrow> create_err lib None (- ENOMEM) m
     | (Some s, m) \<Rightarrow> do {
         m \<leftarrow> set_skel s (\<lambda>sk. sk\<lparr>sk_sz := lb_skel_sz lib, sk_name := ''execsnoop_bpf'', sk_obj := Some (obj, Obj_slot),
                sk_map_cnt := 2, sk_map_skel_sz := lb_map_sz lib\<rparr>) m;
         (case calloc lib (Map_skels (replicate 2 zero_map)) m of
            (None, m) \<Rightarrow> create_err lib (Some s) (- ENOMEM) m
          | (Some maps, m) \<Rightarrow> do {
              m \<leftarrow> set_skel s (\<lambda>sk. sk\<lparr>sk_maps := Some maps\<rparr>) m;
              m \<leftarrow> set_map maps 0 \<lparr>ms_name = ''records'', ms_map = Some (obj, Records_map)\<rparr> m;
              m \<leftarrow> set_map maps 1 \<lparr>ms_name = ''perf_events'', ms_map = Some (obj, Perf_events_map)\<rparr> m;
              m \<leftarrow> set_skel s (\<lambda>sk. sk\<lparr>sk_prog_cnt := 2, sk_prog_skel_sz := lb_prog_sz lib\<rparr>) m;
              (case calloc lib (Prog_skels (replicate 2 zero_prog)) m of
                 (None, m) \<Rightarrow> create_err lib (Some s) (- ENOMEM) m
               | (Some progs, m) \<Rightarrow> do {
                   m \<leftarrow> set_skel s (\<lambda>sk. sk\<lparr>sk_progs := Some progs\<rparr>) m;
                   m \<leftarrow> set_prog progs 0 \<lparr>ps_name = ''syscall_enter_execve'', ps_prog = Some (obj, Enter_prog), ps_link = Some (obj, Enter_link)\<rparr> m;
                   m \<leftarrow> set_prog progs 1 \<lparr>ps_name = ''syscall_exit_execve'', ps_prog = Some (obj, Exit_prog), ps_link = Some (obj, Exit_link)\<rparr> m;
                   m \<leftarrow> set_skel s (\<lambda>sk. sk\<lparr>sk_data := core_image, sk_data_sz := core_data_sz\<rparr>) m;
                   m \<leftarrow> set_obj obj (\<lambda>ob. ob\<lparr>ob_skeleton := Some s\<rparr>) m;
                   Some (0, m) }) }) })"

text \<open>The label \<open>err_out\<close> of \<open>open_opts\<close>, and the same lines in \<open>open_and_load\<close>.\<close>

definition bpf_err_out :: "libbpf \<Rightarrow> ptr \<Rightarrow> cint \<Rightarrow> memory \<Rightarrow> (ptr option \<times> memory) option" where
  "bpf_err_out lib obj err m = do { m \<leftarrow> bpf_destroy lib (Some obj) m; Some (None, m\<lparr>errno := - err\<rparr>) }"

definition bpf_open_opts :: "libbpf \<Rightarrow> nat option \<Rightarrow> memory \<Rightarrow> (ptr option \<times> memory) option" where
  "bpf_open_opts lib opts m = (case calloc lib (Obj zero_obj) m of
       (None, m) \<Rightarrow> Some (None, m\<lparr>errno := ENOMEM\<rparr>)
     | (Some obj, m) \<Rightarrow> do {
         (err, m) \<leftarrow> bpf_create_skeleton lib obj m;
         if err \<noteq> 0 then bpf_err_out lib obj err m
         else do {
           s \<leftarrow> skeleton_of obj m;
           s \<leftarrow> live_skeleton s m;
           (case lb_open lib opts s m of
              (err, m) \<Rightarrow> if err \<noteq> 0 then bpf_err_out lib obj err m else Some (Some obj, m)) } })"

definition bpf_open :: "libbpf \<Rightarrow> memory \<Rightarrow> (ptr option \<times> memory) option" where
  "bpf_open lib m = bpf_open_opts lib None m"

text \<open>A call of libbpf on the skeleton of an object.\<close>

definition on_skeleton :: "(ptr \<Rightarrow> memory \<Rightarrow> 'a) \<Rightarrow> ptr \<Rightarrow> memory \<Rightarrow> 'a option" where
  "on_skeleton f obj m = do { s \<leftarrow> skeleton_of obj m; s \<leftarrow> live_skeleton s m; Some (f s m) }"

definition bpf_load :: "libbpf \<Rightarrow> ptr \<Rightarrow> memory \<Rightarrow> (cint \<times> memory) option" where
  "bpf_load lib obj m = on_skeleton (lb_load lib) obj m"

definition bpf_open_and_load :: "libbpf \<Rightarrow> memory \<Rightarrow> (ptr option \<times> memory) option" where
  "bpf_open_and_load lib m = do {
     (obj, m) \<leftarrow> bpf_open lib m;
     (case obj of
        None \<Rightarrow> Some (None, m)
      | Some obj \<Rightarrow> do {
          (err, m) \<leftarrow> bpf_load lib obj m;
          if err \<noteq> 0 then bpf_err_out lib obj err m else Some (Some obj, m) }) }"

definition bpf_attach :: "libbpf \<Rightarrow> ptr \<Rightarrow> memory \<Rightarrow> (cint \<times> memory) option" where
  "bpf_attach lib obj m = on_skeleton (lb_attach lib) obj m"

definition bpf_detach :: "libbpf \<Rightarrow> ptr \<Rightarrow> memory \<Rightarrow> memory option" where
  "bpf_detach lib obj m = on_skeleton (lb_detach lib) obj m"

subsection \<open>The older headers\<close>

definition kern_destroy :: "libbpf \<Rightarrow> ptr option \<Rightarrow> memory \<Rightarrow> memory option" where
  "kern_destroy lib obj m = (case obj of
       None \<Rightarrow> Some m
     | Some p \<Rightarrow> do {
         s \<leftarrow> skeleton_of p m;
         m \<leftarrow> (if s \<noteq> None then destroy_skeleton lib s m else Some m);
         free_obj p m })"

text \<open>Here the skeleton is stored in the object as soon as it is there.\<close>

definition kern_create_skeleton :: "image \<Rightarrow> nat \<Rightarrow> libbpf \<Rightarrow> ptr \<Rightarrow> memory \<Rightarrow> (cint \<times> memory) option" where
  "kern_create_skeleton data data_sz lib obj m = (case calloc lib (Skel zero_skel) m of
       (None, m) \<Rightarrow> Some (- 1, m)
     | (Some s, m) \<Rightarrow> do {
         m \<leftarrow> set_obj obj (\<lambda>ob. ob\<lparr>ob_skeleton := Some s\<rparr>) m;
         m \<leftarrow> set_skel s (\<lambda>sk. sk\<lparr>sk_sz := lb_skel_sz lib, sk_name := ''execsnoop_kern'', sk_obj := Some (obj, Obj_slot),
                sk_map_cnt := 2, sk_map_skel_sz := lb_map_sz lib\<rparr>) m;
         (case calloc lib (Map_skels (replicate 2 zero_map)) m of
            (None, m) \<Rightarrow> create_err lib (Some s) (- 1) m
          | (Some maps, m) \<Rightarrow> do {
              m \<leftarrow> set_skel s (\<lambda>sk. sk\<lparr>sk_maps := Some maps\<rparr>) m;
              m \<leftarrow> set_map maps 0 \<lparr>ms_name = ''perf_events'', ms_map = Some (obj, Perf_events_map)\<rparr> m;
              m \<leftarrow> set_map maps 1 \<lparr>ms_name = ''records'', ms_map = Some (obj, Records_map)\<rparr> m;
              m \<leftarrow> set_skel s (\<lambda>sk. sk\<lparr>sk_prog_cnt := 2, sk_prog_skel_sz := lb_prog_sz lib\<rparr>) m;
              (case calloc lib (Prog_skels (replicate 2 zero_prog)) m of
                 (None, m) \<Rightarrow> create_err lib (Some s) (- 1) m
               | (Some progs, m) \<Rightarrow> do {
                   m \<leftarrow> set_skel s (\<lambda>sk. sk\<lparr>sk_progs := Some progs\<rparr>) m;
                   m \<leftarrow> set_prog progs 0 \<lparr>ps_name = ''syscall_enter_execve'', ps_prog = Some (obj, Enter_prog), ps_link = Some (obj, Enter_link)\<rparr> m;
                   m \<leftarrow> set_prog progs 1 \<lparr>ps_name = ''syscall_exit_execve'', ps_prog = Some (obj, Exit_prog), ps_link = Some (obj, Exit_link)\<rparr> m;
                   m \<leftarrow> set_skel s (\<lambda>sk. sk\<lparr>sk_data := data, sk_data_sz := data_sz\<rparr>) m;
                   Some (0, m) }) }) })"

text \<open>The two headers differ in the object they embed.\<close>

definition x86_create_skeleton :: "libbpf \<Rightarrow> ptr \<Rightarrow> memory \<Rightarrow> (cint \<times> memory) option" where
  "x86_create_skeleton = kern_create_skeleton x86_image x86_data_sz"

definition arm_create_skeleton :: "libbpf \<Rightarrow> ptr \<Rightarrow> memory \<Rightarrow> (cint \<times> memory) option" where
  "arm_create_skeleton = kern_create_skeleton arm_image arm_data_sz"

definition kern_err :: "libbpf \<Rightarrow> ptr \<Rightarrow> memory \<Rightarrow> (ptr option \<times> memory) option" where
  "kern_err lib obj m = do { m \<leftarrow> kern_destroy lib (Some obj) m; Some (None, m) }"

definition kern_open_opts :: "(libbpf \<Rightarrow> ptr \<Rightarrow> memory \<Rightarrow> (cint \<times> memory) option) \<Rightarrow>
    libbpf \<Rightarrow> nat option \<Rightarrow> memory \<Rightarrow> (ptr option \<times> memory) option" where
  "kern_open_opts create lib opts m = (case calloc lib (Obj zero_obj) m of
       (None, m) \<Rightarrow> Some (None, m)
     | (Some obj, m) \<Rightarrow> do {
         (err, m) \<leftarrow> create lib obj m;
         if err \<noteq> 0 then kern_err lib obj m
         else do {
           s \<leftarrow> skeleton_of obj m;
           s \<leftarrow> live_skeleton s m;
           (case lb_open lib opts s m of
              (err, m) \<Rightarrow> if err \<noteq> 0 then kern_err lib obj m else Some (Some obj, m)) } })"

definition kern_load :: "libbpf \<Rightarrow> ptr \<Rightarrow> memory \<Rightarrow> (cint \<times> memory) option" where
  "kern_load lib obj m = on_skeleton (lb_load lib) obj m"

definition kern_open :: "(libbpf \<Rightarrow> ptr \<Rightarrow> memory \<Rightarrow> (cint \<times> memory) option) \<Rightarrow>
    libbpf \<Rightarrow> memory \<Rightarrow> (ptr option \<times> memory) option" where
  "kern_open create lib m = kern_open_opts create lib None m"

definition kern_open_and_load :: "(libbpf \<Rightarrow> ptr \<Rightarrow> memory \<Rightarrow> (cint \<times> memory) option) \<Rightarrow>
    libbpf \<Rightarrow> memory \<Rightarrow> (ptr option \<times> memory) option" where
  "kern_open_and_load create lib m = do {
     (obj, m) \<leftarrow> kern_open create lib m;
     (case obj of
        None \<Rightarrow> Some (None, m)
      | Some obj \<Rightarrow> do {
          (err, m) \<leftarrow> kern_load lib obj m;
          if err \<noteq> 0 then kern_err lib obj m else Some (Some obj, m) }) }"

definition x86_open_opts :: "libbpf \<Rightarrow> nat option \<Rightarrow> memory \<Rightarrow> (ptr option \<times> memory) option" where
  "x86_open_opts = kern_open_opts x86_create_skeleton"

definition arm_open_opts :: "libbpf \<Rightarrow> nat option \<Rightarrow> memory \<Rightarrow> (ptr option \<times> memory) option" where
  "arm_open_opts = kern_open_opts arm_create_skeleton"

definition x86_open_and_load :: "libbpf \<Rightarrow> memory \<Rightarrow> (ptr option \<times> memory) option" where
  "x86_open_and_load = kern_open_and_load x86_create_skeleton"

definition arm_open_and_load :: "libbpf \<Rightarrow> memory \<Rightarrow> (ptr option \<times> memory) option" where
  "arm_open_and_load = kern_open_and_load arm_create_skeleton"

definition kern_attach :: "libbpf \<Rightarrow> ptr \<Rightarrow> memory \<Rightarrow> (cint \<times> memory) option" where
  "kern_attach lib obj m = on_skeleton (lb_attach lib) obj m"

definition kern_detach :: "libbpf \<Rightarrow> ptr \<Rightarrow> memory \<Rightarrow> memory option" where
  "kern_detach lib obj m = on_skeleton (lb_detach lib) obj m"

subsection \<open>What the functions leave\<close>

definition fresh :: "memory \<Rightarrow> bool" where
  "fresh m = (\<forall>q \<ge> allocs m. shapes m q = None)"

lemma fresh_other: "fresh m \<Longrightarrow> shapes m p = Some b \<Longrightarrow> p < allocs m"
  by (rule ccontr) (auto simp: fresh_def)

lemma shapes_Skel: "blocks m s = Some (Skel sk) \<longleftrightarrow> shapes m s = Some (Skel sk)"
proof (cases "blocks m s")
  case (Some b)
  then show ?thesis by (cases b) (auto simp: shapes_def)
qed (simp add: shapes_def)

lemma skeleton_of_shapes: "skeleton_of p m = (case shapes m p of Some (Obj ob) \<Rightarrow> Some (ob_skeleton ob) | _ \<Rightarrow> None)"
  by (auto simp: skeleton_of_def shapes_def split: option.splits block.splits)

lemma live_skeleton_shapes: "shapes m s = Some (Skel sk) \<Longrightarrow> live_skeleton (Some s) m = Some s"
  by (simp add: live_skeleton_def shapes_Skel [symmetric])

lemma dead_skeleton: "shapes m s = None \<Longrightarrow> live_skeleton (Some s) m = None"
  by (simp add: live_skeleton_def shapes_def)

text \<open>A complete skeleton: the object \<open>p\<close>, and from address \<open>n\<close> on the skeleton and its two arrays.\<close>

definition skeleton_blocks :: "libbpf \<Rightarrow> string \<Rightarrow> (string \<times> slot) list \<Rightarrow> image \<Rightarrow> nat \<Rightarrow> ptr \<Rightarrow> ptr \<Rightarrow> ptr \<Rightarrow> block option" where
  "skeleton_blocks lib nm maps data data_sz p n =
     [p \<mapsto> Obj (zero_obj\<lparr>ob_skeleton := Some n\<rparr>),
      n \<mapsto> Skel \<lparr>sk_sz = lb_skel_sz lib, sk_name = nm, sk_obj = Some (p, Obj_slot), sk_map_cnt = 2,
        sk_map_skel_sz = lb_map_sz lib, sk_maps = Some (n + 1), sk_prog_cnt = 2, sk_prog_skel_sz = lb_prog_sz lib,
        sk_progs = Some (n + 2), sk_data = data, sk_data_sz = data_sz\<rparr>,
      n + 1 \<mapsto> Map_skels (map (\<lambda>(nm, sl). \<lparr>ms_name = nm, ms_map = Some (p, sl)\<rparr>) maps),
      n + 2 \<mapsto> Prog_skels [
        \<lparr>ps_name = ''syscall_enter_execve'', ps_prog = Some (p, Enter_prog), ps_link = Some (p, Enter_link)\<rparr>,
        \<lparr>ps_name = ''syscall_exit_execve'', ps_prog = Some (p, Exit_prog), ps_link = Some (p, Exit_link)\<rparr>]]"

lemmas access_defs = calloc_def set_skel_def set_obj_def set_map_def set_prog_def destroy_skeleton_def live_skeleton_def
  create_err_def zero_skel_def zero_map_def zero_prog_def

lemma replicate_2: "replicate 2 x = [x, x]"
  by (simp add: numeral_2_eq_2)

lemma law_destroy:
  assumes "libbpf_law lib" and "shapes m s = Some (Skel sk)"
  shows "shapes (lb_destroy lib s m) = (\<lambda>q. if q \<in> {s} \<union> opt_set (sk_maps sk) \<union> opt_set (sk_progs sk) then None else shapes m q)"
    and "allocs (lb_destroy lib s m) = allocs m"
  using assms by (auto simp: libbpf_law_def shapes_Skel)

lemma law_calls:
  assumes "libbpf_law lib" and "shapes m s = Some (Skel sk)"
  shows "shapes (snd (lb_open lib opts s m)) = shapes m" "allocs (snd (lb_open lib opts s m)) = allocs m"
    "shapes (snd (lb_load lib s m)) = shapes m" "allocs (snd (lb_load lib s m)) = allocs m"
  using assms by (auto simp: libbpf_law_def shapes_Skel)

lemma shapes_upd [simp]:
  "shapes (m\<lparr>allocs := a\<rparr>) = shapes m" "shapes (m\<lparr>errno := e\<rparr>) = shapes m"
  "shapes (m\<lparr>blocks := f\<rparr>) = (\<lambda>q. map_option shape (f q))"
  by (simp_all add: shapes_def fun_eq_iff)

fun arrays :: "block option \<Rightarrow> ptr set" where
  "arrays (Some (Skel sk)) = opt_set (sk_maps sk) \<union> opt_set (sk_progs sk)"
| "arrays _ = {}"

lemma shapes_destroy:
  assumes "libbpf_law lib" and "\<exists>sk. shapes m s = Some (Skel sk)"
  shows "shapes (lb_destroy lib s m) = (\<lambda>q. if q = s \<or> q \<in> arrays (shapes m s) then None else shapes m q)"
    and "allocs (lb_destroy lib s m) = allocs m"
  using assms(2) law_destroy [OF assms(1)] by auto

text \<open>\<open>create_skeleton\<close>: the whole of it, or an error and nothing of it.\<close>

lemma bpf_create_outcome:
  assumes law: "libbpf_law lib" and obj: "blocks m p = Some (Obj zero_obj)" and fr: "fresh m"
  shows "\<exists>err m'. bpf_create_skeleton lib p m = Some (err, m') \<and> fresh m' \<and>
    (if err = 0 then shapes m' = shapes m ++ skeleton_blocks lib ''execsnoop_bpf'' [(''records'', Records_map), (''perf_events'', Perf_events_map)] core_image core_data_sz p (allocs m)
     else shapes m' = shapes m)"
proof -
  define n where "n = allocs m"
  have none: "blocks m q = None" if "n \<le> q" for q
    using fr that by (simp add: fresh_def n_def shapes_def)
  then have gone: "shapes m q = None" if "n \<le> q" for q using that by (simp add: shapes_def)
  have p: "p < n" using obj none by (metis not_le option.distinct(1))
  consider "lb_oom lib n" | "\<not> lb_oom lib n" "lb_oom lib (n + 1)" | "\<not> lb_oom lib n" "\<not> lb_oom lib (n + 1)" "lb_oom lib (n + 2)"
    | "\<not> lb_oom lib n" "\<not> lb_oom lib (n + 1)" "\<not> lb_oom lib (n + 2)" by blast
  then show ?thesis
  proof cases
    case 1
    then show ?thesis using none gone
      by (auto simp: bpf_create_skeleton_def access_defs n_def [symmetric] fresh_def shapes_def ENOMEM_def)
  next
    case 2
    then show ?thesis using none gone
      by (auto simp: bpf_create_skeleton_def access_defs n_def [symmetric] shapes_destroy [OF law] shapes_def [symmetric]
          fun_eq_iff fresh_def ENOMEM_def opt_set_def)
  next
    case 3
    then show ?thesis using none gone
      by (auto simp: bpf_create_skeleton_def access_defs n_def [symmetric] shapes_destroy [OF law] shapes_def [symmetric]
          fun_eq_iff fresh_def ENOMEM_def opt_set_def)
  next
    case 4
    then show ?thesis using p obj none
      by (auto simp: bpf_create_skeleton_def access_defs n_def [symmetric] fresh_def shapes_def skeleton_blocks_def fun_eq_iff map_add_def
          replicate_2 zero_obj_def)
  qed
qed

lemma kern_create_outcome:
  assumes law: "libbpf_law lib" and obj: "blocks m p = Some (Obj zero_obj)" and fr: "fresh m"
  shows "\<exists>err m'. kern_create_skeleton data data_sz lib p m = Some (err, m') \<and> fresh m' \<and>
    (err = 0 \<longleftrightarrow> \<not> lb_oom lib (allocs m) \<and> \<not> lb_oom lib (allocs m + 1) \<and> \<not> lb_oom lib (allocs m + 2)) \<and>
    (if err = 0 then shapes m' = shapes m ++ skeleton_blocks lib ''execsnoop_kern'' [(''perf_events'', Perf_events_map), (''records'', Records_map)] data data_sz p (allocs m)
     else if lb_oom lib (allocs m) then shapes m' = shapes m
     else shapes m' = (shapes m)(p \<mapsto> Obj (zero_obj\<lparr>ob_skeleton := Some (allocs m)\<rparr>)))"
proof -
  define n where "n = allocs m"
  have none: "blocks m q = None" if "n \<le> q" for q
    using fr that by (simp add: fresh_def n_def shapes_def)
  then have gone: "shapes m q = None" if "n \<le> q" for q using that by (simp add: shapes_def)
  have p: "p < n" using obj none by (metis not_le option.distinct(1))
  consider "lb_oom lib n" | "\<not> lb_oom lib n" "lb_oom lib (n + 1)" | "\<not> lb_oom lib n" "\<not> lb_oom lib (n + 1)" "lb_oom lib (n + 2)"
    | "\<not> lb_oom lib n" "\<not> lb_oom lib (n + 1)" "\<not> lb_oom lib (n + 2)" by blast
  then show ?thesis
  proof cases
    case 1
    then show ?thesis using none
      by (auto simp: kern_create_skeleton_def access_defs n_def [symmetric] fresh_def shapes_def)
  next
    case 2
    then show ?thesis using none gone obj p
      by (auto simp: kern_create_skeleton_def access_defs n_def [symmetric] shapes_destroy [OF law] shapes_def [symmetric]
          fun_eq_iff fresh_def opt_set_def zero_obj_def)
  next
    case 3
    then show ?thesis using none gone obj p
      by (auto simp: kern_create_skeleton_def access_defs n_def [symmetric] shapes_destroy [OF law] shapes_def [symmetric]
          fun_eq_iff fresh_def opt_set_def zero_obj_def)
  next
    case 4
    then show ?thesis using p obj none
      by (auto simp: kern_create_skeleton_def access_defs n_def [symmetric] fresh_def shapes_def skeleton_blocks_def fun_eq_iff map_add_def
          replicate_2 zero_obj_def)
  qed
qed

text \<open>\<open>destroy\<close>: an object with a complete skeleton goes with all its blocks, one without a skeleton alone.\<close>

lemma destroy_eq: "kern_destroy = bpf_destroy"
  by (simp add: fun_eq_iff kern_destroy_def bpf_destroy_def)

lemma obj_of_shape: "shapes m p = Some (Obj ob) \<Longrightarrow> \<exists>ob'. blocks m p = Some (Obj ob')"
  by (cases "blocks m p"; cases "the (blocks m p)") (auto simp: shapes_def)

lemma destroy_bare:
  assumes "shapes m p = Some (Obj ob)" and "ob_skeleton ob = None"
  shows "\<exists>m'. bpf_destroy lib (Some p) m = Some m' \<and> shapes m' = (shapes m)(p := None) \<and> allocs m' = allocs m"
  using assms obj_of_shape [OF assms(1)]
  by (auto simp: bpf_destroy_def skeleton_of_shapes free_obj_def shapes_def [symmetric] fun_eq_iff)

lemma destroy_whole:
  assumes law: "libbpf_law lib" and m: "shapes m = f ++ skeleton_blocks lib nm maps data data_sz p n"
    and p: "p < n" and f: "\<And>q. n \<le> q \<Longrightarrow> f q = None"
  shows "\<exists>m'. bpf_destroy lib (Some p) m = Some m' \<and> shapes m' = f(p := None) \<and> allocs m' = allocs m"
proof -
  have ob: "shapes m p = Some (Obj (zero_obj\<lparr>ob_skeleton := Some n\<rparr>))"
    and sk: "\<exists>sk. shapes m n = Some (Skel sk)" and ar: "arrays (shapes m n) = {n + 1, n + 2}"
    using p by (auto simp: m skeleton_blocks_def map_add_def opt_set_def)
  let ?m = "lb_destroy lib n m"
  have sh: "shapes ?m = (\<lambda>q. if q = n \<or> q \<in> {n + 1, n + 2} then None else shapes m q)"
    using shapes_destroy(1) [OF law sk] by (simp only: ar)
  then have "shapes ?m p = Some (Obj (zero_obj\<lparr>ob_skeleton := Some n\<rparr>))" using p ob by simp
  from obj_of_shape [OF this] obtain ob' where ob': "blocks ?m p = Some (Obj ob')" by blast
  obtain sk where "shapes m n = Some (Skel sk)" using sk by blast
  then have "bpf_destroy lib (Some p) m = Some (?m\<lparr>blocks := (blocks ?m)(p := None)\<rparr>)"
    using ob ob' by (simp add: bpf_destroy_def skeleton_of_shapes destroy_skeleton_def live_skeleton_shapes free_obj_def)
  moreover have "shapes (?m\<lparr>blocks := (blocks ?m)(p := None)\<rparr>) = f(p := None)"
    using sh p f by (auto simp: shapes_def [symmetric] fun_eq_iff m skeleton_blocks_def map_add_def)
  ultimately show ?thesis using shapes_destroy(2) [OF law sk] by simp
qed

lemma destroy_dangling:
  assumes "shapes m p = Some (Obj ob)" and "ob_skeleton ob = Some s" and "shapes m s = None"
  shows "bpf_destroy lib (Some p) m = None"
  using assms by (simp add: bpf_destroy_def skeleton_of_shapes destroy_skeleton_def dead_skeleton)

subsection \<open>Opening\<close>

text \<open>What a call of libbpf's finds at the skeleton of a complete object.\<close>

lemma whole_skeleton:
  assumes "shapes m = f ++ skeleton_blocks lib nm maps data data_sz p (p + 1)"
  shows "skeleton_of p m = Some (Some (p + 1))" and "live_skeleton (Some (p + 1)) m = Some (p + 1)"
    and "\<exists>sk. shapes m (p + 1) = Some (Skel sk)"
proof -
  show sk: "\<exists>sk. shapes m (p + 1) = Some (Skel sk)"
    by (simp add: assms skeleton_blocks_def map_add_def)
  then show "live_skeleton (Some (p + 1)) m = Some (p + 1)" using live_skeleton_shapes by blast
  show "skeleton_of p m = Some (Some (p + 1))"
    by (simp add: skeleton_of_shapes assms skeleton_blocks_def map_add_def)
qed

text \<open>The outcome of an opening: a complete object at the next address, or nothing and the memory as before.\<close>

definition all_or_nothing :: "libbpf \<Rightarrow> string \<Rightarrow> (string \<times> slot) list \<Rightarrow> image \<Rightarrow> nat \<Rightarrow> memory \<Rightarrow> ptr option \<Rightarrow> memory \<Rightarrow> bool" where
  "all_or_nothing lib nm maps data data_sz m r m' =
     (case r of
        None \<Rightarrow> shapes m' = shapes m
      | Some p \<Rightarrow> p = allocs m \<and> shapes m' = shapes m ++ skeleton_blocks lib nm maps data data_sz p (p + 1))"

abbreviation bpf_maps :: "(string \<times> slot) list" where
  "bpf_maps \<equiv> [(''records'', Records_map), (''perf_events'', Perf_events_map)]"

abbreviation kern_maps :: "(string \<times> slot) list" where
  "kern_maps \<equiv> [(''perf_events'', Perf_events_map), (''records'', Records_map)]"

lemma fresh_gone: "fresh m \<Longrightarrow> (shapes m)(allocs m := None) = shapes m"
  by (auto simp: fresh_def fun_eq_iff)

lemma destroy_opened:
  assumes law: "libbpf_law lib" and fr: "fresh m"
    and m': "shapes m' = shapes m ++ skeleton_blocks lib nm maps data data_sz (allocs m) (allocs m + 1)"
  shows "\<exists>m''. bpf_destroy lib (Some (allocs m)) m' = Some m'' \<and> shapes m'' = shapes m \<and> allocs m'' = allocs m'"
  using destroy_whole [OF law m'] fr fresh_gone [OF fr] by (auto simp: fresh_def)

lemma calloc_obj:
  assumes "fresh m" and "\<not> lb_oom lib (allocs m)"
  obtains m1 where "calloc lib (Obj zero_obj) m = (Some (allocs m), m1)" "fresh m1" "allocs m1 = allocs m + 1"
    "blocks m1 (allocs m) = Some (Obj zero_obj)" "shapes m1 = (shapes m)(allocs m \<mapsto> Obj zero_obj)"
  using assms
  by (auto simp: calloc_def fresh_def shapes_def [symmetric] fun_eq_iff zero_obj_def intro!: that)

lemma over_obj: "f(p \<mapsto> b) ++ skeleton_blocks lib nm maps data data_sz p n = f ++ skeleton_blocks lib nm maps data data_sz p n"
  by (auto simp: skeleton_blocks_def map_add_def fun_eq_iff)

text \<open>
  A call of libbpf's on a complete object, and the destruction that follows where it fails; and the
  destruction of an object that got no skeleton.
\<close>

lemma call_or_destroy:
  assumes law: "libbpf_law lib" and fr: "fresh m" and p: "p = allocs m"
    and whole: "shapes m2 = shapes m ++ skeleton_blocks lib nm maps data data_sz p (p + 1)"
    and call: "\<And>sk. shapes m2 (p + 1) = Some (Skel sk) \<Longrightarrow> shapes (snd (f (p + 1) m2)) = shapes m2 \<and> allocs (snd (f (p + 1) m2)) = allocs m2"
  obtains err m3 m4 where "f (p + 1) m2 = (err, m3)" "shapes m3 = shapes m2" "allocs m3 = allocs m2"
    "bpf_destroy lib (Some p) m3 = Some m4" "shapes m4 = shapes m" "allocs m4 = allocs m3"
    "skeleton_of p m2 = Some (Some (p + 1))" "live_skeleton (Some (p + 1)) m2 = Some (p + 1)"
proof -
  obtain err m3 where m3: "f (p + 1) m2 = (err, m3)" by fastforce
  obtain sk where "shapes m2 (p + 1) = Some (Skel sk)" using whole_skeleton(3) [OF whole] by blast
  from call [OF this] m3 have same: "shapes m3 = shapes m2" "allocs m3 = allocs m2" by simp_all
  with whole p have "shapes m3 = shapes m ++ skeleton_blocks lib nm maps data data_sz (allocs m) (allocs m + 1)" by simp
  from destroy_opened [OF law fr this] that [OF m3 same] whole_skeleton(1,2) [OF whole] p show ?thesis by blast
qed

lemma destroy_new:
  assumes "fresh m" and "shapes m2 = (shapes m)(allocs m \<mapsto> Obj zero_obj)"
  obtains m3 where "bpf_destroy lib (Some (allocs m)) m2 = Some m3" "shapes m3 = shapes m" "allocs m3 = allocs m2"
  using destroy_bare [of m2 "allocs m" zero_obj lib] fresh_gone [OF assms(1)] assms(2) by (auto simp: zero_obj_def)

lemma grown: "fresh m2 \<Longrightarrow> shapes m2 p = Some b \<Longrightarrow> p \<le> allocs m2"
  using fresh_other [of m2 p b] by simp

lemma whole_obj: "shapes m = f ++ skeleton_blocks lib nm maps data data_sz p (p + 1) \<Longrightarrow>
    shapes m p = Some (Obj (zero_obj\<lparr>ob_skeleton := Some (p + 1)\<rparr>))"
  by (simp add: skeleton_blocks_def map_add_def)

lemma bpf_open_outcome:
  assumes law: "libbpf_law lib" and fr: "fresh m"
  shows "\<exists>r m'. bpf_open_opts lib opts m = Some (r, m') \<and> all_or_nothing lib ''execsnoop_bpf'' bpf_maps core_image core_data_sz m r m' \<and>
    allocs m \<le> allocs m' \<and> (r = None \<longrightarrow> errno m' \<noteq> 0)"
proof (cases "lb_oom lib (allocs m)")
  case True
  then show ?thesis
    by (simp add: bpf_open_opts_def calloc_def all_or_nothing_def ENOMEM_def)
next
  case False
  define p where "p = allocs m"
  obtain m1 where m1: "calloc lib (Obj zero_obj) m = (Some p, m1)" "fresh m1" "allocs m1 = p + 1"
    "blocks m1 p = Some (Obj zero_obj)" "shapes m1 = (shapes m)(p \<mapsto> Obj zero_obj)"
    using calloc_obj [OF fr False] unfolding p_def .
  obtain err m2 where m2: "bpf_create_skeleton lib p m1 = Some (err, m2)" "fresh m2"
    "if err = 0 then shapes m2 = shapes m1 ++ skeleton_blocks lib ''execsnoop_bpf'' bpf_maps core_image core_data_sz p (p + 1)
     else shapes m2 = shapes m1"
    using bpf_create_outcome [OF law m1(4,2)] m1(3) by auto
  show ?thesis
  proof (cases "err = 0")
    case True
    with m2(3) m1(5) have whole: "shapes m2 = shapes m ++ skeleton_blocks lib ''execsnoop_bpf'' bpf_maps core_image core_data_sz p (p + 1)"
      by (simp add: over_obj)
    obtain err' m3 m4 where "lb_open lib opts (p + 1) m2 = (err', m3)" "shapes m3 = shapes m2" "allocs m3 = allocs m2"
      "bpf_destroy lib (Some p) m3 = Some m4" "shapes m4 = shapes m" "allocs m4 = allocs m3"
      "skeleton_of p m2 = Some (Some (p + 1))" "live_skeleton (Some (p + 1)) m2 = Some (p + 1)"
      by (rule call_or_destroy [OF law fr p_def whole, where f = "lb_open lib opts"]) (use law_calls(1,2) [OF law] in blast)+
    with True m1(1) m2(1) whole grown [OF m2(2) whole_obj [OF whole]] show ?thesis
      by (cases "err' = 0") (simp_all add: bpf_open_opts_def bpf_err_out_def all_or_nothing_def p_def)
  next
    case False
    with m2(3) m1(5) have sh: "shapes m2 = (shapes m)(p \<mapsto> Obj zero_obj)" by simp
    then obtain m3 where "bpf_destroy lib (Some p) m2 = Some m3" "shapes m3 = shapes m" "allocs m3 = allocs m2"
      unfolding p_def by (rule destroy_new [OF fr])
    with False m1(1) m2(1) grown [OF m2(2), of p] sh show ?thesis
      by (simp add: bpf_open_opts_def bpf_err_out_def all_or_nothing_def p_def)
  qed
qed

lemma kern_open_outcome:
  assumes law: "libbpf_law lib" and fr: "fresh m"
  shows "if \<not> lb_oom lib (allocs m) \<and> \<not> lb_oom lib (allocs m + 1) \<and> (lb_oom lib (allocs m + 2) \<or> lb_oom lib (allocs m + 3))
    then kern_open_opts (kern_create_skeleton data data_sz) lib opts m = None
    else \<exists>r m'. kern_open_opts (kern_create_skeleton data data_sz) lib opts m = Some (r, m') \<and>
      all_or_nothing lib ''execsnoop_kern'' kern_maps data data_sz m r m' \<and> allocs m \<le> allocs m'"
proof (cases "lb_oom lib (allocs m)")
  case True
  then show ?thesis
    by (simp add: kern_open_opts_def calloc_def all_or_nothing_def)
next
  case False
  define p where "p = allocs m"
  obtain m1 where m1: "calloc lib (Obj zero_obj) m = (Some p, m1)" "fresh m1" "allocs m1 = p + 1"
    "blocks m1 p = Some (Obj zero_obj)" "shapes m1 = (shapes m)(p \<mapsto> Obj zero_obj)"
    using calloc_obj [OF fr False] unfolding p_def .
  have next_calls: "p + 1 + 1 = p + 2" "p + 1 + 2 = p + 3" by simp_all
  obtain err m2 where m2: "kern_create_skeleton data data_sz lib p m1 = Some (err, m2)" "fresh m2"
    "err = 0 \<longleftrightarrow> \<not> lb_oom lib (p + 1) \<and> \<not> lb_oom lib (p + 2) \<and> \<not> lb_oom lib (p + 3)"
    "if err = 0 then shapes m2 = shapes m1 ++ skeleton_blocks lib ''execsnoop_kern'' kern_maps data data_sz p (p + 1)
     else if lb_oom lib (p + 1) then shapes m2 = shapes m1
     else shapes m2 = (shapes m1)(p \<mapsto> Obj (zero_obj\<lparr>ob_skeleton := Some (p + 1)\<rparr>))"
    using kern_create_outcome [OF law m1(4,2), of data data_sz, unfolded m1(3) next_calls] by blast
  consider (ok) "err = 0" | (no_skel) "err \<noteq> 0" "lb_oom lib (p + 1)" | (dangling) "err \<noteq> 0" "\<not> lb_oom lib (p + 1)"
    by blast
  then show ?thesis
  proof cases
    case ok
    with m2(4) m1(5) have whole: "shapes m2 = shapes m ++ skeleton_blocks lib ''execsnoop_kern'' kern_maps data data_sz p (p + 1)"
      by (simp add: over_obj)
    obtain err' m3 m4 where "lb_open lib opts (p + 1) m2 = (err', m3)" "shapes m3 = shapes m2" "allocs m3 = allocs m2"
      "bpf_destroy lib (Some p) m3 = Some m4" "shapes m4 = shapes m" "allocs m4 = allocs m3"
      "skeleton_of p m2 = Some (Some (p + 1))" "live_skeleton (Some (p + 1)) m2 = Some (p + 1)"
      by (rule call_or_destroy [OF law fr p_def whole, where f = "lb_open lib opts"]) (use law_calls(1,2) [OF law] in blast)+
    with ok m1(1) m2(1,3) whole grown [OF m2(2) whole_obj [OF whole]] show ?thesis
      by (cases "err' = 0") (simp_all add: kern_open_opts_def kern_err_def destroy_eq all_or_nothing_def p_def)
  next
    case no_skel
    with m2(4) m1(5) have sh: "shapes m2 = (shapes m)(p \<mapsto> Obj zero_obj)" by simp
    then obtain m3 where "bpf_destroy lib (Some p) m2 = Some m3" "shapes m3 = shapes m" "allocs m3 = allocs m2"
      unfolding p_def by (rule destroy_new [OF fr])
    with no_skel m1(1) m2(1) grown [OF m2(2), of p] sh show ?thesis
      by (simp add: kern_open_opts_def kern_err_def destroy_eq all_or_nothing_def p_def)
  next
    case dangling
    with m2(4) m1(5) have "shapes m2 = (shapes m)(p \<mapsto> Obj (zero_obj\<lparr>ob_skeleton := Some (p + 1)\<rparr>))" by simp
    then have "bpf_destroy lib (Some p) m2 = None"
      using fr by (intro destroy_dangling [where s = "p + 1"]) (auto simp: fresh_def p_def)
    with dangling False m1(1) m2(1,3) show ?thesis
      by (auto simp: kern_open_opts_def kern_err_def destroy_eq p_def)
  qed
qed

text \<open>The same for opening and loading.\<close>

lemma bpf_open_and_load_outcome:
  assumes law: "libbpf_law lib" and fr: "fresh m"
  shows "\<exists>r m'. bpf_open_and_load lib m = Some (r, m') \<and>
    all_or_nothing lib ''execsnoop_bpf'' bpf_maps core_image core_data_sz m r m' \<and> (r = None \<longrightarrow> errno m' \<noteq> 0)"
proof -
  obtain r m1 where m1: "bpf_open_opts lib None m = Some (r, m1)"
    "all_or_nothing lib ''execsnoop_bpf'' bpf_maps core_image core_data_sz m r m1" "r = None \<longrightarrow> errno m1 \<noteq> 0"
    using bpf_open_outcome [OF law fr] by blast
  show ?thesis
  proof (cases r)
    case None
    with m1 show ?thesis by (simp add: bpf_open_and_load_def bpf_open_def)
  next
    case (Some p)
    with m1(2) have p: "p = allocs m" and whole: "shapes m1 = shapes m ++ skeleton_blocks lib ''execsnoop_bpf'' bpf_maps core_image core_data_sz p (p + 1)"
      by (simp_all add: all_or_nothing_def)
    obtain err m2 m3 where "lb_load lib (p + 1) m1 = (err, m2)" "shapes m2 = shapes m1" "allocs m2 = allocs m1"
      "bpf_destroy lib (Some p) m2 = Some m3" "shapes m3 = shapes m" "allocs m3 = allocs m2"
      "skeleton_of p m1 = Some (Some (p + 1))" "live_skeleton (Some (p + 1)) m1 = Some (p + 1)"
      by (rule call_or_destroy [OF law fr p whole, where f = "lb_load lib"]) (use law_calls(3,4) [OF law] in blast)+
    with m1(1) Some p whole show ?thesis
      by (cases "err = 0") (simp_all add: bpf_open_and_load_def bpf_open_def bpf_load_def on_skeleton_def bpf_err_out_def all_or_nothing_def)
  qed
qed

lemma kern_open_and_load_outcome:
  assumes law: "libbpf_law lib" and fr: "fresh m"
  shows "if \<not> lb_oom lib (allocs m) \<and> \<not> lb_oom lib (allocs m + 1) \<and> (lb_oom lib (allocs m + 2) \<or> lb_oom lib (allocs m + 3))
    then kern_open_and_load (kern_create_skeleton data data_sz) lib m = None
    else \<exists>r m'. kern_open_and_load (kern_create_skeleton data data_sz) lib m = Some (r, m') \<and>
      all_or_nothing lib ''execsnoop_kern'' kern_maps data data_sz m r m'"
    (is "if ?twice then _ else ?fine")
proof (cases "?twice")
  case True
  with kern_open_outcome [OF law fr, of data data_sz None] show ?thesis
    by (simp add: kern_open_and_load_def kern_open_def)
next
  case False
  with kern_open_outcome [OF law fr, of data data_sz None] obtain r m1
    where m1: "kern_open_opts (kern_create_skeleton data data_sz) lib None m = Some (r, m1)"
      and r: "all_or_nothing lib ''execsnoop_kern'' kern_maps data data_sz m r m1"
    by (simp only: if_False) blast
  have ?fine
  proof (cases r)
    case None
    with m1 r show ?thesis by (simp add: kern_open_and_load_def kern_open_def)
  next
    case (Some p)
    with r have p: "p = allocs m" and whole: "shapes m1 = shapes m ++ skeleton_blocks lib ''execsnoop_kern'' kern_maps data data_sz p (p + 1)"
      by (simp_all add: all_or_nothing_def)
    obtain err m2 m3 where "lb_load lib (p + 1) m1 = (err, m2)" "shapes m2 = shapes m1" "allocs m2 = allocs m1"
      "bpf_destroy lib (Some p) m2 = Some m3" "shapes m3 = shapes m" "allocs m3 = allocs m2"
      "skeleton_of p m1 = Some (Some (p + 1))" "live_skeleton (Some (p + 1)) m1 = Some (p + 1)"
      by (rule call_or_destroy [OF law fr p whole, where f = "lb_load lib"]) (use law_calls(3,4) [OF law] in blast)+
    with m1 Some p whole show ?thesis
      by (cases "err = 0") (simp_all add: kern_open_and_load_def kern_open_def kern_load_def on_skeleton_def kern_err_def destroy_eq all_or_nothing_def)
  qed
  with False show ?thesis by (simp only: if_False)
qed

subsection \<open>What holds of the life cycle\<close>

text \<open>A library that follows the law, which is out of memory where told.\<close>

definition sample_libbpf :: "(nat \<Rightarrow> bool) \<Rightarrow> cint \<Rightarrow> libbpf" where
  "sample_libbpf oom err = \<lparr>lb_oom = oom, lb_skel_sz = 72, lb_map_sz = 24, lb_prog_sz = 24,
     lb_open = (\<lambda>opts s m. (0, m)), lb_load = (\<lambda>s m. (err, m)), lb_attach = (\<lambda>s m. (0, m)), lb_detach = (\<lambda>s m. m),
     lb_destroy = (\<lambda>s m. m\<lparr>blocks := (\<lambda>q. if q = s \<or> q \<in> arrays (blocks m s) then None else blocks m q)\<rparr>)\<rparr>"

lemma sample_libbpf_law: "libbpf_law (sample_libbpf oom err)"
  by (auto simp: libbpf_law_def sample_libbpf_def fun_eq_iff shapes_def)

definition no_memory :: memory where
  "no_memory = \<lparr>blocks = (\<lambda>_. None), allocs = 0, errno = 0\<rparr>"

lemma fresh_no_memory: "fresh no_memory"
  by (simp add: fresh_def shapes_def no_memory_def)

text \<open>
  C15. \<open>execsnoop_bpf__open_and_load\<close> is all or nothing: whichever allocation or step of libbpf's fails, it touches no
  block that is not there, and returns either an object complete with its skeleton and both arrays, or a null
  pointer, \<open>errno\<close> set and every block it made released; an object it returned is released completely by
  \<open>execsnoop_bpf__destroy\<close>.
\<close>

theorem open_and_load_atomic:
  assumes "libbpf_law lib" and "fresh m"
  shows "\<exists>r m'. bpf_open_and_load lib m = Some (r, m') \<and>
    (case r of
       None \<Rightarrow> shapes m' = shapes m \<and> errno m' \<noteq> 0
     | Some p \<Rightarrow> shapes m' = shapes m ++ skeleton_blocks lib ''execsnoop_bpf'' bpf_maps core_image core_data_sz p (p + 1) \<and>
         (\<exists>m''. bpf_destroy lib (Some p) m' = Some m'' \<and> shapes m'' = shapes m))"
proof -
  obtain r m' where r: "bpf_open_and_load lib m = Some (r, m')"
    "all_or_nothing lib ''execsnoop_bpf'' bpf_maps core_image core_data_sz m r m'" "r = None \<longrightarrow> errno m' \<noteq> 0"
    using bpf_open_and_load_outcome [OF assms] by blast
  then show ?thesis
    using destroy_opened [OF assms, of m' "''execsnoop_bpf''" bpf_maps core_image core_data_sz]
    by (cases r) (auto simp: all_or_nothing_def)
qed

theorem open_and_load_atomic_witness:
  "\<exists>r m'. bpf_open_and_load (sample_libbpf (\<lambda>n. n = 3) 0) no_memory = Some (r, m') \<and>
     (r = None \<longrightarrow> shapes m' = Map.empty)"
proof -
  have "shapes no_memory = Map.empty" by (simp add: shapes_def no_memory_def fun_eq_iff)
  with open_and_load_atomic [OF sample_libbpf_law fresh_no_memory, of "\<lambda>n. n = 3" 0] show ?thesis
    by (auto split: option.splits)
qed

text \<open>
  C39. The older headers are not: where the object and the skeleton can be allocated and one of the two arrays cannot,
  \<open>create_skeleton\<close> destroys the skeleton but leaves its address in the object, and \<open>open_opts\<close> destroys it a second time.
  In every other case opening is all or nothing here too.
\<close>

theorem kern_open_double_release:
  assumes "libbpf_law lib" and "fresh m" and "create = x86_open_and_load \<or> create = arm_open_and_load"
  shows "create lib m = None \<longleftrightarrow>
    \<not> lb_oom lib (allocs m) \<and> \<not> lb_oom lib (allocs m + 1) \<and> (lb_oom lib (allocs m + 2) \<or> lb_oom lib (allocs m + 3))"
  using assms(3) kern_open_and_load_outcome [OF assms(1,2), of x86_image x86_data_sz]
    kern_open_and_load_outcome [OF assms(1,2), of arm_image arm_data_sz]
  by (auto simp: x86_open_and_load_def arm_open_and_load_def x86_create_skeleton_def [abs_def] arm_create_skeleton_def [abs_def]
      split: if_splits)

theorem kern_open_double_release_witness:
  "x86_open_and_load (sample_libbpf (\<lambda>n. n = 2) 0) no_memory = None \<and>
   arm_open_and_load (sample_libbpf (\<lambda>n. n = 1) 0) no_memory \<noteq> None"
  using kern_open_double_release [OF sample_libbpf_law fresh_no_memory, of x86_open_and_load "\<lambda>n. n = 2" 0]
    kern_open_double_release [OF sample_libbpf_law fresh_no_memory, of arm_open_and_load "\<lambda>n. n = 1" 0]
  by (simp add: sample_libbpf_def no_memory_def)

text \<open>The object file, its size and the names that a skeleton in memory gives libbpf.\<close>

definition skeleton_names :: "ptr \<Rightarrow> memory \<Rightarrow> (image \<times> nat \<times> string list) option" where
  "skeleton_names p m = (case skeleton_of p m of
       Some (Some s) \<Rightarrow>
         (case blocks m s of
            Some (Skel sk) \<Rightarrow>
              (case (Option.bind (sk_maps sk) (blocks m), Option.bind (sk_progs sk) (blocks m)) of
                 (Some (Map_skels ms), Some (Prog_skels ps)) \<Rightarrow> Some (sk_data sk, sk_data_sz sk, map ms_name ms @ map ps_name ps)
               | _ \<Rightarrow> None)
          | _ \<Rightarrow> None)
     | _ \<Rightarrow> None)"

definition names_resolve :: "image \<times> nat \<times> string list \<Rightarrow> bool" where
  "names_resolve d = (case d of (img, sz, names) \<Rightarrow>
     (case elf_of img of
        None \<Rightarrow> False
      | Some e \<Rightarrow> elf_end e = sz \<and> list_all (\<lambda>nm. nm \<in> set (map fst (symbols img e))) names))"

lemma shapes_arrays:
  "blocks m a = Some (Map_skels ms) \<longleftrightarrow> shapes m a = Some (Map_skels ms)"
  "blocks m a = Some (Prog_skels ps) \<longleftrightarrow> shapes m a = Some (Prog_skels ps)"
  by (cases "blocks m a"; cases "the (blocks m a)"; auto simp: shapes_def)+

lemma skeleton_names_whole:
  assumes "shapes m = f ++ skeleton_blocks lib nm maps data data_sz p (p + 1)"
  shows "skeleton_names p m = Some (data, data_sz, map fst maps @ [''syscall_enter_execve'', ''syscall_exit_execve''])"
proof -
  obtain sk where sk: "shapes m (p + 1) = Some (Skel sk)" "sk_maps sk = Some (p + 2)" "sk_progs sk = Some (p + 3)"
      "sk_data sk = data" "sk_data_sz sk = data_sz"
    by (simp add: assms skeleton_blocks_def map_add_def)
  have "shapes m (p + 2) = Some (Map_skels (map (\<lambda>(nm, sl). \<lparr>ms_name = nm, ms_map = Some (p, sl)\<rparr>) maps))"
    "\<exists>ps. shapes m (p + 3) = Some (Prog_skels ps) \<and> map ps_name ps = [''syscall_enter_execve'', ''syscall_exit_execve'']"
    by (simp_all add: assms skeleton_blocks_def map_add_def)
  with sk show ?thesis
    by (auto simp: skeleton_names_def whole_skeleton(1) [OF assms] shapes_arrays [symmetric] shapes_Skel [symmetric]
        comp_def split_def)
qed

lemma all_names_resolve:
  "names_resolve (core_image, core_data_sz, map fst bpf_maps @ [''syscall_enter_execve'', ''syscall_exit_execve''])"
  "names_resolve (x86_image, x86_data_sz, map fst kern_maps @ [''syscall_enter_execve'', ''syscall_exit_execve''])"
  "names_resolve (arm_image, arm_data_sz, map fst kern_maps @ [''syscall_enter_execve'', ''syscall_exit_execve''])"
  by (simp_all add: names_resolve_def core_elf_of x86_elf_of arm_elf_of core_symbols x86_symbols arm_symbols,
      simp_all add: core_elf_def core_data_sz_def x86_elf_def x86_data_sz_def arm_elf_def arm_data_sz_def)

lemma names_of_opened:
  assumes "all_or_nothing lib nm maps data data_sz m (Some p) m'"
  shows "skeleton_names p m' = Some (data, data_sz, map fst maps @ [''syscall_enter_execve'', ''syscall_exit_execve''])"
proof (rule skeleton_names_whole)
  show "shapes m' = shapes m ++ skeleton_blocks lib nm maps data data_sz p (p + 1)"
    using assms by (simp only: all_or_nothing_def option.case)
qed

text \<open>
  What the skeleton tells libbpf fits the object it carries: after a successful opening by any of the three headers, the
  data is an object file whose size is the size given, and every map and program named is a symbol of that file.
\<close>

theorem skeleton_describes_object:
  assumes "libbpf_law lib" and "fresh m"
    and "open_with \<in> {(\<lambda>lib. bpf_open_opts lib opts), (\<lambda>lib. x86_open_opts lib opts), (\<lambda>lib. arm_open_opts lib opts),
      bpf_open_and_load, x86_open_and_load, arm_open_and_load}"
    and "open_with lib m = Some (Some p, m')"
  shows "\<exists>d. skeleton_names p m' = Some d \<and> names_resolve d"
proof -
  note older = kern_open_outcome [OF assms(1,2), where opts = opts] kern_open_and_load_outcome [OF assms(1,2)]
  have "(\<exists>nm. all_or_nothing lib nm bpf_maps core_image core_data_sz m (Some p) m') \<or>
    (\<exists>nm. all_or_nothing lib nm kern_maps x86_image x86_data_sz m (Some p) m') \<or>
    (\<exists>nm. all_or_nothing lib nm kern_maps arm_image arm_data_sz m (Some p) m')"
    using assms(3,4) bpf_open_outcome [OF assms(1,2), of opts] bpf_open_and_load_outcome [OF assms(1,2)]
      older [of x86_image x86_data_sz] older [of arm_image arm_data_sz]
    by (auto simp: x86_open_opts_def arm_open_opts_def x86_open_and_load_def arm_open_and_load_def x86_create_skeleton_def [abs_def]
        arm_create_skeleton_def [abs_def] split: if_splits)
  then show ?thesis using names_of_opened all_names_resolve by blast
qed

theorem skeleton_describes_object_witness:
  "\<exists>p m' d. arm_open_and_load (sample_libbpf (\<lambda>n. False) 0) no_memory = Some (Some p, m') \<and>
     skeleton_names p m' = Some d \<and> names_resolve d"
proof -
  have "\<exists>p m'. arm_open_and_load (sample_libbpf (\<lambda>n. False) 0) no_memory = Some (Some p, m')"
    by (simp add: arm_open_and_load_def kern_open_and_load_def kern_open_def kern_open_opts_def arm_create_skeleton_def
        kern_create_skeleton_def kern_load_def on_skeleton_def skeleton_of_def access_defs sample_libbpf_def no_memory_def
        zero_obj_def)
  then show ?thesis
    using skeleton_describes_object [OF sample_libbpf_law fresh_no_memory, where open_with = arm_open_and_load] by blast
qed

end
