(* ===== verification/Snoop_Session.thy ===== *)
theory Snoop_Session
  imports Skeleton Lifecycle
begin

text \<open>
  The execsnoop thread on top of the skeleton: \<open>execsnoop\<close> of \<open>execsnoop_share.cpp\<close> run with
  \<open>execsnoop_bpf__open_and_load\<close> and \<open>execsnoop_bpf__attach\<close> as the header has them.  The state carries the
  memory of the skeleton and the pointer the function holds; the rest of the library (\<open>base\<close>) works on the
  remaining state.  \<open>None\<close> is the state after undefined behaviour, which nothing leaves.
\<close>

record 'e session =
  s_env :: 'e
  s_mem :: memory
  s_obj :: "ptr option"

definition lifted :: "'a \<Rightarrow> ('s \<Rightarrow> ('a \<times> 's) option) \<Rightarrow> 's option \<Rightarrow> 'a \<times> 's option" where
  "lifted x f k = (case Option.bind k f of None \<Rightarrow> (x, None) | Some (y, s) \<Rightarrow> (y, Some s))"

definition on_env :: "('e \<Rightarrow> 'a \<times> 'e) \<Rightarrow> 'e session \<Rightarrow> ('a \<times> 'e session) option" where
  "on_env f s = (case f (s_env s) of (x, e) \<Rightarrow> Some (x, s\<lparr>s_env := e\<rparr>))"

definition session_open :: "libbpf \<Rightarrow> 'e session \<Rightarrow> (bool \<times> 'e session) option" where
  "session_open lib s = map_option (\<lambda>(p, m). (p \<noteq> None, s\<lparr>s_mem := m, s_obj := p\<rparr>)) (bpf_open_and_load lib (s_mem s))"

definition session_attach :: "libbpf \<Rightarrow> 'e session \<Rightarrow> (cint \<times> 'e session) option" where
  "session_attach lib s = Option.bind (s_obj s) (\<lambda>p.
     map_option (\<lambda>(err, m). (err, s\<lparr>s_mem := m\<rparr>)) (bpf_attach lib p (s_mem s)))"

text \<open>The buffer is made for the map whose address is read from the object: \<open>obj->maps.perf_events\<close>.\<close>

definition session_buffer :: "'e bpf_lib \<Rightarrow> nat \<Rightarrow> 'e session \<Rightarrow> (cint \<times> 'e session) option" where
  "session_buffer base n s = Option.bind (s_obj s) (\<lambda>p. Option.bind (skeleton_of p (s_mem s)) (\<lambda>_.
     on_env (lib_buffer_new base n) s))"

definition session_lib :: "libbpf \<Rightarrow> 'e bpf_lib \<Rightarrow> 'e session option bpf_lib" where
  "session_lib lib base = \<lparr>
     lib_setrlimit = lifted 0 (on_env (lib_setrlimit base)),
     lib_open_and_load = lifted False (session_open lib),
     lib_attach = lifted 0 (session_attach lib),
     lib_buffer_new = (\<lambda>n. lifted 0 (session_buffer base n)),
     lib_poll = lifted ([], 0) (on_env (lib_poll base)),
     lib_buffer_free = (\<lambda>k. snd (lifted () (on_env (\<lambda>e. ((), lib_buffer_free base e))) k)) \<rparr>"

text \<open>What a session holds: a live state, the blocks up to what libbpf fills in, and the object.\<close>

definition holding :: "(ptr \<Rightarrow> block option) \<Rightarrow> ptr option \<Rightarrow> 'e session option \<Rightarrow> bool" where
  "holding S p k = (case k of None \<Rightarrow> False | Some s \<Rightarrow> shapes (s_mem s) = S \<and> s_obj s = p)"

lemma keeps_holding_call:
  "(\<And>k. holding S p k \<Longrightarrow> holding S p (snd (f k))) \<Longrightarrow> keeps (\<lambda>w. holding S p (kern w)) (os_call f ev)"
  by (auto simp: keeps_def split: prod.splits) (metis snd_conv)

lemma holding_on_env: "holding S p k \<Longrightarrow> holding S p (snd (lifted x (on_env f) k))"
  by (auto simp: holding_def lifted_def on_env_def split: option.splits prod.splits)

lemma keeps_holding_lib:
  "keeps (\<lambda>w. holding S p (kern w)) (bump_memlock_rlimit (session_lib lib base))"
  "keeps (\<lambda>w. holding S p (kern w)) (perf_buffer_poll (session_lib lib base))"
  "keeps (\<lambda>w. holding S p (kern w)) (perf_buffer_free (session_lib lib base))"
  "keeps (\<lambda>w. holding S p (kern w)) (set_ready nm)"
  unfolding lib_defs set_ready_def
  by (auto intro!: keeps_holding_call holding_on_env simp: session_lib_def)

lemma keeps_holding_buffer:
  assumes "S p = Some (Obj ob)"
  shows "keeps (\<lambda>w. holding S (Some p) (kern w)) (perf_buffer_new (session_lib lib (base :: 'e bpf_lib)) n)"
  unfolding perf_buffer_new_def
proof (rule keeps_holding_call)
  fix k :: "'e session option" assume "holding S (Some p) k"
  moreover from this assms have "session_buffer base n (the k) = on_env (lib_buffer_new base n) (the k)"
    by (auto simp: holding_def session_buffer_def skeleton_of_shapes split: option.splits)
  ultimately show "holding S (Some p) (snd (lib_buffer_new (session_lib lib base) n k))"
    by (auto simp: session_lib_def holding_def lifted_def on_env_def split: option.splits prod.splits)
qed

text \<open>What the rest of the program must not touch.\<close>

definition leaves_alone :: "'e session option os \<Rightarrow> (cint \<Rightarrow> ('e session option world, cint res) state) \<Rightarrow> bool" where
  "leaves_alone os cb = ((\<forall>S p pid sig k. holding S p k \<longrightarrow> holding S p (os_kill os pid sig k)) \<and>
     (\<forall>S p pid. keeps (\<lambda>w. holding S p (kern w)) (cb pid)))"

lemma keeps_poll_while:
  assumes "leaves_alone os cb"
  shows "keeps (\<lambda>w. holding S p (kern w)) (poll_while n (session_lib lib base) (handle_event (Some cb)))"
proof (induction n)
  case (Suc n)
  have "keeps (\<lambda>w. holding S p (kern w)) (handle_event (Some cb) e)" for e
    using assms by (auto simp: handle_event_def leaves_alone_def)
  with Suc keeps_holding_lib(2) show ?case
    by (auto intro!: keeps_for_each split: prod.splits sum.splits)
qed auto

lemma keeps_main_loop:
  assumes "leaves_alone os cb" and "S p = Some (Obj ob)"
  shows "keeps (\<lambda>w. holding S (Some p) (kern w)) (main_loop m n os (session_lib lib base) (Some cb) notified)"
proof (induction m arbitrary: notified)
  case (Suc m)
  have "keeps (\<lambda>w. holding S (Some p) (kern w)) (kill os pid sig)" for pid sig
    using assms(1) unfolding kill_def leaves_alone_def by (auto intro!: keeps_holding_call)
  with Suc keeps_holding_lib keeps_holding_buffer [where S = S, OF assms(2)] keeps_poll_while [OF assms(1)] show ?case
    by (auto split: polled.splits)
qed auto

subsection \<open>The object outlives the function\<close>

definition complete :: "libbpf \<Rightarrow> (ptr \<Rightarrow> block option) \<Rightarrow> ptr \<Rightarrow> ptr \<Rightarrow> block option" where
  "complete lib S p = S ++ skeleton_blocks lib ''execsnoop_bpf'' bpf_maps core_image core_data_sz p (p + 1)"

lemma run_open:
  assumes "libbpf_law lib" and "kern w = Some s" and "fresh (s_mem s)" and "s_obj s = None"
    and "run_state (open_and_load (session_lib lib base)) w = (ok, w')"
  shows "if ok then \<exists>p. holding (complete lib (shapes (s_mem s)) p) (Some p) (kern w')
    else holding (shapes (s_mem s)) None (kern w')"
proof -
  obtain r m where r: "bpf_open_and_load lib (s_mem s) = Some (r, m)"
      "all_or_nothing lib ''execsnoop_bpf'' bpf_maps core_image core_data_sz (s_mem s) r m"
    using bpf_open_and_load_outcome [OF assms(1,3)] by blast
  then have "ok = (r \<noteq> None)" "kern w' = Some (s\<lparr>s_mem := m, s_obj := r\<rparr>)"
    using assms(2,5) by (auto simp: open_and_load_def session_lib_def lifted_def session_open_def)
  with r(2) show ?thesis by (cases r) (auto simp: holding_def complete_def all_or_nothing_def)
qed

lemma law_attach:
  assumes "libbpf_law lib" and "shapes m s = Some (Skel sk)"
  shows "shapes (snd (lb_attach lib s m)) = shapes m"
  using assms by (auto simp: libbpf_law_def shapes_Skel)

lemma keeps_attach:
  assumes "libbpf_law lib"
  shows "keeps (\<lambda>w. holding (complete lib S p) (Some p) (kern w)) (attach_programs (session_lib lib (base :: 'e bpf_lib)))"
  unfolding attach_programs_def
proof (rule keeps_holding_call)
  fix k :: "'e session option" assume "holding (complete lib S p) (Some p) k"
  then obtain s where s: "k = Some s" "shapes (s_mem s) = complete lib S p" "s_obj s = Some p"
    by (auto simp: holding_def split: option.splits)
  then have "skeleton_of p (s_mem s) = Some (Some (p + 1))"
    by (simp add: skeleton_of_shapes complete_def skeleton_blocks_def)
  moreover have sk: "\<exists>sk. shapes (s_mem s) (p + 1) = Some (Skel sk)"
    using s(2) by (simp add: complete_def skeleton_blocks_def)
  ultimately have "bpf_attach lib p (s_mem s) = Some (lb_attach lib (p + 1) (s_mem s))"
    by (auto simp: bpf_attach_def on_skeleton_def live_skeleton_shapes)
  moreover have "shapes (snd (lb_attach lib (p + 1) (s_mem s))) = shapes (s_mem s)"
    using sk law_attach [OF assms] by blast
  ultimately show "holding (complete lib S p) (Some p) (snd (lib_attach (session_lib lib base) k))"
    using s by (auto simp: session_lib_def lifted_def session_attach_def holding_def split: prod.splits)
qed

text \<open>
  C37. The object is never released: with a libbpf that follows its law, and a kernel and a callback that
  leave the skeleton's memory alone, the execsnoop thread never touches memory that is not there; and when
  its function has returned, unless it returned 1 with nothing opened, the object, its skeleton and the two
  arrays are all still allocated.
\<close>

theorem object_never_released:
  assumes "libbpf_law lib" and "leaves_alone os cb"
    and "kern w = Some s" and "fresh (s_mem s)" and "s_obj s = None"
    and "run_state (startThread m n os (session_lib lib base) cb) w = (r, w')"
  shows "(r = Ended 1 \<and> holding (shapes (s_mem s)) None (kern w')) \<or>
    (\<exists>p. holding (complete lib (shapes (s_mem s)) p) (Some p) (kern w'))"
proof -
  let ?S = "shapes (s_mem s)" and ?lib = "session_lib lib base"
  obtain err w1 where limit: "run_state (bump_memlock_rlimit ?lib) w = (err, w1)" by fastforce
  then obtain e where w1: "kern w1 = Some (s\<lparr>s_env := e\<rparr>)"
    using assms(3) by (auto simp: bump_memlock_rlimit_def session_lib_def lifted_def on_env_def split: prod.splits)
  obtain ok w2 where open2: "run_state (open_and_load ?lib) w1 = (ok, w2)" by fastforce
  have opened: "if ok then \<exists>p. holding (complete lib ?S p) (Some p) (kern w2) else holding ?S None (kern w2)"
    using run_open [OF assms(1) w1 _ _ open2] assms(4,5) by (auto split: if_splits)
  show ?thesis
  proof (cases "err = 0 \<and> ok")
    case False
    with assms(3,5,6) limit open2 opened w1 show ?thesis
      by (auto simp: startThread_def execsnoop_def holding_def split: if_splits)
  next
    case True
    with opened obtain p where p: "holding (complete lib ?S p) (Some p) (kern w2)" by auto
    let ?rest = "do { err \<leftarrow> attach_programs ?lib;
      if err \<noteq> 0 then ret (Ended err) else main_loop m n os ?lib (Some cb) False }"
    have "complete lib ?S p p = Some (Obj (zero_obj\<lparr>ob_skeleton := Some (p + 1)\<rparr>))"
      by (simp add: complete_def skeleton_blocks_def)
    then have rest: "keeps (\<lambda>w. holding (complete lib ?S p) (Some p) (kern w)) ?rest"
      by (auto intro!: keeps_attach [OF assms(1)] keeps_main_loop [OF assms(2)])
    have "run_state ?rest w2 = (r, w')"
      using assms(6) True limit open2 by (simp add: startThread_def execsnoop_def)
    from keepsD [OF rest p this] show ?thesis by blast
  qed
qed

text \<open>A kernel and a library where nothing happens.\<close>

definition idle_lib :: "unit bpf_lib" where
  "idle_lib = \<lparr>lib_setrlimit = (\<lambda>k. (0, k)), lib_open_and_load = (\<lambda>k. (False, k)), lib_attach = (\<lambda>k. (0, k)),
     lib_buffer_new = (\<lambda>n k. (0, k)), lib_poll = (\<lambda>k. (([], - 1), k)), lib_buffer_free = (\<lambda>k. k)\<rparr>"

definition idle_os :: "'k os" where
  "idle_os = \<lparr>os_getuid = (\<lambda>k. (0, k)), os_setuid = (\<lambda>u k. (True, k)), os_getpid = (\<lambda>k. (1, k)),
     os_is_reg = (\<lambda>p k. (False, k)), os_is_dir = (\<lambda>p k. (False, k)), os_read = (\<lambda>p k. (None, k)),
     os_realpath = (\<lambda>p k. (None, k)), os_popen = (\<lambda>c k. (None, k)), os_mkdir = (\<lambda>p k. (True, k)),
     os_append = (\<lambda>p d k. (Written, k)), os_write = (\<lambda>p d k. (True, k)), os_flock = (\<lambda>p k. (True, k)),
     os_funlock = (\<lambda>p k. k), os_unlink = (\<lambda>p k. (True, k)), os_system = (\<lambda>c e k. (0, k)),
     os_sleep = (\<lambda>n k. k), os_kill = (\<lambda>p sig k. k)\<rparr>"

lemma idle_leaves_alone: "leaves_alone idle_os (handle_pid_static idle_os None)"
  by (auto simp: leaves_alone_def idle_os_def handle_pid_static_def)

definition idle_world :: "unit session option world" where
  "idle_world = \<lparr>kern = Some \<lparr>s_env = (), s_mem = no_memory, s_obj = None\<rparr>, environ = Map.empty, trace = []\<rparr>"

lemma idle_run:
  "fst (run_state (startThread 1 1 idle_os (session_lib (sample_libbpf (\<lambda>n. False) 0) idle_lib)
     (handle_pid_static idle_os None)) idle_world) = Ended (- 1)"
proof -
  obtain p m s where "bpf_open_and_load (sample_libbpf (\<lambda>n. False) 0) no_memory = Some (Some p, m)"
      "bpf_attach (sample_libbpf (\<lambda>n. False) 0) p m = Some (0, m)" "skeleton_of p m = Some (Some s)"
    by (simp add: bpf_open_and_load_def bpf_open_def bpf_open_opts_def bpf_create_skeleton_def bpf_load_def bpf_attach_def
        on_skeleton_def skeleton_of_def access_defs sample_libbpf_def no_memory_def zero_obj_def)
  then show ?thesis
    by (simp add: startThread_def execsnoop_def lib_defs session_lib_def lifted_def session_open_def session_attach_def
        session_buffer_def on_env_def idle_lib_def idle_world_def set_ready_def kill_def idle_os_def EINTR_def)
qed

theorem object_never_released_witness:
  "\<exists>r w' p. run_state (startThread 1 1 idle_os (session_lib (sample_libbpf (\<lambda>n. False) 0) idle_lib)
       (handle_pid_static idle_os None)) idle_world = (r, w') \<and>
     r = Ended (- 1) \<and> holding (complete (sample_libbpf (\<lambda>n. False) 0) Map.empty p) (Some p) (kern w')"
proof -
  obtain r w' where run: "run_state (startThread 1 1 idle_os (session_lib (sample_libbpf (\<lambda>n. False) 0) idle_lib)
       (handle_pid_static idle_os None)) idle_world = (r, w')" by fastforce
  have "shapes no_memory = Map.empty" by (simp add: shapes_def no_memory_def fun_eq_iff)
  with run object_never_released [OF sample_libbpf_law idle_leaves_alone _ _ _ run] fresh_no_memory idle_run
  show ?thesis by (simp add: idle_world_def)
qed

end
