(* ===== verification/Spec2Isabelle.thy ===== *)
theory Spec2Isabelle
  imports Thread_Races Debug_Tables Snoop_Session
begin

text \<open>
  A model of cgproxy, which makes chosen programs use a transparent proxy: a daemon (\<open>cgproxyd\<close>) keeps
  a configuration, runs a script that turns it into packet rules on two cgroups, and moves
  processes between the cgroups; the command \<open>cgproxy\<close> asks it, over a unix socket, to move the
  process it is about to become; and a pair of kernel programs (\<open>execsnoop\<close>) tells it of every program
  executed.  The kernel programs are built into the daemon as object files, kept as string literals in
  generated headers; the model goes down to those bytes.

  How the parts interact.  The daemon's \<open>main\<close> takes a lock, loads the configuration file, applies it
  (stop the script, set the variables, start the script) and starts two threads.  The socket thread reads
  a length and a message and calls \<open>handle_msg\<close>, which loads and applies another configuration or
  attaches a process.  The execsnoop thread polls the kernel's buffer and calls \<open>handle_pid\<close> for every
  program executed, which the kernel programs put there at the exit of an \<open>execve\<close>.  Both end in \<open>attach\<close>, which writes a pid to a cgroup's \<open>cgroup.procs\<close>.

  The theories, bottom up, and the code each models:

  \<^item> \<open>Prelude\<close>: machine integers, exceptions as values (\<open>res\<close>), programs as state transformers
    (\<open>State_Monad\<close>) with the rules of a small Hoare calculus.  \<open>Decimal\<close>: C strings, printing and
    scanning of integers (\<open>to_str\<close> of \<open>common.cmake.h\<close>, \<open>stoi\<close>, \<open>fscanf\<close>) with their round trips.
  \<^item> \<open>World\<close>: the operating system as a parameter (\<open>os\<close>), the process as kernel state, environment
    variables and the trace of its calls to the outside; \<open>emits\<close> bounds what a program can add to
    the trace on any kernel, \<open>scriptless\<close> says that it neither runs the script nor sets variables.
  \<^item> \<open>Common\<close>: \<open>src/common.cpp\<close> and the constants of \<open>src/common.cmake.h\<close>.
  \<^item> \<open>Sample_Kernel\<close>: a small concrete kernel on which the laws assumed of the parameter hold and on
    which the witnesses run the model.
  \<^item> \<open>Json\<close>: the values and the documented behaviour of \<open>nlohmann::json\<close>, a parameter.
  \<^item> \<open>Config\<close>: \<open>src/config.h\<close>, \<open>src/config.cpp\<close>.  Validation against a specification over JSON values,
    loading as a transaction, the round trip through JSON and through the environment.
  \<^item> \<open>Cgroup_Attach\<close>: \<open>src/cgroup_attach.cpp\<close>.  What \<open>attach\<close> can touch on any kernel, what it achieves
    on one whose cgroup files behave as documented.
  \<^item> \<open>Wire\<close>, \<open>Socket_Server\<close>: \<open>src/socket_server.cpp\<close>, over the socket calls as a parameter
    (\<open>net\<close>).  Frames, short reads, the memory a round reads and writes, the server's loop.
  \<^item> \<open>Client\<close>: \<open>src/socket_client.cpp\<close>, \<open>src/cgproxy.hpp\<close>, \<open>tools/cgattach.cpp\<close>,
    \<open>test/socket_client_test.cpp\<close>.
  \<^item> \<open>Daemon\<close>: the handlers of \<open>src/cgproxyd.hpp\<close>.  \<open>handle_msg\<close> against its contract, \<open>handle_pid\<close>
    against the policy of the readme, \<open>verdict\<close>, from which it departs in one case (\<open>contested\<close>, theorem
    \<open>exemption_overridden\<close>); the scan of running programs against \<open>handle_pid\<close>.
  \<^item> \<open>Execsnoop_Bpf\<close>, \<open>Execsnoop_User\<close>: \<open>execsnoop-libbpf\<close>, \<open>execsnoop-kernel\<close> and \<open>execsnoop-bcc\<close>.
    The kernel programs over any interleaving of threads, where an entry left behind by another \<open>execve\<close> may be
    what an exit finds; the daemon's polling thread.
  \<^item> \<open>Image\<close>, \<open>Elf\<close>, \<open>Btf\<close>: reading bytes, object files and type information.  \<open>Bpf_Machine\<close>: BPF
    instructions, their decoding and a machine that runs them over the same map and task as the source
    model; an access out of bounds or a use of a value as what it is not is \<open>Stuck\<close>.
  \<^item> \<open>Object_X86\<close>, \<open>Object_Arm\<close>: the objects in \<open>execsnoop-kernel/x86_64\<close> and \<open>aarch64/execsnoop_kern_skel.h\<close>,
    byte for byte as the headers have them, read down to their two programs.  \<open>Object_Core\<close>,
    \<open>Core_Btf_Types\<close>, \<open>Core_Btf_Strings\<close>, \<open>Core_Btf\<close>: the same of \<open>execsnoop-libbpf/execsnoop.skel.h\<close> with
    its 421 types, all but the bulk of its debugging information.
  \<^item> \<open>Bpf_Refines\<close>, \<open>Compiled_Snoop\<close>: the programs of the objects refine those of the source, end, and
    stay in bounds.  \<open>Object_Maps\<close>: the maps and the event layout the objects declare are the
    source's.  \<open>Core_Relocation\<close>: what the loader changes on another kernel, and that the result
    still refines the source.  \<open>Source_Lines\<close>: the lines of \<open>execsnoop.bpf.c\<close> the object says it is from, and
    that the instructions under a line do what it says: its calls, branches, maps and assigned members.
    \<open>Debug_Tables\<close>: the line program, run as DWARF 5 says, gives the same lines; the location lists
    and the abbreviations are well-formed (\<open>Core_Debug\<close> has their bytes).
  \<^item> \<open>Skeleton\<close>: the functions of the three headers that open, load and destroy the object, over an
    explicit memory in which a second release is an error.  \<open>Snoop_Session\<close>: the thread of
    \<open>Execsnoop_User\<close> run over these functions, and what it leaves allocated.
  \<^item> \<open>Lifecycle\<close>: the rest of \<open>src/cgproxyd.hpp\<close> and \<open>src/main.cpp\<close>: lock, start, stop, threads.
  \<^item> \<open>System\<close>: the daemon as a transition system, one handler at a time: the lemmas its handlers share with the
    interleaved model, and that no message ends it.
  \<^item> \<open>Process\<close>, \<open>Threads_Code\<close>: the functions of the daemon's threads once more, as trees of atomic actions: one
    per call outside and per access to the configuration object, named by the member it reads or writes;
    run alone they are the functions above (lemmas \<open>agrees_\<dots>\<close> and \<open>follows_\<dots>\<close>).  \<open>Interference\<close>: what the socket thread's
    handler achieves whatever others do between its actions.  \<open>Threads\<close>, \<open>Thread_Races\<close>: the socket
    thread with its answers, the execsnoop thread with its report and its end, the main thread and a signal handler
    interleaved action by action; what holds of every interleaving, when a signal finds its way out, and what goes wrong: data races on the
    configuration, a process judged by half of each of two configurations, and a signal that leaves the rules in place.
  \<^item> This theory: the path of a request through client, socket, daemon and cgroup, and that of an executed program through the
    compiled programs, the buffer, the daemon and the cgroup.

  Interfaces.  Where a part relies on another through more than one call, what it relies on is a locale,
  interpreted on the model: \<open>containment\<close> (which scope a cgroup is in), \<open>config_loader\<close> and
  \<open>daemon_loader\<close> (the two ways to load a configuration), \<open>attacher\<close> (what an attachment may
  touch), \<open>service\<close> (the callback of the socket server, which is \<open>handle_msg\<close>), \<open>snoop_callback\<close>
  (the callback of execsnoop, which is \<open>handle_pid\<close>), \<open>snoop_code\<close> (a pair of compiled programs, which each
  of the objects has).

  Representation.  C \<open>int\<close> and \<open>pid_t\<close> are 32-bit words read as signed, \<open>size_t\<close> a 64-bit word; strings
  are lists of bytes and reach the kernel cut at the first NUL (\<open>c_str\<close>); an object a method changes is
  an argument and a result; a call that may throw returns \<open>Inl\<close>, and each \<open>try\<close> is a function on
  results (\<open>tryassign\<close>, \<open>catch_msg\<close>).

  Parameters and hypotheses.  The operating system, the socket calls, \<open>nlohmann::json\<close>, libbpf, bcc,
  the BPF hash map and the paths fixed by the build are parameters.  A theorem that needs
  something of them names it: \<open>quiet_reads\<close> and \<open>quiet_queries\<close> (reading changes nothing),
  \<open>cgroup_file_law\<close> and \<open>cgroup_write_law\<close> (\<open>/proc/PID/cgroup\<close> and \<open>cgroup.procs\<close>), \<open>stream_law\<close>
  and \<open>eof_law\<close> (a stream socket delivers what was sent, in order, then its end), \<open>js_documented\<close>,
  \<open>bpf_map_law\<close>, \<open>env_law\<close> (the BPF helpers), \<open>libbpf_law\<close> (libbpf releases a skeleton when told to and not
  before).  Every one of them holds of a concrete instance, on which the witnesses rest.

  Fuel.  The loops of the program that may never end take the number of rounds: \<open>serve_loop\<close> its
  rounds, \<open>main_loop\<close> the buffers and the polls of each, \<open>bcc_loop\<close> its polls.  No theorem fixes
  the number, so each holds of every finite part of the run.  The \<open>fscanf\<close> loop of \<open>bash_pidof\<close>, which
  does not end on text that is no number, has \<open>None\<close> for that.  \<open>bpf_run\<close> takes the number of instructions;
  the programs have no backward jump, so their length and one more is enough (\<open>bpf_run_ends\<close>), and
  \<open>objects_end\<close> states that it is.  \<open>type_size\<close> takes libbpf's own limit of 32 steps.

  Not modelled: printing and logging; the script itself (\<open>cgroup-tproxy.sh\<close>), beyond the order
  and the variables of its runs; of the newer object the sections \<open>.debug_info\<close>, \<open>.debug_str\<close> and
  \<open>.debug_str_offsets\<close> with their relocations, which no loader reads (its bytes 2037 to 489326 and 520664
  to 738618, most of the header's lines); the sizes of libbpf's structures;
  SIGPIPE and out-of-memory exceptions.  In the interleaved model a read or write of one member is one action: that
  two of them can meet is shown (\<open>racy\<close>), what the C++ program does then is undefined and has no model;
  signals come once the threads run, and one at a time.  A call outside returns in one action, so nothing is claimed
  of one that never returns, and the end of a handler is no theorem.
\<close>

subsection \<open>From the client to the cgroup\<close>

text \<open>What the library does with a message: it prints it and, at the other end, reads it back.\<close>

definition carries :: "nlohmann \<Rightarrow> json \<Rightarrow> string \<Rightarrow> bool" where
  "carries js j msg = (js_dump js j = Inr msg \<and> js_parse js msg = Inr j)"

lemma message_members:
  assumes "js_documented js"
  shows "js_at js (message js type data) ''type'' = Inr (JInt (sint type))"
    and "js_at js (message js type data) ''data'' = Inr data"
  unfolding message_def by (rule js_object_at [OF assms]; simp)+

definition pid_cgroup :: "bool \<Rightarrow> string" where
  "pid_cgroup by_proxy = (if by_proxy then CGROUP_PROXY_PRESVERED else CGROUP_NOPROXY_PRESVERED)"

lemma handle_pid_message:
  assumes "js_documented js"
    and "js_parse js msg = Inr (message js (if by_proxy then MSG_TYPE_PROXY_PID else MSG_TYPE_NOPROXY_PID) (JInt (sint pid)))"
  shows "run_state (handle_msg inst js os msg c) w =
    (case run_state (attach_pid os pid (pid_cgroup by_proxy)) w of (r, w') \<Rightarrow> ((c, catch_msg r), w'))"
  using assms(2)
  by (cases by_proxy) (simp_all add: handle_msg_def handle_json_def message_members [OF assms(1)]
      js_get_doc [OF assms(1)] msg_type_defs pid_cgroup_def split: prod.splits)

text \<open>
  C1. The request of a client is carried out as it was made: where a client sends the message of
  \<open>send_pid\<close> and the connection delivers its bytes, the daemon attaches that very process to the
  cgroup asked for, leaves its configuration alone, and sends the status of the attachment back.
\<close>

theorem pid_request_served:
  assumes "js_documented js"
    and "carries js (message js (if by_proxy then MSG_TYPE_PROXY_PID else MSG_TYPE_NOPROXY_PID) (JInt (sint pid))) msg"
    and "stream_law net stream" and "framable msg" and "fd \<noteq> - 1"
    and "net_accept net (sfd srv) (net_close net (cfd srv) (kern w)) = (fd, k)"
    and "stream k fd = frame msg" and "\<forall>k. fst (net_malloc net (word_of_nat (Suc (length msg))) k)"
  shows "send_pid js net' pid by_proxy = okE (send net' msg) \<and>
    (\<exists>k'. run_state (serve_one net (handle_msg inst js os) srv c) w = run_state (do {
        r \<leftarrow> attach_pid os pid (pid_cgroup by_proxy);
        case catch_msg r of
          Inl e \<Rightarrow> ret (Uncaught e)
        | Inr status \<Rightarrow> do {
            write_fd net fd (int_bytes status);
            ret (Next (srv\<lparr>cfd := fd\<rparr>) c) } }) (w\<lparr>kern := k'\<rparr>))"
proof
  show "send_pid js net' pid by_proxy = okE (send net' msg)"
    using assms(2) by (simp add: send_pid_def send_res_def carries_def)
  have "stream k fd = frame msg @ []" using assms(7) by simp
  from serve_one_frame [OF assms(3-6) this assms(8), of "handle_msg inst js os" c] obtain k' where
    serve: "run_state (serve_one net (handle_msg inst js os) srv c) w =
      run_state (answer net (handle_msg inst js os) (srv\<lparr>cfd := fd\<rparr>) c msg) (w\<lparr>kern := k'\<rparr>)" by blast
  have parse: "js_parse js msg = Inr (message js (if by_proxy then MSG_TYPE_PROXY_PID else MSG_TYPE_NOPROXY_PID) (JInt (sint pid)))"
    using assms(2) by (simp add: carries_def)
  show "\<exists>k'. run_state (serve_one net (handle_msg inst js os) srv c) w = run_state (do {
        r \<leftarrow> attach_pid os pid (pid_cgroup by_proxy);
        case catch_msg r of
          Inl e \<Rightarrow> ret (Uncaught e)
        | Inr status \<Rightarrow> do {
            write_fd net fd (int_bytes status);
            ret (Next (srv\<lparr>cfd := fd\<rparr>) c) } }) (w\<lparr>kern := k'\<rparr>)"
    by (intro exI [of _ k'])
      (simp add: serve answer_def handle_pid_message [OF assms(1) parse] split: prod.splits)
qed

definition sample_message :: json where
  "sample_message = JObject [(''type'', JInt 3), (''data'', JInt 42)]"

lemma sample_message_eq: "message (sample_js j) MSG_TYPE_PROXY_PID (JInt (sint (42 :: cint))) = sample_message"
  by (simp add: message_def sample_js_def documented_js_def MSG_TYPE_PROXY_PID_def sample_message_def)

theorem pid_request_served_witness:
  "\<exists>k'. run_state (serve_one sample_net (handle_msg sample_inst (sample_js sample_message) sample_os) new_server default_config)
      (sample_world\<lparr>kern := sample_kern\<lparr>s_inbox := frame ''doc''\<rparr>\<rparr>) = run_state (do {
        r \<leftarrow> attach_pid sample_os 42 CGROUP_PROXY_PRESVERED;
        case catch_msg r of
          Inl e \<Rightarrow> ret (Uncaught e)
        | Inr status \<Rightarrow> do {
            write_fd sample_net 5 (int_bytes status);
            ret (Next (new_server\<lparr>cfd := 5\<rparr>) default_config) } }) (sample_world\<lparr>kern := k'\<rparr>)"
proof -
  let ?k = "sample_kern\<lparr>s_inbox := frame ''doc''\<rparr>"
  let ?w = "sample_world\<lparr>kern := ?k\<rparr>"
  have "carries (sample_js sample_message) (message (sample_js sample_message) (if True then MSG_TYPE_PROXY_PID
      else MSG_TYPE_NOPROXY_PID) (JInt (sint (42 :: cint)))) ''doc''"
    using sample_message_eq by (simp add: carries_def)
  moreover have "framable ''doc''" by (simp add: framable_def)
  moreover have "sample_stream ?k 5 = frame ''doc''" by (simp add: sample_stream_def)
  moreover have "net_accept sample_net (sfd new_server) (net_close sample_net (cfd new_server) (kern ?w)) = (5, ?k)"
    by simp
  ultimately have "\<exists>k'. run_state (serve_one sample_net (handle_msg sample_inst (sample_js sample_message) sample_os) new_server default_config) ?w
      = run_state (do {
        r \<leftarrow> attach_pid sample_os 42 (pid_cgroup True);
        case catch_msg r of
          Inl e \<Rightarrow> ret (Uncaught e)
        | Inr status \<Rightarrow> do {
            write_fd sample_net 5 (int_bytes status);
            ret (Next (new_server\<lparr>cfd := 5\<rparr>) default_config) } }) (?w\<lparr>kern := k'\<rparr>)"
    using pid_request_served [OF sample_js_documented _ sample_stream_law, where by_proxy = True and pid = 42
        and msg = "''doc''" and fd = 5 and k = ?k and srv = new_server and w = ?w and net' = sample_net]
    by fastforce
  then show ?thesis by (simp add: pid_cgroup_def)
qed

subsection \<open>From the kernel to the cgroup\<close>



subsection \<open>A document sent as a string\<close>

text \<open>
  A document that arrives as a string, as the test client sends it, is always refused: the
  daemon dumps the string once more, and what it validates is a string.
\<close>

theorem config_as_string_refused:
  assumes "js_documented js" and "js_parse js msg = Inr (message js MSG_TYPE_CONFIG_JSON (JString doc))"
    and "js_dump js (JString doc) = Inr quoted" and "js_parse js quoted = Inr (JString doc)"
  shows "run_state (handle_msg inst js os msg c) w = ((c, Inr PARAM_ERROR), w)"
proof -
  have "validateJsonStr js quoted = Inr False"
    by (simp add: validateJsonStr_def assms(4) js_items_doc [OF assms(1)] check_member_def
        boolset_def allowset_def)
  then show ?thesis
    by (simp add: handle_msg_def assms(2) handle_json_def message_members [OF assms(1)]
        js_get_doc [OF assms(1)] assms(3) load_and_apply_def loadFromJsonStr_def status_defs)
qed

theorem config_as_string_refused_witness:
  "\<exists>js. run_state (handle_msg sample_inst js sample_os ''msg'' default_config) sample_world
      = ((default_config, Inr PARAM_ERROR), sample_world)"
proof -
  let ?js = "wire_js ''msg'' (JObject [(''type'', JInt 1), (''data'', JString ''{}'')]) (JString ''{}'')"
  have "js_parse ?js ''msg'' = Inr (message ?js MSG_TYPE_CONFIG_JSON (JString ''{}''))"
    by (simp add: message_def wire_js_def documented_js_def MSG_TYPE_CONFIG_JSON_def)
  from config_as_string_refused [OF wire_js_documented this, of "''doc''" sample_inst sample_os default_config sample_world]
  show ?thesis by (intro exI [of _ ?js]) simp
qed

end
